(* ===== verification/Prelude.thy ===== *)
theory Prelude
  imports Main "HOL-Library.Word"
begin

text \<open>
  The vocabulary every component of the development shares.

  \<^item> Go's integers at their width: \<open>uint\<close> is a 64-bit word (the platform's
    \<^verbatim>\<open>uint\<close>), so arithmetic on it wraps; \<^verbatim>\<open>int\<close> values that are only stored and
    compared are \<^typ>\<open>int\<close>.
  \<^item> \<^verbatim>\<open>time.Time\<close> and \<^verbatim>\<open>time.Duration\<close> as nanosecond counts (\<^typ>\<open>int\<close>), with the
    saturation of \<^verbatim>\<open>Time.Sub\<close> written out.
  \<^item> \<^verbatim>\<open>gorm.Model\<close> as a record that the other records extend, as the Go structs embed it.
  \<^item> the outcome of code that may panic (index out of range, nil dereference) as
    a datatype, so that a panic is a value of the model and not an unspecified term.
  \<^item> the strings functions of Go's standard library that the source calls, on byte strings.
\<close>

named_theorems access_simps \<open>unfolding rules of the access decisions\<close>
named_theorems handler_simps \<open>unfolding rules of the request and message handlers\<close>
named_theorems go_simps \<open>evaluation rules of the Go standard library functions\<close>

subsection \<open>Integers and time\<close>

type_synonym uint = "64 word"
type_synonym gotime = int
type_synonym duration = int

definition Nanosecond :: duration where [go_simps]: "Nanosecond = 1"
definition Second :: duration where [go_simps]: "Second = 1000000000"
definition Minute :: duration where [go_simps]: "Minute = 60 * 1000000000"
definition Hour :: duration where [go_simps]: "Hour = 60 * 60 * 1000000000"

text \<open>\<^verbatim>\<open>Time.Sub\<close> saturates at the largest and smallest \<^verbatim>\<open>Duration\<close> (signed 64 bit).\<close>

definition time_sub :: "gotime \<Rightarrow> gotime \<Rightarrow> duration" where
  "time_sub a b = max (- (2 ^ 63)) (min (2 ^ 63 - 1) (a - b))"

lemma time_sub_exact: "\<bar>a - b\<bar> < 2 ^ 63 \<Longrightarrow> time_sub a b = a - b"
  by (simp add: time_sub_def)

text \<open>The zero \<^verbatim>\<open>time.Time\<close> is 1 January of year 1, this many nanoseconds before 1970.\<close>

definition zero_time :: gotime where
  "zero_time = - (62135596800 * 1000000000)"

subsection \<open>The embedded gorm model\<close>

record gorm_Model =
  ID :: uint
  CreatedAt :: gotime
  UpdatedAt :: gotime
  DeletedAt :: "gotime option"

subsection \<open>Panics as values\<close>

datatype panic = IndexOutOfRange | NilDereference | BadTypeAssertion | MissingKey

datatype 'a outcome = Returns 'a | Panics panic

fun panics :: "'a outcome \<Rightarrow> bool" where
  "panics (Returns _) = False"
| "panics (Panics _) = True"

fun outcome_bind :: "'a outcome \<Rightarrow> ('a \<Rightarrow> 'b outcome) \<Rightarrow> 'b outcome" where
  "outcome_bind (Returns x) f = f x"
| "outcome_bind (Panics p) f = Panics p"

lemma panics_bind:
  "panics (outcome_bind m f) \<longleftrightarrow> panics m \<or> (\<exists>x. m = Returns x \<and> panics (f x))"
  by (cases m) auto

lemma outcome_bind_Returns_iff:
  "outcome_bind m f = Returns y \<longleftrightarrow> (\<exists>x. m = Returns x \<and> f x = Returns y)"
  by (cases m) auto

lemma outcome_bind_ReturnsE [elim!]:
  assumes "outcome_bind m f = Returns y"
  obtains x where "m = Returns x" and "f x = Returns y"
  using assms by (cases m) auto

lemma not_panics_iff: "\<not> panics m \<longleftrightarrow> (\<exists>x. m = Returns x)"
  by (cases m) auto

lemma not_panicsE:
  assumes "\<not> panics m"
  obtains x where "m = Returns x"
  using assms by (cases m) auto

text \<open>Reading a slice: Go panics outside of the range.\<close>

definition slice_get :: "'a list \<Rightarrow> nat \<Rightarrow> 'a outcome" where
  "slice_get xs i = (if i < length xs then Returns (xs ! i) else Panics IndexOutOfRange)"

lemma slice_get_Returns: "slice_get xs i = Returns x \<longleftrightarrow> i < length xs \<and> x = xs ! i"
  by (auto simp: slice_get_def)

lemma slice_get_simps [simp]:
  "slice_get [] i = Panics IndexOutOfRange"
  "slice_get (x # xs) 0 = Returns x"
  "slice_get (x # xs) (Suc i) = slice_get xs i"
  by (simp_all add: slice_get_def)

subsection \<open>Searching a list: the loop with an early return\<close>

text \<open>
  \<^verbatim>\<open>for _, x := range xs { if p(x) { return f(x) } }\<close> is \<open>List.find\<close>; these are the facts
  about it that the components share.
\<close>

lemma find_None_filter: "List.find P xs = None \<longleftrightarrow> filter P xs = []"
  by (induction xs) auto

lemma find_Some_hd: "List.find P xs = Some x \<longleftrightarrow> (\<exists>ys. filter P xs = x # ys)"
  by (induction xs) auto

lemma find_SomeD: "List.find P xs = Some x \<Longrightarrow> x \<in> set xs \<and> P x"
  by (auto simp: find_Some_iff)

lemma find_append:
  "List.find P (xs @ ys) = (case List.find P xs of Some x \<Rightarrow> Some x | None \<Rightarrow> List.find P ys)"
  by (induction xs) auto

lemma find_in_set_conv:
  "(\<exists>y. List.find P xs = Some y) \<longleftrightarrow> (\<exists>y\<in>set xs. P y)"
  by (metis find_None_iff find_SomeD not_Some_eq)

subsection \<open>Maps\<close>

lemma map_filter_simps [simp]:
  "List.map_filter f [] = []"
  "List.map_filter f (x # xs) =
     (case f x of None \<Rightarrow> List.map_filter f xs | Some y \<Rightarrow> y # List.map_filter f xs)"
  by (simp_all add: List.map_filter_def split: option.splits)

lemma map_filter_cong: "(\<And>x. x \<in> set xs \<Longrightarrow> f x = g x) \<Longrightarrow> List.map_filter f xs = List.map_filter g xs"
  by (induction xs) (auto split: option.splits)

lemma set_map_filter: "set (List.map_filter f xs) = {y. \<exists>x \<in> set xs. f x = Some y}"
  by (induction xs) (auto split: option.splits)

lemma map_restrict_upd_same [simp]: "(m(k \<mapsto> v)) k = Some v"
  by simp

lemma dom_map_upd_None: "dom (m(k := None)) = dom m - {k}"
  by auto

end
