(* ===== verification/Go_Strings.thy ===== *)
theory Go_Strings
  imports Prelude "HOL-Library.Sublist"
begin

text \<open>
  The functions of Go's \<^verbatim>\<open>strings\<close> and \<^verbatim>\<open>strconv\<close> packages that the modelled code
  calls. A Go string is a byte string, here a \<^typ>\<open>string\<close> whose characters are the bytes.
  The facts proved are the ones the components use: splitting loses nothing and its parts are
  free of the separator, trimming is idempotent, printing a number and parsing it back is the
  identity on the range of the type.
\<close>

subsection \<open>Prefixes, suffixes, substrings\<close>

definition has_prefix :: "string \<Rightarrow> string \<Rightarrow> bool" where
  [go_simps]: "has_prefix s p \<longleftrightarrow> take (length p) s = p"

definition has_suffix :: "string \<Rightarrow> string \<Rightarrow> bool" where
  [go_simps]: "has_suffix s p \<longleftrightarrow> length p \<le> length s \<and> drop (length s - length p) s = p"

fun contains :: "string \<Rightarrow> string \<Rightarrow> bool" where
  "contains [] sub = (sub = [])"
| "contains (x # xs) sub = (has_prefix (x # xs) sub \<or> contains xs sub)"

lemma has_prefix_append [simp]: "has_prefix (p @ s) p"
  by (simp add: has_prefix_def)

lemma has_prefix_iff: "has_prefix s p \<longleftrightarrow> (\<exists>t. s = p @ t)"
  by (metis append_eq_conv_conj append_take_drop_id has_prefix_def)

lemma has_suffix_iff: "has_suffix s p \<longleftrightarrow> (\<exists>t. s = t @ p)"
proof
  assume "has_suffix s p"
  then have "drop (length s - length p) s = p" by (simp add: has_suffix_def)
  then show "\<exists>t. s = t @ p" by (metis append_take_drop_id)
qed (auto simp: has_suffix_def)

lemma contains_iff: "contains s sub \<longleftrightarrow> (\<exists>a b. s = a @ sub @ b)"
proof (induction s)
  case Nil
  then show ?case by auto
next
  case (Cons x xs)
  show ?case
  proof
    assume "contains (x # xs) sub"
    then consider "has_prefix (x # xs) sub" | "contains xs sub" by auto
    then show "\<exists>a b. x # xs = a @ sub @ b"
    proof cases
      case 1
      then show ?thesis by (metis append_Nil has_prefix_iff)
    next
      case 2
      with Cons.IH obtain a b where "xs = a @ sub @ b" by auto
      then have "x # xs = (x # a) @ sub @ b" by simp
      then show ?thesis by blast
    qed
  next
    assume "\<exists>a b. x # xs = a @ sub @ b"
    then obtain a b where ab: "x # xs = a @ sub @ b" by blast
    show "contains (x # xs) sub"
    proof (cases a)
      case Nil
      with ab have "has_prefix (x # xs) sub" by (simp add: has_prefix_def)
      then show ?thesis by simp
    next
      case (Cons y ys)
      with ab have "xs = ys @ sub @ b" by simp
      then show ?thesis using Cons.IH by auto
    qed
  qed
qed

subsection \<open>Split\<close>

fun cons_head :: "'a \<Rightarrow> 'a list list \<Rightarrow> 'a list list" where
  "cons_head x [] = [[x]]"
| "cons_head x (p # ps) = (x # p) # ps"

function go_split :: "string \<Rightarrow> string \<Rightarrow> string list" where
  "go_split [] sep = [[]]"
| "go_split (x # xs) sep =
     (if sep \<noteq> [] \<and> has_prefix (x # xs) sep
      then [] # go_split (drop (length sep) (x # xs)) sep
      else cons_head x (go_split xs sep))"
  by pat_completeness auto
termination
  by (relation "measure (\<lambda>(s, sep). length s)") (auto simp: less_Suc_eq_le neq_Nil_conv)

declare go_split.simps(2) [simp del]

lemma cons_head_not_Nil [simp]: "cons_head x ps \<noteq> []"
  by (cases ps) auto

lemma go_split_not_Nil [simp]: "go_split s sep \<noteq> []"
  by (cases s) (auto simp: go_split.simps(2))

fun join :: "string list \<Rightarrow> string \<Rightarrow> string" where
  "join [] sep = []"
| "join [p] sep = p"
| "join (p # q # ps) sep = p @ sep @ join (q # ps) sep"

lemma join_cons_head: "ps \<noteq> [] \<Longrightarrow> join (cons_head x ps) sep = x # join ps sep"
  by (cases ps; cases "tl ps") (auto simp: neq_Nil_conv)

lemma join_Cons: "ps \<noteq> [] \<Longrightarrow> join (p # ps) sep = p @ sep @ join ps sep"
  by (cases ps) auto

lemma join_go_split: "join (go_split s sep) sep = s"
proof (induction s sep rule: go_split.induct)
  case (1 sep)
  then show ?case by simp
next
  case (2 x xs sep)
  then show ?case
    by (auto simp: go_split.simps(2) join_cons_head join_Cons has_prefix_def)
       (metis append_take_drop_id)
qed

lemma go_split_single_sep:
  "go_split (x # xs) [c] = (if x = c then [] # go_split xs [c] else cons_head x (go_split xs [c]))"
  by (auto simp: go_split.simps(2) has_prefix_def)

lemma set_cons_head: "p \<in> set (cons_head x ps) \<Longrightarrow> \<exists>q. (p = x # q \<and> (q \<in> set ps \<or> q = [])) \<or> p \<in> set ps"
  by (cases ps) auto

lemma go_split_parts_no_sep: "p \<in> set (go_split s [c]) \<Longrightarrow> c \<notin> set p"
proof (induction s arbitrary: p)
  case Nil
  then show ?case by simp
next
  case (Cons x xs)
  show ?case
  proof (cases "x = c")
    case True
    with Cons show ?thesis by (auto simp: go_split_single_sep)
  next
    case False
    with Cons.prems have "p \<in> set (cons_head x (go_split xs [c]))"
      by (simp add: go_split_single_sep)
    from set_cons_head [OF this] obtain q where
      "p = x # q \<and> (q \<in> set (go_split xs [c]) \<or> q = []) \<or> p \<in> set (go_split xs [c])" by blast
    with False Cons.IH show ?thesis by auto
  qed
qed

lemma go_split_no_sep: "c \<notin> set s \<Longrightarrow> go_split s [c] = [s]"
  by (induction s) (auto simp: go_split_single_sep)

lemma go_split_append_sep: "c \<notin> set p \<Longrightarrow> go_split (p @ c # s) [c] = p # go_split s [c]"
  by (induction p) (auto simp: go_split_single_sep)

lemma go_split_join:
  assumes "ps \<noteq> []" and "\<And>p. p \<in> set ps \<Longrightarrow> c \<notin> set p"
  shows "go_split (join ps [c]) [c] = ps"
  using assms
proof (induction ps "[c]" rule: join.induct)
  case (3 p q ps)
  then have "go_split (join (q # ps) [c]) [c] = q # ps" by auto
  moreover have "c \<notin> set p" using 3 by auto
  ultimately show ?case by (simp add: go_split_append_sep)
qed (auto simp: go_split_no_sep)

lemma go_split_inj: "go_split s sep = go_split t sep \<Longrightarrow> s = t"
  by (metis join_go_split)

lemma length_go_split: "length (go_split s [c]) = Suc (count_list s c)"
proof (induction s)
  case (Cons x xs)
  then show ?case
    by (cases "go_split xs [c]") (auto simp: go_split_single_sep)
qed simp

subsection \<open>ToLower, TrimSpace\<close>

text \<open>
  \<^verbatim>\<open>strings.ToLower\<close> on the ASCII letters. No character outside of ASCII is lowered to one
  of the letters that the source then looks for (\<^verbatim>\<open>cam\<close>, \<^verbatim>\<open>pres\<close>).
\<close>

definition lower_char :: "char \<Rightarrow> char" where
  "lower_char c = (let n = of_char c :: nat in if 65 \<le> n \<and> n \<le> 90 then char_of (n + 32) else c)"

definition to_lower :: "string \<Rightarrow> string" where
  "to_lower s = map lower_char s"

text \<open>
  \<^verbatim>\<open>unicode.IsSpace\<close> in UTF-8: the ASCII blanks and the byte sequences of U+0085, U+00A0,
  U+1680, U+2000 to U+200A, U+2028, U+2029, U+202F, U+205F and U+3000.
\<close>

definition space_seqs :: "nat list list" where
  "space_seqs =
     [[9], [10], [11], [12], [13], [32], [194, 133], [194, 160], [225, 154, 128]]
     @ map (\<lambda>k. [226, 128, k]) [128, 129, 130, 131, 132, 133, 134, 135, 136, 137, 138]
     @ [[226, 128, 168], [226, 128, 169], [226, 128, 175], [226, 129, 159], [227, 128, 128]]"

definition space_strings :: "string list" where
  "space_strings = map (map char_of) space_seqs"

lemma space_strings_nonempty: "w \<in> set space_strings \<Longrightarrow> w \<noteq> []"
  by (auto simp: space_strings_def space_seqs_def)

definition leading_space :: "string list \<Rightarrow> string \<Rightarrow> string option" where
  "leading_space ws s = List.find (has_prefix s) ws"

text \<open>One blank is dropped at a time; \<open>ws\<close> is \<^const>\<open>space_strings\<close> or its mirror image.\<close>

function trim_left :: "string list \<Rightarrow> string \<Rightarrow> string" where
  "trim_left ws s =
     (case leading_space ws s of
        None \<Rightarrow> s
      | Some w \<Rightarrow> if w = [] then s else trim_left ws (drop (length w) s))"
  by pat_completeness auto
termination
proof (relation "measure (\<lambda>(ws, s). length s)", goal_cases)
  case (2 ws s w)
  then have "has_prefix s w" by (auto simp: leading_space_def dest: find_SomeD)
  with 2 show ?case by (auto simp: has_prefix_iff)
qed simp

declare trim_left.simps [simp del]

definition trim_space :: "string \<Rightarrow> string" where
  "trim_space s =
     rev (trim_left (map rev space_strings) (rev (trim_left space_strings s)))"

lemma trim_left_suffix: "\<exists>p. s = p @ trim_left ws s"
proof (induction ws s rule: trim_left.induct)
  case (1 ws s)
  show ?case
  proof (cases "leading_space ws s")
    case None
    then show ?thesis by (auto simp: trim_left.simps [of ws s])
  next
    case (Some w)
    show ?thesis
    proof (cases "w = []")
      case True
      with Some show ?thesis by (auto simp: trim_left.simps [of ws s])
    next
      case False
      with 1 Some obtain p where p: "drop (length w) s = p @ trim_left ws (drop (length w) s)"
        by auto
      have "s = take (length w) s @ drop (length w) s" by simp
      also have "\<dots> = (take (length w) s @ p) @ trim_left ws (drop (length w) s)"
        using p by simp
      also have "trim_left ws (drop (length w) s) = trim_left ws s"
        using Some False by (simp add: trim_left.simps [of ws s])
      finally show ?thesis by blast
    qed
  qed
qed

lemma length_trim_left: "length (trim_left ws s) \<le> length s"
  using trim_left_suffix [of s ws] by (metis le_add2 length_append)

lemma length_trim_space: "length (trim_space s) \<le> length s"
  unfolding trim_space_def
  by (metis length_rev length_trim_left order.trans)

lemma trim_left_no_blank:
  assumes "\<And>w. w \<in> set ws \<Longrightarrow> w \<noteq> []"
  shows "w \<in> set ws \<Longrightarrow> \<not> has_prefix (trim_left ws s) w"
  using assms
proof (induction ws s rule: trim_left.induct)
  case (1 ws s)
  show ?case
  proof (cases "leading_space ws s")
    case None
    then have "\<forall>w \<in> set ws. \<not> has_prefix s w" by (simp add: leading_space_def find_None_iff)
    with None 1 show ?thesis by (simp add: trim_left.simps [of ws s])
  next
    case (Some v)
    then have "v \<in> set ws" by (auto simp: leading_space_def dest: find_SomeD)
    with 1 have "v \<noteq> []" by auto
    with 1 Some show ?thesis by (simp add: trim_left.simps [of ws s])
  qed
qed

lemma trim_space_no_trailing:
  assumes "w \<in> set space_strings"
  shows "\<not> has_suffix (trim_space s) w"
proof
  assume "has_suffix (trim_space s) w"
  then obtain t where "trim_space s = t @ w" by (auto simp: has_suffix_iff)
  then have "has_prefix (trim_left (map rev space_strings) (rev (trim_left space_strings s))) (rev w)"
    unfolding trim_space_def has_prefix_iff by (metis rev_append rev_rev_ident)
  moreover have "rev w \<in> set (map rev space_strings)" using assms by simp
  ultimately show False
    using trim_left_no_blank [of "map rev space_strings"] space_strings_nonempty
    by (metis (no_types, lifting) imageE list.set_map rev_is_Nil_conv)
qed

subsection \<open>Itoa and Atoi\<close>

definition digit_char :: "nat \<Rightarrow> char" where
  "digit_char d = char_of (48 + d)"

fun nat_digits :: "nat \<Rightarrow> string" where
  "nat_digits n = (if n < 10 then [digit_char n] else nat_digits (n div 10) @ [digit_char (n mod 10)])"

declare nat_digits.simps [simp del]

definition itoa :: "int \<Rightarrow> string" where
  "itoa i = (if i < 0 then CHR ''-'' # nat_digits (nat (- i)) else nat_digits (nat i))"

definition digit_val :: "char \<Rightarrow> nat option" where
  "digit_val c = (let n = of_char c :: nat in if 48 \<le> n \<and> n \<le> 57 then Some (n - 48) else None)"

fun parse_digits :: "nat \<Rightarrow> string \<Rightarrow> nat option" where
  "parse_digits acc [] = Some acc"
| "parse_digits acc (c # cs) =
     (case digit_val c of None \<Rightarrow> None | Some d \<Rightarrow> parse_digits (10 * acc + d) cs)"

text \<open>\<^verbatim>\<open>strconv.ParseInt(s, 10, bits)\<close>; \<^verbatim>\<open>Atoi\<close> is the 64-bit case. None is the error.\<close>

definition parse_int :: "nat \<Rightarrow> string \<Rightarrow> int option" where
  "parse_int bits s =
     (let neg = (s \<noteq> [] \<and> hd s = CHR ''-'');
          body = (if s \<noteq> [] \<and> (hd s = CHR ''-'' \<or> hd s = CHR ''+'') then tl s else s)
      in if body = [] then None
         else case parse_digits 0 body of
                None \<Rightarrow> None
              | Some n \<Rightarrow>
                  (let i = (if neg then - int n else int n)
                   in if - (2 ^ (bits - 1)) \<le> i \<and> i < 2 ^ (bits - 1) then Some i else None))"

definition atoi :: "string \<Rightarrow> int option" where
  "atoi s = parse_int 64 s"

lemma digit_val_digit_char: "d < 10 \<Longrightarrow> digit_val (digit_char d) = Some d"
  by (simp add: digit_val_def digit_char_def Let_def)

lemma parse_digits_append:
  "parse_digits acc (xs @ ys) = Option.bind (parse_digits acc xs) (\<lambda>a. parse_digits a ys)"
  by (induction xs arbitrary: acc) (auto split: option.splits)

lemma parse_nat_digits: "parse_digits 0 (nat_digits n) = Some n"
proof (induction n rule: nat_digits.induct)
  case (1 n)
  show ?case
  proof (cases "n < 10")
    case True
    then show ?thesis by (simp add: nat_digits.simps [of n] digit_val_digit_char)
  next
    case False
    with 1 have "parse_digits 0 (nat_digits (n div 10)) = Some (n div 10)" by simp
    with False show ?thesis
      by (simp add: nat_digits.simps [of n] parse_digits_append digit_val_digit_char)
  qed
qed

lemma nat_digits_set: "c \<in> set (nat_digits n) \<Longrightarrow> \<exists>d<10. c = digit_char d"
proof (induction n rule: nat_digits.induct)
  case (1 n)
  then show ?case
    by (subst (asm) nat_digits.simps) (force split: if_splits)
qed

lemma nat_digits_not_Nil [simp]: "nat_digits n \<noteq> []"
  by (simp add: nat_digits.simps [of n])

lemma digit_char_no_sign: "d < 10 \<Longrightarrow> digit_char d \<noteq> CHR ''-'' \<and> digit_char d \<noteq> CHR ''+''"
  by (auto simp: digit_char_def dest!: arg_cong [of _ _ "of_char :: char \<Rightarrow> nat"])

lemma parse_int_itoa:
  assumes "- (2 ^ (bits - 1)) \<le> i" and "i < 2 ^ (bits - 1)"
  shows "parse_int bits (itoa i) = Some i"
proof (cases "i < 0")
  case True
  with assms show ?thesis
    by (simp add: parse_int_def itoa_def parse_nat_digits)
next
  case False
  have "hd (nat_digits (nat i)) \<in> set (nat_digits (nat i))" by simp
  then have "hd (nat_digits (nat i)) \<noteq> CHR ''-'' \<and> hd (nat_digits (nat i)) \<noteq> CHR ''+''"
    by (metis nat_digits_set digit_char_no_sign)
  with False assms show ?thesis
    by (simp add: parse_int_def itoa_def parse_nat_digits Let_def)
qed

lemma itoa_inj: "itoa i = itoa j \<Longrightarrow> i = j"
proof -
  assume eq: "itoa i = itoa j"
  define n where "n = nat \<bar>i\<bar> + nat \<bar>j\<bar>"
  have "int n < int (2 ^ n)" by (simp only: of_nat_less_iff less_exp)
  then have big: "int n < 2 ^ n" by simp
  have "parse_int (Suc n) (itoa k) = Some k" if "\<bar>k\<bar> \<le> int n" for k
  proof (rule parse_int_itoa)
    have "\<bar>k\<bar> < 2 ^ n" using that big by linarith
    then show "- (2 ^ (Suc n - 1)) \<le> k" and "k < 2 ^ (Suc n - 1)"
      unfolding diff_Suc_1 by linarith+
  qed
  from this [of i] this [of j] eq show ?thesis by (simp add: n_def)
qed

end
