(* ===== verification/Json.thy ===== *)
theory Json
  imports Complex_Main Go_Strings
begin

text \<open>
  \<^verbatim>\<open>encoding/json\<close> as the source uses it. JSON text is represented by the value it denotes
  (\<open>json option\<close>, None for bytes that are not valid JSON), so \<^verbatim>\<open>Marshal\<close> builds a value and
  \<^verbatim>\<open>Unmarshal\<close> reads one into a struct. The rules of \<^verbatim>\<open>Unmarshal\<close> that matter to the callers
  are kept: members are matched to fields by name, exactly or up to ASCII case; unknown members
  are skipped; \<^verbatim>\<open>null\<close> leaves a field as it is; a later duplicate wins; a value of the wrong
  kind or out of the field's range is an error (None), and so is a document that is not JSON.
\<close>

datatype json =
    JNull
  | JBool bool
  | JInt int
  | JFloat rat
  | JStr string
  | JArr "json list"
  | JObj "(string \<times> json) list"

type_synonym json_text = "json option"

subsection \<open>Decoding one field: from the old value to the new one, or an error\<close>

fun dec_bool :: "json \<Rightarrow> bool \<Rightarrow> bool option" where
  "dec_bool JNull old = Some old"
| "dec_bool (JBool b) old = Some b"
| "dec_bool _ old = None"

fun dec_string :: "json \<Rightarrow> string \<Rightarrow> string option" where
  "dec_string JNull old = Some old"
| "dec_string (JStr s) old = Some s"
| "dec_string _ old = None"

fun dec_uint :: "json \<Rightarrow> uint \<Rightarrow> uint option" where
  "dec_uint JNull old = Some old"
| "dec_uint (JInt i) old = (if 0 \<le> i \<and> i < 2 ^ 64 then Some (word_of_int i) else None)"
| "dec_uint _ old = None"

fun dec_int :: "json \<Rightarrow> int \<Rightarrow> int option" where
  "dec_int JNull old = Some old"
| "dec_int (JInt i) old = (if - (2 ^ 63) \<le> i \<and> i < 2 ^ 63 then Some i else None)"
| "dec_int _ old = None"

fun dec_float :: "json \<Rightarrow> rat \<Rightarrow> rat option" where
  "dec_float JNull old = Some old"
| "dec_float (JInt i) old = Some (of_int i)"
| "dec_float (JFloat r) old = Some r"
| "dec_float _ old = None"

fun dec_all :: "('b \<Rightarrow> 'a option) \<Rightarrow> 'b list \<Rightarrow> 'a list option" where
  "dec_all f [] = Some []"
| "dec_all f (x # xs) = Option.bind (f x) (\<lambda>y. map_option (Cons y) (dec_all f xs))"

fun dec_list :: "(json \<Rightarrow> 'a \<Rightarrow> 'a option) \<Rightarrow> 'a \<Rightarrow> json \<Rightarrow> 'a list \<Rightarrow> 'a list option" where
  "dec_list f zero JNull old = Some []"
| "dec_list f zero (JArr js) old = dec_all (\<lambda>j. f j zero) js"
| "dec_list f zero _ old = None"

subsection \<open>Decoding a struct\<close>

text \<open>A struct is described by its fields: the JSON name and the decoder into the record.\<close>

type_synonym 'r fields = "(string \<times> (json \<Rightarrow> 'r \<Rightarrow> 'r option)) list"

definition eq_fold :: "string \<Rightarrow> string \<Rightarrow> bool" where
  "eq_fold a b \<longleftrightarrow> to_lower a = to_lower b"

definition find_field :: "'r fields \<Rightarrow> string \<Rightarrow> (json \<Rightarrow> 'r \<Rightarrow> 'r option) option" where
  "find_field fs k =
     (case List.find (\<lambda>(n, d). n = k) fs of
        Some (n, d) \<Rightarrow> Some d
      | None \<Rightarrow> map_option snd (List.find (\<lambda>(n, d). eq_fold n k) fs))"

fun dec_members :: "'r fields \<Rightarrow> (string \<times> json) list \<Rightarrow> 'r \<Rightarrow> 'r option" where
  "dec_members fs [] r = Some r"
| "dec_members fs ((k, v) # ms) r =
     (case find_field fs k of
        None \<Rightarrow> dec_members fs ms r
      | Some d \<Rightarrow> Option.bind (d v r) (dec_members fs ms))"

fun dec_struct :: "'r fields \<Rightarrow> json \<Rightarrow> 'r \<Rightarrow> 'r option" where
  "dec_struct fs JNull r = Some r"
| "dec_struct fs (JObj ms) r = dec_members fs ms r"
| "dec_struct fs _ r = None"

definition unmarshal :: "(json \<Rightarrow> 'a \<Rightarrow> 'a option) \<Rightarrow> json_text \<Rightarrow> 'a \<Rightarrow> 'a option" where
  "unmarshal d t zero = Option.bind t (\<lambda>j. d j zero)"

lemma unmarshal_None [simp]: "unmarshal d None zero = None"
  by (simp add: unmarshal_def)

lemma unmarshal_Some [simp]: "unmarshal d (Some j) zero = d j zero"
  by (simp add: unmarshal_def)

text \<open>Encoding a list element by element and decoding it again.\<close>

lemma dec_all_map:
  "(\<And>x. x \<in> set xs \<Longrightarrow> f (g x) = Some x) \<Longrightarrow> dec_all f (map g xs) = Some xs"
  by (induction xs) auto

lemma dec_all_length: "dec_all f xs = Some ys \<Longrightarrow> length ys = length xs"
  by (induction xs arbitrary: ys) (auto simp: bind_eq_Some_conv)

lemma uint_json_range: "0 \<le> Word.uint w \<and> Word.uint (w :: 64 word) < 2 ^ 64"
  using uint_lt2p [of w] by simp

lemma dec_uint_uint [simp]: "dec_uint (JInt (Word.uint w)) old = Some w"
  using uint_json_range [of w] by simp

end
