(* ===== verification/Model_Types.thy ===== *)
theory Model_Types
  imports Json
begin

text \<open>
  The small structs of \<^verbatim>\<open>src/model\<close>: semesters and their order, files and their
  derived names, lecture halls, silences and the other rows that hang off a stream. Every
  struct with an embedded \<^verbatim>\<open>gorm.Model\<close> extends \<open>gorm_Model\<close>. An association that would
  make the types cyclic (a stream's chats, a hall's streams) is kept as the list of primary keys.
  The lemmas show that \<open>IsGreaterEqualThan\<close> is the order of the terms on a calendar axis and
  \<open>IsBetweenSemesters\<close> an interval of it, and what the file helpers return.
\<close>

subsection \<open>Semesters (model/semester.go)\<close>

record Semester =
  TeachingTerm :: string
  Year :: int

definition IsEqual :: "Semester \<Rightarrow> Semester \<Rightarrow> bool" where
  "IsEqual s otherSemester \<longleftrightarrow>
     Year s = Year otherSemester \<and> TeachingTerm s = TeachingTerm otherSemester"

definition IsInRangeOfSemesters :: "Semester \<Rightarrow> Semester list \<Rightarrow> bool" where
  "IsInRangeOfSemesters s semesters \<longleftrightarrow>
     (\<exists>semester \<in> set semesters.
        Year s = Year semester \<and> TeachingTerm s = TeachingTerm semester)"

definition IsGreaterEqualThan :: "Semester \<Rightarrow> Semester \<Rightarrow> bool" where
  "IsGreaterEqualThan s s1 \<longleftrightarrow>
     Year s > Year s1 \<or>
     (Year s = Year s1 \<and> (TeachingTerm s = ''W'' \<or> TeachingTerm s1 = ''S''))"

definition IsBetweenSemesters :: "Semester \<Rightarrow> Semester \<Rightarrow> Semester \<Rightarrow> bool" where
  "IsBetweenSemesters s firstSemester lastSemester \<longleftrightarrow>
     (if Year firstSemester = Year lastSemester \<and>
         TeachingTerm firstSemester = TeachingTerm lastSemester
      then Year s = Year firstSemester \<and> TeachingTerm s = TeachingTerm firstSemester
      else IsGreaterEqualThan s firstSemester \<and> IsGreaterEqualThan lastSemester s)"

text \<open>The abstract view: a semester is a half year, counted on one axis.\<close>

definition valid_semester :: "Semester \<Rightarrow> bool" where
  "valid_semester s \<longleftrightarrow> TeachingTerm s = ''S'' \<or> TeachingTerm s = ''W''"

definition half_year :: "Semester \<Rightarrow> int" where
  "half_year s = 2 * Year s + (if TeachingTerm s = ''W'' then 1 else 0)"

lemma IsGreaterEqualThan_half_year:
  "valid_semester s \<Longrightarrow> valid_semester t \<Longrightarrow> IsGreaterEqualThan s t \<longleftrightarrow> half_year t \<le> half_year s"
  by (auto simp: valid_semester_def IsGreaterEqualThan_def half_year_def)

lemma half_year_inj:
  "valid_semester s \<Longrightarrow> valid_semester t \<Longrightarrow> half_year s = half_year t \<longleftrightarrow> IsEqual s t"
  by (auto simp: valid_semester_def half_year_def IsEqual_def split: if_splits) presburger+

lemma IsEqual_eq [simp]: "IsEqual s t \<longleftrightarrow> s = (t :: Semester)"
  by (cases s; cases t) (auto simp: IsEqual_def)

lemma IsInRangeOfSemesters_iff: "IsInRangeOfSemesters s ss \<longleftrightarrow> (s :: Semester) \<in> set ss"
  unfolding IsInRangeOfSemesters_def
  using IsEqual_eq [unfolded IsEqual_def] by metis

text \<open>
  The contract a chronological order offers, and what follows for intervals; it is
  interpreted on the half-year axis that \<open>IsGreaterEqualThan\<close> decides.
\<close>

locale chronology =
  fixes key :: "'s \<Rightarrow> int"
    and valid :: "'s \<Rightarrow> bool"
    and ge :: "'s \<Rightarrow> 's \<Rightarrow> bool"
  assumes ge_key: "valid s \<Longrightarrow> valid t \<Longrightarrow> ge s t \<longleftrightarrow> key t \<le> key s"
begin

lemma ge_refl: "valid s \<Longrightarrow> ge s s"
  by (simp add: ge_key)

lemma ge_trans: "valid r \<Longrightarrow> valid s \<Longrightarrow> valid t \<Longrightarrow> ge r s \<Longrightarrow> ge s t \<Longrightarrow> ge r t"
  by (simp add: ge_key)

lemma ge_total: "valid s \<Longrightarrow> valid t \<Longrightarrow> ge s t \<or> ge t s"
  by (auto simp: ge_key)

lemma ge_between:
  "valid s \<Longrightarrow> valid a \<Longrightarrow> valid b \<Longrightarrow> (ge s a \<and> ge b s) \<longleftrightarrow> key s \<in> {key a..key b}"
  by (auto simp: ge_key)

end

interpretation semesters: chronology half_year valid_semester IsGreaterEqualThan
  by unfold_locales (rule IsGreaterEqualThan_half_year)

subsection \<open>Files (model/file.go)\<close>

type_synonym FileType = uint

definition FILETYPE_INVALID :: FileType where "FILETYPE_INVALID = 0"
definition FILETYPE_VOD :: FileType where "FILETYPE_VOD = 1"
definition FILETYPE_ATTACHMENT :: FileType where "FILETYPE_ATTACHMENT = 2"
definition FILETYPE_IMAGE_JPG :: FileType where "FILETYPE_IMAGE_JPG = 3"
definition FILETYPE_THUMB_COMB :: FileType where "FILETYPE_THUMB_COMB = 4"
definition FILETYPE_THUMB_CAM :: FileType where "FILETYPE_THUMB_CAM = 5"
definition FILETYPE_THUMB_PRES :: FileType where "FILETYPE_THUMB_PRES = 6"
definition FILETYPE_THUMB_LG_COMB :: FileType where "FILETYPE_THUMB_LG_COMB = 7"
definition FILETYPE_THUMB_LG_CAM :: FileType where "FILETYPE_THUMB_LG_CAM = 8"
definition FILETYPE_THUMB_LG_PRES :: FileType where "FILETYPE_THUMB_LG_PRES = 9"
definition FILETYPE_THUMB_LG_CAM_PRES :: FileType where "FILETYPE_THUMB_LG_CAM_PRES = 10"
definition FILETYPE_THUMB_CUSTOM :: FileType where "FILETYPE_THUMB_CUSTOM = 11"

lemmas filetype_defs =
  FILETYPE_INVALID_def FILETYPE_VOD_def FILETYPE_ATTACHMENT_def FILETYPE_IMAGE_JPG_def
  FILETYPE_THUMB_COMB_def FILETYPE_THUMB_CAM_def FILETYPE_THUMB_PRES_def
  FILETYPE_THUMB_LG_COMB_def FILETYPE_THUMB_LG_CAM_def FILETYPE_THUMB_LG_PRES_def
  FILETYPE_THUMB_LG_CAM_PRES_def FILETYPE_THUMB_CUSTOM_def

record File = gorm_Model +
  file_StreamID :: uint
  Path :: string
  Filename :: string
  file_Type :: FileType
  CourseName :: string

definition GetDownloadFileName :: "File \<Rightarrow> string" where
  "GetDownloadFileName f =
     (let pts = go_split (Path f) ''/'' in
      if length pts = 0 then [] else pts ! (length pts - 1))"

definition GetFriendlyFileName :: "File \<Rightarrow> string" where
  "GetFriendlyFileName f =
     (let fn = GetDownloadFileName f in
      if contains (to_lower fn) ''cam'' then ''Camera-view''
      else if contains (to_lower fn) ''pres'' then ''Presentation''
      else if Filename f \<noteq> [] then Filename f
      else ''Default view'')"

definition GetVodTypeByName :: "File \<Rightarrow> string" where
  "GetVodTypeByName f =
     (if has_suffix (Path f) ''CAM.mp4'' then ''CAM''
      else if has_suffix (Path f) ''PRES.mp4'' then ''PRES''
      else ''COMB'')"

definition IsThumb :: "File \<Rightarrow> bool" where
  "IsThumb f \<longleftrightarrow>
     file_Type f = FILETYPE_THUMB_CAM \<or> file_Type f = FILETYPE_THUMB_PRES \<or>
     file_Type f = FILETYPE_THUMB_COMB \<or> file_Type f = FILETYPE_THUMB_CUSTOM"

text \<open>
  \<^verbatim>\<open>url.Parse\<close> reads the scheme up to the first colon, and only letters, digits and
  \<^verbatim>\<open>+ - .\<close> can occur in it; a string that starts with a colon is an error (None). Whether the
  rest of the URL is well formed is left to the argument \<open>rest_ok\<close>.
\<close>

definition ascii_letter :: "char \<Rightarrow> bool" where
  "ascii_letter c = (let n = of_char c :: nat in 65 \<le> n \<and> n \<le> 90 \<or> 97 \<le> n \<and> n \<le> 122)"

definition scheme_extra :: "char \<Rightarrow> bool" where
  "scheme_extra c = (let n = of_char c :: nat in
     48 \<le> n \<and> n \<le> 57 \<or> c = CHR ''+'' \<or> c = CHR ''-'' \<or> c = CHR ''.'')"

fun get_scheme :: "string \<Rightarrow> string \<Rightarrow> string option" where
  "get_scheme acc [] = Some []"
| "get_scheme acc (c # cs) =
     (if ascii_letter c then get_scheme (acc @ [c]) cs
      else if scheme_extra c then (if acc = [] then Some [] else get_scheme (acc @ [c]) cs)
      else if c = CHR '':'' then (if acc = [] then None else Some acc)
      else Some [])"

definition IsURL :: "(string \<Rightarrow> bool) \<Rightarrow> File \<Rightarrow> bool" where
  "IsURL rest_ok f =
     (case get_scheme [] (Path f) of
        None \<Rightarrow> False
      | Some scheme \<Rightarrow>
          rest_ok (Path f) \<and> (to_lower scheme = ''https://'' \<or> to_lower scheme = ''http://''))"

text \<open>A scheme holds no slash, so no parsed scheme equals \<^verbatim>\<open>https://\<close>.\<close>

lemma get_scheme_chars:
  "get_scheme acc s = Some sch \<Longrightarrow> c \<in> set sch \<Longrightarrow> c \<in> set acc \<or> ascii_letter c \<or> scheme_extra c"
  by (induction acc s arbitrary: sch rule: get_scheme.induct) (auto split: if_splits)

lemma lower_char_slash: "ascii_letter c \<or> scheme_extra c \<Longrightarrow> lower_char c \<noteq> CHR ''/''"
proof
  assume c: "ascii_letter c \<or> scheme_extra c" and eq: "lower_char c = CHR ''/''"
  show False
  proof (cases "65 \<le> (of_char c :: nat) \<and> (of_char c :: nat) \<le> 90")
    case True
    with eq have "char_of ((of_char c :: nat) + 32) = CHR ''/''"
      by (simp add: lower_char_def Let_def)
    then have "(of_char (char_of ((of_char c :: nat) + 32)) :: nat) = of_char (CHR ''/'')" by simp
    with True show False by simp
  next
    case False
    with eq have "c = CHR ''/''" by (auto simp: lower_char_def Let_def)
    with c show False by (simp add: ascii_letter_def scheme_extra_def)
  qed
qed

lemma scheme_no_slash:
  assumes "get_scheme [] s = Some sch"
  shows "CHR ''/'' \<notin> set (to_lower sch)"
proof
  assume "CHR ''/'' \<in> set (to_lower sch)"
  then obtain c where c: "c \<in> set sch" "lower_char c = CHR ''/''"
    by (auto simp: to_lower_def)
  from get_scheme_chars [OF assms c(1)] have "ascii_letter c \<or> scheme_extra c" by simp
  then show False using c(2) lower_char_slash by blast
qed

lemma GetDownloadFileName_last: "GetDownloadFileName f = last (go_split (Path f) ''/'')"
  by (simp add: GetDownloadFileName_def last_conv_nth Let_def)

lemma GetDownloadFileName_no_slash: "CHR ''/'' \<notin> set (GetDownloadFileName f)"
  unfolding GetDownloadFileName_last
  by (rule go_split_parts_no_sep [of _ "Path f"]) simp

subsection \<open>Rows that belong to a stream\<close>

record Silence = gorm_Model +
  silence_Start :: uint
  silence_End :: uint
  silence_StreamID :: uint

record VideoSection = gorm_Model +
  section_Description :: string
  StartHours :: uint
  StartMinutes :: uint
  StartSeconds :: uint
  section_StreamID :: uint
  section_FileID :: uint

type_synonym StreamVersion = string

definition COMB :: StreamVersion where "COMB = ''COMB''"
definition CAM :: StreamVersion where "CAM = ''CAM''"
definition PRES :: StreamVersion where "PRES = ''PRES''"

lemmas version_defs = COMB_def CAM_def PRES_def

record TranscodingProgress =
  tp_StreamID :: uint
  tp_Version :: StreamVersion
  tp_Progress :: int

record StreamProgress =
  prog_Progress :: rat
  prog_Watched :: bool
  prog_StreamID :: uint
  prog_UserID :: uint

record Stat = gorm_Model +
  stat_Time :: gotime
  stat_StreamID :: uint
  stat_Viewers :: uint
  stat_Live :: bool

record StreamUnit = gorm_Model +
  UnitName :: string
  UnitDescription :: string
  UnitStart :: uint
  UnitEnd :: uint
  unit_StreamID :: uint

definition GetUnitDurationMS :: "StreamUnit \<Rightarrow> uint" where
  "GetUnitDurationMS s = UnitEnd s - UnitStart s"

text \<open>
  \<^verbatim>\<open>GetRoundedUnitLen\<close>: the hours, minutes and seconds it prints, before formatting; the first
  constructor is the branch with hours.
\<close>

datatype unit_len = HoursMinutes uint uint | MinutesSeconds uint uint

definition GetRoundedUnitLen :: "StreamUnit \<Rightarrow> unit_len" where
  "GetRoundedUnitLen s =
     (let lenS = (UnitEnd s - UnitStart s) div 1000;
          lenM = lenS div 60;
          lenH = lenM div 60;
          lenM = lenM mod 60;
          lenS = lenS mod 60
      in if lenH > 0 then HoursMinutes lenH lenM else MinutesSeconds lenM lenS)"

subsection \<open>Lecture halls, presets, runners, workers\<close>

record CameraPreset =
  preset_Name :: string
  PresetID :: int
  Image :: string
  preset_LectureHallID :: uint
  IsDefault :: bool

definition RTSP :: uint where "RTSP = 1"
definition SRT :: uint where "SRT = 2"
definition Axis :: uint where "Axis = 1"
definition Panasonic :: uint where "Panasonic = 2"
definition Sony_SRG_A40 :: uint where "Sony_SRG_A40 = 3"

record LectureHall = gorm_Model +
  lh_Name :: string
  FullName :: string
  StreamProtocol :: uint
  CombIP :: string
  PresIP :: string
  CamIP :: string
  CameraIP :: string
  CameraType :: uint
  lh_Streams :: "uint list"
  CameraPresets :: "CameraPreset list"
  RoomID :: int
  PwrCtrlIp :: string
  ExternalURL :: string
  Legacy :: bool

definition NumSources :: "LectureHall \<Rightarrow> int" where
  "NumSources l =
     (let num = 0;
          num = (if CombIP l \<noteq> [] then num + 1 else num);
          num = (if PresIP l \<noteq> [] then num + 1 else num);
          num = (if CamIP l \<noteq> [] then num + 1 else num)
      in num)"

record Runner =
  Hostname :: string
  Port :: "32 word"
  runner_LastSeen :: gotime
  TimeOfRegister :: gotime
  Draining :: bool
  JobCount :: uint
  runner_Version :: string

definition Alive :: "gotime \<Rightarrow> Runner \<Rightarrow> bool" where
  "Alive now r \<longleftrightarrow> runner_LastSeen r + 5 * Second > now"

record Worker =
  WorkerID :: string
  Host :: string
  Status :: string
  Workload :: uint
  worker_LastSeen :: gotime
  CPU :: string
  Memory :: string
  Disk :: string
  Uptime :: string
  worker_Version :: string

definition IsAlive :: "gotime \<Rightarrow> Worker \<Rightarrow> bool" where
  "IsAlive now w \<longleftrightarrow> worker_LastSeen w > now + Minute * (- 6)"

record ServerNotification = gorm_Model +
  sn_Text :: string
  Warn :: bool
  sn_Start :: gotime
  Expires :: gotime

definition ServerNotification_BeforeCreate :: "ServerNotification \<Rightarrow> string option" where
  "ServerNotification_BeforeCreate s =
     (if Expires s < sn_Start s
      then Some ''can't save notification where expires is before start'' else None)"

subsection \<open>Audit types (model/audit.go)\<close>

definition audit_names :: "string list" where
  "audit_names =
     [''Info'', ''Warning'', ''Error'', ''Course Created'', ''Course Edited'', ''Course Deleted'',
      ''Stream Created'', ''Stream Edited'', ''Stream Deleted'', ''Camera Moved'']"

text \<open>\<^verbatim>\<open>[]string{...}[t-1]\<close>: the index is unsigned, so \<open>t = 0\<close> wraps and panics.\<close>

definition AuditType_String :: "uint \<Rightarrow> string outcome" where
  "AuditType_String t = slice_get audit_names (unat (t - 1))"

definition GetAllAuditTypes :: "uint list" where
  "GetAllAuditTypes = [1, 2, 3, 4, 5, 6, 7, 8, 9, 10]"

lemma AuditType_String_ok:
  "t \<in> set GetAllAuditTypes \<Longrightarrow> \<not> panics (AuditType_String t)"
  by (auto simp: GetAllAuditTypes_def AuditType_String_def audit_names_def slice_get_def)

end
