(* ===== verification/Model_Stream.thy ===== *)
theory Model_Stream
  imports Model_Types
begin

text \<open>
  \<^verbatim>\<open>src/model/stream.go\<close>: the stream row and the functions that derive its status, its
  thumbnails, its downloads and its DTO. \<open>now\<close> is the reading of \<^verbatim>\<open>time.Now()\<close>, one for a whole
  call. The lemmas show that the status predicates partition the streams (\<open>stream_phase\<close>) and
  how the phase moves with the clock.
\<close>

text \<open>\<^verbatim>\<open>sql.NullInt32\<close>: a value that is not \<open>Valid\<close> is stored as NULL, whatever its number.\<close>

record NullInt32 =
  Int32 :: "32 word"
  Valid :: bool

record Stream = gorm_Model +
  stream_Name :: string
  Description :: string
  CourseID :: uint
  Start :: gotime
  End :: gotime
  stream_ChatEnabled :: bool
  CustomThumbnailEnabled :: bool
  RoomName :: string
  RoomCode :: string
  EventTypeName :: string
  TUMOnlineEventID :: uint
  SeriesIdentifier :: string
  StreamKey :: string
  PlaylistUrl :: string
  PlaylistUrlPRES :: string
  PlaylistUrlCAM :: string
  LiveNow :: bool
  LiveNowTimestamp :: gotime
  Recording :: bool
  Premiere :: bool
  Ended :: bool
  Chats :: "uint list"
  Stats :: "Stat list"
  Units :: "StreamUnit list"
  VodViews :: uint
  StartOffset :: uint
  EndOffset :: uint
  LectureHallID :: uint
  Silences :: "Silence list"
  Files :: "File list"
  ThumbInterval :: "32 word"
  StreamName :: string
  Duration :: NullInt32
  StreamWorkers :: "Worker list"
  StreamProgresses :: "StreamProgress list"
  VideoSections :: "VideoSection list"
  TranscodingProgresses :: "TranscodingProgress list"
  Private :: bool
  Watched :: bool

definition zero_Stream :: Stream where
  "zero_Stream =
     \<lparr>ID = 0, CreatedAt = zero_time, UpdatedAt = zero_time, DeletedAt = None,
      stream_Name = [], Description = [], CourseID = 0, Start = zero_time, End = zero_time,
      stream_ChatEnabled = False, CustomThumbnailEnabled = False, RoomName = [], RoomCode = [],
      EventTypeName = [], TUMOnlineEventID = 0, SeriesIdentifier = [], StreamKey = [],
      PlaylistUrl = [], PlaylistUrlPRES = [], PlaylistUrlCAM = [], LiveNow = False,
      LiveNowTimestamp = zero_time, Recording = False, Premiere = False, Ended = False,
      Chats = [], Stats = [], Units = [], VodViews = 0, StartOffset = 0, EndOffset = 0,
      LectureHallID = 0, Silences = [], Files = [], ThumbInterval = 0, StreamName = [],
      Duration = \<lparr>Int32 = 0, Valid = False\<rparr>, StreamWorkers = [], StreamProgresses = [], VideoSections = [],
      TranscodingProgresses = [], Private = False, Watched = False\<rparr>"

subsection \<open>Downloads and thumbnails\<close>

record DownloadableVod =
  FriendlyName :: string
  DownloadURL :: string

definition GetVodFiles :: "Stream \<Rightarrow> DownloadableVod list" where
  "GetVodFiles s =
     (if PlaylistUrl s \<noteq> []
      then [\<lparr>FriendlyName = ''Combined'', DownloadURL = PlaylistUrl s @ ''&download=1''\<rparr>] else []) @
     (if PlaylistUrlCAM s \<noteq> []
      then [\<lparr>FriendlyName = ''Camera'', DownloadURL = PlaylistUrlCAM s @ ''&download=1''\<rparr>] else []) @
     (if PlaylistUrlPRES s \<noteq> []
      then [\<lparr>FriendlyName = ''Presentation'', DownloadURL = PlaylistUrlPRES s @ ''&download=1''\<rparr>]
      else [])"

definition lg_thumb_step :: "(string \<rightharpoonup> string) \<Rightarrow> File \<Rightarrow> (string \<rightharpoonup> string)" where
  "lg_thumb_step thumbs file =
     (let thumbs = (if file_Type file = FILETYPE_THUMB_LG_CAM_PRES
                    then thumbs(''CAM_PRES'' \<mapsto> Path file) else thumbs);
          thumbs = (if file_Type file = FILETYPE_THUMB_LG_COMB
                    then thumbs(''COMB'' \<mapsto> Path file) else thumbs);
          thumbs = (if file_Type file = FILETYPE_THUMB_LG_CAM
                    then thumbs(''CAM'' \<mapsto> Path file) else thumbs);
          thumbs = (if file_Type file = FILETYPE_THUMB_LG_PRES
                    then thumbs(''PRES'' \<mapsto> Path file) else thumbs)
      in thumbs)"

definition GetLGThumbnail :: "Stream \<Rightarrow> string option" where
  "GetLGThumbnail s =
     (let thumbs = foldl lg_thumb_step Map.empty (Files s) in
      case thumbs ''CAM_PRES'' of Some val \<Rightarrow> Some val | None \<Rightarrow>
      case thumbs ''COMB'' of Some val \<Rightarrow> Some val | None \<Rightarrow>
      case thumbs ''CAM'' of Some val \<Rightarrow> Some val | None \<Rightarrow>
      case thumbs ''PRES'' of Some val \<Rightarrow> Some val | None \<Rightarrow> None)"

type_synonym VideoType = string

definition VideoType_Valid :: "VideoType \<Rightarrow> bool" where
  "VideoType_Valid v \<longleftrightarrow> v = ''COMB'' \<or> v = ''PRES'' \<or> v = ''CAM''"

definition lg_mapping :: "VideoType \<rightharpoonup> FileType" where
  "lg_mapping = [''PRES'' \<mapsto> FILETYPE_THUMB_LG_PRES, ''CAM'' \<mapsto> FILETYPE_THUMB_LG_CAM,
                 ''COMB'' \<mapsto> FILETYPE_THUMB_LG_COMB]"

text \<open>A missing key of a Go map reads as the zero value, here \<^const>\<open>FILETYPE_INVALID\<close>.\<close>

definition GetLGThumbnailForVideoType :: "Stream \<Rightarrow> VideoType \<Rightarrow> string option" where
  "GetLGThumbnailForVideoType s videoType =
     (let fileType = (case lg_mapping videoType of None \<Rightarrow> 0 | Some t \<Rightarrow> t) in
      map_option Path (List.find (\<lambda>file. file_Type file = fileType) (Files s)))"

definition GetThumbIdForSource :: "Stream \<Rightarrow> string \<Rightarrow> uint" where
  "GetThumbIdForSource s source =
     (let fileType = (if source = ''CAM'' then FILETYPE_THUMB_CAM
                      else if source = ''PRES'' then FILETYPE_THUMB_PRES
                      else FILETYPE_THUMB_COMB) in
      case List.find (\<lambda>file. file_Type file = fileType) (Files s) of
        Some file \<Rightarrow> ID file
      | None \<Rightarrow> FILETYPE_INVALID)"

definition Attachments :: "Stream \<Rightarrow> File list" where
  "Attachments s = filter (\<lambda>f. file_Type f = FILETYPE_ATTACHMENT) (Files s)"

subsection \<open>Status\<close>

definition GetStartInSeconds :: "gotime \<Rightarrow> Stream \<Rightarrow> int" where
  "GetStartInSeconds now s =
     (if LiveNow s \<or> Recording s then 0
      else let d = time_sub (Start s) now in sgn d * (\<bar>d\<bar> div Second))"

definition IsConverting :: "Stream \<Rightarrow> bool" where
  "IsConverting s \<longleftrightarrow> length (TranscodingProgresses s) > 0"

definition IsDownloadable :: "Stream \<Rightarrow> bool" where
  "IsDownloadable s \<longleftrightarrow>
     Recording s \<and> (PlaylistUrl s \<noteq> [] \<or> PlaylistUrlPRES s \<noteq> [] \<or> PlaylistUrlCAM s \<noteq> [])"

definition IsSelfStream :: "Stream \<Rightarrow> bool" where
  "IsSelfStream s \<longleftrightarrow> LectureHallID s = 0"

definition IsPast :: "gotime \<Rightarrow> Stream \<Rightarrow> bool" where
  "IsPast now s \<longleftrightarrow> End s < now \<or> Ended s"

definition IsComingUp :: "gotime \<Rightarrow> Stream \<Rightarrow> bool" where
  "IsComingUp now s \<longleftrightarrow>
     (let eligibleForWait = (Start s < now + 30 * Minute \<and> now < End s) in
      \<not> IsPast now s \<and> \<not> Recording s \<and> \<not> LiveNow s \<and> eligibleForWait)"

definition TimeSlotReached :: "gotime \<Rightarrow> Stream \<Rightarrow> bool" where
  "TimeSlotReached now s \<longleftrightarrow> now > Start s + (- Minute) \<and> now < End s"

definition IsStartingInOneDay :: "gotime \<Rightarrow> Stream \<Rightarrow> bool" where
  "IsStartingInOneDay now s \<longleftrightarrow> Start s > now + 24 * Hour"

definition IsStartingInMoreThanOneDay :: "gotime \<Rightarrow> Stream \<Rightarrow> bool" where
  "IsStartingInMoreThanOneDay now s \<longleftrightarrow> Start s > now + 48 * Hour"

definition IsPlanned :: "gotime \<Rightarrow> Stream \<Rightarrow> bool" where
  "IsPlanned now s \<longleftrightarrow>
     \<not> Recording s \<and> \<not> LiveNow s \<and> \<not> IsPast now s \<and> \<not> IsComingUp now s"

definition Color :: "gotime \<Rightarrow> Stream \<Rightarrow> string" where
  "Color now s =
     (if Recording s then (if Private s then ''gray-500'' else ''success'')
      else if LiveNow s then ''danger''
      else if IsPast now s then ''warn''
      else ''info'')"

lemmas status_defs = IsPast_def IsComingUp_def IsPlanned_def Let_def

text \<open>The abstract status of a stream, of which the predicates are tests.\<close>

datatype phase = Vod | Live | Past | ComingUp | Planned

definition stream_phase :: "gotime \<Rightarrow> Stream \<Rightarrow> phase" where
  "stream_phase now s =
     (if Recording s then Vod
      else if LiveNow s then Live
      else if End s < now \<or> Ended s then Past
      else if Start s < now + 30 * Minute \<and> now < End s then ComingUp
      else Planned)"

lemma phase_cases:
  "stream_phase now s = Vod \<longleftrightarrow> Recording s"
  "stream_phase now s = Live \<longleftrightarrow> LiveNow s \<and> \<not> Recording s"
  "stream_phase now s = Past \<longleftrightarrow> IsPast now s \<and> \<not> Recording s \<and> \<not> LiveNow s"
  "stream_phase now s = ComingUp \<longleftrightarrow> IsComingUp now s"
  "stream_phase now s = Planned \<longleftrightarrow> IsPlanned now s"
  by (auto simp: stream_phase_def status_defs)

lemma Color_phase:
  "Color now s =
     (case stream_phase now s of
        Vod \<Rightarrow> if Private s then ''gray-500'' else ''success''
      | Live \<Rightarrow> ''danger'' | Past \<Rightarrow> ''warn'' | ComingUp \<Rightarrow> ''info'' | Planned \<Rightarrow> ''info'')"
  by (auto simp: Color_def stream_phase_def IsPast_def)

subsection \<open>Names, URLs, DTO\<close>

text \<open>\<open>fmt\<close> stands for \<^verbatim>\<open>Time.Format\<close> in the server's time zone.\<close>

definition GetName :: "(string \<Rightarrow> gotime \<Rightarrow> string) \<Rightarrow> Stream \<Rightarrow> string" where
  "GetName fmt s =
     (if stream_Name s \<noteq> [] then stream_Name s
      else ''Lecture: '' @ fmt ''Jan 2, 2006'' (Start s))"

definition FriendlyTime :: "(string \<Rightarrow> gotime \<Rightarrow> string) \<Rightarrow> Stream \<Rightarrow> string" where
  "FriendlyTime fmt s = fmt ''02.01.2006 15:04'' (Start s) @ '' - '' @ fmt ''15:04'' (End s)"

definition ParsableTimeFormat :: "(string \<Rightarrow> gotime \<Rightarrow> string) \<Rightarrow> gotime \<Rightarrow> string" where
  "ParsableTimeFormat fmt t = (if t = zero_time then [] else fmt ''2006-01-02 15:04:05'' t)"

definition replace_all :: "string \<Rightarrow> string \<Rightarrow> string \<Rightarrow> string" where
  "replace_all s old new = join (go_split s old) new"

definition uint_str :: "uint \<Rightarrow> string" where
  "uint_str w = nat_digits (unat w)"

definition HLSUrl :: "Stream \<Rightarrow> string" where
  "HLSUrl s =
     (let hls = (if StartOffset s > 0
                 then PlaylistUrl s @ ''?wowzaplaystart='' @ uint_str (StartOffset s) @
                      ''&wowzaplayduration='' @ uint_str (EndOffset s)
                 else PlaylistUrl s)
      in replace_all hls ''quality'' [])"

definition GetSilencesJson :: "Stream \<Rightarrow> json" where
  "GetSilencesJson s =
     JArr (map (\<lambda>x. JObj [(''start'', JInt (Word.uint (silence_Start x))),
                           (''end'', JInt (Word.uint (silence_End x)))]) (Silences s))"

record StreamDTO =
  dto_ID :: uint
  dto_Name :: string
  dto_Description :: string
  IsRecording :: bool
  dto_IsPlanned :: bool
  dto_IsComingUp :: bool
  dto_HLSUrl :: string
  Downloads :: "DownloadableVod list"
  dto_Start :: gotime
  dto_End :: gotime
  dto_Duration :: "32 word"
  LectureHall :: string
  IsPubliclyVisible :: bool

definition Stream_ToDTO :: "gotime \<Rightarrow> Stream \<Rightarrow> StreamDTO" where
  "Stream_ToDTO now s =
     (let downloads = (if IsDownloadable s then GetVodFiles s else []);
          d = time_sub (End s) (Start s);
          duration = word_of_int (sgn d * (\<bar>d\<bar> div Second));
          duration = (if Valid (Duration s) then Int32 (Duration s) else duration)
      in \<lparr>dto_ID = ID s, dto_Name = stream_Name s, dto_Description = Description s,
          IsRecording = Recording s, dto_IsPlanned = IsPlanned now s,
          dto_IsComingUp = IsComingUp now s, dto_HLSUrl = HLSUrl s, Downloads = downloads,
          dto_Start = Start s, dto_End = End s, dto_Duration = duration,
          LectureHall = RoomCode s, IsPubliclyVisible = \<not> Private s\<rparr>)"

lemma GetVodFiles_empty_iff:
  "GetVodFiles s = [] \<longleftrightarrow> PlaylistUrl s = [] \<and> PlaylistUrlCAM s = [] \<and> PlaylistUrlPRES s = []"
  by (simp add: GetVodFiles_def)

lemma IsDownloadable_iff: "IsDownloadable s \<longleftrightarrow> Recording s \<and> GetVodFiles s \<noteq> []"
  by (auto simp: IsDownloadable_def GetVodFiles_empty_iff)

text \<open>
  The map that \<open>GetLGThumbnail\<close> fills holds, for each key, the path of the last file of the
  key's type.
\<close>

definition last_path :: "FileType \<Rightarrow> File list \<Rightarrow> string option" where
  "last_path t fs = map_option Path (List.find (\<lambda>f. file_Type f = t) (rev fs))"

lemma last_path_snoc:
  "last_path t (fs @ [f]) = (if file_Type f = t then Some (Path f) else last_path t fs)"
  by (simp add: last_path_def)

lemma lg_thumbs:
  "foldl lg_thumb_step Map.empty fs =
     (\<lambda>k. if k = ''CAM_PRES'' then last_path FILETYPE_THUMB_LG_CAM_PRES fs
           else if k = ''COMB'' then last_path FILETYPE_THUMB_LG_COMB fs
           else if k = ''CAM'' then last_path FILETYPE_THUMB_LG_CAM fs
           else if k = ''PRES'' then last_path FILETYPE_THUMB_LG_PRES fs
           else None)"
proof (induction fs rule: rev_induct)
  case Nil
  then show ?case by (simp add: last_path_def fun_eq_iff)
next
  case (snoc f fs)
  then show ?case
    by (simp add: lg_thumb_step_def last_path_snoc filetype_defs fun_eq_iff Let_def)
qed

lemma GetLGThumbnail_eq:
  "GetLGThumbnail s =
     (case last_path FILETYPE_THUMB_LG_CAM_PRES (Files s) of Some p \<Rightarrow> Some p | None \<Rightarrow>
      case last_path FILETYPE_THUMB_LG_COMB (Files s) of Some p \<Rightarrow> Some p | None \<Rightarrow>
      case last_path FILETYPE_THUMB_LG_CAM (Files s) of Some p \<Rightarrow> Some p | None \<Rightarrow>
      last_path FILETYPE_THUMB_LG_PRES (Files s))"
  by (simp add: GetLGThumbnail_def lg_thumbs Let_def split: option.splits)

end
