(* ===== verification/Model_Course.thy ===== *)
theory Model_Course
  imports Model_Stream
begin

text \<open>
  \<^verbatim>\<open>src/model/course.go\<close>: the course row, its visibility, the per-hall source and camera
  preferences it stores as JSON, and the functions over its streams that need no user. The
  lemmas show that preferences survive being stored, that the source mode decides exactly the
  usable sources, and which slugs pass the save hook. The functions that take a user are in
  \<open>Model_User\<close>.
\<close>

type_synonym SourceMode = int

definition SourceModeCOMB :: SourceMode where "SourceModeCOMB = 0"
definition SourceModePRESOnly :: SourceMode where "SourceModePRESOnly = 1"
definition SourceModeCAMOnly :: SourceMode where "SourceModeCAMOnly = 2"

lemmas source_mode_defs = SourceModeCOMB_def SourceModePRESOnly_def SourceModeCAMOnly_def

record Course = gorm_Model +
  course_UserID :: uint
  course_Name :: string
  Slug :: string
  course_Year :: int
  course_TeachingTerm :: string
  TUMOnlineIdentifier :: string
  VODEnabled :: bool
  DownloadsEnabled :: bool
  course_ChatEnabled :: bool
  AnonymousChatEnabled :: bool
  ModeratedChatEnabled :: bool
  VodChatEnabled :: bool
  Visibility :: string
  Streams :: "Stream list"
  Users :: "uint list"
  Admins :: "uint list"
  course_Token :: string
  UserCreatedByToken :: bool
  CameraPresetPreferences :: json_text
  SourcePreferences :: json_text
  Language :: "string option"
  Pinned :: bool
  LivePrivate :: bool
  VodPrivate :: bool

subsection \<open>Visibility\<close>

definition IsHidden :: "Course \<Rightarrow> bool" where
  [access_simps]: "IsHidden c \<longleftrightarrow> Visibility c = ''hidden''"
definition IsLoggedIn :: "Course \<Rightarrow> bool" where
  [access_simps]: "IsLoggedIn c \<longleftrightarrow> Visibility c = ''loggedin''"
definition IsEnrolled :: "Course \<Rightarrow> bool" where
  [access_simps]: "IsEnrolled c \<longleftrightarrow> Visibility c = ''enrolled''"
definition IsPublic :: "Course \<Rightarrow> bool" where
  [access_simps]: "IsPublic c \<longleftrightarrow> Visibility c = ''public''"

definition GetUrl :: "Course \<Rightarrow> string" where
  "GetUrl c = ''/course/'' @ itoa (course_Year c) @ ''/'' @ course_TeachingTerm c @ ''/'' @ Slug c"

definition GetStreamUrl :: "Course \<Rightarrow> Stream \<Rightarrow> string" where
  "GetStreamUrl c stream = ''/w/'' @ Slug c @ ''/'' @ uint_str (ID stream)"

subsection \<open>Preferences stored as JSON\<close>

record CameraPresetPreference =
  cpp_LectureHallID :: uint
  cpp_PresetID :: int

record SourcePreference =
  sp_LectureHallID :: uint
  sp_SourceMode :: SourceMode

definition cpp_fields :: "CameraPresetPreference fields" where
  "cpp_fields =
     [(''lecture_hall_id'', \<lambda>j r. map_option (\<lambda>v. r\<lparr>cpp_LectureHallID := v\<rparr>)
                                    (dec_uint j (cpp_LectureHallID r))),
      (''preset_id'', \<lambda>j r. map_option (\<lambda>v. r\<lparr>cpp_PresetID := v\<rparr>) (dec_int j (cpp_PresetID r)))]"

definition cpp_zero :: CameraPresetPreference where
  "cpp_zero = \<lparr>cpp_LectureHallID = 0, cpp_PresetID = 0\<rparr>"

definition enc_cpp :: "CameraPresetPreference \<Rightarrow> json" where
  "enc_cpp p = JObj [(''lecture_hall_id'', JInt (Word.uint (cpp_LectureHallID p))),
                     (''preset_id'', JInt (cpp_PresetID p))]"

definition sp_fields :: "SourcePreference fields" where
  "sp_fields =
     [(''lecture_hall_id'', \<lambda>j r. map_option (\<lambda>v. r\<lparr>sp_LectureHallID := v\<rparr>)
                                    (dec_uint j (sp_LectureHallID r))),
      (''source_mode'', \<lambda>j r. map_option (\<lambda>v. r\<lparr>sp_SourceMode := v\<rparr>)
                                (dec_int j (sp_SourceMode r)))]"

definition sp_zero :: SourcePreference where
  "sp_zero = \<lparr>sp_LectureHallID = 0, sp_SourceMode = 0\<rparr>"

definition enc_sp :: "SourcePreference \<Rightarrow> json" where
  "enc_sp p = JObj [(''lecture_hall_id'', JInt (Word.uint (sp_LectureHallID p))),
                    (''source_mode'', JInt (sp_SourceMode p))]"

definition GetCameraPresetPreference :: "Course \<Rightarrow> CameraPresetPreference list" where
  "GetCameraPresetPreference c =
     (case unmarshal (dec_list (dec_struct cpp_fields) cpp_zero) (CameraPresetPreferences c) [] of
        None \<Rightarrow> []
      | Some res \<Rightarrow> res)"

definition SetCameraPresetPreference :: "CameraPresetPreference list \<Rightarrow> Course \<Rightarrow> Course" where
  "SetCameraPresetPreference pref c =
     c\<lparr>CameraPresetPreferences := Some (JArr (map enc_cpp pref))\<rparr>"

definition GetSourcePreference :: "Course \<Rightarrow> SourcePreference list" where
  "GetSourcePreference c =
     (case unmarshal (dec_list (dec_struct sp_fields) sp_zero) (SourcePreferences c) [] of
        None \<Rightarrow> []
      | Some res \<Rightarrow> res)"

definition SetSourcePreference :: "SourcePreference list \<Rightarrow> Course \<Rightarrow> Course" where
  "SetSourcePreference pref c = c\<lparr>SourcePreferences := Some (JArr (map enc_sp pref))\<rparr>"

definition GetSourceModeForLectureHall :: "Course \<Rightarrow> uint \<Rightarrow> SourceMode" where
  "GetSourceModeForLectureHall c i =
     (case List.find (\<lambda>p. sp_LectureHallID p = i) (GetSourcePreference c) of
        Some preference \<Rightarrow> sp_SourceMode preference
      | None \<Rightarrow> 0)"

definition CanUseSource :: "Course \<Rightarrow> uint \<Rightarrow> string \<Rightarrow> bool" where
  "CanUseSource c lectureHallID sourceType =
     (let mode = GetSourceModeForLectureHall c lectureHallID in
      if sourceType = ''PRES'' then mode \<noteq> 2
      else if sourceType = ''CAM'' then mode \<noteq> 1
      else if sourceType = ''COMB'' then mode \<noteq> 1 \<and> mode \<noteq> 2
      else True)"

text \<open>The loop returns inside the two cases and goes on to the next preference otherwise.\<close>

fun subtitle_version :: "uint \<Rightarrow> SourcePreference list \<Rightarrow> StreamVersion" where
  "subtitle_version lh [] = PRES"
| "subtitle_version lh (p # ps) =
     (if sp_LectureHallID p = lh then
        (if sp_SourceMode p = SourceModeCAMOnly then CAM
         else if sp_SourceMode p = SourceModePRESOnly then PRES
         else subtitle_version lh ps)
      else subtitle_version lh ps)"

definition ShouldGenerateSubtitles :: "Course \<Rightarrow> StreamVersion \<Rightarrow> uint \<Rightarrow> bool" where
  "ShouldGenerateSubtitles c version lectureHallID =
     (if Language c = None then False
      else if lectureHallID = 0 then version = COMB
      else version = subtitle_version lectureHallID (GetSourcePreference c))"

text \<open>The values a Go \<^verbatim>\<open>int\<close> can hold; a stored preference is one of them.\<close>

definition int64 :: "int \<Rightarrow> bool" where
  "int64 i \<longleftrightarrow> - (2 ^ 63) \<le> i \<and> i < 2 ^ 63"

lemma dec_enc_cpp: "int64 (cpp_PresetID p) \<Longrightarrow> dec_struct cpp_fields (enc_cpp p) cpp_zero = Some p"
  using uint_json_range [of "cpp_LectureHallID p"]
  by (simp add: enc_cpp_def cpp_fields_def cpp_zero_def find_field_def int64_def)

lemma dec_enc_sp: "int64 (sp_SourceMode p) \<Longrightarrow> dec_struct sp_fields (enc_sp p) sp_zero = Some p"
  using uint_json_range [of "sp_LectureHallID p"]
  by (simp add: enc_sp_def sp_fields_def sp_zero_def find_field_def int64_def)

lemma GetSet_SourcePreference:
  assumes "\<And>p. p \<in> set pref \<Longrightarrow> int64 (sp_SourceMode p)"
  shows "GetSourcePreference (SetSourcePreference pref c) = pref"
  using assms dec_all_map [of pref "\<lambda>j. dec_struct sp_fields j sp_zero" enc_sp]
  by (simp add: GetSourcePreference_def SetSourcePreference_def dec_enc_sp)

lemma GetSet_CameraPresetPreference:
  assumes "\<And>p. p \<in> set pref \<Longrightarrow> int64 (cpp_PresetID p)"
  shows "GetCameraPresetPreference (SetCameraPresetPreference pref c) = pref"
  using assms dec_all_map [of pref "\<lambda>j. dec_struct cpp_fields j cpp_zero" enc_cpp]
  by (simp add: GetCameraPresetPreference_def SetCameraPresetPreference_def dec_enc_cpp)

lemma GetSourcePreference_invalid: "SourcePreferences c = None \<Longrightarrow> GetSourcePreference c = []"
  by (simp add: GetSourcePreference_def)

lemma subtitle_version_cases: "subtitle_version lh ps = CAM \<or> subtitle_version lh ps = PRES"
  by (induction lh ps rule: subtitle_version.induct) auto

text \<open>With one preference per hall the subtitle version follows the hall's source mode.\<close>

lemma subtitle_version_single:
  "distinct (map sp_LectureHallID ps) \<Longrightarrow>
   subtitle_version lh ps =
     (case List.find (\<lambda>p. sp_LectureHallID p = lh) ps of
        Some p \<Rightarrow> (if sp_SourceMode p = SourceModeCAMOnly then CAM else PRES)
      | None \<Rightarrow> PRES)"
proof (induction lh ps rule: subtitle_version.induct)
  case (2 lh p ps)
  have none: "subtitle_version lh qs = PRES" if "lh \<notin> sp_LectureHallID ` set qs" for qs
    using that by (induction qs) auto
  show ?case
  proof (cases "sp_LectureHallID p = lh")
    case True
    with 2 have "lh \<notin> sp_LectureHallID ` set ps" by auto
    with True show ?thesis by (simp add: none source_mode_defs)
  next
    case False
    with 2 show ?thesis by simp
  qed
qed simp

subsection \<open>Counting and listing streams\<close>

definition IsLive :: "Course \<Rightarrow> bool" where
  "IsLive c \<longleftrightarrow> (\<exists>s \<in> set (Streams c). LiveNow s)"

definition IsNextLectureStartingSoon :: "gotime \<Rightarrow> Course \<Rightarrow> bool" where
  "IsNextLectureStartingSoon now c \<longleftrightarrow> (\<exists>s \<in> set (Streams c). IsComingUp now s)"

definition NumStreams :: "Course \<Rightarrow> int" where
  "NumStreams c = foldl (\<lambda>res s. if Recording s \<or> LiveNow s then res + 1 else res) 0 (Streams c)"

definition HasRecordings :: "Course \<Rightarrow> bool" where
  "HasRecordings c \<longleftrightarrow> (\<exists>s \<in> set (Streams c). Recording s)"

definition NumUsers :: "Course \<Rightarrow> nat" where
  "NumUsers c = length (Users c)"

definition GetLiveStreams :: "Course \<Rightarrow> Stream list" where
  "GetLiveStreams c = filter LiveNow (Streams c)"

definition GetRecordings :: "Course \<Rightarrow> Stream list" where
  "GetRecordings c = filter Recording (Streams c)"

definition HasStreams :: "Course \<Rightarrow> bool" where
  "HasStreams c \<longleftrightarrow> length (Streams c) > 0"

definition HasNextLecture :: "gotime \<Rightarrow> Course \<Rightarrow> bool" where
  "HasNextLecture now c \<longleftrightarrow> (\<exists>s \<in> set (Streams c). Start s > now)"

definition ten_years :: duration where
  "ten_years = Hour * 24 * 365 * 10"

definition GetNextLectureDate :: "gotime \<Rightarrow> Course \<Rightarrow> gotime" where
  "GetNextLectureDate now c =
     foldl (\<lambda>d s. if Start s < d \<and> End s > now then Start s else d) (now + ten_years) (Streams c)"

definition CompareTo :: "gotime \<Rightarrow> Course \<Rightarrow> Course \<Rightarrow> bool" where
  "CompareTo now c other =
     (if \<not> HasNextLecture now other then True
      else GetNextLectureDate now c < GetNextLectureDate now other)"

lemma foldl_count:
  "foldl (\<lambda>res s. if P s then res + 1 else res) k xs = k + int (length (filter P xs))"
  by (induction xs arbitrary: k) auto

lemma NumStreams_length: "NumStreams c = int (length (filter (\<lambda>s. Recording s \<or> LiveNow s) (Streams c)))"
  using foldl_count [of "\<lambda>s. Recording s \<or> LiveNow s" 0] by (simp add: NumStreams_def)

lemma foldl_next_date:
  "foldl (\<lambda>d s. if Start s < d \<and> End s > now then Start s else d) d0 ss =
     Min (insert d0 {Start s | s. s \<in> set ss \<and> End s > now})"
proof (induction ss rule: rev_induct)
  case Nil
  then show ?case by simp
next
  case (snoc s ss)
  define A where "A = insert d0 {Start s | s. s \<in> set ss \<and> End s > now}"
  have fin: "finite A" and ne: "A \<noteq> {}" by (auto simp: A_def)
  have "insert d0 {Start t | t. t \<in> set (ss @ [s]) \<and> End t > now} =
          (if End s > now then insert (Start s) A else A)" by (auto simp: A_def)
  moreover have "foldl (\<lambda>d s. if Start s < d \<and> End s > now then Start s else d) d0 (ss @ [s]) =
          (if End s > now then min (Start s) (Min A) else Min A)"
    using snoc.IH by (simp add: min_def flip: A_def)
  ultimately show ?case by (simp add: Min_insert [OF fin ne])
qed

lemma GetNextLectureDate_Min:
  "GetNextLectureDate now c =
     Min (insert (now + ten_years) {Start s | s. s \<in> set (Streams c) \<and> End s > now})"
  by (simp only: GetNextLectureDate_def foldl_next_date)

subsection \<open>The save hook\<close>

text \<open>
  The slug expression \<^verbatim>\<open>^[a-zA-Z0-9\<close>, the German umlauts, \<^verbatim>\<open>\-_]{1,150}$\<close> counts characters;
  an umlaut is the byte 195 and one of six continuation bytes. The result is the number of
  characters, None if one is outside of the class.
\<close>

definition slug_ascii :: "char \<Rightarrow> bool" where
  "slug_ascii c = (let n = of_char c :: nat in
     97 \<le> n \<and> n \<le> 122 \<or> 65 \<le> n \<and> n \<le> 90 \<or> 48 \<le> n \<and> n \<le> 57 \<or> n = 45 \<or> n = 95)"

definition umlaut_tail :: "char \<Rightarrow> bool" where
  "umlaut_tail c = ((of_char c :: nat) \<in> {164, 182, 188, 132, 150, 156})"

fun slug_chars :: "string \<Rightarrow> nat option" where
  "slug_chars [] = Some 0"
| "slug_chars (c # cs) =
     (if slug_ascii c then map_option Suc (slug_chars cs)
      else if (of_char c :: nat) = 195 then
        (case cs of
           [] \<Rightarrow> None
         | d # ds \<Rightarrow> if umlaut_tail d then map_option Suc (slug_chars ds) else None)
      else None)"

definition courseSlugRegex :: "string \<Rightarrow> bool" where
  "courseSlugRegex s = (case slug_chars s of None \<Rightarrow> False | Some n \<Rightarrow> 1 \<le> n \<and> n \<le> 150)"

definition Course_BeforeSave :: "Course \<Rightarrow> string option" where
  "Course_BeforeSave c =
     (if \<not> courseSlugRegex (Slug c) then Some ''invalid course slug'' else None)"

text \<open>A slug that is saved has no slash, so it is one segment of the course's URL.\<close>

lemma slug_byte_no_slash:
  "slug_ascii c \<Longrightarrow> c \<noteq> CHR ''/''"
  "umlaut_tail c \<Longrightarrow> c \<noteq> CHR ''/''"
  "of_char c = (195 :: nat) \<Longrightarrow> c \<noteq> CHR ''/''"
  by (auto simp: slug_ascii_def umlaut_tail_def)

lemma slug_chars_no_slash: "slug_chars s = Some n \<Longrightarrow> CHR ''/'' \<notin> set s"
proof (induction s arbitrary: n rule: slug_chars.induct)
  case (2 c cs)
  show ?case
  proof (cases "slug_ascii c")
    case True
    with 2 show ?thesis by (auto dest: slug_byte_no_slash)
  next
    case False
    with 2 obtain d ds m where "cs = d # ds" "of_char c = (195 :: nat)" "umlaut_tail d"
      "slug_chars ds = Some m"
      by (auto split: if_splits list.splits)
    with 2 False show ?thesis by (auto dest: slug_byte_no_slash)
  qed
qed simp

lemma BeforeSave_no_slash: "Course_BeforeSave c = None \<Longrightarrow> CHR ''/'' \<notin> set (Slug c)"
  by (auto simp: Course_BeforeSave_def courseSlugRegex_def split: if_splits option.splits
        dest: slug_chars_no_slash)

end
