(* ===== verification/Model_User.thy ===== *)
theory Model_User
  imports Model_Course
begin

text \<open>
  \<^verbatim>\<open>src/model/user.go\<close> and the functions of \<^verbatim>\<open>src/model/course.go\<close> that take a user: settings,
  the access decisions (who administers, watches and finds a course), the course lists per
  semester, and the next lecture and last recording a user may see. A \<^verbatim>\<open>*User\<close> receiver that the
  code compares with nil is a \<open>User option\<close>. The lemmas give each access decision as a formula
  and show that no function here hands a private stream to someone who is not an
  administrator of its course.
\<close>

definition AdminType :: uint where "AdminType = 1"
definition LecturerType :: uint where "LecturerType = 2"
definition GenericType :: uint where "GenericType = 3"
definition StudentType :: uint where "StudentType = 4"

lemmas role_defs = AdminType_def LecturerType_def GenericType_def StudentType_def

text \<open>The setting types, numbered from 1 by \<^verbatim>\<open>iota + 1\<close>.\<close>

type_synonym UserSettingType = int

definition PreferredName :: UserSettingType where "PreferredName = 1"
definition Greeting :: UserSettingType where "Greeting = 2"
definition CustomPlaybackSpeeds :: UserSettingType where "CustomPlaybackSpeeds = 3"
definition SeekingTime :: UserSettingType where "SeekingTime = 4"
definition UserDefinedSpeeds :: UserSettingType where "UserDefinedSpeeds = 5"
definition AutoSkip :: UserSettingType where "AutoSkip = 6"
definition defaultMode :: UserSettingType where "defaultMode = 7"
definition LectureView :: UserSettingType where "LectureView = 8"

lemmas setting_defs =
  PreferredName_def Greeting_def CustomPlaybackSpeeds_def SeekingTime_def UserDefinedSpeeds_def
  AutoSkip_def defaultMode_def LectureView_def

record UserSetting = gorm_Model +
  setting_UserID :: uint
  setting_Type :: UserSettingType
  Value :: string

record User = gorm_Model +
  user_Name :: string
  LastName :: "string option"
  Email :: "string option"
  MatriculationNumber :: string
  LrzID :: string
  Role :: uint
  Password :: string
  Courses :: "Course list"
  AdministeredCourses :: "Course list"
  PinnedCourses :: "Course list"
  Settings :: "UserSetting list"
  Bookmarks :: "uint list"

subsection \<open>Settings\<close>

text \<open>
  Some settings hold JSON text in \<open>Value\<close>; the argument \<open>parse\<close> gives the value a text denotes,
  None if it is not JSON.
\<close>

definition first_setting :: "UserSettingType \<Rightarrow> User \<Rightarrow> UserSetting option" where
  "first_setting t u = List.find (\<lambda>s. setting_Type s = t) (Settings u)"

definition GetPreferredName :: "User \<Rightarrow> string" where
  "GetPreferredName u =
     (case first_setting PreferredName u of Some s \<Rightarrow> Value s | None \<Rightarrow> user_Name u)"

definition GetPreferredGreeting :: "User \<Rightarrow> string" where
  "GetPreferredGreeting u =
     (case first_setting Greeting u of Some s \<Rightarrow> Value s | None \<Rightarrow> ''Moin'')"

definition GetPreferredView :: "User \<Rightarrow> string" where
  "GetPreferredView u =
     (case first_setting LectureView u of Some s \<Rightarrow> Value s | None \<Rightarrow> ''Combined'')"

record PlaybackSpeedSetting =
  Speed :: rat
  Enabled :: bool

definition speed_fields :: "PlaybackSpeedSetting fields" where
  "speed_fields =
     [(''speed'', \<lambda>j r. map_option (\<lambda>v. r\<lparr>Speed := v\<rparr>) (dec_float j (Speed r))),
      (''enabled'', \<lambda>j r. map_option (\<lambda>v. r\<lparr>Enabled := v\<rparr>) (dec_bool j (Enabled r)))]"

definition defaultPlaybackSpeeds :: "PlaybackSpeedSetting list" where
  "defaultPlaybackSpeeds =
     [\<lparr>Speed = 1/4, Enabled = False\<rparr>, \<lparr>Speed = 1/2, Enabled = True\<rparr>,
      \<lparr>Speed = 3/4, Enabled = True\<rparr>, \<lparr>Speed = 1, Enabled = True\<rparr>,
      \<lparr>Speed = 5/4, Enabled = True\<rparr>, \<lparr>Speed = 3/2, Enabled = True\<rparr>,
      \<lparr>Speed = 7/4, Enabled = True\<rparr>, \<lparr>Speed = 2, Enabled = True\<rparr>,
      \<lparr>Speed = 5/2, Enabled = False\<rparr>, \<lparr>Speed = 3, Enabled = False\<rparr>,
      \<lparr>Speed = 7/2, Enabled = False\<rparr>]"

definition GetEnabled :: "PlaybackSpeedSetting list \<Rightarrow> rat list" where
  "GetEnabled s = map Speed (filter Enabled s)"

definition GetPlaybackSpeeds :: "(string \<Rightarrow> json_text) \<Rightarrow> User option \<Rightarrow> PlaybackSpeedSetting list" where
  "GetPlaybackSpeeds parse u =
     (case u of None \<Rightarrow> defaultPlaybackSpeeds
      | Some u \<Rightarrow>
        (case first_setting CustomPlaybackSpeeds u of
           None \<Rightarrow> defaultPlaybackSpeeds
         | Some s \<Rightarrow>
           (case unmarshal (dec_list (dec_struct speed_fields) \<lparr>Speed = 0, Enabled = False\<rparr>)
                   (parse (Value s)) [] of
              None \<Rightarrow> defaultPlaybackSpeeds
            | Some speeds \<Rightarrow> speeds)))"

definition GetCustomSpeeds :: "(string \<Rightarrow> json_text) \<Rightarrow> User option \<Rightarrow> rat list" where
  "GetCustomSpeeds parse u =
     (case u of None \<Rightarrow> []
      | Some u \<Rightarrow>
        (case first_setting UserDefinedSpeeds u of
           None \<Rightarrow> []
         | Some s \<Rightarrow>
           (case unmarshal (dec_list dec_float 0) (parse (Value s)) [] of
              None \<Rightarrow> []
            | Some speeds \<Rightarrow> speeds)))"

definition GetEnabledPlaybackSpeeds :: "(string \<Rightarrow> json_text) \<Rightarrow> User option \<Rightarrow> rat list" where
  "GetEnabledPlaybackSpeeds parse u = sort (GetEnabled (GetPlaybackSpeeds parse u) @ GetCustomSpeeds parse u)"

definition validSeekingTimes :: "int list" where
  "validSeekingTimes = [5, 10, 30]"

definition GetSeekingTime :: "User option \<Rightarrow> int" where
  "GetSeekingTime u =
     (case u of None \<Rightarrow> 10
      | Some u \<Rightarrow>
        (case first_setting SeekingTime u of
           None \<Rightarrow> 10
         | Some s \<Rightarrow>
           (case atoi (Value s) of
              None \<Rightarrow> 10
            | Some seekingTime \<Rightarrow>
                if seekingTime \<in> set validSeekingTimes then seekingTime else 10)))"

definition PreferredNameChangeAllowed :: "gotime \<Rightarrow> User \<Rightarrow> bool" where
  "PreferredNameChangeAllowed now u \<longleftrightarrow>
     \<not> (\<exists>s \<in> set (Settings u).
          setting_Type s = PreferredName \<and> time_sub now (UpdatedAt s) < Hour * 24 * 30 * 3)"

definition autoskip_fields :: "bool fields" where
  "autoskip_fields = [(''enabled'', \<lambda>j r. dec_bool j r)]"

text \<open>\<open>Inl\<close> is the decoding error, returned next to a disabled setting.\<close>

definition GetAutoSkipEnabled :: "(string \<Rightarrow> json_text) \<Rightarrow> User \<Rightarrow> unit + bool" where
  "GetAutoSkipEnabled parse u =
     (case first_setting AutoSkip u of
        None \<Rightarrow> Inr False
      | Some s \<Rightarrow>
        (case unmarshal (dec_struct autoskip_fields) (parse (Value s)) False of
           None \<Rightarrow> Inl ()
         | Some a \<Rightarrow> Inr a))"

lemma GetSeekingTime_valid: "GetSeekingTime u \<in> set validSeekingTimes"
  by (auto simp: GetSeekingTime_def validSeekingTimes_def split: option.splits)

lemma GetEnabledPlaybackSpeeds_sorted: "sorted (GetEnabledPlaybackSpeeds parse u)"
  by (simp add: GetEnabledPlaybackSpeeds_def)

subsection \<open>Access decisions\<close>

definition IsAdminOfCourse :: "User option \<Rightarrow> Course \<Rightarrow> bool" where
  "IsAdminOfCourse u course =
     (case u of None \<Rightarrow> False
      | Some u \<Rightarrow>
          (if \<exists>c \<in> set (AdministeredCourses u). ID c = ID course then True
           else Role u = AdminType \<or> course_UserID course = ID u))"

definition IsEligibleToWatchCourse :: "User option \<Rightarrow> Course \<Rightarrow> bool" where
  "IsEligibleToWatchCourse u course =
     (case u of None \<Rightarrow> IsPublic course \<or> IsHidden course
      | Some user \<Rightarrow>
          (if IsPublic course \<or> IsHidden course \<or> IsLoggedIn course then True
           else if \<exists>invCourse \<in> set (Courses user). ID invCourse = ID course then True
           else IsAdminOfCourse u course))"

definition IsAllowedToWatchPrivateCourse :: "User option \<Rightarrow> Course \<Rightarrow> bool" where
  "IsAllowedToWatchPrivateCourse u course =
     (case u of None \<Rightarrow> False
      | Some user \<Rightarrow>
          (if \<exists>c \<in> set (Courses user). ID c = ID course then True
           else IsEligibleToWatchCourse u course))"

definition IsEligibleToSearchForCourse :: "User option \<Rightarrow> Course \<Rightarrow> bool" where
  "IsEligibleToSearchForCourse u course \<longleftrightarrow>
     IsEligibleToWatchCourse u course \<and> \<not> IsHidden course \<or> IsAdminOfCourse u course"

text \<open>The relations the decisions are made of.\<close>

definition invited :: "User \<Rightarrow> Course \<Rightarrow> bool" where
  "invited u c \<longleftrightarrow> (\<exists>d \<in> set (Courses u). ID d = ID c)"

definition administers :: "User \<Rightarrow> Course \<Rightarrow> bool" where
  "administers u c \<longleftrightarrow>
     (\<exists>d \<in> set (AdministeredCourses u). ID d = ID c) \<or> Role u = AdminType \<or> course_UserID c = ID u"

lemma IsAdminOfCourse_simps [simp]:
  "IsAdminOfCourse None c = False"
  "IsAdminOfCourse (Some u) c = administers u c"
  by (auto simp: IsAdminOfCourse_def administers_def)

lemma watch_simps:
  "IsEligibleToWatchCourse None c \<longleftrightarrow> IsPublic c \<or> IsHidden c"
  "IsEligibleToWatchCourse (Some u) c \<longleftrightarrow>
     IsPublic c \<or> IsHidden c \<or> IsLoggedIn c \<or> invited u c \<or> administers u c"
  by (auto simp: IsEligibleToWatchCourse_def invited_def)

lemma private_watch_simps:
  "IsAllowedToWatchPrivateCourse None c \<longleftrightarrow> False"
  "IsAllowedToWatchPrivateCourse (Some u) c \<longleftrightarrow> IsEligibleToWatchCourse (Some u) c"
  by (auto simp: IsAllowedToWatchPrivateCourse_def watch_simps invited_def)

lemmas access_decisions = watch_simps private_watch_simps IsEligibleToSearchForCourse_def

lemma admin_watches: "IsAdminOfCourse u c \<Longrightarrow> IsEligibleToWatchCourse u c"
  by (cases u) (auto simp: watch_simps)

lemma search_imp_watch: "IsEligibleToSearchForCourse u c \<Longrightarrow> IsEligibleToWatchCourse u c"
  by (auto simp: IsEligibleToSearchForCourse_def admin_watches)

lemma visibility_exclusive:
  "IsPublic c \<Longrightarrow> \<not> IsHidden c" "IsPublic c \<Longrightarrow> \<not> IsLoggedIn c" "IsHidden c \<Longrightarrow> \<not> IsLoggedIn c"
  by (auto simp: access_simps)

subsection \<open>Course lists\<close>

text \<open>
  \<open>CoursesForSemester\<close> fills a Go map and returns its values in the iteration order of the
  runtime, here the argument \<open>ks\<close>.
\<close>

definition in_semester :: "int \<Rightarrow> string \<Rightarrow> Course \<Rightarrow> bool" where
  "in_semester year term c \<longleftrightarrow> course_Year c = year \<and> course_TeachingTerm c = term"

definition cMap :: "User \<Rightarrow> int \<Rightarrow> string \<Rightarrow> (uint \<rightharpoonup> Course)" where
  "cMap u year term =
     foldl (\<lambda>m c. if in_semester year term c then m(ID c \<mapsto> c) else m)
       (foldl (\<lambda>m c. if in_semester year term c then m(ID c \<mapsto> c) else m) Map.empty (Courses u))
       (AdministeredCourses u)"

definition CoursesForSemester :: "uint list \<Rightarrow> User \<Rightarrow> int \<Rightarrow> string \<Rightarrow> Course list" where
  "CoursesForSemester ks u year term = List.map_filter (cMap u year term) ks"

definition semester_of :: "Course \<Rightarrow> Semester" where
  "semester_of c = \<lparr>TeachingTerm = course_TeachingTerm c, Year = course_Year c\<rparr>"

definition AdministeredCoursesForSemesters :: "User \<Rightarrow> Semester list \<Rightarrow> Course list" where
  "AdministeredCoursesForSemesters u semesters =
     filter (\<lambda>c. IsInRangeOfSemesters (semester_of c) semesters) (AdministeredCourses u)"

definition AdministeredCoursesBetweenSemesters :: "User \<Rightarrow> Semester \<Rightarrow> Semester \<Rightarrow> Course list" where
  "AdministeredCoursesBetweenSemesters u firstSemester lastSemester =
     filter (\<lambda>c. IsBetweenSemesters (semester_of c) firstSemester lastSemester)
       (AdministeredCourses u)"

definition CoursesForSemestersWithoutAdministeredCourses ::
    "User \<Rightarrow> Semester list \<Rightarrow> Course list" where
  "CoursesForSemestersWithoutAdministeredCourses u semesters =
     filter (\<lambda>c. IsInRangeOfSemesters (semester_of c) semesters \<and> \<not> IsAdminOfCourse (Some u) c)
       (Courses u)"

definition CoursesBetweenSemestersWithoutAdministeredCourses ::
    "User \<Rightarrow> Semester \<Rightarrow> Semester \<Rightarrow> Course list" where
  "CoursesBetweenSemestersWithoutAdministeredCourses u firstSemester lastSemester =
     filter (\<lambda>c. IsBetweenSemesters (semester_of c) firstSemester lastSemester \<and>
                 \<not> IsAdminOfCourse (Some u) c) (Courses u)"

definition HasTestCourse :: "User \<Rightarrow> bool" where
  "HasTestCourse u \<longleftrightarrow> (\<exists>c \<in> set (AdministeredCourses u). course_Year c = 1234)"

definition CourseListContains :: "Course list \<Rightarrow> uint \<Rightarrow> bool" where
  "CourseListContains cs courseId \<longleftrightarrow> (\<exists>c \<in> set cs. ID c = courseId)"

text \<open>The map holds, for each ID, the last course of the two lists with that ID.\<close>

lemma foldl_map_last:
  "foldl (\<lambda>m c. if P c then m(f c \<mapsto> c) else m) m0 cs k =
     (case List.find (\<lambda>c. P c \<and> f c = k) (rev cs) of Some c \<Rightarrow> Some c | None \<Rightarrow> m0 k)"
  by (induction cs rule: rev_induct) auto

lemma cMap_last:
  "cMap u year term k =
     List.find (\<lambda>c. in_semester year term c \<and> ID c = k) (rev (Courses u @ AdministeredCourses u))"
  by (simp add: cMap_def foldl_map_last find_append split: option.splits)

lemma cMap_SomeD: "cMap u year term k = Some c \<Longrightarrow> ID c = k \<and> in_semester year term c \<and>
   c \<in> set (Courses u) \<union> set (AdministeredCourses u)"
  by (auto simp: cMap_last dest!: find_SomeD)

lemma dom_cMap:
  "dom (cMap u year term) =
     {ID c | c. c \<in> set (Courses u) \<union> set (AdministeredCourses u) \<and> in_semester year term c}"
  by (auto simp: cMap_last dom_def find_in_set_conv)

lemma map_filter_ids:
  "(\<And>k c. m k = Some c \<Longrightarrow> f c = k) \<Longrightarrow> set ks \<subseteq> dom m \<Longrightarrow> map f (List.map_filter m ks) = ks"
  by (induction ks) (auto simp: List.map_filter_def)

subsection \<open>What a user may see of a course's streams (model/course.go)\<close>

definition skipped :: "User option \<Rightarrow> Course \<Rightarrow> Stream \<Rightarrow> bool" where
  "skipped u c s \<longleftrightarrow> Private s \<and> (u = None \<or> \<not> IsAdminOfCourse u c)"

definition next_lecture_step ::
    "gotime \<Rightarrow> User option \<Rightarrow> Course \<Rightarrow> gotime \<times> Stream \<Rightarrow> Stream \<Rightarrow> gotime \<times> Stream" where
  "next_lecture_step now u c = (\<lambda>(d, l) s.
     if skipped u c s then (d, l)
     else if Start s < d \<and> End s > now then (Start s, s) else (d, l))"

definition GetNextLecture :: "gotime \<Rightarrow> User option \<Rightarrow> Course \<Rightarrow> Stream" where
  "GetNextLecture now u c =
     snd (foldl (next_lecture_step now u c) (now + ten_years, zero_Stream) (Streams c))"

fun last_recording :: "gotime \<Rightarrow> User option \<Rightarrow> Course \<Rightarrow> Stream \<Rightarrow> Stream list \<Rightarrow> Stream" where
  "last_recording now u c lastLecture [] = lastLecture"
| "last_recording now u c lastLecture (s # ss) =
     (if skipped u c s then last_recording now u c lastLecture ss
      else if Start s > now then lastLecture
      else last_recording now u c (if Recording s then s else lastLecture) ss)"

definition GetLastRecording :: "gotime \<Rightarrow> User option \<Rightarrow> Course \<Rightarrow> Stream" where
  "GetLastRecording now u c = last_recording now u c zero_Stream (Streams c)"

definition NextLectureHasReachedTimeSlot :: "gotime \<Rightarrow> User option \<Rightarrow> Course \<Rightarrow> bool" where
  "NextLectureHasReachedTimeSlot now u c \<longleftrightarrow> TimeSlotReached now (GetNextLecture now u c)"

definition IsNextLectureSelfStream :: "gotime \<Rightarrow> User option \<Rightarrow> Course \<Rightarrow> bool" where
  "IsNextLectureSelfStream now u c \<longleftrightarrow> IsSelfStream (GetNextLecture now u c)"

record CourseDTO =
  cdto_ID :: uint
  cdto_Name :: string
  cdto_Slug :: string
  cdto_Visibility :: string
  cdto_TeachingTerm :: string
  cdto_Year :: int
  cdto_DownloadsEnabled :: bool
  NextLecture :: StreamDTO
  LastRecording :: StreamDTO
  cdto_Streams :: "StreamDTO list"
  IsAdmin :: bool

definition Course_ToDTO :: "gotime \<Rightarrow> User option \<Rightarrow> Course \<Rightarrow> CourseDTO" where
  "Course_ToDTO now u c =
     \<lparr>cdto_ID = ID c, cdto_Name = course_Name c, cdto_Slug = Slug c,
      cdto_Visibility = Visibility c, cdto_TeachingTerm = course_TeachingTerm c,
      cdto_Year = course_Year c, cdto_DownloadsEnabled = DownloadsEnabled c,
      NextLecture = Stream_ToDTO now (GetNextLecture now u c),
      LastRecording = Stream_ToDTO now (GetLastRecording now u c),
      cdto_Streams = [], IsAdmin = False\<rparr>"

lemma skipped_iff: "skipped u c s \<longleftrightarrow> Private s \<and> \<not> IsAdminOfCourse u c"
  by (auto simp: skipped_def)

text \<open>
  The streams the next lecture is chosen from, and the loop's invariant: the pair holds the
  earliest start among the candidates seen so far and a stream with that start.
\<close>

definition candidate :: "gotime \<Rightarrow> User option \<Rightarrow> Course \<Rightarrow> Stream \<Rightarrow> bool" where
  "candidate now u c s \<longleftrightarrow> \<not> skipped u c s \<and> now < End s \<and> Start s < now + ten_years"

lemma next_lecture_inv:
  assumes "foldl (next_lecture_step now u c) (now + ten_years, zero_Stream) ss = (d, l)"
  shows "d \<le> now + ten_years \<and> (\<forall>s \<in> set ss. candidate now u c s \<longrightarrow> d \<le> Start s) \<and>
         (if d = now + ten_years then l = zero_Stream
          else l \<in> set ss \<and> candidate now u c l \<and> Start l = d)"
  using assms
proof (induction ss arbitrary: d l rule: rev_induct)
  case Nil
  then show ?case by simp
next
  case (snoc s ss)
  obtain d0 l0 where prev: "foldl (next_lecture_step now u c) (now + ten_years, zero_Stream) ss = (d0, l0)"
    by (cases "foldl (next_lecture_step now u c) (now + ten_years, zero_Stream) ss")
  have step: "(if skipped u c s then (d0, l0)
      else if Start s < d0 \<and> End s > now then (Start s, s) else (d0, l0)) = (d, l)"
    using snoc.prems prev by (simp add: next_lecture_step_def)
  note inv = snoc.IH [OF prev]
  show ?case
  proof (cases "\<not> skipped u c s \<and> Start s < d0 \<and> now < End s")
    case True
    with step have "d = Start s" "l = s" by auto
    with True inv show ?thesis by (auto simp: candidate_def)
  next
    case False
    with step have "d = d0" "l = l0" by (auto split: if_splits)
    with False inv show ?thesis by (auto simp: candidate_def split: if_splits)
  qed
qed

lemma GetNextLecture_cases:
  "(GetNextLecture now u c = zero_Stream \<and> (\<forall>s \<in> set (Streams c). \<not> candidate now u c s)) \<or>
   (GetNextLecture now u c \<in> set (Streams c) \<and> candidate now u c (GetNextLecture now u c) \<and>
    (\<forall>s \<in> set (Streams c). candidate now u c s \<longrightarrow> Start (GetNextLecture now u c) \<le> Start s))"
proof -
  obtain d l where fold:
    "foldl (next_lecture_step now u c) (now + ten_years, zero_Stream) (Streams c) = (d, l)"
    by (cases "foldl (next_lecture_step now u c) (now + ten_years, zero_Stream) (Streams c)")
  from next_lecture_inv [OF fold] show ?thesis
    using fold by (auto simp: GetNextLecture_def candidate_def split: if_splits)
qed

lemma last_recording_cases:
  "last_recording now u c l ss = l \<or>
   (last_recording now u c l ss \<in> set ss \<and> \<not> skipped u c (last_recording now u c l ss) \<and>
    Recording (last_recording now u c l ss) \<and> Start (last_recording now u c l ss) \<le> now)"
proof (induction ss arbitrary: l)
  case (Cons s ss)
  consider "skipped u c s" | "\<not> skipped u c s" "Start s > now"
    | "\<not> skipped u c s" "Start s \<le> now" by linarith
  then show ?case
  proof cases
    case 1
    with Cons.IH [of l] show ?thesis by auto
  next
    case 2
    then show ?thesis by simp
  next
    case 3
    with Cons.IH [of "if Recording s then s else l"] show ?thesis by (auto split: if_splits)
  qed
qed simp

lemma zero_Stream_not_private [simp]: "\<not> Private zero_Stream"
  by (simp add: zero_Stream_def)

subsection \<open>Login names and the create hook\<close>

definition GetLoginString :: "User option \<Rightarrow> string" where
  "GetLoginString u =
     (case u of None \<Rightarrow> ''- System -''
      | Some u \<Rightarrow> (case Email u of
                     Some e \<Rightarrow> if e \<noteq> [] then e else LrzID u
                   | None \<Rightarrow> LrzID u))"

definition maxUsernameLength :: nat where "maxUsernameLength = 80"

datatype username_error = ErrUsernameTooLong | ErrUsernameNoText

definition User_BeforeCreate :: "User \<Rightarrow> username_error + User" where
  "User_BeforeCreate u =
     (let u = u\<lparr>user_Name := trim_space (user_Name u)\<rparr> in
      if length (user_Name u) > maxUsernameLength then Inl ErrUsernameTooLong
      else if length (user_Name u) = 0 then Inl ErrUsernameNoText
      else Inr u)"

end
