(* ===== verification/RT_Subscribers.thy ===== *)
theory RT_Subscribers
  imports Model_User
begin

text \<open>
  The data of \<^verbatim>\<open>src/tools/realtime\<close>: clients, contexts, messages, the client store
  (\<^verbatim>\<open>client-store.go\<close>) and a channel's subscriber store (\<^verbatim>\<open>subscribers.go\<close>).
  A \<^verbatim>\<open>*Context\<close> is shared between the subscriber store and the application and is
  written through (\<^verbatim>\<open>context.Set\<close>), so contexts live in a heap and a pointer is a \<open>ctxref\<close>.
  A client is only written when it joins, so it is a value. \<open>env\<close> is the part of the state
  that handlers see: the connected clients, the heap, the frames handed to the transport, and the
  application's own state.

  Both stores are the Go maps of the source; they interpret the interface \<open>keyed_store\<close>, from
  which the facts about sequences of operations come. Iterating over a Go map has no fixed
  order, so an operation that does takes the order as an argument (\<open>ks\<close>).
\<close>

subsection \<open>Messages, errors, clients, contexts\<close>

definition MessageTypeSubscribe :: string where "MessageTypeSubscribe = ''subscribe''"
definition MessageTypeUnsubscribe :: string where "MessageTypeUnsubscribe = ''unsubscribe''"
definition MessageTypeChannelMessage :: string where "MessageTypeChannelMessage = ''message''"

lemmas message_type_defs =
  MessageTypeSubscribe_def MessageTypeUnsubscribe_def MessageTypeChannelMessage_def

record Message =
  msg_Type :: string
  msg_Channel :: string
  msg_Payload :: json_text

text \<open>A payload is the raw JSON of the member; None stands for an absent one.\<close>

record Error =
  Code :: int
  err_Description :: string

definition NewError :: "int \<Rightarrow> string \<Rightarrow> Error" where
  "NewError code description = \<lparr>Code = code, err_Description = description\<rparr>"

definition enc_error :: "Error \<Rightarrow> json" where
  "enc_error e = JObj [(''code'', JInt (Code e)), (''description'', JStr (err_Description e))]"

text \<open>\<open>sendMessage\<close> is the transport's write: it returns an error or None.\<close>

record 'v Client =
  client_Id :: string
  sendMessage :: "Message \<Rightarrow> string option"
  client_properties :: "string \<rightharpoonup> 'v"

definition NewClient :: "(Message \<Rightarrow> string option) \<Rightarrow> (string \<rightharpoonup> 'v) \<Rightarrow> 'v Client" where
  "NewClient send properties =
     \<lparr>client_Id = [], sendMessage = send, client_properties = properties\<rparr>"

definition Client_Get :: "'v Client \<Rightarrow> string \<Rightarrow> 'v option" where
  "Client_Get client key = client_properties client key"

record 'v Context =
  ctx_Client :: "'v Client"
  FullPath :: string
  params :: "string \<rightharpoonup> string"
  ctx_properties :: "string \<rightharpoonup> 'v"

type_synonym ctxref = nat

record ('v, 'a) env =
  clients :: "string \<rightharpoonup> 'v Client"
  heap :: "ctxref \<rightharpoonup> 'v Context"
  next_ref :: ctxref
  outbox :: "(string \<times> Message) list"
  app :: 'a

subsection \<open>Context operations (context.go)\<close>

definition Context_Get :: "'v Context \<Rightarrow> string \<Rightarrow> 'v option" where
  "Context_Get c key = ctx_properties c key"

definition Context_Set :: "string \<Rightarrow> 'v \<Rightarrow> 'v Context \<Rightarrow> 'v Context" where
  "Context_Set key val c = c\<lparr>ctx_properties := (ctx_properties c)(key \<mapsto> val)\<rparr>"

text \<open>A missing parameter of the Go map reads as the empty string.\<close>

definition Param :: "'v Context \<Rightarrow> string \<Rightarrow> string" where
  "Param c key = (case params c key of None \<Rightarrow> [] | Some v \<Rightarrow> v)"

definition frame :: "'v Context \<Rightarrow> json \<Rightarrow> Message" where
  "frame c payload =
     \<lparr>msg_Type = MessageTypeChannelMessage, msg_Channel = FullPath c, msg_Payload = Some payload\<rparr>"

definition Client_Send ::
    "'v Client \<Rightarrow> Message \<Rightarrow> ('v, 'a) env \<Rightarrow> string option \<times> ('v, 'a) env" where
  "Client_Send client m e =
     (sendMessage client m, e\<lparr>outbox := outbox e @ [(client_Id client, m)]\<rparr>)"

definition Context_Send ::
    "'v Context \<Rightarrow> json \<Rightarrow> ('v, 'a) env \<Rightarrow> string option \<times> ('v, 'a) env" where
  "Context_Send c payload e = Client_Send (ctx_Client c) (frame c payload) e"

definition SendError ::
    "'v Context \<Rightarrow> Error \<Rightarrow> ('v, 'a) env \<Rightarrow> string option \<times> ('v, 'a) env" where
  "SendError c er e = Client_Send (ctx_Client c) (frame c (enc_error er)) e"

text \<open>Writing through a pointer to a context that is not allocated changes nothing.\<close>

definition set_ctx :: "ctxref \<Rightarrow> string \<Rightarrow> 'v \<Rightarrow> ('v, 'a) env \<Rightarrow> ('v, 'a) env" where
  "set_ctx r key val e =
     (case heap e r of None \<Rightarrow> e | Some c \<Rightarrow> e\<lparr>heap := (heap e)(r \<mapsto> Context_Set key val c)\<rparr>)"

definition alloc_ctx :: "'v Context \<Rightarrow> ('v, 'a) env \<Rightarrow> ctxref \<times> ('v, 'a) env" where
  "alloc_ctx c e = (next_ref e, e\<lparr>heap := (heap e)(next_ref e \<mapsto> c), next_ref := Suc (next_ref e)\<rparr>)"

lemma Context_Get_Set: "Context_Get (Context_Set k v c) k' = (if k' = k then Some v else Context_Get c k')"
  by (simp add: Context_Get_def Context_Set_def)

lemma Context_Set_ids [simp]:
  "ctx_Client (Context_Set k v c) = ctx_Client c"
  "FullPath (Context_Set k v c) = FullPath c"
  "params (Context_Set k v c) = params c"
  by (simp_all add: Context_Set_def)

lemma Client_Send_frame [simp]:
  "clients (snd (Client_Send cl m e)) = clients e"
  "heap (snd (Client_Send cl m e)) = heap e"
  "next_ref (snd (Client_Send cl m e)) = next_ref e"
  "app (snd (Client_Send cl m e)) = app e"
  "outbox (snd (Client_Send cl m e)) = outbox e @ [(client_Id cl, m)]"
  by (simp_all add: Client_Send_def)

lemma Context_Send_frame [simp]:
  "clients (snd (Context_Send c p e)) = clients e"
  "heap (snd (Context_Send c p e)) = heap e"
  "next_ref (snd (Context_Send c p e)) = next_ref e"
  "app (snd (Context_Send c p e)) = app e"
  "outbox (snd (Context_Send c p e)) = outbox e @ [(client_Id (ctx_Client c), frame c p)]"
  by (simp_all add: Context_Send_def)

lemma SendError_frame [simp]:
  "clients (snd (SendError c er e)) = clients e"
  "heap (snd (SendError c er e)) = heap e"
  "next_ref (snd (SendError c er e)) = next_ref e"
  "app (snd (SendError c er e)) = app e"
  "outbox (snd (SendError c er e)) = outbox e @ [(client_Id (ctx_Client c), frame c (enc_error er))]"
  by (simp_all add: SendError_def)

lemma set_ctx_frame [simp]:
  "clients (set_ctx r k v e) = clients e"
  "next_ref (set_ctx r k v e) = next_ref e"
  "outbox (set_ctx r k v e) = outbox e"
  "app (set_ctx r k v e) = app e"
  by (simp_all add: set_ctx_def split: option.splits)

subsection \<open>The interface of a store with string keys\<close>

locale keyed_store =
  fixes lookup :: "'s \<Rightarrow> 'k \<Rightarrow> 'w option"
    and insert_at :: "'k \<Rightarrow> 'w \<Rightarrow> 's \<Rightarrow> 's"
    and delete_at :: "'k \<Rightarrow> 's \<Rightarrow> 's"
    and empty_store :: 's
  assumes lookup_empty: "lookup empty_store k = None"
    and lookup_insert: "lookup (insert_at k w s) k' = (if k' = k then Some w else lookup s k')"
    and lookup_delete: "lookup (delete_at k s) k' = (if k' = k then None else lookup s k')"
begin

lemma insert_then_delete: "lookup (delete_at k (insert_at k w s)) k' = (if k' = k then None else lookup s k')"
  by (simp add: lookup_insert lookup_delete)

lemma other_key_untouched: "k' \<noteq> k \<Longrightarrow> lookup (insert_at k w s) k' = lookup s k'"
  "k' \<noteq> k \<Longrightarrow> lookup (delete_at k s) k' = lookup s k'"
  by (simp_all add: lookup_insert lookup_delete)

text \<open>What a sequence of inserts leaves at a key is the last value inserted there.\<close>

lemma lookup_inserts:
  "lookup (foldl (\<lambda>s (k, w). insert_at k w s) s ops) k =
     (case List.find (\<lambda>(k', w). k' = k) (rev ops) of
        Some (k', w) \<Rightarrow> Some w | None \<Rightarrow> lookup s k)"
  by (induction ops rule: rev_induct) (auto simp: lookup_insert split: option.splits)

lemma lookup_deletes:
  "lookup (foldl (\<lambda>s k. delete_at k s) s ks) k = (if k \<in> set ks then None else lookup s k)"
  by (induction ks rule: rev_induct) (auto simp: lookup_delete)

end

subsection \<open>Client store (client-store.go)\<close>

type_synonym 'v ClientStore = "string \<rightharpoonup> 'v Client"

text \<open>
  \<^verbatim>\<open>NextId\<close> draws UUIDs until one is free; the argument is the supply of the generator, and the
  result is the first free one and the rest of the supply, None if the supply has run out.
\<close>

fun NextId :: "'v ClientStore \<Rightarrow> string list \<Rightarrow> (string \<times> string list) option" where
  "NextId cs [] = None"
| "NextId cs (u # us) = (if cs u \<noteq> None then NextId cs us else Some (u, us))"

definition ClientStore_Join ::
    "'v Client \<Rightarrow> string list \<Rightarrow> 'v ClientStore \<Rightarrow> ('v Client \<times> string list \<times> 'v ClientStore) option" where
  "ClientStore_Join client us cs =
     (if client_Id client = [] then
        (case NextId cs us of
           None \<Rightarrow> None
         | Some (u, us') \<Rightarrow>
             (let client = client\<lparr>client_Id := u\<rparr> in Some (client, us', cs(u \<mapsto> client))))
      else Some (client, us, cs(client_Id client \<mapsto> client)))"

definition ClientStore_Exists :: "'v ClientStore \<Rightarrow> string \<Rightarrow> bool" where
  "ClientStore_Exists cs i \<longleftrightarrow> cs i \<noteq> None"

definition ClientStore_Get :: "'v ClientStore \<Rightarrow> string \<Rightarrow> 'v Client option" where
  "ClientStore_Get cs i = cs i"

definition ClientStore_Remove :: "string \<Rightarrow> 'v ClientStore \<Rightarrow> 'v ClientStore" where
  "ClientStore_Remove i cs = cs(i := None)"

lemma NextId_Some:
  "NextId cs us = Some (u, us') \<Longrightarrow> cs u = None \<and> u \<in> set us \<and> set us' \<subseteq> set us"
  by (induction cs us rule: NextId.induct) (auto split: if_splits)

lemma NextId_enough:
  "u \<in> set us \<Longrightarrow> cs u = None \<Longrightarrow> \<exists>v us'. NextId cs us = Some (v, us')"
  by (induction cs us rule: NextId.induct) auto

interpretation client_store: keyed_store
    "ClientStore_Get :: 'v ClientStore \<Rightarrow> _" "\<lambda>k w cs. cs(k \<mapsto> w)" ClientStore_Remove Map.empty
  by unfold_locales (simp_all add: ClientStore_Get_def ClientStore_Remove_def)

subsection \<open>Subscriber store (subscribers.go)\<close>

type_synonym ChannelSubscribers = "string \<rightharpoonup> ctxref"

definition createKey :: "string \<Rightarrow> string \<Rightarrow> string" where
  "createKey clientId path = clientId @ ''__'' @ path"

definition Subs_IsSubscribed :: "ChannelSubscribers \<Rightarrow> string \<Rightarrow> string \<Rightarrow> bool" where
  "Subs_IsSubscribed subs clientId path \<longleftrightarrow> subs (createKey clientId path) \<noteq> None"

definition Subs_GetContext :: "ChannelSubscribers \<Rightarrow> string \<Rightarrow> string \<Rightarrow> ctxref option" where
  "Subs_GetContext subs clientId path = subs (createKey clientId path)"

definition Subs_Add :: "'v Context \<Rightarrow> ctxref \<Rightarrow> ChannelSubscribers \<Rightarrow> ChannelSubscribers" where
  "Subs_Add c r subs = subs(createKey (client_Id (ctx_Client c)) (FullPath c) \<mapsto> r)"

definition Subs_Remove :: "string \<Rightarrow> string \<Rightarrow> ChannelSubscribers \<Rightarrow> ChannelSubscribers" where
  "Subs_Remove clientId path subs = subs(createKey clientId path := None)"

text \<open>
  The loop of \<^verbatim>\<open>RemoveAllPaths\<close> over the keys \<open>ks\<close> of the map, deleting while it ranges: the
  remaining map and the contexts removed, in the order of the iteration.
\<close>

definition owned_by :: "(ctxref \<rightharpoonup> 'v Context) \<Rightarrow> string \<Rightarrow> ctxref \<Rightarrow> bool" where
  "owned_by h clientId r \<longleftrightarrow>
     (case h r of None \<Rightarrow> False | Some c \<Rightarrow> client_Id (ctx_Client c) = clientId)"

fun Subs_RemoveAllPaths ::
    "(ctxref \<rightharpoonup> 'v Context) \<Rightarrow> string list \<Rightarrow> string \<Rightarrow> ChannelSubscribers \<Rightarrow>
     ChannelSubscribers \<times> ctxref list" where
  "Subs_RemoveAllPaths h [] clientId subs = (subs, [])"
| "Subs_RemoveAllPaths h (k # ks) clientId subs =
     (case subs k of
        None \<Rightarrow> Subs_RemoveAllPaths h ks clientId subs
      | Some r \<Rightarrow>
          (if owned_by h clientId r
           then (let rest = Subs_RemoveAllPaths h ks clientId (subs(k := None))
                 in (fst rest, r # snd rest))
           else Subs_RemoveAllPaths h ks clientId subs))"

text \<open>
  The generated identifiers are UUIDs, which hold no underscore; for them the key determines
  client and path.
\<close>

definition uuid_like :: "string \<Rightarrow> bool" where
  "uuid_like s \<longleftrightarrow> CHR ''_'' \<notin> set s"

lemma createKey_inj:
  assumes "uuid_like i" and "uuid_like j" and "createKey i p = createKey j q"
  shows "i = j \<and> p = q"
  using assms
proof (induction i arbitrary: j)
  case Nil
  then show ?case by (cases j) (auto simp: createKey_def uuid_like_def)
next
  case (Cons x xs)
  then show ?case by (cases j) (auto simp: createKey_def uuid_like_def)
qed

text \<open>Seen as a store keyed by client and path, the subscriber store obeys the interface.\<close>

definition subs_at :: "ChannelSubscribers \<Rightarrow> string \<Rightarrow> ctxref option" where
  "subs_at subs k = subs k"

interpretation subscriber_store: keyed_store
    subs_at "\<lambda>k r subs. subs(k \<mapsto> r)" "\<lambda>k subs. subs(k := None)" Map.empty
  by unfold_locales (simp_all add: subs_at_def)

lemma GetContext_Add:
  "uuid_like (client_Id (ctx_Client c)) \<Longrightarrow> uuid_like i \<Longrightarrow>
   Subs_GetContext (Subs_Add c r subs) i p =
     (if i = client_Id (ctx_Client c) \<and> p = FullPath c then Some r else Subs_GetContext subs i p)"
  by (auto simp: Subs_GetContext_def Subs_Add_def dest: createKey_inj)

lemma GetContext_Remove:
  "uuid_like i \<Longrightarrow> uuid_like j \<Longrightarrow>
   Subs_GetContext (Subs_Remove i p subs) j q =
     (if j = i \<and> q = p then None else Subs_GetContext subs j q)"
  by (auto simp: Subs_GetContext_def Subs_Remove_def dest: createKey_inj)

lemma IsSubscribed_GetContext: "Subs_IsSubscribed subs i p \<longleftrightarrow> Subs_GetContext subs i p \<noteq> None"
  by (simp add: Subs_IsSubscribed_def Subs_GetContext_def)

text \<open>The whole iteration: exactly the client's entries go, whatever the order.\<close>

definition without_client :: "(ctxref \<rightharpoonup> 'v Context) \<Rightarrow> string \<Rightarrow> ChannelSubscribers \<Rightarrow> ChannelSubscribers" where
  "without_client h i subs =
     (\<lambda>k. case subs k of None \<Rightarrow> None | Some r \<Rightarrow> if owned_by h i r then None else Some r)"

lemma RemoveAllPaths_partial:
  "fst (Subs_RemoveAllPaths h ks i subs) =
     (\<lambda>k. if k \<in> set ks then without_client h i subs k else subs k)"
proof (induction ks arbitrary: subs)
  case Nil
  then show ?case by simp
next
  case (Cons k ks)
  then show ?case
    by (auto simp: without_client_def fun_eq_iff Let_def split: option.splits)
qed

lemma RemoveAllPaths_subs:
  "dom subs \<subseteq> set ks \<Longrightarrow> fst (Subs_RemoveAllPaths h ks i subs) = without_client h i subs"
  by (auto simp: RemoveAllPaths_partial fun_eq_iff without_client_def split: option.splits)

lemma RemoveAllPaths_removed:
  "distinct ks \<Longrightarrow> snd (Subs_RemoveAllPaths h ks i subs) =
     filter (owned_by h i) (List.map_filter subs ks)"
proof (induction ks arbitrary: subs)
  case Nil
  then show ?case by simp
next
  case (Cons k ks)
  have other: "List.map_filter (subs(k := None)) ks = List.map_filter subs ks"
    by (rule map_filter_cong) (use Cons.prems in auto)
  show ?case
  proof (cases "subs k")
    case None
    with Cons show ?thesis by simp
  next
    case (Some r)
    have rest: "snd (Subs_RemoveAllPaths h ks i s) = filter (owned_by h i) (List.map_filter s ks)" for s
      using Cons.IH [of s] Cons.prems by simp
    show ?thesis
      by (simp add: Some Let_def rest other)
  qed
qed

end
