(* ===== verification/RT_Channel.thy ===== *)
theory RT_Channel
  imports RT_Subscribers
begin

text \<open>
  \<^verbatim>\<open>src/tools/realtime/channel.go\<close>: a channel is a path pattern (segments that start with a
  colon are parameters), its handlers and its subscribers. A handler is a function of the
  environment; a handler the Go struct leaves nil is None. A middleware returns an error or
  None. The lemmas characterise path matching, show what a rejected and an accepted
  subscription do, and which handlers an unsubscription calls.
\<close>

type_synonym ('v, 'a) SubscriptionMiddleware =
  "ctxref \<Rightarrow> ('v, 'a) env \<Rightarrow> Error option \<times> ('v, 'a) env"
type_synonym ('v, 'a) EventHandlerFunc = "ctxref \<Rightarrow> ('v, 'a) env \<Rightarrow> ('v, 'a) env"
type_synonym ('v, 'a) MessageHandlerFunc = "ctxref \<Rightarrow> Message \<Rightarrow> ('v, 'a) env \<Rightarrow> ('v, 'a) env"

record ('v, 'a) ChannelHandlers =
  OnSubscribe :: "('v, 'a) EventHandlerFunc option"
  OnUnsubscribe :: "('v, 'a) EventHandlerFunc option"
  OnMessage :: "('v, 'a) MessageHandlerFunc option"
  SubscriptionMiddlewares :: "('v, 'a) SubscriptionMiddleware list"

record ('v, 'a) Channel =
  path :: "string list"
  handlers :: "('v, 'a) ChannelHandlers"
  subscribers :: ChannelSubscribers

subsection \<open>Path matching\<close>

text \<open>
  The loop of \<^verbatim>\<open>PathMatches\<close> over the segments of the pattern and of the path. Indexing the first
  byte of an empty pattern segment panics.
\<close>

fun match_parts ::
    "string list \<Rightarrow> string list \<Rightarrow> (string \<rightharpoonup> string) \<Rightarrow> (bool \<times> (string \<rightharpoonup> string)) outcome" where
  "match_parts (p # ps) (s # ss) prms =
     (if p = s then match_parts ps ss prms
      else if p = [] then Panics IndexOutOfRange
      else if hd p = CHR '':'' then match_parts ps ss (prms(tl p \<mapsto> s))
      else Returns (False, Map.empty))"
| "match_parts ps ss prms = Returns (True, prms)"

definition channelPathSep :: string where "channelPathSep = ''/''"

definition PathMatches ::
    "('v, 'a) Channel \<Rightarrow> string \<Rightarrow> (bool \<times> (string \<rightharpoonup> string)) outcome" where
  "PathMatches c p =
     (let parts = go_split p channelPathSep in
      if length (path c) \<noteq> length parts then Returns (False, Map.empty)
      else match_parts (path c) parts Map.empty)"

definition is_param :: "string \<Rightarrow> bool" where
  "is_param p \<longleftrightarrow> p \<noteq> [] \<and> hd p = CHR '':''"

definition seg_matches :: "string \<Rightarrow> string \<Rightarrow> bool" where
  "seg_matches p s \<longleftrightarrow> p = s \<or> is_param p"

definition wf_pattern :: "string list \<Rightarrow> bool" where
  "wf_pattern ps \<longleftrightarrow> [] \<notin> set ps"

lemma match_parts_no_panic:
  "length ps = length ss \<Longrightarrow> wf_pattern ps \<Longrightarrow> \<not> panics (match_parts ps ss prms)"
  by (induction ps ss arbitrary: prms rule: list_induct2) (auto simp: wf_pattern_def)

lemma match_parts_true:
  "length ps = length ss \<Longrightarrow> wf_pattern ps \<Longrightarrow>
   (\<exists>prms'. match_parts ps ss prms = Returns (True, prms')) \<longleftrightarrow> list_all2 seg_matches ps ss"
  by (induction ps ss arbitrary: prms rule: list_induct2)
     (auto simp: wf_pattern_def seg_matches_def is_param_def)

lemma PathMatches_wf:
  assumes "wf_pattern (path c)"
  shows "(\<exists>prms. PathMatches c p = Returns (True, prms)) \<longleftrightarrow>
         list_all2 seg_matches (path c) (go_split p ''/'')"
proof (cases "length (path c) = length (go_split p ''/'')")
  case True
  with match_parts_true [OF True assms] show ?thesis
    by (simp add: PathMatches_def channelPathSep_def Let_def)
next
  case False
  then show ?thesis
    by (auto simp: PathMatches_def channelPathSep_def Let_def dest: list_all2_lengthD)
qed

lemma PathMatches_no_panic: "wf_pattern (path c) \<Longrightarrow> \<not> panics (PathMatches c p)"
  by (simp add: PathMatches_def Let_def match_parts_no_panic)

text \<open>
  The parameters read back: putting them into the pattern gives the segments of the path,
  when no parameter name occurs twice in the pattern.
\<close>

definition param_names :: "string list \<Rightarrow> string list" where
  "param_names ps = map tl (filter is_param ps)"

definition fill :: "(string \<rightharpoonup> string) \<Rightarrow> string \<Rightarrow> string" where
  "fill prms p = (case prms (tl p) of Some v \<Rightarrow> if is_param p then v else p | None \<Rightarrow> p)"

lemma match_parts_keep:
  "length ps = length ss \<Longrightarrow> match_parts ps ss prms = Returns (True, prms') \<Longrightarrow>
   k \<notin> set (param_names ps) \<Longrightarrow> prms' k = prms k"
proof (induction ps ss arbitrary: prms rule: list_induct2)
  case Nil
  then show ?case by simp
next
  case (Cons p ps s ss)
  then show ?case
    by (auto simp: param_names_def is_param_def split: if_splits)
qed

lemma match_parts_fill:
  assumes "length ps = length ss" and "match_parts ps ss prms = Returns (True, prms')"
    and "distinct (param_names ps)" and "\<And>p. p \<in> set (param_names ps) \<Longrightarrow> prms p = None"
  shows "map (fill prms') ps = ss"
  using assms
proof (induction ps ss arbitrary: prms rule: list_induct2)
  case Nil
  then show ?case by simp
next
  case (Cons p ps s ss)
  show ?case
  proof (cases "p = s")
    case True
    with Cons.prems have rest: "match_parts ps ss prms = Returns (True, prms')" by simp
    have keep: "prms' (tl p) = None" if "is_param p"
    proof -
      from that Cons.prems(2) have "tl p \<notin> set (param_names ps)" and "tl p \<in> set (param_names (p # ps))"
        by (auto simp: param_names_def)
      with match_parts_keep [OF Cons.hyps rest] Cons.prems(3) show ?thesis by simp
    qed
    have "map (fill prms') ps = ss"
      by (rule Cons.IH [OF rest]) (use Cons.prems in \<open>auto simp: param_names_def split: if_splits\<close>)
    moreover have "fill prms' p = s" using keep True by (auto simp: fill_def split: option.splits)
    ultimately show ?thesis by simp
  next
    case False
    with Cons.prems have par: "is_param p" and
      rest: "match_parts ps ss (prms(tl p \<mapsto> s)) = Returns (True, prms')"
      by (auto simp: is_param_def split: if_splits)
    from par Cons.prems(2) have no: "tl p \<notin> set (param_names ps)" "distinct (param_names ps)"
      by (auto simp: param_names_def)
    moreover have "(prms(tl p \<mapsto> s)) q = None" if "q \<in> set (param_names ps)" for q
    proof -
      have "q \<noteq> tl p" using that \<open>tl p \<notin> set (param_names ps)\<close> by auto
      moreover have "prms q = None" using Cons.prems(3) [of q] that by (simp add: param_names_def)
      ultimately show ?thesis by simp
    qed
    ultimately have "map (fill prms') ps = ss"
      using Cons.IH [OF rest] by blast
    moreover have "prms' (tl p) = Some s"
      using match_parts_keep [OF Cons.hyps rest \<open>tl p \<notin> set (param_names ps)\<close>] by simp
    ultimately have "fill prms' p = s" "map (fill prms') ps = ss"
      using par by (simp_all add: fill_def)
    then show ?thesis by simp
  qed
qed

subsection \<open>Operations of a channel\<close>

fun run_middlewares ::
    "('v, 'a) SubscriptionMiddleware list \<Rightarrow> ctxref \<Rightarrow> ('v, 'a) env \<Rightarrow> Error option \<times> ('v, 'a) env" where
  "run_middlewares [] r e = (None, e)"
| "run_middlewares (m # ms) r e =
     (let res = m r e in
      case fst res of Some err \<Rightarrow> (Some err, snd res) | None \<Rightarrow> run_middlewares ms r (snd res))"

definition call :: "('v, 'a) EventHandlerFunc option \<Rightarrow> ctxref \<Rightarrow> ('v, 'a) env \<Rightarrow> ('v, 'a) env" where
  "call h r e = (case h of None \<Rightarrow> e | Some f \<Rightarrow> f r e)"

definition send_error_to :: "ctxref \<Rightarrow> Error \<Rightarrow> ('v, 'a) env \<Rightarrow> ('v, 'a) env" where
  "send_error_to r err e =
     (case heap e r of None \<Rightarrow> e | Some c \<Rightarrow> snd (SendError c err e))"

definition Channel_Subscribe ::
    "ctxref \<Rightarrow> ('v, 'a) Channel \<Rightarrow> ('v, 'a) env \<Rightarrow> ('v, 'a) Channel \<times> ('v, 'a) env" where
  "Channel_Subscribe r c e =
     (let res = run_middlewares (SubscriptionMiddlewares (handlers c)) r e in
      case fst res of
        Some err \<Rightarrow> (c, send_error_to r err (snd res))
      | None \<Rightarrow>
        (let e = snd res;
             c' = (case heap e r of
                     None \<Rightarrow> c
                   | Some ctx \<Rightarrow> c\<lparr>subscribers := Subs_Add ctx r (subscribers c)\<rparr>)
         in (c', call (OnSubscribe (handlers c)) r e)))"

definition HandleMessage ::
    "('v, 'a) Channel \<Rightarrow> 'v Client \<Rightarrow> Message \<Rightarrow> ('v, 'a) env \<Rightarrow> ('v, 'a) env" where
  "HandleMessage c client message e =
     (case OnMessage (handlers c) of
        None \<Rightarrow> e
      | Some f \<Rightarrow>
        (case Subs_GetContext (subscribers c) (client_Id client) (msg_Channel message) of
           Some ctx \<Rightarrow> f ctx message e
         | None \<Rightarrow> e))"

definition Channel_IsSubscribed :: "('v, 'a) Channel \<Rightarrow> string \<Rightarrow> string \<Rightarrow> bool" where
  "Channel_IsSubscribed c clientId p = Subs_IsSubscribed (subscribers c) clientId p"

definition FindContext :: "('v, 'a) Channel \<Rightarrow> string \<Rightarrow> string \<Rightarrow> ctxref option" where
  "FindContext c clientId p = Subs_GetContext (subscribers c) clientId p"

definition Channel_Unsubscribe ::
    "string \<Rightarrow> string \<Rightarrow> ('v, 'a) Channel \<Rightarrow> ('v, 'a) env \<Rightarrow> bool \<times> ('v, 'a) Channel \<times> ('v, 'a) env" where
  "Channel_Unsubscribe clientId p c e =
     (case Subs_GetContext (subscribers c) clientId p of
        None \<Rightarrow> (False, c, e)
      | Some ctx \<Rightarrow>
        (True, c\<lparr>subscribers := Subs_Remove clientId p (subscribers c)\<rparr>,
         call (OnUnsubscribe (handlers c)) ctx e))"

definition UnsubscribeAllPaths ::
    "string list \<Rightarrow> string \<Rightarrow> ('v, 'a) Channel \<Rightarrow> ('v, 'a) env \<Rightarrow> bool \<times> ('v, 'a) Channel \<times> ('v, 'a) env" where
  "UnsubscribeAllPaths ks clientId c e =
     (let res = Subs_RemoveAllPaths (heap e) ks clientId (subscribers c);
          c' = c\<lparr>subscribers := fst res\<rparr>
      in (True, c', (if OnUnsubscribe (handlers c) \<noteq> None
                     then foldl (\<lambda>e r. call (OnUnsubscribe (handlers c)) r e) e (snd res)
                     else e)))"

subsection \<open>The contract of the handlers\<close>

text \<open>
  What the realtime component relies on: a handler leaves the client store and the allocation
  pointer alone, keeps every context allocated, and never changes whose context it is.
  (Handlers of the application set properties, send frames and write their own state.)
\<close>

definition ctx_id :: "'v Context \<Rightarrow> 'v Client \<times> string \<times> (string \<rightharpoonup> string)" where
  "ctx_id c = (ctx_Client c, FullPath c, params c)"

definition heap_ids ::
    "('v, 'a) env \<Rightarrow> (ctxref \<rightharpoonup> 'v Client \<times> string \<times> (string \<rightharpoonup> string))" where
  "heap_ids e r = map_option ctx_id (heap e r)"

definition same_ids :: "('v, 'a) env \<Rightarrow> ('v, 'a) env \<Rightarrow> bool" where
  "same_ids e e' \<longleftrightarrow>
     clients e' = clients e \<and> next_ref e' = next_ref e \<and> heap_ids e' = heap_ids e"

lemma same_ids_refl [simp, intro]: "same_ids e e"
  by (simp add: same_ids_def)

lemma same_ids_trans: "same_ids e1 e2 \<Longrightarrow> same_ids e2 e3 \<Longrightarrow> same_ids e1 e3"
  by (simp add: same_ids_def)

lemma same_ids_lookup:
  assumes "same_ids e e'" and "heap e r = Some c"
  obtains c' where "heap e' r = Some c'" and "ctx_Client c' = ctx_Client c"
    and "FullPath c' = FullPath c" and "params c' = params c"
proof -
  from assms have "heap_ids e' r = Some (ctx_id c)" by (simp add: same_ids_def heap_ids_def)
  then show ?thesis using that by (auto simp: heap_ids_def ctx_id_def)
qed

lemma same_ids_heapI:
  "clients e' = clients e \<Longrightarrow> next_ref e' = next_ref e \<Longrightarrow> heap e' = heap e \<Longrightarrow> same_ids e e'"
  by (simp add: same_ids_def heap_ids_def fun_eq_iff)

lemma same_ids_outbox [simp]: "same_ids e (e\<lparr>outbox := ob\<rparr>)" "same_ids e (e\<lparr>app := a\<rparr>)"
  by (simp_all add: same_ids_heapI)

lemma same_ids_send [simp]:
  "same_ids e (snd (Client_Send cl m e))"
  "same_ids e (snd (Context_Send c p e))"
  "same_ids e (snd (SendError c er e))"
  by (simp_all add: same_ids_heapI)

lemma same_ids_set_ctx [simp]: "same_ids e (set_ctx r k v e)"
  by (simp add: same_ids_def heap_ids_def set_ctx_def ctx_id_def fun_eq_iff split: option.splits)

lemma same_ids_send_error_to [simp]: "same_ids e (send_error_to r err e)"
  by (simp add: send_error_to_def split: option.splits)

definition good_handlers :: "('v, 'a) ChannelHandlers \<Rightarrow> bool" where
  "good_handlers h \<longleftrightarrow>
     (\<forall>f. OnSubscribe h = Some f \<longrightarrow> (\<forall>r e. same_ids e (f r e))) \<and>
     (\<forall>f. OnUnsubscribe h = Some f \<longrightarrow> (\<forall>r e. same_ids e (f r e))) \<and>
     (\<forall>f. OnMessage h = Some f \<longrightarrow> (\<forall>r m e. same_ids e (f r m e))) \<and>
     (\<forall>m \<in> set (SubscriptionMiddlewares h). \<forall>r e. same_ids e (snd (m r e)))"

lemma good_run_middlewares:
  "(\<And>m r e. m \<in> set ms \<Longrightarrow> same_ids e (snd (m r e))) \<Longrightarrow> same_ids e (snd (run_middlewares ms r e))"
proof (induction ms arbitrary: e)
  case (Cons m ms)
  have "same_ids e (snd (m r e))" using Cons.prems by simp
  moreover have "same_ids (snd (m r e)) (snd (run_middlewares ms r (snd (m r e))))"
    using Cons by simp
  ultimately show ?case
    by (auto simp: Let_def split: option.splits intro: same_ids_trans)
qed simp

lemma good_call: "good_handlers h \<Longrightarrow> same_ids e (call (OnSubscribe h) r e)"
  "good_handlers h \<Longrightarrow> same_ids e (call (OnUnsubscribe h) r e)"
  by (auto simp: good_handlers_def call_def split: option.splits)

lemma good_foldl_call:
  "good_handlers h \<Longrightarrow> same_ids e (foldl (\<lambda>e r. call (OnUnsubscribe h) r e) e rs)"
proof (induction rs rule: rev_induct)
  case (snoc r rs)
  then show ?case using good_call(2) by (auto intro: same_ids_trans)
qed simp

lemma Channel_Subscribe_same_ids:
  assumes "good_handlers (handlers c)"
  shows "same_ids e (snd (Channel_Subscribe r c e))"
proof -
  define res where "res = run_middlewares (SubscriptionMiddlewares (handlers c)) r e"
  have mid: "same_ids e (snd res)" unfolding res_def
    by (rule good_run_middlewares) (use assms in \<open>auto simp: good_handlers_def\<close>)
  show ?thesis
  proof (cases "fst res")
    case None
    then have "snd (Channel_Subscribe r c e) = call (OnSubscribe (handlers c)) r (snd res)"
      by (simp add: Channel_Subscribe_def Let_def flip: res_def)
    with mid good_call(1) [OF assms] show ?thesis by (metis same_ids_trans)
  next
    case (Some err)
    then have "snd (Channel_Subscribe r c e) = send_error_to r err (snd res)"
      by (simp add: Channel_Subscribe_def Let_def flip: res_def)
    with mid show ?thesis by (metis same_ids_trans same_ids_send_error_to)
  qed
qed

lemma HandleMessage_same_ids:
  "good_handlers (handlers c) \<Longrightarrow> same_ids e (HandleMessage c cl m e)"
  by (auto simp: HandleMessage_def good_handlers_def split: option.splits)

lemma Channel_Unsubscribe_same_ids:
  "good_handlers (handlers c) \<Longrightarrow> same_ids e (snd (snd (Channel_Unsubscribe i p c e)))"
  by (auto simp: Channel_Unsubscribe_def good_call split: option.splits)

lemma UnsubscribeAllPaths_same_ids:
  "good_handlers (handlers c) \<Longrightarrow> same_ids e (snd (snd (UnsubscribeAllPaths ks i c e)))"
  by (auto simp: UnsubscribeAllPaths_def Let_def good_foldl_call)

end
