(* ===== verification/RT_Hub.thy ===== *)
theory RT_Hub
  imports RT_Channel
begin

text \<open>
  \<^verbatim>\<open>channel_store.go\<close>, \<^verbatim>\<open>connector.go\<close> and \<^verbatim>\<open>realtime.go\<close>: the registered channels, the
  connections, and the handlers of the websocket events. A channel is named by the path it was
  registered under. A nil client, an empty pattern segment and the like panic, so the
  operations return an \<open>outcome\<close>. Ranging over the channel map takes an order (\<open>cs\<close>), ranging
  over the subscribers of the channel \<open>p\<close> the order \<open>ko p\<close>.

  The step relation \<open>hub_step\<close> is the component seen from outside: channels are registered,
  connections open, send messages and close, one event at a time. Its invariant
  (\<open>hub_inv\<close>) says that every subscription belongs to a connected client and is stored under
  that client's key.
\<close>

record ('v, 'a) hub =
  channels :: "string \<rightharpoonup> ('v, 'a) Channel"
  env :: "('v, 'a) env"

subsection \<open>Channel store\<close>

definition Register :: "string \<Rightarrow> ('v, 'a) ChannelHandlers \<Rightarrow> ('v, 'a) hub \<Rightarrow> ('v, 'a) hub" where
  "Register p hs h =
     h\<lparr>channels := (channels h)(p \<mapsto>
         \<lparr>path = go_split p channelPathSep, handlers = hs, subscribers = Map.empty\<rparr>)\<rparr>"

fun Get_loop ::
    "string list \<Rightarrow> (string \<rightharpoonup> ('v, 'a) Channel) \<Rightarrow> string \<Rightarrow>
     (string \<times> (string \<rightharpoonup> string)) option outcome" where
  "Get_loop [] chans p = Returns None"
| "Get_loop (k # ks) chans p =
     (case chans k of
        None \<Rightarrow> Get_loop ks chans p
      | Some c \<Rightarrow>
          outcome_bind (PathMatches c p) (\<lambda>m.
            if fst m then Returns (Some (k, snd m)) else Get_loop ks chans p))"

definition Store_Get ::
    "string list \<Rightarrow> (string \<rightharpoonup> ('v, 'a) Channel) \<Rightarrow> string \<Rightarrow>
     (string \<times> (string \<rightharpoonup> string)) option outcome" where
  "Store_Get cs chans p =
     (if chans p \<noteq> None then Returns (Some (p, Map.empty)) else Get_loop cs chans p)"

definition with_channel :: "string \<Rightarrow> ('v, 'a) Channel \<Rightarrow> ('v, 'a) env \<Rightarrow> ('v, 'a) hub \<Rightarrow> ('v, 'a) hub" where
  "with_channel k c e h = h\<lparr>channels := (channels h)(k \<mapsto> c), env := e\<rparr>"

definition Store_Subscribe ::
    "string list \<Rightarrow> 'v Client \<Rightarrow> string \<Rightarrow> ('v, 'a) hub \<Rightarrow> (bool \<times> ('v, 'a) hub) outcome" where
  "Store_Subscribe cs client channelPath h =
     outcome_bind (Store_Get cs (channels h) channelPath) (\<lambda>g.
       case g of
         None \<Rightarrow> Returns (False, h)
       | Some (k, prms) \<Rightarrow>
         (case channels h k of
            None \<Rightarrow> Returns (False, h)
          | Some c \<Rightarrow>
            (let (r, e) = alloc_ctx \<lparr>ctx_Client = client, FullPath = channelPath, params = prms,
                                    ctx_properties = Map.empty\<rparr> (env h);
                 res = Channel_Subscribe r c e
             in Returns (True, with_channel k (fst res) (snd res) h))))"

definition Store_Unsubscribe ::
    "string list \<Rightarrow> string \<Rightarrow> string \<Rightarrow> ('v, 'a) hub \<Rightarrow> (bool \<times> ('v, 'a) hub) outcome" where
  "Store_Unsubscribe cs clientId channelPath h =
     outcome_bind (Store_Get cs (channels h) channelPath) (\<lambda>g.
       case g of
         None \<Rightarrow> Returns (False, h)
       | Some (k, prms) \<Rightarrow>
         (case channels h k of
            None \<Rightarrow> Returns (False, h)
          | Some c \<Rightarrow>
            (let res = Channel_Unsubscribe clientId channelPath c (env h)
             in Returns (fst res, with_channel k (fst (snd res)) (snd (snd res)) h))))"

definition unsubscribe_one ::
    "(string \<Rightarrow> string list) \<Rightarrow> string \<Rightarrow> ('v, 'a) hub \<Rightarrow> string \<Rightarrow> ('v, 'a) hub" where
  "unsubscribe_one ko clientId h k =
     (case channels h k of
        None \<Rightarrow> h
      | Some c \<Rightarrow>
        (let res = UnsubscribeAllPaths (ko k) clientId c (env h)
         in with_channel k (fst (snd res)) (snd (snd res)) h))"

definition UnsubscribeAll ::
    "string list \<Rightarrow> (string \<Rightarrow> string list) \<Rightarrow> string \<Rightarrow> ('v, 'a) hub \<Rightarrow> ('v, 'a) hub" where
  "UnsubscribeAll cs ko clientId h = foldl (unsubscribe_one ko clientId) h cs"

definition Store_OnMessage ::
    "string list \<Rightarrow> 'v Client option \<Rightarrow> Message \<Rightarrow> ('v, 'a) hub \<Rightarrow> ('v, 'a) hub outcome" where
  "Store_OnMessage cs client message h =
     outcome_bind (Store_Get cs (channels h) (msg_Channel message)) (\<lambda>g.
       case g of
         None \<Rightarrow> Returns h
       | Some (k, prms) \<Rightarrow>
         (case channels h k of
            None \<Rightarrow> Returns h
          | Some c \<Rightarrow>
            (if OnMessage (handlers c) = None then Returns h
             else case client of
                    None \<Rightarrow> Panics NilDereference
                  | Some cl \<Rightarrow> Returns (h\<lparr>env := HandleMessage c cl message (env h)\<rparr>))))"

subsection \<open>Connector and realtime\<close>

text \<open>
  \<^verbatim>\<open>New\<close> hooks the three handlers below into the connector, so they are called here directly;
  the connect handler does nothing.
\<close>

definition Connector_Join ::
    "(Message \<Rightarrow> string option) \<Rightarrow> (string \<rightharpoonup> 'v) \<Rightarrow> string list \<Rightarrow> ('v, 'a) hub \<Rightarrow>
     ('v Client \<times> string list \<times> ('v, 'a) hub) option" where
  "Connector_Join send properties us h =
     (case ClientStore_Join (NewClient send properties) us (clients (env h)) of
        None \<Rightarrow> None
      | Some (client, us', cl) \<Rightarrow> Some (client, us', h\<lparr>env := (env h)\<lparr>clients := cl\<rparr>\<rparr>))"

definition message_fields :: "Message fields" where
  "message_fields =
     [(''type'', \<lambda>j r. map_option (\<lambda>v. r\<lparr>msg_Type := v\<rparr>) (dec_string j (msg_Type r))),
      (''channel'', \<lambda>j r. map_option (\<lambda>v. r\<lparr>msg_Channel := v\<rparr>) (dec_string j (msg_Channel r))),
      (''payload'', \<lambda>j r. Some (r\<lparr>msg_Payload := Some j\<rparr>))]"

definition zero_Message :: Message where
  "zero_Message = \<lparr>msg_Type = [], msg_Channel = [], msg_Payload = None\<rparr>"

definition messageHandler ::
    "string list \<Rightarrow> 'v Client option \<Rightarrow> json_text \<Rightarrow> ('v, 'a) hub \<Rightarrow> ('v, 'a) hub outcome" where
  "messageHandler cs client msg h =
     (case unmarshal (dec_struct message_fields) msg zero_Message of
        None \<Rightarrow> Returns h
      | Some req \<Rightarrow>
        (if msg_Type req = MessageTypeSubscribe then
           (case client of
              Some cl \<Rightarrow> outcome_bind (Store_Subscribe cs cl (msg_Channel req) h) (\<lambda>x. Returns (snd x))
            | None \<Rightarrow> outcome_bind (Store_Get cs (channels h) (msg_Channel req)) (\<lambda>g.
                        if g = None then Returns h else Panics NilDereference))
         else if msg_Type req = MessageTypeUnsubscribe then
           (case client of
              Some cl \<Rightarrow>
                outcome_bind (Store_Unsubscribe cs (client_Id cl) (msg_Channel req) h)
                  (\<lambda>x. Returns (snd x))
            | None \<Rightarrow> Panics NilDereference)
         else if msg_Type req = MessageTypeChannelMessage then Store_OnMessage cs client req h
         else Returns h))"

definition Connector_Message ::
    "string list \<Rightarrow> string \<Rightarrow> json_text \<Rightarrow> ('v, 'a) hub \<Rightarrow> ('v, 'a) hub outcome" where
  "Connector_Message cs clientId data h =
     messageHandler cs (ClientStore_Get (clients (env h)) clientId) data h"

definition Connector_Leave ::
    "string list \<Rightarrow> (string \<Rightarrow> string list) \<Rightarrow> string \<Rightarrow> ('v, 'a) hub \<Rightarrow> ('v, 'a) hub outcome" where
  "Connector_Leave cs ko clientId h =
     (case ClientStore_Get (clients (env h)) clientId of
        None \<Rightarrow> Panics NilDereference
      | Some client \<Rightarrow>
        (let h = UnsubscribeAll cs ko (client_Id client) h
         in Returns (h\<lparr>env := (env h)\<lparr>clients :=
              ClientStore_Remove (client_Id client) (clients (env h))\<rparr>\<rparr>)))"

definition IsConnected :: "('v, 'a) env \<Rightarrow> string \<Rightarrow> bool" where
  "IsConnected e clientId = ClientStore_Exists (clients e) clientId"

definition Realtime_IsSubscribed ::
    "string list \<Rightarrow> string \<Rightarrow> string \<Rightarrow> ('v, 'a) hub \<Rightarrow> bool outcome" where
  "Realtime_IsSubscribed cs channelPath clientId h =
     outcome_bind (Store_Get cs (channels h) channelPath) (\<lambda>g.
       case g of
         None \<Rightarrow> Returns False
       | Some (k, prms) \<Rightarrow>
         (case channels h k of
            None \<Rightarrow> Returns False
          | Some c \<Rightarrow> Returns (Channel_IsSubscribed c clientId channelPath)))"

definition Realtime_Send ::
    "string list \<Rightarrow> string \<Rightarrow> string \<Rightarrow> json \<Rightarrow> ('v, 'a) hub \<Rightarrow>
     (string option \<times> ('v, 'a) hub) outcome" where
  "Realtime_Send cs channelPath clientId payload h =
     outcome_bind (Store_Get cs (channels h) channelPath) (\<lambda>g.
       case Option.bind g (\<lambda>(k, prms). channels h k) of
         None \<Rightarrow> Returns (Some ''channel does not exists'', h)
       | Some c \<Rightarrow>
         (case Option.bind (FindContext c clientId channelPath) (heap (env h)) of
            None \<Rightarrow> Returns (Some ''user not subscribed to channel'', h)
          | Some ctx \<Rightarrow>
            (let res = Context_Send ctx payload (env h)
             in Returns (fst res, h\<lparr>env := snd res\<rparr>))))"

definition CloseAll ::
    "string list \<Rightarrow> (string \<Rightarrow> string list) \<Rightarrow> string list \<Rightarrow> ('v, 'a) hub \<Rightarrow> ('v, 'a) hub" where
  "CloseAll cs ko ids h = foldl (\<lambda>h i. UnsubscribeAll cs ko i h) h ids"

subsection \<open>Lookup\<close>

definition wf_channels :: "(string \<rightharpoonup> ('v, 'a) Channel) \<Rightarrow> bool" where
  "wf_channels chans \<longleftrightarrow> (\<forall>k c. chans k = Some c \<longrightarrow> wf_pattern (path c))"

lemma Get_loop_no_panic: "wf_channels chans \<Longrightarrow> \<not> panics (Get_loop cs chans p)"
proof (induction cs)
  case (Cons k cs)
  then show ?case
    by (auto simp: panics_bind wf_channels_def PathMatches_no_panic split: option.splits)
qed simp

lemma Store_Get_no_panic: "wf_channels chans \<Longrightarrow> \<not> panics (Store_Get cs chans p)"
  by (simp add: Store_Get_def Get_loop_no_panic)

lemma Get_loop_SomeD:
  "Get_loop cs chans p = Returns (Some (k, prms)) \<Longrightarrow>
   k \<in> set cs \<and> (\<exists>c. chans k = Some c \<and> PathMatches c p = Returns (True, prms))"
proof (induction cs)
  case (Cons k' cs)
  show ?case
  proof (cases "chans k'")
    case None
    with Cons show ?thesis by auto
  next
    case (Some c)
    with Cons show ?thesis
      by (cases "PathMatches c p") (auto split: if_splits)
  qed
qed simp

lemma Store_Get_SomeD: "Store_Get cs chans p = Returns (Some (k, prms)) \<Longrightarrow> \<exists>c. chans k = Some c"
  by (auto simp: Store_Get_def split: if_splits dest: Get_loop_SomeD)

text \<open>A path that at most one registered pattern matches is found whatever the order.\<close>

lemma Get_loop_unique:
  assumes wf: "wf_channels chans" and k: "k \<in> set cs" "chans k = Some c"
    and m: "PathMatches c p = Returns (True, prms)"
    and uniq: "\<And>k' c' prms'. chans k' = Some c' \<Longrightarrow> PathMatches c' p = Returns (True, prms') \<Longrightarrow> k' = k"
  shows "Get_loop cs chans p = Returns (Some (k, prms))"
  using k(1)
proof (induction cs)
  case (Cons k' cs)
  show ?case
  proof (cases "chans k'")
    case None
    with k(2) have "k' \<noteq> k" by auto
    with None Cons show ?thesis by auto
  next
    case (Some c')
    with wf have "\<not> panics (PathMatches c' p)" by (auto simp: wf_channels_def PathMatches_no_panic)
    then obtain b prms' where pm: "PathMatches c' p = Returns (b, prms')"
      by (auto simp: not_panics_iff)
    show ?thesis
    proof (cases b)
      case True
      with uniq [OF Some] pm have "k' = k" by simp
      with Some k(2) m show ?thesis by simp
    next
      case False
      with pm Some k(2) m have "k' \<noteq> k" by auto
      with Cons.prems have "k \<in> set cs" by simp
      with Cons.IH Some pm False show ?thesis by simp
    qed
  qed
qed simp

subsection \<open>The invariant\<close>

definition chan_ok :: "('v, 'a) env \<Rightarrow> ('v, 'a) Channel \<Rightarrow> bool" where
  "chan_ok e c \<longleftrightarrow>
     (\<forall>k r. subscribers c k = Some r \<longrightarrow>
        (\<exists>ctx. heap e r = Some ctx \<and>
               k = createKey (client_Id (ctx_Client ctx)) (FullPath ctx) \<and>
               clients e (client_Id (ctx_Client ctx)) = Some (ctx_Client ctx)))"

definition env_ok :: "('v, 'a) env \<Rightarrow> bool" where
  "env_ok e \<longleftrightarrow>
     (\<forall>i c. clients e i = Some c \<longrightarrow> client_Id c = i \<and> uuid_like i \<and> i \<noteq> []) \<and>
     (\<forall>r. next_ref e \<le> r \<longrightarrow> heap e r = None)"

definition hub_inv :: "('v, 'a) hub \<Rightarrow> bool" where
  "hub_inv h \<longleftrightarrow>
     (\<forall>k c. channels h k = Some c \<longrightarrow> good_handlers (handlers c) \<and> chan_ok (env h) c) \<and>
     env_ok (env h)"

lemma chan_ok_same_ids:
  assumes "same_ids e e'" and "chan_ok e c" shows "chan_ok e' c"
  unfolding chan_ok_def
proof (intro allI impI)
  fix k r assume "subscribers c k = Some r"
  with assms(2) obtain ctx where ctx: "heap e r = Some ctx"
    "k = createKey (client_Id (ctx_Client ctx)) (FullPath ctx)"
    "clients e (client_Id (ctx_Client ctx)) = Some (ctx_Client ctx)"
    by (auto simp: chan_ok_def)
  from same_ids_lookup [OF assms(1) ctx(1)] obtain ctx' where
    "heap e' r = Some ctx'" "ctx_Client ctx' = ctx_Client ctx" "FullPath ctx' = FullPath ctx" .
  with ctx assms(1) show "\<exists>ctx. heap e' r = Some ctx \<and>
      k = createKey (client_Id (ctx_Client ctx)) (FullPath ctx) \<and>
      clients e' (client_Id (ctx_Client ctx)) = Some (ctx_Client ctx)"
    by (auto simp: same_ids_def)
qed

lemma env_ok_same_ids:
  assumes "same_ids e e'" and "env_ok e" shows "env_ok e'"
proof -
  have "heap e' r = None" if "next_ref e \<le> r" for r
  proof -
    have "heap_ids e' r = heap_ids e r" using assms(1) by (simp add: same_ids_def)
    then show ?thesis using that assms(2) by (simp add: heap_ids_def env_ok_def)
  qed
  with assms show ?thesis by (simp add: env_ok_def same_ids_def)
qed

lemma hub_inv_same_ids:
  "same_ids (env h) e \<Longrightarrow> hub_inv h \<Longrightarrow> hub_inv (h\<lparr>env := e\<rparr>)"
  by (auto simp: hub_inv_def chan_ok_same_ids env_ok_same_ids)

lemma hub_inv_with_channel:
  assumes "hub_inv h" and "same_ids (env h) e" and "good_handlers (handlers c)" and "chan_ok e c"
  shows "hub_inv (with_channel k c e h)"
  using assms
  by (auto simp: hub_inv_def with_channel_def chan_ok_same_ids env_ok_same_ids split: if_splits)

lemma chan_ok_subset:
  "chan_ok e c \<Longrightarrow> subs \<subseteq>\<^sub>m subscribers c \<Longrightarrow> chan_ok e (c\<lparr>subscribers := subs\<rparr>)"
  by (fastforce simp: chan_ok_def map_le_def dom_def)

lemma hub_inv_Register:
  "hub_inv h \<Longrightarrow> good_handlers hs \<Longrightarrow> hub_inv (Register p hs h)"
  by (auto simp: hub_inv_def Register_def chan_ok_def)

lemma alloc_facts:
  assumes "alloc_ctx ctx e = (r, e')" and "env_ok e"
  shows "heap e' r = Some ctx" "clients e' = clients e" "env_ok e'"
    "\<And>c. chan_ok e c \<Longrightarrow> chan_ok e' c"
proof -
  from assms(1) have r: "r = next_ref e"
    and e': "e' = e\<lparr>heap := (heap e)(next_ref e \<mapsto> ctx), next_ref := Suc (next_ref e)\<rparr>"
    by (auto simp: alloc_ctx_def)
  from r e' show "heap e' r = Some ctx" "clients e' = clients e" by simp_all
  from assms(2) e' show "env_ok e'" by (auto simp: env_ok_def)
  fix c assume ok: "chan_ok e c"
  have "heap e (next_ref e) = None" using assms(2) by (simp add: env_ok_def)
  with ok show "chan_ok e' c" by (fastforce simp: chan_ok_def e')
qed

lemma Channel_Subscribe_facts:
  assumes good: "good_handlers (handlers c)" and ok: "chan_ok e c"
    and ctx: "heap e r = Some ctx" and cl: "clients e (client_Id (ctx_Client ctx)) = Some (ctx_Client ctx)"
  shows "handlers (fst (Channel_Subscribe r c e)) = handlers c"
    and "chan_ok (snd (Channel_Subscribe r c e)) (fst (Channel_Subscribe r c e))"
proof -
  define res where "res = run_middlewares (SubscriptionMiddlewares (handlers c)) r e"
  define out where "out = Channel_Subscribe r c e"
  have mid: "same_ids e (snd res)" unfolding res_def
    by (rule good_run_middlewares) (use good in \<open>auto simp: good_handlers_def\<close>)
  have same: "same_ids e (snd out)" unfolding out_def by (rule Channel_Subscribe_same_ids [OF good])
  from same_ids_lookup [OF mid ctx] obtain ctx' where ctx': "heap (snd res) r = Some ctx'"
    "ctx_Client ctx' = ctx_Client ctx" "FullPath ctx' = FullPath ctx" .
  have fst_out: "fst out = c \<or> fst out = c\<lparr>subscribers := Subs_Add ctx' r (subscribers c)\<rparr>"
    using ctx'(1) by (auto simp: out_def Channel_Subscribe_def Let_def simp flip: res_def split: option.splits)
  then show "handlers (fst (Channel_Subscribe r c e)) = handlers c"
    by (auto simp flip: out_def)
  have "chan_ok e (c\<lparr>subscribers := Subs_Add ctx' r (subscribers c)\<rparr>)"
    using ok ctx cl ctx' by (auto simp: chan_ok_def Subs_Add_def split: if_splits)
  with fst_out ok have "chan_ok e (fst out)" by auto
  then show "chan_ok (snd (Channel_Subscribe r c e)) (fst (Channel_Subscribe r c e))"
    using chan_ok_same_ids [OF same] by (simp flip: out_def)
qed

lemma hub_inv_Subscribe:
  assumes inv: "hub_inv h" and cl: "clients (env h) (client_Id client) = Some client"
    and sub: "Store_Subscribe cs client p h = Returns (b, h')"
  shows "hub_inv h'"
proof (cases "\<exists>k prms c. Store_Get cs (channels h) p = Returns (Some (k, prms)) \<and> channels h k = Some c")
  case False
  with sub have "h' = h"
    by (cases "Store_Get cs (channels h) p")
       (auto simp: Store_Subscribe_def split: option.splits)
  with inv show ?thesis by simp
next
  case True
  then obtain k prms c where get: "Store_Get cs (channels h) p = Returns (Some (k, prms))"
    and c: "channels h k = Some c" by blast
  define ctx where "ctx = \<lparr>ctx_Client = client, FullPath = p, params = prms, ctx_properties = Map.empty\<rparr>"
  obtain r e where alloc: "alloc_ctx ctx (env h) = (r, e)" by fastforce
  have env: "env_ok (env h)" using inv by (simp add: hub_inv_def)
  note af = alloc_facts [OF alloc env]
  let ?res = "Channel_Subscribe r c e"
  have good: "good_handlers (handlers c)" using inv c by (auto simp: hub_inv_def)
  have h': "h' = with_channel k (fst ?res) (snd ?res) (h\<lparr>env := e\<rparr>)"
    using sub get c alloc
    by (auto simp: Store_Subscribe_def ctx_def with_channel_def Let_def)
  have inv_e: "hub_inv (h\<lparr>env := e\<rparr>)" using inv af(3,4) by (auto simp: hub_inv_def)
  have okc: "chan_ok e c" using inv c af(4) by (auto simp: hub_inv_def)
  have reg: "clients e (client_Id (ctx_Client ctx)) = Some (ctx_Client ctx)"
    using cl af(2) by (simp add: ctx_def)
  note cf = Channel_Subscribe_facts [OF good okc af(1) reg]
  show ?thesis unfolding h'
    by (rule hub_inv_with_channel [OF inv_e]) (simp_all add: cf good Channel_Subscribe_same_ids)
qed

lemma hub_inv_Unsubscribe:
  assumes inv: "hub_inv h" and un: "Store_Unsubscribe cs i p h = Returns (b, h')"
  shows "hub_inv h'"
proof (cases "\<exists>k prms c. Store_Get cs (channels h) p = Returns (Some (k, prms)) \<and> channels h k = Some c")
  case False
  with un have "h' = h"
    by (cases "Store_Get cs (channels h) p")
       (auto simp: Store_Unsubscribe_def split: option.splits)
  with inv show ?thesis by simp
next
  case True
  then obtain k prms c where get: "Store_Get cs (channels h) p = Returns (Some (k, prms))"
    and c: "channels h k = Some c" by blast
  let ?res = "Channel_Unsubscribe i p c (env h)"
  have h': "h' = with_channel k (fst (snd ?res)) (snd (snd ?res)) h"
    using un get c by (auto simp: Store_Unsubscribe_def Let_def)
  have good: "good_handlers (handlers c)" and ok: "chan_ok (env h) c"
    using inv c by (auto simp: hub_inv_def)
  have same: "same_ids (env h) (snd (snd ?res))" by (rule Channel_Unsubscribe_same_ids [OF good])
  have "fst (snd ?res) = c \<or> fst (snd ?res) = c\<lparr>subscribers := Subs_Remove i p (subscribers c)\<rparr>"
    by (auto simp: Channel_Unsubscribe_def split: option.splits)
  moreover have "chan_ok (env h) (c\<lparr>subscribers := Subs_Remove i p (subscribers c)\<rparr>)"
    by (rule chan_ok_subset [OF ok]) (auto simp: Subs_Remove_def map_le_def)
  ultimately have "handlers (fst (snd ?res)) = handlers c \<and> chan_ok (env h) (fst (snd ?res))"
    using ok by auto
  with good chan_ok_same_ids [OF same] show ?thesis
    unfolding h' by (intro hub_inv_with_channel [OF inv same]) auto
qed

lemma without_client_le: "without_client hp i subs \<subseteq>\<^sub>m subs"
  by (auto simp: without_client_def map_le_def split: option.splits if_splits)

lemma RemoveAllPaths_le: "fst (Subs_RemoveAllPaths hp ks i subs) \<subseteq>\<^sub>m subs"
  using without_client_le [of hp i subs]
  by (auto simp: RemoveAllPaths_partial map_le_def dom_def split: if_splits)

lemma UnsubscribeAllPaths_channel:
  "fst (snd (UnsubscribeAllPaths ks i c e)) =
     c\<lparr>subscribers := fst (Subs_RemoveAllPaths (heap e) ks i (subscribers c))\<rparr>"
  by (simp add: UnsubscribeAllPaths_def Let_def)

lemma unsubscribe_one_inv:
  assumes inv: "hub_inv h"
  shows "hub_inv (unsubscribe_one ko i h k)" and "same_ids (env h) (env (unsubscribe_one ko i h k))"
proof -
  have "hub_inv (unsubscribe_one ko i h k) \<and> same_ids (env h) (env (unsubscribe_one ko i h k))"
  proof (cases "channels h k")
    case None
    with inv show ?thesis by (simp add: unsubscribe_one_def)
  next
    case (Some c)
    let ?res = "UnsubscribeAllPaths (ko k) i c (env h)"
    have good: "good_handlers (handlers c)" and ok: "chan_ok (env h) c"
      using inv Some by (auto simp: hub_inv_def)
    have same: "same_ids (env h) (snd (snd ?res))" by (rule UnsubscribeAllPaths_same_ids [OF good])
    have "chan_ok (env h) (fst (snd ?res))"
      unfolding UnsubscribeAllPaths_channel by (rule chan_ok_subset [OF ok RemoveAllPaths_le])
    then have "chan_ok (snd (snd ?res)) (fst (snd ?res))" by (rule chan_ok_same_ids [OF same])
    moreover have "good_handlers (handlers (fst (snd ?res)))"
      using good by (simp add: UnsubscribeAllPaths_channel)
    ultimately have "hub_inv (with_channel k (fst (snd ?res)) (snd (snd ?res)) h)"
      using hub_inv_with_channel [OF inv same] by blast
    with Some same show ?thesis by (simp add: unsubscribe_one_def Let_def with_channel_def)
  qed
  then show "hub_inv (unsubscribe_one ko i h k)"
    and "same_ids (env h) (env (unsubscribe_one ko i h k))" by blast+
qed

lemma UnsubscribeAll_inv:
  "hub_inv h \<Longrightarrow> hub_inv (UnsubscribeAll cs ko i h) \<and> same_ids (env h) (env (UnsubscribeAll cs ko i h))"
  unfolding UnsubscribeAll_def
proof (induction cs rule: rev_induct)
  case (snoc k cs)
  then show ?case
    using unsubscribe_one_inv [of "foldl (unsubscribe_one ko i) h cs"]
    by (auto intro: same_ids_trans)
qed simp

text \<open>After \<open>UnsubscribeAll\<close> over all channels no subscription of the client is left.\<close>

definition enumerates :: "string list \<Rightarrow> (string \<Rightarrow> string list) \<Rightarrow> ('v, 'a) hub \<Rightarrow> bool" where
  "enumerates cs ko h \<longleftrightarrow>
     set cs = dom (channels h) \<and> distinct cs \<and>
     (\<forall>k c. channels h k = Some c \<longrightarrow> set (ko k) = dom (subscribers c) \<and> distinct (ko k))"

definition free_of :: "string \<Rightarrow> ('v, 'a) env \<Rightarrow> ('v, 'a) Channel \<Rightarrow> bool" where
  "free_of i e c \<longleftrightarrow> (\<forall>k r. subscribers c k = Some r \<longrightarrow> \<not> owned_by (heap e) i r)"

lemma owned_by_same_ids: "same_ids e e' \<Longrightarrow> owned_by (heap e') i r = owned_by (heap e) i r"
proof -
  assume "same_ids e e'"
  then have "heap_ids e' r = heap_ids e r" by (simp add: same_ids_def)
  then show ?thesis
    by (auto simp: owned_by_def heap_ids_def ctx_id_def split: option.splits)
qed

lemma free_of_same_ids: "same_ids e e' \<Longrightarrow> free_of i e' c = free_of i e c"
  by (simp add: free_of_def owned_by_same_ids)

lemma unsubscribe_one_channels:
  "channels (unsubscribe_one ko i h k) k' =
     (if k' = k then map_option (\<lambda>c. c\<lparr>subscribers :=
          fst (Subs_RemoveAllPaths (heap (env h)) (ko k) i (subscribers c))\<rparr>) (channels h k)
      else channels h k')"
  by (simp add: unsubscribe_one_def with_channel_def Let_def UnsubscribeAllPaths_channel split: option.splits)

lemma UnsubscribeAll_free:
  assumes inv: "hub_inv h" and all: "\<And>k c. channels h k = Some c \<Longrightarrow> dom (subscribers c) \<subseteq> set (ko k)"
    and k: "k \<in> set cs" and dist: "distinct cs"
    and c: "channels (UnsubscribeAll cs ko i h) k = Some c"
  shows "free_of i (env (UnsubscribeAll cs ko i h)) c"
  using k c dist unfolding UnsubscribeAll_def
proof (induction cs arbitrary: c rule: rev_induct)
  case (snoc k' cs)
  let ?h = "foldl (unsubscribe_one ko i) h cs"
  have inv': "hub_inv ?h" and same: "same_ids (env h) (env ?h)"
    using UnsubscribeAll_inv [OF inv, of cs ko i] by (simp_all add: UnsubscribeAll_def)
  have same': "same_ids (env ?h) (env (unsubscribe_one ko i ?h k'))"
    by (rule unsubscribe_one_inv(2) [OF inv'])
  show ?case
  proof (cases "k = k'")
    case False
    with snoc.prems have "channels ?h k = Some c" "k \<in> set cs"
      by (simp_all add: unsubscribe_one_channels)
    with snoc have "free_of i (env ?h) c" by simp
    then show ?thesis by (simp add: free_of_same_ids [OF same'])
  next
    case True
    have untouched: "channels (foldl (unsubscribe_one ko i) h ds) k = channels h k"
      if "k \<notin> set ds" for ds
      using that by (induction ds rule: rev_induct) (auto simp: unsubscribe_one_channels)
    from True snoc.prems(3) untouched [of cs] have "channels ?h k = channels h k" by simp
    with snoc.prems True obtain d where d: "channels h k = Some d"
      and c': "c = d\<lparr>subscribers := fst (Subs_RemoveAllPaths (heap (env ?h)) (ko k) i (subscribers d))\<rparr>"
      by (auto simp: unsubscribe_one_channels)
    have "free_of i (env ?h) c"
      using all [OF d] unfolding c'
      by (auto simp: free_of_def RemoveAllPaths_subs without_client_def split: option.splits if_splits)
    then show ?thesis by (simp add: True free_of_same_ids [OF same'])
  qed
qed simp

lemma UnsubscribeAll_dom: "dom (channels (UnsubscribeAll cs ko i h)) = dom (channels h)"
  unfolding UnsubscribeAll_def
  by (induction cs rule: rev_induct) (auto simp: dom_def unsubscribe_one_channels split: if_splits)

lemma hub_inv_Leave:
  assumes inv: "hub_inv h" and en: "enumerates cs ko h"
    and lv: "Connector_Leave cs ko i h = Returns h'"
  shows "hub_inv h'"
    and "clients (env h') i = None"
    and "\<And>k c. channels h' k = Some c \<Longrightarrow> free_of i (env h') c"
proof -
  from lv obtain cl where cl: "clients (env h) i = Some cl"
    by (auto simp: Connector_Leave_def ClientStore_Get_def split: option.splits)
  then have ci: "client_Id cl = i" using inv by (auto simp: hub_inv_def env_ok_def)
  define g where "g = UnsubscribeAll cs ko i h"
  have h': "h' = g\<lparr>env := (env g)\<lparr>clients := (clients (env g))(i := None)\<rparr>\<rparr>"
    using lv cl ci by (simp add: Connector_Leave_def ClientStore_Get_def ClientStore_Remove_def g_def Let_def)
  have ginv: "hub_inv g" using UnsubscribeAll_inv [OF inv] by (simp add: g_def)
  have free: "free_of i (env g) c" if "channels g k = Some c" for k c
  proof -
    have "k \<in> set cs" using that en UnsubscribeAll_dom [of cs ko i h] by (auto simp: enumerates_def g_def)
    then show ?thesis
      unfolding g_def using en that
      by (intro UnsubscribeAll_free [OF inv]) (auto simp: enumerates_def g_def)
  qed
  show "clients (env h') i = None" by (simp add: h')
  show fr: "free_of i (env h') c" if "channels h' k = Some c" for k c
    using free that by (simp add: h' free_of_def)
  have "chan_ok (env h') c" if kc: "channels h' k = Some c" for k c
    unfolding chan_ok_def
  proof (intro allI impI)
    fix x r assume x: "subscribers c x = Some r"
    have "chan_ok (env g) c" using ginv kc by (simp add: hub_inv_def h')
    then obtain ctx where ctx: "heap (env g) r = Some ctx"
      "x = createKey (client_Id (ctx_Client ctx)) (FullPath ctx)"
      "clients (env g) (client_Id (ctx_Client ctx)) = Some (ctx_Client ctx)"
      using x unfolding chan_ok_def by blast
    moreover have "\<not> owned_by (heap (env g)) i r" using fr [OF kc] x by (auto simp: free_of_def h')
    ultimately have "client_Id (ctx_Client ctx) \<noteq> i" by (simp add: owned_by_def)
    with ctx show "\<exists>ctx. heap (env h') r = Some ctx \<and>
        x = createKey (client_Id (ctx_Client ctx)) (FullPath ctx) \<and>
        clients (env h') (client_Id (ctx_Client ctx)) = Some (ctx_Client ctx)"
      by (simp add: h')
  qed
  moreover have "env_ok (env h')" using ginv by (auto simp: hub_inv_def env_ok_def h' split: if_splits)
  moreover have "good_handlers (handlers c)" if "channels h' k = Some c" for k c
    using ginv that by (auto simp: hub_inv_def h')
  ultimately show "hub_inv h'" by (simp add: hub_inv_def)
qed

lemma hub_inv_Join:
  assumes inv: "hub_inv h" and us: "\<And>u. u \<in> set us \<Longrightarrow> uuid_like u \<and> u \<noteq> []"
    and join: "Connector_Join send props us h = Some (cl, us', h')"
  shows "hub_inv h'"
proof -
  from join obtain u where nid: "NextId (clients (env h)) us = Some (u, us')"
    and h': "h' = h\<lparr>env := (env h)\<lparr>clients := (clients (env h))(u \<mapsto> NewClient send props\<lparr>client_Id := u\<rparr>)\<rparr>\<rparr>"
    by (auto simp: Connector_Join_def ClientStore_Join_def NewClient_def Let_def split: option.splits)
  from NextId_Some [OF nid] us have new: "clients (env h) u = None" and u: "uuid_like u" "u \<noteq> []" by auto
  have keep: "chan_ok (env h') c" if "chan_ok (env h) c" for c
    using that new by (fastforce simp: chan_ok_def h')
  have "env_ok (env h')" using inv u by (auto simp: hub_inv_def env_ok_def h' NewClient_def)
  with inv keep show ?thesis by (simp add: hub_inv_def h')
qed

lemma hub_inv_OnMessage:
  assumes inv: "hub_inv h" and on: "Store_OnMessage cs cl m h = Returns h'"
  shows "hub_inv h'"
proof (cases "h' = h")
  case False
  with on obtain k prms where get: "Store_Get cs (channels h) (msg_Channel m) = Returns (Some (k, prms))"
    by (cases "Store_Get cs (channels h) (msg_Channel m)")
       (auto simp: Store_OnMessage_def split: option.splits)
  with on False obtain c client where c: "channels h k = Some c"
    and h': "h' = h\<lparr>env := HandleMessage c client m (env h)\<rparr>"
    by (auto simp: Store_OnMessage_def split: option.splits if_splits)
  have "good_handlers (handlers c)" using inv c by (auto simp: hub_inv_def)
  then show ?thesis unfolding h'
    by (intro hub_inv_same_ids [OF HandleMessage_same_ids inv])
qed (use inv in simp)

lemma messageHandler_subscribe:
  "unmarshal (dec_struct message_fields) data zero_Message = Some req \<Longrightarrow>
   msg_Type req = MessageTypeSubscribe \<Longrightarrow>
   messageHandler cs (Some cl) data h =
     outcome_bind (Store_Subscribe cs cl (msg_Channel req) h) (\<lambda>x. Returns (snd x))"
  by (simp add: messageHandler_def)

lemma messageHandler_unsubscribe:
  "unmarshal (dec_struct message_fields) data zero_Message = Some req \<Longrightarrow>
   msg_Type req = MessageTypeUnsubscribe \<Longrightarrow>
   messageHandler cs (Some cl) data h =
     outcome_bind (Store_Unsubscribe cs (client_Id cl) (msg_Channel req) h) (\<lambda>x. Returns (snd x))"
  by (simp add: messageHandler_def MessageTypeSubscribe_def MessageTypeUnsubscribe_def)

lemma OnMessage_nil: "Store_OnMessage cs None m h = Returns h' \<Longrightarrow> h' = h"
  by (cases "Store_Get cs (channels h) (msg_Channel m)")
     (auto simp: Store_OnMessage_def split: option.splits if_split_asm)

lemma messageHandler_nil:
  "messageHandler cs None data h = Returns h' \<Longrightarrow> h' = h"
  by (auto simp: messageHandler_def outcome_bind_Returns_iff
        split: option.splits if_split_asm dest: OnMessage_nil)

lemma hub_inv_Message:
  assumes inv: "hub_inv h" and msg: "Connector_Message cs i data h = Returns h'"
  shows "hub_inv h'"
proof (cases "clients (env h) i")
  case None
  with msg messageHandler_nil have "h' = h" by (force simp: Connector_Message_def ClientStore_Get_def)
  with inv show ?thesis by simp
next
  case (Some cl)
  with msg have msg': "messageHandler cs (Some cl) data h = Returns h'"
    by (simp add: Connector_Message_def ClientStore_Get_def)
  have reg: "clients (env h) (client_Id cl) = Some cl"
    using Some inv by (auto simp: hub_inv_def env_ok_def)
  show ?thesis
  proof (cases "unmarshal (dec_struct message_fields) data zero_Message")
    case None
    with msg' inv show ?thesis by (simp add: messageHandler_def)
  next
    case req: (Some req)
    consider "msg_Type req = MessageTypeSubscribe" | "msg_Type req = MessageTypeUnsubscribe"
      | "msg_Type req \<noteq> MessageTypeSubscribe" "msg_Type req \<noteq> MessageTypeUnsubscribe" by blast
    then show ?thesis
    proof cases
      case 1
      have "outcome_bind (Store_Subscribe cs cl (msg_Channel req) h) (\<lambda>x. Returns (snd x)) = Returns h'"
        using msg' by (simp only: messageHandler_subscribe [OF req 1])
      then obtain x where "Store_Subscribe cs cl (msg_Channel req) h = Returns x" "h' = snd x"
        unfolding outcome_bind_Returns_iff by blast
      with hub_inv_Subscribe [OF inv reg] show ?thesis by (metis prod.collapse)
    next
      case 2
      have "outcome_bind (Store_Unsubscribe cs (client_Id cl) (msg_Channel req) h)
              (\<lambda>x. Returns (snd x)) = Returns h'"
        using msg' by (simp only: messageHandler_unsubscribe [OF req 2])
      then obtain x where "Store_Unsubscribe cs (client_Id cl) (msg_Channel req) h = Returns x" "h' = snd x"
        unfolding outcome_bind_Returns_iff by blast
      with hub_inv_Unsubscribe [OF inv] show ?thesis by (metis prod.collapse)
    next
      case 3
      with msg' req have "h' = h \<or> Store_OnMessage cs (Some cl) req h = Returns h'"
        by (auto simp: messageHandler_def split: if_splits)
      with inv hub_inv_OnMessage [OF inv] show ?thesis by blast
    qed
  qed
qed

subsection \<open>Steps and reachable states\<close>

definition empty_env :: "'a \<Rightarrow> ('v, 'a) env" where
  "empty_env a = \<lparr>clients = Map.empty, heap = Map.empty, next_ref = 0, outbox = [], app = a\<rparr>"

definition new_hub :: "'a \<Rightarrow> ('v, 'a) hub" where
  "new_hub a = \<lparr>channels = Map.empty, env = empty_env a\<rparr>"

inductive hub_step :: "('v, 'a) hub \<Rightarrow> ('v, 'a) hub \<Rightarrow> bool" where
  step_register: "good_handlers hs \<Longrightarrow> hub_step h (Register p hs h)"
| step_join: "(\<And>u. u \<in> set us \<Longrightarrow> uuid_like u \<and> u \<noteq> []) \<Longrightarrow>
    Connector_Join send props us h = Some (cl, us', h') \<Longrightarrow> hub_step h h'"
| step_message: "Connector_Message cs i data h = Returns h' \<Longrightarrow> hub_step h h'"
| step_leave: "enumerates cs ko h \<Longrightarrow> Connector_Leave cs ko i h = Returns h' \<Longrightarrow> hub_step h h'"

inductive reachable :: "'a \<Rightarrow> ('v, 'a) hub \<Rightarrow> bool" for a :: 'a where
  reachable_new: "reachable a (new_hub a)"
| reachable_step: "reachable a h \<Longrightarrow> hub_step h h' \<Longrightarrow> reachable a h'"

lemma hub_inv_new: "hub_inv (new_hub a)"
  by (simp add: hub_inv_def new_hub_def env_ok_def empty_env_def)

lemma hub_step_inv: "hub_step h h' \<Longrightarrow> hub_inv h \<Longrightarrow> hub_inv h'"
  by (induction rule: hub_step.induct)
     (auto intro: hub_inv_Register hub_inv_Join hub_inv_Message hub_inv_Leave)

lemma reachable_hub_inv: "reachable a h \<Longrightarrow> hub_inv h"
  by (induction rule: reachable.induct) (auto intro: hub_inv_new hub_step_inv)

end
