(* ===== verification/Middlewares.thy ===== *)
theory Middlewares
  imports Model_User
begin

text \<open>
  \<^verbatim>\<open>src/tools/middlewares.go\<close>: the handlers that run before a request's own handler. The
  gin context is what they read of the request, the one value they store in it
  (\<^verbatim>\<open>TUMLiveContext\<close>) and the calls they make on it, in order. The data access objects, the JWT
  library and the token store are arguments. The lemmas say which requests each middleware lets
  through; the guards obey one interface, from which follows what a chain of guards admits.
\<close>

subsection \<open>The context\<close>

record TUMLiveContext =
  ctx_User :: "User option"
  ctx_Course :: "Course option"
  ctx_Stream :: "Stream option"
  SamlSubjectID :: "string option"

definition empty_tum :: TUMLiveContext where
  "empty_tum = \<lparr>ctx_User = None, ctx_Course = None, ctx_Stream = None, SamlSubjectID = None\<rparr>"

datatype gin_call =
    Abort
  | AbortWithStatus nat
  | SetStatus nat
  | Redirect nat string
  | ErrorTemplate nat string
  | SetCookie string string int
  | ReqError nat string
  | JSONReply nat json

record gin =
  tum :: "TUMLiveContext option"
  RequestURI :: string
  url_params :: "string \<rightharpoonup> string"
  query_params :: "string \<rightharpoonup> string"
  cookies :: "string \<rightharpoonup> string"
  calls :: "gin_call list"

fun aborts :: "gin_call \<Rightarrow> bool" where
  "aborts Abort = True"
| "aborts (AbortWithStatus _) = True"
| "aborts _ = False"

definition IsAborted :: "gin \<Rightarrow> bool" where
  "IsAborted g = list_ex aborts (calls g)"

definition does :: "gin_call list \<Rightarrow> gin \<Rightarrow> gin" where
  "does cs g = g\<lparr>calls := calls g @ cs\<rparr>"

definition set_tum :: "TUMLiveContext \<Rightarrow> gin \<Rightarrow> gin" where
  "set_tum t g = g\<lparr>tum := Some t\<rparr>"

text \<open>A path or query parameter that is not there reads as the empty string.\<close>

definition gparam :: "gin \<Rightarrow> string \<Rightarrow> string" where
  "gparam g k = (case url_params g k of None \<Rightarrow> [] | Some v \<Rightarrow> v)"

definition gquery :: "gin \<Rightarrow> string \<Rightarrow> string" where
  "gquery g k = (case query_params g k of None \<Rightarrow> [] | Some v \<Rightarrow> v)"

text \<open>\<^verbatim>\<open>url.QueryEscape\<close>: unreserved bytes stay, a blank becomes a plus, the rest is written in hex.\<close>

definition hex_digit :: "nat \<Rightarrow> char" where
  "hex_digit n = char_of (if n < 10 then 48 + n else 55 + n)"

definition escape_byte :: "char \<Rightarrow> string" where
  "escape_byte c =
     (let n = of_char c :: nat in
      if 97 \<le> n \<and> n \<le> 122 \<or> 65 \<le> n \<and> n \<le> 90 \<or> 48 \<le> n \<and> n \<le> 57 \<or> n \<in> {45, 95, 46, 126} then [c]
      else if n = 32 then ''+''
      else [CHR ''%'', hex_digit (n div 16), hex_digit (n mod 16)])"

definition QueryEscape :: "string \<Rightarrow> string" where
  "QueryEscape s = concat (map escape_byte s)"

definition StatusFound :: nat where "StatusFound = 302"
definition StatusBadRequest :: nat where "StatusBadRequest = 400"
definition StatusForbidden :: nat where "StatusForbidden = 403"
definition StatusNotFound :: nat where "StatusNotFound = 404"
definition StatusInternalServerError :: nat where "StatusInternalServerError = 500"

lemmas status_codes =
  StatusFound_def StatusBadRequest_def StatusForbidden_def StatusNotFound_def
  StatusInternalServerError_def

definition RenderErrorPage :: "nat \<Rightarrow> string \<Rightarrow> gin \<Rightarrow> gin" where
  "RenderErrorPage status message g = does [ErrorTemplate status message, Abort] g"

definition CourseNotFoundErrMsg :: string where
  "CourseNotFoundErrMsg = ''We couldn't find the course you were looking for.''"
definition StreamNotFoundErrMsg :: string where
  "StreamNotFoundErrMsg = ''We couldn't find the stream you were looking for.''"
definition ForbiddenGenericErrMsg :: string where
  "ForbiddenGenericErrMsg =
     ''You don't have permissions to access this resource. Please reach out if this seems wrong :)''"
definition ForbiddenStreamAccess :: string where
  "ForbiddenStreamAccess =
     ''You don't have permissions to access this stream. Please make sure to use the correct login.''"
definition ForbiddenCourseAccess :: string where
  "ForbiddenCourseAccess =
     ''You don't have permissions to access this course. Please make sure to use the correct login.''"

definition to_login :: "gin \<Rightarrow> gin" where
  "to_login g = does [Redirect StatusFound (''/login?return='' @ QueryEscape (RequestURI g)), Abort] g"

definition forbid :: "string \<Rightarrow> gin \<Rightarrow> gin" where
  "forbid message g = RenderErrorPage StatusForbidden message (does [SetStatus StatusForbidden] g)"

definition not_found :: "string \<Rightarrow> gin \<Rightarrow> gin" where
  "not_found message g = RenderErrorPage StatusNotFound message (does [SetStatus StatusNotFound] g)"

lemma does_simps [simp]:
  "IsAborted (does cs g) \<longleftrightarrow> IsAborted g \<or> list_ex aborts cs"
  "tum (does cs g) = tum g" "RequestURI (does cs g) = RequestURI g"
  "url_params (does cs g) = url_params g" "calls (does cs g) = calls g @ cs"
  by (simp_all add: does_def IsAborted_def)

lemma set_tum_simps [simp]:
  "IsAborted (set_tum t g) = IsAborted g" "tum (set_tum t g) = Some t"
  "calls (set_tum t g) = calls g" "RequestURI (set_tum t g) = RequestURI g"
  by (simp_all add: set_tum_def IsAborted_def)

lemma refusals_abort [simp]:
  "IsAborted (RenderErrorPage n m g)" "IsAborted (to_login g)" "IsAborted (forbid m g)"
  "IsAborted (not_found m g)"
  by (simp_all add: RenderErrorPage_def to_login_def forbid_def not_found_def)

lemma refusals_tum [simp]:
  "tum (RenderErrorPage n m g) = tum g" "tum (to_login g) = tum g" "tum (forbid m g) = tum g"
  "tum (not_found m g) = tum g"
  by (simp_all add: RenderErrorPage_def to_login_def forbid_def not_found_def)

subsection \<open>The session\<close>

text \<open>
  \<open>parse\<close> stands for \<^verbatim>\<open>jwt.ParseWithClaims\<close> with the server's key: None if it fails, else
  whether the token is valid and the two claims.
\<close>

definition InitContext ::
    "(string \<Rightarrow> (bool \<times> uint \<times> string option) option) \<Rightarrow> (uint \<Rightarrow> User option) \<Rightarrow> gin \<Rightarrow> gin" where
  "InitContext parse GetUserByID g =
     (if has_prefix (RequestURI g) ''/static'' \<or> has_prefix (RequestURI g) ''/public'' \<or>
         has_prefix (RequestURI g) ''/favicon'' then g
      else
       (case cookies g ''jwt'' of
          None \<Rightarrow> set_tum empty_tum g
        | Some cookie \<Rightarrow>
          (case parse cookie of
             None \<Rightarrow> does [SetCookie ''jwt'' [] (- 1)] (set_tum empty_tum g)
           | Some (valid, userID, saml) \<Rightarrow>
               if \<not> valid then does [SetCookie ''jwt'' [] (- 1)] (set_tum empty_tum g)
               else (case GetUserByID userID of
                       None \<Rightarrow> set_tum empty_tum g
                     | Some user \<Rightarrow>
                         set_tum (empty_tum\<lparr>ctx_User := Some user, SamlSubjectID := saml\<rparr>) g))))"

definition LoggedIn :: "gin \<Rightarrow> gin outcome" where
  "LoggedIn g =
     (case tum g of
        None \<Rightarrow> Panics MissingKey
      | Some t \<Rightarrow>
          Returns (case ctx_User t of
                     None \<Rightarrow> does [Redirect StatusFound ''/login'', Abort] g
                   | Some _ \<Rightarrow> g))"

subsection \<open>Loading the course and the stream\<close>

text \<open>\<open>to_uint\<close> is the conversion of a signed integer, which wraps.\<close>

definition to_uint :: "int \<Rightarrow> uint" where
  "to_uint i = word_of_int i"

definition find_course ::
    "(uint \<Rightarrow> Course option) \<Rightarrow> (string \<Rightarrow> string \<Rightarrow> int \<Rightarrow> Course option) \<Rightarrow> gin \<Rightarrow> gin + Course" where
  "find_course GetCourseById GetCourseBySlugYearAndTerm g =
     (if gparam g ''courseID'' \<noteq> [] then
        (case parse_int 32 (gparam g ''courseID'') of
           None \<Rightarrow> Inl (does [AbortWithStatus StatusBadRequest] g)
         | Some cIDInt \<Rightarrow>
           (case GetCourseById (to_uint cIDInt) of
              None \<Rightarrow> Inl (not_found CourseNotFoundErrMsg g)
            | Some course \<Rightarrow> Inr course))
      else if gparam g ''year'' \<noteq> [] \<and> gparam g ''teachingTerm'' \<noteq> [] \<and> gparam g ''slug'' \<noteq> [] then
        (case atoi (gparam g ''year'') of
           None \<Rightarrow> Inl (does [AbortWithStatus StatusBadRequest] g)
         | Some yInt \<Rightarrow>
           (case GetCourseBySlugYearAndTerm (gparam g ''slug'') (gparam g ''teachingTerm'') yInt of
              None \<Rightarrow> Inl (not_found CourseNotFoundErrMsg g)
            | Some course \<Rightarrow> Inr course))
      else Inl (not_found CourseNotFoundErrMsg g))"

definition InitCourse ::
    "(uint \<Rightarrow> Course option) \<Rightarrow> (string \<Rightarrow> string \<Rightarrow> int \<Rightarrow> Course option) \<Rightarrow> gin \<Rightarrow> gin" where
  "InitCourse GetCourseById GetCourseBySlugYearAndTerm g =
     (case tum g of
        None \<Rightarrow> does [AbortWithStatus StatusInternalServerError] g
      | Some t \<Rightarrow>
        (case find_course GetCourseById GetCourseBySlugYearAndTerm g of
           Inl g' \<Rightarrow> g'
         | Inr course \<Rightarrow>
             if IsAborted g then g
             else if IsPublic course \<or> IsHidden course \<or>
                     ctx_User t \<noteq> None \<and> IsEligibleToWatchCourse (ctx_User t) course
             then set_tum (t\<lparr>ctx_Course := Some course\<rparr>) g
             else if ctx_User t = None then to_login g
             else forbid ForbiddenCourseAccess g))"

definition InitStream ::
    "(string \<Rightarrow> Stream option) \<Rightarrow> (uint \<Rightarrow> Course option) \<Rightarrow> gin \<Rightarrow> gin" where
  "InitStream GetStreamByID GetCourseById g =
     (case tum g of
        None \<Rightarrow> does [AbortWithStatus StatusInternalServerError] g
      | Some t \<Rightarrow>
        (case (if gparam g ''streamID'' \<noteq> [] then GetStreamByID (gparam g ''streamID'') else None) of
           None \<Rightarrow> not_found StreamNotFoundErrMsg g
         | Some stream \<Rightarrow>
             if IsAborted g then g
             else
              (case (case ctx_Course t of Some c \<Rightarrow> Some c | None \<Rightarrow> GetCourseById (CourseID stream)) of
                 None \<Rightarrow> does [AbortWithStatus StatusBadRequest] g
               | Some course \<Rightarrow>
                   if Private stream \<and> (ctx_User t = None \<or> \<not> IsAdminOfCourse (ctx_User t) course)
                   then does [Abort] (RenderErrorPage StatusForbidden ForbiddenStreamAccess g)
                   else if \<not> IsPublic course \<and> \<not> IsHidden course \<and> ctx_User t = None
                   then to_login g
                   else if \<not> IsPublic course \<and> \<not> IsHidden course \<and>
                           \<not> IsEligibleToWatchCourse (ctx_User t) course
                   then forbid ForbiddenStreamAccess g
                   else set_tum (t\<lparr>ctx_Course := Some course, ctx_Stream := Some stream\<rparr>) g)))"

subsection \<open>Guards\<close>

definition OwnerOfCourse :: "gin \<Rightarrow> gin outcome" where
  "OwnerOfCourse g =
     (case tum g of
        None \<Rightarrow> Returns (does [AbortWithStatus StatusInternalServerError] g)
      | Some t \<Rightarrow>
        (case ctx_User t of
           None \<Rightarrow> Returns (forbid ForbiddenGenericErrMsg g)
         | Some u \<Rightarrow>
             if Role u = AdminType then Returns g
             else (case ctx_Course t of
                     None \<Rightarrow> Panics NilDereference
                   | Some c \<Rightarrow>
                       Returns (if ID u \<noteq> course_UserID c then forbid ForbiddenGenericErrMsg g else g))))"

definition AdminOfCourse :: "gin \<Rightarrow> gin outcome" where
  "AdminOfCourse g =
     (case tum g of
        None \<Rightarrow> Returns (does [AbortWithStatus StatusInternalServerError] g)
      | Some t \<Rightarrow>
        (case ctx_User t of
           None \<Rightarrow> Returns (to_login g)
         | Some u \<Rightarrow>
           (case ctx_Course t of
              None \<Rightarrow> Panics NilDereference
            | Some c \<Rightarrow>
                Returns (if IsAdminOfCourse (Some u) c then g
                         else does [AbortWithStatus StatusForbidden] g))))"

definition AtLeastLecturer :: "gin \<Rightarrow> gin outcome" where
  "AtLeastLecturer g =
     (case tum g of
        None \<Rightarrow> Returns (does [AbortWithStatus StatusInternalServerError] g)
      | Some t \<Rightarrow>
        Returns (case ctx_User t of
           None \<Rightarrow> forbid ForbiddenGenericErrMsg g
         | Some u \<Rightarrow>
             if Role u \<noteq> AdminType \<and> Role u \<noteq> LecturerType then forbid ForbiddenGenericErrMsg g else g))"

definition Admin :: "gin \<Rightarrow> gin outcome" where
  "Admin g =
     (case tum g of
        None \<Rightarrow> Returns (does [AbortWithStatus StatusInternalServerError] g)
      | Some t \<Rightarrow>
        Returns (case ctx_User t of
           None \<Rightarrow> forbid ForbiddenGenericErrMsg g
         | Some u \<Rightarrow> if Role u \<noteq> AdminType then forbid ForbiddenGenericErrMsg g else g))"

text \<open>
  \<open>GetToken\<close> yields the scope of a stored token and a token's use is recorded by \<open>TokenUsed\<close>,
  whose failure is only logged; the second result is the token store after it.
\<close>

definition TokenScopeAdmin :: string where "TokenScopeAdmin = ''admin''"

definition AdminToken ::
    "(string \<Rightarrow> 'tok option) \<Rightarrow> ('tok \<Rightarrow> string) \<Rightarrow> ('tok \<Rightarrow> 'db \<Rightarrow> 'db) \<Rightarrow> 'db \<Rightarrow> gin \<Rightarrow> gin \<times> 'db" where
  "AdminToken GetToken Scope TokenUsed db g =
     (case GetToken (gquery g ''token'') of
        None \<Rightarrow> (forbid ForbiddenGenericErrMsg g, db)
      | Some t \<Rightarrow>
          if Scope t \<noteq> TokenScopeAdmin then (forbid ForbiddenGenericErrMsg g, db)
          else (g, TokenUsed t db))"

definition UserIsAdmin :: "TUMLiveContext \<Rightarrow> bool outcome" where
  "UserIsAdmin t =
     (case ctx_User t of
        None \<Rightarrow> Returns False
      | Some u \<Rightarrow>
        (case ctx_Course t of
           None \<Rightarrow> Panics NilDereference
         | Some c \<Rightarrow> Returns (IsAdminOfCourse (Some u) c)))"

text \<open>
  What a guard promises: with the context it needs it lets the request through unchanged if it
  passes, and otherwise aborts it without touching the context's value.
\<close>

locale guard =
  fixes mw :: "gin \<Rightarrow> gin outcome"
    and needs :: "TUMLiveContext \<Rightarrow> bool"
    and pass :: "TUMLiveContext \<Rightarrow> bool"
  assumes admits: "tum g = Some t \<Longrightarrow> needs t \<Longrightarrow> pass t \<Longrightarrow> mw g = Returns g"
    and refuses: "tum g = Some t \<Longrightarrow> needs t \<Longrightarrow> \<not> pass t \<Longrightarrow>
                  \<exists>g'. mw g = Returns g' \<and> IsAborted g' \<and> tum g' = tum g"
begin

lemma no_panic: "tum g = Some t \<Longrightarrow> needs t \<Longrightarrow> \<not> panics (mw g)"
  using admits refuses by (cases "pass t") fastforce+

lemma passes_iff:
  assumes "tum g = Some t" and "needs t" and "\<not> IsAborted g"
  shows "(\<exists>g'. mw g = Returns g' \<and> \<not> IsAborted g') \<longleftrightarrow> pass t"
  using assms admits refuses by (cases "pass t") fastforce+

lemma keeps_tum: "tum g = Some t \<Longrightarrow> needs t \<Longrightarrow> mw g = Returns g' \<Longrightarrow> tum g' = tum g"
  using admits refuses by (cases "pass t") fastforce+

end

definition is_role :: "uint list \<Rightarrow> TUMLiveContext \<Rightarrow> bool" where
  "is_role rs t = (case ctx_User t of None \<Rightarrow> False | Some u \<Rightarrow> Role u \<in> set rs)"

definition is_owner :: "TUMLiveContext \<Rightarrow> bool" where
  "is_owner t =
     (case ctx_User t of
        None \<Rightarrow> False
      | Some u \<Rightarrow> Role u = AdminType \<or> (case ctx_Course t of None \<Rightarrow> False | Some c \<Rightarrow> ID u = course_UserID c))"

definition is_course_admin :: "TUMLiveContext \<Rightarrow> bool" where
  "is_course_admin t = (case ctx_Course t of None \<Rightarrow> False | Some c \<Rightarrow> IsAdminOfCourse (ctx_User t) c)"

definition has_course :: "TUMLiveContext \<Rightarrow> bool" where
  "has_course t \<longleftrightarrow> \<not> Option.is_none (ctx_Course t)"

interpretation owner_guard: guard OwnerOfCourse has_course is_owner
  by unfold_locales
     (auto simp: OwnerOfCourse_def has_course_def is_owner_def split: option.splits)

interpretation course_admin_guard: guard AdminOfCourse has_course is_course_admin
  by unfold_locales
     (auto simp: AdminOfCourse_def has_course_def is_course_admin_def split: option.splits)

interpretation lecturer_guard: guard AtLeastLecturer "\<lambda>t. True" "is_role [AdminType, LecturerType]"
  by unfold_locales (auto simp: AtLeastLecturer_def is_role_def split: option.splits)

interpretation admin_guard: guard Admin "\<lambda>t. True" "is_role [AdminType]"
  by unfold_locales (auto simp: Admin_def is_role_def split: option.splits)

interpretation login_guard: guard LoggedIn "\<lambda>t. True" "\<lambda>t. ctx_User t \<noteq> None"
  by unfold_locales (auto simp: LoggedIn_def split: option.splits)

text \<open>The handlers of a route run in order until one aborts.\<close>

fun run_chain :: "(gin \<Rightarrow> gin outcome) list \<Rightarrow> gin \<Rightarrow> gin outcome" where
  "run_chain [] g = Returns g"
| "run_chain (m # ms) g =
     (if IsAborted g then Returns g else outcome_bind (m g) (run_chain ms))"

end
