(* ===== verification/Model_Chat.thy ===== *)
theory Model_Chat
  imports Model_User
begin

text \<open>
  \<^verbatim>\<open>src/model/chat.go\<close>, \<^verbatim>\<open>poll.go\<close> and \<^verbatim>\<open>chat_reaction.go\<close>: chat messages, the checks of the
  create hook, the sanitised HTML of a message, polls. The database queries of the hook, the URL
  expression, and the Markdown renderer with its HTML policy are arguments.
\<close>

datatype chat_error =
    ErrReplyToReply | ErrReplyToWrongStream | ErrReplyToNoMsg
  | ErrMessageTooLong | ErrMessageNoText | ErrCooledDown
  | ErrRecordNotFound | DatabaseError string

definition maxMessageLength :: nat where "maxMessageLength = 1000"
definition coolDown :: duration where "coolDown = Minute * 2"
definition coolDownMessages :: int where "coolDownMessages = 5"

record ChatReaction =
  react_ChatID :: uint
  react_UserID :: uint
  Username :: string
  Emoji :: string

text \<open>Replies are kept as their IDs; a NULL of the database is None.\<close>

record Chat = gorm_Model +
  chat_UserID :: string
  UserName :: string
  chat_Message :: string
  SanitizedMessage :: string
  chat_StreamID :: uint
  chat_Admin :: bool
  chat_Color :: string
  Visible :: "bool option"
  IsVisible :: bool
  Reactions :: "ChatReaction list"
  AddressedToUsers :: "uint list"
  AddressedToIds :: "uint list"
  Replies :: "uint list"
  ReplyTo :: "int option"
  Resolved :: bool

record PollOption = gorm_Model +
  Answer :: string
  Votes :: "uint list"

record Poll = gorm_Model +
  poll_StreamID :: uint
  Question :: string
  Active :: bool
  PollOptions :: "PollOption list"

definition GetStatsMap :: "PollOption \<Rightarrow> int \<Rightarrow> json" where
  "GetStatsMap opt votes =
     JObj [(''ID'', JInt (Word.uint (ID opt))), (''answer'', JStr (Answer opt)), (''votes'', JInt votes)]"

definition getColors :: "string list" where
  "getColors =
     [''#368bd6'', ''#ac3ba8'', ''#0dbd8b'', ''#e64f7a'', ''#ff812d'', ''#2dc2c5'', ''#5c56f5'', ''#74d12c'']"

subsection \<open>The create hook\<close>

text \<open>
  \<open>count t u\<close> is the number of messages of user \<open>u\<close> created after \<open>t\<close>, or the query's error;
  \<open>first i\<close> is the message with ID \<open>i\<close>. Go's remainder has the sign of the dividend, and a
  negative index panics.
\<close>

definition go_rem :: "int \<Rightarrow> int \<Rightarrow> int" where
  "go_rem a b = sgn a * (\<bar>a\<bar> mod \<bar>b\<bar>)"

definition chat_color :: "string \<Rightarrow> string outcome" where
  "chat_color userID =
     (case atoi userID of
        None \<Rightarrow> slice_get getColors 0
      | Some i \<Rightarrow>
          (let k = go_rem i (int (length getColors)) in
           if k < 0 then Panics IndexOutOfRange else slice_get getColors (nat k)))"

definition reply_error :: "(int \<Rightarrow> Chat option) \<Rightarrow> Chat \<Rightarrow> chat_error option" where
  "reply_error first c =
     (case ReplyTo c of
        None \<Rightarrow> None
      | Some i \<Rightarrow>
        (case first i of
           None \<Rightarrow> Some ErrReplyToNoMsg
         | Some replyTo \<Rightarrow>
             if chat_StreamID replyTo \<noteq> chat_StreamID c then Some ErrReplyToWrongStream
             else if ReplyTo replyTo \<noteq> None then Some ErrReplyToReply
             else None))"

definition cool_down_error :: "gotime \<Rightarrow> (gotime \<Rightarrow> string \<Rightarrow> chat_error + int) \<Rightarrow> Chat \<Rightarrow> chat_error option" where
  "cool_down_error now count c =
     (if \<not> chat_Admin c then
        (case count (now - coolDown) (chat_UserID c) of
           Inl err \<Rightarrow> Some err
         | Inr recentMessages \<Rightarrow> if recentMessages \<ge> coolDownMessages then Some ErrCooledDown else None)
      else None)"

definition Chat_BeforeCreate ::
    "gotime \<Rightarrow> (gotime \<Rightarrow> string \<Rightarrow> chat_error + int) \<Rightarrow> (int \<Rightarrow> Chat option) \<Rightarrow> Chat \<Rightarrow>
     (chat_error + Chat) outcome" where
  "Chat_BeforeCreate now count first c =
     (let c = c\<lparr>chat_Message := trim_space (chat_Message c)\<rparr> in
      if length (chat_Message c) > maxMessageLength then Returns (Inl ErrMessageTooLong)
      else if length (chat_Message c) = 0 then Returns (Inl ErrMessageNoText)
      else
       (case cool_down_error now count c of
          Some err \<Rightarrow> Returns (Inl err)
        | None \<Rightarrow>
            outcome_bind (chat_color (chat_UserID c)) (\<lambda>col.
              let c = c\<lparr>chat_Color := col\<rparr> in
              Returns (case reply_error first c of Some err \<Rightarrow> Inl err | None \<Rightarrow> Inr c))))"

lemma reply_error_None:
  "reply_error first c = None \<longleftrightarrow>
     (\<forall>i. ReplyTo c = Some i \<longrightarrow>
        (\<exists>p. first i = Some p \<and> chat_StreamID p = chat_StreamID c \<and> ReplyTo p = None))"
  by (auto simp: reply_error_def split: option.splits)

lemma cool_down_error_None:
  "cool_down_error now count c = None \<longleftrightarrow>
     chat_Admin c \<or> (\<exists>n. count (now - coolDown) (chat_UserID c) = Inr n \<and> n < coolDownMessages)"
  by (auto simp: cool_down_error_def split: sum.splits)

lemma reply_error_irrelevant [simp]:
  "reply_error first (c\<lparr>chat_Color := col\<rparr>) = reply_error first c"
  "reply_error first (c\<lparr>chat_Message := m\<rparr>) = reply_error first c"
  "cool_down_error now count (c\<lparr>chat_Message := m\<rparr>) = cool_down_error now count c"
  by (simp_all add: reply_error_def cool_down_error_def split: option.splits)

lemma chat_color_listed: "chat_color u = Returns col \<Longrightarrow> col \<in> set getColors"
  by (auto simp: chat_color_def slice_get_Returns Let_def split: option.splits if_splits)

lemma chat_color_no_panic: "(\<And>i. atoi u = Some i \<Longrightarrow> 0 \<le> i) \<Longrightarrow> \<not> panics (chat_color u)"
  by (auto simp: chat_color_def getColors_def slice_get_def go_rem_def Let_def sgn_if split: option.splits)

subsection \<open>Sanitised messages\<close>

definition escape_char :: "char \<Rightarrow> string" where
  "escape_char c =
     (if c = CHR ''&'' then ''&amp;''
      else if (of_char c :: nat) = 39 then ''&#39;''
      else if c = CHR ''<'' then ''&lt;''
      else if c = CHR ''>'' then ''&gt;''
      else if (of_char c :: nat) = 34 then ''&#34;''
      else [c])"

definition EscapeString :: "string \<Rightarrow> string" where
  "EscapeString s = concat (map escape_char s)"

definition trim_suffix :: "string \<Rightarrow> string \<Rightarrow> string" where
  "trim_suffix s suf = (if has_suffix s suf then take (length s - length suf) s else s)"

definition newline :: string where "newline = [char_of (10 :: nat)]"

definition getUrlHtml :: "(string \<Rightarrow> string) \<Rightarrow> string \<Rightarrow> string" where
  "getUrlHtml render url = trim_suffix (render url) newline"

definition SanitiseMessage ::
    "(string \<Rightarrow> (nat \<times> nat) list) \<Rightarrow> (string \<Rightarrow> string) \<Rightarrow> Chat \<Rightarrow> Chat" where
  "SanitiseMessage find_urls render c =
     (let msg = EscapeString (chat_Message c);
          urls = find_urls msg;
          newMsg = foldl (\<lambda>newMsg (a, b). newMsg @ take a msg @ getUrlHtml render (drop a (take b msg))) [] urls;
          newMsg = (if urls \<noteq> [] then newMsg @ drop (snd (last urls)) msg else msg)
      in c\<lparr>SanitizedMessage := newMsg\<rparr>)"

definition Chat_AfterFind ::
    "(string \<Rightarrow> (nat \<times> nat) list) \<Rightarrow> (string \<Rightarrow> string) \<Rightarrow> Chat \<Rightarrow> Chat" where
  "Chat_AfterFind find_urls render c =
     (let c = SanitiseMessage find_urls render c in
      c\<lparr>IsVisible := (Visible c = Some True)\<rparr>)"

lemma escape_char_no_markup: "CHR ''<'' \<notin> set (escape_char c)" "CHR ''>'' \<notin> set (escape_char c)"
  by (auto simp: escape_char_def)

lemma EscapeString_no_markup: "CHR ''<'' \<notin> set (EscapeString s)" "CHR ''>'' \<notin> set (EscapeString s)"
  by (auto simp: EscapeString_def escape_char_no_markup)

lemma set_trim_suffix: "set (trim_suffix s suf) \<subseteq> set s"
  by (auto simp: trim_suffix_def dest: in_set_takeD)

lemma set_sanitise_loop:
  "set (foldl (\<lambda>m (a, b). m @ take a s @ getUrlHtml render (drop a (take b s))) m0 urls)
     \<subseteq> set m0 \<union> set s \<union> (\<Union>(a, b) \<in> set urls. set (render (drop a (take b s))))"
proof (induction urls arbitrary: m0)
  case Nil
  then show ?case by simp
next
  case (Cons u urls)
  obtain a b where u: "u = (a, b)" by (cases u)
  have "set (getUrlHtml render (drop a (take b s))) \<subseteq> set (render (drop a (take b s)))"
    unfolding getUrlHtml_def by (rule set_trim_suffix)
  moreover have "set (take a s) \<subseteq> set s" by (rule set_take_subset)
  ultimately show ?case
    using Cons.IH [of "m0 @ take a s @ getUrlHtml render (drop a (take b s))"] by (fastforce simp: u)
qed

lemma set_SanitisedMessage:
  "set (SanitizedMessage (SanitiseMessage find_urls render c)) \<subseteq>
     set (EscapeString (chat_Message c)) \<union>
     (\<Union>(a, b) \<in> set (find_urls (EscapeString (chat_Message c))).
        set (render (drop a (take b (EscapeString (chat_Message c))))))"
  using set_sanitise_loop [of "EscapeString (chat_Message c)" render "[]" "find_urls (EscapeString (chat_Message c))"]
    set_drop_subset [of "snd (last (find_urls (EscapeString (chat_Message c))))" "EscapeString (chat_Message c)"]
  by (simp add: SanitiseMessage_def Let_def) blast

end
