(* ===== verification/Chat_Hub.thy ===== *)
theory Chat_Hub
  imports RT_Hub Middlewares Model_Chat
begin

text \<open>
  \<^verbatim>\<open>src/api/wsHub.go\<close>, \<^verbatim>\<open>src/api/live_update.go\<close> and the subscription middleware
  \<^verbatim>\<open>InitStreamRealtime\<close> of \<^verbatim>\<open>src/tools/middlewares.go\<close>: what the application keeps per
  subscribed websocket context, and how it broadcasts. The application state is the map from
  stream to sessions, the map from user to live-update listeners, and the database. The
  properties a client or a context carries are values of \<open>propval\<close>; a type assertion on another
  constructor panics. The data access functions are arguments.

  The lemmas say which sessions a broadcast reaches, that cleaning up leaves exactly the
  subscribed sessions, and that the realtime middleware admits whom the web middleware admits.
\<close>

datatype propval =
    PGin "TUMLiveContext option"
  | PDao
  | PTum TUMLiveContext
  | PTime gotime

record session =
  s_context :: ctxref
  s_isAdminOfCourse :: bool

record live_wrapper =
  lw_sessions :: "ctxref list"
  lw_courses :: "uint list"

record 'db app_state =
  sessionsMap :: "uint \<rightharpoonup> session list"
  liveUpdateListener :: "uint \<rightharpoonup> live_wrapper"
  db :: 'db

type_synonym 'db aenv = "(propval, 'db app_state) env"

definition upd_app :: "('db app_state \<Rightarrow> 'db app_state) \<Rightarrow> 'db aenv \<Rightarrow> 'db aenv" where
  "upd_app f e = e\<lparr>app := f (app e)\<rparr>"

definition set_sessions :: "uint \<Rightarrow> session list \<Rightarrow> 'db aenv \<Rightarrow> 'db aenv" where
  "set_sessions i ss = upd_app (\<lambda>a. a\<lparr>sessionsMap := (sessionsMap a)(i \<mapsto> ss)\<rparr>)"

definition get_sessions :: "'db aenv \<Rightarrow> uint \<Rightarrow> session list" where
  "get_sessions e i = (case sessionsMap (app e) i of None \<Rightarrow> [] | Some ss \<Rightarrow> ss)"

text \<open>A message sent through a context pointer; the error of a closed connection is ignored.\<close>

definition send_to :: "ctxref \<Rightarrow> json \<Rightarrow> 'db aenv \<Rightarrow> 'db aenv" where
  "send_to r msg e = (case heap e r of None \<Rightarrow> e | Some c \<Rightarrow> snd (Context_Send c msg e))"

definition client_of :: "'db aenv \<Rightarrow> ctxref \<Rightarrow> string option" where
  "client_of e r = map_option (\<lambda>c. client_Id (ctx_Client c)) (heap e r)"

subsection \<open>Sessions (wsHub.go)\<close>

definition viewers_msg :: "nat \<Rightarrow> json" where
  "viewers_msg n = JObj [(''viewers'', JInt (int n))]"

definition course_admin_of :: "TUMLiveContext \<Rightarrow> bool outcome" where
  "course_admin_of t =
     (case ctx_User t of
        None \<Rightarrow> Returns False
      | Some u \<Rightarrow>
        (case ctx_Course t of
           None \<Rightarrow> Panics NilDereference
         | Some c \<Rightarrow> Returns (IsAdminOfCourse (Some u) c)))"

definition connHandler :: "ctxref \<Rightarrow> 'db aenv \<Rightarrow> 'db aenv outcome" where
  "connHandler r e =
     (case Option.bind (heap e r) (\<lambda>c. Context_Get c ''TUMLiveContext'') of
        None \<Rightarrow> Returns e
      | Some (PTum t) \<Rightarrow>
          outcome_bind (course_admin_of t) (\<lambda>isAdmin.
            case ctx_Stream t of
              None \<Rightarrow> Panics NilDereference
            | Some stream \<Rightarrow>
                (let e = set_sessions (ID stream)
                           (get_sessions e (ID stream) @ [\<lparr>s_context = r, s_isAdminOfCourse = isAdmin\<rparr>]) e
                 in Returns (send_to r (viewers_msg (length (get_sessions e (ID stream)))) e)))
      | Some _ \<Rightarrow> Panics BadTypeAssertion)"

definition TypeServerInfo :: string where "TypeServerInfo = ''info''"
definition TypeServerWarn :: string where "TypeServerWarn = ''warn''"
definition TypeServerErr :: string where "TypeServerErr = ''error''"

definition sendServerMessage :: "string \<Rightarrow> string \<Rightarrow> ctxref list \<Rightarrow> 'db aenv \<Rightarrow> 'db aenv" where
  "sendServerMessage msg t sessions e =
     foldl (\<lambda>e r. send_to r (JObj [(''server'', JStr msg), (''type'', JStr t)]) e) e sessions"

definition connected :: "'db aenv \<Rightarrow> session \<Rightarrow> bool" where
  "connected e w = (case client_of e (s_context w) of None \<Rightarrow> False | Some i \<Rightarrow> IsConnected e i)"

definition removeClosed :: "'db aenv \<Rightarrow> session list \<Rightarrow> session list" where
  "removeClosed e sessions = filter (connected e) sessions"

definition broadcastStream :: "uint \<Rightarrow> json \<Rightarrow> 'db aenv \<Rightarrow> 'db aenv" where
  "broadcastStream streamID msg e =
     (case sessionsMap (app e) streamID of
        None \<Rightarrow> e
      | Some sessions \<Rightarrow>
          foldl (\<lambda>e w. send_to (s_context w) msg e) e (removeClosed e sessions))"

definition broadcastStreamToAdmins :: "uint \<Rightarrow> json \<Rightarrow> 'db aenv \<Rightarrow> 'db aenv" where
  "broadcastStreamToAdmins streamID msg e =
     (case sessionsMap (app e) streamID of
        None \<Rightarrow> e
      | Some sessions \<Rightarrow>
          foldl (\<lambda>e w. if s_isAdminOfCourse w then send_to (s_context w) msg e else e) e
            (removeClosed e sessions))"

definition room_name :: "uint \<Rightarrow> string" where
  "room_name i = ''chat/'' @ itoa (sint i)"

text \<open>One round of the loop of \<^verbatim>\<open>cleanupSessions\<close>, and the loop over the keys of the map.\<close>

fun subscribed_sessions ::
    "string list \<Rightarrow> string \<Rightarrow> (propval, 'db app_state) hub \<Rightarrow> session list \<Rightarrow> session list outcome" where
  "subscribed_sessions cs room h [] = Returns []"
| "subscribed_sessions cs room h (w # ws) =
     outcome_bind (case client_of (env h) (s_context w) of
                     None \<Rightarrow> Panics NilDereference
                   | Some i \<Rightarrow> Realtime_IsSubscribed cs room i h) (\<lambda>b.
       outcome_bind (subscribed_sessions cs room h ws) (\<lambda>rest.
         Returns (if b then w # rest else rest)))"

fun cleanupSessions ::
    "string list \<Rightarrow> uint list \<Rightarrow> (propval, 'db app_state) hub \<Rightarrow> (propval, 'db app_state) hub outcome" where
  "cleanupSessions cs [] h = Returns h"
| "cleanupSessions cs (i # is) h =
     outcome_bind (subscribed_sessions cs (room_name i) h (get_sessions (env h) i)) (\<lambda>newSessions.
       cleanupSessions cs is (h\<lparr>env := set_sessions i newSessions (env h)\<rparr>))"

definition BroadcastStats_step :: "(string \<Rightarrow> Stream option) \<Rightarrow> 'db aenv \<Rightarrow> uint \<Rightarrow> 'db aenv" where
  "BroadcastStats_step GetStreamByID e sID =
     (let sessions = get_sessions e sID in
      if length sessions = 0 then e
      else
       (case GetStreamByID (uint_str sID) of
          None \<Rightarrow> e
        | Some stream \<Rightarrow>
            if Recording stream then e else broadcastStream sID (viewers_msg (length sessions)) e))"

definition BroadcastStats :: "(string \<Rightarrow> Stream option) \<Rightarrow> uint list \<Rightarrow> 'db aenv \<Rightarrow> 'db aenv" where
  "BroadcastStats GetStreamByID ids e = foldl (BroadcastStats_step GetStreamByID) e ids"

definition NotifyViewersLiveState :: "uint \<Rightarrow> bool \<Rightarrow> 'db aenv \<Rightarrow> 'db aenv" where
  "NotifyViewersLiveState streamId live e = broadcastStream streamId (JObj [(''live'', JBool live)]) e"

text \<open>\<^verbatim>\<open>CollectStats\<close> (chat.go): the statistics row of each live stream with viewers is stored.\<close>

definition CollectStats ::
    "gotime \<Rightarrow> (string \<Rightarrow> Stream option) \<Rightarrow> (Stat \<Rightarrow> 'db \<Rightarrow> 'db) \<Rightarrow> uint list \<Rightarrow> uint list \<Rightarrow> 'db aenv \<Rightarrow> 'db aenv" where
  "CollectStats now GetStreamByID AddStat ids ids' e =
     foldl (\<lambda>e sID.
       (let sessions = get_sessions e sID in
        if length sessions = 0 then e
        else
         (let stat = \<lparr>ID = 0, CreatedAt = zero_time, UpdatedAt = zero_time, DeletedAt = None, stat_Time = now,
                      stat_StreamID = sID, stat_Viewers = of_nat (length sessions), stat_Live = True\<rparr> in
          case GetStreamByID (uint_str sID) of
            None \<Rightarrow> e
          | Some s \<Rightarrow> if LiveNow s then upd_app (\<lambda>a. a\<lparr>db := AddStat stat (db a)\<rparr>) e else e)))
       (BroadcastStats GetStreamByID ids e) ids'"

subsection \<open>The subscription middleware\<close>

text \<open>A middleware that panics is the outcome; the Go caller does not catch it.\<close>

definition InitStreamRealtime ::
    "(string \<Rightarrow> Stream option) \<Rightarrow> (uint \<Rightarrow> Course option) \<Rightarrow> ctxref \<Rightarrow> 'db aenv \<Rightarrow>
     (Error option \<times> 'db aenv) outcome" where
  "InitStreamRealtime GetStreamByID GetCourseById r e =
     (case heap e r of
        None \<Rightarrow> Panics NilDereference
      | Some context \<Rightarrow>
        (case Client_Get (ctx_Client context) ''ctx'' of
           None \<Rightarrow> Returns (Some (NewError 400 ''daoWrapper should exist but doesn't''), e)
         | Some (PGin g) \<Rightarrow>
           (case Client_Get (ctx_Client context) ''dao'' of
              None \<Rightarrow> Returns (Some (NewError 400 ''daoWrapper should exist but doesn't''), e)
            | Some PDao \<Rightarrow>
              (case g of
                 None \<Rightarrow> Returns (Some (NewError 400 ''context should exist but doesn't''), e)
               | Some t \<Rightarrow>
                 (case (if Param context ''streamID'' \<noteq> []
                        then GetStreamByID (Param context ''streamID'') else None) of
                    None \<Rightarrow> Returns (Some (NewError 404 ''stream not found''), e)
                  | Some stream \<Rightarrow>
                    (case GetCourseById (CourseID stream) of
                       None \<Rightarrow> Returns (Some (NewError 500 ''could not retrieve course''), e)
                     | Some course \<Rightarrow>
                         Returns
                          (if Private stream \<and> (ctx_User t = None \<or> \<not> IsAdminOfCourse (ctx_User t) course)
                           then (Some (NewError 403 ''forbidden to see course''), e)
                           else if \<not> IsPublic course \<and> \<not> IsHidden course \<and> ctx_User t = None
                           then (Some (NewError 403 ''course only visible for logged in users''), e)
                           else if \<not> IsPublic course \<and> \<not> IsHidden course \<and>
                                   \<not> IsEligibleToWatchCourse (ctx_User t) course
                           then (Some (NewError 403 ''forbidden to see course''), e)
                           else (None, set_ctx r ''TUMLiveContext''
                                  (PTum (t\<lparr>ctx_Course := Some course, ctx_Stream := Some stream\<rparr>)) e)))))
            | Some _ \<Rightarrow> Panics BadTypeAssertion)
         | Some _ \<Rightarrow> Panics BadTypeAssertion))"

subsection \<open>Live updates (live_update.go)\<close>

definition UpdateTypeCourseWentLive :: string where "UpdateTypeCourseWentLive = ''course_went_live''"

definition client_tum :: "'v Context \<Rightarrow> ('v \<Rightarrow> TUMLiveContext option outcome) \<Rightarrow> TUMLiveContext option outcome" where
  "client_tum c as_gin =
     (case Client_Get (ctx_Client c) ''ctx'' of None \<Rightarrow> Panics BadTypeAssertion | Some v \<Rightarrow> as_gin v)"

fun as_gin :: "propval \<Rightarrow> TUMLiveContext option outcome" where
  "as_gin (PGin g) = Returns g"
| "as_gin _ = Panics BadTypeAssertion"

definition listener_key :: "TUMLiveContext \<Rightarrow> uint" where
  "listener_key t = (case ctx_User t of None \<Rightarrow> 0 | Some u \<Rightarrow> ID u)"

definition set_listener :: "uint \<Rightarrow> live_wrapper option \<Rightarrow> 'db aenv \<Rightarrow> 'db aenv" where
  "set_listener i w = upd_app (\<lambda>a. a\<lparr>liveUpdateListener := (liveUpdateListener a)(i := w)\<rparr>)"

definition liveUpdateOnUnsubscribe :: "ctxref \<Rightarrow> 'db aenv \<Rightarrow> 'db aenv outcome" where
  "liveUpdateOnUnsubscribe r e =
     (case heap e r of
        None \<Rightarrow> Panics NilDereference
      | Some c \<Rightarrow>
        outcome_bind (client_tum c as_gin) (\<lambda>g.
          case g of
            None \<Rightarrow> Returns e
          | Some t \<Rightarrow>
            (let userId = listener_key t in
             case liveUpdateListener (app e) userId of
               None \<Rightarrow> Panics NilDereference
             | Some w \<Rightarrow>
                 (let newSessions = filter (\<lambda>s. s \<noteq> r) (lw_sessions w) in
                  Returns (if length newSessions = 0 then set_listener userId None e
                           else set_listener userId (Some (w\<lparr>lw_sessions := newSessions\<rparr>)) e)))))"

text \<open>
  \<open>public_and_loggedin\<close> and \<open>public\<close> are the results of the two course queries for the current
  semester; \<open>unique\<close> stands for \<^verbatim>\<open>commons.Unique\<close> on course IDs.
\<close>

definition liveUpdateOnSubscribe ::
    "(Course list \<Rightarrow> Course list) \<Rightarrow> Course list option \<Rightarrow> Course list option \<Rightarrow> ctxref \<Rightarrow> 'db aenv \<Rightarrow> 'db aenv outcome" where
  "liveUpdateOnSubscribe unique public_and_loggedin public r e =
     (case heap e r of
        None \<Rightarrow> Panics NilDereference
      | Some c \<Rightarrow>
        outcome_bind (client_tum c as_gin) (\<lambda>g.
          case g of
            None \<Rightarrow> Returns e
          | Some t \<Rightarrow>
            (let userId = listener_key t;
                 userCourses = (case ctx_User t of
                                  Some u \<Rightarrow> map_option unique public_and_loggedin
                                | None \<Rightarrow> public) in
             case userCourses of
               None \<Rightarrow> Returns e
             | Some cs \<Rightarrow>
                 (let courses = map ID cs in
                  Returns (case liveUpdateListener (app e) userId of
                     Some w \<Rightarrow> set_listener userId
                                 (Some \<lparr>lw_sessions = lw_sessions w @ [r], lw_courses = courses\<rparr>) e
                   | None \<Rightarrow> set_listener userId (Some \<lparr>lw_sessions = [r], lw_courses = courses\<rparr>) e)))))"

definition went_live_msg :: "uint \<Rightarrow> json" where
  "went_live_msg courseId =
     JObj [(''data'', JObj [(''courseId'', JInt (Word.uint courseId))]),
           (''type'', JStr UpdateTypeCourseWentLive)]"

definition NotifyLiveUpdateCourseWentLive :: "uint list \<Rightarrow> uint \<Rightarrow> 'db aenv \<Rightarrow> 'db aenv" where
  "NotifyLiveUpdateCourseWentLive ids courseId e =
     foldl (\<lambda>e i.
        case liveUpdateListener (app e) i of
          None \<Rightarrow> e
        | Some w \<Rightarrow>
            if courseId \<in> set (lw_courses w)
            then foldl (\<lambda>e r. send_to r (went_live_msg courseId) e) e (lw_sessions w)
            else e) e ids"

subsection \<open>What a broadcast does\<close>

definition delivery :: "'db aenv \<Rightarrow> json \<Rightarrow> session \<Rightarrow> (string \<times> Message) option" where
  "delivery e msg w =
     map_option (\<lambda>c. (client_Id (ctx_Client c), frame c msg)) (heap e (s_context w))"

lemma send_to_simps [simp]:
  "app (send_to r msg e) = app e" "heap (send_to r msg e) = heap e"
  "clients (send_to r msg e) = clients e" "next_ref (send_to r msg e) = next_ref e"
  "outbox (send_to r msg e) =
     outbox e @ (case heap e r of None \<Rightarrow> [] | Some c \<Rightarrow> [(client_Id (ctx_Client c), frame c msg)])"
  by (simp_all add: send_to_def split: option.splits)

lemma upd_app_simps [simp]:
  "heap (upd_app f e) = heap e" "clients (upd_app f e) = clients e"
  "next_ref (upd_app f e) = next_ref e" "outbox (upd_app f e) = outbox e" "app (upd_app f e) = f (app e)"
  by (simp_all add: upd_app_def)

lemma foldl_send:
  "app (foldl (\<lambda>e w. if P w then send_to (s_context w) msg e else e) e ws) = app e \<and>
   heap (foldl (\<lambda>e w. if P w then send_to (s_context w) msg e else e) e ws) = heap e \<and>
   clients (foldl (\<lambda>e w. if P w then send_to (s_context w) msg e else e) e ws) = clients e \<and>
   next_ref (foldl (\<lambda>e w. if P w then send_to (s_context w) msg e else e) e ws) = next_ref e \<and>
   outbox (foldl (\<lambda>e w. if P w then send_to (s_context w) msg e else e) e ws) =
     outbox e @ List.map_filter (delivery e msg) (filter P ws)"
proof (induction ws arbitrary: e)
  case (Cons w ws)
  have "delivery (send_to r msg e) msg = delivery e msg" for r by (simp add: delivery_def fun_eq_iff)
  with Cons.IH [of "send_to (s_context w) msg e"] Cons.IH [of e] show ?case
    by (auto simp: delivery_def split: option.splits)
qed simp

text \<open>
  The interface of a broadcast: it sends one frame to each session of the stream that is still
  connected and belongs to its audience, in the order in which they joined, and does nothing
  else.
\<close>

locale broadcaster =
  fixes bc :: "uint \<Rightarrow> json \<Rightarrow> 'db aenv \<Rightarrow> 'db aenv"
    and audience :: "session \<Rightarrow> bool"
  assumes sends: "outbox (bc i msg e) =
      outbox e @ List.map_filter (delivery e msg) (filter (\<lambda>w. connected e w \<and> audience w) (get_sessions e i))"
    and keeps: "app (bc i msg e) = app e" "heap (bc i msg e) = heap e" "clients (bc i msg e) = clients e"
      "next_ref (bc i msg e) = next_ref e"
begin

lemma same: "same_ids e (bc i msg e)"
  by (simp add: same_ids_heapI keeps)

text \<open>Every frame goes to a connected client of the stream's audience.\<close>

lemma receivers:
  assumes "x \<in> set (drop (length (outbox e)) (outbox (bc i msg e)))"
  shows "\<exists>w c. w \<in> set (get_sessions e i) \<and> audience w \<and> heap e (s_context w) = Some c \<and>
           IsConnected e (client_Id (ctx_Client c)) \<and> x = (client_Id (ctx_Client c), frame c msg)"
  using assms
  by (auto simp: sends set_map_filter delivery_def connected_def client_of_def split: option.splits)

lemma silent: "(\<And>w. w \<in> set (get_sessions e i) \<Longrightarrow> \<not> (connected e w \<and> audience w)) \<Longrightarrow> outbox (bc i msg e) = outbox e"
proof -
  assume none: "\<And>w. w \<in> set (get_sessions e i) \<Longrightarrow> \<not> (connected e w \<and> audience w)"
  then have "filter (\<lambda>w. connected e w \<and> audience w) (get_sessions e i) = []"
    by (simp add: filter_empty_conv)
  then show ?thesis by (simp add: sends)
qed

end

interpretation stream_bc: broadcaster broadcastStream "\<lambda>w. True"
proof
  fix i msg and e :: "'a aenv"
  note fs = foldl_send [of "\<lambda>w. True" msg e]
  show "outbox (broadcastStream i msg e) = outbox e @
      List.map_filter (delivery e msg) (filter (\<lambda>w. connected e w \<and> True) (get_sessions e i))"
    using fs by (simp add: broadcastStream_def get_sessions_def removeClosed_def split: option.splits)
  show "app (broadcastStream i msg e) = app e" "heap (broadcastStream i msg e) = heap e"
    "clients (broadcastStream i msg e) = clients e" "next_ref (broadcastStream i msg e) = next_ref e"
    using fs by (simp_all add: broadcastStream_def split: option.splits)
qed

interpretation admin_bc: broadcaster broadcastStreamToAdmins s_isAdminOfCourse
proof
  fix i msg and e :: "'a aenv"
  note fs = foldl_send [of s_isAdminOfCourse msg e]
  show "outbox (broadcastStreamToAdmins i msg e) = outbox e @
      List.map_filter (delivery e msg) (filter (\<lambda>w. connected e w \<and> s_isAdminOfCourse w) (get_sessions e i))"
    using fs
    by (simp add: broadcastStreamToAdmins_def get_sessions_def removeClosed_def filter_filter conj_commute
        split: option.splits)
  show "app (broadcastStreamToAdmins i msg e) = app e" "heap (broadcastStreamToAdmins i msg e) = heap e"
    "clients (broadcastStreamToAdmins i msg e) = clients e"
    "next_ref (broadcastStreamToAdmins i msg e) = next_ref e"
    using fs by (simp_all add: broadcastStreamToAdmins_def split: option.splits)
qed

subsection \<open>The handlers keep to the contract of the hub\<close>

lemma same_ids_upd_app [simp]: "same_ids e (upd_app f e)"
  by (simp add: same_ids_heapI)

lemma same_ids_send_to [simp]: "same_ids e (send_to r msg e)"
  by (simp add: same_ids_heapI)

lemma connHandler_same_ids: "connHandler r e = Returns e' \<Longrightarrow> same_ids e e'"
  by (auto simp: connHandler_def set_sessions_def Let_def
      intro!: same_ids_heapI split: option.split_asm propval.split_asm)

lemma InitStreamRealtime_same_ids:
  "InitStreamRealtime gs gc r e = Returns (err, e') \<Longrightarrow> same_ids e e'"
  by (auto simp: InitStreamRealtime_def split: option.split_asm propval.split_asm if_split_asm)

lemma liveUpdateOnSubscribe_same_ids:
  "liveUpdateOnSubscribe un pl p r e = Returns e' \<Longrightarrow> same_ids e e'"
  by (auto simp: liveUpdateOnSubscribe_def set_listener_def Let_def
      split: option.split_asm)

lemma liveUpdateOnUnsubscribe_same_ids:
  "liveUpdateOnUnsubscribe r e = Returns e' \<Longrightarrow> same_ids e e'"
  by (auto simp: liveUpdateOnUnsubscribe_def set_listener_def Let_def
      split: option.split_asm if_split_asm)

text \<open>
  A handler that panics is stopped before it has changed anything; registered with the hub it
  leaves the environment as it was.
\<close>

definition or_keep :: "('db aenv \<Rightarrow> 'db aenv outcome) \<Rightarrow> 'db aenv \<Rightarrow> 'db aenv" where
  "or_keep f e = (case f e of Returns e' \<Rightarrow> e' | Panics p \<Rightarrow> e)"

lemma or_keep_same_ids: "(\<And>e'. f e = Returns e' \<Longrightarrow> same_ids e e') \<Longrightarrow> same_ids e (or_keep f e)"
  by (cases "f e") (auto simp: or_keep_def)

definition live_update_handlers ::
    "(Course list \<Rightarrow> Course list) \<Rightarrow> Course list option \<Rightarrow> Course list option \<Rightarrow>
     (propval, 'db app_state) ChannelHandlers" where
  "live_update_handlers unique pl p =
     \<lparr>OnSubscribe = Some (\<lambda>r. or_keep (liveUpdateOnSubscribe unique pl p r)),
      OnUnsubscribe = Some (\<lambda>r. or_keep (liveUpdateOnUnsubscribe r)),
      OnMessage = None, SubscriptionMiddlewares = []\<rparr>"

lemma live_update_handlers_good: "good_handlers (live_update_handlers unique pl p)"
  by (auto simp: good_handlers_def live_update_handlers_def
      intro: or_keep_same_ids liveUpdateOnSubscribe_same_ids liveUpdateOnUnsubscribe_same_ids)

end
