(* ===== verification/Chat_Routes.thy ===== *)
theory Chat_Routes
  imports Chat_Hub
begin

text \<open>
  \<^verbatim>\<open>src/api/chat.go\<close>: the chat channel, its message handlers and the HTTP handlers of the chat.
  The chat's data access object is the argument \<open>dao\<close>, a record of its functions on the abstract
  database; \<open>marshal\<close> is \<^verbatim>\<open>json.Marshal\<close> of a chat, None if it fails; \<open>find_urls\<close> and \<open>render\<close> are
  those of \<open>SanitiseMessage\<close>.

  The six handlers that only administrators of the course may use obey one interface
  (\<open>admin_handler\<close>): for anybody else they change nothing, neither the database nor any session.
\<close>

record 'db ChatDao =
  AddChatPollOptionVote :: "uint \<Rightarrow> uint \<Rightarrow> 'db \<Rightarrow> chat_error option \<times> 'db"
  AddChatPoll :: "Poll \<Rightarrow> 'db \<Rightarrow> (chat_error + Poll) \<times> 'db"
  AddMessage :: "Chat \<Rightarrow> 'db \<Rightarrow> (chat_error + Chat) \<times> 'db"
  GetChatUsers :: "uint \<Rightarrow> 'db \<Rightarrow> chat_error + User list"
  GetReactions :: "uint \<Rightarrow> 'db \<Rightarrow> chat_error + ChatReaction list"
  GetVisibleChats :: "uint \<Rightarrow> uint \<Rightarrow> 'db \<Rightarrow> chat_error + Chat list"
  GetAllChats :: "uint \<Rightarrow> uint \<Rightarrow> 'db \<Rightarrow> chat_error + Chat list"
  GetActivePoll :: "uint \<Rightarrow> 'db \<Rightarrow> chat_error + Poll"
  GetPollUserVote :: "uint \<Rightarrow> uint \<Rightarrow> 'db \<Rightarrow> chat_error + uint"
  GetPollOptionVoteCount :: "uint \<Rightarrow> 'db \<Rightarrow> chat_error + int"
  GetPolls :: "uint \<Rightarrow> 'db \<Rightarrow> chat_error + Poll list"
  ApproveChat :: "uint \<Rightarrow> 'db \<Rightarrow> chat_error option \<times> 'db"
  RetractChat :: "uint \<Rightarrow> 'db \<Rightarrow> chat_error option \<times> 'db"
  DeleteChat :: "uint \<Rightarrow> 'db \<Rightarrow> chat_error option \<times> 'db"
  ResolveChat :: "uint \<Rightarrow> 'db \<Rightarrow> chat_error option \<times> 'db"
  ToggleReaction :: "uint \<Rightarrow> uint \<Rightarrow> string \<Rightarrow> string \<Rightarrow> 'db \<Rightarrow> chat_error option \<times> 'db"
  RemoveReactions :: "uint \<Rightarrow> 'db \<Rightarrow> chat_error option \<times> 'db"
  CloseActivePoll :: "uint \<Rightarrow> 'db \<Rightarrow> chat_error option \<times> 'db"
  GetChat :: "uint \<Rightarrow> uint \<Rightarrow> 'db \<Rightarrow> Chat"

text \<open>A data access that writes, and one that reads.\<close>

definition run_db :: "('db \<Rightarrow> 'r \<times> 'db) \<Rightarrow> 'db aenv \<Rightarrow> 'r \<times> 'db aenv" where
  "run_db f e = (let res = f (db (app e)) in (fst res, upd_app (\<lambda>a. a\<lparr>db := snd res\<rparr>) e))"

definition ask_db :: "('db \<Rightarrow> 'r) \<Rightarrow> 'db aenv \<Rightarrow> 'r" where
  "ask_db f e = f (db (app e))"

subsection \<open>Requests\<close>

record wsReq =
  req_Type :: string

record chatReq = wsReq +
  Msg :: string
  Anonymous :: bool
  req_ReplyTo :: int
  AddressedTo :: "uint list"

record wsIdReq = wsReq +
  req_Id :: uint

record wsReactToReq = wsIdReq +
  Reaction :: string

record submitPollOptionVote = wsReq +
  PollOptionId :: uint

record startPollReq = wsReq +
  req_Question :: string
  PollAnswers :: "string list"

definition type_field :: "('a wsReq_scheme) fields" where
  "type_field = [(''type'', \<lambda>j r. map_option (\<lambda>v. r\<lparr>req_Type := v\<rparr>) (dec_string j (req_Type r)))]"

definition id_field :: "('a wsIdReq_scheme) fields" where
  "id_field = [(''id'', \<lambda>j r. map_option (\<lambda>v. r\<lparr>req_Id := v\<rparr>) (dec_uint j (req_Id r)))]"

definition chat_fields :: "chatReq fields" where
  "chat_fields = type_field @
     [(''msg'', \<lambda>j r. map_option (\<lambda>v. r\<lparr>Msg := v\<rparr>) (dec_string j (Msg r))),
      (''anonymous'', \<lambda>j r. map_option (\<lambda>v. r\<lparr>Anonymous := v\<rparr>) (dec_bool j (Anonymous r))),
      (''replyTo'', \<lambda>j r. map_option (\<lambda>v. r\<lparr>req_ReplyTo := v\<rparr>) (dec_int j (req_ReplyTo r))),
      (''addressedTo'', \<lambda>j r. map_option (\<lambda>v. r\<lparr>AddressedTo := v\<rparr>) (dec_list dec_uint 0 j (AddressedTo r)))]"

definition react_fields :: "wsReactToReq fields" where
  "react_fields = type_field @ id_field @
     [(''reaction'', \<lambda>j r. map_option (\<lambda>v. r\<lparr>Reaction := v\<rparr>) (dec_string j (Reaction r)))]"

definition vote_fields :: "submitPollOptionVote fields" where
  "vote_fields = type_field @
     [(''pollOptionId'', \<lambda>j r. map_option (\<lambda>v. r\<lparr>PollOptionId := v\<rparr>) (dec_uint j (PollOptionId r)))]"

definition poll_fields :: "startPollReq fields" where
  "poll_fields = type_field @
     [(''question'', \<lambda>j r. map_option (\<lambda>v. r\<lparr>req_Question := v\<rparr>) (dec_string j (req_Question r))),
      (''pollAnswers'', \<lambda>j r. map_option (\<lambda>v. r\<lparr>PollAnswers := v\<rparr>) (dec_list dec_string [] j (PollAnswers r)))]"

definition parse_type :: "json_text \<Rightarrow> wsReq option" where
  "parse_type msg = unmarshal (dec_struct type_field) msg \<lparr>req_Type = []\<rparr>"

definition parse_chat :: "json_text \<Rightarrow> chatReq option" where
  "parse_chat msg = unmarshal (dec_struct chat_fields) msg
     \<lparr>req_Type = [], Msg = [], Anonymous = False, req_ReplyTo = 0, AddressedTo = []\<rparr>"

definition parse_id :: "json_text \<Rightarrow> wsIdReq option" where
  "parse_id msg = unmarshal (dec_struct (type_field @ id_field)) msg \<lparr>req_Type = [], req_Id = 0\<rparr>"

definition parse_react :: "json_text \<Rightarrow> wsReactToReq option" where
  "parse_react msg = unmarshal (dec_struct react_fields) msg \<lparr>req_Type = [], req_Id = 0, Reaction = []\<rparr>"

definition parse_vote :: "json_text \<Rightarrow> submitPollOptionVote option" where
  "parse_vote msg = unmarshal (dec_struct vote_fields) msg \<lparr>req_Type = [], PollOptionId = 0\<rparr>"

definition parse_poll :: "json_text \<Rightarrow> startPollReq option" where
  "parse_poll msg = unmarshal (dec_struct poll_fields) msg
     \<lparr>req_Type = [], req_Question = [], PollAnswers = []\<rparr>"

text \<open>\<^verbatim>\<open>json.Marshal\<close> of an absent raw message is \<^verbatim>\<open>null\<close>.\<close>

definition parseChatPayload :: "Message \<Rightarrow> wsReq option" where
  "parseChatPayload m = parse_type (case msg_Payload m of None \<Rightarrow> Some JNull | Some j \<Rightarrow> Some j)"

subsection \<open>Message handlers\<close>

definition with_admin ::
    "TUMLiveContext \<Rightarrow> 'db aenv \<Rightarrow> (unit \<Rightarrow> 'db aenv outcome) \<Rightarrow> 'db aenv outcome" where
  "with_admin t e k =
     outcome_bind (course_admin_of t) (\<lambda>isAdmin. if \<not> isAdmin then Returns e else k ())"

definition with_stream :: "TUMLiveContext \<Rightarrow> (uint \<Rightarrow> 'db aenv) \<Rightarrow> 'db aenv outcome" where
  "with_stream t k =
     (case ctx_Stream t of None \<Rightarrow> Panics NilDereference | Some s \<Rightarrow> Returns (k (ID s)))"

definition allowedReactions :: "string list" where
  "allowedReactions = [''+1'', ''-1'', ''smile'', ''tada'', ''confused'', ''heart'', ''eyes'']"

definition POLL_START_MSG :: string where "POLL_START_MSG = ''start_poll''"
definition POLL_CLOSE_MSG :: string where "POLL_CLOSE_MSG = ''close_active_poll''"
definition POLL_PARTICIPATION_MSG :: string where "POLL_PARTICIPATION_MSG = ''submit_poll_option_vote''"

definition vote_count :: "'db ChatDao \<Rightarrow> 'db aenv \<Rightarrow> uint \<Rightarrow> int" where
  "vote_count dao e i = (case ask_db (GetPollOptionVoteCount dao i) e of Inl _ \<Rightarrow> 0 | Inr n \<Rightarrow> n)"

definition handleSubmitPollOptionVote ::
    "'db ChatDao \<Rightarrow> TUMLiveContext \<Rightarrow> json_text \<Rightarrow> 'db aenv \<Rightarrow> 'db aenv outcome" where
  "handleSubmitPollOptionVote dao t msg e =
     (case parse_vote msg of
        None \<Rightarrow> Returns e
      | Some req \<Rightarrow>
        (case ctx_User t of
           None \<Rightarrow> Returns e
         | Some u \<Rightarrow>
           (let (err, e') = run_db (AddChatPollOptionVote dao (PollOptionId req) (ID u)) e in
            if err \<noteq> None then Returns e'
            else
              (let voteCount = vote_count dao e' (PollOptionId req) in
               with_stream t (\<lambda>sid. broadcastStreamToAdmins sid
                 (JObj [(''pollOptionId'', JInt (Word.uint (PollOptionId req))),
                        (''type'', JStr POLL_PARTICIPATION_MSG), (''votes'', JInt voteCount)]) e')))))"

text \<open>The fields gorm fills are the zero values.\<close>

definition new_option :: "string \<Rightarrow> PollOption" where
  "new_option answer =
     \<lparr>ID = 0, CreatedAt = zero_time, UpdatedAt = zero_time, DeletedAt = None, Answer = answer, Votes = []\<rparr>"

definition new_poll :: "uint \<Rightarrow> string \<Rightarrow> string list \<Rightarrow> Poll" where
  "new_poll streamID question answers =
     \<lparr>ID = 0, CreatedAt = zero_time, UpdatedAt = zero_time, DeletedAt = None, poll_StreamID = streamID,
      Question = question, Active = True, PollOptions = map new_option answers\<rparr>"

definition json_list :: "json list \<Rightarrow> json" where
  "json_list js = (if js = [] then JNull else JArr js)"

definition handleStartPoll ::
    "'db ChatDao \<Rightarrow> TUMLiveContext \<Rightarrow> json_text \<Rightarrow> 'db aenv \<Rightarrow> 'db aenv outcome" where
  "handleStartPoll dao t msg e =
     (case parse_poll msg of
        None \<Rightarrow> Returns e
      | Some req \<Rightarrow>
        with_admin t e (\<lambda>_.
          if length (req_Question req) = 0 then Returns e
          else if list_ex (\<lambda>answer. length answer = 0) (PollAnswers req) then Returns e
          else
           (case ctx_Stream t of
              None \<Rightarrow> Panics NilDereference
            | Some s \<Rightarrow>
              (let (res, e') = run_db (AddChatPoll dao (new_poll (ID s) (req_Question req) (PollAnswers req))) e in
               case res of
                 Inl err \<Rightarrow> Returns e'
               | Inr poll \<Rightarrow>
                   Returns (broadcastStream (ID s)
                     (JObj [(''active'', JBool True),
                            (''options'', json_list (map (\<lambda>opt. GetStatsMap opt 0) (PollOptions poll))),
                            (''question'', JStr (Question poll)), (''submitted'', JInt 0),
                            (''type'', JStr POLL_START_MSG)]) e')))))"

definition handleCloseActivePoll ::
    "'db ChatDao \<Rightarrow> TUMLiveContext \<Rightarrow> 'db aenv \<Rightarrow> 'db aenv outcome" where
  "handleCloseActivePoll dao t e =
     with_admin t e (\<lambda>_.
       case ctx_Stream t of
         None \<Rightarrow> Panics NilDereference
       | Some s \<Rightarrow>
         (case ask_db (GetActivePoll dao (ID s)) e of
            Inl err \<Rightarrow> Returns e
          | Inr poll \<Rightarrow>
            (let (err, e') = run_db (CloseActivePoll dao (ID s)) e in
             if err \<noteq> None then Returns e'
             else
               Returns (broadcastStream (ID s)
                 (JObj [(''options'', json_list (map (\<lambda>opt. GetStatsMap opt (vote_count dao e' (ID opt))) (PollOptions poll))),
                        (''question'', JStr (Question poll)), (''type'', JStr POLL_CLOSE_MSG)]) e'))))"

definition handleResolve ::
    "'db ChatDao \<Rightarrow> TUMLiveContext \<Rightarrow> json_text \<Rightarrow> 'db aenv \<Rightarrow> 'db aenv outcome" where
  "handleResolve dao t msg e =
     (case parse_id msg of
        None \<Rightarrow> Returns e
      | Some req \<Rightarrow>
        with_admin t e (\<lambda>_.
          let (err, e') = run_db (ResolveChat dao (req_Id req)) e in
          with_stream t (\<lambda>sid. broadcastStream sid (JObj [(''resolve'', JInt (Word.uint (req_Id req)))]) e')))"

definition handleDelete ::
    "'db ChatDao \<Rightarrow> TUMLiveContext \<Rightarrow> json_text \<Rightarrow> 'db aenv \<Rightarrow> 'db aenv outcome" where
  "handleDelete dao t msg e =
     (case parse_id msg of
        None \<Rightarrow> Returns e
      | Some req \<Rightarrow>
        with_admin t e (\<lambda>_.
          let (err, e') = run_db (DeleteChat dao (req_Id req)) e in
          with_stream t (\<lambda>sid. broadcastStream sid (JObj [(''delete'', JInt (Word.uint (req_Id req)))]) e')))"

definition handleApprove ::
    "'db ChatDao \<Rightarrow> (Chat \<Rightarrow> json option) \<Rightarrow> TUMLiveContext \<Rightarrow> json_text \<Rightarrow> 'db aenv \<Rightarrow> 'db aenv outcome" where
  "handleApprove dao marshal t msg e =
     (case parse_id msg of
        None \<Rightarrow> Returns e
      | Some req \<Rightarrow>
        with_admin t e (\<lambda>_.
          let (err, e') = run_db (ApproveChat dao (req_Id req)) e in
          if err \<noteq> None then Returns e'
          else
           (case marshal (ask_db (GetChat dao (req_Id req) 0) e') of
              None \<Rightarrow> Returns e'
            | Some chat \<Rightarrow>
                with_stream t (\<lambda>sid. broadcastStream sid
                  (JObj [(''approve'', JInt (Word.uint (req_Id req))), (''chat'', chat)]) e'))))"

definition enc_reaction :: "ChatReaction \<Rightarrow> json" where
  "enc_reaction r =
     JObj [(''chatID'', JInt (Word.uint (react_ChatID r))), (''userID'', JInt (Word.uint (react_UserID r))),
           (''username'', JStr (Username r)), (''emoji'', JStr (Emoji r))]"

definition handleReactTo ::
    "'db ChatDao \<Rightarrow> TUMLiveContext \<Rightarrow> json_text \<Rightarrow> 'db aenv \<Rightarrow> 'db aenv outcome" where
  "handleReactTo dao t msg e =
     (case parse_react msg of
        None \<Rightarrow> Returns e
      | Some req \<Rightarrow>
        (if Reaction req \<notin> set allowedReactions then Returns e
         else
          (case ctx_User t of
             None \<Rightarrow> Panics NilDereference
           | Some u \<Rightarrow>
             (let (err, e') = run_db (ToggleReaction dao (ID u) (req_Id req) (user_Name u) (Reaction req)) e in
              if err \<noteq> None then Returns e'
              else
               (case ask_db (GetReactions dao (req_Id req)) e' of
                  Inl _ \<Rightarrow> Returns e'
                | Inr reactions \<Rightarrow>
                    with_stream t (\<lambda>sid. broadcastStream sid
                      (JObj [(''payload'', JArr (map enc_reaction reactions)),
                             (''reactions'', JInt (Word.uint (req_Id req)))]) e'))))))"

definition handleRetract ::
    "'db ChatDao \<Rightarrow> (Chat \<Rightarrow> json option) \<Rightarrow> TUMLiveContext \<Rightarrow> json_text \<Rightarrow> 'db aenv \<Rightarrow> 'db aenv outcome" where
  "handleRetract dao marshal t msg e =
     (case parse_id msg of
        None \<Rightarrow> Returns e
      | Some req \<Rightarrow>
        with_admin t e (\<lambda>_.
          let (err, e1) = run_db (RetractChat dao (req_Id req)) e in
          if err \<noteq> None then Returns e1
          else
           (let (err, e2) = run_db (RemoveReactions dao (req_Id req)) e1 in
            if err \<noteq> None then Returns e2
            else
             (case marshal (ask_db (GetChat dao (req_Id req) 0) e2) of
                None \<Rightarrow> Returns e2
              | Some chat \<Rightarrow>
                  with_stream t (\<lambda>sid. broadcastStream sid
                    (JObj [(''chat'', chat), (''retract'', JInt (Word.uint (req_Id req)))]) e2)))))"

text \<open>The message a user sends, before it is stored.\<close>

definition new_chat :: "User \<Rightarrow> Course \<Rightarrow> uint \<Rightarrow> chatReq \<Rightarrow> Chat" where
  "new_chat u course streamID chat =
     (let uname = (if Anonymous chat \<and> AnonymousChatEnabled course then ''Anonymous'' else GetPreferredName u);
          isAdmin = IsAdminOfCourse (Some u) course;
          isVisible = \<not> (ModeratedChatEnabled course \<and> \<not> isAdmin)
      in \<lparr>ID = 0, CreatedAt = zero_time, UpdatedAt = zero_time, DeletedAt = None,
          chat_UserID = itoa (sint (ID u)), UserName = uname, chat_Message = Msg chat, SanitizedMessage = [],
          chat_StreamID = streamID, chat_Admin = isAdmin, chat_Color = [],
          Visible = Some isVisible, IsVisible = isVisible, Reactions = [], AddressedToUsers = [],
          AddressedToIds = AddressedTo chat, Replies = [],
          ReplyTo = (if req_ReplyTo chat = 0 then None else Some (req_ReplyTo chat)), Resolved = False\<rparr>)"

definition chat_disabled :: "Course \<Rightarrow> TUMLiveContext \<Rightarrow> bool outcome" where
  "chat_disabled course t =
     (if course_ChatEnabled course then Returns False
      else case ctx_Stream t of
             None \<Rightarrow> Panics NilDereference
           | Some stream \<Rightarrow> Returns (\<not> stream_ChatEnabled stream))"

definition store_and_send ::
    "'db ChatDao \<Rightarrow> (Chat \<Rightarrow> json option) \<Rightarrow> Course \<Rightarrow> User \<Rightarrow> uint \<Rightarrow> ctxref \<Rightarrow> Chat \<Rightarrow> 'db aenv \<Rightarrow> 'db aenv" where
  "store_and_send dao marshal course u sid context chatForDb e =
     (let (res, e') = run_db (AddMessage dao chatForDb) e in
      case res of
        Inl err \<Rightarrow>
          (if err = ErrCooledDown
           then sendServerMessage ''You are sending messages too fast. Please wait a bit.''
                  TypeServerErr [context] e'
           else e')
      | Inr stored \<Rightarrow>
        (case marshal stored of
           None \<Rightarrow> e'
         | Some j \<Rightarrow>
             (if ModeratedChatEnabled course \<and> \<not> IsAdminOfCourse (Some u) course
              then broadcastStreamToAdmins sid j (send_to context j e')
              else broadcastStream sid j e')))"

definition handleMessage ::
    "'db ChatDao \<Rightarrow> (Chat \<Rightarrow> json option) \<Rightarrow> (string \<Rightarrow> (nat \<times> nat) list) \<Rightarrow> (string \<Rightarrow> string) \<Rightarrow>
     TUMLiveContext \<Rightarrow> ctxref \<Rightarrow> json_text \<Rightarrow> 'db aenv \<Rightarrow> 'db aenv outcome" where
  "handleMessage dao marshal find_urls render t context msg e =
     (case parse_chat msg of
        None \<Rightarrow> Returns e
      | Some chat \<Rightarrow>
        (case ctx_Course t of
           None \<Rightarrow> Panics NilDereference
         | Some course \<Rightarrow>
             outcome_bind (chat_disabled course t) (\<lambda>disabled.
               if disabled then Returns e
               else
                (case ctx_User t of
                   None \<Rightarrow> Panics NilDereference
                 | Some u \<Rightarrow>
                   (case ctx_Stream t of
                      None \<Rightarrow> Panics NilDereference
                    | Some stream \<Rightarrow>
                        Returns (store_and_send dao marshal course u (ID stream) context
                          (SanitiseMessage find_urls render (new_chat u course (ID stream) chat)) e))))))"

definition chat_dispatch ::
    "'db ChatDao \<Rightarrow> (Chat \<Rightarrow> json option) \<Rightarrow> (string \<Rightarrow> (nat \<times> nat) list) \<Rightarrow> (string \<Rightarrow> string) \<Rightarrow>
     TUMLiveContext \<Rightarrow> ctxref \<Rightarrow> string \<Rightarrow> json_text \<Rightarrow> 'db aenv \<Rightarrow> 'db aenv outcome" where
  "chat_dispatch dao marshal find_urls render t r ty payload e =
     (if ty = ''message'' then handleMessage dao marshal find_urls render t r payload e
      else if ty = ''delete'' then handleDelete dao t payload e
      else if ty = ''start_poll'' then handleStartPoll dao t payload e
      else if ty = ''submit_poll_option_vote'' then handleSubmitPollOptionVote dao t payload e
      else if ty = ''close_active_poll'' then handleCloseActivePoll dao t e
      else if ty = ''resolve'' then handleResolve dao t payload e
      else if ty = ''approve'' then handleApprove dao marshal t payload e
      else if ty = ''retract'' then handleRetract dao marshal t payload e
      else if ty = ''react_to'' then handleReactTo dao t payload e
      else Returns e)"

definition chat_OnMessage ::
    "'db ChatDao \<Rightarrow> (Chat \<Rightarrow> json option) \<Rightarrow> (string \<Rightarrow> (nat \<times> nat) list) \<Rightarrow> (string \<Rightarrow> string) \<Rightarrow>
     ctxref \<Rightarrow> Message \<Rightarrow> 'db aenv \<Rightarrow> 'db aenv outcome" where
  "chat_OnMessage dao marshal find_urls render psc message e =
     (case Option.bind (heap e psc) (\<lambda>c. Context_Get c ''TUMLiveContext'') of
        None \<Rightarrow> Returns e
      | Some (PTum t) \<Rightarrow>
          (if ctx_User t = None then Returns e
           else
            (case parseChatPayload message of
               None \<Rightarrow> Returns e
             | Some req \<Rightarrow>
                 chat_dispatch dao marshal find_urls render t psc (req_Type req) (msg_Payload message) e))
      | Some _ \<Rightarrow> Panics BadTypeAssertion)"

subsection \<open>Subscription handlers\<close>

definition chatOnSubscribe :: "gotime \<Rightarrow> ctxref \<Rightarrow> 'db aenv \<Rightarrow> 'db aenv outcome" where
  "chatOnSubscribe now psc e = connHandler psc (set_ctx psc ''chat.joinTime'' (PTime now) e)"

definition afterUnsubscribe ::
    "(string \<Rightarrow> 'db \<Rightarrow> 'db) \<Rightarrow> gotime \<Rightarrow> string \<Rightarrow> gotime \<Rightarrow> bool \<Rightarrow> 'db aenv \<Rightarrow> 'db aenv" where
  "afterUnsubscribe AddVodView now i joinTime recording e =
     (if recording \<and> joinTime < now + Minute * (- 5) then upd_app (\<lambda>a. a\<lparr>db := AddVodView i (db a)\<rparr>) e else e)"

definition chatOnUnsubscribe ::
    "(string \<Rightarrow> 'db \<Rightarrow> 'db) \<Rightarrow> gotime \<Rightarrow> ctxref \<Rightarrow> 'db aenv \<Rightarrow> 'db aenv outcome" where
  "chatOnUnsubscribe AddVodView now psc e =
     (case heap e psc of
        None \<Rightarrow> Panics NilDereference
      | Some c \<Rightarrow>
        (case Client_Get (ctx_Client c) ''dao'' of
           None \<Rightarrow> Returns e
         | Some PDao \<Rightarrow>
           (case Context_Get c ''TUMLiveContext'' of
              None \<Rightarrow> Returns e
            | Some (PTum t) \<Rightarrow>
              (case Context_Get c ''chat.joinTime'' of
                 None \<Rightarrow> Returns e
               | Some (PTime joinTime) \<Rightarrow>
                 (case ctx_Stream t of
                    None \<Rightarrow> Panics NilDereference
                  | Some stream \<Rightarrow>
                      Returns (afterUnsubscribe AddVodView now (Param c ''streamID'') joinTime (Recording stream) e))
               | Some _ \<Rightarrow> Panics BadTypeAssertion)
            | Some _ \<Rightarrow> Panics BadTypeAssertion)
         | Some _ \<Rightarrow> Panics BadTypeAssertion))"

subsection \<open>HTTP handlers\<close>

definition req_error :: "nat \<Rightarrow> string \<Rightarrow> gin \<Rightarrow> gin" where
  "req_error status message g = does [ReqError status message] g"

definition getMessages ::
    "'db ChatDao \<Rightarrow> (Chat list \<Rightarrow> json) \<Rightarrow> 'db \<Rightarrow> gin \<Rightarrow> gin outcome" where
  "getMessages dao enc d g =
     (case tum g of
        None \<Rightarrow> Returns (req_error StatusNotFound ''context should exist but doesn't'' g)
      | Some t \<Rightarrow>
        outcome_bind (course_admin_of t) (\<lambda>isAdmin.
          let uid = (case ctx_User t of None \<Rightarrow> 0 | Some u \<Rightarrow> ID u) in
          case ctx_Stream t of
            None \<Rightarrow> Panics NilDereference
          | Some s \<Rightarrow>
              Returns (case (if isAdmin then GetAllChats dao uid (ID s) d else GetVisibleChats dao uid (ID s) d) of
                 Inl err \<Rightarrow> req_error StatusInternalServerError ''can not get chat messages'' g
               | Inr chats \<Rightarrow> does [JSONReply 200 (enc chats)] g)))"

definition getUsers :: "'db ChatDao \<Rightarrow> 'db \<Rightarrow> gin \<Rightarrow> gin outcome" where
  "getUsers dao d g =
     (case tum g of
        None \<Rightarrow> Returns (req_error StatusNotFound ''context should exist but doesn't'' g)
      | Some t \<Rightarrow>
        (case ctx_Stream t of
           None \<Rightarrow> Panics NilDereference
         | Some s \<Rightarrow>
             Returns (case GetChatUsers dao (ID s) d of
                Inl err \<Rightarrow> req_error StatusInternalServerError ''can not get chat users'' g
              | Inr users \<Rightarrow>
                  does [JSONReply 200 (JArr (map (\<lambda>u.
                    JObj [(''id'', JInt (Word.uint (ID u))), (''name'', JStr (GetPreferredName u))]) users))] g)))"

definition getActivePoll :: "'db ChatDao \<Rightarrow> 'db \<Rightarrow> gin \<Rightarrow> gin outcome" where
  "getActivePoll dao d g =
     (case tum g of
        None \<Rightarrow> Returns (req_error StatusInternalServerError ''context should exist but doesn't'' g)
      | Some t \<Rightarrow>
        (case ctx_User t of
           None \<Rightarrow> Returns (req_error StatusBadRequest ''not logged in'' g)
         | Some u \<Rightarrow>
           (case ctx_Stream t of
              None \<Rightarrow> Panics NilDereference
            | Some s \<Rightarrow>
              (case GetActivePoll dao (ID s) d of
                 Inl err \<Rightarrow>
                   Returns (if err = ErrRecordNotFound then does [JSONReply StatusNotFound JNull] g
                            else req_error StatusInternalServerError ''Can't get active poll'' g)
               | Inr poll \<Rightarrow>
                 (case GetPollUserVote dao (ID poll) (ID u) d of
                    Inl err \<Rightarrow> Returns (req_error StatusInternalServerError ''can not get poll user vote'' g)
                  | Inr submitted \<Rightarrow>
                      outcome_bind (course_admin_of t) (\<lambda>isAdminOfCourse.
                        Returns (does [JSONReply 200
                          (JObj [(''active'', JBool True),
                                 (''options'', json_list (map (\<lambda>opt. GetStatsMap opt
                                    (if isAdminOfCourse
                                     then (case GetPollOptionVoteCount dao (ID opt) d of Inl _ \<Rightarrow> 0 | Inr n \<Rightarrow> n)
                                     else 0)) (PollOptions poll))),
                                 (''question'', JStr (Question poll)),
                                 (''submitted'', JInt (Word.uint submitted))])] g)))))))"

definition getPolls :: "'db ChatDao \<Rightarrow> 'db \<Rightarrow> gin \<Rightarrow> gin outcome" where
  "getPolls dao d g =
     (case tum g of
        None \<Rightarrow> Panics MissingKey
      | Some t \<Rightarrow>
        (case ctx_User t of
           None \<Rightarrow> Returns (req_error StatusBadRequest ''not logged in'' g)
         | Some u \<Rightarrow>
           (case ctx_Stream t of
              None \<Rightarrow> Panics NilDereference
            | Some s \<Rightarrow>
                Returns (case GetPolls dao (ID s) d of
                   Inl err \<Rightarrow> req_error StatusInternalServerError ''can not get past polls'' g
                 | Inr polls \<Rightarrow>
                     does [JSONReply 200 (json_list (map (\<lambda>poll.
                       JObj [(''ID'', JInt (Word.uint (ID poll))),
                             (''options'', json_list (map (\<lambda>opt. GetStatsMap opt
                                (case GetPollOptionVoteCount dao (ID opt) d of Inl _ \<Rightarrow> 0 | Inr n \<Rightarrow> n))
                                (PollOptions poll))),
                             (''question'', JStr (Question poll))]) polls))] g))))"

subsection \<open>Handlers for administrators only\<close>

lemma run_db_simps:
  assumes "run_db f e = (r, e')"
  shows "r = fst (f (db (app e)))" "e' = upd_app (\<lambda>a. a\<lparr>db := snd (f (db (app e)))\<rparr>) e"
  using assms by (auto simp: run_db_def Let_def)

lemma run_db_keeps:
  assumes "run_db f e = (r, e')"
  shows "same_ids e e'" "sessionsMap (app e') = sessionsMap (app e)"
    "liveUpdateListener (app e') = liveUpdateListener (app e)" "heap e' = heap e" "clients e' = clients e"
    "outbox e' = outbox e"
  by (simp_all add: run_db_simps(2) [OF assms])

lemma course_admin_of_user:
  "ctx_User t = Some u \<Longrightarrow> ctx_Course t = Some c \<Longrightarrow> course_admin_of t = Returns (IsAdminOfCourse (Some u) c)"
  by (simp add: course_admin_of_def)

text \<open>What a handler keeps: the sessions and listeners, and the identity of clients and contexts.\<close>

definition keeps_sessions :: "'db aenv \<Rightarrow> 'db aenv \<Rightarrow> bool" where
  "keeps_sessions e e' \<longleftrightarrow>
     same_ids e e' \<and> heap e' = heap e \<and> sessionsMap (app e') = sessionsMap (app e) \<and>
     liveUpdateListener (app e') = liveUpdateListener (app e)"

lemma keeps_refl [simp, intro]: "keeps_sessions e e"
  by (simp add: keeps_sessions_def)

lemma keeps_trans: "keeps_sessions e1 e2 \<Longrightarrow> keeps_sessions e2 e3 \<Longrightarrow> keeps_sessions e1 e3"
  by (auto simp: keeps_sessions_def intro: same_ids_trans)

lemma keeps_broadcast [simp]:
  "keeps_sessions e (broadcastStream i m e)" "keeps_sessions e (broadcastStreamToAdmins i m e)"
  "keeps_sessions e (send_to r m e)"
  by (simp_all add: keeps_sessions_def stream_bc.same stream_bc.keeps admin_bc.same admin_bc.keeps)

lemma keeps_run_db: "run_db f e = (r, e') \<Longrightarrow> keeps_sessions e e'"
  by (simp add: keeps_sessions_def run_db_keeps)

lemma keeps_server_message [simp]: "keeps_sessions e (sendServerMessage m t rs e)"
  unfolding sendServerMessage_def
proof (induction rs rule: rev_induct)
  case (snoc r rs)
  then show ?case by (auto intro: keeps_trans)
qed simp

lemma with_adminE:
  assumes "with_admin t e k = Returns e'"
  obtains "e' = e" | "course_admin_of t = Returns True" and "k () = Returns e'"
  using assms by (auto simp: with_admin_def split: if_split_asm)

lemma keeps_with_admin:
  "with_admin t e k = Returns e' \<Longrightarrow> (\<And>e''. k () = Returns e'' \<Longrightarrow> keeps_sessions e e'') \<Longrightarrow> keeps_sessions e e'"
  by (elim with_adminE) auto

lemma keeps_with_stream:
  "with_stream t k = Returns e' \<Longrightarrow> (\<And>i. keeps_sessions e (k i)) \<Longrightarrow> keeps_sessions e e'"
  by (auto simp: with_stream_def split: option.split_asm)

lemma with_admin_refuses: "course_admin_of t = Returns False \<Longrightarrow> with_admin t e k = Returns e"
  by (simp add: with_admin_def)

locale admin_handler =
  fixes h :: "TUMLiveContext \<Rightarrow> json_text \<Rightarrow> 'db aenv \<Rightarrow> 'db aenv outcome"
  assumes refuses: "course_admin_of t = Returns False \<Longrightarrow> h t msg e = Returns e"
    and keeps: "h t msg e = Returns e' \<Longrightarrow> keeps_sessions e e'"
begin

lemma anonymous: "ctx_User t = None \<Longrightarrow> h t msg e = Returns e"
  by (rule refuses) (simp add: course_admin_of_def)

lemma outsider:
  "ctx_User t = Some u \<Longrightarrow> ctx_Course t = Some c \<Longrightarrow> \<not> IsAdminOfCourse (Some u) c \<Longrightarrow> h t msg e = Returns e"
  by (rule refuses) (simp add: course_admin_of_def)

text \<open>Whatever it changes, the user was an administrator of the course.\<close>

lemma changes_need_admin:
  assumes "h t msg e = Returns e'" and "e' \<noteq> e"
  shows "course_admin_of t \<noteq> Returns False"
  using assms refuses by fastforce

lemma same: "h t msg e = Returns e' \<Longrightarrow> same_ids e e'"
  using keeps by (simp add: keeps_sessions_def)

end

interpretation delete_h: admin_handler "handleDelete dao" for dao :: "'db ChatDao"
proof
  fix t msg and e e' :: "'db aenv"
  show "course_admin_of t = Returns False \<Longrightarrow> handleDelete dao t msg e = Returns e"
    by (auto simp: handleDelete_def with_admin_refuses split: option.splits)
  show "handleDelete dao t msg e = Returns e' \<Longrightarrow> keeps_sessions e e'"
    by (auto simp: handleDelete_def split: option.split_asm prod.split_asm
        elim!: keeps_with_admin keeps_with_stream intro: keeps_trans keeps_run_db keeps_broadcast)
qed

interpretation resolve_h: admin_handler "handleResolve dao" for dao :: "'db ChatDao"
proof
  fix t msg and e e' :: "'db aenv"
  show "course_admin_of t = Returns False \<Longrightarrow> handleResolve dao t msg e = Returns e"
    by (auto simp: handleResolve_def with_admin_refuses split: option.splits)
  show "handleResolve dao t msg e = Returns e' \<Longrightarrow> keeps_sessions e e'"
    by (auto simp: handleResolve_def split: option.split_asm prod.split_asm
        elim!: keeps_with_admin keeps_with_stream intro: keeps_trans keeps_run_db keeps_broadcast)
qed

interpretation approve_h: admin_handler "handleApprove dao marshal"
  for dao :: "'db ChatDao" and marshal
proof
  fix t msg and e e' :: "'db aenv"
  show "course_admin_of t = Returns False \<Longrightarrow> handleApprove dao marshal t msg e = Returns e"
    by (auto simp: handleApprove_def with_admin_refuses split: option.splits)
  show "handleApprove dao marshal t msg e = Returns e' \<Longrightarrow> keeps_sessions e e'"
    by (auto simp: handleApprove_def split: option.split_asm prod.split_asm if_split_asm
        elim!: keeps_with_admin keeps_with_stream intro: keeps_trans keeps_run_db keeps_broadcast)
qed

interpretation retract_h: admin_handler "handleRetract dao marshal"
  for dao :: "'db ChatDao" and marshal
proof
  fix t msg and e e' :: "'db aenv"
  show "course_admin_of t = Returns False \<Longrightarrow> handleRetract dao marshal t msg e = Returns e"
    by (auto simp: handleRetract_def with_admin_refuses split: option.splits)
  show "handleRetract dao marshal t msg e = Returns e' \<Longrightarrow> keeps_sessions e e'"
    by (auto simp: handleRetract_def Let_def split: option.split_asm prod.split_asm if_split_asm
        elim!: keeps_with_admin keeps_with_stream
        intro: keeps_trans [OF keeps_trans [OF keeps_run_db keeps_run_db] keeps_broadcast(1)]
          keeps_trans [OF keeps_run_db keeps_run_db] keeps_run_db)
qed

interpretation start_poll_h: admin_handler "handleStartPoll dao" for dao :: "'db ChatDao"
proof
  fix t msg and e e' :: "'db aenv"
  show "course_admin_of t = Returns False \<Longrightarrow> handleStartPoll dao t msg e = Returns e"
    by (auto simp: handleStartPoll_def with_admin_refuses split: option.splits)
  show "handleStartPoll dao t msg e = Returns e' \<Longrightarrow> keeps_sessions e e'"
    by (auto simp: handleStartPoll_def Let_def
        split: option.split_asm prod.split_asm if_split_asm sum.split_asm
        elim!: keeps_with_admin intro: keeps_trans keeps_run_db keeps_broadcast)
qed

interpretation close_poll_h: admin_handler "\<lambda>t msg. handleCloseActivePoll dao t" for dao :: "'db ChatDao"
proof
  fix t and e e' :: "'db aenv"
  show "course_admin_of t = Returns False \<Longrightarrow> handleCloseActivePoll dao t e = Returns e"
    by (auto simp: handleCloseActivePoll_def with_admin_refuses)
  show "handleCloseActivePoll dao t e = Returns e' \<Longrightarrow> keeps_sessions e e'"
    by (auto simp: handleCloseActivePoll_def Let_def
        split: option.split_asm prod.split_asm if_split_asm sum.split_asm
        elim!: keeps_with_admin intro: keeps_trans keeps_run_db keeps_broadcast)
qed

end
