(* ===== verification/Model_Props.thy ===== *)
theory Model_Props
  imports Model_User
begin

text \<open>
  The properties of the domain model: who may watch a course and which of its streams are shown,
  the status of a stream over time, semesters, the preferences a course stores, its URL and the
  files of a stream.
\<close>

subsection \<open>Phases in the order of a lecture's life\<close>

fun phase_rank :: "phase \<Rightarrow> nat" where
  "phase_rank Planned = 0"
| "phase_rank ComingUp = 1"
| "phase_rank Live = 2"
| "phase_rank Past = 3"
| "phase_rank Vod = 4"

lemma phase_rank_inj: "phase_rank p = phase_rank q \<longleftrightarrow> p = q"
  by (cases p; cases q) simp_all

instantiation phase :: linorder
begin

definition less_eq_phase :: "phase \<Rightarrow> phase \<Rightarrow> bool" where
  "less_eq_phase p q \<longleftrightarrow> phase_rank p \<le> phase_rank q"

definition less_phase :: "phase \<Rightarrow> phase \<Rightarrow> bool" where
  "less_phase p q \<longleftrightarrow> phase_rank p < phase_rank q"

instance
  by standard (auto simp: less_eq_phase_def less_phase_def phase_rank_inj)

end

lemma itoa_no_slash: "CHR ''/'' \<notin> set (itoa i)"
proof -
  have "CHR ''/'' \<noteq> digit_char d" if "d < 10" for d
  proof
    assume "CHR ''/'' = digit_char d"
    then have "(of_char (CHR ''/'') :: nat) = of_char (digit_char d)" by simp
    with that show False by (simp add: digit_char_def)
  qed
  then show ?thesis by (auto simp: itoa_def dest!: nat_digits_set)
qed

definition demo_course :: "string \<Rightarrow> Course" where
  "demo_course v =
     \<lparr>ID = 7, CreatedAt = 0, UpdatedAt = 0, DeletedAt = None, course_UserID = 1,
      course_Name = ''Analysis'', Slug = ''ana-1'', course_Year = 2024, course_TeachingTerm = ''W'',
      TUMOnlineIdentifier = [], VODEnabled = True, DownloadsEnabled = False,
      course_ChatEnabled = True, AnonymousChatEnabled = False, ModeratedChatEnabled = False,
      VodChatEnabled = False, Visibility = v,
      Streams = [zero_Stream\<lparr>ID := 1, Start := 50, End := 100, Private := True\<rparr>,
                 zero_Stream\<lparr>ID := 2, Start := 70, End := 120\<rparr>,
                 zero_Stream\<lparr>ID := 3, Start := 5, End := 8, Recording := True\<rparr>],
      Users = [], Admins = [], course_Token = [], UserCreatedByToken = False,
      CameraPresetPreferences = None, SourcePreferences = None, Language = Some ''en'',
      Pinned = False, LivePrivate = False, VodPrivate = False\<rparr>"

lemma demo_course_simps:
  "ID (demo_course v) = 7" "course_Year (demo_course v) = 2024" "course_TeachingTerm (demo_course v) = ''W''"
  by (simp_all add: demo_course_def)

definition demo_user :: User where
  "demo_user =
     \<lparr>ID = 1, CreatedAt = 0, UpdatedAt = 0, DeletedAt = None, user_Name = ''Ada'',
      LastName = None, Email = None, MatriculationNumber = [], LrzID = ''ab12cde'', Role = GenericType,
      Password = [], Courses = [], AdministeredCourses = [], PinnedCourses = [], Settings = [],
      Bookmarks = []\<rparr>"

subsection \<open>Access\<close>

text \<open>A public or hidden course may be watched by everybody, a course for logged-in users by every
  user, and every other course only by the users enrolled in it and those who administer it.\<close>

lemma watch_decision:
  "IsEligibleToWatchCourse u c \<longleftrightarrow>
     IsPublic c \<or> IsHidden c \<or> (\<exists>v. u = Some v \<and> (IsLoggedIn c \<or> invited v c \<or> administers v c))"
  by (cases u) (auto simp: watch_simps)

text \<open>C2: the streams a course presents to a user as next lecture and as last recording are never
  private ones, unless the user administers the course.\<close>

theorem private_streams_stay_hidden:
  assumes "Private (GetNextLecture now u c) \<or> Private (GetLastRecording now u c)"
  shows "IsAdminOfCourse u c"
  using assms GetNextLecture_cases [of now u c] last_recording_cases [of now u c zero_Stream "Streams c"]
  by (auto simp: GetLastRecording_def candidate_def skipped_iff)

theorem private_streams_stay_hidden_witness:
  "IsAdminOfCourse (Some demo_user) (demo_course ''public'') \<and>
   ID (GetNextLecture 10 None (demo_course ''public'')) = 2"
proof -
  have "IsAdminOfCourse (Some demo_user) (demo_course ''public'')"
    by (rule private_streams_stay_hidden [where now = 10])
       (simp add: GetNextLecture_def demo_course_def demo_user_def next_lecture_step_def skipped_def
          IsAdminOfCourse_def ten_years_def Hour_def Minute_def Second_def)
  then show ?thesis
    by (simp add: GetNextLecture_def demo_course_def next_lecture_step_def skipped_def
          ten_years_def Hour_def Minute_def Second_def)
qed

text \<open>The next lecture is the earliest one, among the streams the user may see that have not
  ended and start within ten years; without any such stream it is the empty stream.\<close>

lemma next_lecture_is_earliest:
  "(if \<exists>s \<in> set (Streams c). candidate now u c s
    then is_arg_min Start (\<lambda>s. s \<in> set (Streams c) \<and> candidate now u c s) (GetNextLecture now u c)
    else GetNextLecture now u c = zero_Stream)"
  using GetNextLecture_cases [of now u c]
  by (force simp: is_arg_min_linorder)

subsection \<open>The status of a stream\<close>

text \<open>A stream is in exactly one of the five states recorded, live, past, coming up and planned.\<close>

lemma one_status:
  "length (filter id [Recording s, LiveNow s \<and> \<not> Recording s,
     IsPast now s \<and> \<not> Recording s \<and> \<not> LiveNow s, IsComingUp now s, IsPlanned now s]) = 1"
  using phase_cases [of now s] by (cases "stream_phase now s") auto

text \<open>With time a stream only moves forward in its life, but for the very instant at which it
  ends.\<close>

lemma phase_moves_forward:
  assumes "now \<le> now'" and "now' \<noteq> End s"
  shows "stream_phase now s \<le> stream_phase now' s"
  using assms by (auto simp: stream_phase_def less_eq_phase_def)

lemma phase_moves_forward_witness:
  "stream_phase 0 (zero_Stream\<lparr>Start := 5, End := 9\<rparr>) \<le> stream_phase 10 (zero_Stream\<lparr>Start := 5, End := 9\<rparr>) \<and>
   stream_phase 9 (zero_Stream\<lparr>Start := 5, End := 9\<rparr>) = Planned"
  using phase_moves_forward [of 0 10 "zero_Stream\<lparr>Start := 5, End := 9\<rparr>"]
  by (simp add: stream_phase_def zero_Stream_def)

text \<open>The large thumbnail of a stream is the last file of the first type, in the order camera with
  slides, combined, camera, slides, of which the stream has a file.\<close>

lemma large_thumbnail_order:
  "GetLGThumbnail s =
     List.find (\<lambda>p. True) (List.map_filter (\<lambda>t. last_path t (Files s))
       [FILETYPE_THUMB_LG_CAM_PRES, FILETYPE_THUMB_LG_COMB, FILETYPE_THUMB_LG_CAM, FILETYPE_THUMB_LG_PRES])"
  by (simp add: GetLGThumbnail_eq split: option.splits)

subsection \<open>Semesters and course lists\<close>

text \<open>For the two teaching terms, lying between two semesters is lying in the interval of half
  years that they span.\<close>

lemma between_semesters_interval:
  assumes "valid_semester s" and "valid_semester a" and "valid_semester b"
  shows "IsBetweenSemesters s a b \<longleftrightarrow> half_year s \<in> {half_year a..half_year b}"
proof (cases "a = b")
  case True
  with half_year_inj [OF assms(1,2)] show ?thesis
    by (auto simp: IsBetweenSemesters_def IsEqual_def)
next
  case False
  then have "\<not> (Year a = Year b \<and> TeachingTerm a = TeachingTerm b)" by auto
  then show ?thesis
    using semesters.ge_between [OF assms] by (auto simp: IsBetweenSemesters_def)
qed

lemma between_semesters_interval_witness:
  "IsBetweenSemesters \<lparr>TeachingTerm = ''W'', Year = 2023\<rparr> \<lparr>TeachingTerm = ''S'', Year = 2023\<rparr>
     \<lparr>TeachingTerm = ''S'', Year = 2024\<rparr>"
  by (subst between_semesters_interval) (simp_all add: valid_semester_def half_year_def)

text \<open>The courses of a user in a semester are listed once per ID, and the IDs listed are those of
  the enrolled and administered courses of that semester.\<close>

lemma courses_for_semester_once:
  assumes "set ks = dom (cMap u year term)" and "distinct ks"
  shows "map ID (CoursesForSemester ks u year term) = ks \<and>
         set ks = {ID c | c. c \<in> set (Courses u) \<union> set (AdministeredCourses u) \<and> in_semester year term c} \<and>
         (\<forall>c \<in> set (CoursesForSemester ks u year term).
            in_semester year term c \<and> c \<in> set (Courses u) \<union> set (AdministeredCourses u))"
proof -
  have "map ID (CoursesForSemester ks u year term) = ks"
    unfolding CoursesForSemester_def
    by (rule map_filter_ids) (use assms in \<open>auto dest: cMap_SomeD\<close>)
  moreover have "set ks = {ID c | c. c \<in> set (Courses u) \<union> set (AdministeredCourses u) \<and> in_semester year term c}"
    using assms(1) dom_cMap by simp
  moreover have "in_semester year term c \<and> c \<in> set (Courses u) \<union> set (AdministeredCourses u)"
    if "c \<in> set (CoursesForSemester ks u year term)" for c
    using that by (auto simp: CoursesForSemester_def set_map_filter dest: cMap_SomeD)
  ultimately show ?thesis by blast
qed

lemma courses_for_semester_once_witness:
  "map ID (CoursesForSemester [7] (demo_user\<lparr>Courses := [demo_course ''public''], AdministeredCourses := [demo_course ''hidden'']\<rparr>) 2024 ''W'') = [7]"
  by (rule courses_for_semester_once [THEN conjunct1])
     (auto simp: dom_cMap in_semester_def demo_course_simps intro!: exI [of _ "demo_course ''public''"])

subsection \<open>Preferences of a course\<close>

text \<open>Source preferences, one per lecture hall, survive being stored as JSON: each hall then has
  the mode that was saved for it.\<close>

lemma source_preference_roundtrip:
  assumes "distinct (map sp_LectureHallID pref)" and "\<forall>q \<in> set pref. int64 (sp_SourceMode q)"
    and "p \<in> set pref"
  shows "GetSourceModeForLectureHall (SetSourcePreference pref c) (sp_LectureHallID p) = sp_SourceMode p"
proof -
  have "List.find (\<lambda>q. sp_LectureHallID q = sp_LectureHallID p) pref = Some p"
    using assms(1,3) by (induction pref) auto
  with assms(2) show ?thesis
    by (simp add: GetSourceModeForLectureHall_def GetSet_SourcePreference)
qed

lemma source_preference_roundtrip_witness:
  "GetSourceModeForLectureHall
     (SetSourcePreference [\<lparr>sp_LectureHallID = 3, sp_SourceMode = 1\<rparr>, \<lparr>sp_LectureHallID = 4, sp_SourceMode = 2\<rparr>]
        (demo_course ''public'')) 4 = 2"
  using source_preference_roundtrip [of "[\<lparr>sp_LectureHallID = 3, sp_SourceMode = 1\<rparr>, \<lparr>sp_LectureHallID = 4, sp_SourceMode = 2\<rparr>]"
      "\<lparr>sp_LectureHallID = 4, sp_SourceMode = 2\<rparr>" "demo_course ''public''"]
  by (simp add: int64_def)

text \<open>Subtitles are generated for a video of a lecture hall only if the course may use that
  source of the hall, and for one version only.\<close>

lemma subtitles_of_a_usable_source:
  assumes "lh \<noteq> 0" and "ShouldGenerateSubtitles c v lh"
  shows "CanUseSource c lh v \<and> (\<forall>w. ShouldGenerateSubtitles c w lh \<longrightarrow> w = v)"
proof -
  have usable: "(case List.find (\<lambda>p. sp_LectureHallID p = lh) ps of
      None \<Rightarrow> subtitle_version lh ps = PRES
    | Some p \<Rightarrow> (subtitle_version lh ps = PRES \<longrightarrow> sp_SourceMode p \<noteq> 2) \<and>
                (subtitle_version lh ps = CAM \<longrightarrow> sp_SourceMode p \<noteq> 1))" for ps
    by (induction ps) (auto simp: source_mode_defs version_defs split: option.splits)
  have "v = subtitle_version lh (GetSourcePreference c)"
    using assms by (simp add: ShouldGenerateSubtitles_def split: if_splits)
  with assms(1) usable [of "GetSourcePreference c"] subtitle_version_cases [of lh "GetSourcePreference c"]
  show ?thesis
    by (auto simp: CanUseSource_def GetSourceModeForLectureHall_def ShouldGenerateSubtitles_def version_defs
        split: option.splits)
qed

lemma subtitles_of_a_usable_source_witness:
  "CanUseSource (demo_course ''public'') 3 PRES"
  by (rule subtitles_of_a_usable_source [THEN conjunct1])
     (simp_all add: ShouldGenerateSubtitles_def demo_course_def GetSourcePreference_def)

subsection \<open>URLs\<close>

text \<open>A course that passes the save hook has an address whose parts can be read back: year, term
  and slug are segments of it.\<close>

lemma course_url_segments:
  assumes "Course_BeforeSave c = None" and "CHR ''/'' \<notin> set (course_TeachingTerm c)"
  shows "go_split (GetUrl c) ''/'' =
         [[], ''course'', itoa (course_Year c), course_TeachingTerm c, Slug c]"
proof -
  have "CHR ''/'' \<notin> set (Slug c)" by (rule BeforeSave_no_slash [OF assms(1)])
  moreover have "GetUrl c = ''/course/'' @ itoa (course_Year c) @ CHR ''/'' # course_TeachingTerm c @ CHR ''/'' # Slug c"
    by (simp add: GetUrl_def)
  moreover have "go_split (''/course/'' @ t) ''/'' = [] # ''course'' # go_split t ''/''" for t
    using go_split_append_sep [of "CHR ''/''" "[]" "''course'' @ CHR ''/'' # t"]
      go_split_append_sep [of "CHR ''/''" "''course''" t] by simp
  ultimately show ?thesis
    using assms(2) itoa_no_slash [of "course_Year c"]
    by (simp only: go_split_append_sep go_split_no_sep not_False_eq_True)
qed

lemma course_url_segments_witness:
  "go_split (GetUrl (demo_course ''public'')) ''/'' = [[], ''course'', itoa 2024, ''W'', ''ana-1'']"
proof -
  have "Course_BeforeSave (demo_course ''public'') = None"
    by (simp add: Course_BeforeSave_def courseSlugRegex_def demo_course_def slug_ascii_def)
  from course_url_segments [OF this] show ?thesis by (simp add: demo_course_def)
qed

text \<open>\<open>IsURL\<close> holds of no file: a parsed scheme has no slashes, so it is never \<^verbatim>\<open>https://\<close> or
  \<^verbatim>\<open>http://\<close>.\<close>

lemma no_file_is_a_URL: "IsURL rest_ok f = False"
  by (auto simp: IsURL_def split: option.splits dest!: scheme_no_slash)

end
