(* ===== verification/RT_Props.thy ===== *)
theory RT_Props
  imports RT_Hub
begin

text \<open>
  The properties of the realtime component, stated over the reachable states of the hub and over
  single operations, and the concrete hub on which they are exercised.
\<close>
text \<open>
  A hub for the examples: one channel with a parameter whose middleware lets a client in when
  its client identifier is even in length, a subscribe handler that greets, an unsubscribe
  handler and a message handler that count in the application state.
\<close>

definition demo_handlers :: "(nat, nat) ChannelHandlers" where
  "demo_handlers =
     \<lparr>OnSubscribe = Some (\<lambda>r e. case heap e r of None \<Rightarrow> e | Some c \<Rightarrow> snd (Context_Send c (JStr ''hello'') e)),
      OnUnsubscribe = Some (\<lambda>r e. e\<lparr>app := app e + 100\<rparr>),
      OnMessage = Some (\<lambda>r m e. e\<lparr>app := Suc (app e)\<rparr>),
      SubscriptionMiddlewares =
        [\<lambda>r e. (case heap e r of None \<Rightarrow> (None, e)
                | Some c \<Rightarrow> (if even (length (client_Id (ctx_Client c))) then None
                             else Some (NewError 403 ''forbidden''), set_ctx r ''seen'' 1 e))]\<rparr>"

lemma demo_handlers_good: "good_handlers demo_handlers"
  by (auto simp: good_handlers_def demo_handlers_def split: option.splits)

definition demo_req :: "string \<Rightarrow> json_text" where
  "demo_req t = Some (JObj [(''type'', JStr t), (''channel'', JStr ''chat/7''), (''payload'', JNull)])"

definition demo0 :: "(nat, nat) hub" where "demo0 = Register ''chat/:id'' demo_handlers (new_hub 0)"

definition demo1 :: "(nat, nat) hub" where
  "demo1 = (case Connector_Join (\<lambda>m. None) Map.empty [''ab''] demo0 of Some (cl, us, h) \<Rightarrow> h | None \<Rightarrow> demo0)"

definition demo2 :: "(nat, nat) hub" where
  "demo2 = (case Connector_Message [''chat/:id''] ''ab'' (demo_req ''subscribe'') demo1 of
              Returns h \<Rightarrow> h | Panics p \<Rightarrow> demo1)"

lemma demo_decode:
  "unmarshal (dec_struct message_fields) (demo_req t) zero_Message =
   Some \<lparr>msg_Type = t, msg_Channel = ''chat/7'', msg_Payload = Some JNull\<rparr>"
  by (simp add: demo_req_def message_fields_def find_field_def zero_Message_def)

lemma demo_split: "go_split ''chat/:id'' ''/'' = [''chat'', '':id'']" "go_split ''chat/7'' ''/'' = [''chat'', ''7'']"
  by code_simp+

lemmas demo_eval =
  demo0_def demo_handlers_def new_hub_def empty_env_def Register_def channelPathSep_def
  Connector_Join_def ClientStore_Join_def NewClient_def Connector_Message_def ClientStore_Get_def
  messageHandler_def demo_decode demo_split
  Store_Subscribe_def Store_Get_def PathMatches_def with_channel_def alloc_ctx_def set_ctx_def
  Channel_Subscribe_def send_error_to_def call_def Let_def MessageTypeSubscribe_def

lemma demo_join: "\<exists>cl us. Connector_Join (\<lambda>m. None) Map.empty [''ab''] demo0 = Some (cl, us, demo1)"
  by (simp add: demo1_def demo_eval)

lemma demo_subscribe:
  "Connector_Message [''chat/:id''] ''ab'' (demo_req ''subscribe'') demo1 = Returns demo2"
  by (simp add: demo2_def demo1_def demo_eval)


lemma demo_reachable: "reachable 0 demo2"
proof -
  have "reachable 0 demo0" unfolding demo0_def
    by (rule reachable_step [OF reachable_new step_register [OF demo_handlers_good]])
  moreover obtain cl us where "Connector_Join (\<lambda>m. None) Map.empty [''ab''] demo0 = Some (cl, us, demo1)"
    using demo_join by blast
  then have "hub_step demo0 demo1" by (intro step_join) (auto simp: uuid_like_def)
  moreover have "hub_step demo1 demo2" by (rule step_message [OF demo_subscribe])
  ultimately show ?thesis by (blast intro: reachable_step)
qed

definition demo_channel :: "(nat, nat) Channel" where
  "demo_channel = \<lparr>path = [''chat'', '':id''], handlers = demo_handlers,
                   subscribers = [''ab__chat/7'' \<mapsto> 0]\<rparr>"

lemma demo2_channel: "channels demo2 = [''chat/:id'' \<mapsto> demo_channel]"
  by (simp add: demo2_def demo1_def demo_eval demo_channel_def Subs_Add_def createKey_def)

lemma demo2_client: "clients (env demo2) = [''ab'' \<mapsto> \<lparr>client_Id = ''ab'', sendMessage = \<lambda>m. None,
    client_properties = Map.empty\<rparr>]"
  by (simp add: demo2_def demo1_def demo_eval)

lemma demo1_channel: "channels demo1 = [''chat/:id'' \<mapsto> demo_channel\<lparr>subscribers := Map.empty\<rparr>]"
  by (simp add: demo1_def demo_eval demo_channel_def)

subsection \<open>The invariant taken apart\<close>

lemma hub_invD:
  assumes "hub_inv h" and "channels h k = Some c"
  shows "good_handlers (handlers c)" and "chan_ok (env h) c"
  using assms by (simp_all add: hub_inv_def)

lemma hub_inv_client:
  assumes "hub_inv h" and "clients (env h) i = Some cl"
  shows "client_Id cl = i" and "uuid_like i" and "i \<noteq> []"
  using assms by (simp_all add: hub_inv_def env_ok_def)

subsection \<open>Properties\<close>

text \<open>C1: in every reachable state of the hub a subscription belongs to a connected client and is
  stored under the key made of that client's identifier and the path of its context.\<close>

theorem subscriptions_belong_to_clients:
  assumes "reachable a h" and "channels h k = Some c" and "subscribers c x = Some r"
  shows "\<exists>ctx. heap (env h) r = Some ctx \<and>
               x = createKey (client_Id (ctx_Client ctx)) (FullPath ctx) \<and>
               clients (env h) (client_Id (ctx_Client ctx)) = Some (ctx_Client ctx)"
  using reachable_hub_inv [OF assms(1)] assms(2,3) by (auto simp: hub_inv_def chan_ok_def)

theorem subscriptions_belong_to_clients_witness:
  "\<exists>ctx. heap (env demo2) 0 = Some ctx \<and>
         ''ab__chat/7'' = createKey (client_Id (ctx_Client ctx)) (FullPath ctx) \<and>
         clients (env demo2) (client_Id (ctx_Client ctx)) = Some (ctx_Client ctx)"
  by (rule subscriptions_belong_to_clients [OF demo_reachable, of "''chat/:id''" demo_channel])
     (simp_all add: demo2_channel demo_channel_def)

text \<open>When a client of a reachable hub leaves, it is no longer connected and no channel holds a
  subscription of it, whatever the path.\<close>

lemma leave_removes_everything:
  assumes "reachable a h" and "enumerates cs ko h" and "Connector_Leave cs ko i h = Returns h'"
    and "uuid_like i"
  shows "\<not> IsConnected (env h') i \<and>
         (\<forall>k c p. channels h' k = Some c \<longrightarrow> \<not> Channel_IsSubscribed c i p)"
proof -
  note inv = reachable_hub_inv [OF assms(1)]
  have "\<not> Channel_IsSubscribed c i p" if c: "channels h' k = Some c" for k c p
  proof
    assume "Channel_IsSubscribed c i p"
    then obtain r where r: "subscribers c (createKey i p) = Some r"
      by (auto simp: Channel_IsSubscribed_def Subs_IsSubscribed_def)
    note inv' = hub_inv_Leave(1) [OF inv assms(2,3)]
    have "chan_ok (env h') c" by (rule hub_invD(2) [OF inv' c])
    with r obtain ctx where ctx: "heap (env h') r = Some ctx"
      "createKey i p = createKey (client_Id (ctx_Client ctx)) (FullPath ctx)"
      "clients (env h') (client_Id (ctx_Client ctx)) = Some (ctx_Client ctx)"
      unfolding chan_ok_def by blast
    have "uuid_like (client_Id (ctx_Client ctx))" by (rule hub_inv_client(2) [OF inv' ctx(3)])
    from createKey_inj [OF assms(4) this ctx(2)] have "client_Id (ctx_Client ctx) = i" by simp
    with ctx have "owned_by (heap (env h')) i r" by (simp add: owned_by_def)
    with hub_inv_Leave(3) [OF inv assms(2,3) c] r show False unfolding free_of_def by blast
  qed
  moreover have "\<not> IsConnected (env h') i"
    using hub_inv_Leave(2) [OF inv assms(2,3)] by (simp add: IsConnected_def ClientStore_Exists_def)
  ultimately show ?thesis by blast
qed

lemma leave_removes_everything_witness:
  "\<exists>h'. Connector_Leave [''chat/:id''] (\<lambda>p. [''ab__chat/7'']) ''ab'' demo2 = Returns h' \<and>
        \<not> IsConnected (env h') ''ab'' \<and>
        (\<forall>k c p. channels h' k = Some c \<longrightarrow> \<not> Channel_IsSubscribed c ''ab'' p)"
proof -
  have en: "enumerates [''chat/:id''] (\<lambda>p. [''ab__chat/7'']) demo2"
    by (simp add: enumerates_def demo2_channel demo_channel_def)
  obtain h' where "Connector_Leave [''chat/:id''] (\<lambda>p. [''ab__chat/7'']) ''ab'' demo2 = Returns h'"
    by (simp add: Connector_Leave_def ClientStore_Get_def demo2_client Let_def)
  with leave_removes_everything [OF demo_reachable en this] show ?thesis by (simp add: uuid_like_def)
qed


subsection \<open>Accepted and rejected subscriptions\<close>

lemma run_middlewares_append:
  "run_middlewares (ms @ ns) r e =
     (let res = run_middlewares ms r e in
      case fst res of Some err \<Rightarrow> res | None \<Rightarrow> run_middlewares ns r (snd res))"
  by (induction ms arbitrary: e) (auto simp: Let_def split: option.splits)

lemma run_middlewares_accept:
  "\<forall>m \<in> set ms. \<forall>e. fst (m r e) = None \<Longrightarrow> fst (run_middlewares ms r e) = None"
  by (induction ms arbitrary: e) (auto simp: Let_def)

lemma run_middlewares_reject:
  assumes "\<forall>m \<in> set ms. \<forall>e. fst (m r e) = None" and "\<forall>e. fst (m r e) = Some err"
  shows "fst (run_middlewares (ms @ m # ns) r e) = Some err"
  using assms(2) run_middlewares_accept [OF assms(1)]
  by (auto simp: run_middlewares_append Let_def split: option.splits)

lemma Store_Subscribe_at:
  assumes "Store_Get cs (channels h) p = Returns (Some (k, prms))" and "channels h k = Some c"
    and "alloc_ctx \<lparr>ctx_Client = cl, FullPath = p, params = prms, ctx_properties = Map.empty\<rparr> (env h) = (r, e)"
  shows "Store_Subscribe cs cl p h =
     Returns (True, with_channel k (fst (Channel_Subscribe r c e)) (snd (Channel_Subscribe r c e)) h)"
  using assms by (simp add: Store_Subscribe_def Let_def)

lemma middlewares_same_ids:
  "good_handlers hs \<Longrightarrow> same_ids e (snd (run_middlewares (SubscriptionMiddlewares hs) r e))"
  by (rule good_run_middlewares) (auto simp: good_handlers_def)

text \<open>A middleware that rejects stops the subscription: no channel gains a subscriber, the
  later middlewares have no say, and the client is sent the error on the path it asked for.\<close>

lemma rejected_subscription:
  assumes "reachable a h" and "Store_Get cs (channels h) p = Returns (Some (k, prms))"
    and "channels h k = Some c" and "SubscriptionMiddlewares (handlers c) = ms @ m # ns"
    and "\<And>n r e. n \<in> set ms \<Longrightarrow> fst (n r e) = None" and "\<And>r e. fst (m r e) = Some err"
  shows "\<exists>h'. Store_Subscribe cs cl p h = Returns (True, h') \<and> channels h' = channels h \<and>
     last (outbox (env h')) =
       (client_Id cl, \<lparr>msg_Type = MessageTypeChannelMessage, msg_Channel = p, msg_Payload = Some (enc_error err)\<rparr>)"
proof -
  note inv = reachable_hub_inv [OF assms(1)]
  have ok: "env_ok (env h)" using inv by (simp add: hub_inv_def)
  define ctx where "ctx = \<lparr>ctx_Client = cl, FullPath = p, params = prms, ctx_properties = Map.empty\<rparr>"
  obtain r e where alloc: "alloc_ctx ctx (env h) = (r, e)" by (cases "alloc_ctx ctx (env h)")
  define res where "res = run_middlewares (SubscriptionMiddlewares (handlers c)) r e"
  have rej: "fst res = Some err" unfolding res_def assms(4) by (rule run_middlewares_reject) (use assms(5,6) in simp_all)
  have "same_ids e (snd res)"
    unfolding res_def by (rule middlewares_same_ids [OF hub_invD(1) [OF inv assms(3)]])
  from same_ids_lookup [OF this alloc_facts(1) [OF alloc ok]] obtain ctx' where
    ctx': "heap (snd res) r = Some ctx'" "ctx_Client ctx' = cl" "FullPath ctx' = p"
    unfolding ctx_def by auto
  have sub: "Channel_Subscribe r c e = (c, snd (SendError ctx' err (snd res)))"
    using rej ctx'(1) by (simp add: Channel_Subscribe_def send_error_to_def Let_def flip: res_def)
  have "Store_Subscribe cs cl p h = Returns (True, with_channel k c (snd (SendError ctx' err (snd res))) h)"
    using Store_Subscribe_at [OF assms(2,3) alloc [unfolded ctx_def]] by (simp add: sub)
  moreover have "channels (with_channel k c e' h) = channels h" for e'
    using assms(3) by (simp add: with_channel_def fun_upd_idem)
  ultimately show ?thesis
    using ctx'(2,3) by (simp add: with_channel_def frame_def)
qed

definition odd_hub :: "(nat, nat) hub" where
  "odd_hub = Register ''chat/:id''
     (demo_handlers\<lparr>SubscriptionMiddlewares :=
        [\<lambda>r e. (None, set_ctx r ''seen'' 1 e), \<lambda>r e. (Some (NewError 403 ''forbidden''), e)]\<rparr>) (new_hub 0)"

lemma rejected_subscription_witness:
  "\<exists>h'. Store_Subscribe [''chat/:id''] (NewClient (\<lambda>m. None) Map.empty) ''chat/7'' odd_hub = Returns (True, h') \<and>
     channels h' = channels odd_hub \<and>
     last (outbox (env h')) =
       ([], \<lparr>msg_Type = MessageTypeChannelMessage, msg_Channel = ''chat/7'',
             msg_Payload = Some (enc_error (NewError 403 ''forbidden''))\<rparr>)"
proof -
  let ?ms = "[\<lambda>r e. (None, set_ctx r ''seen'' 1 e), \<lambda>r e. (Some (NewError 403 ''forbidden''), e)]
              :: (nat, nat) SubscriptionMiddleware list"
  let ?hs = "demo_handlers\<lparr>SubscriptionMiddlewares := ?ms\<rparr>"
  have "good_handlers ?hs" using demo_handlers_good by (simp add: good_handlers_def)
  then have reach: "reachable 0 odd_hub"
    unfolding odd_hub_def by (intro reachable_step [OF reachable_new step_register])
  have ch: "channels odd_hub ''chat/:id'' =
      Some \<lparr>path = [''chat'', '':id''], handlers = ?hs, subscribers = Map.empty\<rparr>"
    by (simp add: odd_hub_def Register_def channelPathSep_def demo_split)
  have get: "Store_Get [''chat/:id''] (channels odd_hub) ''chat/7'' = Returns (Some (''chat/:id'', [''id'' \<mapsto> ''7'']))"
    by (simp add: odd_hub_def Store_Get_def Register_def channelPathSep_def demo_split PathMatches_def new_hub_def)
  show ?thesis
    using rejected_subscription [OF reach get ch, where ms = "[hd ?ms]" and m = "last ?ms" and ns = "[]"
        and err = "NewError 403 ''forbidden''" and cl = "NewClient (\<lambda>m. None) Map.empty"]
    by (simp add: NewClient_def)
qed

text \<open>A client that every middleware accepts is subscribed to the path it asked for, and the
  subscriptions of other clients and of the client to other paths stay as they were.\<close>

lemma accepted_subscription:
  assumes "reachable a h" and "Store_Get cs (channels h) p = Returns (Some (k, prms))"
    and "channels h k = Some c" and "uuid_like (client_Id cl)"
    and "\<And>m r e. m \<in> set (SubscriptionMiddlewares (handlers c)) \<Longrightarrow> fst (m r e) = None"
  shows "\<exists>h' c'. Store_Subscribe cs cl p h = Returns (True, h') \<and> channels h' = (channels h)(k \<mapsto> c') \<and>
     (\<forall>i q. uuid_like i \<longrightarrow>
        Channel_IsSubscribed c' i q = (i = client_Id cl \<and> q = p \<or> Channel_IsSubscribed c i q))"
proof -
  note inv = reachable_hub_inv [OF assms(1)]
  have ok: "env_ok (env h)" using inv by (simp add: hub_inv_def)
  define ctx where "ctx = \<lparr>ctx_Client = cl, FullPath = p, params = prms, ctx_properties = Map.empty\<rparr>"
  obtain r e where alloc: "alloc_ctx ctx (env h) = (r, e)" by (cases "alloc_ctx ctx (env h)")
  define res where "res = run_middlewares (SubscriptionMiddlewares (handlers c)) r e"
  have acc: "fst res = None" unfolding res_def by (rule run_middlewares_accept) (use assms(5) in simp)
  have "same_ids e (snd res)"
    unfolding res_def by (rule middlewares_same_ids [OF hub_invD(1) [OF inv assms(3)]])
  from same_ids_lookup [OF this alloc_facts(1) [OF alloc ok]] obtain ctx' where
    ctx': "heap (snd res) r = Some ctx'" "ctx_Client ctx' = cl" "FullPath ctx' = p"
    unfolding ctx_def by auto
  let ?c = "c\<lparr>subscribers := Subs_Add ctx' r (subscribers c)\<rparr>"
  have sub: "Channel_Subscribe r c e = (?c, call (OnSubscribe (handlers c)) r (snd res))"
    using acc ctx'(1) by (simp add: Channel_Subscribe_def Let_def flip: res_def)
  have "Channel_IsSubscribed ?c i q = (i = client_Id cl \<and> q = p \<or> Channel_IsSubscribed c i q)"
    if "uuid_like i" for i q
    using that assms(4) ctx'(2,3) GetContext_Add [of ctx' i r "subscribers c" q]
    by (auto simp: Channel_IsSubscribed_def IsSubscribed_GetContext)
  moreover have "Store_Subscribe cs cl p h =
      Returns (True, with_channel k ?c (call (OnSubscribe (handlers c)) r (snd res)) h)"
    using Store_Subscribe_at [OF assms(2,3) alloc [unfolded ctx_def]] by (simp add: sub)
  ultimately show ?thesis by (intro exI [where x = "with_channel k ?c (call (OnSubscribe (handlers c)) r (snd res)) h"]
        exI [where x = ?c]) (simp add: with_channel_def)
qed

definition open_hub :: "(nat, nat) hub" where
  "open_hub = Register ''chat/:id'' (demo_handlers\<lparr>SubscriptionMiddlewares := []\<rparr>) (new_hub 0)"

lemma accepted_subscription_witness:
  "\<exists>h' c'. Store_Subscribe [''chat/:id''] (NewClient (\<lambda>m. None) Map.empty) ''chat/7'' open_hub = Returns (True, h') \<and>
     channels h' = (channels open_hub)(''chat/:id'' \<mapsto> c') \<and> Channel_IsSubscribed c' [] ''chat/7'' \<and>
     \<not> Channel_IsSubscribed c' [] ''chat/8''"
proof -
  let ?hs = "demo_handlers\<lparr>SubscriptionMiddlewares := []\<rparr>"
  let ?c = "\<lparr>path = [''chat'', '':id''], handlers = ?hs, subscribers = Map.empty\<rparr>"
  have "good_handlers ?hs" using demo_handlers_good by (simp add: good_handlers_def)
  then have reach: "reachable 0 open_hub"
    unfolding open_hub_def by (intro reachable_step [OF reachable_new step_register])
  have ch: "channels open_hub ''chat/:id'' = Some ?c"
    by (simp add: open_hub_def Register_def channelPathSep_def demo_split)
  have get: "Store_Get [''chat/:id''] (channels open_hub) ''chat/7'' = Returns (Some (''chat/:id'', [''id'' \<mapsto> ''7'']))"
    by (simp add: open_hub_def Store_Get_def Register_def channelPathSep_def demo_split PathMatches_def new_hub_def)
  have "\<not> Channel_IsSubscribed ?c [] ''chat/8''" by (simp add: Channel_IsSubscribed_def Subs_IsSubscribed_def)
  with accepted_subscription [OF reach get ch, where cl = "NewClient (\<lambda>m. None) Map.empty"] show ?thesis
    by (force simp: NewClient_def uuid_like_def)
qed


text \<open>A channel message of a client that is not subscribed to that path is dropped: no handler
  of the application sees it.\<close>

lemma message_needs_subscription:
  assumes "clients (env h) i = Some cl" and "unmarshal (dec_struct message_fields) data zero_Message = Some req"
    and "msg_Type req = MessageTypeChannelMessage"
    and "Realtime_IsSubscribed cs (msg_Channel req) (client_Id cl) h = Returns False"
  shows "Connector_Message cs i data h = Returns h"
proof -
  from assms(4) obtain g where g: "Store_Get cs (channels h) (msg_Channel req) = Returns g"
    by (auto simp: Realtime_IsSubscribed_def outcome_bind_Returns_iff)
  have "h\<lparr>env := HandleMessage c cl req (env h)\<rparr> = h"
    if "g = Some (k, prms)" "channels h k = Some c" for k prms c
    using assms(4) that g
    by (simp add: Realtime_IsSubscribed_def Channel_IsSubscribed_def IsSubscribed_GetContext
          HandleMessage_def split: option.splits)
  then have "Store_OnMessage cs (Some cl) req h = Returns h"
    by (auto simp: Store_OnMessage_def g split: option.splits)
  with assms(1-3) show ?thesis
    by (simp add: Connector_Message_def ClientStore_Get_def messageHandler_def MessageTypeSubscribe_def
          MessageTypeUnsubscribe_def MessageTypeChannelMessage_def)
qed

lemma message_needs_subscription_witness:
  "Connector_Message [''chat/:id''] ''ab'' (demo_req ''message'') demo1 = Returns demo1"
proof -
  have "clients (env demo1) ''ab'' =
      Some \<lparr>client_Id = ''ab'', sendMessage = \<lambda>m. None, client_properties = Map.empty\<rparr>"
    by (simp add: demo1_def demo_eval)
  moreover have "Store_Get [''chat/:id''] (channels demo1) ''chat/7'' = Returns (Some (''chat/:id'', [''id'' \<mapsto> ''7'']))"
    by (simp add: demo1_channel demo_channel_def Store_Get_def channelPathSep_def demo_split PathMatches_def)
  ultimately show ?thesis
    by (rule_tac message_needs_subscription [OF _ demo_decode])
       (simp_all add: MessageTypeChannelMessage_def Realtime_IsSubscribed_def demo1_channel
          Channel_IsSubscribed_def Subs_IsSubscribed_def)
qed

subsection \<open>Lookup of a channel\<close>

text \<open>Looking up a path never panics when no registered pattern has an empty segment; it
  answers nothing exactly when neither a channel of that very name nor a matching pattern is
  registered, and otherwise a registered channel: the one of that name if there is one, else one
  whose pattern matches segment by segment.\<close>

lemma lookup_specification:
  assumes "wf_channels chans" and "set cs = dom chans"
  shows "\<exists>res. Store_Get cs chans p = Returns res \<and>
     (case res of
        None \<Rightarrow> \<forall>k c. chans k = Some c \<longrightarrow> k \<noteq> p \<and> \<not> list_all2 seg_matches (path c) (go_split p ''/'')
      | Some (k, prms) \<Rightarrow>
          \<exists>c. chans k = Some c \<and>
            (k = p \<or> chans p = None \<and> list_all2 seg_matches (path c) (go_split p ''/'')))"
proof (cases "chans p")
  case (Some c)
  then show ?thesis by (simp add: Store_Get_def)
next
  case None
  obtain res where res: "Get_loop cs chans p = Returns res"
    using Get_loop_no_panic [OF assms(1)] by (auto simp: not_panics_iff)
  have wf: "wf_pattern (path c)" if "chans k = Some c" for k c using that assms(1) by (auto simp: wf_channels_def)
  show ?thesis
  proof (cases res)
    case None
    have "k \<noteq> p \<and> \<not> list_all2 seg_matches (path c) (go_split p ''/'')" if k: "chans k = Some c" for k c
    proof -
      have "k \<in> set cs" using k assms(2) by auto
      with res None k have "\<not> (\<exists>prms. PathMatches c p = Returns (True, prms))"
        by (induction cs) (auto simp: outcome_bind_Returns_iff split: if_splits option.splits)
      with PathMatches_wf [OF wf [OF k]] k \<open>chans p = None\<close> show ?thesis by auto
    qed
    with res None \<open>chans p = None\<close> show ?thesis by (auto simp: Store_Get_def)
  next
    case (Some x)
    obtain k prms where x: "x = (k, prms)" by (cases x)
    from Get_loop_SomeD [of cs chans p k prms] res Some x obtain c where
      "chans k = Some c" "PathMatches c p = Returns (True, prms)" by auto
    with PathMatches_wf [OF wf, of k c p] have "list_all2 seg_matches (path c) (go_split p ''/'')" by blast
    with res Some x \<open>chans k = Some c\<close> \<open>chans p = None\<close> show ?thesis by (simp add: Store_Get_def)
  qed
qed

lemma lookup_specification_witness:
  "\<exists>res. Store_Get [''chat/:id''] (channels demo0) ''chat/7'' = Returns res \<and> res \<noteq> None"
proof -
  let ?c = "\<lparr>path = [''chat'', '':id''], handlers = demo_handlers, subscribers = Map.empty\<rparr>"
  have ch: "channels demo0 = [''chat/:id'' \<mapsto> ?c]"
    by (simp add: demo0_def Register_def channelPathSep_def demo_split new_hub_def)
  have wf: "wf_channels (channels demo0)" and st: "set [''chat/:id''] = dom (channels demo0)"
    by (simp_all add: ch wf_channels_def wf_pattern_def)
  obtain res where get: "Store_Get [''chat/:id''] (channels demo0) ''chat/7'' = Returns res" and
     res: "(case res of
        None \<Rightarrow> \<forall>k c. channels demo0 k = Some c \<longrightarrow> k \<noteq> ''chat/7'' \<and> \<not> list_all2 seg_matches (path c) (go_split ''chat/7'' ''/'')
      | Some (k, prms) \<Rightarrow>
          \<exists>c. channels demo0 k = Some c \<and>
            (k = ''chat/7'' \<or> channels demo0 ''chat/7'' = None \<and> list_all2 seg_matches (path c) (go_split ''chat/7'' ''/'')))"
    using lookup_specification [OF wf st, of "''chat/7''"] by (elim exE conjE)
  have match: "list_all2 seg_matches (path ?c) (go_split ''chat/7'' ''/'')" "channels demo0 ''chat/:id'' = Some ?c"
    by (simp_all add: demo_split seg_matches_def is_param_def ch)
  show ?thesis
  proof (cases res)
    case None
    with res have "\<not> list_all2 seg_matches (path ?c) (go_split ''chat/7'' ''/'')"
      using match(2) by (simp del: Channel.select_convs)
    with match(1) show ?thesis by contradiction
  next
    case (Some x)
    with get show ?thesis by blast
  qed
qed

text \<open>The parameters a match yields put the path back together: filling the named segments of
  the pattern with them gives the segments of the path.\<close>

lemma params_fill_the_path:
  assumes "PathMatches c p = Returns (True, prms)" and "distinct (param_names (path c))"
  shows "join (map (fill prms) (path c)) ''/'' = p"
proof -
  have "map (fill prms) (path c) = go_split p ''/''"
  proof (rule match_parts_fill [OF _ _ assms(2), where prms = Map.empty])
    show "length (path c) = length (go_split p ''/'')"
      using assms(1) by (auto simp: PathMatches_def Let_def channelPathSep_def split: if_splits)
    with assms(1) show "match_parts (path c) (go_split p ''/'') Map.empty = Returns (True, prms)"
      by (simp add: PathMatches_def Let_def channelPathSep_def)
  qed simp
  then show ?thesis by (simp add: join_go_split)
qed

lemma params_fill_the_path_witness:
  "join (map (fill [''id'' \<mapsto> ''7'']) [''chat'', '':id'']) ''/'' = ''chat/7''"
proof -
  have m: "PathMatches demo_channel ''chat/7'' = Returns (True, [''id'' \<mapsto> ''7''])"
    by (simp add: PathMatches_def demo_channel_def channelPathSep_def demo_split)
  have "distinct (param_names (path demo_channel))"
    by (simp add: demo_channel_def param_names_def is_param_def)
  from params_fill_the_path [OF m this] show ?thesis by (simp add: demo_channel_def)
qed

text \<open>Removing a client from a channel takes out exactly the subscriptions whose context belongs
  to it, whatever the order of the iteration, and calls the unsubscribe handler once for each.\<close>

lemma unsubscribe_all_paths:
  assumes "set ks = dom (subscribers c)" and "distinct ks"
  shows "subscribers (fst (snd (UnsubscribeAllPaths ks i c e))) = without_client (heap e) i (subscribers c) \<and>
     snd (snd (UnsubscribeAllPaths ks i c e)) =
       (case OnUnsubscribe (handlers c) of
          None \<Rightarrow> e
        | Some f \<Rightarrow> foldl (\<lambda>e r. f r e) e (filter (owned_by (heap e) i) (List.map_filter (subscribers c) ks)))"
  using RemoveAllPaths_subs [of "subscribers c" ks "heap e" i] RemoveAllPaths_removed [OF assms(2), of "heap e" i]
  by (simp add: UnsubscribeAllPaths_def Let_def assms(1) call_def split: option.splits)

lemma unsubscribe_all_paths_witness:
  "subscribers (fst (snd (UnsubscribeAllPaths [''ab__chat/7''] ''ab'' demo_channel (env demo2)))) ''ab__chat/7'' = None \<and>
   app (snd (snd (UnsubscribeAllPaths [''ab__chat/7''] ''ab'' demo_channel (env demo2)))) = 100"
proof -
  have "owned_by (heap (env demo2)) ''ab'' 0" and "app (env demo2) = 0"
    by (simp_all add: demo2_def demo1_def demo_eval owned_by_def Context_Set_def)
  then show ?thesis
    using unsubscribe_all_paths [of "[''ab__chat/7'']" demo_channel "''ab''" "env demo2"]
    by (simp add: demo_channel_def demo_handlers_def without_client_def)
qed

end
