(* ===== verification/Chat_Props.thy ===== *)
theory Chat_Props
  imports Chat_Routes Model_Props RT_Props
begin

text \<open>
  The properties of the middlewares, the chat and the live updates, over the definitions of
  \<open>Middlewares\<close>, \<open>Model_Chat\<close>, \<open>Chat_Hub\<close> and \<open>Chat_Routes\<close>.
\<close>

subsection \<open>The chat channel's handlers\<close>

lemma keeps_vote: "handleSubmitPollOptionVote dao t msg e = Returns e' \<Longrightarrow> keeps_sessions e e'"
  by (auto simp: handleSubmitPollOptionVote_def Let_def
      split: option.split_asm prod.split_asm if_split_asm
      elim!: keeps_with_stream intro: keeps_trans keeps_run_db keeps_broadcast)

lemma keeps_react: "handleReactTo dao t msg e = Returns e' \<Longrightarrow> keeps_sessions e e'"
  by (auto simp: handleReactTo_def Let_def
      split: option.split_asm prod.split_asm if_split_asm sum.split_asm
      elim!: keeps_with_stream intro: keeps_trans keeps_run_db keeps_broadcast)

lemma keeps_store_and_send: "keeps_sessions e (store_and_send dao marshal course u sid context c e)"
proof -
  obtain res e1 where r: "run_db (AddMessage dao c) e = (res, e1)" by (cases "run_db (AddMessage dao c) e")
  note k = keeps_run_db [OF r]
  have "keeps_sessions e1 (broadcastStreamToAdmins sid j (send_to context j e1))" for j
    using keeps_trans keeps_broadcast by blast
  with k have "keeps_sessions e (broadcastStreamToAdmins sid j (send_to context j e1))" for j
    using keeps_trans by blast
  moreover have "keeps_sessions e (broadcastStream sid j e1)" for j
    using k keeps_trans keeps_broadcast by blast
  moreover have "keeps_sessions e (sendServerMessage m t rs e1)" for m t rs
    using k keeps_trans keeps_server_message by blast
  ultimately show ?thesis using k
    by (simp add: store_and_send_def r split: sum.split option.split)
qed

lemma keeps_message: "handleMessage dao marshal fu rd t ctx msg e = Returns e' \<Longrightarrow> keeps_sessions e e'"
  by (auto simp: handleMessage_def keeps_store_and_send split: option.split_asm if_split_asm)

lemmas handlers_keep =
  keeps_message keeps_react keeps_vote delete_h.keeps resolve_h.keeps approve_h.keeps retract_h.keeps
  start_poll_h.keeps close_poll_h.keeps

lemma keeps_dispatch:
  "chat_dispatch dao marshal fu rd t r ty p e = Returns e' \<Longrightarrow> keeps_sessions e e'"
  by (auto simp: chat_dispatch_def split: if_split_asm dest: handlers_keep)

lemma keeps_OnMessage: "chat_OnMessage dao marshal fu rd r m e = Returns e' \<Longrightarrow> keeps_sessions e e'"
  by (auto simp: chat_OnMessage_def split: option.split_asm propval.split_asm if_split_asm
      dest: keeps_dispatch)

lemma chatOnSubscribe_same_ids: "chatOnSubscribe now r e = Returns e' \<Longrightarrow> same_ids e e'"
  unfolding chatOnSubscribe_def
  by (rule same_ids_trans [OF same_ids_set_ctx]) (rule connHandler_same_ids)

lemma chatOnUnsubscribe_same_ids: "chatOnUnsubscribe av now r e = Returns e' \<Longrightarrow> same_ids e e'"
  by (auto simp: chatOnUnsubscribe_def afterUnsubscribe_def
      split: option.split_asm propval.split_asm if_split_asm)

text \<open>A panic inside of the middleware ends the subscription; here it counts as a rejection.\<close>

definition or_reject :: "('db aenv \<Rightarrow> (Error option \<times> 'db aenv) outcome) \<Rightarrow> 'db aenv \<Rightarrow> Error option \<times> 'db aenv" where
  "or_reject f e = (case f e of Returns res \<Rightarrow> res | Panics p \<Rightarrow> (Some (NewError 500 ''panic''), e))"

definition chat_handlers ::
    "'db ChatDao \<Rightarrow> (Chat \<Rightarrow> json option) \<Rightarrow> (string \<Rightarrow> (nat \<times> nat) list) \<Rightarrow> (string \<Rightarrow> string) \<Rightarrow>
     (string \<Rightarrow> 'db \<Rightarrow> 'db) \<Rightarrow> (string \<Rightarrow> Stream option) \<Rightarrow> (uint \<Rightarrow> Course option) \<Rightarrow> gotime \<Rightarrow>
     (propval, 'db app_state) ChannelHandlers" where
  "chat_handlers dao marshal fu rd av gs gc now =
     \<lparr>OnSubscribe = Some (\<lambda>r. or_keep (chatOnSubscribe now r)),
      OnUnsubscribe = Some (\<lambda>r. or_keep (chatOnUnsubscribe av now r)),
      OnMessage = Some (\<lambda>r m. or_keep (chat_OnMessage dao marshal fu rd r m)),
      SubscriptionMiddlewares = [\<lambda>r. or_reject (InitStreamRealtime gs gc r)]\<rparr>"

definition ChatRoomName :: string where "ChatRoomName = ''chat/:streamID''"

lemma or_reject_same_ids:
  "(\<And>err e'. f e = Returns (err, e') \<Longrightarrow> same_ids e e') \<Longrightarrow> same_ids e (snd (or_reject f e))"
  by (cases "f e") (auto simp: or_reject_def)

text \<open>The chat's handlers and middleware keep to the contract under which the realtime hub's
  invariant holds, so a hub on which they are registered stays within it.\<close>

lemma chat_handlers_obey_the_hub:
  "good_handlers (chat_handlers dao marshal fu rd av gs gc now)"
proof -
  have "same_ids e (or_keep (chat_OnMessage dao marshal fu rd r m) e)" for r m e
    by (rule or_keep_same_ids) (drule keeps_OnMessage, simp add: keeps_sessions_def)
  moreover have "same_ids e (or_keep (chatOnSubscribe now r) e)" for r and e :: "'a aenv"
    by (rule or_keep_same_ids) (rule chatOnSubscribe_same_ids)
  moreover have "same_ids e (or_keep (chatOnUnsubscribe av now r) e)" for r e
    by (rule or_keep_same_ids) (rule chatOnUnsubscribe_same_ids)
  moreover have "same_ids e (snd (or_reject (InitStreamRealtime gs gc r) e))" for r and e :: "'a aenv"
    by (rule or_reject_same_ids) (rule InitStreamRealtime_same_ids)
  ultimately show ?thesis by (simp add: good_handlers_def chat_handlers_def)
qed

subsection \<open>Access to streams\<close>

definition may_see :: "User option \<Rightarrow> Course \<Rightarrow> Stream \<Rightarrow> bool" where
  "may_see u c s \<longleftrightarrow>
     IsEligibleToWatchCourse u c \<and> (Private s \<longrightarrow> IsAdminOfCourse u c)"

lemma may_see_decision:
  "may_see u c s \<longleftrightarrow>
     \<not> (Private s \<and> (u = None \<or> \<not> IsAdminOfCourse u c)) \<and>
     \<not> (\<not> IsPublic c \<and> \<not> IsHidden c \<and> u = None) \<and>
     \<not> (\<not> IsPublic c \<and> \<not> IsHidden c \<and> \<not> IsEligibleToWatchCourse u c)"
  by (cases u) (auto simp: may_see_def watch_simps)

definition requested_stream :: "(string \<Rightarrow> Stream option) \<Rightarrow> string \<Rightarrow> Stream option" where
  "requested_stream gs i = (if i \<noteq> [] then gs i else None)"

text \<open>C3: a request that the stream middleware lets through carries the requested stream and a course
  that the user may watch, and the stream is not private unless the user administers that course.\<close>

theorem stream_middleware_admits:
  assumes "tum g = Some t" and "\<not> IsAborted (InitStream gs gc g)"
  shows "\<exists>s c. requested_stream gs (gparam g ''streamID'') = Some s \<and>
     (ctx_Course t = Some c \<or> ctx_Course t = None \<and> gc (CourseID s) = Some c) \<and>
     may_see (ctx_User t) c s \<and>
     InitStream gs gc g = set_tum (t\<lparr>ctx_Course := Some c, ctx_Stream := Some s\<rparr>) g"
proof -
  have "\<not> IsAborted g"
    using assms by (auto simp: InitStream_def split: option.splits if_splits)
  with assms show ?thesis
    by (auto simp: InitStream_def requested_stream_def may_see_decision
        split: option.split_asm if_split_asm)
qed

definition demo_stream :: Stream where
  "demo_stream = zero_Stream\<lparr>ID := 2, CourseID := 7, Start := 70, End := 120\<rparr>"

definition demo_gin :: "User option \<Rightarrow> gin" where
  "demo_gin u =
     \<lparr>tum = Some (empty_tum\<lparr>ctx_User := u\<rparr>), RequestURI = ''/w/ana-1/2'',
      url_params = [''streamID'' \<mapsto> ''2'', ''courseID'' \<mapsto> ''7''], query_params = Map.empty,
      cookies = Map.empty, calls = []\<rparr>"

theorem stream_middleware_admits_witness:
  "may_see None (demo_course ''public'') demo_stream"
proof -
  let ?gs = "\<lambda>i. Some demo_stream" and ?gc = "\<lambda>i. Some (demo_course ''public'')"
  have t: "tum (demo_gin None) = Some empty_tum" by (simp add: demo_gin_def empty_tum_def)
  have "\<not> IsAborted (InitStream ?gs ?gc (demo_gin None))"
    by (simp add: InitStream_def demo_gin_def empty_tum_def gparam_def IsAborted_def set_tum_def
        demo_stream_def demo_course_def IsPublic_def zero_Stream_def)
  from stream_middleware_admits [OF t this] show ?thesis
    by (auto simp: empty_tum_def requested_stream_def gparam_def demo_gin_def)
qed

text \<open>C4: the realtime middleware takes the same decision as the stream middleware: a subscription is
  accepted exactly if the web request for that stream, with no course in its context yet, passes,
  and the context it stores is the one the request would carry.\<close>

theorem realtime_agrees_with_web:
  assumes "heap e r = Some ctx" and "Client_Get (ctx_Client ctx) ''ctx'' = Some (PGin (Some t))"
    and "Client_Get (ctx_Client ctx) ''dao'' = Some PDao" and "Param ctx ''streamID'' = gparam g ''streamID''"
    and "tum g = Some t" and "ctx_Course t = None" and "\<not> IsAborted g"
  shows "\<exists>err e'. InitStreamRealtime gs gc r e = Returns (err, e') \<and>
     (err = None \<longleftrightarrow> \<not> IsAborted (InitStream gs gc g)) \<and>
     (err = None \<longrightarrow>
        (\<exists>t'. tum (InitStream gs gc g) = Some t' \<and> e' = set_ctx r ''TUMLiveContext'' (PTum t') e)) \<and>
     (err \<noteq> None \<longrightarrow> e' = e)"
  using assms
  by (auto simp: InitStreamRealtime_def InitStream_def split: option.splits)

definition demo_web_env :: "unit aenv" where
  "demo_web_env =
     \<lparr>clients = Map.empty,
      heap = [0 \<mapsto> \<lparr>ctx_Client = \<lparr>client_Id = ''ab'', sendMessage = \<lambda>m. None,
                       client_properties = [''ctx'' \<mapsto> PGin (Some empty_tum), ''dao'' \<mapsto> PDao]\<rparr>,
                     FullPath = ''chat/2'', params = [''streamID'' \<mapsto> ''2''], ctx_properties = Map.empty\<rparr>],
      next_ref = 1, outbox = [],
      app = \<lparr>sessionsMap = Map.empty, liveUpdateListener = Map.empty, db = ()\<rparr>\<rparr>"

theorem realtime_agrees_with_web_witness:
  "\<exists>e'. InitStreamRealtime (\<lambda>i. Some demo_stream) (\<lambda>i. Some (demo_course ''enrolled'')) 0 demo_web_env =
        Returns (Some (NewError 403 ''course only visible for logged in users''), e')"
proof -
  let ?gs = "\<lambda>i. Some demo_stream" and ?gc = "\<lambda>i. Some (demo_course ''enrolled'')"
  let ?ctx = "the (heap demo_web_env 0)"
  have "\<exists>err e'. InitStreamRealtime ?gs ?gc 0 demo_web_env = Returns (err, e') \<and>
     (err = None \<longleftrightarrow> \<not> IsAborted (InitStream ?gs ?gc (demo_gin None))) \<and>
     (err = None \<longrightarrow>
        (\<exists>t'. tum (InitStream ?gs ?gc (demo_gin None)) = Some t' \<and>
              e' = set_ctx 0 ''TUMLiveContext'' (PTum t') demo_web_env)) \<and>
     (err \<noteq> None \<longrightarrow> e' = demo_web_env)"
    by (rule realtime_agrees_with_web [where ctx = ?ctx and t = empty_tum])
       (simp_all add: demo_web_env_def demo_gin_def empty_tum_def Client_Get_def Param_def gparam_def IsAborted_def)
  then show ?thesis
    by (auto simp: InitStreamRealtime_def demo_web_env_def Client_Get_def Param_def empty_tum_def demo_stream_def
        zero_Stream_def demo_course_def IsPublic_def IsHidden_def)
qed

text \<open>A request that passes the course middleware and then the administrator guard comes from a
  user who administers the course that its parameters name, and carries that course.\<close>

lemma course_admin_chain:
  assumes "tum g = Some t"
    and "run_chain [\<lambda>g. Returns (InitCourse byId bySlug g), AdminOfCourse] g = Returns g'"
    and "\<not> IsAborted g'"
  shows "\<exists>u c. ctx_User t = Some u \<and> find_course byId bySlug g = Inr c \<and> IsAdminOfCourse (Some u) c \<and>
     tum g' = Some (t\<lparr>ctx_Course := Some c\<rparr>)"
proof -
  have na: "\<not> IsAborted g" using assms by auto
  let ?h = "InitCourse byId bySlug g"
  have h: "\<not> IsAborted ?h" and adm: "AdminOfCourse ?h = Returns g'"
    using assms na by (auto split: if_split_asm simp: outcome_bind_Returns_iff)
  from h assms(1) na obtain c where c: "find_course byId bySlug g = Inr c"
    and h': "?h = set_tum (t\<lparr>ctx_Course := Some c\<rparr>) g"
    by (auto simp: InitCourse_def find_course_def split: option.split_asm sum.split_asm if_split_asm)
  have t': "tum ?h = Some (t\<lparr>ctx_Course := Some c\<rparr>)" by (simp add: h')
  have "has_course (t\<lparr>ctx_Course := Some c\<rparr>)" by (simp add: has_course_def)
  note guard = course_admin_guard.passes_iff [OF t' this h] course_admin_guard.keeps_tum [OF t' this adm]
  have "is_course_admin (t\<lparr>ctx_Course := Some c\<rparr>)" using guard(1) adm assms(3) by blast
  then have "IsAdminOfCourse (ctx_User t) c" by (simp add: is_course_admin_def)
  then obtain u where "ctx_User t = Some u" "IsAdminOfCourse (Some u) c" by (cases "ctx_User t") auto
  with c guard(2) t' show ?thesis by simp
qed

lemma course_admin_chain_witness:
  "\<exists>u c. ctx_User (empty_tum\<lparr>ctx_User := Some demo_user\<rparr>) = Some u \<and>
     find_course (\<lambda>i. if i = 7 then Some (demo_course ''enrolled'') else None) (\<lambda>a b c. None)
       (demo_gin (Some demo_user)) = Inr c \<and> IsAdminOfCourse (Some u) c"
proof -
  let ?byId = "\<lambda>i. if i = 7 then Some (demo_course ''enrolled'') else None" and ?bySlug = "\<lambda>a b c. None"
  let ?g = "demo_gin (Some demo_user)"
  have t: "tum ?g = Some (empty_tum\<lparr>ctx_User := Some demo_user\<rparr>)" by (simp add: demo_gin_def)
  have p: "parse_int 32 ''7'' = Some 7" by code_simp
  have fc: "find_course ?byId ?bySlug ?g = Inr (demo_course ''enrolled'')"
    by (simp add: find_course_def demo_gin_def gparam_def p to_uint_def)
  have "administers demo_user (demo_course ''enrolled'')"
    by (simp add: administers_def demo_user_def demo_course_def)
  then have "InitCourse ?byId ?bySlug ?g =
      set_tum (empty_tum\<lparr>ctx_User := Some demo_user, ctx_Course := Some (demo_course ''enrolled'')\<rparr>) ?g"
    using fc by (simp add: InitCourse_def t IsAborted_def demo_gin_def watch_simps)
  then have "run_chain [\<lambda>g. Returns (InitCourse ?byId ?bySlug g), AdminOfCourse] ?g =
      Returns (set_tum (empty_tum\<lparr>ctx_User := Some demo_user, ctx_Course := Some (demo_course ''enrolled'')\<rparr>) ?g)"
    using \<open>administers demo_user (demo_course ''enrolled'')\<close>
    by (simp add: AdminOfCourse_def IsAborted_def demo_gin_def)
  moreover have "\<not> IsAborted
      (set_tum (empty_tum\<lparr>ctx_User := Some demo_user, ctx_Course := Some (demo_course ''enrolled'')\<rparr>) ?g)"
    by (simp add: IsAborted_def demo_gin_def)
  ultimately show ?thesis using course_admin_chain [OF t] by blast
qed

subsection \<open>Moderation\<close>

definition moderation_types :: "string list" where
  "moderation_types = [''delete'', ''start_poll'', ''close_active_poll'', ''resolve'', ''approve'', ''retract'']"

text \<open>C5: a moderation message of a user who does not administer the course of the chat changes
  nothing: the database, the sessions and what is sent stay as they are.\<close>

theorem moderation_needs_admin:
  assumes "heap e r = Some ctx" and "Context_Get ctx ''TUMLiveContext'' = Some (PTum t)"
    and "ctx_User t = Some u" and "ctx_Course t = Some c" and "\<not> IsAdminOfCourse (Some u) c"
    and "parseChatPayload m = Some req" and "req_Type req \<in> set moderation_types"
  shows "chat_OnMessage dao marshal fu rd r m e = Returns e"
proof -
  note refuse = delete_h.outsider resolve_h.outsider approve_h.outsider retract_h.outsider
    start_poll_h.outsider close_poll_h.outsider
  have "chat_dispatch dao marshal fu rd t r (req_Type req) (msg_Payload m) e = Returns e"
    using assms(7) refuse [OF assms(3,4,5)]
    by (auto simp: chat_dispatch_def moderation_types_def)
  with assms show ?thesis by (simp add: chat_OnMessage_def)
qed

definition empty_dao :: "unit ChatDao" where
  "empty_dao =
     \<lparr>AddChatPollOptionVote = \<lambda>o' u d. (None, d), AddChatPoll = \<lambda>p d. (Inr p, d), AddMessage = \<lambda>c d. (Inr c, d),
      GetChatUsers = \<lambda>s d. Inr [], GetReactions = \<lambda>s d. Inr [], GetVisibleChats = \<lambda>u s d. Inr [],
      GetAllChats = \<lambda>u s d. Inr [], GetActivePoll = \<lambda>s d. Inl ErrRecordNotFound,
      GetPollUserVote = \<lambda>p u d. Inr 0, GetPollOptionVoteCount = \<lambda>p d. Inr 3, GetPolls = \<lambda>s d. Inr [],
      ApproveChat = \<lambda>i d. (None, d), RetractChat = \<lambda>i d. (None, d), DeleteChat = \<lambda>i d. (None, d),
      ResolveChat = \<lambda>i d. (None, d), ToggleReaction = \<lambda>u i n m d. (None, d),
      RemoveReactions = \<lambda>i d. (None, d), CloseActivePoll = \<lambda>i d. (None, d),
      GetChat = \<lambda>i u d. new_chat demo_user (demo_course ''public'') 2
        \<lparr>req_Type = [], Msg = [], Anonymous = False, req_ReplyTo = 0, AddressedTo = []\<rparr>\<rparr>"

definition demo_viewer :: User where "demo_viewer = demo_user\<lparr>ID := 9\<rparr>"

definition demo_tum :: "User \<Rightarrow> TUMLiveContext" where
  "demo_tum u = empty_tum\<lparr>ctx_User := Some u, ctx_Course := Some (demo_course ''public''), ctx_Stream := Some demo_stream\<rparr>"

definition demo_context :: "User \<Rightarrow> string \<Rightarrow> propval Context" where
  "demo_context u i =
     \<lparr>ctx_Client = \<lparr>client_Id = i, sendMessage = \<lambda>m. None, client_properties = Map.empty\<rparr>, FullPath = ''chat/2'',
      params = [''streamID'' \<mapsto> ''2''], ctx_properties = [''TUMLiveContext'' \<mapsto> PTum (demo_tum u)]\<rparr>"

definition demo_chat_env :: "unit aenv" where
  "demo_chat_env =
     \<lparr>clients = [''a'' \<mapsto> ctx_Client (demo_context demo_user ''a''), ''b'' \<mapsto> ctx_Client (demo_context demo_viewer ''b'')],
      heap = [0 \<mapsto> demo_context demo_user ''a'', 1 \<mapsto> demo_context demo_viewer ''b''], next_ref = 2, outbox = [],
      app = \<lparr>sessionsMap = [2 \<mapsto> [\<lparr>s_context = 0, s_isAdminOfCourse = True\<rparr>, \<lparr>s_context = 1, s_isAdminOfCourse = False\<rparr>]],
             liveUpdateListener = Map.empty, db = ()\<rparr>\<rparr>"

definition demo_delete :: Message where
  "demo_delete = \<lparr>msg_Type = ''message'', msg_Channel = ''chat/2'',
     msg_Payload = Some (JObj [(''type'', JStr ''delete''), (''id'', JInt 5)])\<rparr>"

lemma demo_delete_type: "parseChatPayload demo_delete = Some \<lparr>req_Type = ''delete''\<rparr>"
  by (simp add: parseChatPayload_def demo_delete_def parse_type_def type_field_def find_field_def eq_fold_def
      to_lower_def lower_char_def)

lemma demo_viewer_no_admin: "\<not> IsAdminOfCourse (Some demo_viewer) (demo_course v)"
  by (simp add: administers_def demo_viewer_def demo_user_def demo_course_def AdminType_def GenericType_def)

theorem moderation_needs_admin_witness:
  "chat_OnMessage empty_dao (\<lambda>c. None) (\<lambda>s. []) id 1 demo_delete demo_chat_env = Returns demo_chat_env"
  by (rule moderation_needs_admin [where ctx = "demo_context demo_viewer ''b''" and t = "demo_tum demo_viewer"
        and u = demo_viewer and c = "demo_course ''public''" and req = "\<lparr>req_Type = ''delete''\<rparr>"])
     (simp_all add: demo_chat_env_def demo_context_def demo_tum_def Context_Get_def demo_delete_type
        moderation_types_def demo_viewer_no_admin del: IsAdminOfCourse_simps)

subsection \<open>Moderated courses\<close>

lemma map_filter_append: "List.map_filter f (xs @ ys) = List.map_filter f xs @ List.map_filter f ys"
  by (simp add: List.map_filter_def)

lemma Visible_Sanitise [simp]: "Visible (SanitiseMessage fu rd c) = Visible c"
  by (simp add: SanitiseMessage_def Let_def)

text \<open>What \<open>store_and_send\<close> sends for a user who is moderated, and what it stores.\<close>

lemma moderated_store_and_send:
  assumes "\<not> IsAdminOfCourse (Some u) c" and "ModeratedChatEnabled c" and "heap e r = Some ctx"
    and e': "e' = store_and_send dao marshal c u i r m e"
  shows "db (app e') = snd (AddMessage dao m (db (app e)))"
    and "x \<in> set (drop (length (outbox e)) (outbox e')) \<Longrightarrow>
        fst x = client_Id (ctx_Client ctx) \<or>
        (\<exists>w \<in> set (get_sessions e i). s_isAdminOfCourse w \<and> client_of e (s_context w) = Some (fst x))"
proof -
  obtain res e1 where run: "run_db (AddMessage dao m) e = (res, e1)" by (cases "run_db (AddMessage dao m) e")
  note k = run_db_keeps [OF run]
  have ctx1: "heap e1 r = Some ctx" using k assms(3) by simp
  have gs: "get_sessions (send_to r j e1) = get_sessions e" for j
    using k by (simp add: get_sessions_def fun_eq_iff)
  have d: "db (app e1) = snd (AddMessage dao m (db (app e)))" using run_db_simps(2) [OF run] by simp
  have "app (sendServerMessage t s [r] e1) = app e1" for t s by (simp add: sendServerMessage_def)
  with d show "db (app e') = snd (AddMessage dao m (db (app e)))"
    using assms(1,2) by (simp add: e' store_and_send_def run admin_bc.keeps split: sum.split option.split)
  assume x: "x \<in> set (drop (length (outbox e)) (outbox e'))"
  consider err where "res = Inl err" | stored where "res = Inr stored" "marshal stored = None"
    | stored j where "res = Inr stored" "marshal stored = Some j"
    by (cases res; metis option.exhaust)
  then show "fst x = client_Id (ctx_Client ctx) \<or>
      (\<exists>w \<in> set (get_sessions e i). s_isAdminOfCourse w \<and> client_of e (s_context w) = Some (fst x))"
  proof cases
    case 1
    with e' x k ctx1 show ?thesis
      by (auto simp: store_and_send_def run sendServerMessage_def split: if_split_asm)
  next
    case 2
    with e' x k show ?thesis by (simp add: store_and_send_def run)
  next
    case 3
    with e' assms(1,2) have "e' = broadcastStreamToAdmins i j (send_to r j e1)"
      by (simp add: store_and_send_def run)
    then have "outbox e' = outbox e @ (client_Id (ctx_Client ctx), frame ctx j) #
        List.map_filter (delivery (send_to r j e1) j)
          (filter (\<lambda>w. connected (send_to r j e1) w \<and> s_isAdminOfCourse w) (get_sessions e i))"
      using k ctx1 by (simp add: admin_bc.sends gs)
    with x k show ?thesis
      by (auto simp: set_map_filter delivery_def client_of_def)
  qed
qed

text \<open>C6: in a moderated course the message of a user who does not administer it is stored invisible
  if at all, and what is sent goes to the sender and to administrators' sessions only.\<close>

theorem moderated_message:
  assumes "ctx_User t = Some u" and "ctx_Course t = Some c" and "ctx_Stream t = Some s"
    and "\<not> IsAdminOfCourse (Some u) c" and "ModeratedChatEnabled c" and "heap e r = Some ctx"
    and "handleMessage dao marshal fu rd t r msg e = Returns e'"
  shows "(db (app e') = db (app e) \<or>
          (\<exists>m. Visible m = Some False \<and> db (app e') = snd (AddMessage dao m (db (app e))))) \<and>
     (\<forall>x \<in> set (drop (length (outbox e)) (outbox e')).
        fst x = client_Id (ctx_Client ctx) \<or>
        (\<exists>w \<in> set (get_sessions e (ID s)). s_isAdminOfCourse w \<and> client_of e (s_context w) = Some (fst x)))"
proof -
  from assms have "e' = e \<or> (\<exists>chat. e' = store_and_send dao marshal c u (ID s) r
      (SanitiseMessage fu rd (new_chat u c (ID s) chat)) e)"
    by (auto simp: handleMessage_def chat_disabled_def split: option.split_asm if_split_asm)
  then show ?thesis
  proof (elim disjE exE)
    assume "e' = e"
    then show ?thesis by simp
  next
    fix chat
    let ?m = "SanitiseMessage fu rd (new_chat u c (ID s) chat)"
    assume e': "e' = store_and_send dao marshal c u (ID s) r ?m e"
    have "Visible ?m = Some False" using assms(4,5) by (simp add: new_chat_def)
    with moderated_store_and_send [OF assms(4,5,6) e'] show ?thesis by blast
  qed
qed

definition moderated_tum :: TUMLiveContext where
  "moderated_tum = demo_tum demo_viewer\<lparr>ctx_Course := Some (demo_course ''public''\<lparr>ModeratedChatEnabled := True\<rparr>)\<rparr>"

definition demo_text :: json_text where "demo_text = Some (JObj [(''msg'', JStr ''hi'')])"

lemma demo_text_parse: "parse_chat demo_text =
    Some \<lparr>req_Type = [], Msg = ''hi'', Anonymous = False, req_ReplyTo = 0, AddressedTo = []\<rparr>"
  by (simp add: parse_chat_def demo_text_def chat_fields_def type_field_def find_field_def)

theorem moderated_message_witness:
  "\<exists>e'. handleMessage empty_dao (\<lambda>c. Some JNull) (\<lambda>s. []) id moderated_tum 1 demo_text demo_chat_env = Returns e' \<and>
     (\<forall>x \<in> set (drop (length (outbox demo_chat_env)) (outbox e')).
        fst x = ''b'' \<or>
        (\<exists>w \<in> set (get_sessions demo_chat_env 2). s_isAdminOfCourse w \<and> client_of demo_chat_env (s_context w) = Some (fst x)))"
proof -
  let ?c = "demo_course ''public''\<lparr>ModeratedChatEnabled := True\<rparr>"
  have ch: "course_ChatEnabled ?c" by (simp add: demo_course_def)
  have t: "ctx_User moderated_tum = Some demo_viewer" "ctx_Course moderated_tum = Some ?c"
    "ctx_Stream moderated_tum = Some demo_stream"
    by (simp_all add: moderated_tum_def demo_tum_def)
  have na: "\<not> IsAdminOfCourse (Some demo_viewer) ?c"
    by (simp add: administers_def demo_viewer_def demo_user_def demo_course_def AdminType_def GenericType_def)
  have h: "heap demo_chat_env 1 = Some (demo_context demo_viewer ''b'')" by (simp add: demo_chat_env_def)
  obtain e' where e': "handleMessage empty_dao (\<lambda>c. Some JNull) (\<lambda>s. []) id moderated_tum 1 demo_text demo_chat_env = Returns e'"
    using ch by (simp add: handleMessage_def demo_text_parse t chat_disabled_def)
  have m: "ModeratedChatEnabled ?c" by simp
  have "ID demo_stream = 2" "client_Id (ctx_Client (demo_context demo_viewer ''b'')) = ''b''"
    by (simp_all add: demo_stream_def zero_Stream_def demo_context_def)
  with moderated_message [OF t na m h e'] e' show ?thesis by auto
qed

subsection \<open>Chat messages\<close>

text \<open>A message is created exactly if, trimmed, it has between 1 and 1000 bytes, the user is not
  cooled down, and it replies, if at all, to a message of the same stream that is no reply; it is
  stored trimmed and with one of the listed colours.\<close>

lemma create_hook:
  assumes "\<And>i. atoi (chat_UserID c) = Some i \<Longrightarrow> 0 \<le> i"
  shows "\<exists>res. Chat_BeforeCreate now count first c = Returns res \<and>
     ((\<exists>c'. res = Inr c') \<longleftrightarrow>
        length (trim_space (chat_Message c)) \<in> {1..1000} \<and>
        (chat_Admin c \<or> (\<exists>n. count (now - coolDown) (chat_UserID c) = Inr n \<and> n < 5)) \<and>
        (\<forall>i. ReplyTo c = Some i \<longrightarrow>
           (\<exists>p. first i = Some p \<and> chat_StreamID p = chat_StreamID c \<and> ReplyTo p = None))) \<and>
     (\<forall>c'. res = Inr c' \<longrightarrow> chat_Color c' \<in> set getColors \<and>
        c' = c\<lparr>chat_Message := trim_space (chat_Message c), chat_Color := chat_Color c'\<rparr>)"
proof -
  obtain col where col: "chat_color (chat_UserID c) = Returns col"
    using chat_color_no_panic [OF assms] by (auto simp: not_panics_iff)
  let ?m = "trim_space (chat_Message c)"
  have len: "length ?m \<in> {1..1000} \<longleftrightarrow> \<not> length ?m > maxMessageLength \<and> length ?m \<noteq> 0"
    by (auto simp: maxMessageLength_def Suc_le_eq)
  have cool: "(chat_Admin c \<or> (\<exists>n. count (now - coolDown) (chat_UserID c) = Inr n \<and> n < 5)) \<longleftrightarrow>
      cool_down_error now count c = None"
    by (simp add: cool_down_error_None coolDownMessages_def)
  show ?thesis
    unfolding len cool reply_error_None [symmetric]
    using chat_color_listed [OF col]
    by (cases "cool_down_error now count c"; cases "reply_error first c")
       (auto simp: Chat_BeforeCreate_def Let_def col)
qed

definition demo_chat :: Chat where
  "demo_chat = new_chat demo_user (demo_course ''public'') 2
     \<lparr>req_Type = [], Msg = '' hi '', Anonymous = False, req_ReplyTo = 4, AddressedTo = []\<rparr>"

lemma create_hook_witness:
  "\<exists>res. Chat_BeforeCreate 0 (\<lambda>t u. Inr 7) (\<lambda>i. None) demo_chat = Returns res \<and> \<not> (\<exists>c'. res = Inr c')"
proof -
  have "atoi (chat_UserID demo_chat) = Some 1"
    by (simp add: demo_chat_def new_chat_def Let_def demo_user_def) code_simp
  then have "\<And>i. atoi (chat_UserID demo_chat) = Some i \<Longrightarrow> 0 \<le> i" by simp
  note h = create_hook [where c = demo_chat and now = 0 and count = "\<lambda>t u. Inr 7" and first = "\<lambda>i. None", OF this]
  have "ReplyTo demo_chat = Some 4" by (simp add: demo_chat_def new_chat_def Let_def)
  with h show ?thesis by auto
qed

text \<open>A sanitised message holds an angle bracket only where the renderer of a link put one: the
  text of the user itself cannot open or close a tag.\<close>

lemma only_links_are_markup:
  assumes "x \<in> {CHR ''<'', CHR ''>''}" and "x \<in> set (SanitizedMessage (SanitiseMessage find_urls render c))"
  shows "\<exists>(a, b) \<in> set (find_urls (EscapeString (chat_Message c))).
           x \<in> set (render (drop a (take b (EscapeString (chat_Message c)))))"
  using assms set_SanitisedMessage [of find_urls render c] EscapeString_no_markup [of "chat_Message c"]
  by fastforce

lemma only_links_are_markup_witness:
  "\<exists>(a, b) \<in> set [(1::nat, 3::nat)]. CHR ''<'' \<in> set ((\<lambda>u. ''<a>'' @ u @ ''</a>'') (drop a (take b ''hi yo'')))"
proof -
  let ?c = "demo_chat\<lparr>chat_Message := ''hi yo''\<rparr>"
  have esc: "EscapeString (chat_Message ?c) = ''hi yo''" by (simp add: EscapeString_def escape_char_def)
  have "CHR ''<'' \<in> set (SanitizedMessage (SanitiseMessage (\<lambda>s. [(1, 3)]) (\<lambda>u. ''<a>'' @ u @ ''</a>'') ?c))"
    by (simp add: SanitiseMessage_def EscapeString_def escape_char_def getUrlHtml_def trim_suffix_def
        has_suffix_iff newline_def Let_def)
  from only_links_are_markup [OF _ this] show ?thesis unfolding esc by simp
qed

subsection \<open>Cleaning up sessions\<close>

lemma set_sessions_simps [simp]:
  "get_sessions (set_sessions i ss e) j = (if j = i then ss else get_sessions e j)"
  "heap (set_sessions i ss e) = heap e" "clients (set_sessions i ss e) = clients e"
  "outbox (set_sessions i ss e) = outbox e"
  by (simp_all add: set_sessions_def get_sessions_def)

definition still_subscribed :: "string list \<Rightarrow> uint \<Rightarrow> (propval, 'db app_state) hub \<Rightarrow> session \<Rightarrow> bool" where
  "still_subscribed cs i h w =
     (case client_of (env h) (s_context w) of
        None \<Rightarrow> False
      | Some cid \<Rightarrow> Realtime_IsSubscribed cs (room_name i) cid h = Returns True)"

lemma IsSubscribed_no_panic: "wf_channels (channels h) \<Longrightarrow> \<not> panics (Realtime_IsSubscribed cs p i h)"
proof -
  assume "wf_channels (channels h)"
  then obtain g where "Store_Get cs (channels h) p = Returns g"
    by (rule not_panicsE [OF Store_Get_no_panic])
  then show ?thesis by (simp add: Realtime_IsSubscribed_def split: option.split)
qed

lemma subscribed_sessions_filter:
  assumes "wf_channels (channels h)" and "\<forall>w \<in> set ws. client_of (env h) (s_context w) \<noteq> None"
  shows "subscribed_sessions cs (room_name i) h ws = Returns (filter (still_subscribed cs i h) ws)"
  using assms(2)
proof (induction ws)
  case (Cons w ws)
  then obtain cid where cid: "client_of (env h) (s_context w) = Some cid" by auto
  obtain b where "Realtime_IsSubscribed cs (room_name i) cid h = Returns b"
    by (rule not_panicsE [OF IsSubscribed_no_panic [OF assms(1)]])
  with Cons cid show ?case by (simp add: still_subscribed_def)
qed simp

lemma IsSubscribed_channels: "Realtime_IsSubscribed cs p i (h\<lparr>env := e\<rparr>) = Realtime_IsSubscribed cs p i h"
  by (cases "Store_Get cs (channels h) p") (simp_all add: Realtime_IsSubscribed_def split: option.split)

lemma still_subscribed_sessions [simp]:
  "still_subscribed cs i (h\<lparr>env := set_sessions j ss (env h)\<rparr>) = still_subscribed cs i h"
  by (rule ext) (simp add: still_subscribed_def client_of_def IsSubscribed_channels split: option.split)

text \<open>The clean-up never panics while the sessions' contexts exist, keeps of each stream exactly the
  sessions that are still subscribed to the stream's chat room, and sends nothing.\<close>

lemma cleanup_keeps_subscribed:
  assumes "wf_channels (channels h)"
    and "\<forall>i. \<forall>w \<in> set (get_sessions (env h) i). client_of (env h) (s_context w) \<noteq> None"
  shows "\<exists>h'. cleanupSessions cs ids h = Returns h' \<and> channels h' = channels h \<and>
     outbox (env h') = outbox (env h) \<and>
     (\<forall>i. get_sessions (env h') i =
        (if i \<in> set ids then filter (still_subscribed cs i h) (get_sessions (env h) i) else get_sessions (env h) i))"
  using assms
proof (induction ids arbitrary: h)
  case Nil
  then show ?case by simp
next
  case (Cons i ids)
  let ?h = "h\<lparr>env := set_sessions i (filter (still_subscribed cs i h) (get_sessions (env h) i)) (env h)\<rparr>"
  have step: "subscribed_sessions cs (room_name i) h (get_sessions (env h) i) =
      Returns (filter (still_subscribed cs i h) (get_sessions (env h) i))"
    using Cons.prems subscribed_sessions_filter by blast
  have "\<exists>h'. cleanupSessions cs ids ?h = Returns h' \<and> channels h' = channels ?h \<and>
     outbox (env h') = outbox (env ?h) \<and>
     (\<forall>j. get_sessions (env h') j =
        (if j \<in> set ids then filter (still_subscribed cs j ?h) (get_sessions (env ?h) j) else get_sessions (env ?h) j))"
    by (rule Cons.IH) (use Cons.prems in \<open>auto simp: client_of_def\<close>)
  then show ?case
    by (auto simp: step)
qed

definition cleanup_hub :: "(propval, unit app_state) hub" where
  "cleanup_hub = \<lparr>channels = Map.empty, env = demo_chat_env\<rparr>"

lemma cleanup_keeps_subscribed_witness:
  "\<exists>h'. cleanupSessions [] [2] cleanup_hub = Returns h' \<and> get_sessions (env h') 2 = []"
proof -
  have wf: "wf_channels (channels cleanup_hub)" by (simp add: wf_channels_def cleanup_hub_def)
  have al: "\<forall>i. \<forall>w \<in> set (get_sessions (env cleanup_hub) i). client_of (env cleanup_hub) (s_context w) \<noteq> None"
    by (simp add: cleanup_hub_def get_sessions_def demo_chat_env_def client_of_def)
  have "filter (still_subscribed [] 2 cleanup_hub) ws = []" for ws
    by (simp add: filter_empty_conv still_subscribed_def Realtime_IsSubscribed_def Store_Get_def cleanup_hub_def
        split: option.split)
  note none = this
  obtain h' where h': "cleanupSessions [] [2] cleanup_hub = Returns h'"
    and gs: "\<forall>i. get_sessions (env h') i =
        (if i \<in> set [2] then filter (still_subscribed [] i cleanup_hub) (get_sessions (env cleanup_hub) i)
         else get_sessions (env cleanup_hub) i)"
    using cleanup_keeps_subscribed [OF wf al, of "[]" "[2]"] by (elim exE conjE)
  from spec [OF gs, of 2] none have "get_sessions (env h') 2 = []" by simp
  with h' show ?thesis by blast
qed

subsection \<open>Live updates\<close>

definition listeners :: "'db aenv \<Rightarrow> uint \<Rightarrow> ctxref list" where
  "listeners e i = (case liveUpdateListener (app e) i of None \<Rightarrow> [] | Some w \<Rightarrow> lw_sessions w)"

lemma set_listener_simps [simp]:
  "liveUpdateListener (app (set_listener i w e)) = (liveUpdateListener (app e))(i := w)"
  "heap (set_listener i w e) = heap e" "outbox (set_listener i w e) = outbox e"
  by (simp_all add: set_listener_def)

text \<open>A context that subscribes to live updates is added to the listeners of its user and the user
  is then told about the courses just loaded; when it unsubscribes again it is the only one taken
  out.\<close>

lemma live_update_subscription:
  assumes "heap e r = Some c" and "client_tum c as_gin = Returns (Some t)"
    and "(case ctx_User t of None \<Rightarrow> public | Some u \<Rightarrow> map_option unique pl) = Some cs"
    and "r \<notin> set (listeners e (listener_key t))"
  shows "\<exists>e1 e2. liveUpdateOnSubscribe unique pl public r e = Returns e1 \<and>
     listeners e1 (listener_key t) = listeners e (listener_key t) @ [r] \<and>
     map_option lw_courses (liveUpdateListener (app e1) (listener_key t)) = Some (map ID cs) \<and>
     liveUpdateOnUnsubscribe r e1 = Returns e2 \<and> listeners e2 = listeners e"
proof -
  let ?k = "listener_key t"
  let ?w = "\<lparr>lw_sessions = listeners e ?k @ [r], lw_courses = map ID cs\<rparr>"
  let ?e1 = "set_listener ?k (Some ?w) e"
  have sub: "liveUpdateOnSubscribe unique pl public r e = Returns ?e1"
    using assms(1-3)
    by (cases "ctx_User t") (auto simp: liveUpdateOnSubscribe_def listeners_def Let_def split: option.splits)
  have flt: "filter (\<lambda>s. s \<noteq> r) (listeners e ?k @ [r]) = listeners e ?k"
    using assms(4) by (simp add: filter_id_conv) (metis (mono_tags, lifting) filter_True)
  define e2 where "e2 = (if listeners e ?k = [] then set_listener ?k None ?e1
      else set_listener ?k (Some (?w\<lparr>lw_sessions := listeners e ?k\<rparr>)) ?e1)"
  have "liveUpdateOnUnsubscribe r ?e1 = Returns e2"
    using assms(1,2) flt by (simp add: liveUpdateOnUnsubscribe_def e2_def Let_def)
  moreover have "listeners e2 = listeners e"
    by (auto simp: fun_eq_iff listeners_def e2_def)
  moreover have "listeners ?e1 ?k = listeners e ?k @ [r]"
    "map_option lw_courses (liveUpdateListener (app ?e1) ?k) = Some (map ID cs)"
    by (simp_all add: listeners_def)
  ultimately show ?thesis using sub by blast
qed

lemma live_update_subscription_witness:
  "\<exists>e1 e2. liveUpdateOnSubscribe id (Some []) (Some [demo_course ''public'']) 0 demo_web_env = Returns e1 \<and>
     listeners e1 0 = [0] \<and> liveUpdateOnUnsubscribe 0 e1 = Returns e2 \<and> listeners e2 = listeners demo_web_env"
proof -
  let ?c = "the (heap demo_web_env 0)"
  have c: "heap demo_web_env 0 = Some ?c" "client_tum ?c as_gin = Returns (Some empty_tum)"
    by (simp_all add: demo_web_env_def client_tum_def Client_Get_def)
  have k: "listener_key empty_tum = 0" "ctx_User empty_tum = None" by (simp_all add: listener_key_def empty_tum_def)
  have l: "listeners demo_web_env 0 = []" by (simp add: listeners_def demo_web_env_def)
  show ?thesis
    using live_update_subscription [OF c, where unique = id and pl = "Some []" and public = "Some [demo_course ''public'']"
        and cs = "[demo_course ''public'']"]
    by (simp add: k l) blast
qed

lemma foldl_send_refs:
  "outbox (foldl (\<lambda>e r. send_to r m e) e rs) =
     outbox e @ List.map_filter (\<lambda>r. map_option (\<lambda>c. (client_Id (ctx_Client c), frame c m)) (heap e r)) rs \<and>
   app (foldl (\<lambda>e r. send_to r m e) e rs) = app e \<and> heap (foldl (\<lambda>e r. send_to r m e) e rs) = heap e"
proof (induction rs arbitrary: e)
  case (Cons r rs)
  then show ?case by (auto split: option.splits)
qed simp

definition told :: "'db aenv \<Rightarrow> uint \<Rightarrow> uint \<Rightarrow> (string \<times> Message) list" where
  "told e courseId i =
     (case liveUpdateListener (app e) i of
        None \<Rightarrow> []
      | Some w \<Rightarrow>
          if courseId \<in> set (lw_courses w)
          then List.map_filter (\<lambda>r. map_option (\<lambda>c. (client_Id (ctx_Client c), frame c (went_live_msg courseId)))
                                      (heap e r)) (lw_sessions w)
          else [])"

text \<open>When a course goes live, every session of every user whose course list holds it is told
  once, and nobody else; the listeners stay as they are.\<close>

lemma live_update_reaches_listeners:
  "outbox (NotifyLiveUpdateCourseWentLive ids courseId e) = outbox e @ concat (map (told e courseId) ids) \<and>
   app (NotifyLiveUpdateCourseWentLive ids courseId e) = app e"
proof -
  have "outbox (NotifyLiveUpdateCourseWentLive ids courseId e) = outbox e @ concat (map (told e courseId) ids) \<and>
      app (NotifyLiveUpdateCourseWentLive ids courseId e) = app e \<and>
      heap (NotifyLiveUpdateCourseWentLive ids courseId e) = heap e"
    unfolding NotifyLiveUpdateCourseWentLive_def
  proof (induction ids rule: rev_induct)
    case (snoc i ids)
    then show ?case
      by (simp add: told_def foldl_send_refs split: option.splits)
  qed simp
  then show ?thesis by blast
qed

subsection \<open>Polls\<close>

text \<open>What the active poll shows a user who does not administer the course does not depend on the
  votes of others: two databases that agree on the poll and on the user's own vote give the same
  answer, whatever their vote counts.\<close>

lemma poll_hides_votes:
  assumes "tum g = Some t" and "ctx_User t = Some u" and "ctx_Course t = Some c"
    and "\<not> IsAdminOfCourse (Some u) c"
    and "\<And>s. GetActivePoll dao s d = GetActivePoll dao s d'"
    and "\<And>p. GetPollUserVote dao p (ID u) d = GetPollUserVote dao p (ID u) d'"
  shows "getActivePoll dao d g = getActivePoll dao d' g"
  using assms(1-4)
  by (simp add: getActivePoll_def assms(5) assms(6) course_admin_of_user split: option.split sum.split)

definition vote_dao :: "int ChatDao" where
  "vote_dao =
     \<lparr>AddChatPollOptionVote = \<lambda>o' u d. (None, d + 1), AddChatPoll = \<lambda>p d. (Inr p, d), AddMessage = \<lambda>c d. (Inr c, d),
      GetChatUsers = \<lambda>s d. Inr [], GetReactions = \<lambda>s d. Inr [], GetVisibleChats = \<lambda>u s d. Inr [],
      GetAllChats = \<lambda>u s d. Inr [], GetActivePoll = \<lambda>s d. Inr (new_poll s ''Ok?'' [''yes'', ''no'']),
      GetPollUserVote = \<lambda>p u d. Inr 0, GetPollOptionVoteCount = \<lambda>p d. Inr d, GetPolls = \<lambda>s d. Inr [],
      ApproveChat = \<lambda>i d. (None, d), RetractChat = \<lambda>i d. (None, d), DeleteChat = \<lambda>i d. (None, d),
      ResolveChat = \<lambda>i d. (None, d), ToggleReaction = \<lambda>u i n m d. (None, d),
      RemoveReactions = \<lambda>i d. (None, d), CloseActivePoll = \<lambda>i d. (None, d), GetChat = \<lambda>i u d. demo_chat\<rparr>"

lemma poll_hides_votes_witness:
  "getActivePoll vote_dao 3 ((demo_gin None)\<lparr>tum := Some (demo_tum demo_viewer)\<rparr>) =
   getActivePoll vote_dao 8 ((demo_gin None)\<lparr>tum := Some (demo_tum demo_viewer)\<rparr>)"
  by (rule poll_hides_votes [where t = "demo_tum demo_viewer" and u = demo_viewer and c = "demo_course ''public''"])
     (simp_all add: demo_tum_def vote_dao_def demo_viewer_no_admin del: IsAdminOfCourse_simps)

end
