(* ===== verification/Progress.thy ===== *)
theory Progress
  imports Middlewares
begin

text \<open>
  \<^verbatim>\<open>src/api/progress.go\<close> and \<^verbatim>\<open>src/dao/progress.go\<close>: the progress reports of the video player,
  the buffer that collects them, and the two upserts that write the buffer. Fractions are exact
  rationals here, the code's are 64-bit floating point numbers. The database upsert is the
  argument \<open>upsert cols rows\<close>: insert the rows, and for a row whose key exists update the listed
  columns.
\<close>

subsection \<open>The buffer\<close>

record progressBuffer =
  progresses :: "StreamProgress list"
  flush_interval :: duration

definition newProgressBuffer :: progressBuffer where
  "newProgressBuffer = \<lparr>progresses = [], flush_interval = Second * 5\<rparr>"

definition buffer_add :: "StreamProgress \<Rightarrow> progressBuffer \<Rightarrow> progressBuffer" where
  "buffer_add p b = b\<lparr>progresses := progresses b @ [p]\<rparr>"

definition filterProgress :: "StreamProgress list \<Rightarrow> bool \<Rightarrow> StreamProgress list" where
  "filterProgress ps watched = filter (\<lambda>p. prog_Watched p = watched) ps"

type_synonym 'db upsert = "string list \<Rightarrow> StreamProgress list \<Rightarrow> 'db \<Rightarrow> string option \<times> 'db"

definition SaveProgresses :: "'db upsert \<Rightarrow> StreamProgress list \<Rightarrow> 'db \<Rightarrow> string option \<times> 'db" where
  "SaveProgresses upsert ps d =
     (let noWatched = filterProgress ps False;
          watched = filterProgress ps True;
          (err, d) = (if length noWatched > 0 then upsert [''progress''] noWatched d else (None, d));
          (err2, d) = (if length watched > 0 then upsert [''progress'', ''watched''] watched d else (None, d))
      in (if err \<noteq> None then err else err2, d))"

definition SaveWatchedState :: "'db upsert \<Rightarrow> StreamProgress \<Rightarrow> 'db \<Rightarrow> string option \<times> 'db" where
  "SaveWatchedState upsert p d = upsert [''watched''] [p] d"

definition buffer_flush :: "'db upsert \<Rightarrow> progressBuffer \<Rightarrow> 'db \<Rightarrow> string option \<times> progressBuffer \<times> 'db" where
  "buffer_flush upsert b d =
     (if length (progresses b) = 0 then (None, b, d)
      else (let (err, d) = SaveProgresses upsert (progresses b) d
            in (err, b\<lparr>progresses := []\<rparr>, d)))"

subsection \<open>Reports\<close>

record progressRequest =
  pr_StreamID :: uint
  pr_Progress :: rat

definition progress_fields :: "progressRequest fields" where
  "progress_fields =
     [(''streamID'', \<lambda>j r. map_option (\<lambda>v. r\<lparr>pr_StreamID := v\<rparr>) (dec_uint j (pr_StreamID r))),
      (''progress'', \<lambda>j r. map_option (\<lambda>v. r\<lparr>pr_Progress := v\<rparr>) (dec_float j (pr_Progress r)))]"

definition trunc_div :: "int \<Rightarrow> int \<Rightarrow> int" where
  "trunc_div a b = sgn a * (\<bar>a\<bar> div b)"

text \<open>The duration of a video in seconds; without a stored one it is computed from start and end.\<close>

definition video_duration :: "Stream \<Rightarrow> 32 word" where
  "video_duration s =
     (let duration = Int32 (Duration s) in
      if duration = 0
      then (let dur = time_sub (End s) (Start s);
                seconds = word_of_int (trunc_div dur Second);
                minutes = word_of_int (trunc_div dur Minute)
            in seconds + minutes * 60 + minutes * 60 * 60)
      else duration)"

text \<open>\<^verbatim>\<open>slices.MaxFunc\<close>: the first maximal element; the comparison subtracts signed 64-bit integers.\<close>

fun max_silence :: "Silence \<Rightarrow> Silence list \<Rightarrow> Silence" where
  "max_silence m [] = m"
| "max_silence m (s # ss) =
     max_silence (if 0 < sint (silence_End s - silence_End m) then s else m) ss"

definition watched_to_last_silence :: "Stream \<Rightarrow> rat \<Rightarrow> bool" where
  "watched_to_last_silence s p =
     (let duration = video_duration s in
      case Silences s of
        [] \<Rightarrow> False
      | x # xs \<Rightarrow>
          if duration = 0 then False
          else
           (let lastSilence = max_silence x xs in
            Word.uint (silence_End lastSilence - scast duration) < 10 \<and>
            p \<ge> of_int (Word.uint (silence_Start lastSilence)) / of_int (sint duration)))"

definition bind_failed :: "gin \<Rightarrow> gin" where
  "bind_failed g = does [AbortWithStatus StatusBadRequest, ReqError StatusBadRequest ''can not bind body''] g"

definition saveProgress ::
    "(string \<Rightarrow> Stream option) \<Rightarrow> json_text \<Rightarrow> gin \<Rightarrow> progressBuffer \<Rightarrow> gin \<times> progressBuffer" where
  "saveProgress GetStreamByID body g b =
     (case unmarshal (dec_struct progress_fields) body \<lparr>pr_StreamID = 0, pr_Progress = 0\<rparr> of
        None \<Rightarrow> (bind_failed g, b)
      | Some request \<Rightarrow>
        (case tum g of
           None \<Rightarrow> (does [ReqError StatusBadRequest ''context should exist but doesn't''] g, b)
         | Some t \<Rightarrow>
           (case ctx_User t of
              None \<Rightarrow> (does [ReqError StatusForbidden ''not logged in''] g, b)
            | Some u \<Rightarrow>
              (case GetStreamByID (uint_str (pr_StreamID request)) of
                 None \<Rightarrow> (g, b)
               | Some stream \<Rightarrow>
                   (g, buffer_add
                         \<lparr>prog_Progress = pr_Progress request,
                          prog_Watched = (pr_Progress request > 9 / 10 \<or>
                            watched_to_last_silence stream (pr_Progress request)),
                          prog_StreamID = pr_StreamID request, prog_UserID = ID u\<rparr> b)))))"

record watchedRequest =
  wr_StreamID :: uint
  wr_Watched :: bool

definition watched_fields :: "watchedRequest fields" where
  "watched_fields =
     [(''streamID'', \<lambda>j r. map_option (\<lambda>v. r\<lparr>wr_StreamID := v\<rparr>) (dec_uint j (wr_StreamID r))),
      (''watched'', \<lambda>j r. map_option (\<lambda>v. r\<lparr>wr_Watched := v\<rparr>) (dec_bool j (wr_Watched r)))]"

definition markWatched :: "'db upsert \<Rightarrow> json_text \<Rightarrow> gin \<Rightarrow> 'db \<Rightarrow> gin \<times> 'db" where
  "markWatched upsert body g d =
     (case unmarshal (dec_struct watched_fields) body \<lparr>wr_StreamID = 0, wr_Watched = False\<rparr> of
        None \<Rightarrow> (bind_failed g, d)
      | Some request \<Rightarrow>
        (case tum g of
           None \<Rightarrow> (does [ReqError StatusBadRequest ''context should exist but doesn't''] g, d)
         | Some t \<Rightarrow>
           (case ctx_User t of
              None \<Rightarrow> (does [ReqError StatusForbidden ''not logged in''] g, d)
            | Some u \<Rightarrow>
              (let (err, d) = SaveWatchedState upsert
                     \<lparr>prog_Progress = 0, prog_Watched = wr_Watched request, prog_StreamID = wr_StreamID request,
                      prog_UserID = ID u\<rparr> d
               in if err \<noteq> None
                  then (does [ReqError StatusInternalServerError ''can not mark VoD as watched.''] g, d)
                  else (g, d)))))"

text \<open>
  \<^verbatim>\<open>getProgressBatch\<close>: the IDs of the query that parse, each with the first stored progress of
  that stream. \<open>load\<close> is \<^verbatim>\<open>LoadProgress\<close>, \<open>enc\<close> the JSON of the results.
\<close>

definition batch_ids :: "string list \<Rightarrow> uint list" where
  "batch_ids ss = List.map_filter (\<lambda>s. map_option to_uint (atoi s)) ss"

definition batch_result :: "StreamProgress list \<Rightarrow> uint \<Rightarrow> StreamProgress" where
  "batch_result stored i =
     (let r = \<lparr>prog_Progress = 0, prog_Watched = False, prog_StreamID = i, prog_UserID = 0\<rparr> in
      case List.find (\<lambda>p. prog_StreamID p = i) stored of
        None \<Rightarrow> r
      | Some p \<Rightarrow> r\<lparr>prog_Progress := prog_Progress p, prog_Watched := prog_Watched p\<rparr>)"

definition getProgressBatch ::
    "(uint \<Rightarrow> uint list \<Rightarrow> StreamProgress list option) \<Rightarrow> (StreamProgress list \<Rightarrow> json) \<Rightarrow>
     string list option \<Rightarrow> gin \<Rightarrow> gin outcome" where
  "getProgressBatch load enc stringIds g =
     (case tum g of
        None \<Rightarrow> Panics MissingKey
      | Some t \<Rightarrow>
        Returns (case ctx_User t of
           None \<Rightarrow> does [ReqError StatusForbidden ''Not logged-in''] g
         | Some u \<Rightarrow>
           (case stringIds of
              None \<Rightarrow> does [ReqError StatusBadRequest (''invalid query '' @ [CHR 0x27] @ ''ids'' @ [CHR 0x27])] g
            | Some ss \<Rightarrow>
              (let ids = batch_ids ss in
               case load (ID u) ids of
                 None \<Rightarrow> does [ReqError StatusInternalServerError ''can not load progress''] g
               | Some stored \<Rightarrow> does [JSONReply 200 (enc (map (batch_result stored) ids))] g))))"

subsection \<open>The table of progresses\<close>

text \<open>
  The documented effect of the upsert on the table keyed by stream and user: rows are taken in
  order, a new key is inserted, an existing one has the listed columns replaced.
\<close>

type_synonym progress_table = "(uint \<times> uint) \<rightharpoonup> StreamProgress"

definition row_key :: "StreamProgress \<Rightarrow> uint \<times> uint" where
  "row_key p = (prog_StreamID p, prog_UserID p)"

definition update_row :: "string list \<Rightarrow> StreamProgress \<Rightarrow> StreamProgress \<Rightarrow> StreamProgress" where
  "update_row cols p q =
     q\<lparr>prog_Progress := (if ''progress'' \<in> set cols then prog_Progress p else prog_Progress q),
       prog_Watched := (if ''watched'' \<in> set cols then prog_Watched p else prog_Watched q)\<rparr>"

definition upsert_row :: "string list \<Rightarrow> progress_table \<Rightarrow> StreamProgress \<Rightarrow> progress_table" where
  "upsert_row cols t p =
     t(row_key p \<mapsto> (case t (row_key p) of None \<Rightarrow> p | Some q \<Rightarrow> update_row cols p q))"

definition table_upsert :: "progress_table upsert" where
  "table_upsert cols ps t = (None, foldl (upsert_row cols) t ps)"

definition row_watched :: "progress_table \<Rightarrow> uint \<times> uint \<Rightarrow> bool" where
  "row_watched t k = (case t k of None \<Rightarrow> False | Some p \<Rightarrow> prog_Watched p)"

lemma row_watched_upsert:
  "row_watched (upsert_row cols t p) k =
     (if k = row_key p \<and> (''watched'' \<in> set cols \<or> t k = None) then prog_Watched p else row_watched t k)"
  by (auto simp: row_watched_def upsert_row_def update_row_def split: option.split)

lemma unwatched_rows:
  "\<forall>p \<in> set ps. \<not> prog_Watched p \<Longrightarrow>
   row_watched (foldl (upsert_row [''progress'']) t ps) k = row_watched t k"
proof (induction ps arbitrary: t)
  case (Cons p ps)
  then show ?case by (auto simp: row_watched_upsert row_watched_def [of t])
qed simp

lemma watched_rows:
  "\<forall>p \<in> set ps. prog_Watched p \<Longrightarrow>
   row_watched (foldl (upsert_row [''progress'', ''watched'']) t ps) k =
     (row_watched t k \<or> k \<in> row_key ` set ps)"
proof (induction ps arbitrary: t)
  case (Cons p ps)
  then show ?case by (auto simp: row_watched_upsert)
qed simp

subsection \<open>Properties\<close>

text \<open>Writing the buffer out never takes a watched mark away: afterwards a video is marked for a
  user exactly if it was before or one of the buffered reports says so, and the buffer is empty.\<close>

lemma flush_keeps_watched:
  assumes "\<forall>cols ps t. upsert cols ps t = table_upsert cols ps t"
    and "buffer_flush upsert b t = (err, b', t')"
  shows "err = None \<and> progresses b' = [] \<and>
     (\<forall>k. row_watched t' k \<longleftrightarrow>
        row_watched t k \<or> (\<exists>p \<in> set (progresses b). prog_Watched p \<and> row_key p = k))"
proof (cases "progresses b = []")
  case True
  with assms(2) show ?thesis by (simp add: buffer_flush_def)
next
  case False
  let ?nw = "filterProgress (progresses b) False" and ?w = "filterProgress (progresses b) True"
  let ?t1 = "foldl (upsert_row [''progress'']) t ?nw"
  let ?t2 = "foldl (upsert_row [''progress'', ''watched'']) ?t1 ?w"
  have "SaveProgresses upsert (progresses b) t = (None, ?t2)"
    using assms(1) by (simp add: SaveProgresses_def table_upsert_def Let_def)
  with assms(2) False have "err = None" "progresses b' = []" "t' = ?t2"
    by (auto simp: buffer_flush_def)
  moreover have "row_watched ?t2 k \<longleftrightarrow>
      row_watched t k \<or> (\<exists>p \<in> set (progresses b). prog_Watched p \<and> row_key p = k)" for k
    by (subst watched_rows) (auto simp: unwatched_rows filterProgress_def)
  ultimately show ?thesis by simp
qed

definition demo_progress :: "rat \<Rightarrow> bool \<Rightarrow> StreamProgress" where
  "demo_progress p w = \<lparr>prog_Progress = p, prog_Watched = w, prog_StreamID = 3, prog_UserID = 1\<rparr>"

lemma flush_keeps_watched_witness:
  "row_watched (snd (snd (buffer_flush table_upsert
     \<lparr>progresses = [demo_progress (95/100) True, demo_progress (2/10) False], flush_interval = 5\<rparr> Map.empty))) (3, 1)"
proof -
  let ?b = "\<lparr>progresses = [demo_progress (95/100) True, demo_progress (2/10) False], flush_interval = 5\<rparr>"
  obtain err b' t' where f: "buffer_flush table_upsert ?b Map.empty = (err, b', t')"
    by (cases "buffer_flush table_upsert ?b Map.empty")
  from flush_keeps_watched [OF _ f] have "row_watched t' (3, 1)"
    by (simp add: demo_progress_def row_key_def)
  then show ?thesis using f by simp
qed

text \<open>A silence at the end of a video counts as watched to the end only if it ends at or after the
  stored duration: one that ends before it does not count, however close it is, because the
  difference wraps.\<close>

lemma last_silence_before_the_end:
  assumes "Int32 (Duration s) = d" and "0 < sint d" and "Silences s = x # xs"
    and "Word.uint (silence_End (max_silence x xs)) < sint d"
  shows "\<not> watched_to_last_silence s p"
proof -
  let ?e = "silence_End (max_silence x xs)"
  have d: "d \<noteq> 0" using assms(2) by auto
  then have dur: "video_duration s = d" by (simp add: video_duration_def assms(1) Let_def)
  have b: "sint d < 2147483648" using sint_lt [of d] by simp
  have sd: "Word.uint (scast d :: 64 word) = sint d"
  proof -
    have "Word.uint (word_of_int (sint d) :: 64 word) = take_bit 64 (sint d)"
      by (simp only: uint_word_of_int_eq) simp
    also have "\<dots> = sint d" using assms(2) b by (simp add: take_bit_int_eq_self)
    finally show ?thesis by (simp only: scast_eq)
  qed
  have "Word.uint (?e - scast d) = (Word.uint ?e - sint d) mod 18446744073709551616"
    by (simp only: uint_word_ariths sd) simp
  also have "\<dots> = Word.uint ?e - sint d + 18446744073709551616"
  proof -
    have "(Word.uint ?e - sint d) mod 18446744073709551616
        = (Word.uint ?e - sint d + 18446744073709551616) mod 18446744073709551616"
      by (simp only: mod_add_self2)
    also have "\<dots> = Word.uint ?e - sint d + 18446744073709551616"
      by (rule mod_pos_pos_trivial) (use assms(4) b uint_ge_0 [of ?e] in linarith)+
    finally show ?thesis .
  qed
  also have "\<dots> \<ge> 10" using b uint_ge_0 [of ?e] by linarith
  finally show ?thesis
    by (simp add: watched_to_last_silence_def Let_def dur assms(3) d)
qed

definition silent_stream :: Stream where
  "silent_stream = zero_Stream\<lparr>Duration := \<lparr>Int32 = 3600, Valid = True\<rparr>,
     Silences := [\<lparr>ID = 0, CreatedAt = 0, UpdatedAt = 0, DeletedAt = None, silence_Start = 3000,
                   silence_End = 3599, silence_StreamID = 0\<rparr>]\<rparr>"

lemma last_silence_before_the_end_witness: "\<not> watched_to_last_silence silent_stream 1"
  by (rule last_silence_before_the_end [of silent_stream 3600 "hd (Silences silent_stream)" "[]"])
     (simp_all add: silent_stream_def)

end
