(* ===== verification/Go_Path.thy ===== *)
theory Go_Path
  imports Go_Strings
begin

text \<open>
  \<^verbatim>\<open>path.Clean\<close> and \<^verbatim>\<open>path.Join\<close> (which on Linux are \<^verbatim>\<open>filepath.Clean\<close> and \<^verbatim>\<open>filepath.Join\<close>):
  the shortest path that names the same file, by removing empty and \<open>.\<close> elements and resolving
  \<open>..\<close>. The elements kept so far are a stack, its top first.
\<close>

definition clean_element :: "bool \<Rightarrow> string list \<Rightarrow> string \<Rightarrow> string list" where
  "clean_element rooted stack e =
     (if e = [] \<or> e = ''.'' then stack
      else if e = ''..'' then
        (case stack of
           [] \<Rightarrow> if rooted then [] else [''..'']
         | t # ts \<Rightarrow> if t = ''..'' then ''..'' # stack else ts)
      else e # stack)"

definition is_rooted :: "string \<Rightarrow> bool" where
  "is_rooted p \<longleftrightarrow> has_prefix p ''/''"

definition path_clean :: "string \<Rightarrow> string" where
  "path_clean p =
     (let stack = foldl (clean_element (is_rooted p)) [] (go_split p ''/'');
          s = join (rev stack) ''/''
      in if is_rooted p then ''/'' @ s else if s = [] then ''.'' else s)"

definition path_Join :: "string list \<Rightarrow> string" where
  "path_Join es =
     (let ps = filter (\<lambda>e. e \<noteq> []) es in if ps = [] then [] else path_clean (join ps ''/''))"

lemma clean_element_simps [simp]:
  "clean_element r st [] = st" "clean_element r st ''.'' = st"
  by (simp_all add: clean_element_def)

definition plain_element :: "string \<Rightarrow> bool" where
  "plain_element e \<longleftrightarrow> e \<noteq> [] \<and> e \<noteq> ''.'' \<and> e \<noteq> ''..'' \<and> CHR ''/'' \<notin> set e"

lemma clean_plain [simp]: "plain_element e \<Longrightarrow> clean_element r st e = e # st"
  by (simp add: clean_element_def plain_element_def)

lemma foldl_clean_plain:
  "list_all plain_element es \<Longrightarrow> foldl (clean_element r) st es = rev es @ st"
  by (induction es arbitrary: st) auto

lemma join_Nil_iff: "join ps sep = [] \<Longrightarrow> list_all plain_element ps \<Longrightarrow> ps = []"
  by (cases ps) (auto simp: plain_element_def, cases "tl ps", auto simp: plain_element_def)

text \<open>A path of ordinary elements is left as it is; its elements are found again.\<close>

lemma path_clean_plain:
  assumes "es \<noteq> []" and "list_all plain_element es"
  shows "path_clean (join es ''/'') = join es ''/''" and "path_clean (''/'' @ join es ''/'') = ''/'' @ join es ''/''"
proof -
  have sep: "\<forall>p \<in> set es. CHR ''/'' \<notin> set p"
    using assms(2) by (auto simp: list_all_iff plain_element_def)
  have split: "go_split (join es ''/'') ''/'' = es"
    using go_split_join [of es "CHR ''/''"] sep assms(1) by simp
  have ne: "join es ''/'' \<noteq> []" using join_Nil_iff [OF _ assms(2)] assms(1) by blast
  obtain e es' where es: "es = e # es'" using assms(1) by (cases es) auto
  have "e \<noteq> []" "CHR ''/'' \<notin> set e" using assms(2) by (auto simp: es plain_element_def)
  then have "\<not> is_rooted (join es ''/'')"
    by (cases e; cases es') (auto simp: es is_rooted_def has_prefix_def join_Cons)
  then show "path_clean (join es ''/'') = join es ''/''"
    using foldl_clean_plain [OF assms(2), of False "[]"] ne by (simp add: path_clean_def split Let_def)
  have "go_split (''/'' @ join es ''/'') ''/'' = [] # es"
    using go_split_append_sep [of "CHR ''/''" "[]" "join es ''/''"] split by simp
  then show "path_clean (''/'' @ join es ''/'') = ''/'' @ join es ''/''"
    using foldl_clean_plain [OF assms(2), of True "[]"]
    by (simp add: path_clean_def Let_def is_rooted_def has_prefix_def)
qed

lemma path_Join_examples:
  "path_Join [''storage/live'', ''17'', ''A''] = ''storage/live/17/A''"
  "path_Join [''a//b/'', ''../c''] = ''a/c''" "path_Join [''/'', ''..'', ''x''] = ''/x''"
  "path_Join [''a'', ''..''] = ''.''" "path_Join [[], []] = []"
  by (simp_all add: path_Join_def path_clean_def is_rooted_def has_prefix_def clean_element_def Let_def
      go_split_single_sep)

end
