(* ===== verification/Runner_Manager.thy ===== *)
theory Runner_Manager
  imports Model_User Go_Path
begin

text \<open>
  \<^verbatim>\<open>src/pkg/runner_manager/manager.go\<close>: the manager that registers runners, asks them to stream
  lecture halls, and handles their notifications: it stores playlists and thumbnails, moves the
  camera once per stream, switches the lights and requests subtitles.

  Its state is the set of streams whose camera was handled, the database behind an abstract data
  access object, and the log of what it asked of the outside: runners, cameras, power switches,
  the subtitle service, the file system. The answers of the outside are the fields of \<open>outside\<close>.
\<close>

datatype version =
    STREAM_VERSION_UNSPECIFIED | STREAM_VERSION_COMBINED
  | STREAM_VERSION_CAMERA | STREAM_VERSION_PRESENTATION

fun version_string :: "version \<Rightarrow> string" where
  "version_string STREAM_VERSION_UNSPECIFIED = ''STREAM_VERSION_UNSPECIFIED''"
| "version_string STREAM_VERSION_COMBINED = ''STREAM_VERSION_COMBINED''"
| "version_string STREAM_VERSION_CAMERA = ''STREAM_VERSION_CAMERA''"
| "version_string STREAM_VERSION_PRESENTATION = ''STREAM_VERSION_PRESENTATION''"

record StreamRequest =
  sr_StreamId :: uint
  sr_Version :: version
  sr_End :: gotime
  FfmpegOutputOptions :: string
  Input :: string

datatype action =
    RequestStream Runner StreamRequest
  | SetPreset string uint int
  | TurnOn string nat
  | TurnOff string nat
  | Generate "32 word" string string
  | WriteThumbnail string string

record 'db ManagerDao =
  GetDueStreamsForRunners :: "'db \<Rightarrow> string + Stream list"
  GetLectureHallByID :: "uint \<Rightarrow> 'db \<Rightarrow> string + LectureHall"
  ReserveRunner :: "'db \<Rightarrow> (string + Runner) \<times> 'db"
  CreateRunner :: "Runner \<Rightarrow> 'db \<Rightarrow> string option \<times> 'db"
  GetRunner :: "string \<Rightarrow> 'db \<Rightarrow> string + Runner"
  UpdateRunner :: "Runner \<Rightarrow> 'db \<Rightarrow> string option \<times> 'db"
  GetCourse :: "uint \<Rightarrow> 'db \<Rightarrow> string + Course"
  GetStream :: "string \<Rightarrow> 'db \<Rightarrow> string + Stream"
  SaveCOMBURL :: "Stream \<Rightarrow> string \<Rightarrow> 'db \<Rightarrow> 'db"
  SavePRESURL :: "Stream \<Rightarrow> string \<Rightarrow> 'db \<Rightarrow> 'db"
  SaveCAMURL :: "Stream \<Rightarrow> string \<Rightarrow> 'db \<Rightarrow> 'db"
  SaveStream :: "Stream \<Rightarrow> 'db \<Rightarrow> string option \<times> 'db"
  SetStreamNotLiveById :: "uint \<Rightarrow> 'db \<Rightarrow> string option \<times> 'db"
  GetLiveStreamsInLectureHall :: "uint \<Rightarrow> 'db \<Rightarrow> string + Stream list"
  NewFile :: "File \<Rightarrow> 'db \<Rightarrow> string option \<times> 'db"
  GetLiveStateForPwrCtrl :: "'db \<Rightarrow> string + (string \<times> int) list"

text \<open>
  The results of the calls to the outside (None: no error; for a file the message of the step that
  fails), the time format, \<open>sign\<close> for the playlist signing, whether there is a subtitle client.
\<close>

record outside =
  dial :: "Runner \<Rightarrow> string option"
  stream_answer :: "Runner \<Rightarrow> StreamRequest \<Rightarrow> string option"
  camera_for :: "string \<Rightarrow> uint \<Rightarrow> string option"
  preset_answer :: "string \<Rightarrow> uint \<Rightarrow> int \<Rightarrow> string option"
  power_answer :: "bool \<Rightarrow> string \<Rightarrow> nat \<Rightarrow> string option"
  generate_answer :: "string option"
  file_answer :: "string \<Rightarrow> string option"
  time_format :: "string \<Rightarrow> gotime \<Rightarrow> string"
  sign :: "Stream \<Rightarrow> Stream"
  has_subtitles :: bool
  IngestBase :: string
  massStorage :: string

record 'db manager =
  camsHandled :: "uint \<Rightarrow> bool"
  mdb :: 'db
  actions :: "action list"

definition act :: "action \<Rightarrow> 'db manager \<Rightarrow> 'db manager" where
  "act a m = m\<lparr>actions := actions m @ [a]\<rparr>"

definition exec_db :: "('db \<Rightarrow> 'r \<times> 'db) \<Rightarrow> 'db manager \<Rightarrow> 'r \<times> 'db manager" where
  "exec_db f m = (let res = f (mdb m) in (fst res, m\<lparr>mdb := snd res\<rparr>))"

subsection \<open>Registration and heartbeats\<close>

definition Manager_Register ::
    "'db ManagerDao \<Rightarrow> gotime \<Rightarrow> string \<Rightarrow> uint \<Rightarrow> string \<Rightarrow> 'db manager \<Rightarrow> string option \<times> 'db manager" where
  "Manager_Register dao now hostname port ver m =
     (let (err, m) = exec_db (CreateRunner dao
            \<lparr>Hostname = hostname, Port = ucast port, runner_LastSeen = zero_time, TimeOfRegister = now,
             Draining = False, JobCount = 0, runner_Version = ver\<rparr>) m
      in (map_option (\<lambda>e. ''create runner: '' @ e) err, m))"

definition heartbeat ::
    "'db ManagerDao \<Rightarrow> gotime \<Rightarrow> string \<Rightarrow> bool \<Rightarrow> uint \<Rightarrow> 'db manager \<Rightarrow> string option \<times> 'db manager" where
  "heartbeat dao now hostname draining jobCount m =
     (case GetRunner dao hostname (mdb m) of
        Inl e \<Rightarrow> (Some (''runner not found: '' @ e), m)
      | Inr runner \<Rightarrow>
        (let (err, m) = exec_db (UpdateRunner dao
               (runner\<lparr>runner_LastSeen := now, Draining := draining, JobCount := jobCount\<rparr>)) m
         in (map_option (\<lambda>e. ''update runner: '' @ e) err, m)))"

definition getClient :: "'db ManagerDao \<Rightarrow> outside \<Rightarrow> 'db manager \<Rightarrow> (string + Runner) \<times> 'db manager" where
  "getClient dao out m =
     (let (res, m) = exec_db (ReserveRunner dao) m in
      case res of
        Inl e \<Rightarrow> (Inl (''reserve available runner: '' @ e), m)
      | Inr r \<Rightarrow> (case dial out r of
                    Some e \<Rightarrow> (Inl (''dial runner: '' @ e), m)
                  | None \<Rightarrow> (Inr r, m)))"

subsection \<open>Starting streams\<close>

definition source_ip :: "LectureHall \<Rightarrow> version \<Rightarrow> string option" where
  "source_ip lh v =
     (case v of
        STREAM_VERSION_COMBINED \<Rightarrow> Some (CombIP lh)
      | STREAM_VERSION_CAMERA \<Rightarrow> Some (CamIP lh)
      | STREAM_VERSION_PRESENTATION \<Rightarrow> Some (PresIP lh)
      | STREAM_VERSION_UNSPECIFIED \<Rightarrow> None)"

definition default_options :: string where
  "default_options =
     ''-c:v libx264 -preset veryfast -tune zerolatency -c:a aac -ar 44100 -b:a 128k -g 60 -bufsize 5000k -maxrate 5000k -b:v 3500k''"

definition output_options :: "Stream \<Rightarrow> LectureHall \<Rightarrow> string" where
  "output_options s lh =
     (if \<not> IsSelfStream s then
        (if StreamProtocol lh = RTSP
         then ''-c:a copy -c:v copy -rtsp_transport tcp -preset veryfast -tune zerolatency''
         else if StreamProtocol lh = SRT then ''-c:a copy -c:v copy -preset veryfast -tune zerolatency''
         else default_options)
      else default_options)"

definition stream_input ::
    "'db ManagerDao \<Rightarrow> outside \<Rightarrow> Stream \<Rightarrow> LectureHall \<Rightarrow> string \<Rightarrow> 'db \<Rightarrow> string + string" where
  "stream_input dao out s lh ip d =
     (if \<not> IsSelfStream s then
        (if StreamProtocol lh = RTSP then Inr (''rtsp://'' @ ip)
         else if StreamProtocol lh = SRT then Inr (''srt://'' @ ip)
         else Inl (''invalid stream protocol '' @ uint_str (StreamProtocol lh)))
      else
        (case GetCourse dao (CourseID s) d of
           Inl e \<Rightarrow> Inl e
         | Inr course \<Rightarrow> Inr (IngestBase out @ ''/'' @ Slug course @ ''-'' @ uint_str (ID s))))"

definition requestStreamVersion ::
    "'db ManagerDao \<Rightarrow> outside \<Rightarrow> Stream \<Rightarrow> Runner \<Rightarrow> LectureHall \<Rightarrow> version \<Rightarrow> 'db manager \<Rightarrow>
     string option \<times> 'db manager" where
  "requestStreamVersion dao out s client lh v m =
     (case source_ip lh v of
        None \<Rightarrow> (Some (''invalid stream version '' @ version_string v), m)
      | Some ip \<Rightarrow>
        (case stream_input dao out s lh ip (mdb m) of
           Inl e \<Rightarrow> (Some e, m)
         | Inr input \<Rightarrow>
           (let req = \<lparr>sr_StreamId = ID s, sr_Version = v, sr_End = End s,
                       FfmpegOutputOptions = output_options s lh, Input = input\<rparr>
            in (stream_answer out client req, act (RequestStream client req) m))))"

definition due_versions :: "version list" where
  "due_versions = [STREAM_VERSION_COMBINED, STREAM_VERSION_PRESENTATION, STREAM_VERSION_CAMERA]"

definition errNotNoLectureSource :: string where
  "errNotNoLectureSource = ''no source configured for this lecture hall ip''"

text \<open>
  The state of the loops of \<^verbatim>\<open>TriggerDueStreams\<close>: the errors so far and the manager. Errors are
  compared by their text where the code uses \<^verbatim>\<open>errors.Is\<close>; the text of a gRPC error starts with
  ''rpc error'', so it is never the one of \<^verbatim>\<open>errNotNoLectureSource\<close>.
\<close>

definition start_version ::
    "'db ManagerDao \<Rightarrow> outside \<Rightarrow> Stream \<Rightarrow> LectureHall \<Rightarrow> string list \<times> 'db manager \<Rightarrow> version \<Rightarrow>
     string list \<times> 'db manager" where
  "start_version dao out s lh = (\<lambda>(errs, m) v.
     let (client, m) = getClient dao out m in
     case client of
       Inl e \<Rightarrow> (errs @ [''getClient: '' @ e], m)
     | Inr r \<Rightarrow>
       (let (err, m) = requestStreamVersion dao out s r lh v m in
        case err of
          Some e \<Rightarrow> if e \<noteq> errNotNoLectureSource
                     then (errs @ [''RequestStream '' @ version_string v @ '': '' @ e], m) else (errs, m)
        | None \<Rightarrow> (errs, m)))"

definition start_stream ::
    "'db ManagerDao \<Rightarrow> outside \<Rightarrow> string list \<times> 'db manager \<Rightarrow> Stream \<Rightarrow> string list \<times> 'db manager" where
  "start_stream dao out = (\<lambda>(errs, m) s.
     case GetLectureHallByID dao (LectureHallID s) (mdb m) of
       Inl e \<Rightarrow> (errs @ [''GetLectureHallByID: '' @ e], m)
     | Inr lh \<Rightarrow> foldl (start_version dao out s lh) (errs, m) due_versions)"

definition TriggerDueStreams ::
    "'db ManagerDao \<Rightarrow> outside \<Rightarrow> 'db manager \<Rightarrow> string list \<times> 'db manager" where
  "TriggerDueStreams dao out m =
     (case GetDueStreamsForRunners dao (mdb m) of
        Inl e \<Rightarrow> ([e], m)
      | Inr streams \<Rightarrow> foldl (start_stream dao out) ([], m) streams)"

definition zero_LectureHall :: LectureHall where
  "zero_LectureHall =
     \<lparr>ID = 0, CreatedAt = zero_time, UpdatedAt = zero_time, DeletedAt = None, lh_Name = [], FullName = [],
      StreamProtocol = 0, CombIP = [], PresIP = [], CamIP = [], CameraIP = [], CameraType = 0,
      lh_Streams = [], CameraPresets = [], RoomID = 0, PwrCtrlIp = [], ExternalURL = [], Legacy = False\<rparr>"

definition RequestSelfStream ::
    "'db ManagerDao \<Rightarrow> outside \<Rightarrow> gotime \<Rightarrow> Stream \<Rightarrow> 'db manager \<Rightarrow> string option \<times> 'db manager" where
  "RequestSelfStream dao out now stream m =
     (if \<not> (now > Start stream + Minute * (- 30) \<and> now < End stream + Minute * 30)
      then (Some ''stream rejected'', m)
      else
       (let (client, m) = getClient dao out m in
        case client of
          Inl e \<Rightarrow> (Some e, m)
        | Inr r \<Rightarrow>
          (let (err, m) = requestStreamVersion dao out stream r zero_LectureHall STREAM_VERSION_COMBINED m in
           case err of
             Some e \<Rightarrow> if e \<noteq> errNotNoLectureSource then (Some e, m) else (None, m)
           | None \<Rightarrow> (None, m))))"

subsection \<open>Camera and lights\<close>

definition set_cam :: "uint \<Rightarrow> bool \<Rightarrow> 'db manager \<Rightarrow> 'db manager" where
  "set_cam i b m = m\<lparr>camsHandled := (camsHandled m)(i := b)\<rparr>"

definition choose_preset :: "CameraPresetPreference option \<Rightarrow> CameraPreset list \<Rightarrow> CameraPreset option" where
  "choose_preset pref presets =
     List.find (\<lambda>preset. case pref of
                  None \<Rightarrow> IsDefault preset
                | Some p \<Rightarrow> PresetID preset = cpp_PresetID p) presets"

definition move_camera ::
    "'db ManagerDao \<Rightarrow> outside \<Rightarrow> Stream \<Rightarrow> 'db manager \<Rightarrow> string option \<times> 'db manager" where
  "move_camera dao out stream m =
     (case GetLectureHallByID dao (LectureHallID stream) (mdb m) of
        Inl e \<Rightarrow> (Some e, m)
      | Inr lh \<Rightarrow>
        (case GetCourse dao (CourseID stream) (mdb m) of
           Inl e \<Rightarrow> (Some e, m)
         | Inr course \<Rightarrow>
           (case camera_for out (CameraIP lh) (CameraType lh) of
              Some e \<Rightarrow> (Some e, m)
            | None \<Rightarrow>
              (let pref = List.find (\<lambda>p. cpp_LectureHallID p = LectureHallID stream)
                            (GetCameraPresetPreference course) in
               case choose_preset pref (CameraPresets lh) of
                 None \<Rightarrow> (None, m)
               | Some p \<Rightarrow>
                   (preset_answer out (CameraIP lh) (CameraType lh) (PresetID p),
                    act (SetPreset (CameraIP lh) (CameraType lh) (PresetID p)) m)))))"

definition handleCamera ::
    "'db ManagerDao \<Rightarrow> outside \<Rightarrow> Stream \<Rightarrow> 'db manager \<Rightarrow> string option \<times> 'db manager" where
  "handleCamera dao out stream m =
     (if IsSelfStream stream then (None, m)
      else if camsHandled m (ID stream) then (None, m)
      else
       (let (err, m) = move_camera dao out stream (set_cam (ID stream) True m) in
        case err of
          None \<Rightarrow> (None, m)
        | Some e \<Rightarrow> (Some e, set_cam (ID stream) False m)))"

definition switch :: "bool \<Rightarrow> string \<Rightarrow> nat \<Rightarrow> action" where
  "switch on ip i = (if on then TurnOn ip i else TurnOff ip i)"

definition switch_all :: "outside \<Rightarrow> bool \<Rightarrow> string \<Rightarrow> 'db manager \<Rightarrow> bool \<times> 'db manager" where
  "switch_all out on ip m =
     (list_ex (\<lambda>i. power_answer out on ip i \<noteq> None) [0, 1, 2],
      foldl (\<lambda>m i. act (switch on ip i) m) m [0, 1, 2])"

text \<open>The Boolean result says whether there was an error.\<close>

definition handleLightsOn ::
    "'db ManagerDao \<Rightarrow> outside \<Rightarrow> Stream \<Rightarrow> 'db manager \<Rightarrow> bool \<times> 'db manager" where
  "handleLightsOn dao out stream m =
     (if IsSelfStream stream then (False, m)
      else
       (case GetLectureHallByID dao (LectureHallID stream) (mdb m) of
          Inl e \<Rightarrow> (True, m)
        | Inr lh \<Rightarrow> switch_all out True (PwrCtrlIp lh) m))"

definition handleLightsOff ::
    "'db ManagerDao \<Rightarrow> outside \<Rightarrow> Stream \<Rightarrow> 'db manager \<Rightarrow> bool \<times> 'db manager" where
  "handleLightsOff dao out stream m =
     (case GetLiveStreamsInLectureHall dao (LectureHallID stream) (mdb m) of
        Inl e \<Rightarrow> (True, m)
      | Inr live \<Rightarrow>
          if length live > 1 then (False, m)
          else if length live = 1 \<and> ID (live ! 0) \<noteq> ID stream then (False, m)
          else
           (case GetLectureHallByID dao (LectureHallID stream) (mdb m) of
              Inl e \<Rightarrow> (True, m)
            | Inr lh \<Rightarrow> switch_all out False (PwrCtrlIp lh) m))"

definition UpdateLights :: "'db ManagerDao \<Rightarrow> outside \<Rightarrow> 'db manager \<Rightarrow> 'db manager" where
  "UpdateLights dao out m =
     (case GetLiveStateForPwrCtrl dao (mdb m) of
        Inl e \<Rightarrow> m
      | Inr res \<Rightarrow>
          foldl (\<lambda>m (ip, numLive). foldl (\<lambda>m i. act (switch (numLive > 0) ip i) m) m [0, 1, 2]) m res)"

subsection \<open>Notifications\<close>

definition streamStarted ::
    "'db ManagerDao \<Rightarrow> outside \<Rightarrow> uint \<Rightarrow> version \<Rightarrow> string option \<Rightarrow> 'db manager \<Rightarrow>
     (string option \<times> 'db manager) outcome" where
  "streamStarted dao out streamId v url m =
     (case GetStream dao (uint_str streamId) (mdb m) of
        Inl e \<Rightarrow> Returns (Some e, m)
      | Inr stream \<Rightarrow>
          outcome_bind
            (if v = STREAM_VERSION_UNSPECIFIED then Returns m
             else case url of
                    None \<Rightarrow> Panics NilDereference
                  | Some u \<Rightarrow>
                      Returns (m\<lparr>mdb :=
                        (if v = STREAM_VERSION_COMBINED then SaveCOMBURL dao stream u (mdb m)
                         else if v = STREAM_VERSION_PRESENTATION then SavePRESURL dao stream u (mdb m)
                         else SaveCAMURL dao stream u (mdb m))\<rparr>))
            (\<lambda>m. Returns (None, snd (handleLightsOn dao out stream (snd (handleCamera dao out stream m))))))"

definition streamEnded ::
    "'db ManagerDao \<Rightarrow> outside \<Rightarrow> uint \<Rightarrow> 'db manager \<Rightarrow> string option \<times> 'db manager" where
  "streamEnded dao out streamId m =
     (let (err, m) = exec_db (SetStreamNotLiveById dao streamId) m in
      case err of
        Some e \<Rightarrow> (Some e, m)
      | None \<Rightarrow>
        (case GetStream dao (uint_str streamId) (mdb m) of
           Inl e \<Rightarrow> (Some e, m)
         | Inr stream \<Rightarrow> (None, snd (handleLightsOff dao out stream m))))"

definition thumb_type :: "version \<Rightarrow> FileType option" where
  "thumb_type v =
     (case v of
        STREAM_VERSION_CAMERA \<Rightarrow> Some FILETYPE_THUMB_LG_CAM
      | STREAM_VERSION_PRESENTATION \<Rightarrow> Some FILETYPE_THUMB_LG_PRES
      | STREAM_VERSION_COMBINED \<Rightarrow> Some FILETYPE_THUMB_LG_COMB
      | STREAM_VERSION_UNSPECIFIED \<Rightarrow> None)"

definition saveThumbnail ::
    "'db ManagerDao \<Rightarrow> outside \<Rightarrow> uint \<Rightarrow> version \<Rightarrow> string \<Rightarrow> 'db manager \<Rightarrow> string option \<times> 'db manager" where
  "saveThumbnail dao out streamId v thumbnail m =
     (case thumb_type v of
        None \<Rightarrow> (Some (''invalid stream version '' @ version_string v), m)
      | Some fileType \<Rightarrow>
        (case GetStream dao (uint_str streamId) (mdb m) of
           Inl e \<Rightarrow> (Some (''can't find stream for id '' @ uint_str streamId @ '': '' @ e), m)
         | Inr stream \<Rightarrow>
           (let fpath = path_Join [massStorage out, ''thumbs'', time_format out ''2006/01'' (Start stream),
                                       uint_str (CourseID stream)];
                fname = uint_str (ID stream) @ ''_'' @ version_string v @ ''.jpeg'';
                full = path_Join [fpath, fname];
                file = \<lparr>ID = 0, CreatedAt = zero_time, UpdatedAt = zero_time, DeletedAt = None,
                        file_StreamID = ID stream, Path = full, Filename = fname, file_Type = fileType,
                        CourseName = []\<rparr>
            in case file_answer out full of
                 Some e \<Rightarrow> (Some e, m)
               | None \<Rightarrow>
                 (let (err, m) = exec_db (NewFile dao file) (act (WriteThumbnail full thumbnail) m)
                  in (map_option (\<lambda>e. ''can't save thumbnail to db: '' @ e) err, m)))))"

definition version_url :: "StreamVersion \<Rightarrow> Stream \<Rightarrow> string" where
  "version_url v stream =
     (if v = COMB then PlaylistUrl stream else if v = PRES then PlaylistUrlPRES stream else PlaylistUrlCAM stream)"

definition requestSubtitles ::
    "'db ManagerDao \<Rightarrow> outside \<Rightarrow> Stream \<Rightarrow> StreamVersion \<Rightarrow> 'db manager \<Rightarrow> string option \<times> 'db manager" where
  "requestSubtitles dao out stream v m =
     (if \<not> has_subtitles out then (None, m)
      else
       (case GetCourse dao (CourseID stream) (mdb m) of
          Inl e \<Rightarrow> (Some e, m)
        | Inr course \<Rightarrow>
            if ShouldGenerateSubtitles course v (LectureHallID stream)
            then (generate_answer out,
                  act (Generate (ucast (ID stream)) (version_url v (sign out stream))
                         (case Language course of None \<Rightarrow> [] | Some l \<Rightarrow> l)) m)
            else (None, m)))"

definition handleVODReady ::
    "'db ManagerDao \<Rightarrow> outside \<Rightarrow> uint \<Rightarrow> version option \<Rightarrow> string \<Rightarrow> 'db manager \<Rightarrow>
     (string option \<times> 'db manager) outcome" where
  "handleVODReady dao out streamId v url m =
     (case GetStream dao (uint_str streamId) (mdb m) of
        Inl e \<Rightarrow> Returns (Some e, m)
      | Inr stream \<Rightarrow>
        (case v of
           None \<Rightarrow> Panics NilDereference
         | Some ver \<Rightarrow>
           (let (modelVersion, stream) =
                  (case ver of
                     STREAM_VERSION_COMBINED \<Rightarrow> (COMB, stream\<lparr>PlaylistUrl := url\<rparr>)
                   | STREAM_VERSION_PRESENTATION \<Rightarrow> (PRES, stream\<lparr>PlaylistUrlPRES := url\<rparr>)
                   | STREAM_VERSION_CAMERA \<Rightarrow> (CAM, stream\<lparr>PlaylistUrlCAM := url\<rparr>)
                   | STREAM_VERSION_UNSPECIFIED \<Rightarrow> (COMB, stream));
                stream = stream\<lparr>Recording := True\<rparr>;
                (err, m) = exec_db (SaveStream dao stream) m
            in Returns (case err of
                 Some e \<Rightarrow> (Some e, m)
               | None \<Rightarrow> (None, snd (requestSubtitles dao out stream modelVersion m))))))"

text \<open>The notifications a runner sends; the last constructor stands for any other.\<close>

datatype notification =
    Heartbeat string bool uint
  | StreamStart uint version "string option"
  | StreamEnd uint
  | VodReady uint "version option" string
  | ThumbnailReady uint version string
  | OtherNotification

fun Notify ::
    "'db ManagerDao \<Rightarrow> outside \<Rightarrow> gotime \<Rightarrow> notification \<Rightarrow> 'db manager \<Rightarrow>
     (string option \<times> 'db manager) outcome" where
  "Notify dao out now (Heartbeat h d j) m = Returns (heartbeat dao now h d j m)"
| "Notify dao out now (StreamStart i v url) m = streamStarted dao out i v url m"
| "Notify dao out now (StreamEnd i) m = Returns (streamEnded dao out i m)"
| "Notify dao out now (VodReady i v url) m = handleVODReady dao out i v url m"
| "Notify dao out now (ThumbnailReady i v t) m = Returns (saveThumbnail dao out i v t m)"
| "Notify dao out now OtherNotification m = Returns (Some ''unsupported notification type'', m)"

subsection \<open>Properties\<close>

lemma act_simps [simp]:
  "actions (act a m) = actions m @ [a]" "camsHandled (act a m) = camsHandled m" "mdb (act a m) = mdb m"
  by (simp_all add: act_def)

lemma set_cam_simps [simp]:
  "actions (set_cam i b m) = actions m" "camsHandled (set_cam i b m) = (camsHandled m)(i := b)"
  "mdb (set_cam i b m) = mdb m"
  by (simp_all add: set_cam_def)

lemma move_camera_keeps:
  "camsHandled (snd (move_camera dao out s m)) = camsHandled m" "mdb (snd (move_camera dao out s m)) = mdb m"
  by (simp_all add: move_camera_def Let_def split: sum.split option.split)

lemma move_camera_actions:
  "\<exists>as. actions (snd (move_camera dao out s m)) = actions m @ as \<and> length as \<le> 1 \<and>
     (\<forall>a \<in> set as. \<exists>ip t p. a = SetPreset ip t p) \<and>
     (as \<noteq> [] \<longrightarrow> (\<exists>ip t p. fst (move_camera dao out s m) = preset_answer out ip t p))"
  by (auto simp: move_camera_def Let_def split: sum.split option.split)

lemma handleCamera_eq:
  "handleCamera dao out s m =
     (if IsSelfStream s \<or> camsHandled m (ID s) then (None, m)
      else (let r = move_camera dao out s (set_cam (ID s) True m) in
            (fst r, if fst r = None then snd r else set_cam (ID s) False (snd r))))"
  by (simp add: handleCamera_def Let_def split: prod.split option.split)

lemma handleCamera_handled:
  "camsHandled m (ID s) \<Longrightarrow> handleCamera dao out s m = (None, m)"
  by (simp add: handleCamera_eq)

text \<open>One call: no action, or one that leaves the stream handled if the camera did not refuse.\<close>

lemma handleCamera_step:
  assumes ok: "\<And>ip t p. preset_answer out ip t p = None"
  shows "actions (snd (handleCamera dao out s m)) = actions m \<or>
     (\<exists>ip t p. actions (snd (handleCamera dao out s m)) = actions m @ [SetPreset ip t p]) \<and>
     camsHandled (snd (handleCamera dao out s m)) (ID s)"
proof (cases "IsSelfStream s \<or> camsHandled m (ID s)")
  case True
  then show ?thesis by (simp add: handleCamera_eq)
next
  case False
  define r where "r = move_camera dao out s (set_cam (ID s) True m)"
  have h: "handleCamera dao out s m = (fst r, if fst r = None then snd r else set_cam (ID s) False (snd r))"
    using False by (simp add: handleCamera_eq r_def Let_def)
  obtain as where as: "actions (snd r) = actions m @ as" "length as \<le> 1"
    "\<forall>a \<in> set as. \<exists>ip t p. a = SetPreset ip t p"
    "as \<noteq> [] \<longrightarrow> (\<exists>ip t p. fst r = preset_answer out ip t p)"
    using move_camera_actions [of dao out s "set_cam (ID s) True m"] by (auto simp: r_def)
  have cam: "camsHandled (snd r) (ID s)" by (simp add: r_def move_camera_keeps)
  show ?thesis
  proof (cases "as = []")
    case True
    with as h show ?thesis by simp
  next
    case False
    with as obtain a where "as = [a]" by (cases as) auto
    moreover have "fst r = None" using as(4) False ok by auto
    ultimately show ?thesis using as h cam by auto
  qed
qed

text \<open>A burst of start notifications for one stream moves the camera at most once, as long as the
  camera does not refuse the command.\<close>

lemma camera_moves_once:
  assumes "\<forall>ip t p. preset_answer out ip t p = None" and "\<forall>s \<in> set ss. ID s = i"
  shows "\<exists>as. actions (foldl (\<lambda>m s. snd (handleCamera dao out s m)) m ss) = actions m @ as \<and> length as \<le> 1 \<and>
     (as \<noteq> [] \<longrightarrow> (\<exists>ip t p. as = [SetPreset ip t p]))"
  using assms(2)
proof (induction ss arbitrary: m)
  case Nil
  then show ?case by simp
next
  case (Cons s ss)
  let ?m = "snd (handleCamera dao out s m)"
  have rest: "actions (foldl (\<lambda>m s. snd (handleCamera dao out s m)) m' ts) = actions m'"
    if "camsHandled m' i" "\<forall>s \<in> set ts. ID s = i" for m' :: "'a manager" and ts
    using that by (induction ts) (simp_all add: handleCamera_handled)
  from Cons.prems have "ID s = i" "\<forall>s \<in> set ss. ID s = i" by simp_all
  with handleCamera_step [of out dao s m] assms(1) consider
    "actions ?m = actions m" | ip t p where "actions ?m = actions m @ [SetPreset ip t p]" "camsHandled ?m i"
    by auto
  then show ?case
  proof cases
    case 1
    with Cons.IH [of ?m] \<open>\<forall>s \<in> set ss. ID s = i\<close> show ?thesis by simp
  next
    case 2
    with rest [OF 2(2) \<open>\<forall>s \<in> set ss. ID s = i\<close>] show ?thesis by simp
  qed
qed

definition demo_hall :: LectureHall where
  "demo_hall = zero_LectureHall\<lparr>ID := 5, StreamProtocol := RTSP, CombIP := ''10.0.0.1'', CameraIP := ''10.0.0.2'',
     CameraType := Axis, PwrCtrlIp := ''10.0.0.3'',
     CameraPresets := [\<lparr>preset_Name = ''wide'', PresetID = 4, Image = [], preset_LectureHallID = 5, IsDefault = True\<rparr>]\<rparr>"

definition demo_lecture :: Stream where
  "demo_lecture = zero_Stream\<lparr>ID := 1, CourseID := 7, LectureHallID := 5, Start := 50, End := 100\<rparr>"

definition demo_manager_course :: Course where
  "demo_manager_course =
     \<lparr>ID = 7, CreatedAt = 0, UpdatedAt = 0, DeletedAt = None, course_UserID = 1, course_Name = ''Analysis'',
      Slug = ''ana'', course_Year = 2024, course_TeachingTerm = ''W'', TUMOnlineIdentifier = [], VODEnabled = True,
      DownloadsEnabled = False, course_ChatEnabled = True, AnonymousChatEnabled = False,
      ModeratedChatEnabled = False, VodChatEnabled = False, Visibility = ''public'', Streams = [], Users = [],
      Admins = [], course_Token = [], UserCreatedByToken = False, CameraPresetPreferences = None,
      SourcePreferences = None, Language = Some ''en'', Pinned = False, LivePrivate = False, VodPrivate = False\<rparr>"

definition demo_manager_dao :: "Stream list ManagerDao" where
  "demo_manager_dao =
     \<lparr>GetDueStreamsForRunners = \<lambda>d. Inr d, GetLectureHallByID = \<lambda>i d. Inr demo_hall,
      ReserveRunner = \<lambda>d. (Inl ''none'', d), CreateRunner = \<lambda>r d. (None, d), GetRunner = \<lambda>h d. Inl ''none'',
      UpdateRunner = \<lambda>r d. (None, d), GetCourse = \<lambda>i d. Inr demo_manager_course,
      GetStream = \<lambda>i d. Inr demo_lecture, SaveCOMBURL = \<lambda>s u d. d, SavePRESURL = \<lambda>s u d. d,
      SaveCAMURL = \<lambda>s u d. d, SaveStream = \<lambda>s d. (None, d @ [s]), SetStreamNotLiveById = \<lambda>i d. (None, d),
      GetLiveStreamsInLectureHall = \<lambda>i d. Inr d, NewFile = \<lambda>f d. (None, d),
      GetLiveStateForPwrCtrl = \<lambda>d. Inr []\<rparr>"

definition demo_outside :: outside where
  "demo_outside =
     \<lparr>dial = \<lambda>r. None, stream_answer = \<lambda>r q. None, camera_for = \<lambda>i t. None, preset_answer = \<lambda>i t p. None,
      power_answer = \<lambda>b i n. None, generate_answer = None, file_answer = \<lambda>p. None, time_format = \<lambda>f t. [],
      sign = \<lambda>s. s, has_subtitles = True, IngestBase = [], massStorage = []\<rparr>"

definition demo_manager :: "Stream list manager" where
  "demo_manager = \<lparr>camsHandled = \<lambda>i. False, mdb = [demo_lecture, demo_lecture\<lparr>ID := 2\<rparr>], actions = []\<rparr>"

lemma camera_moves_once_witness:
  "\<exists>as. actions (foldl (\<lambda>m s. snd (handleCamera demo_manager_dao demo_outside s m)) demo_manager
            [demo_lecture, demo_lecture, demo_lecture]) = actions demo_manager @ as \<and> length as \<le> 1 \<and>
     (as \<noteq> [] \<longrightarrow> (\<exists>ip t p. as = [SetPreset ip t p]))"
  by (rule camera_moves_once [where i = 1]) (simp_all add: demo_outside_def demo_lecture_def)

text \<open>When a stream ends while another stream is live in its lecture hall, no light is switched;
  whatever is switched is switched off, at that hall's power control.\<close>

lemma lights_stay_on:
  assumes "SetStreamNotLiveById dao i (mdb m) = (None, d)" and "GetStream dao (uint_str i) d = Inr s"
    and "GetLiveStreamsInLectureHall dao (LectureHallID s) d = Inr live"
  shows "\<exists>as. actions (snd (streamEnded dao out i m)) = actions m @ as \<and>
     ((\<exists>t \<in> set live. ID t \<noteq> ID s) \<longrightarrow> as = []) \<and>
     (as \<noteq> [] \<longrightarrow> (\<exists>lh. GetLectureHallByID dao (LectureHallID s) d = Inr lh \<and>
        as = [TurnOff (PwrCtrlIp lh) 0, TurnOff (PwrCtrlIp lh) 1, TurnOff (PwrCtrlIp lh) 2]))"
proof -
  let ?m = "m\<lparr>mdb := d\<rparr>"
  have ended: "snd (streamEnded dao out i m) = snd (handleLightsOff dao out s ?m)"
    using assms(1,2) by (simp add: streamEnded_def exec_db_def Let_def)
  show ?thesis
  proof (cases "length live > 1 \<or> length live = 1 \<and> ID (live ! 0) \<noteq> ID s")
    case True
    with assms(3) show ?thesis by (auto simp: ended handleLightsOff_def)
  next
    case False
    then have "live = [] \<or> (\<exists>t. live = [t] \<and> ID t = ID s)"
      by (cases live) auto
    then have "\<not> (\<exists>t \<in> set live. ID t \<noteq> ID s)" by auto
    with False assms(3) show ?thesis
      by (auto simp: ended handleLightsOff_def switch_all_def switch_def split: sum.split)
  qed
qed

lemma lights_stay_on_witness:
  "actions (snd (streamEnded demo_manager_dao demo_outside 1 demo_manager)) = []"
proof -
  have "\<exists>as. actions (snd (streamEnded demo_manager_dao demo_outside 1 demo_manager)) = actions demo_manager @ as \<and>
     ((\<exists>t \<in> set (mdb demo_manager). ID t \<noteq> ID demo_lecture) \<longrightarrow> as = []) \<and>
     (as \<noteq> [] \<longrightarrow> (\<exists>lh. GetLectureHallByID demo_manager_dao (LectureHallID demo_lecture) (mdb demo_manager) = Inr lh \<and>
        as = [TurnOff (PwrCtrlIp lh) 0, TurnOff (PwrCtrlIp lh) 1, TurnOff (PwrCtrlIp lh) 2]))"
    by (rule lights_stay_on) (simp_all add: demo_manager_dao_def)
  moreover have "\<exists>t \<in> set (mdb demo_manager). ID t \<noteq> ID demo_lecture"
    by (simp add: demo_manager_def demo_lecture_def)
  moreover have "actions demo_manager = []" by (simp add: demo_manager_def)
  ultimately show ?thesis by auto
qed

definition model_version :: "version \<Rightarrow> StreamVersion" where
  "model_version v = (case v of STREAM_VERSION_PRESENTATION \<Rightarrow> PRES | STREAM_VERSION_CAMERA \<Rightarrow> CAM | _ \<Rightarrow> COMB)"

text \<open>A finished video is stored as a recording with its playlist in the version's own field and
  the other two as they were, and subtitles are requested only for the version that the course
  wants them for.\<close>

lemma vod_ready_stored:
  assumes "GetStream dao (uint_str i) (mdb m) = Inr s"
    and "v \<in> {STREAM_VERSION_COMBINED, STREAM_VERSION_PRESENTATION, STREAM_VERSION_CAMERA}"
    and "handleVODReady dao out i (Some v) url m = Returns (err, m')"
  shows "\<exists>s'. Recording s' \<and> ID s' = ID s \<and> version_url (model_version v) s' = url \<and>
     (\<forall>w \<in> {COMB, PRES, CAM} - {model_version v}. version_url w s' = version_url w s) \<and>
     err = fst (SaveStream dao s' (mdb m)) \<and> mdb m' = snd (SaveStream dao s' (mdb m)) \<and>
     (actions m' \<noteq> actions m \<longrightarrow>
        (\<exists>c. GetCourse dao (CourseID s) (mdb m') = Inr c \<and> ShouldGenerateSubtitles c (model_version v) (LectureHallID s)))"
proof -
  define ver where "ver = model_version v"
  define s' where "s' = (case v of STREAM_VERSION_COMBINED \<Rightarrow> s\<lparr>PlaylistUrl := url\<rparr>
      | STREAM_VERSION_PRESENTATION \<Rightarrow> s\<lparr>PlaylistUrlPRES := url\<rparr>
      | STREAM_VERSION_CAMERA \<Rightarrow> s\<lparr>PlaylistUrlCAM := url\<rparr> | _ \<Rightarrow> s)\<lparr>Recording := True\<rparr>"
  obtain err1 d where save: "SaveStream dao s' (mdb m) = (err1, d)" by (cases "SaveStream dao s' (mdb m)")
  have res: "(err, m') = (case err1 of Some e \<Rightarrow> (Some e, m\<lparr>mdb := d\<rparr>)
      | None \<Rightarrow> (None, snd (requestSubtitles dao out s' ver (m\<lparr>mdb := d\<rparr>))))"
    using assms(3,2) save
    by (auto simp: handleVODReady_def assms(1) exec_db_def Let_def s'_def ver_def model_version_def split: option.splits)
  have sub: "mdb (snd (requestSubtitles dao out s' ver m1)) = mdb m1 \<and>
      (actions (snd (requestSubtitles dao out s' ver m1)) \<noteq> actions m1 \<longrightarrow>
        (\<exists>c. GetCourse dao (CourseID s') (mdb m1) = Inr c \<and> ShouldGenerateSubtitles c ver (LectureHallID s')))" for m1
    by (simp add: requestSubtitles_def split: sum.split)
  have keep: "CourseID s' = CourseID s" "LectureHallID s' = LectureHallID s" "ID s' = ID s" "Recording s'"
    by (simp_all add: s'_def split: version.split)
  have urls: "version_url ver s' = url" "\<forall>w \<in> {COMB, PRES, CAM} - {ver}. version_url w s' = version_url w s"
    using assms(2) by (auto simp: version_url_def s'_def ver_def model_version_def version_defs)
  from res sub [of "m\<lparr>mdb := d\<rparr>"] keep
  have "err = err1 \<and> mdb m' = d \<and> (actions m' \<noteq> actions m \<longrightarrow>
        (\<exists>c. GetCourse dao (CourseID s) (mdb m') = Inr c \<and> ShouldGenerateSubtitles c ver (LectureHallID s)))"
    by (auto split: option.split_asm)
  with keep urls save show ?thesis unfolding ver_def by (intro exI [of _ s']) auto
qed

lemma vod_ready_stored_witness:
  "\<exists>err m'. handleVODReady demo_manager_dao demo_outside 1 (Some STREAM_VERSION_CAMERA) ''u'' demo_manager = Returns (err, m') \<and>
     (\<exists>s'. Recording s' \<and> ID s' = 1 \<and> mdb m' = mdb demo_manager @ [s'])"
proof -
  obtain err m' where h: "handleVODReady demo_manager_dao demo_outside 1 (Some STREAM_VERSION_CAMERA) ''u'' demo_manager = Returns (err, m')"
    by (cases "handleVODReady demo_manager_dao demo_outside 1 (Some STREAM_VERSION_CAMERA) ''u'' demo_manager")
       (auto simp: handleVODReady_def demo_manager_dao_def Let_def split: prod.splits)
  have s: "GetStream demo_manager_dao (uint_str 1) (mdb demo_manager) = Inr demo_lecture"
    by (simp add: demo_manager_dao_def)
  have "SaveStream demo_manager_dao x d = (None, d @ [x])" for x d by (simp add: demo_manager_dao_def)
  moreover have "ID demo_lecture = 1" by (simp add: demo_lecture_def)
  ultimately show ?thesis using vod_ready_stored [OF s _ h] h by auto
qed

end
