(* ===== verification/Runner_Jobs.thy ===== *)
theory Runner_Jobs
  imports Runner_Manager "HOL-Library.AList"
begin

text \<open>
  The runner, \<^verbatim>\<open>src/runner/\<close>: a request to stream becomes a job, a list of actions
  (\<^verbatim>\<open>runner/pkg/actions/\<close>) that share a map of data and send notifications to the manager of
  \<open>Runner_Manager\<close>. \<open>run_actions\<close> is the loop of \<^verbatim>\<open>RunAction\<close>: an action is retried until it
  returns no error or an aborting one.

  One run of an action sees one \<open>attempt\<close>: the clock, whether the job was cancelled, and the
  answers of the file system, ffmpeg, ffprobe and the thumbnail generator. A job gets a list of
  attempts and returns None if they are used up before its loop ends. \<^verbatim>\<open>url.JoinPath\<close> is a function
  of its arguments, so its answer \<open>url_join\<close> comes with the configuration and is the same in every attempt.
\<close>

subsection \<open>Errors\<close>

datatype action_error = Plain string | AbortingError action_error | Joined action_error action_error

fun IsAbortingError :: "action_error \<Rightarrow> bool" where
  "IsAbortingError (Plain _) = False"
| "IsAbortingError (AbortingError _) = True"
| "IsAbortingError (Joined a b) = (IsAbortingError a \<or> IsAbortingError b)"

definition abort :: "string \<Rightarrow> action_error option" where
  "abort msg = Some (AbortingError (Plain msg))"

fun errors_Join :: "action_error option \<Rightarrow> action_error option \<Rightarrow> action_error option" where
  "errors_Join None b = b"
| "errors_Join a None = a"
| "errors_Join (Some a) (Some b) = Some (Joined a b)"

subsection \<open>Jobs\<close>

datatype dval = DUint uint | DString string | DTime gotime | DBool bool

record job =
  jdata :: "string \<rightharpoonup> dval"
  sent :: "notification list"
  files :: "string list"

record runner_config =
  cfg_SegmentPath :: string
  cfg_StoragePath :: string
  cfg_EdgeServer :: string
  cfg_Hostname :: string
  url_join :: "string list \<Rightarrow> string + string"

record attempt =
  cancelled :: bool
  now :: gotime
  now_after :: gotime
  mkdir :: "string \<Rightarrow> string option"
  ffmpeg :: "string list \<Rightarrow> string option"
  probe :: "string \<Rightarrow> string + rat"
  thumbnail :: "string \<Rightarrow> string + string"
  create_file :: "string \<Rightarrow> string option"

type_synonym action_fun = "runner_config \<Rightarrow> attempt \<Rightarrow> job \<Rightarrow> action_error option \<times> job"

definition data_uint :: "job \<Rightarrow> string \<Rightarrow> uint option" where
  "data_uint j k = (case jdata j k of Some (DUint u) \<Rightarrow> Some u | _ \<Rightarrow> None)"

definition data_string :: "job \<Rightarrow> string \<Rightarrow> string option" where
  "data_string j k = (case jdata j k of Some (DString s) \<Rightarrow> Some s | _ \<Rightarrow> None)"

definition data_time :: "job \<Rightarrow> string \<Rightarrow> gotime option" where
  "data_time j k = (case jdata j k of Some (DTime t) \<Rightarrow> Some t | _ \<Rightarrow> None)"

definition set_data :: "string \<Rightarrow> dval \<Rightarrow> job \<Rightarrow> job" where
  "set_data k v j = j\<lparr>jdata := (jdata j)(k \<mapsto> v)\<rparr>"

definition notify :: "notification \<Rightarrow> job \<Rightarrow> job" where
  "notify n j = j\<lparr>sent := sent j @ [n]\<rparr>"

text \<open>A type assertion on the data whose failure aborts the action.\<close>

definition need :: "'a option \<Rightarrow> string \<Rightarrow> job \<Rightarrow> ('a \<Rightarrow> action_error option \<times> job) \<Rightarrow> action_error option \<times> job" where
  "need x msg j f = (case x of None \<Rightarrow> (abort msg, j) | Some v \<Rightarrow> f v)"

definition version_value :: "string \<Rightarrow> version" where
  "version_value s =
     (if s = ''STREAM_VERSION_COMBINED'' then STREAM_VERSION_COMBINED
      else if s = ''STREAM_VERSION_CAMERA'' then STREAM_VERSION_CAMERA
      else if s = ''STREAM_VERSION_PRESENTATION'' then STREAM_VERSION_PRESENTATION
      else STREAM_VERSION_UNSPECIFIED)"

text \<open>\<^verbatim>\<open>%.0f\<close>: rounded to the nearest integer, halves to the even one.\<close>

definition round_half_even :: "rat \<Rightarrow> int" where
  "round_half_even r =
     (let f = \<lfloor>r\<rfloor>; d = r - of_int f in
      if d < 1 / 2 then f else if d > 1 / 2 then f + 1 else if even f then f else f + 1)"

subsection \<open>The actions\<close>

definition stream_args :: "string \<Rightarrow> string \<Rightarrow> string \<Rightarrow> string \<Rightarrow> duration \<Rightarrow> string \<Rightarrow> string list" where
  "stream_args globalOpts inputOpts outputOpts input until_end liveRecDir =
     [''-nostdin'', ''-y''] @ (if globalOpts \<noteq> [] then go_split globalOpts '' '' else []) @
     [''-t'', itoa (round_half_even (of_int until_end / of_int Second))] @
     (if inputOpts \<noteq> [] then go_split inputOpts '' '' else []) @ [''-i'', input] @ go_split outputOpts '' '' @
     go_split (''-f hls -hls_time 2 -hls_playlist_type event -hls_flags append_list -hls_segment_filename '' @
               liveRecDir @ ''/%05d.ts '' @ liveRecDir @ ''/playlist.m3u8'') '' ''"

definition action_Stream :: action_fun where
  "action_Stream cfg e d =
     (if cancelled e then (abort ''context canceled'', d)
      else
        need (data_uint d ''streamID'') ''no stream id in context'' d (\<lambda>streamID.
        need (data_time d ''streamEnd'') ''no stream end in context'' d (\<lambda>streamEnd.
        if streamEnd < now e then (None, d)
        else
          need (data_string d ''streamVersion'') ''no stream end in context'' d (\<lambda>streamVersion.
          let globalOpts = (case data_string d ''globalOpts'' of None \<Rightarrow> [] | Some s \<Rightarrow> s);
              inputOpts = (case data_string d ''inputOpts'' of None \<Rightarrow> [] | Some s \<Rightarrow> s);
              outputOpts = (case data_string d ''outputOpts'' of None \<Rightarrow> ''-c:a copy -c:v copy'' | Some s \<Rightarrow> s) in
          need (data_string d ''input'') ''no input in context'' d (\<lambda>input.
          let liveRecDir = path_Join [cfg_SegmentPath cfg, uint_str streamID, streamVersion] in
          case mkdir e liveRecDir of
            Some err \<Rightarrow> (abort err, d)
          | None \<Rightarrow>
             (let d = set_data ''recordingDir'' (DString liveRecDir) d;
                  d = notify (StreamStart streamID (version_value streamVersion)
                        (Some (cfg_EdgeServer cfg @ ''/'' @ cfg_Hostname cfg @ ''/'' @
                               path_Join [uint_str streamID, streamVersion] @ ''/playlist.m3u8''))) d
              in case ffmpeg e (stream_args globalOpts inputOpts outputOpts input
                                  (time_sub streamEnd (now e)) liveRecDir) of
                   Some err \<Rightarrow> (Some (Plain err), d)
                 | None \<Rightarrow>
                     if streamEnd > now_after e
                     then (Some (Plain ''ffmpeg terminated before stream end''), d)
                     else (None, d)))))))"

definition action_StreamEnd :: action_fun where
  "action_StreamEnd cfg e d =
     need (data_uint d ''streamID'') ''no stream id in context'' d (\<lambda>streamID.
     (None, notify (StreamEnd streamID) d))"

definition convert_args :: "string \<Rightarrow> string \<Rightarrow> string \<Rightarrow> string list" where
  "convert_args streamPath vodDir playlistName =
     go_split (''-i '' @ streamPath) '' '' @
     go_split (''-c copy -f hls -hls_time 20 -hls_playlist_type vod -hls_flags append_list -hls_segment_filename '' @
               path_Join [vodDir, ''%05d.ts''] @ '' '' @ path_Join [vodDir, playlistName]) '' ''"

definition action_MkVOD :: action_fun where
  "action_MkVOD cfg e d =
     need (data_uint d ''streamID'') ''no stream id in context'' d (\<lambda>streamID.
     need (data_string d ''streamVersion'') ''no stream version in context'' d (\<lambda>streamVersion.
     need (data_string d ''recordingDir'') ''no recordingDir in context'' d (\<lambda>recordingDir.
     let vodDir = path_Join [cfg_StoragePath cfg, uint_str streamID, streamVersion] in
     case mkdir e vodDir of
       Some err \<Rightarrow> (abort (''create VOD directory: '' @ err), d)
     | None \<Rightarrow>
       (case ffmpeg e (convert_args (path_Join [recordingDir, ''playlist.m3u8'']) vodDir ''playlist.m3u8'') of
          Some err \<Rightarrow> (abort (''convert stream: ffmpeg failed: '' @ err), d)
        | None \<Rightarrow>
          (let d = set_data ''vodPath'' (DString (path_Join [vodDir, ''playlist.m3u8''])) d in
           case url_join cfg [cfg_EdgeServer cfg, ''vod'', uint_str streamID, streamVersion, ''playlist.m3u8''] of
             Inl err \<Rightarrow> (Some (Plain (''join vod url: '' @ err)), d)
           | Inr vodUrl \<Rightarrow>
               (None, notify (VodReady streamID (Some (version_value streamVersion)) vodUrl) d))))))"

text \<open>\<^verbatim>\<open>vodFromEventPlst\<close> on the lines of a playlist (unused by the actions, but tested).\<close>

definition vod_line :: "string \<Rightarrow> string" where
  "vod_line line =
     (if contains line ''#EXT-X-PLAYLIST-TYPE:EVENT'' then ''#EXT-X-PLAYLIST-TYPE:VOD'' else line)"

definition vodFromEventPlst :: "string list \<Rightarrow> string" where
  "vodFromEventPlst scanned =
     (let lines = map vod_line scanned in
      join (if ''#EXT-X-ENDLIST'' \<in> set lines then lines else lines @ [''#EXT-X-ENDLIST'']) [CHR 0x0A])"

definition durationTolerance :: rat where
  "durationTolerance = 10"

text \<open>The comparison of recording and video; it leaves \<open>vodHealthy\<close> in the data.\<close>

definition compare_durations ::
    "attempt \<Rightarrow> string \<Rightarrow> string \<Rightarrow> action_error + duration" where
  "compare_durations e recording vod =
     (case probe e recording of
        Inl err \<Rightarrow> Inl (AbortingError (Plain (''probe livestream: '' @ err)))
      | Inr liveDuration \<Rightarrow>
        (case probe e vod of
           Inl err \<Rightarrow> Inl (AbortingError (Plain (''probe vod: '' @ err)))
         | Inr vodDuration \<Rightarrow>
             if \<bar>liveDuration - vodDuration\<bar> > durationTolerance
             then Inl (AbortingError (Plain ''livestream duration and recording duration diverge by more than 10 s''))
             else Inr (round_half_even liveDuration * Second)))"

definition checkVoD :: "attempt \<Rightarrow> job \<Rightarrow> (action_error + duration) \<times> job" where
  "checkVoD e d =
     (case (data_uint d ''streamID'', data_string d ''streamVersion'',
            data_string d ''recordingDir'', data_string d ''vodPath'') of
        (None, _) \<Rightarrow> (Inl (AbortingError (Plain ''no stream id in context'')), d)
      | (_, None, _) \<Rightarrow> (Inl (AbortingError (Plain ''no stream version in context'')), d)
      | (_, _, None, _) \<Rightarrow> (Inl (AbortingError (Plain ''no recordingDir in context'')), d)
      | (_, _, _, None) \<Rightarrow> (Inl (AbortingError (Plain ''no vodPath in context'')), d)
      | (_, _, Some recordingDir, Some vod) \<Rightarrow>
          (let res = compare_durations e (path_Join [recordingDir, ''playlist.m3u8'']) vod
           in (res, set_data ''vodHealthy'' (DBool (\<not> isl res)) d)))"

definition writeManagementFile :: "attempt \<Rightarrow> string \<Rightarrow> string \<Rightarrow> job \<Rightarrow> action_error option \<times> job" where
  "writeManagementFile e recordingDir filename d =
     (let f = path_Join [recordingDir, filename] in
      case create_file e f of
        Some err \<Rightarrow> (abort err, d)
      | None \<Rightarrow> (None, d\<lparr>files := files d @ [f]\<rparr>))"

definition action_CheckVoD :: action_fun where
  "action_CheckVoD cfg e d =
     (let (res, d) = checkVoD e d in
      need (data_string d ''recordingDir'') ''missing recordingDir'' d (\<lambda>recordingDir.
      let (err, prefix, duration) =
            (case res of Inl err \<Rightarrow> (Some err, ''.keep-'', 2 * Hour) | Inr dur \<Rightarrow> (None, ''.del-'', dur));
          filename = prefix @ itoa ((now e + duration) div Second);
          (werr, d) = writeManagementFile e recordingDir filename d
      in (errors_Join err werr, d)))"

definition action_MkThumb :: action_fun where
  "action_MkThumb cfg e d =
     need (data_uint d ''streamID'') ''no stream id in context'' d (\<lambda>streamID.
     need (data_string d ''streamVersion'') ''no stream version in context'' d (\<lambda>streamVersion.
     need (data_string d ''recordingDir'') ''no recordingDir in context'' d (\<lambda>recordingDir.
     case thumbnail e (recordingDir @ ''/playlist.m3u8'') of
       Inl err \<Rightarrow> (abort (''error creating thumbnail: '' @ err), d)
     | Inr thumb \<Rightarrow> (None, notify (ThumbnailReady streamID (version_value streamVersion) thumb) d))))"

subsection \<open>The loop over the actions\<close>

fun run_action ::
    "(attempt \<Rightarrow> job \<Rightarrow> action_error option \<times> job) \<Rightarrow> attempt list \<Rightarrow> job \<Rightarrow> (job \<times> attempt list) option" where
  "run_action a [] d = None"
| "run_action a (e # es) d =
     (let (err, d) = a e d in
      case err of
        None \<Rightarrow> Some (d, es)
      | Some x \<Rightarrow> if IsAbortingError x then Some (d, es) else run_action a es d)"

fun run_actions ::
    "(attempt \<Rightarrow> job \<Rightarrow> action_error option \<times> job) list \<Rightarrow> attempt list \<Rightarrow> job \<Rightarrow> (job \<times> attempt list) option" where
  "run_actions [] es d = Some (d, es)"
| "run_actions (a # as) es d =
     (case run_action a es d of None \<Rightarrow> None | Some (d, es) \<Rightarrow> run_actions as es d)"

record job_request = StreamRequest +
  FfmpegGlobalOptions :: string
  FfmpegInputOptions :: string

definition request_data :: "job_request \<Rightarrow> string \<rightharpoonup> dval" where
  "request_data req =
     [''streamID'' \<mapsto> DUint (sr_StreamId req), ''streamVersion'' \<mapsto> DString (version_string (sr_Version req)),
      ''streamEnd'' \<mapsto> DTime (sr_End req), ''globalOpts'' \<mapsto> DString (FfmpegGlobalOptions req),
      ''inputOpts'' \<mapsto> DString (FfmpegInputOptions req), ''outputOpts'' \<mapsto> DString (FfmpegOutputOptions req),
      ''input'' \<mapsto> DString (Input req)]"

definition stream_actions :: "runner_config \<Rightarrow> (attempt \<Rightarrow> job \<Rightarrow> action_error option \<times> job) list" where
  "stream_actions cfg =
     [action_Stream cfg, action_StreamEnd cfg, action_MkVOD cfg, action_CheckVoD cfg, action_MkThumb cfg]"

definition stream_job :: "runner_config \<Rightarrow> job_request \<Rightarrow> attempt list \<Rightarrow> (job \<times> attempt list) option" where
  "stream_job cfg req es =
     run_actions (stream_actions cfg) es \<lparr>jdata = request_data req, sent = [], files = []\<rparr>"

subsection \<open>The table of jobs\<close>

record runner_state =
  r_draining :: bool
  r_jobs :: "(string \<times> bool) list"

text \<open>A job is listed with whether it was cancelled, from its start to its end.\<close>

definition start_job :: "string \<Rightarrow> runner_state \<Rightarrow> runner_state" where
  "start_job i r = r\<lparr>r_jobs := AList.update i False (r_jobs r)\<rparr>"

definition finish_job :: "string \<Rightarrow> runner_state \<Rightarrow> runner_state" where
  "finish_job i r = r\<lparr>r_jobs := AList.delete i (r_jobs r)\<rparr>"

definition RequestStreamEnd :: "string \<Rightarrow> runner_state \<Rightarrow> string option \<times> runner_state" where
  "RequestStreamEnd i r =
     (if map_of (r_jobs r) i \<noteq> None then (None, r\<lparr>r_jobs := AList.update i True (r_jobs r)\<rparr>)
      else (Some ''stream not found'', r))"

definition heartbeat_note :: "runner_config \<Rightarrow> runner_state \<Rightarrow> notification" where
  "heartbeat_note cfg r = Heartbeat (cfg_Hostname cfg) (r_draining r) (word_of_nat (length (r_jobs r)))"

definition Drain :: "runner_config \<Rightarrow> runner_state \<Rightarrow> runner_state \<times> notification" where
  "Drain cfg r = (r\<lparr>r_draining := True\<rparr>, Heartbeat (cfg_Hostname cfg) True 0)"

definition Cleanup :: "runner_state \<Rightarrow> runner_state" where
  "Cleanup r = r\<lparr>r_jobs := map (\<lambda>(i, c). (i, True)) (r_jobs r)\<rparr>"

subsection \<open>The data of a job\<close>

lemma data_notify [simp]:
  "data_uint (notify n d) k = data_uint d k" "data_string (notify n d) k = data_string d k"
  "data_time (notify n d) k = data_time d k" "sent (notify n d) = sent d @ [n]" "files (notify n d) = files d"
  by (simp_all add: data_uint_def data_string_def data_time_def notify_def)

lemma data_set_data [simp]:
  "sent (set_data k v d) = sent d" "files (set_data k v d) = files d"
  "data_string (set_data k (DString s) d) k' = (if k' = k then Some s else data_string d k')"
  "k' \<noteq> k \<Longrightarrow> data_string (set_data k v d) k' = data_string d k'"
  "k' \<noteq> k \<Longrightarrow> data_uint (set_data k v d) k' = data_uint d k'"
  "k' \<noteq> k \<Longrightarrow> data_time (set_data k v d) k' = data_time d k'"
  by (simp_all add: data_uint_def data_string_def data_time_def set_data_def)

lemma data_files [simp]:
  "data_uint (d\<lparr>files := f\<rparr>) k = data_uint d k" "data_string (d\<lparr>files := f\<rparr>) k = data_string d k"
  "data_time (d\<lparr>files := f\<rparr>) k = data_time d k"
  by (simp_all add: data_uint_def data_string_def data_time_def)

lemma version_value_string [simp]: "version_value (version_string v) = v"
  by (cases v) (simp_all add: version_value_def)

lemma need_simps [simp]: "need None msg d f = (abort msg, d)" "need (Some v) msg d f = f v"
  by (simp_all add: need_def)

lemma aborting_simps [simp]: "abort msg \<noteq> None" "abort msg = Some x \<longleftrightarrow> x = AbortingError (Plain msg)"
  by (auto simp: abort_def)

text \<open>The data of the request, which no action changes.\<close>

definition has_request :: "job_request \<Rightarrow> job \<Rightarrow> bool" where
  "has_request req d \<longleftrightarrow>
     data_uint d ''streamID'' = Some (sr_StreamId req) \<and>
     data_string d ''streamVersion'' = Some (version_string (sr_Version req)) \<and>
     data_time d ''streamEnd'' = Some (sr_End req) \<and> data_string d ''input'' = Some (Input req)"

definition start_note :: "runner_config \<Rightarrow> job_request \<Rightarrow> notification" where
  "start_note cfg req = StreamStart (sr_StreamId req) (sr_Version req)
     (Some (cfg_EdgeServer cfg @ ''/'' @ cfg_Hostname cfg @ ''/'' @
            path_Join [uint_str (sr_StreamId req), version_string (sr_Version req)] @ ''/playlist.m3u8''))"

lemma initial_job:
  "has_request req \<lparr>jdata = request_data req, sent = [], files = []\<rparr>"
  "data_string \<lparr>jdata = request_data req, sent = [], files = []\<rparr> ''recordingDir'' = None"
  by (simp_all add: has_request_def request_data_def data_uint_def data_string_def data_time_def)

lemma has_request_keeps [simp]:
  "has_request req (notify n d) = has_request req d"
  "k \<in> {''recordingDir'', ''vodPath'', ''vodHealthy''} \<Longrightarrow> has_request req (set_data k v d) = has_request req d"
  "has_request req (d\<lparr>files := f\<rparr>) = has_request req d"
  by (auto simp: has_request_def)

subsection \<open>What each action does\<close>

definition finished :: "action_error option \<Rightarrow> bool" where
  "finished err \<longleftrightarrow> (case err of None \<Rightarrow> True | Some x \<Rightarrow> IsAbortingError x)"

lemma finished_simps [simp]: "finished None" "finished (abort msg)" "finished (Some x) = IsAbortingError x"
  by (simp_all add: finished_def abort_def)

lemma Stream_eq:
  assumes "has_request req d"
  shows "\<exists>args. action_Stream cfg e d =
     (if cancelled e then (abort ''context canceled'', d)
      else if sr_End req < now e then (None, d)
      else let dir = path_Join [cfg_SegmentPath cfg, uint_str (sr_StreamId req), version_string (sr_Version req)] in
        case mkdir e dir of
          Some err \<Rightarrow> (abort err, d)
        | None \<Rightarrow> (let d = notify (start_note cfg req) (set_data ''recordingDir'' (DString dir) d)
                  in case ffmpeg e args of
                       Some err \<Rightarrow> (Some (Plain err), d)
                     | None \<Rightarrow> if sr_End req > now_after e
                               then (Some (Plain ''ffmpeg terminated before stream end''), d) else (None, d)))"
proof -
  have r: "data_uint d ''streamID'' = Some (sr_StreamId req)"
    "data_string d ''streamVersion'' = Some (version_string (sr_Version req))"
    "data_time d ''streamEnd'' = Some (sr_End req)" "data_string d ''input'' = Some (Input req)"
    using assms by (simp_all add: has_request_def)
  show ?thesis
    unfolding action_Stream_def Let_def r need_simps version_value_string start_note_def
    by (rule exI, rule refl)
qed

lemma Stream_outcome:
  assumes "has_request req d"
  shows "action_Stream cfg e d = (err, d') \<Longrightarrow>
     has_request req d' \<and> files d' = files d \<and> (cancelled e \<or> sr_End req < now e \<longrightarrow> finished err \<and> d' = d) \<and>
     (d' = d \<or> sent d' = sent d @ [start_note cfg req])"
  using Stream_eq [OF assms, of cfg e] assms by (auto simp: Let_def split: if_splits option.splits)

lemma StreamEnd_outcome:
  "has_request req d \<Longrightarrow> action_StreamEnd cfg e d = (None, notify (StreamEnd (sr_StreamId req)) d)"
  by (simp add: action_StreamEnd_def has_request_def)

definition vod_address :: "runner_config \<Rightarrow> job_request \<Rightarrow> string list" where
  "vod_address cfg req =
     [cfg_EdgeServer cfg, ''vod'', uint_str (sr_StreamId req), version_string (sr_Version req), ''playlist.m3u8'']"

lemma MkVOD_outcome:
  assumes "has_request req d"
  shows "action_MkVOD cfg e d = (err, d') \<Longrightarrow>
     has_request req d' \<and> files d' = files d \<and> data_string d' ''recordingDir'' = data_string d ''recordingDir'' \<and>
     (sent d' = sent d \<or> err = None \<and> data_string d ''recordingDir'' \<noteq> None \<and>
        (\<exists>url. sent d' = sent d @ [VodReady (sr_StreamId req) (Some (sr_Version req)) url])) \<and>
     (\<not> isl (url_join cfg (vod_address cfg req)) \<longrightarrow> finished err)"
  using assms
  by (cases "data_string d ''recordingDir''")
     (auto simp: action_MkVOD_def Let_def has_request_def vod_address_def split: option.splits sum.splits)

lemma MkThumb_outcome:
  assumes "has_request req d"
  shows "action_MkThumb cfg e d = (err, d') \<Longrightarrow> finished err \<and> files d' = files d \<and>
     (sent d' = sent d \<or> data_string d ''recordingDir'' \<noteq> None \<and>
        (\<exists>t. sent d' = sent d @ [ThumbnailReady (sr_StreamId req) (sr_Version req) t]))"
  using assms
  by (cases "data_string d ''recordingDir''")
     (auto simp: action_MkThumb_def Let_def has_request_def split: option.splits sum.splits)

lemma finished_Join: "finished a \<Longrightarrow> finished b \<Longrightarrow> finished (errors_Join a b)"
  by (cases a; cases b) (auto simp: finished_def)

lemma compare_durations_error: "compare_durations e r v = Inl x \<Longrightarrow> IsAbortingError x"
  by (auto simp: compare_durations_def split: sum.splits if_splits)

lemma checkVoD_outcome:
  "checkVoD e d = (res, d') \<Longrightarrow>
     (\<forall>x. res = Inl x \<longrightarrow> IsAbortingError x) \<and> sent d' = sent d \<and> files d' = files d \<and>
     data_string d' ''recordingDir'' = data_string d ''recordingDir'' \<and>
     (\<forall>req. has_request req d' = has_request req d)"
  by (auto simp: checkVoD_def Let_def compare_durations_error split: option.splits)

lemma writeManagementFile_outcome:
  "writeManagementFile e r f d = (err, d') \<Longrightarrow>
     finished err \<and> sent d' = sent d \<and> data_string d' k = data_string d k \<and>
     has_request req d' = has_request req d \<and>
     files d' = (if create_file e (path_Join [r, f]) = None then files d @ [path_Join [r, f]] else files d)"
  by (auto simp: writeManagementFile_def Let_def split: option.splits)

lemma CheckVoD_outcome:
  assumes "action_CheckVoD cfg e d = (err, d')"
  shows "finished err \<and> sent d' = sent d \<and> data_string d' ''recordingDir'' = data_string d ''recordingDir'' \<and>
     (\<forall>req. has_request req d \<longrightarrow> has_request req d')"
proof -
  obtain res d1 where c: "checkVoD e d = (res, d1)" by (cases "checkVoD e d")
  note c1 = checkVoD_outcome [OF c]
  show ?thesis
  proof (cases "data_string d1 ''recordingDir''")
    case None
    with assms c c1 show ?thesis by (auto simp: action_CheckVoD_def)
  next
    case (Some r)
    define err1 where "err1 = (case res of Inl x \<Rightarrow> Some x | Inr _ \<Rightarrow> None)"
    obtain f werr where w: "writeManagementFile e r f d1 = (werr, d')" "err = errors_Join err1 werr"
      using assms Some c by (cases res) (auto simp: action_CheckVoD_def err1_def Let_def split: prod.splits)
    have "finished err1" using c1 by (simp add: err1_def split: sum.split)
    with w(2) finished_Join writeManagementFile_outcome [OF w(1)] have "finished err" by blast
    with c1 writeManagementFile_outcome [OF w(1)] show ?thesis by simp
  qed
qed

subsection \<open>Repeating an action\<close>

lemma run_action_once:
  "a e d = (err, d') \<Longrightarrow> finished err \<Longrightarrow> run_action a (e # es) d = Some (d', es)"
  by (simp add: finished_def split: option.splits)

lemma run_action_cases:
  assumes "run_action a es d = Some (d', es')" and "P d"
    and step: "\<And>e d err d'. P d \<Longrightarrow> a e d = (err, d') \<Longrightarrow> \<not> finished err \<Longrightarrow> P d'"
  shows "\<exists>e d0 err. P d0 \<and> a e d0 = (err, d') \<and> finished err"
  using assms(1,2)
proof (induction es arbitrary: d)
  case Nil
  then show ?case by simp
next
  case (Cons e es)
  obtain err d1 where r: "a e d = (err, d1)" by (cases "a e d")
  show ?case
  proof (cases "finished err")
    case True
    with Cons.prems r run_action_once [of a e d err d1 es] show ?thesis by auto
  next
    case False
    with Cons.prems(1) r have "run_action a es d1 = Some (d', es')"
      by (simp add: finished_def split: option.splits if_splits)
    with Cons.IH step [OF Cons.prems(2) r False] show ?thesis by blast
  qed
qed

lemma run_action_ends:
  assumes "i < length es" and "P d"
    and stop: "\<And>d err d'. P d \<Longrightarrow> a (es ! i) d = (err, d') \<Longrightarrow> finished err"
    and step: "\<And>e d err d'. P d \<Longrightarrow> a e d = (err, d') \<Longrightarrow> P d'"
  shows "\<exists>d' n. n \<le> Suc i \<and> run_action a es d = Some (d', drop n es) \<and> P d'"
  using assms(1,2) stop
proof (induction es arbitrary: d i)
  case Nil
  then show ?case by simp
next
  case (Cons e es)
  obtain err d1 where r: "a e d = (err, d1)" by (cases "a e d")
  then have p: "P d1" using step Cons.prems(2) by blast
  show ?case
  proof (cases "finished err")
    case True
    then show ?thesis using run_action_once [of a e d err d1 es] r True p by (intro exI [of _ d1] exI [of _ 1]) simp
  next
    case False
    then have "i \<noteq> 0" using Cons.prems(2) Cons.prems(3) [of d err d1] r by (intro notI) simp
    then obtain k where k: "i = Suc k" by (cases i) auto
    from Cons.IH [of k d1] Cons.prems p k
    obtain d' n where "n \<le> Suc k" "run_action a es d1 = Some (d', drop n es)" "P d'" by auto
    with r False k show ?thesis
      by (intro exI [of _ d'] exI [of _ "Suc n"]) (auto simp: finished_def split: option.splits)
  qed
qed

subsection \<open>Properties\<close>

text \<open>The messages of a finished job, as a shape.\<close>

definition job_messages :: "runner_config \<Rightarrow> job_request \<Rightarrow> notification list \<Rightarrow> bool" where
  "job_messages cfg req ns \<longleftrightarrow>
     (\<exists>n vod thumb.
        ns = replicate n (start_note cfg req) @ [StreamEnd (sr_StreamId req)] @ vod @ thumb \<and>
        (vod = [] \<or> n > 0 \<and> (\<exists>url. vod = [VodReady (sr_StreamId req) (Some (sr_Version req)) url])) \<and>
        (thumb = [] \<or> n > 0 \<and> (\<exists>t. thumb = [ThumbnailReady (sr_StreamId req) (sr_Version req) t])))"

lemma run_Stream:
  assumes "run_action (action_Stream cfg) es d = Some (d', es')" and "has_request req d"
    and "sent d = []" and "data_string d ''recordingDir'' = None"
  shows "has_request req d' \<and> (\<exists>n. sent d' = replicate n (start_note cfg req) \<and>
     (n = 0 \<longrightarrow> data_string d' ''recordingDir'' = None))"
proof -
  define P where "P d \<longleftrightarrow> has_request req d \<and> (\<exists>n. sent d = replicate n (start_note cfg req) \<and>
     (n = 0 \<longrightarrow> data_string d ''recordingDir'' = None))" for d
  have step: "P d2" if "P d1" "action_Stream cfg e d1 = (err, d2)" for e d1 err d2
  proof -
    from that(1) obtain n where n: "has_request req d1" "sent d1 = replicate n (start_note cfg req)"
      "n = 0 \<longrightarrow> data_string d1 ''recordingDir'' = None" by (auto simp: P_def)
    from Stream_outcome [OF n(1) that(2)] consider
      "d2 = d1" | "has_request req d2" "sent d2 = replicate (Suc n) (start_note cfg req)"
      using n(2) by (auto simp: replicate_append_same)
    then show ?thesis using that(1) by cases (auto simp: P_def intro: exI [of _ "Suc n"])
  qed
  have "P d" using assms(2-4) by (auto simp: P_def intro: exI [of _ 0])
  then have "P d'" using run_action_cases [where P = P, OF assms(1)] step by blast
  then show ?thesis by (simp add: P_def)
qed

lemma run_MkVOD:
  assumes "run_action (action_MkVOD cfg) es d = Some (d', es')" and "has_request req d"
  shows "has_request req d' \<and> data_string d' ''recordingDir'' = data_string d ''recordingDir'' \<and>
     (sent d' = sent d \<or> data_string d ''recordingDir'' \<noteq> None \<and>
        (\<exists>url. sent d' = sent d @ [VodReady (sr_StreamId req) (Some (sr_Version req)) url]))"
proof -
  define P where "P d1 \<longleftrightarrow> has_request req d1 \<and> sent d1 = sent d \<and>
    data_string d1 ''recordingDir'' = data_string d ''recordingDir''" for d1
  have "P d2" if "P d1" "action_MkVOD cfg e d1 = (err, d2)" "\<not> finished err" for e d1 err d2
    using that MkVOD_outcome [of req d1 cfg e err d2] by (auto simp: P_def)
  moreover have "P d" using assms(2) by (simp add: P_def)
  ultimately obtain e d0 err where "P d0" "action_MkVOD cfg e d0 = (err, d')"
    using run_action_cases [where P = P, OF assms(1)] by blast
  then show ?thesis using MkVOD_outcome [of req d0 cfg e err d'] by (auto simp: P_def)
qed

lemma run_finished:
  assumes "run_action a es d = Some (d', es')" and "\<And>e d err d'. a e d = (err, d') \<Longrightarrow> finished err"
  shows "\<exists>e err. a e d = (err, d')"
proof -
  have "\<exists>e d0 err. d0 = d \<and> a e d0 = (err, d') \<and> finished err"
    by (rule run_action_cases [where P = "\<lambda>d1. d1 = d", OF assms(1)]) (auto dest: assms(2))
  then show ?thesis by auto
qed

text \<open>A job that ends has sent its messages in order: one start per attempt to stream, exactly one
  end, and then, only if streaming had been started, at most one finished video and one thumbnail,
  all for the stream and version of the request; and no message makes the manager panic.\<close>

lemma job_message_order:
  assumes "stream_job cfg req es = Some (d, es')"
  shows "job_messages cfg req (sent d) \<and>
     (\<forall>n \<in> set (sent d). \<forall>dao out t (m :: 'db manager). \<not> panics (Notify dao out t n m))"
proof -
  let ?start = "\<lparr>jdata = request_data req, sent = [], files = []\<rparr>"
  from assms obtain d1 e1 d2 e2 d3 e3 d4 e4 where r:
    "run_action (action_Stream cfg) es ?start = Some (d1, e1)"
    "run_action (action_StreamEnd cfg) e1 d1 = Some (d2, e2)"
    "run_action (action_MkVOD cfg) e2 d2 = Some (d3, e3)"
    "run_action (action_CheckVoD cfg) e3 d3 = Some (d4, e4)"
    "run_action (action_MkThumb cfg) e4 d4 = Some (d, es')"
    by (auto simp: stream_job_def stream_actions_def split: option.splits)
  from run_Stream [OF r(1) initial_job(1) _ initial_job(2)] obtain n where s1: "has_request req d1"
    "sent d1 = replicate n (start_note cfg req)" "n = 0 \<longrightarrow> data_string d1 ''recordingDir'' = None" by auto
  have s2: "d2 = notify (StreamEnd (sr_StreamId req)) d1"
    using r(2) StreamEnd_outcome [OF s1(1)] by (cases e1) auto
  from run_MkVOD [OF r(3), of req] s1 s2 have s3: "has_request req d3"
    "data_string d3 ''recordingDir'' = data_string d1 ''recordingDir''"
    "sent d3 = sent d2 \<or> n > 0 \<and> (\<exists>url. sent d3 = sent d2 @ [VodReady (sr_StreamId req) (Some (sr_Version req)) url])"
    by auto
  from run_finished [OF r(4)] CheckVoD_outcome [of cfg] obtain e err where
    "action_CheckVoD cfg e d3 = (err, d4)" by blast
  with CheckVoD_outcome [OF this] s3 have s4: "has_request req d4" "sent d4 = sent d3"
    "data_string d4 ''recordingDir'' = data_string d1 ''recordingDir''" by auto
  define P where "P d1 \<longleftrightarrow> d1 = d4" for d1
  obtain e err where "action_MkThumb cfg e d4 = (err, d)"
    using run_action_cases [where P = P, OF r(5)] MkThumb_outcome s4(1) by (auto simp: P_def)
  from MkThumb_outcome [OF s4(1) this] s4 s1(3) have s5: "sent d = sent d3 \<or>
      n > 0 \<and> (\<exists>t. sent d = sent d3 @ [ThumbnailReady (sr_StreamId req) (sr_Version req) t])"
    by (cases "n = 0") auto
  from s3(3) obtain vod where vod: "sent d3 = sent d2 @ vod"
    "vod = [] \<or> n > 0 \<and> (\<exists>url. vod = [VodReady (sr_StreamId req) (Some (sr_Version req)) url])" by auto
  from s5 obtain thumb where thumb: "sent d = sent d3 @ thumb"
    "thumb = [] \<or> n > 0 \<and> (\<exists>t. thumb = [ThumbnailReady (sr_StreamId req) (sr_Version req) t])" by auto
  have "sent d = replicate n (start_note cfg req) @ [StreamEnd (sr_StreamId req)] @ vod @ thumb"
    using vod(1) thumb(1) s2 s1(2) by simp
  with vod(2) thumb(2) have msgs: "job_messages cfg req (sent d)" unfolding job_messages_def by blast
  have "\<not> panics (Notify dao out t n' m)" if "n' \<in> set (sent d)" for n' dao out t and m :: "'db manager"
    using that msgs
    by (auto simp: job_messages_def start_note_def streamStarted_def handleVODReady_def Let_def panics_bind
             split: sum.splits version.splits prod.splits if_splits)
  with msgs show ?thesis by blast
qed

definition demo_config :: runner_config where
  "demo_config = \<lparr>cfg_SegmentPath = ''live'', cfg_StoragePath = ''mass'', cfg_EdgeServer = ''http://edge'',
     cfg_Hostname = ''r1'', url_join = \<lambda>p. Inr ''u''\<rparr>"

definition demo_request :: job_request where
  "demo_request = \<lparr>sr_StreamId = 17, sr_Version = STREAM_VERSION_CAMERA, sr_End = 100,
     FfmpegOutputOptions = ''-c:a copy'', Input = ''rtsp://10.0.0.1'', FfmpegGlobalOptions = [],
     FfmpegInputOptions = []\<rparr>"

text \<open>An attempt at time \<open>t\<close> whose ffmpeg runs until \<open>t'\<close>.\<close>

definition demo_attempt :: "gotime \<Rightarrow> gotime \<Rightarrow> attempt" where
  "demo_attempt t t' = \<lparr>cancelled = False, now = t, now_after = t', mkdir = \<lambda>p. None, ffmpeg = \<lambda>a. None,
     probe = \<lambda>p. Inr 3600, thumbnail = \<lambda>p. Inr ''t'', create_file = \<lambda>p. None\<rparr>"

lemma run_at:
  assumes "k < length es" and "a (es ! k) d = (err, d')" and "finished err"
  shows "run_action a (drop k es) d = Some (d', drop (Suc k) es)"
proof -
  have "drop k es = es ! k # drop (Suc k) es" using assms(1) by (simp add: Cons_nth_drop_Suc)
  with run_action_once [of a "es ! k" d err d' "drop (Suc k) es"] assms(2,3) show ?thesis by metis
qed

lemma stream_job_returns:
  assumes "i + 5 \<le> length es" and "cancelled (es ! i) \<or> sr_End req < now (es ! i)"
    and "\<not> isl (url_join cfg (vod_address cfg req))"
  shows "\<exists>d n. n \<le> i + 5 \<and> stream_job cfg req es = Some (d, drop n es)"
proof -
  let ?start = "\<lparr>jdata = request_data req, sent = [], files = []\<rparr>"
  have "\<exists>d1 k. k \<le> Suc i \<and> run_action (action_Stream cfg) es ?start = Some (d1, drop k es) \<and> has_request req d1"
    by (rule run_action_ends [where P = "has_request req"])
       (use assms(1,2) initial_job(1) Stream_outcome in \<open>auto dest: Stream_outcome\<close>)
  then obtain d1 k where 1: "k \<le> Suc i" "run_action (action_Stream cfg) es ?start = Some (d1, drop k es)"
    "has_request req d1" by blast
  have len: "k + 3 < length es" using 1(1) assms(1) by linarith
  let ?ended = "notify (StreamEnd (sr_StreamId req)) d1"
  have 2: "run_action (action_StreamEnd cfg) (drop k es) d1 = Some (?ended, drop (Suc k) es)"
    by (rule run_at) (use len StreamEnd_outcome [OF 1(3)] in auto)
  obtain err3 d3 where v: "action_MkVOD cfg (es ! Suc k) ?ended = (err3, d3)"
    by (cases "action_MkVOD cfg (es ! Suc k) ?ended")
  have mk: "has_request req d3" "finished err3"
    using MkVOD_outcome [OF _ v, of req] 1(3) assms(3) len by simp_all
  have 3: "run_action (action_MkVOD cfg) (drop (Suc k) es) ?ended = Some (d3, drop (Suc (Suc k)) es)"
    by (rule run_at [where err = err3]) (use len v mk(2) in simp_all)
  obtain err4 d4 where c: "action_CheckVoD cfg (es ! Suc (Suc k)) d3 = (err4, d4)"
    by (cases "action_CheckVoD cfg (es ! Suc (Suc k)) d3")
  note ck = CheckVoD_outcome [OF c]
  have 4: "run_action (action_CheckVoD cfg) (drop (Suc (Suc k)) es) d3 = Some (d4, drop (Suc (Suc (Suc k))) es)"
    by (rule run_at [where err = err4]) (use len c ck in simp_all)
  obtain err5 d5 where t: "action_MkThumb cfg (es ! Suc (Suc (Suc k))) d4 = (err5, d5)"
    by (cases "action_MkThumb cfg (es ! Suc (Suc (Suc k))) d4")
  have 5: "run_action (action_MkThumb cfg) (drop (Suc (Suc (Suc k))) es) d4 = Some (d5, drop (Suc (Suc (Suc (Suc k)))) es)"
    by (rule run_at [where err = err5]) (use len t MkThumb_outcome [OF _ t, of req] ck mk in simp_all)
  have "stream_job cfg req es = Some (d5, drop (k + 4) es)"
    by (simp add: stream_job_def stream_actions_def 1(2) 2 3 4 5 add.commute [of k] numeral_eq_Suc)
  then show ?thesis using 1(1) by (intro exI [of _ d5] exI [of _ "k + 4"]) simp
qed

text \<open>The other outcome: an error that does not abort, in every attempt.\<close>

lemma run_action_never:
  assumes "P d" and "\<And>e d. e \<in> set es \<Longrightarrow> P d \<Longrightarrow> \<exists>err d'. a e d = (err, d') \<and> \<not> finished err \<and> P d'"
  shows "run_action a es d = None"
  using assms
proof (induction es arbitrary: d)
  case Nil
  then show ?case by simp
next
  case (Cons e es)
  then obtain err d' where r: "a e d = (err, d')" "\<not> finished err" "P d'" by (metis list.set_intros(1))
  then have "run_action a es d' = None" using Cons by simp
  with r show ?case by (auto simp: finished_def split: option.splits)
qed

lemma run_action_suffix: "run_action a es d = Some (d', es') \<Longrightarrow> set es' \<subseteq> set es"
  by (induction es arbitrary: d) (auto simp: Let_def split: prod.splits option.splits if_splits)

definition recording_dir :: "runner_config \<Rightarrow> job_request \<Rightarrow> string" where
  "recording_dir cfg req = path_Join [cfg_SegmentPath cfg, uint_str (sr_StreamId req), version_string (sr_Version req)]"

text \<open>An attempt that starts the recording, and one that converts it.\<close>

definition records :: "runner_config \<Rightarrow> job_request \<Rightarrow> attempt \<Rightarrow> bool" where
  "records cfg req e \<longleftrightarrow> \<not> cancelled e \<and> now e \<le> sr_End req \<and> mkdir e (recording_dir cfg req) = None"

definition converts :: "runner_config \<Rightarrow> job_request \<Rightarrow> attempt \<Rightarrow> bool" where
  "converts cfg req e \<longleftrightarrow>
     (let vodDir = path_Join [cfg_StoragePath cfg, uint_str (sr_StreamId req), version_string (sr_Version req)] in
      mkdir e vodDir = None \<and>
      ffmpeg e (convert_args (path_Join [recording_dir cfg req, ''playlist.m3u8'']) vodDir ''playlist.m3u8'') = None)"

definition recorded :: "runner_config \<Rightarrow> job_request \<Rightarrow> job \<Rightarrow> bool" where
  "recorded cfg req d \<longleftrightarrow> has_request req d \<and> data_string d ''recordingDir'' = Some (recording_dir cfg req)"

lemma Stream_recorded:
  assumes "has_request req d" and "action_Stream cfg e d = (err, d')" and "recorded cfg req d \<or> records cfg req e"
  shows "recorded cfg req d'"
proof -
  obtain args where eq: "action_Stream cfg e d =
     (if cancelled e then (abort ''context canceled'', d)
      else if sr_End req < now e then (None, d)
      else case mkdir e (recording_dir cfg req) of
          Some err \<Rightarrow> (abort err, d)
        | None \<Rightarrow> (let d = notify (start_note cfg req) (set_data ''recordingDir'' (DString (recording_dir cfg req)) d)
                  in case ffmpeg e args of
                       Some err \<Rightarrow> (Some (Plain err), d)
                     | None \<Rightarrow> if sr_End req > now_after e
                               then (Some (Plain ''ffmpeg terminated before stream end''), d) else (None, d)))"
    using Stream_eq [OF assms(1), of cfg e] unfolding recording_dir_def [symmetric] Let_def by blast
  have "recorded cfg req d \<or> records cfg req e \<Longrightarrow>
      recorded cfg req (snd (action_Stream cfg e d))"
    using assms(1) unfolding eq by (auto simp: recorded_def records_def Let_def split: option.split)
  with assms(2,3) show ?thesis by simp
qed

lemma run_Stream_recorded:
  assumes "run_action (action_Stream cfg) (e # es) d = Some (d', es')" and "has_request req d" and "records cfg req e"
  shows "recorded cfg req d'"
proof -
  obtain err d1 where s: "action_Stream cfg e d = (err, d1)" by fastforce
  then have r: "recorded cfg req d1" using Stream_recorded assms(2,3) by blast
  show ?thesis
  proof (cases "finished err")
    case True
    with assms(1) run_action_once [of "action_Stream cfg", OF s True] r show ?thesis by simp
  next
    case False
    then have "run_action (action_Stream cfg) es d1 = Some (d', es')"
      using assms(1) s by (auto simp: finished_def split: option.splits if_splits)
    then obtain e' d0 err' where "recorded cfg req d0" "action_Stream cfg e' d0 = (err', d')"
      using run_action_cases [of "action_Stream cfg" es d1 d' es' "recorded cfg req"] r
      by (meson Stream_recorded recorded_def)
    then show ?thesis using Stream_recorded by (meson recorded_def)
  qed
qed

lemma MkVOD_repeats:
  assumes "isl (url_join cfg (vod_address cfg req))" and "converts cfg req e" and "recorded cfg req d"
  shows "\<exists>err d'. action_MkVOD cfg e d = (err, d') \<and> \<not> finished err \<and> recorded cfg req d'"
  using assms
  by (auto simp: action_MkVOD_def recorded_def has_request_def converts_def vod_address_def Let_def isl_def split: sum.split)

lemma stream_job_repeats:
  assumes "isl (url_join cfg (vod_address cfg req))" and "es \<noteq> []" and "records cfg req (es ! 0)"
    and "\<forall>e \<in> set es. converts cfg req e"
  shows "stream_job cfg req es = None"
proof -
  let ?start = "\<lparr>jdata = request_data req, sent = [], files = []\<rparr>"
  obtain e0 rest where es: "es = e0 # rest" using assms(2) by (cases es) auto
  show ?thesis
  proof (cases "run_action (action_Stream cfg) es ?start")
    case None
    then show ?thesis by (simp add: stream_job_def stream_actions_def)
  next
    case (Some r1)
    then obtain d1 es1 where 1: "run_action (action_Stream cfg) es ?start = Some (d1, es1)" by (cases r1) auto
    then have d1: "recorded cfg req d1"
      using run_Stream_recorded [of cfg e0 rest ?start d1 es1 req] initial_job(1) assms(3) es by simp
    show ?thesis
    proof (cases es1)
      case Nil
      then show ?thesis by (simp add: stream_job_def stream_actions_def 1)
    next
      case (Cons e es2)
      let ?ended = "notify (StreamEnd (sr_StreamId req)) d1"
      have 2: "run_action (action_StreamEnd cfg) es1 d1 = Some (?ended, es2)"
        using Cons d1 StreamEnd_outcome run_action_once [of "action_StreamEnd cfg" e d1 None ?ended es2]
        by (simp add: recorded_def)
      have "set es2 \<subseteq> set es" using run_action_suffix [OF 1] Cons by auto
      then have "run_action (action_MkVOD cfg) es2 ?ended = None"
        using MkVOD_repeats [OF assms(1)] assms(4) d1
        by (intro run_action_never [where P = "recorded cfg req"]) (auto simp: recorded_def)
      then show ?thesis by (simp add: stream_job_def stream_actions_def 1 2)
    qed
  qed
qed

text \<open>C18: the loop of a job is over after at most four attempts beyond the first one that runs after the end of the
  stream or after the job was cancelled, whatever ffmpeg, ffprobe and the file system do, if the address of the
  video can be joined to that of the edge server. If it cannot (the configured address is no URL), a job that
  starts recording and whose conversions succeed never ends: it converts the recording again in every attempt.\<close>

theorem job_ends:
  assumes "i + 5 \<le> length es" and "cancelled (es ! i) \<or> sr_End req < now (es ! i)"
  shows "(\<not> isl (url_join cfg (vod_address cfg req)) \<longrightarrow>
       (\<exists>d n. n \<le> i + 5 \<and> stream_job cfg req es = Some (d, drop n es))) \<and>
     (isl (url_join cfg (vod_address cfg req)) \<and> records cfg req (es ! 0) \<and> (\<forall>e \<in> set es. converts cfg req e) \<longrightarrow>
       stream_job cfg req es = None)"
proof -
  have "es \<noteq> []" using assms(1) by auto
  then show ?thesis using stream_job_returns [OF assms] stream_job_repeats [of cfg req es] by blast
qed

theorem job_ends_witness:
  "(\<exists>d n. n \<le> 6 \<and> stream_job demo_config demo_request
     (demo_attempt 50 60 # replicate 5 (demo_attempt 101 102)) = Some (d, drop n (demo_attempt 50 60 # replicate 5 (demo_attempt 101 102)))) \<and>
   stream_job (demo_config\<lparr>cfg_EdgeServer := ''10.0.0.1:80'', url_join := \<lambda>p. Inl ''parse''\<rparr>) demo_request
     (demo_attempt 50 60 # replicate 5 (demo_attempt 101 102)) = None"
  using job_ends [of 1 "demo_attempt 50 60 # replicate 5 (demo_attempt 101 102)" demo_request demo_config]
    job_ends [of 1 "demo_attempt 50 60 # replicate 5 (demo_attempt 101 102)" demo_request
      "demo_config\<lparr>cfg_EdgeServer := ''10.0.0.1:80'', url_join := \<lambda>p. Inl ''parse''\<rparr>"]
  by (simp add: demo_attempt_def demo_request_def demo_config_def records_def converts_def Let_def)

text \<open>A job that is cancelled before its first attempt still runs every action, although the error
  of the first one is aborting: it tells the manager that the stream has ended.\<close>

lemma cancelled_job:
  assumes "5 \<le> length es" and "cancelled (es ! 0)"
  shows "\<exists>d. stream_job cfg req es = Some (d, drop 5 es) \<and> sent d = [StreamEnd (sr_StreamId req)] \<and> files d = []"
proof -
  let ?start = "\<lparr>jdata = request_data req, sent = [], files = []\<rparr>"
  let ?d = "notify (StreamEnd (sr_StreamId req)) ?start"
  have req: "has_request req ?d" "data_string ?d ''recordingDir'' = None" using initial_job [of req] by simp_all
  have d: "data_uint ?d ''streamID'' = Some (sr_StreamId req)"
    "data_string ?d ''streamVersion'' = Some (version_string (sr_Version req))"
    using req(1) by (simp_all add: has_request_def)
  have "run_action (action_Stream cfg) (drop 0 es) ?start = Some (?start, drop (Suc 0) es)"
    by (rule run_at [where err = "abort ''context canceled''"]) (use assms in \<open>auto simp: action_Stream_def\<close>)
  moreover have "run_action (action_StreamEnd cfg) (drop (Suc 0) es) ?start = Some (?d, drop (Suc (Suc 0)) es)"
    by (rule run_at [where err = None])
       (use assms(1) StreamEnd_outcome [OF initial_job(1) [of req], of cfg "es ! Suc 0"] in simp_all)
  moreover have "run_action (action_MkVOD cfg) (drop (Suc (Suc 0)) es) ?d = Some (?d, drop (Suc (Suc (Suc 0))) es)"
    by (rule run_at [where err = "abort ''no recordingDir in context''"])
       (use assms(1) d req(2) in \<open>auto simp: action_MkVOD_def\<close>)
  moreover have "run_action (action_CheckVoD cfg) (drop (Suc (Suc (Suc 0))) es) ?d = Some (?d, drop (Suc (Suc (Suc (Suc 0)))) es)"
    by (rule run_at [where err = "abort ''missing recordingDir''"])
       (use assms(1) d req(2) in \<open>auto simp: action_CheckVoD_def checkVoD_def\<close>)
  moreover have "run_action (action_MkThumb cfg) (drop (Suc (Suc (Suc (Suc 0)))) es) ?d = Some (?d, drop (Suc (Suc (Suc (Suc (Suc 0))))) es)"
    by (rule run_at [where err = "abort ''no recordingDir in context''"])
       (use assms(1) d req(2) in \<open>auto simp: action_MkThumb_def\<close>)
  ultimately have "stream_job cfg req es = Some (?d, drop 5 es)"
    by (simp add: stream_job_def stream_actions_def numeral_eq_Suc del: drop_Suc)
  then show ?thesis by simp
qed

lemma cancelled_job_witness:
  "\<exists>d. stream_job demo_config demo_request (replicate 5 ((demo_attempt 50 60)\<lparr>cancelled := True\<rparr>)) = Some (d, []) \<and>
     sent d = [StreamEnd 17] \<and> files d = []"
  using cancelled_job [of "replicate 5 ((demo_attempt 50 60)\<lparr>cancelled := True\<rparr>)" demo_config demo_request]
  by (simp add: demo_request_def)

lemma job_message_order_witness:
  "\<exists>d es'. stream_job demo_config demo_request (replicate 5 (demo_attempt 150 160)) = Some (d, es') \<and>
     job_messages demo_config demo_request (sent d)"
proof -
  let ?es = "replicate 5 (demo_attempt 150 160)"
  have "\<exists>d n. n \<le> 0 + 5 \<and> stream_job demo_config demo_request ?es = Some (d, drop n ?es)"
    by (rule stream_job_returns) (simp_all add: demo_attempt_def demo_request_def demo_config_def)
  then obtain d es' where "stream_job demo_config demo_request ?es = Some (d, es')" by blast
  with job_message_order [OF this, where 'db = unit] show ?thesis by blast
qed

text \<open>A recording is marked for deletion only if ffprobe measured it and the finished video and the two
  durations differ by at most 10 seconds; in every other case the file that is left marks it as to be
  kept, and the action has an error.\<close>

lemma deleted_only_if_healthy:
  assumes "action_CheckVoD cfg e d = (err, d')" and "data_string d ''recordingDir'' = Some dir"
  shows "files d' = files d \<or>
     (\<exists>vod l v. data_string d ''vodPath'' = Some vod \<and> probe e (path_Join [dir, ''playlist.m3u8'']) = Inr l \<and>
        probe e vod = Inr v \<and> \<bar>l - v\<bar> \<le> 10 \<and> err = None \<and>
        files d' = files d @ [path_Join [dir, ''.del-'' @ itoa ((now e + round_half_even l * Second) div Second)]]) \<or>
     (err \<noteq> None \<and> files d' = files d @ [path_Join [dir, ''.keep-'' @ itoa ((now e + 2 * Hour) div Second)]])"
proof -
  obtain res d1 where c: "checkVoD e d = (res, d1)" by (cases "checkVoD e d")
  note c1 = checkVoD_outcome [OF c]
  have dir: "data_string d1 ''recordingDir'' = Some dir" using c1 assms(2) by simp
  show ?thesis
  proof (cases res)
    case (Inl x)
    define f where "f = ''.keep-'' @ itoa ((now e + 2 * Hour) div Second)"
    obtain werr where w: "writeManagementFile e dir f d1 = (werr, d')" "err = errors_Join (Some x) werr"
      using assms(1) dir c Inl by (auto simp: action_CheckVoD_def Let_def f_def split: prod.splits)
    have "err \<noteq> None" using w(2) by (cases werr) auto
    with writeManagementFile_outcome [OF w(1)] c1 show ?thesis by (auto simp: f_def)
  next
    case (Inr dur)
    define f where "f = ''.del-'' @ itoa ((now e + dur) div Second)"
    obtain werr where w: "writeManagementFile e dir f d1 = (werr, d')" "err = werr"
      using assms(1) dir c Inr by (auto simp: action_CheckVoD_def Let_def f_def split: prod.splits)
    obtain vod where v: "data_string d ''vodPath'' = Some vod"
      "compare_durations e (path_Join [dir, ''playlist.m3u8'']) vod = Inr dur"
      using c Inr assms(2) by (auto simp: checkVoD_def Let_def split: option.splits)
    from v(2) obtain l v' where "probe e (path_Join [dir, ''playlist.m3u8'']) = Inr l" "probe e vod = Inr v'"
      "\<bar>l - v'\<bar> \<le> 10" "dur = round_half_even l * Second"
      by (auto simp: compare_durations_def durationTolerance_def not_less split: sum.splits if_splits)
    moreover have "files d' \<noteq> files d \<Longrightarrow> err = None"
      using w writeManagementFile_outcome [OF w(1)] c1 by (auto simp: writeManagementFile_def Let_def split: option.splits)
    ultimately show ?thesis using writeManagementFile_outcome [OF w(1)] c1 v(1) by (auto simp: f_def)
  qed
qed

lemma deleted_only_if_healthy_witness:
  "\<exists>err d'. action_CheckVoD demo_config (demo_attempt 50 60)
      \<lparr>jdata = [''recordingDir'' \<mapsto> DString ''live''], sent = [], files = []\<rparr> = (err, d') \<and>
     (files d' = [] \<or> err \<noteq> None)"
proof -
  let ?d = "\<lparr>jdata = [''recordingDir'' \<mapsto> DString ''live''], sent = [], files = []\<rparr>"
  obtain err d' where r: "action_CheckVoD demo_config (demo_attempt 50 60) ?d = (err, d')"
    by (cases "action_CheckVoD demo_config (demo_attempt 50 60) ?d")
  have "data_string ?d ''recordingDir'' = Some ''live''" "data_string ?d ''vodPath'' = None"
    by (simp_all add: data_string_def)
  with deleted_only_if_healthy [OF r] r show ?thesis by auto
qed

end
