(* ===== verification/Worker_Silence.thy ===== *)
theory Worker_Silence
  imports Model_Types
begin

text \<open>
  \<^verbatim>\<open>src/worker/worker/silence.go\<close>: the output of ffmpeg's silence filter is parsed into a list of
  silences, and silences that are separated by less than 30 seconds of sound are merged. The list
  is sent by \<^verbatim>\<open>notifySilenceResults\<close> (\<^verbatim>\<open>notify.go\<close>) and received by \<^verbatim>\<open>NotifySilenceResults\<close>
  (\<^verbatim>\<open>api/worker_grpc.go\<close>). Times are whole seconds in 64-bit words, so the difference of two of them
  wraps. \<open>pf\<close> is \<^verbatim>\<open>strconv.ParseFloat\<close> on the numbers ffmpeg prints.
\<close>

subsection \<open>Parsing\<close>

record wsilence =
  ws_Start :: uint
  ws_End :: uint

datatype parsed = ParseError | Stopped | Parsed "wsilence list"

definition to_seconds :: "rat \<Rightarrow> uint" where
  "to_seconds r = word_of_int (if r < 0 then - \<lfloor>- r\<rfloor> else \<lfloor>r\<rfloor>)"

definition set_last_end :: "uint \<Rightarrow> wsilence list \<Rightarrow> wsilence list" where
  "set_last_end e ss = butlast ss @ [(last ss)\<lparr>ws_End := e\<rparr>]"

text \<open>
  The loop over the lines. An end without a start stops the parser without an error and without a
  result (\<open>Stopped\<close>).
\<close>

fun parse_lines :: "(string \<Rightarrow> rat option) \<Rightarrow> string list \<Rightarrow> wsilence list \<Rightarrow> parsed outcome" where
  "parse_lines pf [] silences = Returns (Parsed silences)"
| "parse_lines pf (str # l) silences =
     (if contains str ''silence_start:'' then
        outcome_bind (slice_get (go_split str ''silence_start: '') 1) (\<lambda>num.
          case pf num of
            None \<Rightarrow> Returns ParseError
          | Some start \<Rightarrow> parse_lines pf l (silences @ [\<lparr>ws_Start = to_seconds start, ws_End = 0\<rparr>]))
      else if contains str ''silence_end:'' then
        outcome_bind (slice_get (go_split str ''silence_end: '') 1) (\<lambda>rest.
        outcome_bind (slice_get (go_split rest '' |'') 0) (\<lambda>num.
          case pf num of
            None \<Rightarrow> Returns ParseError
          | Some end_time \<Rightarrow>
              if silences = [] then Returns Stopped
              else parse_lines pf l (set_last_end (to_seconds end_time) silences)))
      else parse_lines pf l silences)"

subsection \<open>Merging\<close>

fun merge_step :: "wsilence list \<Rightarrow> wsilence list \<Rightarrow> wsilence list" where
  "merge_step newSilences [] = newSilences"
| "merge_step newSilences (s # oldSilences) =
     (if ws_Start s - ws_End (last newSilences) < 30
      then merge_step (set_last_end (ws_End s) newSilences) oldSilences
      else merge_step (newSilences @ [s]) oldSilences)"

definition postprocess :: "wsilence list \<Rightarrow> wsilence list" where
  "postprocess oldSilences =
     (if length oldSilences < 2 then oldSilences
      else
       (let first = hd oldSilences;
            first = (if ws_Start first < 30 then first\<lparr>ws_Start := 0\<rparr> else first)
        in merge_step [\<lparr>ws_Start = ws_Start first, ws_End = ws_Start first\<rparr>] (first # tl oldSilences)))"

text \<open>The detector: None where ffmpeg fails; the inner option is the pointer \<^verbatim>\<open>s.Silences\<close>.\<close>

definition ParseSilence ::
    "(string \<Rightarrow> rat option) \<Rightarrow> string option \<Rightarrow> (wsilence list option) option outcome" where
  "ParseSilence pf output =
     (case output of
        None \<Rightarrow> Returns None
      | Some out \<Rightarrow>
          outcome_bind (parse_lines pf (go_split out [CHR 0x0A]) []) (\<lambda>p.
            Returns (case p of ParseError \<Rightarrow> None | Stopped \<Rightarrow> Some None
                     | Parsed ss \<Rightarrow> Some (Some (postprocess ss)))))"

subsection \<open>Sending and receiving\<close>

definition silence_results :: "wsilence list \<Rightarrow> 32 word list \<times> 32 word list" where
  "silence_results ss = (map (\<lambda>s. ucast (ws_Start s)) ss, map (\<lambda>s. ucast (ws_End s)) ss)"

definition received_silence :: "32 word \<Rightarrow> 32 word \<Rightarrow> uint \<Rightarrow> Silence" where
  "received_silence start end_time i =
     \<lparr>ID = 0, CreatedAt = zero_time, UpdatedAt = zero_time, DeletedAt = None,
      silence_Start = ucast start, silence_End = ucast end_time, silence_StreamID = i\<rparr>"

fun received :: "32 word list \<Rightarrow> 32 word list \<Rightarrow> uint \<Rightarrow> Silence list outcome" where
  "received [] ends i = Returns []"
| "received (s # starts) [] i = Panics IndexOutOfRange"
| "received (s # starts) (e # ends) i =
     outcome_bind (received starts ends i) (\<lambda>r. Returns (received_silence s e i # r))"

subsection \<open>What the merged list covers\<close>

text \<open>
  The contract of the merging: the second \<open>t\<close> lies in a silence of the list, in a bridged gap
  (shorter than 30 seconds, between two neighbours); the silences of a result are 30 seconds apart.
\<close>

definition inside :: "wsilence \<Rightarrow> nat \<Rightarrow> bool" where
  "inside s t \<longleftrightarrow> unat (ws_Start s) \<le> t \<and> t \<le> unat (ws_End s)"

definition covers :: "wsilence list \<Rightarrow> nat \<Rightarrow> bool" where
  "covers ss t \<longleftrightarrow> list_ex (\<lambda>s. inside s t) ss"

fun in_order :: "wsilence list \<Rightarrow> bool" where
  "in_order [] = True"
| "in_order [s] = (ws_Start s \<le> ws_End s)"
| "in_order (s # s' # ss) = (ws_Start s \<le> ws_End s \<and> ws_End s \<le> ws_Start s' \<and> in_order (s' # ss))"

fun bridged :: "wsilence list \<Rightarrow> nat \<Rightarrow> bool" where
  "bridged (s # s' # ss) t =
     ((unat (ws_Start s') < unat (ws_End s) + 30 \<and> unat (ws_End s) \<le> t \<and> t \<le> unat (ws_Start s')) \<or>
      bridged (s' # ss) t)"
| "bridged _ t = False"

fun apart :: "wsilence list \<Rightarrow> bool" where
  "apart (s # s' # ss) = (unat (ws_End s) + 30 \<le> unat (ws_Start s') \<and> apart (s' # ss))"
| "apart _ = True"

text \<open>The loop without the accumulated part of the list.\<close>

fun absorb :: "wsilence \<Rightarrow> wsilence list \<Rightarrow> wsilence list" where
  "absorb l [] = [l]"
| "absorb l (s # ss) =
     (if ws_Start s - ws_End l < 30 then absorb (l\<lparr>ws_End := ws_End s\<rparr>) ss else l # absorb s ss)"

lemma merge_step_absorb: "merge_step (front @ [l]) ss = front @ absorb l ss"
  by (induction ss arbitrary: front l)
     (simp_all add: set_last_end_def, metis append.assoc append_Cons append_Nil)

lemma gap_less_30:
  fixes a b :: uint
  assumes "a \<le> b"
  shows "b - a < 30 \<longleftrightarrow> unat b < unat a + 30"
proof -
  have "unat a \<le> unat b" using assms by (simp add: word_le_nat_alt)
  then show ?thesis using assms by (simp add: word_less_nat_alt unat_sub) linarith
qed

lemma absorb_head: "\<exists>e ss'. absorb l ss = l\<lparr>ws_End := e\<rparr> # ss'"
proof (induction ss arbitrary: l)
  case Nil
  show ?case by (rule exI [of _ "ws_End l"]) simp
next
  case (Cons s ss)
  show ?case
  proof (cases "ws_Start s - ws_End l < 30")
    case True
    with Cons.IH [of "l\<lparr>ws_End := ws_End s\<rparr>"] show ?thesis by auto
  next
    case False
    then show ?thesis by (auto intro: exI [of _ "ws_End l"])
  qed
qed

lemma apart_absorb: "in_order (l # ss) \<Longrightarrow> apart (absorb l ss)"
proof (induction ss arbitrary: l)
  case Nil
  then show ?case by simp
next
  case (Cons s ss)
  then have o: "ws_Start l \<le> ws_End l" "ws_End l \<le> ws_Start s" "in_order (s # ss)" by simp_all
  show ?case
  proof (cases "ws_Start s - ws_End l < 30")
    case True
    have "ws_Start s \<le> ws_End s" using o(3) by (cases ss) simp_all
    with o have "in_order (l\<lparr>ws_End := ws_End s\<rparr> # ss)" by (cases ss) auto
    from Cons.IH [OF this] True show ?thesis by simp
  next
    case False
    then have "unat (ws_End l) + 30 \<le> unat (ws_Start s)" using gap_less_30 [OF o(2)] by simp
    with Cons.IH [OF o(3)] absorb_head [of s ss] False show ?thesis by auto
  qed
qed

lemma covers_absorb:
  "in_order (l # ss) \<Longrightarrow> covers (absorb l ss) t \<longleftrightarrow> covers (l # ss) t \<or> bridged (l # ss) t"
proof (induction ss arbitrary: l)
  case Nil
  then show ?case by (simp add: covers_def)
next
  case (Cons s ss)
  then have o: "ws_Start l \<le> ws_End l" "ws_End l \<le> ws_Start s" "in_order (s # ss)" by simp_all
  have s: "ws_Start s \<le> ws_End s" using o(3) by (cases ss) simp_all
  note ord = o(1,2) s [unfolded word_le_nat_alt] o(1,2) [unfolded word_le_nat_alt]
  show ?case
  proof (cases "ws_Start s - ws_End l < 30")
    case True
    let ?l = "l\<lparr>ws_End := ws_End s\<rparr>"
    have "in_order (?l # ss)" using o s by (cases ss) auto
    note ih = Cons.IH [OF this]
    have "bridged (?l # ss) t \<longleftrightarrow> bridged (s # ss) t" by (cases ss) simp_all
    moreover have "unat (ws_Start s) < unat (ws_End l) + 30" using True gap_less_30 [OF o(2)] by simp
    ultimately show ?thesis using ih True ord by (auto simp: covers_def inside_def)
  next
    case False
    then have "\<not> unat (ws_Start s) < unat (ws_End l) + 30" using gap_less_30 [OF o(2)] by simp
    with Cons.IH [OF o(3)] False show ?thesis by (auto simp: covers_def)
  qed
qed

lemma postprocess_absorb:
  assumes "length ss \<ge> 2"
  shows "postprocess ss = absorb (if ws_Start (hd ss) < 30 then (hd ss)\<lparr>ws_Start := 0\<rparr> else hd ss) (tl ss)"
proof -
  have 1: "merge_step [\<lparr>ws_Start = ws_Start f, ws_End = ws_Start f\<rparr>] (f # fs) = absorb f fs" for f fs
  proof -
    have "absorb \<lparr>ws_Start = ws_Start f, ws_End = ws_End f\<rparr> fs = absorb f fs"
      by (rule arg_cong [where f = "\<lambda>x. absorb x fs"]) simp
    moreover have "merge_step [\<lparr>ws_Start = ws_Start f, ws_End = ws_Start f\<rparr>] (f # fs)
        = absorb \<lparr>ws_Start = ws_Start f, ws_End = ws_End f\<rparr> fs"
      using merge_step_absorb [of "[]" "\<lparr>ws_Start = ws_Start f, ws_End = ws_Start f\<rparr>" "f # fs"]
      by (simp del: merge_step.simps)
    ultimately show ?thesis by (rule trans [rotated])
  qed
  show ?thesis using assms by (simp add: postprocess_def Let_def 1 del: merge_step.simps)
qed

text \<open>C19: for any list of silences in order, the resulting list covers exactly what the list covers and the gaps shorter
  than 30 seconds between its silences, and, if there are at least two silences and the first begins within 30
  seconds, the start of the video; a single silence is left as it is, even one that begins after a second. The
  silences of the result are at least 30 seconds apart.\<close>

theorem merged_silences:
  assumes "in_order ss"
  shows "(covers (postprocess ss) t \<longleftrightarrow>
       covers ss t \<or> bridged ss t \<or>
       (length ss \<ge> 2 \<and> unat (ws_Start (hd ss)) < 30 \<and> t \<le> unat (ws_Start (hd ss)))) \<and>
     apart (postprocess ss)"
proof (cases "length ss \<ge> 2")
  case False
  then consider "ss = []" | s where "ss = [s]" by (cases ss; cases "tl ss") auto
  then show ?thesis by cases (simp_all add: postprocess_def)
next
  case True
  then obtain f s fs where ss: "ss = f # s # fs" by (cases ss; cases "tl ss") auto
  define f' where "f' = (if ws_Start f < 30 then f\<lparr>ws_Start := 0\<rparr> else f)"
  have o: "in_order (f' # s # fs)" using assms by (auto simp: ss f'_def)
  have fin: "unat (ws_Start f) \<le> unat (ws_End f)" using assms by (simp add: ss word_le_nat_alt)
  have "inside f' t \<longleftrightarrow> inside f t \<or> (unat (ws_Start f) < 30 \<and> t \<le> unat (ws_Start f))"
    using fin by (auto simp: inside_def f'_def word_less_nat_alt)
  moreover have "bridged (f' # s # fs) t \<longleftrightarrow> bridged ss t" by (simp add: ss f'_def)
  moreover have "postprocess ss = absorb f' (s # fs)"
    using postprocess_absorb [OF True] by (simp add: ss f'_def)
  ultimately show ?thesis
    using covers_absorb [OF o, of t] apart_absorb [OF o] by (auto simp: covers_def ss)
qed

definition demo_silences :: "wsilence list" where
  "demo_silences = [\<lparr>ws_Start = 5, ws_End = 60\<rparr>, \<lparr>ws_Start = 80, ws_End = 200\<rparr>, \<lparr>ws_Start = 600, ws_End = 640\<rparr>]"

theorem merged_silences_witness:
  "covers (postprocess demo_silences) 70 \<and> covers (postprocess demo_silences) 0 \<and>
   \<not> covers (postprocess demo_silences) 300 \<and>
   \<not> covers (postprocess [\<lparr>ws_Start = 5, ws_End = 60\<rparr>]) 0"
proof -
  have o: "in_order demo_silences" "in_order [\<lparr>ws_Start = 5, ws_End = 60\<rparr>]"
    by (simp_all add: demo_silences_def)
  show ?thesis
    using merged_silences [OF o(1), of 70] merged_silences [OF o(1), of 0] merged_silences [OF o(1), of 300]
      merged_silences [OF o(2), of 0]
    by (simp add: demo_silences_def covers_def inside_def)
qed

subsection \<open>From the worker to the server\<close>

lemma received_results:
  assumes "\<forall>s \<in> set ss. unat (ws_Start s) < 2 ^ 32 \<and> unat (ws_End s) < 2 ^ 32"
  shows "received (fst (silence_results ss)) (snd (silence_results ss)) i =
     Returns (map (\<lambda>s. \<lparr>ID = 0, CreatedAt = zero_time, UpdatedAt = zero_time, DeletedAt = None,
       silence_Start = ws_Start s, silence_End = ws_End s, silence_StreamID = i\<rparr>) ss)"
  using assms
proof (induction ss)
  case Nil
  then show ?case by (simp add: silence_results_def)
next
  case (Cons s ss)
  have rtrip: "ucast (ucast w :: 32 word) = w" if "unat w < 2 ^ 32" for w :: uint
    using that by (simp add: word_unat_eq_iff unsigned_ucast_eq unsigned_take_bit_eq take_bit_nat_eq_self)
  from Cons show ?case by (simp add: silence_results_def received_silence_def rtrip)
qed

end
