(* ===== verification/Dao_Streams.thy ===== *)
theory Dao_Streams
  imports Model_User
begin

text \<open>
  The part of \<^verbatim>\<open>src/dao\<close> that the worker interface uses, on explicit tables: \<^verbatim>\<open>streams.go\<close>,
  \<^verbatim>\<open>file.go\<close>, \<^verbatim>\<open>worker.go\<close>, \<^verbatim>\<open>ingest_server.go\<close>, \<^verbatim>\<open>upload_key.go\<close>,
  \<^verbatim>\<open>transcoding-failure.go\<close>. A table is the list of its rows by primary key; deleted rows stay with
  their \<open>DeletedAt\<close>, as gorm keeps them. A query that fails, fails with the error that \<open>fault\<close> gives
  its name and changes nothing. The documented behaviour of gorm that the code rests on is written
  out: \<open>Updates\<close> with a struct writes its non-zero fields only, has-many associations are inserted
  where their key is missing, queries of a model with \<open>DeletedAt\<close> skip deleted rows.

  A row of \<open>t_streams\<close> holds no files and no silences; they have tables of their own and are
  preloaded. \<open>Cache\<close> is kept for the two keys the streams use.
\<close>

subsection \<open>Rows and tables\<close>

record IngestServer = gorm_Model +
  Url :: string
  OutUrl :: string
  server_Workload :: int

text \<open>The column \<^verbatim>\<open>stream_id\<close> of a slot is NULL while the slot is free.\<close>

record StreamSlot = gorm_Model +
  slot_StreamName :: string
  IsTranscoding :: bool
  IngestServerID :: uint
  slot_StreamID :: "uint option"
  FreedAt :: gotime

record UploadKey = gorm_Model +
  upload_key :: string
  key_StreamID :: uint
  key_VideoType :: VideoType

record TranscodingFailure = gorm_Model +
  failure_StreamID :: uint
  failure_Version :: StreamVersion
  Logs :: string
  ExitCode :: int
  failure_FilePath :: string
  failure_Hostname :: string

record tables =
  t_streams :: "Stream list"
  t_files :: "File list"
  t_silences :: "Silence list"
  t_workers :: "Worker list"
  t_stream_workers :: "(uint \<times> string) list"
  t_transcoding :: "TranscodingProgress list"
  t_failures :: "TranscodingFailure list"
  t_courses :: "Course list"
  t_halls :: "LectureHall list"
  t_slots :: "StreamSlot list"
  t_upload_keys :: "UploadKey list"
  next_file :: uint
  next_silence :: uint
  next_failure :: uint
  stream_cache :: "uint \<rightharpoonup> Stream \<times> gotime"
  live_cache :: "(Stream list \<times> gotime) option"

text \<open>
  What surrounds a call: the time, the faults of the database, whether the cache admits an entry
  (it may drop any), and the answer to the first query of \<open>GetBestIngestServer\<close>, whose row for
  equal counts is up to the database.
\<close>

record db_env =
  clock :: gotime
  fault :: "string \<Rightarrow> string option"
  admits :: bool
  best_server :: "tables \<Rightarrow> IngestServer option"

definition not_found :: string where
  "not_found = ''record not found''"

definition live_row :: "'a gorm_Model_scheme \<Rightarrow> bool" where
  "live_row r \<longleftrightarrow> DeletedAt r = None"

definition row_query :: "db_env \<Rightarrow> string \<Rightarrow> 'r option \<Rightarrow> string + 'r" where
  "row_query e name r =
     (case fault e name of Some err \<Rightarrow> Inl err | None \<Rightarrow> (case r of None \<Rightarrow> Inl not_found | Some x \<Rightarrow> Inr x))"

definition exec :: "db_env \<Rightarrow> string \<Rightarrow> (tables \<Rightarrow> tables) \<Rightarrow> tables \<Rightarrow> string option \<times> tables" where
  "exec e name f t = (case fault e name of Some err \<Rightarrow> (Some err, t) | None \<Rightarrow> (None, f t))"

text \<open>\<^verbatim>\<open>NOW()\<close> of the database, in whole seconds.\<close>

definition db_now :: "db_env \<Rightarrow> gotime" where
  "db_now e = clock e div Second * Second"

definition clear_cache :: "tables \<Rightarrow> tables" where
  "clear_cache t = t\<lparr>stream_cache := Map.empty, live_cache := None\<rparr>"

subsection \<open>Reading streams\<close>

definition preload :: "tables \<Rightarrow> Stream \<Rightarrow> Stream" where
  "preload t s = s\<lparr>Files := filter (\<lambda>f. file_StreamID f = ID s \<and> live_row f) (t_files t),
                   Silences := filter (\<lambda>x. silence_StreamID x = ID s \<and> live_row x) (t_silences t)\<rparr>"

definition stream_row :: "tables \<Rightarrow> uint \<Rightarrow> Stream option" where
  "stream_row t i = List.find (\<lambda>s. ID s = i \<and> live_row s) (t_streams t)"

definition GetStreamByID :: "db_env \<Rightarrow> uint \<Rightarrow> tables \<Rightarrow> (string + Stream) \<times> tables" where
  "GetStreamByID e i t =
     (let q = map_sum id (preload t) (row_query e ''GetStreamByID'' (stream_row t i));
          fresh = (q, (case q of Inl err \<Rightarrow> t
                       | Inr s \<Rightarrow> t\<lparr>stream_cache := (stream_cache t)(i :=
                           if admits e then Some (s, clock e + 10 * Second) else None)\<rparr>))
      in case stream_cache t i of
           Some (s, expires) \<Rightarrow> if clock e \<le> expires then (Inr s, t) else fresh
         | None \<Rightarrow> fresh)"

definition GetStreamByKey :: "db_env \<Rightarrow> string \<Rightarrow> tables \<Rightarrow> string + Stream" where
  "GetStreamByKey e key t =
     row_query e ''GetStreamByKey'' (List.find (\<lambda>s. StreamKey s = key \<and> live_row s) (t_streams t))"

definition GetCurrentLive :: "db_env \<Rightarrow> tables \<Rightarrow> (string + Stream list) \<times> tables" where
  "GetCurrentLive e t =
     (let q = row_query e ''GetCurrentLive'' (Some (filter (\<lambda>s. LiveNow s \<and> live_row s) (t_streams t)));
          fresh = (q, (case q of Inl err \<Rightarrow> t
                       | Inr ss \<Rightarrow> t\<lparr>live_cache := (if admits e then Some (ss, clock e + Second) else None)\<rparr>))
      in case live_cache t of
           Some (ss, expires) \<Rightarrow> if clock e \<le> expires then (Inr ss, t) else fresh
         | None \<Rightarrow> fresh)"

definition GetLiveStreamsInLectureHall :: "db_env \<Rightarrow> uint \<Rightarrow> tables \<Rightarrow> string + Stream list" where
  "GetLiveStreamsInLectureHall e lh t =
     row_query e ''GetLiveStreamsInLectureHall''
       (Some (filter (\<lambda>s. LectureHallID s = lh \<and> LiveNow s \<and> live_row s) (t_streams t)))"

definition course_row :: "tables \<Rightarrow> uint \<Rightarrow> Course option" where
  "course_row t i = List.find (\<lambda>c. ID c = i \<and> live_row c) (t_courses t)"

text \<open>
  \<^verbatim>\<open>Find\<close> does not fail on a missing row: the result is the zero course. Its streams are not preloaded
  here, none of the callers reads them.
\<close>

definition zero_Course :: Course where
  "zero_Course =
     \<lparr>ID = 0, CreatedAt = zero_time, UpdatedAt = zero_time, DeletedAt = None, course_UserID = 0, course_Name = [],
      Slug = [], course_Year = 0, course_TeachingTerm = [], TUMOnlineIdentifier = [], VODEnabled = False,
      DownloadsEnabled = False, course_ChatEnabled = False, AnonymousChatEnabled = False,
      ModeratedChatEnabled = False, VodChatEnabled = False, Visibility = [], Streams = [], Users = [],
      Admins = [], course_Token = [], UserCreatedByToken = False, CameraPresetPreferences = None,
      SourcePreferences = None, Language = None, Pinned = False, LivePrivate = False, VodPrivate = False\<rparr>"

definition found_course :: "tables \<Rightarrow> uint \<Rightarrow> Course" where
  "found_course t i = (case course_row t i of None \<Rightarrow> zero_Course | Some c \<Rightarrow> c)"

definition GetCourseById :: "db_env \<Rightarrow> uint \<Rightarrow> tables \<Rightarrow> string + Course" where
  "GetCourseById e i t = row_query e ''GetCourseById'' (Some (found_course t i))"

definition GetLectureHallByID :: "db_env \<Rightarrow> uint \<Rightarrow> tables \<Rightarrow> string + LectureHall" where
  "GetLectureHallByID e i t =
     row_query e ''GetLectureHallByID'' (List.find (\<lambda>l. ID l = i \<and> live_row l) (t_halls t))"

text \<open>The conditions of the two queries for due streams, which differ in the kind of hall only.\<close>

definition due_in_hall :: "bool \<Rightarrow> db_env \<Rightarrow> tables \<Rightarrow> Stream \<Rightarrow> bool" where
  "due_in_hall legacy e t s \<longleftrightarrow>
     live_row s \<and> course_row t (CourseID s) \<noteq> None \<and>
     list_ex (\<lambda>l. ID l = LectureHallID s \<and> Legacy l = legacy) (t_halls t) \<and> LectureHallID s \<noteq> 0 \<and>
     db_now e \<le> Start s \<and> Start s \<le> db_now e + 10 * Minute \<and>
     \<not> LiveNow s \<and> \<not> Recording s \<and> \<not> Ended s"

definition GetDueStreamsForWorkers :: "db_env \<Rightarrow> tables \<Rightarrow> Stream list" where
  "GetDueStreamsForWorkers e t =
     (if fault e ''GetDueStreamsForWorkers'' = None then filter (due_in_hall True e t) (t_streams t) else [])"

definition GetDueStreamsForRunners :: "db_env \<Rightarrow> tables \<Rightarrow> string + Stream list" where
  "GetDueStreamsForRunners e t =
     row_query e ''GetDueStreamsForRunners'' (Some (filter (due_in_hall False e t) (t_streams t)))"

definition GetDuePremieresForWorkers :: "db_env \<Rightarrow> tables \<Rightarrow> Stream list" where
  "GetDuePremieresForWorkers e t =
     (if fault e ''GetDuePremieresForWorkers'' = None then
        map (\<lambda>s. s\<lparr>Files := filter (\<lambda>f. file_StreamID f = ID s \<and> live_row f) (t_files t)\<rparr>)
          (filter (\<lambda>s. live_row s \<and> Premiere s \<and> db_now e - 10 * Minute \<le> Start s \<and>
                       Start s \<le> db_now e + 5 * Second \<and> \<not> LiveNow s \<and> \<not> Recording s) (t_streams t))
      else [])"

subsection \<open>Writing streams\<close>

definition update_stream :: "uint \<Rightarrow> (Stream \<Rightarrow> Stream) \<Rightarrow> tables \<Rightarrow> tables" where
  "update_stream i f t = t\<lparr>t_streams := map (\<lambda>s. if ID s = i \<and> live_row s then f s else s) (t_streams t)\<rparr>"

definition SetStreamNotLiveById :: "db_env \<Rightarrow> uint \<Rightarrow> tables \<Rightarrow> string option \<times> tables" where
  "SetStreamNotLiveById e i t =
     apsnd clear_cache (exec e ''SetStreamNotLiveById''
       (\<lambda>t. t\<lparr>t_streams := map (\<lambda>s. if ID s = i then s\<lparr>LiveNow := False\<rparr> else s) (t_streams t)\<rparr>) t)"

definition SetStreamLiveNowTimestampById :: "db_env \<Rightarrow> uint \<Rightarrow> gotime \<Rightarrow> tables \<Rightarrow> string option \<times> tables" where
  "SetStreamLiveNowTimestampById e i ts t =
     apsnd clear_cache (exec e ''SetStreamLiveNowTimestampById''
       (update_stream i (\<lambda>s. s\<lparr>LiveNowTimestamp := ts, UpdatedAt := clock e\<rparr>)) t)"

definition SaveEndedState :: "db_env \<Rightarrow> uint \<Rightarrow> bool \<Rightarrow> tables \<Rightarrow> string option \<times> tables" where
  "SaveEndedState e i ended t =
     apsnd clear_cache (exec e ''SaveEndedState'' (update_stream i (\<lambda>s. s\<lparr>Ended := ended, UpdatedAt := clock e\<rparr>)) t)"

definition ToggleVisibility :: "db_env \<Rightarrow> uint \<Rightarrow> bool \<Rightarrow> tables \<Rightarrow> string option \<times> tables" where
  "ToggleVisibility e i private t =
     apsnd clear_cache (exec e ''ToggleVisibility'' (update_stream i (\<lambda>s. s\<lparr>Private := private, UpdatedAt := clock e\<rparr>)) t)"

text \<open>The three setters of a playlist address, whose errors the code drops.\<close>

definition save_url :: "db_env \<Rightarrow> string \<Rightarrow> (Stream \<Rightarrow> Stream) \<Rightarrow> Stream \<Rightarrow> tables \<Rightarrow> tables" where
  "save_url e name f s t =
     clear_cache (snd (exec e name
       (update_stream (ID s) (\<lambda>r. (f r)\<lparr>LiveNow := True, Recording := False, UpdatedAt := clock e\<rparr>)) (clear_cache t)))"

definition SaveCOMBURL :: "db_env \<Rightarrow> Stream \<Rightarrow> string \<Rightarrow> tables \<Rightarrow> tables" where
  "SaveCOMBURL e s url = save_url e ''SaveCOMBURL'' (\<lambda>r. r\<lparr>PlaylistUrl := url\<rparr>) s"

definition SaveCAMURL :: "db_env \<Rightarrow> Stream \<Rightarrow> string \<Rightarrow> tables \<Rightarrow> tables" where
  "SaveCAMURL e s url = save_url e ''SaveCAMURL'' (\<lambda>r. r\<lparr>PlaylistUrlCAM := url\<rparr>) s"

definition SavePRESURL :: "db_env \<Rightarrow> Stream \<Rightarrow> string \<Rightarrow> tables \<Rightarrow> tables" where
  "SavePRESURL e s url = save_url e ''SavePRESURL'' (\<lambda>r. r\<lparr>PlaylistUrlPRES := url\<rparr>) s"

text \<open>
  \<^verbatim>\<open>SaveStream\<close>: an \<open>Updates\<close> with a struct, so a field that is false, zero or empty in the
  given stream is not written. The files and silences of the stream are inserted where their key is
  missing; those with a known key are only linked to the stream.
\<close>

definition nz :: "'a \<Rightarrow> 'a \<Rightarrow> 'a \<Rightarrow> 'a" where
  "nz zero new old = (if new = zero then old else new)"

definition save_fields :: "gotime \<Rightarrow> Stream \<Rightarrow> Stream \<Rightarrow> Stream" where
  "save_fields now v r = r\<lparr>
     UpdatedAt := now,
     stream_Name := nz [] (stream_Name v) (stream_Name r),
     Description := nz [] (Description v) (Description r),
     CourseID := nz 0 (CourseID v) (CourseID r),
     LiveNowTimestamp := nz zero_time (LiveNowTimestamp v) (LiveNowTimestamp r),
     Start := nz zero_time (Start v) (Start r),
     End := nz zero_time (End v) (End r),
     RoomName := nz [] (RoomName v) (RoomName r),
     RoomCode := nz [] (RoomCode v) (RoomCode r),
     EventTypeName := nz [] (EventTypeName v) (EventTypeName r),
     PlaylistUrl := nz [] (PlaylistUrl v) (PlaylistUrl r),
     PlaylistUrlPRES := nz [] (PlaylistUrlPRES v) (PlaylistUrlPRES r),
     PlaylistUrlCAM := nz [] (PlaylistUrlCAM v) (PlaylistUrlCAM r),
     LiveNow := nz False (LiveNow v) (LiveNow r),
     Recording := nz False (Recording v) (Recording r),
     VodViews := nz 0 (VodViews v) (VodViews r),
     StartOffset := nz 0 (StartOffset v) (StartOffset r),
     EndOffset := nz 0 (EndOffset v) (EndOffset r),
     Duration := (let d = nz \<lparr>Int32 = 0, Valid = False\<rparr> (Duration v) (Duration r)
                  in if Valid d then d else \<lparr>Int32 = 0, Valid = False\<rparr>),
     ThumbInterval := nz 0 (ThumbInterval v) (ThumbInterval r),
     Private := nz False (Private v) (Private r),
     LectureHallID := nz 0 (LectureHallID v) (LectureHallID r),
     StreamKey := nz [] (StreamKey v) (StreamKey r)\<rparr>"

fun insert_rows ::
    "gotime \<Rightarrow> 'a gorm_Model_scheme list \<Rightarrow> 'a gorm_Model_scheme list \<times> uint \<Rightarrow> 'a gorm_Model_scheme list \<times> uint" where
  "insert_rows now [] (rows, k) = (rows, k)"
| "insert_rows now (x # xs) (rows, k) =
     (if ID x = 0 then insert_rows now xs (rows @ [x\<lparr>ID := k, CreatedAt := now, UpdatedAt := now\<rparr>], k + 1)
      else if list_ex (\<lambda>r. ID r = ID x) rows then insert_rows now xs (rows, k)
      else insert_rows now xs (rows @ [x], k))"

definition save_has_many ::
    "gotime \<Rightarrow> ('a gorm_Model_scheme \<Rightarrow> 'a gorm_Model_scheme) \<Rightarrow> 'a gorm_Model_scheme list \<Rightarrow>
     'a gorm_Model_scheme list \<times> uint \<Rightarrow> 'a gorm_Model_scheme list \<times> uint" where
  "save_has_many now link xs = (\<lambda>(rows, k).
     insert_rows now (map link xs) (map (\<lambda>r. if list_ex (\<lambda>x. ID x = ID r) xs then link r else r) rows, k))"

definition SaveStream :: "db_env \<Rightarrow> Stream \<Rightarrow> tables \<Rightarrow> string option \<times> tables" where
  "SaveStream e v t =
     apsnd clear_cache
      (if ID v = 0 then (Some ''WHERE conditions required'', t)
       else exec e ''SaveStream'' (\<lambda>t.
         let t = update_stream (ID v) (save_fields (clock e) v) t;
             (files, kf) = save_has_many (clock e) (\<lambda>f. f\<lparr>file_StreamID := ID v\<rparr>) (Files v) (t_files t, next_file t);
             (silences, ks) = save_has_many (clock e) (\<lambda>x. x\<lparr>silence_StreamID := ID v\<rparr>) (Silences v)
                                (t_silences t, next_silence t)
         in t\<lparr>t_files := files, next_file := kf, t_silences := silences, next_silence := ks\<rparr>) t)"

definition DeleteSilences :: "db_env \<Rightarrow> uint \<Rightarrow> tables \<Rightarrow> string option \<times> tables" where
  "DeleteSilences e i t =
     exec e ''DeleteSilences'' (\<lambda>t. t\<lparr>t_silences :=
       map (\<lambda>x. if silence_StreamID x = i \<and> live_row x then x\<lparr>DeletedAt := Some (clock e)\<rparr> else x) (t_silences t)\<rparr>) t"

definition UpdateSilences :: "db_env \<Rightarrow> Silence list \<Rightarrow> uint \<Rightarrow> tables \<Rightarrow> string option \<times> tables" where
  "UpdateSilences e xs i t =
     (let (err, t) = DeleteSilences e i t in
      if err \<noteq> None then (err, t)
      else exec e ''UpdateSilences'' (\<lambda>t.
             let (rows, k) = insert_rows (clock e) xs (t_silences t, next_silence t)
             in t\<lparr>t_silences := rows, next_silence := k\<rparr>) t)"

definition SaveTranscodingProgress :: "db_env \<Rightarrow> TranscodingProgress \<Rightarrow> tables \<Rightarrow> string option \<times> tables" where
  "SaveTranscodingProgress e p t =
     exec e ''SaveTranscodingProgress'' (\<lambda>t. t\<lparr>t_transcoding :=
       filter (\<lambda>q. \<not> (tp_StreamID q = tp_StreamID p \<and> tp_Version q = tp_Version p)) (t_transcoding t) @ [p]\<rparr>) t"

definition RemoveTranscodingProgress :: "db_env \<Rightarrow> StreamVersion \<Rightarrow> uint \<Rightarrow> tables \<Rightarrow> string option \<times> tables" where
  "RemoveTranscodingProgress e v i t =
     exec e ''RemoveTranscodingProgress'' (\<lambda>t. t\<lparr>t_transcoding :=
       filter (\<lambda>q. \<not> (tp_Version q = v \<and> tp_StreamID q = i)) (t_transcoding t)\<rparr>) t"

definition GetTranscodingProgressByVersion ::
    "db_env \<Rightarrow> StreamVersion \<Rightarrow> uint \<Rightarrow> tables \<Rightarrow> string + TranscodingProgress" where
  "GetTranscodingProgressByVersion e v i t =
     row_query e ''GetTranscodingProgressByVersion''
       (List.find (\<lambda>p. tp_Version p = v \<and> tp_StreamID p = i) (t_transcoding t))"

subsection \<open>Files, workers, ingest servers, upload keys\<close>

definition NewFile :: "db_env \<Rightarrow> File \<Rightarrow> tables \<Rightarrow> (string + uint) \<times> tables" where
  "NewFile e f t =
     (case fault e ''NewFile'' of
        Some err \<Rightarrow> (Inl err, t)
      | None \<Rightarrow> (let (rows, k) = insert_rows (clock e) [f] (t_files t, next_file t)
                  in (Inr (ID (last rows)), t\<lparr>t_files := rows, next_file := k\<rparr>)))"

text \<open>
  \<^verbatim>\<open>SetThumbnail\<close>: the old file of the type is deleted and the new one created. The deletion runs on
  \<^verbatim>\<open>DB\<close>, outside the transaction that the creation runs in, so it stays when the creation fails.
\<close>

definition SetThumbnail :: "db_env \<Rightarrow> uint \<Rightarrow> File \<Rightarrow> tables \<Rightarrow> string option \<times> tables" where
  "SetThumbnail e i thumb t =
     apsnd clear_cache
      (case exec e ''SetThumbnail'' (\<lambda>t. t\<lparr>t_files :=
              map (\<lambda>f. if file_StreamID f = i \<and> file_Type f = file_Type thumb \<and> live_row f
                       then f\<lparr>DeletedAt := Some (clock e)\<rparr> else f) (t_files t)\<rparr>) t of
         (Some err, t) \<Rightarrow> (Some err, t)
       | (None, t) \<Rightarrow> exec e ''CreateThumbnail'' (\<lambda>t.
           let (rows, k) = insert_rows (clock e) [thumb] (t_files t, next_file t)
           in t\<lparr>t_files := rows, next_file := k\<rparr>) t)"

definition GetThumbnail :: "db_env \<Rightarrow> uint \<Rightarrow> FileType \<Rightarrow> tables \<Rightarrow> string + File" where
  "GetThumbnail e i ty t =
     row_query e ''GetThumbnail'' (List.find (\<lambda>f. file_StreamID f = i \<and> file_Type f = ty \<and> live_row f) (t_files t))"

definition CreateWorker :: "db_env \<Rightarrow> Worker \<Rightarrow> tables \<Rightarrow> string option \<times> tables" where
  "CreateWorker e w t =
     (if list_ex (\<lambda>v. WorkerID v = WorkerID w) (t_workers t) then (Some ''duplicate key'', t)
      else exec e ''CreateWorker'' (\<lambda>t. t\<lparr>t_workers := t_workers t @ [w]\<rparr>) t)"

definition SaveWorker :: "db_env \<Rightarrow> Worker \<Rightarrow> tables \<Rightarrow> string option \<times> tables" where
  "SaveWorker e w t =
     exec e ''SaveWorker'' (\<lambda>t. t\<lparr>t_workers :=
       (if list_ex (\<lambda>v. WorkerID v = WorkerID w) (t_workers t)
        then map (\<lambda>v. if WorkerID v = WorkerID w then w else v) (t_workers t)
        else t_workers t @ [w])\<rparr>) t"

definition GetAliveWorkers :: "db_env \<Rightarrow> tables \<Rightarrow> Worker list" where
  "GetAliveWorkers e t =
     (if fault e ''GetAliveWorkers'' = None
      then filter (\<lambda>w. worker_LastSeen w > db_now e - 5 * Minute) (t_workers t) else [])"

definition GetWorkerByHostname :: "db_env \<Rightarrow> string \<Rightarrow> tables \<Rightarrow> string + Worker" where
  "GetWorkerByHostname e h t = row_query e ''GetWorkerByHostname'' (List.find (\<lambda>w. Host w = h) (t_workers t))"

definition GetWorkerByID :: "db_env \<Rightarrow> string \<Rightarrow> tables \<Rightarrow> string + Worker" where
  "GetWorkerByID e i t = row_query e ''GetWorkerByID'' (List.find (\<lambda>w. WorkerID w = i) (t_workers t))"

definition DeleteWorker :: "db_env \<Rightarrow> string \<Rightarrow> tables \<Rightarrow> string option \<times> tables" where
  "DeleteWorker e i t =
     exec e ''DeleteWorker'' (\<lambda>t. t\<lparr>t_workers := filter (\<lambda>w. WorkerID w \<noteq> i) (t_workers t)\<rparr>) t"

definition GetWorkersForStream :: "db_env \<Rightarrow> uint \<Rightarrow> tables \<Rightarrow> string + Worker list" where
  "GetWorkersForStream e i t =
     row_query e ''GetWorkersForStream'' (Some (filter (\<lambda>w. (i, WorkerID w) \<in> set (t_stream_workers t)) (t_workers t)))"

definition SaveWorkerForStream :: "db_env \<Rightarrow> uint \<Rightarrow> Worker \<Rightarrow> tables \<Rightarrow> string option \<times> tables" where
  "SaveWorkerForStream e i w t =
     apsnd clear_cache (exec e ''SaveWorkerForStream'' (\<lambda>t. t\<lparr>
       t_workers := (if list_ex (\<lambda>v. WorkerID v = WorkerID w) (t_workers t) then t_workers t else t_workers t @ [w]),
       t_stream_workers := List.insert (i, WorkerID w) (t_stream_workers t)\<rparr>) t)"

definition ClearWorkersForStream :: "db_env \<Rightarrow> uint \<Rightarrow> tables \<Rightarrow> string option \<times> tables" where
  "ClearWorkersForStream e i t =
     apsnd clear_cache (exec e ''ClearWorkersForStream''
       (\<lambda>t. t\<lparr>t_stream_workers := filter (\<lambda>p. fst p \<noteq> i) (t_stream_workers t)\<rparr>) t)"

definition GetBestIngestServer :: "db_env \<Rightarrow> tables \<Rightarrow> string + IngestServer" where
  "GetBestIngestServer e t = row_query e ''GetBestIngestServer'' (best_server e t)"

text \<open>The free slot of a server that was freed first, the first row among equals.\<close>

fun first_freed :: "StreamSlot list \<Rightarrow> StreamSlot option" where
  "first_freed [] = None"
| "first_freed (s # ss) =
     (case first_freed ss of None \<Rightarrow> Some s | Some s' \<Rightarrow> Some (if FreedAt s' < FreedAt s then s' else s))"

definition free_slots :: "bool \<Rightarrow> uint \<Rightarrow> tables \<Rightarrow> StreamSlot list" where
  "free_slots transcoding srv t =
     filter (\<lambda>s. IsTranscoding s = transcoding \<and> IngestServerID s = srv \<and> slot_StreamID s = None \<and> live_row s) (t_slots t)"

definition GetTranscodedStreamSlot :: "db_env \<Rightarrow> uint \<Rightarrow> tables \<Rightarrow> string + StreamSlot" where
  "GetTranscodedStreamSlot e srv t = row_query e ''GetTranscodedStreamSlot'' (first_freed (free_slots True srv t))"

definition GetStreamSlot :: "db_env \<Rightarrow> uint \<Rightarrow> tables \<Rightarrow> string + StreamSlot" where
  "GetStreamSlot e srv t = row_query e ''GetStreamSlot'' (first_freed (free_slots False srv t))"

definition SaveSlot :: "db_env \<Rightarrow> StreamSlot \<Rightarrow> tables \<Rightarrow> tables" where
  "SaveSlot e s t =
     snd (exec e ''SaveSlot'' (\<lambda>t. t\<lparr>t_slots := map (\<lambda>r. if ID r = ID s then s\<lparr>UpdatedAt := clock e\<rparr> else r) (t_slots t)\<rparr>) t)"

definition RemoveStreamFromSlot :: "db_env \<Rightarrow> uint \<Rightarrow> tables \<Rightarrow> string option \<times> tables" where
  "RemoveStreamFromSlot e i t =
     exec e ''RemoveStreamFromSlot'' (\<lambda>t. t\<lparr>t_slots :=
       map (\<lambda>r. if slot_StreamID r = Some i \<and> live_row r
                then r\<lparr>slot_StreamID := None, FreedAt := clock e, UpdatedAt := clock e\<rparr> else r) (t_slots t)\<rparr>) t"

text \<open>The key with its preloaded stream (the zero value if the stream is gone).\<close>

definition GetUploadKey :: "db_env \<Rightarrow> string \<Rightarrow> tables \<Rightarrow> string + UploadKey \<times> Stream" where
  "GetUploadKey e k t =
     map_sum id (\<lambda>u. (u, case stream_row t (key_StreamID u) of None \<Rightarrow> zero_Stream | Some s \<Rightarrow> s))
       (row_query e ''GetUploadKey'' (List.find (\<lambda>u. upload_key u = k \<and> live_row u) (t_upload_keys t)))"

definition DeleteUploadKey :: "db_env \<Rightarrow> UploadKey \<Rightarrow> tables \<Rightarrow> string option \<times> tables" where
  "DeleteUploadKey e u t =
     exec e ''DeleteUploadKey'' (\<lambda>t. t\<lparr>t_upload_keys := filter (\<lambda>v. ID v \<noteq> ID u) (t_upload_keys t)\<rparr>) t"

definition TranscodingFailure_New :: "db_env \<Rightarrow> TranscodingFailure \<Rightarrow> tables \<Rightarrow> string option \<times> tables" where
  "TranscodingFailure_New e f t =
     exec e ''New'' (\<lambda>t. let (rows, k) = insert_rows (clock e) [f] (t_failures t, next_failure t)
                         in t\<lparr>t_failures := rows, next_failure := k\<rparr>) t"

subsection \<open>Facts shared by the users of the tables\<close>

named_theorems dao_simps \<open>unfolding rules of the data access operations\<close>

declare exec_def [dao_simps] row_query_def [dao_simps] update_stream_def [dao_simps]
  SetStreamNotLiveById_def [dao_simps] SetStreamLiveNowTimestampById_def [dao_simps]
  SaveEndedState_def [dao_simps] ToggleVisibility_def [dao_simps] save_url_def [dao_simps]
  SaveCOMBURL_def [dao_simps] SaveCAMURL_def [dao_simps] SavePRESURL_def [dao_simps]
  DeleteSilences_def [dao_simps] RemoveTranscodingProgress_def [dao_simps]

lemma clear_cache_simps [simp]:
  "t_streams (clear_cache t) = t_streams t" "t_files (clear_cache t) = t_files t"
  "t_silences (clear_cache t) = t_silences t" "t_workers (clear_cache t) = t_workers t"
  "t_stream_workers (clear_cache t) = t_stream_workers t" "t_transcoding (clear_cache t) = t_transcoding t"
  "t_failures (clear_cache t) = t_failures t" "t_courses (clear_cache t) = t_courses t"
  "t_halls (clear_cache t) = t_halls t" "t_slots (clear_cache t) = t_slots t"
  "t_upload_keys (clear_cache t) = t_upload_keys t" "stream_cache (clear_cache t) = Map.empty"
  "live_cache (clear_cache t) = None" "clear_cache (clear_cache t) = clear_cache t"
  "next_file (clear_cache t) = next_file t" "next_silence (clear_cache t) = next_silence t"
  "next_failure (clear_cache t) = next_failure t"
  by (simp_all add: clear_cache_def)

text \<open>A cached stream is what a query would return.\<close>

definition cache_coherent :: "tables \<Rightarrow> bool" where
  "cache_coherent t \<longleftrightarrow>
     (\<forall>i s ex. stream_cache t i = Some (s, ex) \<longrightarrow> (\<exists>r. stream_row t i = Some r \<and> s = preload t r))"

lemma cache_coherent_clear [simp]: "cache_coherent (clear_cache t)"
  by (simp add: cache_coherent_def)

lemma stream_row_ID: "stream_row t i = Some s \<Longrightarrow> ID s = i \<and> live_row s \<and> s \<in> set (t_streams t)"
  unfolding stream_row_def by (auto dest: find_SomeD)

lemma GetStreamByID_tables:
  "snd (GetStreamByID e i t) = t\<lparr>stream_cache := stream_cache (snd (GetStreamByID e i t))\<rparr>"
  by (simp add: GetStreamByID_def Let_def split: option.split sum.split)

lemma stream_row_cong: "t_streams t = t_streams t' \<Longrightarrow> stream_row t i = stream_row t' i"
  by (simp add: stream_row_def)

lemma preload_cong:
  "t_files t = t_files t' \<Longrightarrow> t_silences t = t_silences t' \<Longrightarrow> preload t s = preload t' s"
  by (simp add: preload_def)

lemma cache_irrelevant [simp]:
  "stream_row (t\<lparr>stream_cache := c\<rparr>) i = stream_row t i" "preload (t\<lparr>stream_cache := c\<rparr>) s = preload t s"
  "stream_row (clear_cache t) i = stream_row t i" "preload (clear_cache t) s = preload t s"
  by (simp_all add: stream_row_def preload_def)

lemma GetStreamByID_coherent:
  assumes "cache_coherent t"
  shows "cache_coherent (snd (GetStreamByID e i t))"
    and "fst (GetStreamByID e i t) = Inr s \<Longrightarrow> \<exists>r. stream_row t i = Some r \<and> s = preload t r"
proof -
  show "cache_coherent (snd (GetStreamByID e i t))"
    using assms
    by (auto simp: cache_coherent_def GetStreamByID_def row_query_def Let_def split: option.splits if_splits)
  have cached: "\<exists>r. stream_row t i = Some r \<and> s = preload t r" if "stream_cache t i = Some (s, ex)" for s ex
    using assms that by (auto simp: cache_coherent_def)
  show "\<exists>r. stream_row t i = Some r \<and> s = preload t r" if "fst (GetStreamByID e i t) = Inr s"
    using that by (auto simp: GetStreamByID_def row_query_def Let_def dest: cached split: option.splits if_splits)
qed

end
