(* ===== verification/Stream_Signing.thy ===== *)
theory Stream_Signing
  imports Model_User
begin

text \<open>
  \<^verbatim>\<open>src/tools/stream-signing.go\<close>: every playlist address of a stream gets a signed token that
  names the playlist, the user and whether downloading is allowed. The user has been authorised
  before. \<open>sign\<close> is the signature of the token library under the server's key.
\<close>

record JWTPlaylistClaims =
  cl_ExpiresAt :: gotime
  cl_UserID :: uint
  cl_Playlist :: string
  cl_Download :: bool
  cl_StreamID :: string
  cl_CourseID :: string

type_synonym signer = "JWTPlaylistClaims \<Rightarrow> string + string"

datatype playlist_type = PL_COMB | PL_CAM | PL_PRES

definition stream_playlists :: "Stream \<Rightarrow> (playlist_type \<times> string) list" where
  "stream_playlists s =
     (if PlaylistUrl s \<noteq> [] then [(PL_COMB, PlaylistUrl s)] else []) @
     (if PlaylistUrlCAM s \<noteq> [] then [(PL_CAM, PlaylistUrlCAM s)] else []) @
     (if PlaylistUrlPRES s \<noteq> [] then [(PL_PRES, PlaylistUrlPRES s)] else [])"

definition playlist_claims :: "gotime \<Rightarrow> Stream \<Rightarrow> User option \<Rightarrow> bool \<Rightarrow> string \<Rightarrow> JWTPlaylistClaims" where
  "playlist_claims now s user allowDownloading playlist =
     \<lparr>cl_ExpiresAt = now + Hour * 7, cl_UserID = (case user of None \<Rightarrow> 0 | Some u \<Rightarrow> ID u),
      cl_Playlist = playlist, cl_Download = allowDownloading,
      cl_StreamID = uint_str (ID s), cl_CourseID = uint_str (CourseID s)\<rparr>"

fun append_jwt :: "playlist_type \<Rightarrow> string \<Rightarrow> Stream \<Rightarrow> Stream" where
  "append_jwt PL_CAM str s = s\<lparr>PlaylistUrlCAM := PlaylistUrlCAM s @ ''?jwt='' @ str\<rparr>"
| "append_jwt PL_PRES str s = s\<lparr>PlaylistUrlPRES := PlaylistUrlPRES s @ ''?jwt='' @ str\<rparr>"
| "append_jwt PL_COMB str s = s\<lparr>PlaylistUrl := PlaylistUrl s @ ''?jwt='' @ str\<rparr>"

text \<open>The loop; an error leaves the playlists that were signed before it with their tokens.\<close>

fun sign_playlists ::
    "signer \<Rightarrow> gotime \<Rightarrow> User option \<Rightarrow> bool \<Rightarrow> (playlist_type \<times> string) list \<Rightarrow> Stream \<Rightarrow> string option \<times> Stream" where
  "sign_playlists sign now user allowDownloading [] s = (None, s)"
| "sign_playlists sign now user allowDownloading ((t, playlist) # ps) s =
     (if contains playlist ''lrz.de'' then sign_playlists sign now user allowDownloading ps s
      else
       (case sign (playlist_claims now s user allowDownloading playlist) of
          Inl err \<Rightarrow> (Some err, s)
        | Inr str \<Rightarrow> sign_playlists sign now user allowDownloading ps (append_jwt t str s)))"

definition SetSignedPlaylists ::
    "signer \<Rightarrow> gotime \<Rightarrow> Stream \<Rightarrow> User option \<Rightarrow> bool \<Rightarrow> string option \<times> Stream" where
  "SetSignedPlaylists sign now s user allowDownloading =
     sign_playlists sign now user allowDownloading (stream_playlists s) s"

subsection \<open>What is signed\<close>

fun playlist_of :: "playlist_type \<Rightarrow> Stream \<Rightarrow> string" where
  "playlist_of PL_COMB s = PlaylistUrl s"
| "playlist_of PL_CAM s = PlaylistUrlCAM s"
| "playlist_of PL_PRES s = PlaylistUrlPRES s"

lemma playlist_of_append_jwt [simp]:
  "playlist_of t (append_jwt t' str s) = playlist_of t s @ (if t = t' then ''?jwt='' @ str else [])"
  by (cases t; cases t') simp_all

lemma playlist_claims_append_jwt [simp]:
  "playlist_claims now (append_jwt t str s) u b p = playlist_claims now s u b p"
  by (cases t) (simp_all add: playlist_claims_def)

lemma stream_playlists_props:
  "distinct (map fst (stream_playlists s))"
  "(t, p) \<in> set (stream_playlists s) \<longleftrightarrow> p = playlist_of t s \<and> p \<noteq> []"
  by (cases t; auto simp: stream_playlists_def)+

text \<open>The token a playlist gets.\<close>

definition signed_address :: "signer \<Rightarrow> gotime \<Rightarrow> Stream \<Rightarrow> User option \<Rightarrow> bool \<Rightarrow> string \<Rightarrow> string" where
  "signed_address sign now s user allow p =
     (if p = [] \<or> contains p ''lrz.de'' then p
      else case sign (playlist_claims now s user allow p) of Inl e \<Rightarrow> p | Inr str \<Rightarrow> p @ ''?jwt='' @ str)"

lemma sign_playlists_None:
  "distinct (map fst ps) \<Longrightarrow> sign_playlists sign now user allow ps s = (None, s') \<Longrightarrow>
     \<forall>(t, p) \<in> set ps. p = playlist_of t s \<and> p \<noteq> [] \<Longrightarrow>
     (\<forall>t p. (t, p) \<in> set ps \<longrightarrow> playlist_of t s' = signed_address sign now s user allow p) \<and>
     (\<forall>t. t \<notin> fst ` set ps \<longrightarrow> playlist_of t s' = playlist_of t s)"
proof (induction sign now user allow ps s rule: sign_playlists.induct)
  case (1 sign now user allow s)
  then show ?case by simp
next
  case (2 sign now user allow t p ps s)
  show ?case
  proof (cases "contains p ''lrz.de''")
    case True
    with 2 show ?thesis by (fastforce simp: signed_address_def)
  next
    case False
    with 2(4) obtain str where str: "sign (playlist_claims now s user allow p) = Inr str"
      "sign_playlists sign now user allow ps (append_jwt t str s) = (None, s')"
      by (auto split: sum.splits)
    have t: "t \<notin> fst ` set ps" using 2(3) by simp
    have ps: "\<forall>(t', p') \<in> set ps. p' = playlist_of t' (append_jwt t str s) \<and> p' \<noteq> []"
      using 2(5) t by (force simp: image_iff)
    have addr: "signed_address sign now (append_jwt t str s) user allow = signed_address sign now s user allow"
      by (rule ext) (simp add: signed_address_def)
    from 2(2) [OF False str(1) _ str(2) ps] 2(3) have
      ih: "\<forall>t' p'. (t', p') \<in> set ps \<longrightarrow> playlist_of t' s' = signed_address sign now s user allow p'"
      "\<forall>t'. t' \<notin> fst ` set ps \<longrightarrow> playlist_of t' s' = playlist_of t' (append_jwt t str s)"
      by (simp_all add: addr)
    have "playlist_of t s' = signed_address sign now s user allow p"
      using ih(2) t 2(5) False str(1) by (auto simp: signed_address_def)
    with ih show ?thesis by auto
  qed
qed

lemma SetSignedPlaylists_address:
  assumes "SetSignedPlaylists sign now s user allow = (None, s')"
  shows "playlist_of t s' = signed_address sign now s user allow (playlist_of t s)"
proof -
  have "\<forall>(t, p) \<in> set (stream_playlists s). p = playlist_of t s \<and> p \<noteq> []"
    by (auto simp: stream_playlists_props)
  note signed = sign_playlists_None [OF stream_playlists_props(1) assms [unfolded SetSignedPlaylists_def] this]
  show ?thesis
  proof (cases "playlist_of t s = []")
    case True
    then have "t \<notin> fst ` set (stream_playlists s)" by (auto simp: stream_playlists_props)
    with True signed show ?thesis by (simp add: signed_address_def)
  next
    case False
    then have "(t, playlist_of t s) \<in> set (stream_playlists s)" by (simp add: stream_playlists_props)
    with signed show ?thesis by blast
  qed
qed

end
