(* ===== verification/Worker_Grpc.thy ===== *)
theory Worker_Grpc
  imports Dao_Streams Stream_Signing Worker_Silence
begin

text \<open>
  \<^verbatim>\<open>src/api/worker_grpc.go\<close>: what the workers tell the server about streams, transcodings,
  silences and thumbnails, and how the server distributes streams, premieres and thumbnails to the
  workers. The state is the tables and the log of calls to the outside: workers, power switches,
  viewers, the subtitle service, the file system.

  A handler returns its answer, the new state, and the goroutines it starts: each a list of atomic
  steps, which run interleaved with everything else. The locks \<^verbatim>\<open>mutex\<close> and \<^verbatim>\<open>lightLock\<close> make a
  handler and a light switch one step. The answers of the outside are the fields of \<open>wenv\<close>; a
  connection that cannot be dialled is nil, and closing it panics.
\<close>

subsection \<open>State and outside\<close>

record pb_StreamRequest =
  SourceType :: string
  SourceUrl :: string
  rq_CourseSlug :: string
  rq_Start :: gotime
  rq_End :: gotime
  PublishVoD :: bool
  rq_StreamID :: "32 word"
  rq_CourseTerm :: string
  rq_CourseYear :: "32 word"
  rq_StreamName :: string
  rq_IngestServer :: string
  rq_OutUrl :: string
  rq_SelfStream :: bool
  rq_WorkerId :: string

datatype wcall =
    RequestStream Worker pb_StreamRequest
  | RequestPremiere Worker "32 word" string string string
  | RequestStreamEnd Worker "32 word" bool
  | CombineThumbnails Worker string string string
  | GenerateThumbnails Worker string "32 word" string
  | GenerateLivePreview Worker string
  | DeleteSectionImage Worker string
  | GenerateSectionImages Worker string "(32 word \<times> 32 word \<times> 32 word) list"
  | CloseConnection Worker
  | TurnOn string nat
  | TurnOff string nat
  | ViewersLive uint bool
  | CourseWentLive uint
  | GenerateSubtitles "32 word" string string
  | WritePreview uint string

record wenv =
  dbe :: db_env
  WorkerToken :: string
  new_uuid :: string
  power :: "bool \<Rightarrow> string \<Rightarrow> nat \<Rightarrow> string option"
  dialIn :: "Worker \<Rightarrow> string option"
  stream_answer :: "Worker \<Rightarrow> pb_StreamRequest \<Rightarrow> string + bool"
  premiere_answer :: "Worker \<Rightarrow> uint \<Rightarrow> string + bool"
  end_answer :: "Worker \<Rightarrow> uint \<Rightarrow> string + bool"
  combine_answer :: "Worker \<Rightarrow> string \<Rightarrow> string + string"
  thumbs_answer :: "Worker \<Rightarrow> string + bool"
  preview_answer :: "Worker \<Rightarrow> string \<Rightarrow> string + string"
  delete_answer :: "Worker \<Rightarrow> string \<Rightarrow> string option"
  sections_answer :: "Worker \<Rightarrow> string + string list"
  preview_file_error :: "uint \<Rightarrow> string option"
  has_subtitle_client :: bool
  subtitle_answer :: "uint \<Rightarrow> string option"
  signer :: signer

record wstate =
  tab :: tables
  wlog :: "wcall list"

type_synonym task = "(wstate \<Rightarrow> wstate) list"

datatype pb_Status = StatusOk | NoStatus

definition call :: "wcall \<Rightarrow> wstate \<Rightarrow> wstate" where
  "call c st = st\<lparr>wlog := wlog st @ [c]\<rparr>"

definition run_db :: "(tables \<Rightarrow> 'r \<times> tables) \<Rightarrow> wstate \<Rightarrow> 'r \<times> wstate" where
  "run_db f st = (let res = f (tab st) in (fst res, st\<lparr>tab := snd res\<rparr>))"

definition do_db :: "(tables \<Rightarrow> 'r \<times> tables) \<Rightarrow> wstate \<Rightarrow> wstate" where
  "do_db f st = snd (run_db f st)"

text \<open>A task that runs alone.\<close>

definition run_task :: "task \<Rightarrow> wstate \<Rightarrow> wstate" where
  "run_task steps st = fold (\<lambda>f. f) steps st"

subsection \<open>The pool of workers\<close>

definition JoinWorkers :: "wenv \<Rightarrow> string \<Rightarrow> string \<Rightarrow> wstate \<Rightarrow> (string + string) \<times> wstate" where
  "JoinWorkers e token hostname st =
     (if token \<noteq> WorkerToken e then (Inl ''Invalid token'', st)
      else
       (case GetWorkerByHostname (dbe e) hostname (tab st) of
          Inr worker \<Rightarrow> (Inr (WorkerID worker), st)
        | Inl err \<Rightarrow>
            if err \<noteq> not_found then (Inl (''get worker by hostname: '' @ err), st)
            else
             (let worker = \<lparr>WorkerID = new_uuid e, Host = hostname, Status = [], Workload = 0,
                            worker_LastSeen = clock (dbe e), CPU = [], Memory = [], Disk = [], Uptime = [],
                            worker_Version = []\<rparr>;
                  (err, st) = run_db (CreateWorker (dbe e) worker) st
              in if err \<noteq> None then (Inl ''Could not add worker to database'', st)
                 else (Inr (WorkerID worker), st))))"

record pb_HeartBeat =
  hb_WorkerID :: string
  hb_Workload :: "32 word"
  Jobs :: "string list"
  hb_CPU :: string
  hb_Memory :: string
  hb_Disk :: string
  hb_Uptime :: string
  hb_Version :: string

definition SendHeartBeat :: "wenv \<Rightarrow> pb_HeartBeat \<Rightarrow> wstate \<Rightarrow> (string + pb_Status) \<times> wstate" where
  "SendHeartBeat e r st =
     (case GetWorkerByID (dbe e) (hb_WorkerID r) (tab st) of
        Inl err \<Rightarrow> (Inl ''authentication failed: invalid worker id'', st)
      | Inr w \<Rightarrow>
        (let w = w\<lparr>Workload := ucast (hb_Workload r), worker_LastSeen := clock (dbe e),
                   Status := join (Jobs r) '', '', CPU := hb_CPU r, Memory := hb_Memory r, Disk := hb_Disk r,
                   Uptime := hb_Uptime r, worker_Version := hb_Version r\<rparr>;
             (err, st) = run_db (SaveWorker (dbe e) w) st
         in (case err of Some e \<Rightarrow> Inl e | None \<Rightarrow> Inr StatusOk, st)))"

text \<open>The index of the first worker with the least workload; 0 for no workers.\<close>

definition least_step :: "Worker list \<Rightarrow> nat \<Rightarrow> nat \<Rightarrow> nat" where
  "least_step ws found i = (if Workload (ws ! i) < Workload (ws ! found) then i else found)"

definition getWorkerWithLeastWorkload :: "Worker list \<Rightarrow> nat" where
  "getWorkerWithLeastWorkload ws = foldl (least_step ws) 0 [0..<length ws]"

definition add_load :: "uint \<Rightarrow> nat \<Rightarrow> Worker list \<Rightarrow> Worker list" where
  "add_load d i ws = ws[i := (ws ! i)\<lparr>Workload := Workload (ws ! i) + d\<rparr>]"

subsection \<open>Results of the workers: silences, transcodings, uploads\<close>

definition NotifySilenceResults ::
    "wenv \<Rightarrow> string \<Rightarrow> 32 word \<Rightarrow> 32 word list \<Rightarrow> 32 word list \<Rightarrow> wstate \<Rightarrow>
     ((string + pb_Status) \<times> wstate) outcome" where
  "NotifySilenceResults e worker streamID starts ends st =
     (case GetWorkerByID (dbe e) worker (tab st) of
        Inl err \<Rightarrow> Returns (Inl err, st)
      | Inr _ \<Rightarrow>
        (let (res, st) = run_db (GetStreamByID (dbe e) (ucast streamID)) st in
         case res of
           Inl err \<Rightarrow> Returns (Inl err, st)
         | Inr _ \<Rightarrow>
             outcome_bind (received starts ends (ucast streamID)) (\<lambda>silences. Returns
               (if silences = [] then (Inr StatusOk, st)
                else
                  let (err, st) = run_db (UpdateSilences (dbe e) silences (ucast streamID)) st
                  in (case err of Some e \<Rightarrow> Inl e | None \<Rightarrow> Inr StatusOk, st)))))"

text \<open>The file row the code writes as \<^verbatim>\<open>model.File{StreamID, Path, Type}\<close>.\<close>

definition new_file :: "uint \<Rightarrow> string \<Rightarrow> FileType \<Rightarrow> File" where
  "new_file streamID path ty =
     \<lparr>ID = 0, CreatedAt = zero_time, UpdatedAt = zero_time, DeletedAt = None, file_StreamID = streamID,
      Path = path, Filename = [], file_Type = ty, CourseName = []\<rparr>"

definition transcoded_stream :: "string \<Rightarrow> 32 word \<Rightarrow> Stream \<Rightarrow> Stream" where
  "transcoded_stream path dur stream =
     (let stream = (if list_ex (\<lambda>f. Path f = path) (Files stream) then stream
                    else stream\<lparr>Files := Files stream @ [new_file (ID stream) path 0]\<rparr>)
      in if dur \<noteq> 0 then stream\<lparr>Duration := \<lparr>Int32 = dur, Valid = False\<rparr>\<rparr> else stream)"

definition NotifyTranscodingFinished ::
    "wenv \<Rightarrow> string \<Rightarrow> 32 word \<Rightarrow> string \<Rightarrow> string \<Rightarrow> 32 word \<Rightarrow> wstate \<Rightarrow> (string + pb_Status) \<times> wstate" where
  "NotifyTranscodingFinished e worker streamID sourceType filePath dur st =
     (case GetWorkerByID (dbe e) worker (tab st) of
        Inl err \<Rightarrow> (Inl err, st)
      | Inr _ \<Rightarrow>
        (let (res, st) = run_db (GetStreamByID (dbe e) (ucast streamID)) st in
         case res of
           Inl err \<Rightarrow> (Inl err, st)
         | Inr stream \<Rightarrow>
            (let st = do_db (RemoveTranscodingProgress (dbe e) sourceType (ID stream)) st;
                 (err, st) = run_db (SaveStream (dbe e) (transcoded_stream filePath dur stream)) st
             in (case err of Some e \<Rightarrow> Inl e | None \<Rightarrow> Inr StatusOk, st))))"

definition source_version :: "string \<Rightarrow> StreamVersion" where
  "source_version sourceType = (if sourceType = ''CAM'' then CAM else if sourceType = ''PRES'' then PRES else COMB)"

definition NotifyTranscodingFailure ::
    "wenv \<Rightarrow> string \<Rightarrow> 32 word \<Rightarrow> string \<Rightarrow> int \<Rightarrow> string \<Rightarrow> string \<Rightarrow> wstate \<Rightarrow> (string + unit) \<times> wstate" where
  "NotifyTranscodingFailure e worker streamID logs exitCode filePath ver st =
     (case GetWorkerByID (dbe e) worker (tab st) of
        Inl err \<Rightarrow> (Inl err, st)
      | Inr w \<Rightarrow>
        (let failure = \<lparr>ID = 0, CreatedAt = zero_time, UpdatedAt = zero_time, DeletedAt = None,
                        failure_StreamID = ucast streamID, failure_Version = source_version ver, Logs = logs,
                        ExitCode = exitCode, failure_FilePath = filePath, failure_Hostname = Host w\<rparr>;
             (err, st) = run_db (TranscodingFailure_New (dbe e) failure) st
         in (case err of Some e \<Rightarrow> Inl e | None \<Rightarrow> Inr (), st)))"

fun NotifyTranscodingProgress :: "wenv \<Rightarrow> (string + TranscodingProgress) list \<Rightarrow> wstate \<Rightarrow> string option \<times> wstate" where
  "NotifyTranscodingProgress e [] st = (None, st)"
| "NotifyTranscodingProgress e (Inl err # rs) st = (None, st)"
| "NotifyTranscodingProgress e (Inr p # rs) st =
     (let (err, st) = run_db (SaveTranscodingProgress (dbe e) p) st in
      if err \<noteq> None then (err, st) else NotifyTranscodingProgress e rs st)"

definition requestSubtitles :: "wenv \<Rightarrow> Stream \<Rightarrow> StreamVersion \<Rightarrow> wstate \<Rightarrow> string option \<times> wstate" where
  "requestSubtitles e stream v st =
     (if \<not> has_subtitle_client e then (None, st)
      else
       (case GetCourseById (dbe e) (CourseID stream) (tab st) of
          Inl err \<Rightarrow> (Some err, st)
        | Inr course \<Rightarrow>
            if ShouldGenerateSubtitles course v (LectureHallID stream) then
              (let signed = snd (SetSignedPlaylists (signer e) (clock (dbe e)) stream None False);
                   url = (if v = COMB then PlaylistUrl signed else if v = PRES then PlaylistUrlPRES signed
                          else PlaylistUrlCAM signed)
               in (subtitle_answer e (ID stream),
                   call (GenerateSubtitles (ucast (ID stream)) url
                          (case Language course of None \<Rightarrow> [] | Some l \<Rightarrow> l)) st))
            else (None, st)))"

text \<open>The stream as it is saved after an upload.\<close>

definition uploaded_stream :: "Course \<Rightarrow> string \<Rightarrow> string \<Rightarrow> Stream \<Rightarrow> Stream" where
  "uploaded_stream course sourceType url stream =
     (let stream = stream\<lparr>Recording := True, Private := VodPrivate course\<rparr>
      in if source_version sourceType = CAM then stream\<lparr>PlaylistUrlCAM := url\<rparr>
         else if source_version sourceType = PRES then stream\<lparr>PlaylistUrlPRES := url\<rparr>
         else stream\<lparr>PlaylistUrl := url\<rparr>)"

definition NotifyUploadFinished ::
    "wenv \<Rightarrow> string \<Rightarrow> 32 word \<Rightarrow> string \<Rightarrow> string \<Rightarrow> wstate \<Rightarrow> (string + pb_Status) \<times> wstate" where
  "NotifyUploadFinished e worker streamID sourceType url st =
     (case GetWorkerByID (dbe e) worker (tab st) of
        Inl err \<Rightarrow> (Inl err, st)
      | Inr _ \<Rightarrow>
        (let (res, st) = run_db (GetStreamByID (dbe e) (ucast streamID)) st in
         case res of
           Inl err \<Rightarrow> (Inl err, st)
         | Inr stream \<Rightarrow>
           (case GetCourseById (dbe e) (CourseID stream) (tab st) of
              Inl err \<Rightarrow> (Inl err, st)
            | Inr course \<Rightarrow>
                if LiveNow stream then (Inr NoStatus, st)
                else
                 (let saved = uploaded_stream course sourceType url stream;
                      (err, st) = run_db (SaveStream (dbe e) saved) st
                  in case err of
                       Some e \<Rightarrow> (Inl e, st)
                     | None \<Rightarrow> (Inr StatusOk, snd (requestSubtitles e saved (source_version sourceType) st))))))"

subsection \<open>Streams start and end\<close>

definition lightIndices :: "nat list" where
  "lightIndices = [0, 1, 2]"

definition handleLightOnSwitch :: "wenv \<Rightarrow> Stream \<Rightarrow> wstate \<Rightarrow> bool \<times> wstate" where
  "handleLightOnSwitch e stream st =
     (if LectureHallID stream = 0 then (True, st)
      else
       (case GetLectureHallByID (dbe e) (LectureHallID stream) (tab st) of
          Inl err \<Rightarrow> (False, st)
        | Inr lh \<Rightarrow>
            (list_all (\<lambda>i. power e True (PwrCtrlIp lh) i = None) lightIndices,
             foldl (\<lambda>st i. call (TurnOn (PwrCtrlIp lh) i) st) st lightIndices)))"

text \<open>Switching off stops at the first outlet that refuses.\<close>

fun turn_off :: "wenv \<Rightarrow> string \<Rightarrow> nat list \<Rightarrow> wstate \<Rightarrow> bool \<times> wstate" where
  "turn_off e ip [] st = (True, st)"
| "turn_off e ip (i # is) st =
     (let st = call (TurnOff ip i) st in if power e False ip i \<noteq> None then (False, st) else turn_off e ip is st)"

definition handleLightOffSwitch :: "wenv \<Rightarrow> Stream \<Rightarrow> wstate \<Rightarrow> bool \<times> wstate" where
  "handleLightOffSwitch e stream st =
     (if LectureHallID stream = 0 then (True, st)
      else
       (case GetLiveStreamsInLectureHall (dbe e) (LectureHallID stream) (tab st) of
          Inl err \<Rightarrow> (False, st)
        | Inr live \<Rightarrow>
            if length live > 1 then (True, st)
            else if length live = 1 \<and> ID (live ! 0) \<noteq> ID stream then (True, st)
            else
             (case GetLectureHallByID (dbe e) (LectureHallID stream) (tab st) of
                Inl err \<Rightarrow> (False, st)
              | Inr lh \<Rightarrow> turn_off e (PwrCtrlIp lh) lightIndices st)))"

definition set_source_url :: "string \<Rightarrow> string \<Rightarrow> Stream \<Rightarrow> Stream" where
  "set_source_url sourceType url stream =
     (if sourceType = ''CAM'' then stream\<lparr>PlaylistUrlCAM := url\<rparr>
      else if sourceType = ''PRES'' then stream\<lparr>PlaylistUrlPRES := url\<rparr>
      else stream\<lparr>PlaylistUrl := url\<rparr>)"

definition NotifyStreamStart ::
    "wenv \<Rightarrow> string \<Rightarrow> 32 word \<Rightarrow> string \<Rightarrow> string \<Rightarrow> wstate \<Rightarrow> (string + pb_Status) \<times> wstate" where
  "NotifyStreamStart e worker streamID sourceType url st =
     (case GetWorkerByID (dbe e) worker (tab st) of
        Inl err \<Rightarrow> (Inl err, st)
      | Inr _ \<Rightarrow>
        (let (res, st) = run_db (GetStreamByID (dbe e) (ucast streamID)) st in
         case res of
           Inl err \<Rightarrow> (Inl err, st)
         | Inr stream \<Rightarrow>
            (let (err, st) = run_db (SaveStream (dbe e) (set_source_url sourceType url
                               (stream\<lparr>LiveNow := True, LiveNowTimestamp := clock (dbe e)\<rparr>))) st
             in (case err of Some e \<Rightarrow> Inl e | None \<Rightarrow> Inr NoStatus, st))))"

definition save_source_url :: "db_env \<Rightarrow> string \<Rightarrow> Stream \<Rightarrow> string \<Rightarrow> tables \<Rightarrow> tables" where
  "save_source_url d sourceType stream url =
     (if sourceType = ''CAM'' then SaveCAMURL d stream url
      else if sourceType = ''PRES'' then SavePRESURL d stream url
      else SaveCOMBURL d stream url)"

text \<open>The two goroutines of \<^verbatim>\<open>NotifyStreamStarted\<close>.\<close>

definition started_lights :: "wenv \<Rightarrow> Stream \<Rightarrow> task" where
  "started_lights e stream =
     [\<lambda>st. snd (handleLightOnSwitch e stream st), do_db (DeleteSilences (dbe e) (ID stream))]"

definition started_live :: "wenv \<Rightarrow> Stream \<Rightarrow> Course \<Rightarrow> 32 word \<Rightarrow> string \<Rightarrow> string \<Rightarrow> task" where
  "started_live e stream course streamID sourceType url =
     (let stream = stream\<lparr>LiveNow := True, Private := LivePrivate course\<rparr> in
      [do_db (SaveStream (dbe e) stream),
       do_db (SetStreamLiveNowTimestampById (dbe e) (ucast streamID) (clock (dbe e))),
       (\<lambda>st. st\<lparr>tab := save_source_url (dbe e) sourceType stream url (tab st)\<rparr>),
       call (ViewersLive (ID stream) True),
       call (CourseWentLive (ID stream))])"

definition NotifyStreamStarted ::
    "wenv \<Rightarrow> 32 word \<Rightarrow> string \<Rightarrow> string \<Rightarrow> wstate \<Rightarrow> (string + pb_Status) \<times> wstate \<times> task list" where
  "NotifyStreamStarted e streamID sourceType url st =
     (let (res, st) = run_db (GetStreamByID (dbe e) (ucast streamID)) st in
      case res of
        Inl err \<Rightarrow> (Inl err, st, [])
      | Inr stream \<Rightarrow>
        (case GetCourseById (dbe e) (CourseID stream) (tab st) of
           Inl err \<Rightarrow> (Inl err, st, [])
         | Inr course \<Rightarrow>
             (Inr StatusOk, st, [started_lights e stream, started_live e stream course streamID sourceType url])))"

text \<open>
  \<^verbatim>\<open>NotifyStreamFinished\<close>: a stream that is not found leaves the zero value behind, whose ID is used
  to free the slot.
\<close>

definition finished_task :: "wenv \<Rightarrow> Stream \<Rightarrow> task" where
  "finished_task e stream =
     [\<lambda>st. snd (handleLightOffSwitch e stream st), do_db (SaveEndedState (dbe e) (ID stream) True)]"

definition NotifyStreamFinished ::
    "wenv \<Rightarrow> string \<Rightarrow> 32 word \<Rightarrow> wstate \<Rightarrow> (string + pb_Status) \<times> wstate \<times> task list" where
  "NotifyStreamFinished e worker streamID st =
     (case GetWorkerByID (dbe e) worker (tab st) of
        Inl err \<Rightarrow> (Inl ''authentication failed: invalid worker id'', st, [])
      | Inr _ \<Rightarrow>
        (let (res, st) = run_db (GetStreamByID (dbe e) (ucast streamID)) st;
             (stream, tasks) = (case res of Inl err \<Rightarrow> (zero_Stream, []) | Inr s \<Rightarrow> (s, [finished_task e s]));
             st = do_db (RemoveStreamFromSlot (dbe e) (ID stream)) st;
             st = do_db (SetStreamNotLiveById (dbe e) (ucast streamID)) st;
             st = call (ViewersLive (ucast streamID) False) st
         in (Inr StatusOk, st, tasks)))"

subsection \<open>Self-streams and uploads\<close>

record pb_SelfStreamResponse =
  ss_StreamID :: "32 word"
  ss_CourseSlug :: string
  ss_CourseYear :: "32 word"
  ss_StreamStart :: gotime
  ss_CourseTerm :: string
  ss_UploadVoD :: bool
  ss_IngestServer :: string
  ss_StreamName :: string
  ss_OutUrl :: string

definition stream_slug :: "Course \<Rightarrow> Stream \<Rightarrow> string" where
  "stream_slug course stream = Slug course @ ''-'' @ uint_str (ID stream)"

definition SendSelfStreamRequest ::
    "wenv \<Rightarrow> string \<Rightarrow> string \<Rightarrow> string \<Rightarrow> wstate \<Rightarrow> (string + pb_SelfStreamResponse) \<times> wstate" where
  "SendSelfStreamRequest e worker key slug st =
     (let now = clock (dbe e) in
      case GetWorkerByID (dbe e) worker (tab st) of
        Inl err \<Rightarrow> (Inl err, st)
      | Inr _ \<Rightarrow>
        if key = [] then (Inl ''stream key empty'', st)
        else
         (case GetStreamByKey (dbe e) key (tab st) of
            Inl err \<Rightarrow> (Inl err, st)
          | Inr stream \<Rightarrow>
           (case GetCourseById (dbe e) (CourseID stream) (tab st) of
              Inl err \<Rightarrow> (Inl err, st)
            | Inr course \<Rightarrow>
              if slug \<noteq> stream_slug course stream
              then (Inl (''bad stream name, should: '' @ stream_slug course stream @ '', is: '' @ slug), st)
              else if \<not> (now > Start stream + Minute * (- 30) \<and> now < End stream + Minute * 30)
              then (Inl ''stream rejected'', st)
              else
               (case GetBestIngestServer (dbe e) (tab st) of
                  Inl err \<Rightarrow> (Inl err, st)
                | Inr srv \<Rightarrow>
                 (case GetStreamSlot (dbe e) (ID srv) (tab st) of
                    Inl err \<Rightarrow> (Inl err, st)
                  | Inr slot \<Rightarrow>
                     (Inr \<lparr>ss_StreamID = ucast (ID stream), ss_CourseSlug = Slug course,
                           ss_CourseYear = word_of_int (course_Year course), ss_StreamStart = Start stream,
                           ss_CourseTerm = course_TeachingTerm course, ss_UploadVoD = VODEnabled course,
                           ss_IngestServer = Url srv, ss_StreamName = slot_StreamName slot, ss_OutUrl = OutUrl srv\<rparr>,
                      st\<lparr>tab := SaveSlot (dbe e) (slot\<lparr>slot_StreamID := Some (ID stream)\<rparr>) (tab st)\<rparr>))))))"

record pb_UploadInfo =
  up_CourseSlug :: string
  up_CourseTerm :: string
  up_CourseYear :: "32 word"
  up_StreamStart :: gotime
  up_StreamEnd :: gotime
  up_StreamID :: "32 word"
  up_VideoType :: string

definition GetStreamInfoForUpload ::
    "wenv \<Rightarrow> string \<Rightarrow> string \<Rightarrow> wstate \<Rightarrow> (string + pb_UploadInfo) \<times> wstate" where
  "GetStreamInfoForUpload e worker key st =
     (case GetWorkerByID (dbe e) worker (tab st) of
        Inl err \<Rightarrow> (Inl ''invalid worker id'', st)
      | Inr _ \<Rightarrow>
       (case GetUploadKey (dbe e) key (tab st) of
          Inl err \<Rightarrow> (Inl ''key not found'', st)
        | Inr (k, stream) \<Rightarrow>
         (case GetCourseById (dbe e) (CourseID stream) (tab st) of
            Inl err \<Rightarrow> (Inl ''course not found'', st)
          | Inr course \<Rightarrow>
             (Inr \<lparr>up_CourseSlug = Slug course, up_CourseTerm = course_TeachingTerm course,
                   up_CourseYear = word_of_int (course_Year course), up_StreamStart = Start stream,
                   up_StreamEnd = End stream, up_StreamID = ucast (key_StreamID k), up_VideoType = key_VideoType k\<rparr>,
              do_db (DeleteUploadKey (dbe e) k) st))))"

subsection \<open>Thumbnails\<close>

definition thumb_types :: "string \<Rightarrow> (FileType \<times> FileType) option" where
  "thumb_types sourceType =
     (if sourceType = ''COMB'' then Some (FILETYPE_THUMB_COMB, FILETYPE_THUMB_LG_COMB)
      else if sourceType = ''CAM'' then Some (FILETYPE_THUMB_CAM, FILETYPE_THUMB_LG_CAM)
      else if sourceType = ''PRES'' then Some (FILETYPE_THUMB_PRES, FILETYPE_THUMB_LG_PRES)
      else None)"

definition last_of_type :: "FileType \<Rightarrow> File list \<Rightarrow> string" where
  "last_of_type ty fs = foldl (\<lambda>p f. if file_Type f = ty then Path f else p) [] fs"

definition replace_pres :: "string \<Rightarrow> string" where
  "replace_pres p = join (go_split p ''PRES'') ''CAM_PRES''"

definition generateCombinedThumb :: "wenv \<Rightarrow> uint \<Rightarrow> wstate \<Rightarrow> wstate" where
  "generateCombinedThumb e streamID st =
     (let (res, st) = run_db (GetStreamByID (dbe e) streamID) st in
      case res of
        Inl err \<Rightarrow> st
      | Inr stream \<Rightarrow>
        (let thumbCam = last_of_type FILETYPE_THUMB_LG_CAM (Files stream);
             thumbPres = last_of_type FILETYPE_THUMB_LG_PRES (Files stream);
             workers = GetAliveWorkers (dbe e) (tab st)
         in if thumbCam = [] \<or> thumbPres = [] \<or> workers = [] then st
            else
             (let w = workers ! getWorkerWithLeastWorkload workers in
              if dialIn e w \<noteq> None then st
              else
               (let st = call (CombineThumbnails w thumbPres thumbCam (replace_pres thumbPres)) st in
                case combine_answer e w thumbPres of
                  Inl err \<Rightarrow> st
                | Inr path \<Rightarrow> do_db (SetThumbnail (dbe e) (ID stream)
                                (new_file (ID stream) path FILETYPE_THUMB_LG_CAM_PRES)) st))))"

definition NotifyThumbnailsFinished ::
    "wenv \<Rightarrow> string \<Rightarrow> 32 word \<Rightarrow> string \<Rightarrow> string \<Rightarrow> string \<Rightarrow> 32 word \<Rightarrow> wstate \<Rightarrow>
     (string + pb_Status) \<times> wstate \<times> task list" where
  "NotifyThumbnailsFinished e worker streamID sourceType filePath largePath interval st =
     (case GetWorkerByID (dbe e) worker (tab st) of
        Inl err \<Rightarrow> (Inl err, st, [])
      | Inr _ \<Rightarrow>
        (let (res, st) = run_db (GetStreamByID (dbe e) (ucast streamID)) st in
         case res of
           Inl err \<Rightarrow> (Inl err, st, [])
         | Inr stream \<Rightarrow>
           (case thumb_types sourceType of
              None \<Rightarrow> (Inl ''unknown source type'', st, [])
            | Some (thumbType, thumbTypeLG) \<Rightarrow>
              (let (err, st) = run_db (SetThumbnail (dbe e) (ID stream) (new_file (ID stream) filePath thumbType)) st in
               case err of
                 Some e \<Rightarrow> (Inl e, st, [])
               | None \<Rightarrow>
                 (let (err, st) = run_db (SetThumbnail (dbe e) (ID stream) (new_file (ID stream) largePath thumbTypeLG)) st in
                  case err of
                    Some e \<Rightarrow> (Inl e, st, [])
                  | None \<Rightarrow>
                    (let (err, st) = run_db (SaveStream (dbe e) (stream\<lparr>ThumbInterval := interval\<rparr>)) st in
                     case err of
                       Some e \<Rightarrow> (Inl e, st, [])
                     | None \<Rightarrow> (Inr StatusOk, st, [[generateCombinedThumb e (ID stream)]])))))))"

subsection \<open>Distributing streams to the workers\<close>

text \<open>Reading and charging a worker by its index; Go panics outside of the slice.\<close>

definition close_nil :: "'a outcome" where
  "close_nil = Panics NilDereference"

definition stream_request ::
    "Course \<Rightarrow> Stream \<Rightarrow> IngestServer \<Rightarrow> StreamSlot \<Rightarrow> string \<Rightarrow> string \<Rightarrow> string \<Rightarrow> pb_StreamRequest" where
  "stream_request course stream srv slot sourceType source worker =
     \<lparr>SourceType = sourceType, SourceUrl = source, rq_CourseSlug = Slug course, rq_Start = Start stream,
      rq_End = End stream, PublishVoD = VODEnabled course, rq_StreamID = ucast (ID stream),
      rq_CourseTerm = course_TeachingTerm course, rq_CourseYear = word_of_int (course_Year course),
      rq_StreamName = slot_StreamName slot, rq_IngestServer = Url srv, rq_OutUrl = OutUrl srv,
      rq_SelfStream = IsSelfStream stream, rq_WorkerId = worker\<rparr>"

definition stream_slot :: "wenv \<Rightarrow> string \<Rightarrow> uint \<Rightarrow> tables \<Rightarrow> string + StreamSlot" where
  "stream_slot e sourceType srv t =
     (case (if sourceType = ''COMB'' then GetTranscodedStreamSlot (dbe e) srv t else Inl []) of
        Inr slot \<Rightarrow> Inr slot
      | Inl err \<Rightarrow> GetStreamSlot (dbe e) srv t)"

definition CreateStreamRequest ::
    "wenv \<Rightarrow> Stream \<Rightarrow> Course \<Rightarrow> string \<Rightarrow> string \<Rightarrow> Worker list \<times> wstate \<Rightarrow> (Worker list \<times> wstate) outcome" where
  "CreateStreamRequest e stream course sourceType source = (\<lambda>(workers, st).
     if source = [] then Returns (workers, st)
     else
      (case GetBestIngestServer (dbe e) (tab st) of
         Inl err \<Rightarrow> Returns (workers, st)
       | Inr srv \<Rightarrow>
        (case stream_slot e sourceType (ID srv) (tab st) of
           Inl err \<Rightarrow> Returns (workers, st)
         | Inr slot \<Rightarrow>
          (let st = st\<lparr>tab := SaveSlot (dbe e) (slot\<lparr>slot_StreamID := Some (ID stream)\<rparr>) (tab st)\<rparr>;
               i = getWorkerWithLeastWorkload workers
           in outcome_bind (slice_get workers i) (\<lambda>_.
             let workers = add_load 3 i workers;
                 w = workers ! i;
                 (err, st) = run_db (SaveWorkerForStream (dbe e) (ID stream) w) st
             in Returns
                 (if err \<noteq> None then (workers, st)
                  else if dialIn e w \<noteq> None then (add_load (- 1) i workers, st)
                  else
                   (let req = stream_request course stream srv slot sourceType source (WorkerID w);
                        st = call (CloseConnection w) (call (RequestStream w req) st)
                    in if stream_answer e w req = Inr True then (workers, st)
                       else (add_load (- 1) i workers, st))))))))"

definition next_source ::
    "wenv \<Rightarrow> Stream \<Rightarrow> Course \<Rightarrow> (Worker list \<times> wstate) outcome \<Rightarrow> string \<times> string \<Rightarrow> (Worker list \<times> wstate) outcome" where
  "next_source e stream course res = (\<lambda>(sourceType, source).
     outcome_bind res (CreateStreamRequest e stream course sourceType source))"

text \<open>
  The loop of \<^verbatim>\<open>NotifyWorkers\<close>. Where the course shows one source only, the code returns after its
  request, so the streams behind it are not looked at.
\<close>

fun notify_loop :: "wenv \<Rightarrow> Stream list \<Rightarrow> Worker list \<times> wstate \<Rightarrow> (Worker list \<times> wstate) outcome" where
  "notify_loop e [] ws = Returns ws"
| "notify_loop e (stream # rest) (workers, st) =
     (let (err, st) = run_db (SaveEndedState (dbe e) (ID stream) False) st in
      if err \<noteq> None then notify_loop e rest (workers, st)
      else
       (case GetCourseById (dbe e) (CourseID stream) (tab st) of
          Inl err \<Rightarrow> notify_loop e rest (workers, st)
        | Inr course \<Rightarrow>
         (case GetLectureHallByID (dbe e) (LectureHallID stream) (tab st) of
            Inl err \<Rightarrow> notify_loop e rest (workers, st)
          | Inr lh \<Rightarrow>
             (let mode = GetSourceModeForLectureHall course (LectureHallID stream) in
              if mode = 1 then CreateStreamRequest e stream course ''PRES'' (PresIP lh) (workers, st)
              else if mode = 2 then CreateStreamRequest e stream course ''CAM'' (CamIP lh) (workers, st)
              else outcome_bind
                (foldl (next_source e stream course) (Returns (workers, st))
                   [(''PRES'', PresIP lh), (''CAM'', CamIP lh), (''COMB'', CombIP lh)])
                (notify_loop e rest)))))"

fun premiere_loop :: "wenv \<Rightarrow> Stream list \<Rightarrow> Worker list \<times> wstate \<Rightarrow> wstate outcome" where
  "premiere_loop e [] (workers, st) = Returns st"
| "premiere_loop e (stream # rest) (workers, st) =
     (let (err, st) = run_db (SaveEndedState (dbe e) (ID stream) False) st in
      if err \<noteq> None \<or> Files stream = [] then premiere_loop e rest (workers, st)
      else
       (let i = getWorkerWithLeastWorkload workers in
        outcome_bind (slice_get workers i) (\<lambda>_.
          let workers = add_load 3 i workers; w = workers ! i in
          case GetBestIngestServer (dbe e) (tab st) of
            Inl err \<Rightarrow> premiere_loop e rest (workers, st)
          | Inr srv \<Rightarrow>
              if dialIn e w \<noteq> None then close_nil
              else
               (let st = call (CloseConnection w)
                          (call (RequestPremiere w (ucast (ID stream)) (Path (hd (Files stream))) (Url srv) (OutUrl srv)) st)
                in premiere_loop e rest
                    (if premiere_answer e w (ID stream) = Inr True then workers else add_load (- 1) i workers, st)))))"

definition notifyWorkersPremieres :: "wenv \<Rightarrow> wstate \<Rightarrow> wstate outcome" where
  "notifyWorkersPremieres e st =
     (let streams = GetDuePremieresForWorkers (dbe e) (tab st);
          workers = GetAliveWorkers (dbe e) (tab st)
      in if workers = [] \<and> streams \<noteq> [] then Returns st else premiere_loop e streams (workers, st))"

definition NotifyWorkers :: "wenv \<Rightarrow> wstate \<Rightarrow> wstate outcome" where
  "NotifyWorkers e st =
     outcome_bind (notifyWorkersPremieres e st) (\<lambda>st.
       let streams = GetDueStreamsForWorkers (dbe e) (tab st);
           workers = GetAliveWorkers (dbe e) (tab st)
       in if workers = [] \<and> streams \<noteq> [] then Returns st
          else outcome_bind (notify_loop e streams (workers, st)) (\<lambda>(_, st). Returns st))"

fun end_loop :: "wenv \<Rightarrow> Stream \<Rightarrow> bool \<Rightarrow> Worker list \<Rightarrow> wstate \<Rightarrow> wstate" where
  "end_loop e stream discard [] st = st"
| "end_loop e stream discard (w # ws) st =
     (if dialIn e w \<noteq> None then end_loop e stream discard ws st
      else end_loop e stream discard ws
        (call (CloseConnection w) (call (RequestStreamEnd w (ucast (ID stream)) discard) st)))"

definition NotifyWorkersToStopStream :: "wenv \<Rightarrow> Stream \<Rightarrow> bool \<Rightarrow> wstate \<Rightarrow> wstate" where
  "NotifyWorkersToStopStream e stream discard st =
     (case GetWorkersForStream (dbe e) (ID stream) (tab st) of
        Inl err \<Rightarrow> st
      | Inr workers \<Rightarrow>
          if workers = [] then st
          else do_db (ClearWorkersForStream (dbe e) (ID stream)) (end_loop e stream discard workers st))"

subsection \<open>Previews, regenerated thumbnails, section images\<close>

text \<open>The result says whether the preview was written.\<close>

definition getLivePreviewFromWorker :: "wenv \<Rightarrow> Stream \<Rightarrow> Worker \<Rightarrow> wstate \<Rightarrow> bool \<times> wstate" where
  "getLivePreviewFromWorker e s w st =
     (let (err, signed) = SetSignedPlaylists (signer e) (clock (dbe e)) s None False in
      if err \<noteq> None then (False, st)
      else
       (let st = call (GenerateLivePreview w (PlaylistUrl signed)) st in
        case preview_answer e w (PlaylistUrl signed) of
          Inl err \<Rightarrow> (False, st)
        | Inr thumb \<Rightarrow>
            if preview_file_error e (ID s) \<noteq> None then (False, st) else (True, call (WritePreview (ID s) thumb) st)))"

text \<open>
  The workload that is added before a preview is taken off again after it, so the workers are the
  same for every stream. A connection is closed after an error only.
\<close>

fun preview_loop :: "wenv \<Rightarrow> Worker list \<Rightarrow> Stream list \<Rightarrow> wstate \<Rightarrow> wstate outcome" where
  "preview_loop e workers [] st = Returns st"
| "preview_loop e workers (s # ss) st =
     (if PlaylistUrl s = [] then preview_loop e workers ss st
      else if workers = [] then Returns st
      else
       (let w = workers ! getWorkerWithLeastWorkload workers in
        if dialIn e w \<noteq> None then close_nil
        else
         (let (ok, st) = getLivePreviewFromWorker e s w st
          in preview_loop e workers ss (if ok then st else call (CloseConnection w) st))))"

definition FetchLivePreviews :: "wenv \<Rightarrow> wstate \<Rightarrow> wstate outcome" where
  "FetchLivePreviews e st =
     (let workers = GetAliveWorkers (dbe e) (tab st);
          (res, st) = run_db (GetCurrentLive (dbe e)) st
      in case res of Inl err \<Rightarrow> Returns st | Inr live \<Rightarrow> preview_loop e workers live st)"

text \<open>
  The error of the call is not looked at before its result is read. A dial error runs the deferred
  \<^verbatim>\<open>endConnection\<close> on nil.
\<close>

definition RegenerateThumbs :: "wenv \<Rightarrow> File \<Rightarrow> Stream \<Rightarrow> wstate \<Rightarrow> (string option \<times> wstate) outcome" where
  "RegenerateThumbs e f stream st =
     (let workers = GetAliveWorkers (dbe e) (tab st) in
      if workers = [] then Returns (Some ''no workers available'', st)
      else
       (let w = workers ! getWorkerWithLeastWorkload workers in
        if dialIn e w \<noteq> None then close_nil
        else
         (let st = call (GenerateThumbnails w (Path f) (ucast (ID stream)) (GetVodTypeByName f)) st in
          case thumbs_answer e w of
            Inl err \<Rightarrow> Panics NilDereference
          | Inr ok \<Rightarrow> Returns (None, call (CloseConnection w) st))))"

definition DeleteVideoSectionImage :: "wenv \<Rightarrow> string \<Rightarrow> wstate \<Rightarrow> (string option \<times> wstate) outcome" where
  "DeleteVideoSectionImage e path st =
     (let workers = GetAliveWorkers (dbe e) (tab st) in
      if workers = [] then Returns (Some ''no workers available'', st)
      else
       (let w = workers ! getWorkerWithLeastWorkload workers in
        if dialIn e w \<noteq> None then close_nil
        else Returns (delete_answer e w path, call (CloseConnection w) (call (DeleteSectionImage w path) st))))"

text \<open>
  The database part of \<^verbatim>\<open>GenerateVideoSectionImages\<close>: a file for every section; the update of the
  sections themselves is the list of their keys with the keys of the files.
\<close>

fun save_section_images ::
    "wenv \<Rightarrow> VideoSection list \<Rightarrow> string list \<Rightarrow> wstate \<Rightarrow> (string option \<times> (uint \<times> uint) list \<times> wstate) outcome" where
  "save_section_images e [] paths st = Returns (None, [], st)"
| "save_section_images e (x # xs) [] st = Panics IndexOutOfRange"
| "save_section_images e (x # xs) (p # ps) st =
     (let (res, st) = run_db (NewFile (dbe e) (new_file (section_StreamID x) p FILETYPE_IMAGE_JPG)) st in
      case res of
        Inl err \<Rightarrow> Returns (Some err, [], st)
      | Inr i \<Rightarrow>
          (case fault (dbe e) ''VideoSection.Update'' of
             Some err \<Rightarrow> Returns (Some err, [], st)
           | None \<Rightarrow> outcome_bind (save_section_images e xs ps st)
                       (\<lambda>(err, ups, st). Returns (err, (ID x, i) # ups, st))))"

definition section_times :: "VideoSection list \<Rightarrow> (32 word \<times> 32 word \<times> 32 word) list" where
  "section_times xs = map (\<lambda>x. (ucast (StartHours x), ucast (StartMinutes x), ucast (StartSeconds x))) xs"

definition GenerateVideoSectionImages ::
    "wenv \<Rightarrow> VideoSection list \<Rightarrow> string \<Rightarrow> wstate \<Rightarrow> (string option \<times> (uint \<times> uint) list \<times> wstate) outcome" where
  "GenerateVideoSectionImages e xs playlistUrl st =
     (let workers = GetAliveWorkers (dbe e) (tab st) in
      if workers = [] then Returns (Some ''no workers available'', [], st)
      else
       (let w = workers ! getWorkerWithLeastWorkload workers in
        if dialIn e w \<noteq> None then close_nil
        else
         (let st = call (GenerateSectionImages w playlistUrl (section_times xs)) st in
          case sections_answer e w of
            Inl err \<Rightarrow> Returns (Some err, [], call (CloseConnection w) st)
          | Inr paths \<Rightarrow>
              outcome_bind (save_section_images e xs paths st)
                (\<lambda>(err, ups, st). Returns (err, ups, call (CloseConnection w) st)))))"

end
