(* ===== verification/Worker_Props.thy ===== *)
theory Worker_Props
  imports Worker_Grpc
begin

text \<open>
  What the worker interface guarantees. The goroutines of a handler are run in every interleaving
  (\<open>shuffles\<close>); the lemma on projections reduces an interleaving to the one task that can change
  what is looked at. On top of it: a stream that goes live ends in the state of an atomic
  specification, what an upload and a transcoding store, who may publish a self-stream, which worker
  gets a stream and which streams are handed out, and the invariant of the tables.
\<close>

subsection \<open>Interleavings\<close>

lemma shuffle_projection:
  assumes "zs \<in> shuffles xs ys"
    and "\<And>y s. y \<in> set ys \<Longrightarrow> view (y s) = view s"
    and "\<And>x s s'. x \<in> set xs \<Longrightarrow> view s = view s' \<Longrightarrow> view (x s) = view (x s')"
  shows "view (run_task zs s) = view (run_task xs s)"
proof -
  have idle: "view (run_task ws s) = view s"
    if "\<forall>y \<in> set ws. \<forall>s. view (y s) = view s" for ws s
    using that by (induction ws arbitrary: s) (simp_all add: run_task_def)
  have same: "view (run_task ws s) = view (run_task ws s')"
    if "\<forall>x \<in> set ws. \<forall>s s'. view s = view s' \<longrightarrow> view (x s) = view (x s')" "view s = view s'" for ws s s'
    using that
  proof (induction ws arbitrary: s s')
    case (Cons w ws)
    have "view (w s) = view (w s')" using Cons.prems by (meson list.set_intros(1))
    from Cons.IH [OF _ this] Cons.prems(1) have "view (run_task ws (w s)) = view (run_task ws (w s'))"
      by (meson list.set_intros(2))
    then show ?case by (simp add: run_task_def)
  qed (simp add: run_task_def)
  have "zs \<in> shuffles xs ys \<Longrightarrow> \<forall>y \<in> set ys. \<forall>s. view (y s) = view s \<Longrightarrow>
      \<forall>x \<in> set xs. \<forall>s s'. view s = view s' \<longrightarrow> view (x s) = view (x s') \<Longrightarrow> view s = view s' \<Longrightarrow>
      view (run_task zs s) = view (run_task xs s')" for s s'
  proof (induction xs ys arbitrary: zs s s' rule: shuffles.induct)
    case (1 ys)
    have "zs = ys" using 1(1) by simp
    then have "view (run_task zs s) = view s" using 1(2) by (intro idle) blast
    also note 1(4)
    finally show ?case by (simp add: run_task_def)
  next
    case (2 xs)
    have "zs = xs" using 2(1) by (cases xs) simp_all
    with same [OF 2(3,4)] show ?case by simp
  next
    case (3 x xs y ys)
    from 3(3) consider ws where "zs = x # ws" "ws \<in> shuffles xs (y # ys)"
      | ws where "zs = y # ws" "ws \<in> shuffles (x # xs) ys" by auto
    then show ?case
    proof cases
      case 1
      have "view (x s) = view (x s')" using 3(5,6) by (meson list.set_intros(1))
      from 3(1) [OF 1(2) 3(4) _ this] 3(5)
      have "view (run_task ws (x s)) = view (run_task xs (x s'))" by (meson list.set_intros(2))
      then show ?thesis by (simp add: run_task_def 1(1))
    next
      case 2
      have "view (y s) = view s'" using 3(4,6) by (metis list.set_intros(1))
      from 3(2) [OF 2(2) _ 3(5) this] 3(4)
      have "view (run_task ws (y s)) = view (run_task (x # xs) s')" by (meson list.set_intros(2))
      then show ?thesis by (simp add: run_task_def 2(1))
    qed
  qed
  with assms show ?thesis by blast
qed

text \<open>What one step establishes and all keep holds after any interleaving.\<close>

lemma shuffle_established:
  assumes "zs \<in> shuffles xs ys" and "d \<in> set xs \<union> set ys" and "R s"
    and "\<And>z s. z \<in> set xs \<union> set ys \<Longrightarrow> R s \<Longrightarrow> R (z s)"
    and "\<And>z s. z \<in> set xs \<union> set ys \<Longrightarrow> R s \<Longrightarrow> Q s \<Longrightarrow> Q (z s)"
    and "\<And>s. R s \<Longrightarrow> Q (d s)"
  shows "Q (run_task zs s)"
proof -
  have zs: "set zs = set xs \<union> set ys" using assms(1) by (rule set_shuffles)
  have keep: "R s \<Longrightarrow> Q s \<Longrightarrow> Q (run_task ws s)" if "set ws \<subseteq> set zs" for ws s
    using that assms(4,5) zs by (induction ws arbitrary: s) (auto simp: run_task_def)
  have "d \<in> set ws \<Longrightarrow> R s \<Longrightarrow> Q (run_task ws s)" if "set ws \<subseteq> set zs" for ws s
    using that
  proof (induction ws arbitrary: s)
    case (Cons w ws)
    then show ?case
    proof (cases "w = d")
      case True
      have "R (d s)" "Q (d s)" using assms(4,6) Cons.prems zs True by auto
      then show ?thesis using keep [of ws] Cons.prems True by (simp add: run_task_def)
    next
      case False
      with Cons assms(4) zs show ?thesis by (auto simp: run_task_def)
    qed
  qed simp
  with assms(2,3) zs show ?thesis by auto
qed

subsection \<open>Rows and their keys\<close>

definition duration_ok :: "Stream \<Rightarrow> bool" where
  "duration_ok s \<longleftrightarrow> Valid (Duration s) \<or> Duration s = \<lparr>Int32 = 0, Valid = False\<rparr>"

text \<open>Primary keys are unique and not zero, and the NULL durations have no number.\<close>

definition streams_ok :: "tables \<Rightarrow> bool" where
  "streams_ok t \<longleftrightarrow> distinct (map ID (t_streams t)) \<and> list_all duration_ok (t_streams t) \<and>
     list_all (\<lambda>s. ID s \<noteq> 0) (t_streams t) \<and>
     distinct (map ID (t_silences t)) \<and> list_all (\<lambda>x. ID x \<noteq> 0) (t_silences t)"

lemma same_key: "distinct (map ID xs) \<Longrightarrow> x \<in> set xs \<Longrightarrow> y \<in> set xs \<Longrightarrow> ID x = ID y \<Longrightarrow> x = y"
  by (auto simp: distinct_map inj_on_def)

text \<open>
  \<open>upd\<close> is the update of a table by primary key, \<open>put\<close> the exchange of one row; with unique keys
  updates of one row add up to one exchange.
\<close>

definition upd :: "uint \<Rightarrow> (Stream \<Rightarrow> Stream) \<Rightarrow> Stream list \<Rightarrow> Stream list" where
  "upd i f xs = map (\<lambda>s. if ID s = i \<and> live_row s then f s else s) xs"

definition put :: "Stream \<Rightarrow> Stream \<Rightarrow> Stream list \<Rightarrow> Stream list" where
  "put r y xs = map (\<lambda>s. if s = r then y else s) xs"

definition the_row :: "uint \<Rightarrow> Stream \<Rightarrow> Stream list \<Rightarrow> bool" where
  "the_row i r xs \<longleftrightarrow> (\<forall>s \<in> set xs. ID s = i \<and> live_row s \<longleftrightarrow> s = r)"

lemma update_stream_upd: "t_streams (update_stream i f t) = upd i f (t_streams t)"
  by (simp add: update_stream_def upd_def)

lemma the_row_unique:
  assumes "streams_ok t" and "stream_row t i = Some r"
  shows "the_row i r (t_streams t)"
  using assms same_key [of "t_streams t" _ r] stream_row_ID [OF assms(2)]
  by (auto simp: the_row_def streams_ok_def)

lemma upd_row: "the_row i r xs \<Longrightarrow> upd i f xs = put r (f r) xs"
  by (simp add: upd_def put_def the_row_def)

lemma upd_put: "the_row i r xs \<Longrightarrow> ID y = i \<Longrightarrow> live_row y \<Longrightarrow> upd i f (put r y xs) = put r (f y) xs"
  by (auto simp: upd_def put_def the_row_def)

lemma GetStreamByID_keeps [simp]:
  "t_streams (snd (GetStreamByID e i t)) = t_streams t" "t_silences (snd (GetStreamByID e i t)) = t_silences t"
  "t_courses (snd (GetStreamByID e i t)) = t_courses t" "t_halls (snd (GetStreamByID e i t)) = t_halls t"
  "t_files (snd (GetStreamByID e i t)) = t_files t" "t_workers (snd (GetStreamByID e i t)) = t_workers t"
proof -
  define c where "c = stream_cache (snd (GetStreamByID e i t))"
  have "snd (GetStreamByID e i t) = t\<lparr>stream_cache := c\<rparr>" unfolding c_def by (rule GetStreamByID_tables)
  then show "t_streams (snd (GetStreamByID e i t)) = t_streams t" "t_silences (snd (GetStreamByID e i t)) = t_silences t"
    "t_courses (snd (GetStreamByID e i t)) = t_courses t" "t_halls (snd (GetStreamByID e i t)) = t_halls t"
    "t_files (snd (GetStreamByID e i t)) = t_files t" "t_workers (snd (GetStreamByID e i t)) = t_workers t"
    by simp_all
qed

lemma worker_run_db_simps [simp]:
  "fst (run_db f st) = fst (f (tab st))" "tab (snd (run_db f st)) = snd (f (tab st))"
  "wlog (snd (run_db f st)) = wlog st" "tab (do_db f st) = snd (f (tab st))" "wlog (do_db f st) = wlog st"
  "tab (call c st) = tab st" "wlog (call c st) = wlog st @ [c]"
  by (simp_all add: run_db_def do_db_def call_def Let_def)

lemma run_db_pair: "run_db f st = (r, st') \<longleftrightarrow> r = fst (f (tab st)) \<and> st' = st\<lparr>tab := snd (f (tab st))\<rparr>"
  by (auto simp: run_db_def Let_def)

text \<open>A stream that is written back as it was read: only what the handler changed is written.\<close>

lemma insert_rows_known:
  "\<forall>x \<in> set xs. ID x \<noteq> 0 \<and> (\<exists>r \<in> set rows. ID r = ID x) \<Longrightarrow> insert_rows now xs (rows, k) = (rows, k)"
  by (induction xs) (auto simp: list_ex_iff)

lemma nz_same [simp]: "nz z x x = x"
  by (simp add: nz_def)

lemma nz_bool [simp]: "nz False a b \<longleftrightarrow> a \<or> b"
  by (simp add: nz_def)

lemma save_fields_written_back:
  assumes "duration_ok r"
  shows "save_fields now ((preload t r)\<lparr>LiveNow := l, Private := p\<rparr>) r =
           r\<lparr>UpdatedAt := now, LiveNow := l \<or> LiveNow r, Private := p \<or> Private r\<rparr>"
  using assms by (auto simp: save_fields_def preload_def duration_ok_def Let_def)

lemma SaveStream_streams:
  assumes "fault e = (\<lambda>_. None)" and "ID v \<noteq> 0"
  shows "t_streams (snd (SaveStream e v t)) = t_streams (update_stream (ID v) (save_fields (clock e) v) t)"
    and "fst (SaveStream e v t) = None"
  using assms by (simp_all add: SaveStream_def exec_def Let_def split: prod.split)

lemma SaveStream_silences:
  assumes "fault e = (\<lambda>_. None)" and "ID v \<noteq> 0"
    and "\<forall>x \<in> set (Silences v). ID x \<noteq> 0 \<and> (\<exists>r \<in> set (t_silences t). ID r = ID x) \<and>
           (\<forall>r \<in> set (t_silences t). ID r = ID x \<longrightarrow> silence_StreamID r = ID v)"
  shows "t_silences (snd (SaveStream e v t)) = t_silences t"
proof -
  let ?link = "\<lambda>x :: Silence. x\<lparr>silence_StreamID := ID v\<rparr>"
  have linked: "map (\<lambda>r. if list_ex (\<lambda>x. ID x = ID r) (Silences v) then ?link r else r) (t_silences t) = t_silences t"
  proof (rule map_idI)
    fix r assume "r \<in> set (t_silences t)"
    with assms(3) show "(if list_ex (\<lambda>x. ID x = ID r) (Silences v) then ?link r else r) = r"
      by (auto simp: list_ex_iff intro: Silence.equality)
  qed
  have "insert_rows (clock e) (map ?link (Silences v)) (t_silences t, next_silence t) = (t_silences t, next_silence t)"
    using assms(3) by (intro insert_rows_known) auto
  then show ?thesis
    using assms(1,2) linked
    by (simp add: SaveStream_def exec_def save_has_many_def update_stream_def Let_def split: prod.split)
qed

subsection \<open>A stream goes live\<close>

fun viewer_call :: "wcall \<Rightarrow> bool" where
  "viewer_call (ViewersLive i l) = True"
| "viewer_call (CourseWentLive i) = True"
| "viewer_call _ = False"

lemma lights_on_keep:
  "tab (snd (handleLightOnSwitch e s st)) = tab st"
  "filter viewer_call (wlog (snd (handleLightOnSwitch e s st))) = filter viewer_call (wlog st)"
  by (simp_all add: handleLightOnSwitch_def lightIndices_def split: sum.split)

lemma save_source_url_streams:
  "fault d = (\<lambda>_. None) \<Longrightarrow> t_streams (save_source_url d sourceType s url t) = t_streams (update_stream (ID s)
     (\<lambda>r. (set_source_url sourceType url r)\<lparr>LiveNow := True, Recording := False, UpdatedAt := clock d\<rparr>) t)"
  by (simp add: save_source_url_def SaveCAMURL_def SavePRESURL_def SaveCOMBURL_def save_url_def exec_def
      set_source_url_def update_stream_upd)

lemma set_timestamp_streams:
  "fault d = (\<lambda>_. None) \<Longrightarrow> t_streams (snd (SetStreamLiveNowTimestampById d i ts t)) =
     t_streams (update_stream i (\<lambda>s. s\<lparr>LiveNowTimestamp := ts, UpdatedAt := clock d\<rparr>) t)"
  by (simp add: SetStreamLiveNowTimestampById_def exec_def)

lemma silences_kept:
  "fault d = (\<lambda>_. None) \<Longrightarrow> t_silences (save_source_url d sourceType s url t) = t_silences t"
  "fault d = (\<lambda>_. None) \<Longrightarrow> t_silences (snd (SetStreamLiveNowTimestampById d i ts t)) = t_silences t"
  by (simp_all add: save_source_url_def SaveCAMURL_def SavePRESURL_def SaveCOMBURL_def save_url_def exec_def
      update_stream_def SetStreamLiveNowTimestampById_def)

text \<open>The specification: one atomic change of the stream's row.\<close>

definition goes_live :: "wenv \<Rightarrow> Course \<Rightarrow> string \<Rightarrow> string \<Rightarrow> Stream \<Rightarrow> Stream" where
  "goes_live e course sourceType url s =
     (set_source_url sourceType url s)\<lparr>LiveNow := True, Recording := False, LiveNowTimestamp := clock (dbe e),
        Private := LivePrivate course \<or> Private s, UpdatedAt := clock (dbe e)\<rparr>"

lemma set_source_url_keeps [simp]:
  "ID (set_source_url ty url s) = ID s" "DeletedAt (set_source_url ty url s) = DeletedAt s"
  by (simp_all add: set_source_url_def)

lemma started_live_view:
  assumes f: "fault (dbe e) = (\<lambda>_. None)" and ok: "streams_ok (tab st)"
    and r: "stream_row (tab st) i = Some r" and sid: "ucast streamID = i"
  shows "t_streams (tab (run_task (started_live e (preload t r) course streamID ty url) st)) =
           put r (goes_live e course ty url r) (t_streams (tab st))"
    and "filter viewer_call (wlog (run_task (started_live e (preload t r) course streamID ty url) st)) =
           filter viewer_call (wlog st) @ [ViewersLive i True, CourseWentLive i]"
proof -
  have row: "ID r = i" "DeletedAt r = None" "r \<in> set (t_streams (tab st))"
    using stream_row_ID [OF r] by (auto simp: live_row_def)
  have pre: "ID (preload t r) = i" by (simp add: preload_def row)
  have live: "goes_live e course ty url r =
      (set_source_url ty url (r\<lparr>Private := LivePrivate course \<or> Private r, LiveNowTimestamp := clock (dbe e)\<rparr>))
        \<lparr>LiveNow := True, Recording := False, UpdatedAt := clock (dbe e)\<rparr>"
    by (cases r) (simp add: goes_live_def set_source_url_def)
  have "i \<noteq> 0" "duration_ok r" using ok row by (auto simp: streams_ok_def list_all_iff)
  then show "t_streams (tab (run_task (started_live e (preload t r) course streamID ty url) st)) =
           put r (goes_live e course ty url r) (t_streams (tab st))"
    using f row the_row_unique [OF ok r]
    by (simp add: started_live_def run_task_def Let_def pre sid save_source_url_streams set_timestamp_streams
        SaveStream_streams update_stream_upd upd_row upd_put live_row_def save_fields_written_back live
        set_source_url_def)
  show "filter viewer_call (wlog (run_task (started_live e (preload t r) course streamID ty url) st)) =
           filter viewer_call (wlog st) @ [ViewersLive i True, CourseWentLive i]"
    by (simp add: started_live_def run_task_def Let_def pre)
qed

lemma started_live_steps:
  assumes "fault (dbe e) = (\<lambda>_. None)" and "ID s \<noteq> 0" and "x \<in> set (started_live e s course streamID ty url)"
  shows "t_streams (tab st) = t_streams (tab st') \<Longrightarrow> t_streams (tab (x st)) = t_streams (tab (x st'))"
    and "filter viewer_call (wlog st) = filter viewer_call (wlog st') \<Longrightarrow>
           filter viewer_call (wlog (x st)) = filter viewer_call (wlog (x st'))"
  using assms
  by (auto simp: started_live_def Let_def save_source_url_streams set_timestamp_streams SaveStream_streams update_stream_upd)

lemma started_lights_steps:
  assumes "x \<in> set (started_lights e s)"
  shows "t_streams (tab (x st)) = t_streams (tab st)"
    and "filter viewer_call (wlog (x st)) = filter viewer_call (wlog st)"
  using assms by (auto simp: started_lights_def lights_on_keep DeleteSilences_def exec_def split: option.split)

text \<open>The silences the stream was read with are rows of the table, of this stream.\<close>

definition silences_known :: "Stream \<Rightarrow> wstate \<Rightarrow> bool" where
  "silences_known s st \<longleftrightarrow>
     (\<forall>x \<in> set (Silences s). ID x \<noteq> 0 \<and> (\<exists>r \<in> set (t_silences (tab st)). ID r = ID x) \<and>
        (\<forall>r \<in> set (t_silences (tab st)). ID r = ID x \<longrightarrow> silence_StreamID r = ID s))"

definition no_silences :: "uint \<Rightarrow> wstate \<Rightarrow> bool" where
  "no_silences i st \<longleftrightarrow> (\<forall>x \<in> set (t_silences (tab st)). silence_StreamID x = i \<longrightarrow> \<not> live_row x)"

lemma silences_known_cong:
  "t_silences (tab st) = t_silences (tab st') \<Longrightarrow> silences_known s st \<longleftrightarrow> silences_known s st'"
  "t_silences (tab st) = t_silences (tab st') \<Longrightarrow> no_silences i st \<longleftrightarrow> no_silences i st'"
  by (simp_all add: silences_known_def no_silences_def)

definition deleted_silence :: "gotime \<Rightarrow> uint \<Rightarrow> Silence \<Rightarrow> Silence" where
  "deleted_silence now i x = (if silence_StreamID x = i \<and> live_row x then x\<lparr>DeletedAt := Some now\<rparr> else x)"

lemma deleted_silence_simps [simp]:
  "ID (deleted_silence now i x) = ID x" "silence_StreamID (deleted_silence now i x) = silence_StreamID x"
  "silence_StreamID x = i \<Longrightarrow> \<not> live_row (deleted_silence now i x)"
  by (simp_all add: deleted_silence_def live_row_def)

lemma DeleteSilences_silences:
  "fault d = (\<lambda>_. None) \<Longrightarrow>
     t_silences (snd (DeleteSilences d i t)) = map (deleted_silence (clock d) i) (t_silences t)"
  by (simp add: DeleteSilences_def exec_def deleted_silence_def)

lemma started_steps_silences:
  assumes f: "fault (dbe e) = (\<lambda>_. None)" and "ID s \<noteq> 0"
    and "x \<in> set (started_lights e s) \<union> set (started_live e s course streamID ty url)"
    and "silences_known s st"
  shows "t_silences (tab (x st)) = t_silences (tab st) \<or>
         t_silences (tab (x st)) = t_silences (snd (DeleteSilences (dbe e) (ID s) (tab st)))"
proof (cases "x \<in> set (started_lights e s)")
  case True
  then show ?thesis by (auto simp: started_lights_def lights_on_keep)
next
  case False
  with assms have "t_silences (tab (x st)) = t_silences (tab st)"
    by (auto simp: started_live_def Let_def silences_kept silences_known_def intro!: SaveStream_silences)
  then show ?thesis by simp
qed

lemma DeleteSilences_known:
  assumes f: "fault d = (\<lambda>_. None)" and "t_silences (tab st') = t_silences (snd (DeleteSilences d i (tab st)))"
  shows "silences_known s st \<Longrightarrow> silences_known s st'" and "no_silences i st'"
  using assms(2) by (auto simp: silences_known_def no_silences_def DeleteSilences_silences [OF f])

text \<open>Whatever the order in which the scheduler takes the steps of the two goroutines of
  \<^verbatim>\<open>NotifyStreamStarted\<close>, the stream is written and announced as by the second one alone.\<close>

lemma started_interleaved:
  assumes f: "fault (dbe e) = (\<lambda>_. None)"
    and ok: "streams_ok (tab st)" "stream_row (tab st) (ucast streamID) = Some r" "preload (tab st) r = s"
    and idnz: "ID s \<noteq> 0" and known: "silences_known s st"
    and zs: "zs \<in> shuffles (started_lights e s) (started_live e s course streamID ty url)"
  shows "t_streams (tab (run_task zs st)) = put r (goes_live e course ty url r) (t_streams (tab st)) \<and>
         filter viewer_call (wlog (run_task zs st)) =
           filter viewer_call (wlog st) @ [ViewersLive (ucast streamID) True, CourseWentLive (ucast streamID)] \<and>
         no_silences (ID s) (run_task zs st)"
proof (intro conjI)
  let ?live = "started_live e s course streamID ty url"
  from zs have zs: "zs \<in> shuffles ?live (started_lights e s)" by (simp add: shuffles_commutes)
  note alone = started_live_view [OF f ok(1,2) refl, where course = course and ty = ty and url = url and t = "tab st", unfolded ok(3)]
  have "t_streams (tab (run_task zs st)) = t_streams (tab (run_task ?live st))"
    by (rule shuffle_projection [OF zs, where view = "\<lambda>st. t_streams (tab st)"])
       (erule started_lights_steps(1), erule started_live_steps(1) [OF f idnz], assumption)
  then show "t_streams (tab (run_task zs st)) = put r (goes_live e course ty url r) (t_streams (tab st))"
    using alone(1) by simp
  have "filter viewer_call (wlog (run_task zs st)) = filter viewer_call (wlog (run_task ?live st))"
    by (rule shuffle_projection [OF zs, where view = "\<lambda>st. filter viewer_call (wlog st)"])
       (erule started_lights_steps(2), erule started_live_steps(2) [OF f idnz], assumption)
  then show "filter viewer_call (wlog (run_task zs st)) =
      filter viewer_call (wlog st) @ [ViewersLive (ucast streamID) True, CourseWentLive (ucast streamID)]"
    using alone(2) by simp
  have step: "silences_known s (z st)" "no_silences (ID s) st \<Longrightarrow> no_silences (ID s) (z st)"
    if "z \<in> set ?live \<union> set (started_lights e s)" "silences_known s st" for z st
    using started_steps_silences [OF f idnz, of z course streamID ty url st] that
      DeleteSilences_known [OF f, of "z st" "ID s" st] silences_known_cong [of "z st" st] by auto
  show "no_silences (ID s) (run_task zs st)"
    by (rule shuffle_established [OF zs, where d = "do_db (DeleteSilences (dbe e) (ID s))" and R = "silences_known s"])
       (use known step DeleteSilences_known(2) [OF f] in \<open>auto simp: started_lights_def\<close>)
qed

text \<open>C7: When a worker announces that a stream has started, the two goroutines of the handler end, in
  whatever order their steps are interleaved, in the same table of streams: the stream's row is
  changed as by one atomic step (live, with its address and time, not a recording, private if it was
  or if the course wants it so) and no other row is touched; the viewers are told once, after the
  address is stored; and the silences of an earlier recording are gone, although the stream that is
  saved still holds them.\<close>

theorem stream_goes_live_atomically:
  assumes f: "fault (dbe e) = (\<lambda>_. None)" and ok: "streams_ok (tab st)" and coh: "cache_coherent (tab st)"
    and started: "NotifyStreamStarted e streamID ty url st = (Inr StatusOk, st1, tasks)"
  shows "\<exists>r course t1 t2. tasks = [t1, t2] \<and> stream_row (tab st) (ucast streamID) = Some r \<and>
     found_course (tab st) (CourseID r) = course \<and>
     (\<forall>zs \<in> shuffles t1 t2. let st2 = run_task zs st1 in
        t_streams (tab st2) = put r (goes_live e course ty url r) (t_streams (tab st)) \<and>
        filter viewer_call (wlog st2) = filter viewer_call (wlog st) @ [ViewersLive (ID r) True, CourseWentLive (ID r)] \<and>
        no_silences (ID r) st2)"
proof -
  let ?i = "ucast streamID :: uint"
  obtain s where s: "fst (GetStreamByID (dbe e) ?i (tab st)) = Inr s"
    using started by (cases "fst (GetStreamByID (dbe e) ?i (tab st))") (simp_all add: NotifyStreamStarted_def run_db_def Let_def)
  obtain r where r: "stream_row (tab st) ?i = Some r" "s = preload (tab st) r"
    using GetStreamByID_coherent(2) [OF coh s] by blast
  have row: "ID r = ?i" "r \<in> set (t_streams (tab st))" using stream_row_ID [OF r(1)] by auto
  have s0: "ID s = ?i" "?i \<noteq> 0" "CourseID s = CourseID r"
    using ok row by (auto simp: r(2) preload_def streams_ok_def list_all_iff)
  have st1: "st1 = snd (run_db (GetStreamByID (dbe e) ?i) st)"
    using started s by (auto simp: NotifyStreamStarted_def run_db_def Let_def split: sum.splits)
  have courses: "t_courses (tab st1) = t_courses (tab st)" by (simp add: st1)
  obtain course where c: "found_course (tab st) (CourseID r) = course"
    and tasks: "tasks = [started_lights e s, started_live e s course streamID ty url]"
    using started s s0(3) f courses
    by (auto simp: NotifyStreamStarted_def run_db_def Let_def GetCourseById_def row_query_def found_course_def course_row_def
        split: sum.splits)
  have ok1: "streams_ok (tab st1)" "stream_row (tab st1) ?i = Some r" "preload (tab st1) r = s"
    using ok r by (simp_all add: st1 streams_ok_def stream_row_def preload_def)
  have known: "silences_known s st1"
    using ok row(1) by (auto simp: silences_known_def r(2) preload_def st1 streams_ok_def list_all_iff
        distinct_map inj_on_def)
  show ?thesis
  proof (intro exI conjI ballI)
    show "tasks = [started_lights e s, started_live e s course streamID ty url]" by (rule tasks)
    show "stream_row (tab st) ?i = Some r" by (rule r(1))
    show "found_course (tab st) (CourseID r) = course" by (rule c)
  next
    fix zs assume zs: "zs \<in> shuffles (started_lights e s) (started_live e s course streamID ty url)"
    show "let st2 = run_task zs st1 in
        t_streams (tab st2) = put r (goes_live e course ty url r) (t_streams (tab st)) \<and>
        filter viewer_call (wlog st2) = filter viewer_call (wlog st) @ [ViewersLive (ID r) True, CourseWentLive (ID r)] \<and>
        no_silences (ID r) st2"
      using started_interleaved [OF f ok1 _ known zs] s0 by (simp add: Let_def row(1) st1)
  qed
qed

definition quiet_db :: db_env where
  "quiet_db = \<lparr>clock = 1000 * Second, fault = (\<lambda>_. None), admits = True, best_server = (\<lambda>_. None)\<rparr>"

definition quiet :: wenv where
  "quiet =
     \<lparr>dbe = quiet_db, WorkerToken = ''tok'', new_uuid = ''u1'', power = (\<lambda>_ _ _. None), dialIn = (\<lambda>_. None),
      stream_answer = (\<lambda>_ _. Inr True), premiere_answer = (\<lambda>_ _. Inr True), end_answer = (\<lambda>_ _. Inr True),
      combine_answer = (\<lambda>_ p. Inr p), thumbs_answer = (\<lambda>_. Inr True), preview_answer = (\<lambda>_ _. Inr []),
      delete_answer = (\<lambda>_ _. None), sections_answer = (\<lambda>_. Inr []), preview_file_error = (\<lambda>_. None),
      has_subtitle_client = False, subtitle_answer = (\<lambda>_. None), signer = (\<lambda>_. Inr ''t'')\<rparr>"

definition quiet_course :: Course where
  "quiet_course =
     \<lparr>ID = 3, CreatedAt = 0, UpdatedAt = 0, DeletedAt = None, course_UserID = 1, course_Name = [], Slug = ''gbs'',
      course_Year = 2024, course_TeachingTerm = ''W'', TUMOnlineIdentifier = [], VODEnabled = True,
      DownloadsEnabled = False, course_ChatEnabled = False, AnonymousChatEnabled = False,
      ModeratedChatEnabled = False, VodChatEnabled = False, Visibility = ''public'', Streams = [], Users = [],
      Admins = [], course_Token = [], UserCreatedByToken = False, CameraPresetPreferences = None,
      SourcePreferences = None, Language = None, Pinned = False, LivePrivate = False, VodPrivate = False\<rparr>"

definition quiet_stream :: Stream where
  "quiet_stream = zero_Stream\<lparr>ID := 7, CourseID := 3, Start := 1000 * Second, End := 8000 * Second, StreamKey := ''key''\<rparr>"

definition quiet_silence :: Silence where
  "quiet_silence = \<lparr>ID = 4, CreatedAt = 0, UpdatedAt = 0, DeletedAt = None, silence_Start = 0, silence_End = 9, silence_StreamID = 7\<rparr>"

definition quiet_worker :: Worker where
  "quiet_worker =
     \<lparr>WorkerID = ''w'', Host = ''h'', Status = [], Workload = 0, worker_LastSeen = 1000 * Second, CPU = [], Memory = [],
      Disk = [], Uptime = [], worker_Version = []\<rparr>"

definition quiet_tables :: tables where
  "quiet_tables =
     \<lparr>t_streams = [quiet_stream], t_files = [], t_silences = [quiet_silence], t_workers = [quiet_worker],
      t_stream_workers = [], t_transcoding = [], t_failures = [], t_courses = [quiet_course], t_halls = [],
      t_slots = [], t_upload_keys = [], next_file = 1, next_silence = 5, next_failure = 1,
      stream_cache = Map.empty, live_cache = None\<rparr>"

definition quiet_state :: wstate where
  "quiet_state = \<lparr>tab = quiet_tables, wlog = []\<rparr>"

lemma quiet_facts [simp]:
  "fault (dbe quiet) = (\<lambda>_. None)" "cache_coherent quiet_tables" "tab quiet_state = quiet_tables"
  "wlog quiet_state = []" "streams_ok quiet_tables" "stream_row quiet_tables 7 = Some quiet_stream"
  "course_row quiet_tables 3 = Some quiet_course" "CourseID quiet_stream = 3" "ID quiet_stream = 7"
  "found_course quiet_tables 3 = quiet_course"
  by (simp_all add: found_course_def quiet_def quiet_db_def cache_coherent_def quiet_tables_def quiet_state_def streams_ok_def
      quiet_stream_def quiet_course_def quiet_silence_def zero_Stream_def duration_ok_def stream_row_def
      course_row_def live_row_def)

lemma quiet_get: "\<exists>s st1. run_db (GetStreamByID (dbe quiet) 7) quiet_state = (Inr s, st1) \<and> CourseID s = 3 \<and> t_courses (tab st1) = t_courses quiet_tables"
  by (simp add: run_db_def Let_def GetStreamByID_def row_query_def preload_def quiet_tables_def [THEN arg_cong [where f = stream_cache]])

theorem stream_goes_live_atomically_witness:
  "\<exists>st1 t1 t2. snd (NotifyStreamStarted quiet 7 ''CAM'' ''u'' quiet_state) = (st1, [t1, t2]) \<and>
     (\<forall>zs \<in> shuffles t1 t2. t_streams (tab (run_task zs st1)) = put quiet_stream
        (goes_live quiet quiet_course ''CAM'' ''u'' quiet_stream) [quiet_stream])"
proof -
  obtain s st1 where g: "run_db (GetStreamByID (dbe quiet) 7) quiet_state = (Inr s, st1)" "CourseID s = 3"
    "t_courses (tab st1) = t_courses quiet_tables" using quiet_get by blast
  have "found_course (tab st1) 3 = quiet_course"
    using g(3) quiet_facts(7) by (simp add: found_course_def course_row_def)
  then have started: "NotifyStreamStarted quiet 7 ''CAM'' ''u'' quiet_state =
      (Inr StatusOk, st1, [started_lights quiet s, started_live quiet s quiet_course 7 ''CAM'' ''u''])"
    using g by (simp add: NotifyStreamStarted_def GetCourseById_def row_query_def)
  have "t_streams quiet_tables = [quiet_stream]" by (simp add: quiet_tables_def)
  with started stream_goes_live_atomically [OF _ _ _ started] show ?thesis
    by (fastforce simp: Let_def)
qed

subsection \<open>Recordings\<close>

text \<open>The stream a handler works on: the row of the table with its files and silences.\<close>

lemma GetStreamByID_row:
  assumes "cache_coherent (tab st)" and "streams_ok (tab st)"
    and "run_db (GetStreamByID d i) st = (Inr s, st1)"
  obtains r where "stream_row (tab st) i = Some r" and "s = preload (tab st) r" and "ID r = i" and "i \<noteq> 0"
    and "live_row r" and "duration_ok r" and "the_row i r (t_streams (tab st1))"
    and "t_streams (tab st1) = t_streams (tab st)" and "t_courses (tab st1) = t_courses (tab st)"
    and "t_workers (tab st1) = t_workers (tab st)" and "wlog st1 = wlog st"
    and "t_files (tab st1) = t_files (tab st)"
proof -
  have s: "fst (GetStreamByID d i (tab st)) = Inr s" and st1: "st1 = snd (run_db (GetStreamByID d i) st)"
    using assms(3) by (simp_all add: run_db_def Let_def)
  obtain r where r: "stream_row (tab st) i = Some r" "s = preload (tab st) r"
    using GetStreamByID_coherent(2) [OF assms(1) s] by blast
  note row = stream_row_ID [OF r(1)]
  have "i \<noteq> 0" "duration_ok r" using assms(2) row by (auto simp: streams_ok_def list_all_iff)
  with r row the_row_unique [OF assms(2) r(1)] show ?thesis by (intro that) (simp_all add: st1)
qed

lemma requestSubtitles_tab [simp]: "tab (snd (requestSubtitles e s v st)) = tab st"
  by (simp add: requestSubtitles_def Let_def split: sum.split)

lemma save_recording:
  assumes "duration_ok r" and "url \<noteq> []"
  shows "save_fields now ((preload t r)\<lparr>Recording := True, Private := p, PlaylistUrl := url\<rparr>) r =
           r\<lparr>UpdatedAt := now, PlaylistUrl := url, Recording := True, Private := p \<or> Private r\<rparr>"
    and "save_fields now ((preload t r)\<lparr>Recording := True, Private := p, PlaylistUrlPRES := url\<rparr>) r =
           r\<lparr>UpdatedAt := now, PlaylistUrlPRES := url, Recording := True, Private := p \<or> Private r\<rparr>"
    and "save_fields now ((preload t r)\<lparr>Recording := True, Private := p, PlaylistUrlCAM := url\<rparr>) r =
           r\<lparr>UpdatedAt := now, PlaylistUrlCAM := url, Recording := True, Private := p \<or> Private r\<rparr>"
  using assms by (auto simp: save_fields_def preload_def duration_ok_def Let_def nz_def [of _ url])

definition recorded :: "wenv \<Rightarrow> Course \<Rightarrow> string \<Rightarrow> string \<Rightarrow> Stream \<Rightarrow> Stream" where
  "recorded e course ty url r =
     (set_source_url ty url (r\<lparr>UpdatedAt := clock (dbe e)\<rparr>))\<lparr>Recording := True, Private := VodPrivate course \<or> Private r\<rparr>"

lemma save_uploaded:
  assumes "duration_ok r" and "url \<noteq> []"
  shows "save_fields (clock (dbe e)) (uploaded_stream course ty url (preload t r)) r = recorded e course ty url r"
  by (simp add: uploaded_stream_def source_version_def set_source_url_def version_defs recorded_def
      save_recording [OF assms])

lemma uploaded_stream_ID [simp]: "ID (uploaded_stream course ty url s) = ID s"
  by (simp add: uploaded_stream_def Let_def)

text \<open>What a finished upload stores: a recording with its address in the field of its source. The
  recording is private if the course keeps its recordings private or if the stream already was
  private: a stream that was private while live never becomes public through its upload, because
  the field's zero value is not written.\<close>

lemma upload_stores_a_recording:
  assumes f: "fault (dbe e) = (\<lambda>_. None)" and ok: "streams_ok (tab st)" and coh: "cache_coherent (tab st)"
    and up: "NotifyUploadFinished e worker streamID ty url st = (Inr StatusOk, st')" and url: "url \<noteq> []"
  shows "\<exists>r course. stream_row (tab st) (ucast streamID) = Some r \<and> \<not> LiveNow r \<and>
           found_course (tab st) (CourseID r) = course \<and> worker \<in> WorkerID ` set (t_workers (tab st)) \<and>
           t_streams (tab st') = put r (recorded e course ty url r) (t_streams (tab st)) \<and>
           Recording (recorded e course ty url r) \<and> (Private (recorded e course ty url r) \<longleftrightarrow> VodPrivate course \<or> Private r)"
proof -
  have w: "worker \<in> WorkerID ` set (t_workers (tab st))"
    using up f by (auto simp: NotifyUploadFinished_def GetWorkerByID_def row_query_def dest: find_SomeD split: option.splits)
  obtain s st1 where g: "run_db (GetStreamByID (dbe e) (ucast streamID)) st = (Inr s, st1)"
    using up by (auto simp: NotifyUploadFinished_def split: sum.splits prod.splits)
  obtain r where r: "stream_row (tab st) (ucast streamID) = Some r" "s = preload (tab st) r" "ID r = ucast streamID"
    "(ucast streamID :: uint) \<noteq> 0" "live_row r" "duration_ok r" "the_row (ucast streamID) r (t_streams (tab st1))"
    "t_streams (tab st1) = t_streams (tab st)" "t_courses (tab st1) = t_courses (tab st)"
    by (rule GetStreamByID_row [OF coh ok g])
  have s: "ID s = ID r" "CourseID s = CourseID r" "LiveNow s = LiveNow r" by (simp_all add: r(2) preload_def)
  obtain course where c: "found_course (tab st) (CourseID r) = course" "GetCourseById (dbe e) (CourseID s) (tab st1) = Inr course"
    using up g f r(9) s by (auto simp: NotifyUploadFinished_def GetCourseById_def row_query_def found_course_def course_row_def
        split: sum.splits)
  have live: "\<not> LiveNow r" using up g c s by (auto simp: NotifyUploadFinished_def split: sum.splits)
  have "t_streams (tab st') = t_streams (snd (SaveStream (dbe e) (uploaded_stream course ty url s) (tab st1)))"
    using up g c live s by (auto simp: NotifyUploadFinished_def run_db_def Let_def split: sum.splits option.splits)
  also have "\<dots> = put r (save_fields (clock (dbe e)) (uploaded_stream course ty url s) r) (t_streams (tab st))"
    using f r s by (simp add: SaveStream_streams update_stream_upd upd_row)
  finally show ?thesis using r(1) c(1) live w save_uploaded [OF r(6) url] r(2) by (auto simp: recorded_def)
qed

definition quiet_uploaded :: wstate where
  "quiet_uploaded = snd (NotifyUploadFinished quiet ''w'' 7 ''PRES'' ''u'' quiet_state)"

lemma quiet_upload: "NotifyUploadFinished quiet ''w'' 7 ''PRES'' ''u'' quiet_state = (Inr StatusOk, quiet_uploaded)"
proof -
  have w: "GetWorkerByID (dbe quiet) ''w'' quiet_tables = Inr quiet_worker"
    by (simp add: GetWorkerByID_def row_query_def quiet_tables_def quiet_worker_def)
  obtain s st1 where g: "run_db (GetStreamByID (dbe quiet) 7) quiet_state = (Inr s, st1)" by (metis quiet_get)
  from GetStreamByID_row [OF _ _ g] have "s = preload quiet_tables quiet_stream" "t_courses (tab st1) = t_courses quiet_tables"
    by force+
  then have s: "CourseID s = 3" "\<not> LiveNow s" "ID s = 7" "GetCourseById (dbe quiet) 3 (tab st1) = Inr quiet_course"
    using quiet_facts(7)
    by (simp_all add: preload_def quiet_stream_def zero_Stream_def GetCourseById_def row_query_def found_course_def course_row_def)
  have "fst (SaveStream (dbe quiet) (uploaded_stream quiet_course ''PRES'' ''u'' s) (tab st1)) = None"
    by (rule SaveStream_streams) (simp_all add: s)
  moreover have "fst (GetStreamByID (dbe quiet) 7 quiet_tables) = Inr s"
    "snd (run_db (GetStreamByID (dbe quiet) 7) quiet_state) = st1"
    using g worker_run_db_simps(1) [of "GetStreamByID (dbe quiet) 7" quiet_state] by simp_all
  ultimately show ?thesis
    by (simp add: quiet_uploaded_def NotifyUploadFinished_def w s case_prod_beta Let_def)
qed

lemma upload_stores_a_recording_witness:
  "t_streams (tab quiet_uploaded) = [recorded quiet quiet_course ''PRES'' ''u'' quiet_stream]"
proof -
  have "t_streams quiet_tables = [quiet_stream]" by (simp add: quiet_tables_def)
  with upload_stores_a_recording [OF _ _ _ quiet_upload] show ?thesis by (simp add: put_def)
qed

text \<open>A transcoding that reports a duration erases the stored one: the value is saved without being
  marked valid, so the column becomes NULL. The file is added once, however often the worker
  reports it.\<close>

lemma transcoding_erases_the_duration:
  assumes f: "fault (dbe e) = (\<lambda>_. None)" and ok: "streams_ok (tab st)" and coh: "cache_coherent (tab st)"
    and fin: "NotifyTranscodingFinished e worker streamID ty path dur st = (Inr StatusOk, st')" and dur: "dur \<noteq> 0"
  shows "(\<exists>r. stream_row (tab st) (ucast streamID) = Some r \<and>
           t_streams (tab st') = put r (r\<lparr>UpdatedAt := clock (dbe e), Duration := \<lparr>Int32 = 0, Valid = False\<rparr>\<rparr>) (t_streams (tab st))) \<and>
         (\<exists>s. fst (GetStreamByID (dbe e) (ucast streamID) (tab st)) = Inr s \<and>
           length (filter (\<lambda>f. Path f = path) (Files (transcoded_stream path dur s))) =
             max 1 (length (filter (\<lambda>f. Path f = path) (Files s))))"
proof -
  obtain s st1 where g: "run_db (GetStreamByID (dbe e) (ucast streamID)) st = (Inr s, st1)"
    using fin by (auto simp: NotifyTranscodingFinished_def split: sum.splits prod.splits)
  obtain r where r: "stream_row (tab st) (ucast streamID) = Some r" "s = preload (tab st) r" "ID r = ucast streamID"
    "(ucast streamID :: uint) \<noteq> 0" "live_row r" "duration_ok r" "the_row (ucast streamID) r (t_streams (tab st1))"
    "t_streams (tab st1) = t_streams (tab st)"
    by (rule GetStreamByID_row [OF coh ok g])
  have sid: "ID s = ID r" by (simp add: r(2) preload_def)
  have ts: "t_streams (snd (RemoveTranscodingProgress (dbe e) ty i t)) = t_streams t" for i t
    by (simp add: RemoveTranscodingProgress_def exec_def f)
  have "ID (transcoded_stream path dur s) = ID s" by (simp add: transcoded_stream_def Let_def)
  moreover have "save_fields (clock (dbe e)) (transcoded_stream path dur s) r =
      r\<lparr>UpdatedAt := clock (dbe e), Duration := \<lparr>Int32 = 0, Valid = False\<rparr>\<rparr>"
    using dur by (simp add: transcoded_stream_def save_fields_def r(2) preload_def Let_def nz_def [of _ "\<lparr>Int32 = dur, Valid = False\<rparr>"])
  moreover have "t_streams (tab st') = t_streams (snd (SaveStream (dbe e) (transcoded_stream path dur s)
      (snd (RemoveTranscodingProgress (dbe e) ty (ID s) (tab st1)))))"
    using fin g by (auto simp: NotifyTranscodingFinished_def run_db_def do_db_def Let_def split: sum.splits option.splits)
  ultimately have "t_streams (tab st') =
      put r (r\<lparr>UpdatedAt := clock (dbe e), Duration := \<lparr>Int32 = 0, Valid = False\<rparr>\<rparr>) (t_streams (tab st))"
    using f r sid by (simp add: SaveStream_streams update_stream_upd upd_row ts)
  moreover have "fst (GetStreamByID (dbe e) (ucast streamID) (tab st)) = Inr s" using g by (simp add: run_db_def Let_def)
  moreover have "length (filter (\<lambda>f. Path f = path) (Files (transcoded_stream path dur s))) =
             max 1 (length (filter (\<lambda>f. Path f = path) (Files s)))"
    by (auto simp: transcoded_stream_def Let_def list_ex_iff new_file_def filter_empty_conv max_def Suc_le_eq)
  ultimately show ?thesis using r(1) by blast
qed

definition quiet_transcoded :: wstate where
  "quiet_transcoded = snd (NotifyTranscodingFinished quiet ''w'' 7 ''CAM'' ''f.mp4'' 60 quiet_state)"

lemma transcoding_erases_the_duration_witness:
  "Duration (hd (t_streams (tab quiet_transcoded))) = \<lparr>Int32 = 0, Valid = False\<rparr>"
proof -
  have w: "GetWorkerByID (dbe quiet) ''w'' quiet_tables = Inr quiet_worker"
    by (simp add: GetWorkerByID_def row_query_def quiet_tables_def quiet_worker_def)
  obtain s st1 where g: "run_db (GetStreamByID (dbe quiet) 7) quiet_state = (Inr s, st1)" by (metis quiet_get)
  from GetStreamByID_row [OF _ _ g] have "s = preload quiet_tables quiet_stream" by force
  then have s: "ID (transcoded_stream p d s) = 7" for p d
    by (simp add: preload_def quiet_stream_def transcoded_stream_def Let_def)
  have "fst (SaveStream (dbe quiet) (transcoded_stream ''f.mp4'' 60 s) t) = None" for t
    by (rule SaveStream_streams) (simp_all add: s)
  moreover have "fst (GetStreamByID (dbe quiet) 7 quiet_tables) = Inr s"
    using g worker_run_db_simps(1) [of "GetStreamByID (dbe quiet) 7" quiet_state] by simp
  ultimately have "NotifyTranscodingFinished quiet ''w'' 7 ''CAM'' ''f.mp4'' 60 quiet_state = (Inr StatusOk, quiet_transcoded)"
    by (simp add: quiet_transcoded_def NotifyTranscodingFinished_def w case_prod_beta Let_def)
  from transcoding_erases_the_duration [THEN conjunct1, OF _ _ _ this]
  obtain now where "t_streams (tab quiet_transcoded) =
      put quiet_stream (quiet_stream\<lparr>UpdatedAt := now, Duration := \<lparr>Int32 = 0, Valid = False\<rparr>\<rparr>) (t_streams quiet_tables)"
    by auto
  then show ?thesis by (simp add: quiet_tables_def put_def)
qed

subsection \<open>Who may publish a self-stream\<close>

lemma first_freed_in: "first_freed ss = Some s \<Longrightarrow> s \<in> set ss \<and> (\<forall>s' \<in> set ss. FreedAt s \<le> FreedAt s')"
proof (induction ss arbitrary: s)
  case (Cons a ss)
  then show ?case
  proof (cases "first_freed ss")
    case None
    then have "ss = []" by (cases ss) (auto split: option.splits)
    with Cons.prems show ?thesis by simp
  next
    case (Some s')
    with Cons.IH [OF this] Cons.prems show ?thesis by (auto split: if_splits intro: order.trans)
  qed
qed simp

text \<open>C13: A worker is allowed to publish a self-stream only if it is registered, knows the stream's key,
  names the stream by its course's slug and its number, and comes at most 30 minutes before the
  start and at most 30 minutes after the end. The stream then holds a slot that was free, the one
  of its server that was freed first, and no other slot is touched.\<close>

theorem self_stream_is_admitted:
  assumes "fault (dbe e) = (\<lambda>_. None)"
    and "SendSelfStreamRequest e worker key slug st = (Inr resp, st')"
  shows "worker \<in> WorkerID ` set (t_workers (tab st)) \<and> key \<noteq> [] \<and>
     (\<exists>stream course srv slot. stream \<in> set (t_streams (tab st)) \<and> live_row stream \<and> StreamKey stream = key \<and>
        found_course (tab st) (CourseID stream) = course \<and> slug = Slug course @ ''-'' @ uint_str (ID stream) \<and>
        Start stream - 30 * Minute < clock (dbe e) \<and> clock (dbe e) < End stream + 30 * Minute \<and>
        best_server (dbe e) (tab st) = Some srv \<and> slot \<in> set (t_slots (tab st)) \<and> slot_StreamID slot = None \<and>
        IngestServerID slot = ID srv \<and> ss_StreamName resp = slot_StreamName slot \<and>
        (\<forall>s \<in> set (free_slots False (ID srv) (tab st)). FreedAt slot \<le> FreedAt s) \<and>
        t_slots (tab st') = map (\<lambda>r. if ID r = ID slot
          then slot\<lparr>slot_StreamID := Some (ID stream), UpdatedAt := clock (dbe e)\<rparr> else r) (t_slots (tab st)))"
proof -
  from assms have w: "worker \<in> WorkerID ` set (t_workers (tab st))" "key \<noteq> []"
    by (auto simp: SendSelfStreamRequest_def Let_def GetWorkerByID_def row_query_def dest: find_SomeD
        split: sum.splits if_splits option.splits)
  from assms obtain stream where s: "List.find (\<lambda>s. StreamKey s = key \<and> live_row s) (t_streams (tab st)) = Some stream"
    by (auto simp: SendSelfStreamRequest_def Let_def GetStreamByKey_def row_query_def split: sum.splits if_splits option.splits)
  then have key: "GetStreamByKey (dbe e) key (tab st) = Inr stream" using assms(1) by (simp add: GetStreamByKey_def row_query_def)
  define course where c: "course = found_course (tab st) (CourseID stream)"
  then have course: "GetCourseById (dbe e) (CourseID stream) (tab st) = Inr course" using assms(1) by (simp add: GetCourseById_def row_query_def)
  with assms key have slug: "slug = Slug course @ ''-'' @ uint_str (ID stream)"
    "Start stream - 30 * Minute < clock (dbe e)" "clock (dbe e) < End stream + 30 * Minute"
    by (auto simp: SendSelfStreamRequest_def Let_def stream_slug_def split: sum.splits if_splits)
  from assms key course obtain srv where srv: "best_server (dbe e) (tab st) = Some srv"
    by (auto simp: SendSelfStreamRequest_def Let_def GetBestIngestServer_def row_query_def split: sum.splits if_splits option.splits)
  then have server: "GetBestIngestServer (dbe e) (tab st) = Inr srv" using assms(1) by (simp add: GetBestIngestServer_def row_query_def)
  with assms key course obtain slot where slot: "first_freed (free_slots False (ID srv) (tab st)) = Some slot"
    by (auto simp: SendSelfStreamRequest_def Let_def GetStreamSlot_def row_query_def split: sum.splits if_splits option.splits)
  then have free: "GetStreamSlot (dbe e) (ID srv) (tab st) = Inr slot" using assms(1) by (simp add: GetStreamSlot_def row_query_def)
  have slots: "slot \<in> set (t_slots (tab st))" "slot_StreamID slot = None" "IngestServerID slot = ID srv"
    "\<forall>s \<in> set (free_slots False (ID srv) (tab st)). FreedAt slot \<le> FreedAt s"
    using first_freed_in [OF slot] by (auto simp: free_slots_def)
  have "ss_StreamName resp = slot_StreamName slot \<and> t_slots (tab st') = map (\<lambda>r. if ID r = ID slot
          then slot\<lparr>slot_StreamID := Some (ID stream), UpdatedAt := clock (dbe e)\<rparr> else r) (t_slots (tab st))"
    using assms key course server free
    by (auto simp: SendSelfStreamRequest_def Let_def SaveSlot_def exec_def split: sum.splits if_splits)
  with w s c slug srv slots find_SomeD [OF s] show ?thesis by blast
qed

definition quiet_server :: IngestServer where
  "quiet_server = \<lparr>ID = 2, CreatedAt = 0, UpdatedAt = 0, DeletedAt = None, Url = ''rtmp://i'', OutUrl = ''o'', server_Workload = 0\<rparr>"

definition quiet_slot :: StreamSlot where
  "quiet_slot = \<lparr>ID = 8, CreatedAt = 0, UpdatedAt = 0, DeletedAt = None, slot_StreamName = ''s1'', IsTranscoding = False,
     IngestServerID = 2, slot_StreamID = None, FreedAt = 0\<rparr>"

definition ingest :: wenv where
  "ingest = quiet\<lparr>dbe := quiet_db\<lparr>best_server := \<lambda>_. Some quiet_server\<rparr>\<rparr>"

definition ingest_state :: wstate where
  "ingest_state = quiet_state\<lparr>tab := quiet_tables\<lparr>t_slots := [quiet_slot]\<rparr>\<rparr>"

theorem self_stream_is_admitted_witness:
  "\<exists>resp st'. SendSelfStreamRequest ingest ''w'' ''key'' ''gbs-7'' ingest_state = (Inr resp, st') \<and>
     ss_StreamName resp = ''s1''"
proof -
  have slug: "uint_str 7 = ''7''" by (simp add: uint_str_def nat_digits.simps digit_char_def char_of_def bit_0)
  obtain resp st' where r: "SendSelfStreamRequest ingest ''w'' ''key'' ''gbs-7'' ingest_state = (Inr resp, st')"
    by (simp add: SendSelfStreamRequest_def ingest_def ingest_state_def quiet_def quiet_db_def quiet_state_def
        quiet_tables_def GetWorkerByID_def row_query_def quiet_worker_def GetStreamByKey_def quiet_stream_def
        zero_Stream_def live_row_def GetCourseById_def found_course_def course_row_def quiet_course_def stream_slug_def slug
        GetBestIngestServer_def GetStreamSlot_def free_slots_def quiet_slot_def quiet_server_def Let_def
        Second_def Minute_def)
  have "fault (dbe ingest) = (\<lambda>_. None)" by (simp add: ingest_def quiet_db_def)
  from self_stream_is_admitted [OF this r] have "ss_StreamName resp = ''s1''"
    by (auto simp: ingest_state_def quiet_slot_def)
  with r show ?thesis by blast
qed

subsection \<open>Which worker gets a stream\<close>

lemma least_workload:
  assumes "ws \<noteq> []"
  shows "getWorkerWithLeastWorkload ws < length ws"
    and "i < length ws \<Longrightarrow> Workload (ws ! getWorkerWithLeastWorkload ws) \<le> Workload (ws ! i)"
    and "i < getWorkerWithLeastWorkload ws \<Longrightarrow> Workload (ws ! getWorkerWithLeastWorkload ws) < Workload (ws ! i)"
proof -
  define best where "best n = foldl (least_step ws) 0 [0..<n]" for n
  have "n \<le> length ws \<Longrightarrow> 0 < n \<Longrightarrow> best n < n \<and> (\<forall>i < n. Workload (ws ! best n) \<le> Workload (ws ! i)) \<and>
      (\<forall>i < best n. Workload (ws ! best n) < Workload (ws ! i))" for n
  proof (induction n)
    case (Suc n)
    show ?case
    proof (cases "n = 0")
      case True
      then show ?thesis by (simp add: best_def least_step_def)
    next
      case False
      with Suc have ih: "best n < n" "\<forall>i < n. Workload (ws ! best n) \<le> Workload (ws ! i)"
        "\<forall>i < best n. Workload (ws ! best n) < Workload (ws ! i)" by auto
      have "best (Suc n) = (if Workload (ws ! n) < Workload (ws ! best n) then n else best n)"
        by (simp add: best_def least_step_def)
      with ih show ?thesis by (auto simp: less_Suc_eq not_less intro: order.strict_trans2 order.strict_implies_order)
    qed
  qed simp
  from this [of "length ws"] assms show
    "getWorkerWithLeastWorkload ws < length ws"
    "i < length ws \<Longrightarrow> Workload (ws ! getWorkerWithLeastWorkload ws) \<le> Workload (ws ! i)"
    "i < getWorkerWithLeastWorkload ws \<Longrightarrow> Workload (ws ! getWorkerWithLeastWorkload ws) < Workload (ws ! i)"
    by (simp_all add: best_def getWorkerWithLeastWorkload_def)
qed

lemma add_load_simps [simp]:
  "length (add_load d i ws) = length ws" "map WorkerID (add_load d i ws) = map WorkerID ws"
  "i < length ws \<Longrightarrow> add_load d i ws ! i = (ws ! i)\<lparr>Workload := Workload (ws ! i) + d\<rparr>"
proof -
  show "map WorkerID (add_load d i ws) = map WorkerID ws"
    by (cases "i < length ws") (simp_all add: add_load_def map_update list_update_same_conv list_update_beyond)
qed (simp_all add: add_load_def)

lemma add_load_twice: "i < length ws \<Longrightarrow> add_load c i (add_load d i ws) = add_load (d + c) i ws"
  by (simp add: add_load_def add.assoc)

lemma least_loaded_worker_calls:
  assumes "ws \<noteq> []"
  shows "\<exists>ws' st' cs. CreateStreamRequest e s course ty source (ws, st) = Returns (ws', st') \<and> wlog st' = wlog st @ cs \<and>
     (let i = getWorkerWithLeastWorkload ws; w = add_load 3 i ws ! i in
        i < length ws \<and> (cs = [] \<or> source \<noteq> [] \<and> (\<exists>req. cs = [RequestStream w req, CloseConnection w] \<and>
           rq_StreamID req = ucast (ID s) \<and> SourceType req = ty \<and> SourceUrl req = source \<and> rq_WorkerId req = WorkerID (ws ! i))) \<and>
        (ws' = ws \<and> cs = [] \<or> ws' = add_load 3 i ws \<or> ws' = add_load 2 i ws))"
proof -
  let ?i = "getWorkerWithLeastWorkload ws"
  note i = least_workload [OF assms]
  have two: "add_load (- 1) ?i (add_load 3 ?i ws) = add_load 2 ?i ws" using i(1) by (simp add: add_load_twice)
  have get: "slice_get ws ?i = Returns (ws ! ?i)" using i(1) by (simp add: slice_get_def)
  show ?thesis
    using i(1)
    by (auto simp: CreateStreamRequest_def Let_def get two run_db_def stream_request_def call_def
        split: sum.split intro!: exI)
qed

text \<open>Handing a stream to the workers never panics while there is a worker. A stream without a source
  is not handed out. Otherwise at most one worker is asked: the first of those with the least
  workload; it is charged with 3, or 2 when it cannot be reached or refuses, and nobody else's
  workload changes.\<close>

lemma least_loaded_worker_is_asked:
  assumes "ws \<noteq> []"
  shows "\<exists>ws' st' cs. CreateStreamRequest e s course ty source (ws, st) = Returns (ws', st') \<and> wlog st' = wlog st @ cs \<and>
     (let i = getWorkerWithLeastWorkload ws; w = add_load 3 i ws ! i in
        i < length ws \<and> (\<forall>j < length ws. Workload (ws ! i) \<le> Workload (ws ! j)) \<and>
        (\<forall>j < i. Workload (ws ! i) < Workload (ws ! j)) \<and>
        (cs = [] \<or> source \<noteq> [] \<and> (\<exists>req. cs = [RequestStream w req, CloseConnection w] \<and>
           rq_StreamID req = ucast (ID s) \<and> SourceType req = ty \<and> SourceUrl req = source \<and> rq_WorkerId req = WorkerID (ws ! i))) \<and>
        (ws' = ws \<and> cs = [] \<or> ws' = add_load 3 i ws \<or> ws' = add_load 2 i ws))"
  using least_workload [OF assms] least_loaded_worker_calls [OF assms, of e s course ty source st]
  by (simp only: Let_def) metis

definition quiet_worker2 :: Worker where
  "quiet_worker2 = quiet_worker\<lparr>WorkerID := ''v'', Workload := 5\<rparr>"

lemma least_loaded_worker_is_asked_witness:
  "\<exists>ws' st' cs. CreateStreamRequest ingest quiet_stream quiet_course ''PRES'' ''rtsp://x'' ([quiet_worker2, quiet_worker], ingest_state) =
     Returns (ws', st') \<and> (\<forall>w req. RequestStream w req \<in> set cs \<longrightarrow> WorkerID w = ''w'') \<and> wlog st' = wlog ingest_state @ cs"
proof -
  let ?ws = "[quiet_worker2, quiet_worker]"
  have i: "getWorkerWithLeastWorkload ?ws = 1"
    by (simp add: getWorkerWithLeastWorkload_def least_step_def quiet_worker2_def quiet_worker_def)
  from least_loaded_worker_is_asked [of ?ws ingest quiet_stream quiet_course "''PRES''" "''rtsp://x''" ingest_state]
  obtain ws' st' cs where r: "CreateStreamRequest ingest quiet_stream quiet_course ''PRES'' ''rtsp://x'' (?ws, ingest_state) = Returns (ws', st')"
    "wlog st' = wlog ingest_state @ cs"
    and cs: "cs = [] \<or> (\<exists>req. cs = [RequestStream (add_load 3 1 ?ws ! 1) req, CloseConnection (add_load 3 1 ?ws ! 1)])"
    unfolding i Let_def by blast
  have "WorkerID (add_load 3 1 ?ws ! 1) = ''w''" by (simp add: add_load_def quiet_worker_def)
  with cs have "\<forall>w req. RequestStream w req \<in> set cs \<longrightarrow> WorkerID w = ''w''" by auto
  with r show ?thesis by blast
qed

subsection \<open>Which streams are handed out\<close>

text \<open>The calls that are added, and the property of each.\<close>

definition adds_calls :: "(wcall \<Rightarrow> bool) \<Rightarrow> wstate \<Rightarrow> wstate \<Rightarrow> bool" where
  "adds_calls P st st' \<longleftrightarrow> (\<exists>cs. wlog st' = wlog st @ cs \<and> list_all P cs)"

lemma adds_calls_refl [simp]: "wlog st = wlog st' \<Longrightarrow> adds_calls P st st'"
  by (simp add: adds_calls_def)

lemma adds_calls_trans: "adds_calls P a b \<Longrightarrow> adds_calls P b c \<Longrightarrow> adds_calls P a c"
  by (auto simp: adds_calls_def)

lemma adds_calls_mono: "adds_calls P st st' \<Longrightarrow> (\<And>c. P c \<Longrightarrow> Q c) \<Longrightarrow> adds_calls Q st st'"
  unfolding adds_calls_def using list.pred_mono_strong by blast

fun stream_call :: "string set \<Rightarrow> Stream set \<Rightarrow> wcall \<Rightarrow> bool" where
  "stream_call ids ss (RequestStream w req) \<longleftrightarrow> WorkerID w \<in> ids \<and> (\<exists>s \<in> ss. rq_StreamID req = ucast (ID s)) \<and> SourceUrl req \<noteq> []"
| "stream_call ids ss (CloseConnection w) \<longleftrightarrow> WorkerID w \<in> ids"
| "stream_call ids ss (RequestPremiere w i p u out) \<longleftrightarrow> False"
| "stream_call ids ss c \<longleftrightarrow> False"

lemma WorkerIDs: "map WorkerID ws' = map WorkerID ws \<Longrightarrow> WorkerID ` set ws' = WorkerID ` set ws"
  by (metis image_set)

lemma CreateStreamRequest_calls:
  assumes "ws \<noteq> []"
  obtains ws' st' where "CreateStreamRequest e s course ty source (ws, st) = Returns (ws', st')"
    and "map WorkerID ws' = map WorkerID ws" and "adds_calls (stream_call (WorkerID ` set ws) {s}) st st'"
proof -
  obtain ws' st' cs where r: "CreateStreamRequest e s course ty source (ws, st) = Returns (ws', st')" "wlog st' = wlog st @ cs"
    and c: "let i = getWorkerWithLeastWorkload ws; w = add_load 3 i ws ! i in i < length ws \<and>
        (cs = [] \<or> source \<noteq> [] \<and> (\<exists>req. cs = [RequestStream w req, CloseConnection w] \<and>
           rq_StreamID req = ucast (ID s) \<and> SourceUrl req = source)) \<and>
        (ws' = ws \<and> cs = [] \<or> ws' = add_load 3 i ws \<or> ws' = add_load 2 i ws)"
    using least_loaded_worker_calls [OF assms, of e s course ty source st] by metis
  then have "map WorkerID ws' = map WorkerID ws" "list_all (stream_call (WorkerID ` set ws) {s}) cs"
    by (auto simp: Let_def)
  with r that show ?thesis by (auto simp: adds_calls_def)
qed

lemma next_sources_calls:
  assumes "ws \<noteq> []"
  shows "\<exists>ws' st'. foldl (next_source e s course) (Returns (ws, st)) srcs = Returns (ws', st') \<and>
           map WorkerID ws' = map WorkerID ws \<and> adds_calls (stream_call (WorkerID ` set ws) {s}) st st'"
  using assms
proof (induction srcs arbitrary: ws st)
  case (Cons src srcs)
  obtain ty source where src: "src = (ty, source)" by (cases src)
  obtain ws1 st1 where 1: "CreateStreamRequest e s course ty source (ws, st) = Returns (ws1, st1)"
    "map WorkerID ws1 = map WorkerID ws" "adds_calls (stream_call (WorkerID ` set ws) {s}) st st1"
    by (rule CreateStreamRequest_calls [OF Cons.prems])
  have "ws1 \<noteq> []" using 1(2) Cons.prems by auto
  from Cons.IH [OF this, of st1] obtain ws' st' where
    2: "foldl (next_source e s course) (Returns (ws1, st1)) srcs = Returns (ws', st')"
      "map WorkerID ws' = map WorkerID ws1" "adds_calls (stream_call (WorkerID ` set ws1) {s}) st1 st'" by blast
  have "foldl (next_source e s course) (Returns (ws, st)) (src # srcs) = Returns (ws', st')"
    using 2(1) by (simp add: src next_source_def 1(1))
  with 1 2 WorkerIDs [OF 1(2)] show ?case by (metis adds_calls_trans)
qed auto

lemma notify_loop_calls:
  assumes "ws \<noteq> []"
  shows "\<exists>ws' st'. notify_loop e ss (ws, st) = Returns (ws', st') \<and> adds_calls (stream_call (WorkerID ` set ws) (set ss)) st st'"
  using assms
proof (induction ss arbitrary: ws st)
  case Nil
  then show ?case by auto
next
  case (Cons s ss)
  let ?P = "\<lambda>S. stream_call (WorkerID ` set ws) S"
  obtain err st0 where 0: "run_db (SaveEndedState (dbe e) (ID s) False) st = (err, st0)" by fastforce
  have log0: "wlog st0 = wlog st" using 0 by (auto simp: run_db_pair)
  have mono: "?P S c \<Longrightarrow> S \<subseteq> T \<Longrightarrow> ?P T c" for S T c by (cases c) auto
  have skip: "\<exists>ws' st'. notify_loop e ss (ws, st0) = Returns (ws', st') \<and> adds_calls (?P (set (s # ss))) st st'"
  proof -
    obtain ws' st' where "notify_loop e ss (ws, st0) = Returns (ws', st')" "adds_calls (?P (set ss)) st0 st'"
      using Cons by blast
    moreover from this(2) have "adds_calls (?P (set (s # ss))) st st'"
      using adds_calls_mono [of "?P (set ss)" st0 st' "?P (set (s # ss))"] mono log0
      by (metis adds_calls_refl adds_calls_trans set_subset_Cons)
    ultimately show ?thesis by blast
  qed
  have one: "\<exists>ws' st'. CreateStreamRequest e s course ty source (ws, st0) = Returns (ws', st') \<and> adds_calls (?P (set (s # ss))) st st'"
    for course ty source
  proof -
    obtain ws' st' where "CreateStreamRequest e s course ty source (ws, st0) = Returns (ws', st')" "adds_calls (?P {s}) st0 st'"
      by (rule CreateStreamRequest_calls [OF Cons.prems])
    moreover from this(2) have "adds_calls (?P (set (s # ss))) st st'"
      using adds_calls_mono [of "?P {s}" st0 st' "?P (set (s # ss))"] mono [of "{s}"] log0
      by (simp add: adds_calls_def)
    ultimately show ?thesis by blast
  qed
  have all: "\<exists>ws' st'. outcome_bind (foldl (next_source e s course) (Returns (ws, st0)) srcs) (notify_loop e ss) = Returns (ws', st') \<and>
      adds_calls (?P (set (s # ss))) st st'" for course srcs
  proof -
    obtain ws1 st1 where 1: "foldl (next_source e s course) (Returns (ws, st0)) srcs = Returns (ws1, st1)"
      "map WorkerID ws1 = map WorkerID ws" "adds_calls (?P {s}) st0 st1"
      using next_sources_calls [OF Cons.prems] by blast
    have "ws1 \<noteq> []" using 1(2) Cons.prems by auto
    from Cons.IH [OF this, of st1] obtain ws' st' where
      2: "notify_loop e ss (ws1, st1) = Returns (ws', st')" "adds_calls (?P (set ss)) st1 st'"
      using WorkerIDs [OF 1(2)] by auto
    have "adds_calls (?P (set (s # ss))) st0 st'"
    proof (rule adds_calls_trans)
      show "adds_calls (?P (set (s # ss))) st0 st1" by (rule adds_calls_mono [OF 1(3)]) (erule mono, simp)
      show "adds_calls (?P (set (s # ss))) st1 st'" by (rule adds_calls_mono [OF 2(2)]) (erule mono, auto)
    qed
    with 1(1) 2(1) log0 show ?thesis by (simp add: adds_calls_def)
  qed
  show ?case
    using skip one all by (simp add: 0 Let_def del: foldl_Cons foldl_Nil split: sum.split)
qed

fun premiere_call :: "string set \<Rightarrow> Stream set \<Rightarrow> wcall \<Rightarrow> bool" where
  "premiere_call ids ss (RequestPremiere w i p u out) \<longleftrightarrow>
     WorkerID w \<in> ids \<and> (\<exists>s \<in> ss. i = ucast (ID s) \<and> Files s \<noteq> [] \<and> p = Path (hd (Files s)))"
| "premiere_call ids ss (CloseConnection w) \<longleftrightarrow> WorkerID w \<in> ids"
| "premiere_call ids ss c \<longleftrightarrow> False"

lemma premiere_loop_calls:
  assumes "ws \<noteq> []" and "\<forall>w. dialIn e w = None"
  shows "\<exists>st'. premiere_loop e ss (ws, st) = Returns st' \<and> adds_calls (premiere_call (WorkerID ` set ws) (set ss)) st st'"
  using assms(1)
proof (induction ss arbitrary: ws st)
  case Nil
  then show ?case by simp
next
  case (Cons s ss)
  let ?P = "\<lambda>S. premiere_call (WorkerID ` set ws) S"
  obtain err st0 where 0: "run_db (SaveEndedState (dbe e) (ID s) False) st = (err, st0)" by fastforce
  have log0: "wlog st0 = wlog st" using 0 by (auto simp: run_db_pair)
  have mono: "?P S c \<Longrightarrow> S \<subseteq> T \<Longrightarrow> ?P T c" for S T c by (cases c) auto
  have rest: "\<exists>st'. premiere_loop e ss (vs, st1) = Returns st' \<and> adds_calls (?P (set (s # ss))) st st'"
    if vs: "map WorkerID vs = map WorkerID ws" and st1: "adds_calls (?P (set (s # ss))) st st1" for vs st1
  proof -
    have "vs \<noteq> []" using vs Cons.prems by auto
    from Cons.IH [OF this, of st1] obtain st' where 1: "premiere_loop e ss (vs, st1) = Returns st'"
      "adds_calls (?P (set ss)) st1 st'" using WorkerIDs [OF vs] by auto
    have "adds_calls (?P (set (s # ss))) st1 st'" by (rule adds_calls_mono [OF 1(2)]) (erule mono, auto)
    with 1(1) adds_calls_trans [OF st1] show ?thesis by blast
  qed
  let ?i = "getWorkerWithLeastWorkload ws"
  have i: "?i < length ws" "slice_get ws ?i = Returns (ws ! ?i)"
    using least_workload(1) [OF Cons.prems] by (simp_all add: slice_get_def)
  have called: "adds_calls (?P (set (s # ss))) st (call (CloseConnection (add_load 3 ?i ws ! ?i))
      (call (RequestPremiere (add_load 3 ?i ws ! ?i) (ucast (ID s)) (Path (hd (Files s))) u out) st0))"
    if "Files s \<noteq> []" for u out
    using i(1) that by (auto simp: adds_calls_def log0)
  have keep: "map WorkerID (add_load 3 ?i ws) = map WorkerID ws"
    "map WorkerID (add_load (- 1) ?i (add_load 3 ?i ws)) = map WorkerID ws" by simp_all
  show ?case
    using rest [OF refl, of st0] rest [OF keep(1), of st0] rest [OF keep(1) called] rest [OF keep(2) called] assms(2)
    by (simp add: 0 i(2) Let_def log0 split: sum.split)
qed

text \<open>While workers can be dialled, the job that hands out streams never panics. It first asks for
  premieres that are due and have a file, then for the streams that are due in a lecture hall served
  by workers at that moment; every request goes to a worker that has reported within five minutes,
  names a source, and its connection is closed again.\<close>

lemma only_due_streams_are_handed_out:
  assumes "\<forall>w. dialIn e w = None"
  shows "\<exists>st1 st2. notifyWorkersPremieres e st = Returns st1 \<and> NotifyWorkers e st = Returns st2 \<and>
     adds_calls (premiere_call (WorkerID ` set (GetAliveWorkers (dbe e) (tab st)))
                   (set (GetDuePremieresForWorkers (dbe e) (tab st)))) st st1 \<and>
     adds_calls (stream_call (WorkerID ` set (GetAliveWorkers (dbe e) (tab st1)))
                   (set (GetDueStreamsForWorkers (dbe e) (tab st1)))) st1 st2"
proof -
  have "\<exists>st1. notifyWorkersPremieres e st = Returns st1 \<and>
     adds_calls (premiere_call (WorkerID ` set (GetAliveWorkers (dbe e) (tab st)))
                   (set (GetDuePremieresForWorkers (dbe e) (tab st)))) st st1"
  proof (cases "GetAliveWorkers (dbe e) (tab st) = []")
    case True
    then show ?thesis
      by (cases "GetDuePremieresForWorkers (dbe e) (tab st)") (simp_all add: notifyWorkersPremieres_def Let_def)
  next
    case False
    from premiere_loop_calls [OF this assms] show ?thesis by (simp add: notifyWorkersPremieres_def Let_def)
  qed
  then obtain st1 where 1: "notifyWorkersPremieres e st = Returns st1"
    "adds_calls (premiere_call (WorkerID ` set (GetAliveWorkers (dbe e) (tab st)))
                   (set (GetDuePremieresForWorkers (dbe e) (tab st)))) st st1" by blast
  have "\<exists>st2. NotifyWorkers e st = Returns st2 \<and>
     adds_calls (stream_call (WorkerID ` set (GetAliveWorkers (dbe e) (tab st1)))
                   (set (GetDueStreamsForWorkers (dbe e) (tab st1)))) st1 st2"
  proof (cases "GetAliveWorkers (dbe e) (tab st1) = []")
    case True
    then show ?thesis
      by (cases "GetDueStreamsForWorkers (dbe e) (tab st1)") (simp_all add: NotifyWorkers_def 1(1) Let_def)
  next
    case False
    from notify_loop_calls [OF this, of e "GetDueStreamsForWorkers (dbe e) (tab st1)" st1] False
    show ?thesis by (auto simp: NotifyWorkers_def 1(1) Let_def)
  qed
  with 1 show ?thesis by blast
qed

text \<open>
  The loop stops at the first stream whose course shows one source: the streams behind it are not
  even looked at in this run.
\<close>

lemma single_source_stops_the_loop:
  assumes "fst (run_db (SaveEndedState (dbe e) (ID s) False) st) = None"
    and "st1 = snd (run_db (SaveEndedState (dbe e) (ID s) False) st)"
    and "GetCourseById (dbe e) (CourseID s) (tab st1) = Inr course"
    and "GetLectureHallByID (dbe e) (LectureHallID s) (tab st1) = Inr lh"
    and "GetSourceModeForLectureHall course (LectureHallID s) = 1"
  shows "notify_loop e (s # rest) (ws, st) = notify_loop e [s] (ws, st)"
  using assms by (simp add: case_prod_beta Let_def)

lemma only_due_streams_are_handed_out_witness:
  "\<exists>st2. NotifyWorkers quiet quiet_state = Returns st2"
  using only_due_streams_are_handed_out [of quiet quiet_state] by (auto simp: quiet_def)

subsection \<open>The rows of the streams\<close>

text \<open>The same streams, by key and deletion, and no number in a NULL duration.\<close>

definition same_streams :: "tables \<Rightarrow> tables \<Rightarrow> bool" where
  "same_streams t t' \<longleftrightarrow>
     map (\<lambda>s. (ID s, DeletedAt s)) (t_streams t') = map (\<lambda>s. (ID s, DeletedAt s)) (t_streams t) \<and>
     (list_all duration_ok (t_streams t) \<longrightarrow> list_all duration_ok (t_streams t'))"

named_theorems same_intros \<open>the operations that keep the streams\<close>

lemma same_refl [simp]: "same_streams t t"
  by (simp add: same_streams_def)

lemma same_trans: "same_streams a b \<Longrightarrow> same_streams b c \<Longrightarrow> same_streams a c"
  by (simp add: same_streams_def)

lemma same_cong: "t_streams b = t_streams c \<Longrightarrow> same_streams a b \<longleftrightarrow> same_streams a c"
  by (simp add: same_streams_def)

lemma same_clear [simp]: "same_streams a (clear_cache t) \<longleftrightarrow> same_streams a t"
  by (rule same_cong) simp

lemma same_map:
  assumes "same_streams a t" and "t_streams t' = map g (t_streams t)"
    and "\<And>s. ID (g s) = ID s \<and> DeletedAt (g s) = DeletedAt s \<and> (duration_ok s \<longrightarrow> duration_ok (g s))"
  shows "same_streams a t'"
proof -
  have "map (\<lambda>s. (ID s, DeletedAt s)) (t_streams t') = map (\<lambda>s. (ID s, DeletedAt s)) (t_streams t)"
    by (simp add: assms(2,3))
  moreover have "list_all duration_ok (t_streams t) \<Longrightarrow> list_all duration_ok (t_streams t')"
    using assms(3) by (auto simp: assms(2) list_all_iff)
  ultimately show ?thesis using assms(1) by (simp add: same_streams_def)
qed

lemma same_update:
  assumes "same_streams a t" and "\<And>s. ID (f s) = ID s \<and> DeletedAt (f s) = DeletedAt s \<and> (duration_ok s \<longrightarrow> duration_ok (f s))"
  shows "same_streams a (update_stream i f t)"
  by (rule same_map [OF assms(1) update_stream_upd [unfolded upd_def]]) (use assms(2) in auto)

lemma same_exec:
  "same_streams a t \<Longrightarrow> same_streams a (f t) \<Longrightarrow> same_streams a (snd (exec e name f t))"
  by (simp add: exec_def split: option.split)

lemma save_fields_keeps:
  "ID (save_fields now v r) = ID r" "DeletedAt (save_fields now v r) = DeletedAt r"
  "duration_ok (save_fields now v r)"
  by (simp_all add: save_fields_def duration_ok_def Let_def)

lemma same_SaveStream [same_intros]:
  assumes "same_streams a t"
  shows "same_streams a (snd (SaveStream e v t))"
proof -
  have "t_streams (snd (SaveStream e v t)) = t_streams t \<or>
      t_streams (snd (SaveStream e v t)) = t_streams (update_stream (ID v) (save_fields (clock e) v) t)"
    by (cases "ID v = 0"; cases "fault e ''SaveStream''") (simp_all add: SaveStream_def exec_def Let_def split: prod.split)
  moreover have "same_streams a (update_stream (ID v) (save_fields (clock e) v) t)"
    by (rule same_update [OF assms]) (simp add: save_fields_keeps)
  ultimately show ?thesis using assms iffD2 [OF same_cong] by blast
qed

lemma same_live [same_intros]: "same_streams a t \<Longrightarrow> same_streams a (snd (SetStreamNotLiveById e i t))"
proof -
  assume "same_streams a t"
  then have "same_streams a (t\<lparr>t_streams := map (\<lambda>s. if ID s = i then s\<lparr>LiveNow := False\<rparr> else s) (t_streams t)\<rparr>)"
    by (rule same_map [where g = "\<lambda>s. if ID s = i then s\<lparr>LiveNow := False\<rparr> else s"]) (simp_all add: duration_ok_def)
  with \<open>same_streams a t\<close> show ?thesis by (auto simp: SetStreamNotLiveById_def intro!: same_exec)
qed

lemma same_stream_ops [same_intros]:
  assumes "same_streams a t"
  shows "same_streams a (snd (SetStreamLiveNowTimestampById e i ts t))"
    "same_streams a (snd (SaveEndedState e i b t))" "same_streams a (save_source_url e ty s url t)"
    "same_streams a (snd (GetStreamByID e i t))" "same_streams a (snd (GetCurrentLive e t))"
proof -
  show "same_streams a (snd (SetStreamLiveNowTimestampById e i ts t))" "same_streams a (snd (SaveEndedState e i b t))"
    using assms by (auto simp: SetStreamLiveNowTimestampById_def SaveEndedState_def duration_ok_def intro!: same_exec same_update)
  show "same_streams a (save_source_url e ty s url t)"
    using assms by (auto simp: save_source_url_def SaveCAMURL_def SavePRESURL_def SaveCOMBURL_def save_url_def duration_ok_def
        intro!: same_exec same_update)
  show "same_streams a (snd (GetStreamByID e i t))" using assms by (rule iffD2 [OF same_cong, rotated]) simp
  have "t_streams (snd (GetCurrentLive e t)) = t_streams t"
    by (simp add: GetCurrentLive_def Let_def split: option.split sum.split)
  then show "same_streams a (snd (GetCurrentLive e t))" using assms iffD2 [OF same_cong] by blast
qed

text \<open>The other tables.\<close>

lemma other_tables:
  "t_streams (snd (UpdateSilences e xs i t)) = t_streams t" "t_streams (snd (DeleteSilences e i t)) = t_streams t"
  "t_streams (snd (SaveTranscodingProgress e p t)) = t_streams t"
  "t_streams (snd (RemoveTranscodingProgress e v i t)) = t_streams t" "t_streams (snd (SetThumbnail e i f t)) = t_streams t"
  "t_streams (snd (NewFile e f t)) = t_streams t" "t_streams (snd (CreateWorker e w t)) = t_streams t"
  "t_streams (snd (SaveWorker e w t)) = t_streams t" "t_streams (snd (SaveWorkerForStream e i w t)) = t_streams t"
  "t_streams (snd (ClearWorkersForStream e i t)) = t_streams t" "t_streams (SaveSlot e sl t) = t_streams t"
  "t_streams (snd (RemoveStreamFromSlot e i t)) = t_streams t" "t_streams (snd (DeleteUploadKey e k t)) = t_streams t"
  "t_streams (snd (TranscodingFailure_New e tf t)) = t_streams t"
  by (auto simp: UpdateSilences_def DeleteSilences_def SaveTranscodingProgress_def RemoveTranscodingProgress_def
      SetThumbnail_def NewFile_def CreateWorker_def SaveWorker_def SaveWorkerForStream_def ClearWorkersForStream_def
      SaveSlot_def RemoveStreamFromSlot_def DeleteUploadKey_def TranscodingFailure_New_def exec_def Let_def case_prod_beta
      split: option.split)

lemmas same_others [same_intros] = other_tables [THEN iffD2 [OF same_cong]]

end
