(* ===== verification/Worker_Steps.thy ===== *)
theory Worker_Steps
  imports Worker_Props
begin

text \<open>
  The worker interface as a whole: every remote call, every step of a goroutine and every job is a
  step of one relation over the state of the server. The invariant says that no step creates,
  deletes or renumbers a stream.
\<close>

inductive worker_step :: "wstate \<Rightarrow> wstate \<Rightarrow> bool" where
  join_step: "worker_step st (snd (JoinWorkers e token host st))"
| beat_step: "worker_step st (snd (SendHeartBeat e beat st))"
| silence_step: "NotifySilenceResults e w i starts ends st = Returns (res, st') \<Longrightarrow> worker_step st st'"
| self_step: "worker_step st (snd (SendSelfStreamRequest e w key slug st))"
| start_step: "worker_step st (snd (NotifyStreamStart e w i ty url st))"
| started_step: "worker_step st (fst (snd (NotifyStreamStarted e i ty url st)))"
| finished_step: "worker_step st (fst (snd (NotifyStreamFinished e w i st)))"
| transcoded_step: "worker_step st (snd (NotifyTranscodingFinished e w i ty path dur st))"
| failure_step: "worker_step st (snd (NotifyTranscodingFailure e w i logs code path ver st))"
| progress_step: "worker_step st (snd (NotifyTranscodingProgress e ps st))"
| upload_step: "worker_step st (snd (NotifyUploadFinished e w i ty url st))"
| thumbs_step: "worker_step st (fst (snd (NotifyThumbnailsFinished e w i ty path large interval st)))"
| info_step: "worker_step st (snd (GetStreamInfoForUpload e w key st))"
| task_step: "f \<in> set (started_lights e s) \<union> set (started_live e s course i ty url) \<union> set (finished_task e s) \<union>
                {generateCombinedThumb e i'} \<Longrightarrow> worker_step st (f st)"
| notify_step: "NotifyWorkers e st = Returns st' \<Longrightarrow> worker_step st st'"
| preview_step: "FetchLivePreviews e st = Returns st' \<Longrightarrow> worker_step st st'"
| stop_step: "worker_step st (NotifyWorkersToStopStream e s discard st)"
| thumb_again_step: "RegenerateThumbs e file s st = Returns (err, st') \<Longrightarrow> worker_step st st'"
| section_step: "GenerateVideoSectionImages e xs url st = Returns (err, ups, st') \<Longrightarrow> worker_step st st'"
| section_delete_step: "DeleteVideoSectionImage e path st = Returns (err, st') \<Longrightarrow> worker_step st st'"

subsection \<open>Handlers without loops\<close>

lemma same_lights [same_intros]:
  assumes "same_streams a (tab st)"
  shows "same_streams a (tab (snd (handleLightOnSwitch e s st)))"
    and "same_streams a (tab (snd (handleLightOffSwitch e s st)))"
proof -
  have "tab (snd (turn_off e ip js st)) = tab st" for ip js
    by (induction js arbitrary: st) (simp_all add: Let_def)
  then have "tab (snd (handleLightOffSwitch e s st)) = tab st"
    by (simp add: handleLightOffSwitch_def split: sum.split)
  with assms show "same_streams a (tab (snd (handleLightOnSwitch e s st)))"
    "same_streams a (tab (snd (handleLightOffSwitch e s st)))"
    by (simp_all add: lights_on_keep)
qed

lemmas handler_defs =
  JoinWorkers_def SendHeartBeat_def SendSelfStreamRequest_def NotifyStreamStart_def NotifyStreamStarted_def
  NotifyStreamFinished_def NotifyTranscodingFinished_def NotifyTranscodingFailure_def NotifyUploadFinished_def
  NotifyThumbnailsFinished_def GetStreamInfoForUpload_def

lemma same_handlers:
  "same_streams (tab st) (tab (snd (JoinWorkers e token host st)))"
  "same_streams (tab st) (tab (snd (SendHeartBeat e beat st)))"
  "same_streams (tab st) (tab (snd (SendSelfStreamRequest e w key slug st)))"
  "same_streams (tab st) (tab (snd (NotifyStreamStart e w i ty url st)))"
  "same_streams (tab st) (tab (fst (snd (NotifyStreamStarted e i ty url st))))"
  "same_streams (tab st) (tab (fst (snd (NotifyStreamFinished e w i st))))"
  "same_streams (tab st) (tab (snd (NotifyTranscodingFinished e w i ty path dur st)))"
  "same_streams (tab st) (tab (snd (NotifyTranscodingFailure e w i logs code path ver st)))"
  "same_streams (tab st) (tab (snd (NotifyUploadFinished e w i ty url st)))"
  "same_streams (tab st) (tab (fst (snd (NotifyThumbnailsFinished e w i ty path large interval st))))"
  "same_streams (tab st) (tab (snd (GetStreamInfoForUpload e w key st)))"
  by (auto simp: handler_defs Let_def case_prod_beta intro!: same_intros split: sum.split option.split)

subsection \<open>Tasks, loops and jobs\<close>

lemma same_combined [same_intros]:
  "same_streams a (tab st) \<Longrightarrow> same_streams a (tab (generateCombinedThumb e i st))"
  by (auto simp: generateCombinedThumb_def Let_def case_prod_beta intro!: same_intros split: sum.split)

lemma same_tasks:
  assumes "f \<in> set (started_lights e s) \<union> set (started_live e s course i ty url) \<union> set (finished_task e s) \<union>
             {generateCombinedThumb e i'}"
  shows "same_streams (tab st) (tab (f st))"
  using assms
  by (auto simp: started_lights_def started_live_def finished_task_def Let_def intro!: same_intros)

lemma same_progress: "same_streams (tab st) (tab (snd (NotifyTranscodingProgress e ps st)))"
proof (induction e ps st rule: NotifyTranscodingProgress.induct)
  case (3 e p rs st)
  obtain err st1 where run: "run_db (SaveTranscodingProgress (dbe e) p) st = (err, st1)" by fastforce
  then have "tab st1 = snd (SaveTranscodingProgress (dbe e) p (tab st))" by (auto simp: run_db_pair)
  then have "same_streams (tab st) (tab st1)" by (simp add: same_intros)
  moreover have "err = None \<Longrightarrow> same_streams (tab st1) (tab (snd (NotifyTranscodingProgress e rs st1)))"
    using 3 run by simp
  ultimately show ?case using same_trans by (auto simp: run)
qed simp_all

lemma same_silences:
  "NotifySilenceResults e w i starts ends st = Returns (res, st') \<Longrightarrow> same_streams (tab st) (tab st')"
  by (auto simp: NotifySilenceResults_def Let_def case_prod_beta intro!: same_intros split: sum.splits if_splits)

lemma same_create:
  "CreateStreamRequest e s course ty source (ws, st) = Returns (ws', st') \<Longrightarrow> same_streams a (tab st) \<Longrightarrow>
     same_streams a (tab st')"
  by (auto simp: CreateStreamRequest_def Let_def case_prod_beta intro!: same_intros split: sum.splits if_splits)

lemma next_source_simps [simp]:
  "next_source e s course (Returns x) (ty, source) = CreateStreamRequest e s course ty source x"
  "next_source e s course (Panics p) src = Panics p"
  by (simp_all add: next_source_def split: prod.split)

lemma same_next_sources:
  "foldl (next_source e s course) (Returns (ws, st)) srcs = Returns (ws', st') \<Longrightarrow> same_streams a (tab st) \<Longrightarrow>
     same_streams a (tab st')"
proof (induction srcs arbitrary: ws st)
  case (Cons src srcs)
  obtain ty source where src: "src = (ty, source)" by (cases src)
  have panics: "foldl (next_source e s course) (Panics p) xs = Panics p" for p xs
    by (induction xs) simp_all
  show ?case
  proof (cases "CreateStreamRequest e s course ty source (ws, st)")
    case (Returns x)
    obtain ws1 st1 where x: "x = (ws1, st1)" by (cases x)
    have "same_streams a (tab st1)" using same_create [of e s course ty source ws st ws1 st1] Returns x Cons.prems(2) by simp
    with Cons Returns x src show ?thesis by simp
  next
    case (Panics p)
    with Cons.prems(1) src panics show ?thesis by simp
  qed
qed simp

lemma same_notify_loop:
  "notify_loop e ss (ws, st) = Returns (ws', st') \<Longrightarrow> same_streams a (tab st) \<Longrightarrow> same_streams a (tab st')"
proof (induction ss arbitrary: ws st)
  case (Cons s ss)
  define st0 where "st0 = snd (run_db (SaveEndedState (dbe e) (ID s) False) st)"
  have 0: "same_streams a (tab st0)" using Cons.prems(2) by (auto simp: st0_def intro!: same_intros)
  have all: "same_streams a (tab st')"
    if "outcome_bind (foldl (next_source e s course) (Returns (ws, st0)) srcs) (notify_loop e ss) = Returns (ws', st')"
    for course srcs
    using that Cons.IH same_next_sources [of e s course ws st0 srcs, OF _ 0] by auto
  from Cons.prems(1) show ?case
    using Cons.IH [OF _ 0] same_create [OF _ 0] all
    by (auto simp: Let_def case_prod_beta st0_def [symmetric] simp del: foldl_Cons foldl_Nil split: sum.splits if_splits)
qed simp

lemma same_premiere_loop:
  "premiere_loop e ss (ws, st) = Returns st' \<Longrightarrow> same_streams a (tab st) \<Longrightarrow> same_streams a (tab st')"
proof (induction ss arbitrary: ws st)
  case (Cons s ss)
  define st0 where "st0 = snd (run_db (SaveEndedState (dbe e) (ID s) False) st)"
  have 0: "same_streams a (tab st0)" using Cons.prems(2) by (auto simp: st0_def intro!: same_intros)
  have call: "same_streams a (tab (call c (call d st0)))" for c d using 0 by simp
  from Cons.prems(1) show ?case
    using Cons.IH [OF _ 0] Cons.IH [OF _ call]
    by (auto simp: Let_def case_prod_beta st0_def [symmetric] close_nil_def split: sum.splits if_splits)
qed simp

lemma same_notify: "NotifyWorkers e st = Returns st' \<Longrightarrow> same_streams (tab st) (tab st')"
  by (auto simp: NotifyWorkers_def notifyWorkersPremieres_def Let_def split: if_splits
      dest!: same_premiere_loop [OF _ same_refl] same_notify_loop [OF _ same_refl] intro: same_trans)

lemma same_preview_loop:
  "preview_loop e ws ss st = Returns st' \<Longrightarrow> same_streams a (tab st) \<Longrightarrow> same_streams a (tab st')"
proof (induction ss arbitrary: st)
  case (Cons s ss)
  have "same_streams a (tab (snd (getLivePreviewFromWorker e s w st)))" for w
    using Cons.prems(2) by (simp add: getLivePreviewFromWorker_def Let_def case_prod_beta split: sum.split)
  with Cons show ?case
    by (auto simp: Let_def case_prod_beta close_nil_def split: if_splits)
qed simp

lemma same_stop: "same_streams (tab st) (tab (NotifyWorkersToStopStream e s discard st))"
proof -
  have "tab (end_loop e s discard ws st) = tab st" for ws
    by (induction ws arbitrary: st) simp_all
  then show ?thesis by (auto simp: NotifyWorkersToStopStream_def intro!: same_intros split: sum.split)
qed

lemma same_sections:
  "save_section_images e xs ps st = Returns (err, ups, st') \<Longrightarrow> same_streams a (tab st) \<Longrightarrow> same_streams a (tab st')"
proof (induction e xs ps st arbitrary: ups rule: save_section_images.induct)
  case (3 e x xs p ps st)
  obtain res st1 where run: "run_db (NewFile (dbe e) (new_file (section_StreamID x) p FILETYPE_IMAGE_JPG)) st = (res, st1)"
    by fastforce
  then have "tab st1 = snd (NewFile (dbe e) (new_file (section_StreamID x) p FILETYPE_IMAGE_JPG) (tab st))"
    by (auto simp: run_db_pair)
  then have 1: "same_streams a (tab st1)" using 3(3) by (auto intro!: same_intros)
  from 3(2) show ?case
    using 1 by (auto simp: run split: sum.splits option.splits intro: 3(1) [OF run [symmetric] refl _ _ _ 1])
qed auto

lemma same_jobs:
  "FetchLivePreviews e st = Returns st' \<Longrightarrow> same_streams (tab st) (tab st')"
  "RegenerateThumbs e file s st = Returns (err, st') \<Longrightarrow> same_streams (tab st) (tab st')"
  "GenerateVideoSectionImages e xs url st = Returns (err, ups, st') \<Longrightarrow> same_streams (tab st) (tab st')"
  "DeleteVideoSectionImage e path st = Returns (err, st') \<Longrightarrow> same_streams (tab st) (tab st')"
proof -
  have 1: "same_streams (tab st) (tab (snd (run_db (GetCurrentLive (dbe e)) st)))" by (auto intro!: same_intros)
  show "FetchLivePreviews e st = Returns st' \<Longrightarrow> same_streams (tab st) (tab st')"
    using 1 same_preview_loop [OF _ 1]
    by (auto simp: FetchLivePreviews_def Let_def case_prod_beta split: sum.splits)
  show "RegenerateThumbs e file s st = Returns (err, st') \<Longrightarrow> same_streams (tab st) (tab st')"
    "DeleteVideoSectionImage e path st = Returns (err, st') \<Longrightarrow> same_streams (tab st) (tab st')"
    by (auto simp: RegenerateThumbs_def DeleteVideoSectionImage_def Let_def close_nil_def split: if_splits sum.splits)
  show "GenerateVideoSectionImages e xs url st = Returns (err, ups, st') \<Longrightarrow> same_streams (tab st) (tab st')"
    by (auto simp: GenerateVideoSectionImages_def Let_def close_nil_def split: if_splits sum.splits
        dest!: same_sections [where a = "tab st"])
qed

text \<open>C8: Whatever the workers call, in any order, with any faults of the database and any interleaving
  of the goroutines, the streams stay the same ones: none is created, deleted, restored, renumbered
  or reordered, and a duration that is NULL carries no number.\<close>

theorem workers_keep_the_streams:
  assumes "worker_step\<^sup>*\<^sup>* st st'"
  shows "map (\<lambda>s. (ID s, DeletedAt s)) (t_streams (tab st')) = map (\<lambda>s. (ID s, DeletedAt s)) (t_streams (tab st)) \<and>
         (list_all duration_ok (t_streams (tab st)) \<longrightarrow> list_all duration_ok (t_streams (tab st')))"
proof -
  have "same_streams (tab st) (tab st')"
    using assms
  proof (induction rule: rtranclp_induct)
    case (step st1 st2)
    from step(2) have "same_streams (tab st1) (tab st2)"
      by (cases rule: worker_step.cases)
         (simp_all add: same_handlers same_progress same_stop same_tasks same_silences same_notify same_jobs)
    with step(3) show ?case by (rule same_trans)
  qed simp
  then show ?thesis by (simp add: same_streams_def)
qed

theorem workers_keep_the_streams_witness:
  "map ID (t_streams (tab quiet_uploaded)) = [7]"
proof -
  have "worker_step quiet_state quiet_uploaded"
    unfolding quiet_uploaded_def by (rule upload_step)
  from workers_keep_the_streams [THEN conjunct1, OF r_into_rtranclp [of worker_step, OF this]]
  have "map fst (map (\<lambda>s. (ID s, DeletedAt s)) (t_streams (tab quiet_uploaded))) = map fst [(7 :: uint, None :: gotime option)]"
    by (simp add: quiet_tables_def quiet_stream_def zero_Stream_def)
  then show ?thesis by (simp add: comp_def)
qed

end
