(* ===== verification/Go_Url.thy ===== *)
theory Go_Url
  imports Model_Types Go_Path
begin

text \<open>
  \<^verbatim>\<open>url.Parse\<close> as far as the edge server uses it: the scheme and the path of a URL. The fragment
  and the query are cut off, an authority is skipped (whether it is well formed is the argument
  \<open>authority_ok\<close>), and the path is percent-decoded.
\<close>

definition cut :: "char \<Rightarrow> string \<Rightarrow> string \<times> string" where
  "cut c s = (takeWhile (\<lambda>x. x \<noteq> c) s, tl (dropWhile (\<lambda>x. x \<noteq> c) s))"

lemma cut_absent: "c \<notin> set s \<Longrightarrow> cut c s = (s, [])"
  by (induction s) (auto simp: cut_def)

definition hex_val :: "char \<Rightarrow> nat option" where
  "hex_val c = (let n = of_char c :: nat in
     if 48 \<le> n \<and> n \<le> 57 then Some (n - 48)
     else if 97 \<le> n \<and> n \<le> 102 then Some (n - 87)
     else if 65 \<le> n \<and> n \<le> 70 then Some (n - 55) else None)"

fun unescape_path :: "string \<Rightarrow> string option" where
  "unescape_path [] = Some []"
| "unescape_path (c # s) =
     (if c = CHR ''%'' then
        (case s of
           a # b # rest \<Rightarrow>
             (case (hex_val a, hex_val b) of
                (Some h, Some l) \<Rightarrow> map_option (Cons (char_of (16 * h + l))) (unescape_path rest)
              | _ \<Rightarrow> None)
         | _ \<Rightarrow> None)
      else map_option (Cons c) (unescape_path s))"

lemma unescape_plain: "CHR ''%'' \<notin> set s \<Longrightarrow> unescape_path s = Some s"
  by (induction s) auto

definition has_control :: "string \<Rightarrow> bool" where
  "has_control s \<longleftrightarrow> list_ex (\<lambda>c. let n = of_char c :: nat in n < 32 \<or> n = 127) s"

text \<open>What follows the scheme: authority and path, or an opaque rest without a path.\<close>

definition parse_rest :: "(string \<Rightarrow> bool) \<Rightarrow> string \<Rightarrow> string \<Rightarrow> string option" where
  "parse_rest authority_ok scheme rest =
     (if \<not> has_prefix rest ''/'' then
        (if scheme \<noteq> [] then Some []
         else if CHR '':'' \<in> set (fst (cut (CHR ''/'') rest)) then None
         else unescape_path rest)
      else if (scheme \<noteq> [] \<or> \<not> has_prefix rest ''///'') \<and> has_prefix rest ''//'' then
        (let authority = takeWhile (\<lambda>x. x \<noteq> CHR ''/'') (drop 2 rest);
             path = dropWhile (\<lambda>x. x \<noteq> CHR ''/'') (drop 2 rest)
         in if authority_ok authority then unescape_path path else None)
      else unescape_path rest)"

definition url_parse :: "(string \<Rightarrow> bool) \<Rightarrow> string \<Rightarrow> (string \<times> string) option" where
  "url_parse authority_ok raw =
     (let (u, frag) = cut (CHR ''#'') raw in
      if has_control u then None
      else if unescape_path frag = None then None
      else if u = ''*'' then Some ([], ''*'')
      else
       (case get_scheme [] u of
          None \<Rightarrow> None
        | Some scheme \<Rightarrow>
            (let rest = (if scheme = [] then u else drop (length scheme + 1) u);
                 rest = fst (cut (CHR ''?'') rest)
             in map_option (Pair (to_lower scheme)) (parse_rest authority_ok scheme rest))))"

text \<open>The case that matters: an absolute URL whose path has no special characters.\<close>

lemma get_scheme_letters:
  assumes "list_all ascii_letter l" "acc @ l \<noteq> []"
  shows "get_scheme acc (l @ CHR '':'' # s) = Some (acc @ l)"
  using assms
proof (induction l arbitrary: acc)
  case Nil
  then show ?case by (simp add: ascii_letter_def scheme_extra_def)
qed auto

definition path_char :: "char \<Rightarrow> bool" where
  "path_char c \<longleftrightarrow> c \<noteq> CHR ''#'' \<and> c \<noteq> CHR ''?'' \<and> c \<noteq> CHR ''%'' \<and> \<not> has_control [c]"

lemma url_parse_absolute:
  assumes "scheme = ''http'' \<or> scheme = ''https''"
    and "authority_ok a" and "list_all path_char a" and "CHR ''/'' \<notin> set a"
    and "list_all path_char p" and "has_prefix p ''/''"
  shows "url_parse authority_ok (scheme @ ''://'' @ a @ p) = Some (scheme, p)"
proof -
  let ?raw = "scheme @ ''://'' @ a @ p"
  obtain p' where p: "p = CHR ''/'' # p'" using assms(6) by (auto simp: has_prefix_iff)
  have all: "list_all path_char ?raw"
    using assms(1,3,5) by (auto simp: path_char_def has_control_def)
  then have chars: "CHR ''#'' \<notin> set ?raw" "CHR ''?'' \<notin> set ?raw" "CHR ''%'' \<notin> set ?raw" "\<not> has_control ?raw"
    by (auto simp: list_all_iff list_ex_iff path_char_def has_control_def)
  have sch: "get_scheme [] ?raw = Some scheme"
    using assms(1) get_scheme_letters [of scheme "[]" "''//'' @ a @ p"] by (auto simp: ascii_letter_def)
  have "to_lower scheme = scheme" "scheme \<noteq> []" using assms(1) by (auto simp: to_lower_def lower_char_def)
  moreover have "drop (length scheme + 1) ?raw = ''//'' @ a @ p" using assms(1) by auto
  moreover have "fst (cut (CHR ''?'') (''//'' @ a @ p)) = ''//'' @ a @ p"
    using chars(2) by (subst cut_absent) auto
  moreover have "takeWhile (\<lambda>x. x \<noteq> CHR ''/'') (a @ p) = a" "dropWhile (\<lambda>x. x \<noteq> CHR ''/'') (a @ p) = p"
    using assms(4) by (auto simp: p takeWhile_append dropWhile_append)
  moreover have "unescape_path p = Some p" using chars(3) by (intro unescape_plain) auto
  moreover have "?raw \<noteq> ''*''" using assms(1) by auto
  ultimately show ?thesis
    using chars(1,4) sch assms(2)
    by (simp add: url_parse_def cut_absent parse_rest_def has_prefix_def Let_def)
qed

end
