(* ===== verification/Edge.thy ===== *)
theory Edge
  imports Stream_Signing Go_Url
begin

text \<open>
  \<^verbatim>\<open>src/worker/edge/\<close>: the server that stands between the viewers and the runners. For videos it
  checks the token of every request (\<open>validateToken\<close>) and serves files from disk; for live streams
  it hands playlists through and keeps a cache of the immutable segments (\<open>fetchFile\<close>,
  \<open>cleanup\<close>). A handler returns the calls it makes on the response writer and on the services it
  uses. Requests are handled one after the other, as \<^verbatim>\<open>cacheLock\<close> and the singleflight group make
  them for one file. The parser of tokens \<open>parse\<close> and the check of a URL's authority are arguments;
  metrics are left out.
\<close>

record edge_config =
  adminToken :: string
  originPort :: string
  originProto :: string
  vodPath :: string
  allowedOrigin :: string
  edge_port :: string
  has_key :: bool

text \<open>The result of the token library: failed (is there a token that is not valid?), or the claims.\<close>

datatype jwt_result = JwtError bool | JwtOk JWTPlaylistClaims

datatype edge_call =
    WriteHeader nat
  | WriteBody string
  | AddHeader string string
  | HttpError string nat
  | PutUser string
  | ServeVod string
  | Proxy string
  | ServeFile string
  | RunFfmpeg string

record http_request =
  req_Path :: string
  req_Query :: "string \<rightharpoonup> string"
  req_URL :: string
  RemoteAddr :: string

definition query_get :: "http_request \<Rightarrow> string \<Rightarrow> string" where
  "query_get r k = (case req_Query r k of None \<Rightarrow> [] | Some v \<Rightarrow> v)"

definition trim_prefix :: "string \<Rightarrow> string \<Rightarrow> string" where
  "trim_prefix s p = (if has_prefix s p then drop (length p) s else s)"

definition slice_range :: "'a list \<Rightarrow> nat \<Rightarrow> nat \<Rightarrow> 'a list outcome" where
  "slice_range xs lo hi =
     (if lo \<le> hi \<and> hi \<le> length xs then Returns (take (hi - lo) (drop lo xs)) else Panics IndexOutOfRange)"

definition splitN :: "nat \<Rightarrow> string \<Rightarrow> string \<Rightarrow> string list" where
  "splitN n s sep =
     (let ps = go_split s sep in
      if length ps \<le> n then ps else take (n - 1) ps @ [join (drop (n - 1) ps) sep])"

subsection \<open>Tokens\<close>

definition admin_claims :: JWTPlaylistClaims where
  "admin_claims = \<lparr>cl_ExpiresAt = zero_time, cl_UserID = 0, cl_Playlist = ''adminplayback'',
     cl_Download = False, cl_StreamID = ''-1'', cl_CourseID = []\<rparr>"

definition GetFileName :: "JWTPlaylistClaims option \<Rightarrow> string" where
  "GetFileName c =
     (case c of None \<Rightarrow> ''video.mp4''
      | Some c \<Rightarrow>
        (case List.find (\<lambda>pt. has_suffix pt ''.mp4'') (go_split (cl_Playlist c) ''/'') of
           Some pt \<Rightarrow> pt
         | None \<Rightarrow> cl_StreamID c @ ''.mp4''))"

definition validateToken ::
    "edge_config \<Rightarrow> (string \<Rightarrow> jwt_result) \<Rightarrow> (string \<Rightarrow> bool) \<Rightarrow> http_request \<Rightarrow> bool \<Rightarrow>
     (JWTPlaylistClaims option \<times> bool \<times> edge_call list) outcome" where
  "validateToken cfg parse authority_ok r download =
     (let token = query_get r ''jwt'' in
      if token = [] then Returns (None, False, [HttpError ''Missing JWT'' 403])
      else if token = adminToken cfg then Returns (Some admin_claims, True, [])
      else
       (case parse token of
          JwtError invalid \<Rightarrow>
            Returns (None, False, [WriteHeader 403,
              WriteBody (if invalid then ''Forbidden, invalid token'' else ''Forbidden'')])
        | JwtOk claims \<Rightarrow>
          (case url_parse authority_ok (cl_Playlist claims) of
             None \<Rightarrow> Returns (None, False, [WriteHeader 400, WriteBody ''Bad Request. Parsing URL in jtw failed.''])
           | Some (scheme, path) \<Rightarrow>
               if scheme \<noteq> ''https'' \<and> scheme \<noteq> ''http''
               then Returns (None, False, [WriteHeader 400, WriteBody ''Bad Request. Parsing URL in jtw failed.''])
               else
                 outcome_bind (slice_range (go_split path ''/'') 2 (length (go_split path ''/'') - 1)) (\<lambda>dirs.
                   let allowedPath = ''/vod/'' @ join dirs ''/'' in
                   Returns
                    (if \<not> has_prefix (req_Path r) (allowedPath @ ''/'')
                     then (None, False, [WriteHeader 403,
                            WriteBody (''Forbidden. URL doesn't match claim in jwt. '' @ allowedPath @ '' vs '' @ req_Path r)])
                     else if download \<and> \<not> cl_Download claims
                     then (None, False, [WriteHeader 403, WriteBody ''Forbidden, download not allowed.''])
                     else (Some claims, True, []))))))"

subsection \<open>Videos\<close>

text \<open>The playlist with the token appended to each of its segments.\<close>

definition playlist_with_token :: "string \<Rightarrow> string \<Rightarrow> string" where
  "playlist_with_token token contents =
     join (map (\<lambda>line. if has_suffix line ''.ts'' then line @ ''?jwt='' @ token else line)
             (go_split contents [CHR 0x0A])) [CHR 0x0A]"

definition vod_file :: "edge_config \<Rightarrow> string \<Rightarrow> string" where
  "vod_file cfg upath =
     (let upath = (if \<not> has_prefix upath ''/'' then ''/'' @ upath else upath)
      in path_Join [vodPath cfg, path_clean (trim_prefix upath ''/vod'')])"

text \<open>
  \<open>read_file\<close>: None if the file cannot be opened, \<open>Some None\<close> if it cannot be read. \<open>host_of\<close> is
  \<^verbatim>\<open>net.SplitHostPort\<close>.
\<close>

definition serve_vod :: "(string \<Rightarrow> string option) \<Rightarrow> string \<Rightarrow> http_request \<Rightarrow> edge_call list" where
  "serve_vod host_of uid r =
     (let uid = (if uid = [] then (case host_of (RemoteAddr r) of None \<Rightarrow> RemoteAddr r | Some ip \<Rightarrow> ip) else uid)
      in [PutUser uid, ServeVod (req_Path r)])"

definition downloadHandler ::
    "edge_config \<Rightarrow> (string \<Rightarrow> jwt_result) \<Rightarrow> (string \<Rightarrow> bool) \<Rightarrow> http_request \<Rightarrow> edge_call list outcome" where
  "downloadHandler cfg parse authority_ok r =
     outcome_bind
       (if has_key cfg then validateToken cfg parse authority_ok r True else Returns (None, True, []))
       (\<lambda>(claims, ok, cs). Returns
         (if \<not> ok then cs
          else cs @ [AddHeader ''Content-Type'' ''video/mp4'',
                     AddHeader ''Content-Disposition'' (''attachment; filename='' @ [CHR 0x22] @ GetFileName claims @ [CHR 0x22]),
                     RunFfmpeg (''http://0.0.0.0'' @ edge_port cfg @ replace_all (req_URL r) ''download=1'' [])]))"

definition vodHandler ::
    "edge_config \<Rightarrow> (string \<Rightarrow> jwt_result) \<Rightarrow> (string \<Rightarrow> bool) \<Rightarrow> (string \<Rightarrow> string option) \<Rightarrow>
     (string \<Rightarrow> string option option) \<Rightarrow> http_request \<Rightarrow> edge_call list outcome" where
  "vodHandler cfg parse authority_ok host_of read_file r =
     (let d = query_get r ''download'' in
      if d \<noteq> [] \<and> d \<noteq> ''0'' then downloadHandler cfg parse authority_ok r
      else
       (let hs = [AddHeader ''Access-Control-Allow-Origin'' (allowedOrigin cfg)] in
        if \<not> has_key cfg then Returns (hs @ serve_vod host_of [] r)
        else
          outcome_bind (validateToken cfg parse authority_ok r False) (\<lambda>(claims, ok, cs).
            Returns (hs @ cs @
             (case claims of
                None \<Rightarrow> []
              | Some c \<Rightarrow>
                  if \<not> ok then []
                  else if has_suffix (req_Path r) ''.m3u8'' then
                    (case read_file (vod_file cfg (req_Path r)) of
                       None \<Rightarrow> [WriteHeader 404, WriteBody ''Not Found'']
                     | Some None \<Rightarrow>
                         [WriteHeader 500,
                          WriteBody (''Internal server error. Can't read file: '' @ vod_file cfg (req_Path r))]
                     | Some (Some contents) \<Rightarrow> [WriteBody (playlist_with_token (query_get r ''jwt'') contents)])
                  else serve_vod host_of (if cl_UserID c \<noteq> 0 then uint_str (cl_UserID c) else []) r)))))"

subsection \<open>Live streams: which paths are passed on\<close>

definition digit :: "char \<Rightarrow> bool" where
  "digit c = (let n = of_char c :: nat in 48 \<le> n \<and> n \<le> 57)"

definition host_part :: "string \<Rightarrow> bool" where
  "host_part h \<longleftrightarrow> h \<noteq> [] \<and> list_all (\<lambda>c. ascii_letter c \<or> digit c \<or> c = CHR ''.'') h"

definition dir_part :: "string \<Rightarrow> bool" where
  "dir_part d \<longleftrightarrow> d \<noteq> [] \<and> list_all (\<lambda>c. ascii_letter c \<or> digit c \<or> c = CHR ''_'') d"

definition file_part :: "string \<Rightarrow> bool" where
  "file_part f =
     (case go_split f ''.'' of
        [n, ext] \<Rightarrow> (ext = ''ts'' \<or> ext = ''m3u8'') \<and> (n = ''playlist'' \<or> n \<noteq> [] \<and> list_all digit n)
      | _ \<Rightarrow> False)"

text \<open>
  \<^verbatim>\<open>allowedRe\<close>: host, directories, and a numbered segment or the playlist. No part can hold a slash,
  so matching the expression is matching the parts between the slashes.
\<close>

definition allowed_path :: "string \<Rightarrow> bool" where
  "allowed_path p =
     (case go_split p ''/'' of
        e # h # rest \<Rightarrow>
          e = [] \<and> host_part h \<and> rest \<noteq> [] \<and> list_all dir_part (butlast rest) \<and> file_part (last rest)
      | _ \<Rightarrow> False)"

subsection \<open>The cache of segments\<close>

record edge_state =
  cachedFiles :: "string \<rightharpoonup> gotime"
  disk :: "string \<rightharpoonup> string"

text \<open>What the runner answers: nothing, the whole body, or a body that breaks off.\<close>

datatype fetched = NoAnswer string | Complete string | Broken string string

record edge_world =
  stat_error :: "string \<Rightarrow> string option"
  mkdir_error :: "string \<Rightarrow> string option"
  create_error :: "string \<Rightarrow> string option"
  origin :: "string \<Rightarrow> fetched"
  remove_fails :: "string \<Rightarrow> bool"

definition cacheDir :: string where
  "cacheDir = ''/tmp/edge''"

definition diskDir :: "string \<Rightarrow> string" where
  "diskDir file = cacheDir @ ''/'' @ file"

definition origin_url :: "edge_config \<Rightarrow> string \<Rightarrow> string \<Rightarrow> string" where
  "origin_url cfg host file = originProto cfg @ host @ '':'' @ originPort cfg @ ''/'' @ file"

text \<open>The function that the singleflight group runs.\<close>

definition fetch_uncached ::
    "edge_config \<Rightarrow> edge_world \<Rightarrow> gotime \<Rightarrow> string \<Rightarrow> string \<Rightarrow> edge_state \<Rightarrow> string option \<times> edge_state" where
  "fetch_uncached cfg w now host file st =
     (let f = diskDir file in
      if stat_error w f \<noteq> None then (stat_error w f, st)
      else if disk st f \<noteq> None then (None, st)
      else if length (splitN 2 file ''.'') \<noteq> 2 then (Some (''parse file path: '' @ file), st)
      else if mkdir_error w f \<noteq> None then (mkdir_error w f, st)
      else
       (case origin w (origin_url cfg host file) of
          NoAnswer err \<Rightarrow> (Some err, st)
        | Complete body \<Rightarrow>
            if create_error w f \<noteq> None then (create_error w f, st)
            else (None, st\<lparr>disk := (disk st)(f \<mapsto> body), cachedFiles := (cachedFiles st)(f \<mapsto> now)\<rparr>)
        | Broken part err \<Rightarrow>
            if create_error w f \<noteq> None then (create_error w f, st)
            else (Some err, st\<lparr>disk := (disk st)(f \<mapsto> part)\<rparr>)))"

definition fetchFile ::
    "edge_config \<Rightarrow> edge_world \<Rightarrow> gotime \<Rightarrow> string \<Rightarrow> string \<Rightarrow> edge_state \<Rightarrow> string option \<times> edge_state" where
  "fetchFile cfg w now host file st =
     (if cachedFiles st (diskDir file) \<noteq> None then (None, st)
      else fetch_uncached cfg w now host file st)"

text \<open>\<^verbatim>\<open>cleanup\<close> without the removal of empty directories.\<close>

definition too_old :: "gotime \<Rightarrow> edge_state \<Rightarrow> string \<Rightarrow> bool" where
  "too_old now st f = (case cachedFiles st f of None \<Rightarrow> False | Some t \<Rightarrow> time_sub now t > Minute * 10)"

definition edge_cleanup :: "edge_world \<Rightarrow> gotime \<Rightarrow> edge_state \<Rightarrow> edge_state" where
  "edge_cleanup w now st =
     \<lparr>cachedFiles = (\<lambda>f. if too_old now st f then None else cachedFiles st f),
      disk = (\<lambda>f. if too_old now st f \<and> \<not> remove_fails w f then None else disk st f)\<rparr>"

definition edgeHandler ::
    "edge_config \<Rightarrow> edge_world \<Rightarrow> (string \<Rightarrow> bool) \<Rightarrow> gotime \<Rightarrow> http_request \<Rightarrow> edge_state \<Rightarrow>
     (edge_call list \<times> edge_state) outcome" where
  "edgeHandler cfg w authority_ok now r st =
     (if \<not> allowed_path (req_Path r) then Returns ([WriteHeader 404, WriteBody ''404 - Not Found''], st)
      else
       (let hs = [AddHeader ''Access-Control-Allow-Origin'' (allowedOrigin cfg)];
            urlParts = splitN 3 (req_Path r) ''/'' in
        outcome_bind (slice_get urlParts 1) (\<lambda>host.
        outcome_bind (slice_get urlParts 2) (\<lambda>file.
          if has_suffix (req_Path r) ''.m3u8'' then
            (let u = origin_url cfg host file in
             if url_parse authority_ok u = None then Returns (hs, st) else Returns (hs @ [Proxy u], st))
          else
            (let (err, st) = fetchFile cfg w now host file st in
             if err \<noteq> None then Returns (hs @ [WriteHeader 502, WriteBody ''502 - Bad Gateway''], st)
             else Returns (hs @ [ServeFile (diskDir file)], st))))))"

subsection \<open>The map of the active users\<close>

text \<open>Keys with their value and the second of the last access; entries live \<open>maxTTL\<close> seconds.\<close>

type_synonym ttl_map = "string \<rightharpoonup> bool \<times> int"

definition ttl_put :: "int \<Rightarrow> string \<Rightarrow> bool \<Rightarrow> ttl_map \<Rightarrow> ttl_map" where
  "ttl_put now_s k v m = m(k \<mapsto> (case m k of None \<Rightarrow> v | Some (v', _) \<Rightarrow> v', now_s))"

definition ttl_get :: "int \<Rightarrow> string \<Rightarrow> ttl_map \<Rightarrow> bool \<times> ttl_map" where
  "ttl_get now_s k m = (case m k of None \<Rightarrow> (False, m) | Some (v, _) \<Rightarrow> (v, m(k \<mapsto> (v, now_s))))"

definition ttl_tick :: "int \<Rightarrow> int \<Rightarrow> ttl_map \<Rightarrow> ttl_map" where
  "ttl_tick maxTTL now_s m =
     (\<lambda>k. case m k of None \<Rightarrow> None | Some (v, t) \<Rightarrow> if now_s - t > maxTTL then None else Some (v, t))"

lemma ttl_tick_iff:
  "ttl_tick maxTTL now_s m k = Some (v, t) \<longleftrightarrow> m k = Some (v, t) \<and> now_s - t \<le> maxTTL"
  by (auto simp: ttl_tick_def split: option.split)

lemma ttl_put_then_tick:
  "now_s' - now_s \<le> maxTTL \<Longrightarrow> ttl_tick maxTTL now_s' (ttl_put now_s k v m) k \<noteq> None"
  by (auto simp: ttl_tick_def ttl_put_def)

end
