(* ===== verification/Edge_Props.thy ===== *)
theory Edge_Props
  imports Edge
begin

text \<open>
  What the edge server guarantees: a token opens exactly the directory of the playlist it was
  signed for, the addresses the server signs are accepted, live segments are served from the cache
  directory only, and what the cache keeps and forgets. The cache is a step relation over fetches
  and clean-ups, with its invariant by rule induction.
\<close>

subsection \<open>Paths and their elements\<close>

lemma slash_free_plain: "list_all plain_element es \<Longrightarrow> \<forall>e \<in> set es. CHR ''/'' \<notin> set e"
  by (auto simp: list_all_iff plain_element_def)

lemma go_split_join_append:
  assumes "xs \<noteq> []" and "\<forall>x \<in> set xs. CHR ''/'' \<notin> set x"
  shows "go_split (join xs ''/'' @ CHR ''/'' # t) ''/'' = xs @ go_split t ''/''"
  using assms
proof (induction xs)
  case (Cons x xs)
  then show ?case
  proof (cases "xs = []")
    case True
    with Cons.prems show ?thesis by (simp add: go_split_append_sep)
  next
    case False
    with Cons show ?thesis by (simp add: join_Cons go_split_append_sep)
  qed
qed simp

text \<open>A request path that starts with a directory has the elements of the directory first.\<close>

lemma has_prefix_elements:
  assumes "has_prefix p (join xs ''/'' @ ''/'')" and "xs \<noteq> []" and "\<forall>x \<in> set xs. CHR ''/'' \<notin> set x"
  obtains rest where "rest \<noteq> []" and "go_split p ''/'' = xs @ rest"
proof -
  from assms(1) obtain t where "p = join xs ''/'' @ CHR ''/'' # t" by (auto simp: has_prefix_iff)
  with assms(2,3) go_split_join_append [of xs t] that [of "go_split t ''/''"] show ?thesis by simp
qed

lemma join_append:
  "xs \<noteq> [] \<Longrightarrow> ys \<noteq> [] \<Longrightarrow> join (xs @ ys) sep = join xs sep @ sep @ join ys sep"
proof (induction xs)
  case (Cons x xs)
  then show ?case by (cases "xs = []") (simp_all add: join_Cons)
qed simp

lemma join_root: "xs \<noteq> [] \<Longrightarrow> join ([] # xs) ''/'' = ''/'' @ join xs ''/''"
  by (simp add: join_Cons)

lemma clean_double_slash:
  assumes "list_all plain_element xs" "xs \<noteq> []" "list_all plain_element ys" "ys \<noteq> []"
  shows "path_clean (''/'' @ join xs ''/'' @ ''/'' @ ''/'' @ join ys ''/'') = ''/'' @ join (xs @ ys) ''/''"
proof -
  have split: "go_split (''/'' @ join xs ''/'' @ ''/'' @ ''/'' @ join ys ''/'') ''/'' = [] # xs @ [] # ys"
    using go_split_join_append [of xs "CHR ''/'' # join ys ''/''"] go_split_join [of ys "CHR ''/''"]
      slash_free_plain [OF assms(1)] slash_free_plain [OF assms(3)] assms(2,4)
    by (simp add: go_split_single_sep)
  have "foldl (clean_element True) [] ([] # xs @ [] # ys) = rev (xs @ ys)"
    using foldl_clean_plain [OF assms(1), of True] foldl_clean_plain [OF assms(3), of True] by simp
  with split show ?thesis
    by (simp add: path_clean_def is_rooted_def has_prefix_def Let_def del: rev_append)
qed

subsection \<open>Tokens\<close>

lemma slice_dirs:
  assumes "ps = a # b # dirs @ [name]"
  shows "slice_range ps 2 (length ps - Suc 0) = Returns dirs"
  using assms by (simp add: slice_range_def)

lemma slice_dirs_Returns:
  "slice_range ps 2 (length ps - Suc 0) = Returns dirs \<longleftrightarrow> length ps \<ge> 3 \<and> dirs = butlast (drop 2 ps)"
  by (auto simp: slice_range_def butlast_conv_take numeral_eq_Suc)

text \<open>An accepted token is the administrator's or one that names a directory of the request.\<close>

lemma validateToken_accepts:
  assumes "validateToken cfg parse authority_ok r download = Returns (claims, True, cs)"
    and "query_get r ''jwt'' \<noteq> adminToken cfg"
  obtains c scheme path where "parse (query_get r ''jwt'') = JwtOk c" and "claims = Some c"
    and "url_parse authority_ok (cl_Playlist c) = Some (scheme, path)"
    and "length (go_split path ''/'') \<ge> 3"
    and "has_prefix (req_Path r) (''/vod/'' @ join (butlast (drop 2 (go_split path ''/''))) ''/'' @ ''/'')"
    and "download \<longrightarrow> cl_Download c" and "cs = []"
proof -
  from assms obtain c where c: "parse (query_get r ''jwt'') = JwtOk c"
    by (auto simp: validateToken_def Let_def split: if_splits jwt_result.splits)
  with assms obtain scheme path where u: "url_parse authority_ok (cl_Playlist c) = Some (scheme, path)"
    by (auto simp: validateToken_def Let_def split: if_splits option.splits)
  from assms c u show ?thesis
    by (auto simp: validateToken_def Let_def slice_dirs_Returns intro!: that split: if_splits)
qed

text \<open>Where a request with plain elements is looked up: below the directory of the recordings.\<close>

lemma vod_file_plain:
  assumes "go_split (req_Path r) ''/'' = [[], ''vod''] @ dirs @ rest" and "rest \<noteq> []"
    and "list_all plain_element (dirs @ rest)" "list_all plain_element vodDir" "vodDir \<noteq> []"
    and "vodPath cfg = ''/'' @ join vodDir ''/''"
  shows "vod_file cfg (req_Path r) = ''/'' @ join (vodDir @ dirs @ rest) ''/''"
proof -
  have "req_Path r = join ([[], ''vod''] @ dirs @ rest) ''/''"
    using join_go_split [of "req_Path r" "''/''"] assms(1) by simp
  then have path: "req_Path r = ''/vod'' @ ''/'' @ join (dirs @ rest) ''/''"
    using assms(2) by (simp add: join_Cons)
  have "has_prefix (req_Path r) ''/''" by (simp add: path has_prefix_def)
  moreover have "trim_prefix (req_Path r) ''/vod'' = ''/'' @ join (dirs @ rest) ''/''"
    by (simp add: path trim_prefix_def has_prefix_def)
  moreover have "path_clean (''/'' @ join (dirs @ rest) ''/'') = ''/'' @ join (dirs @ rest) ''/''"
    using path_clean_plain(2) [of "dirs @ rest"] assms(2,3) by simp
  moreover have "path_Join [''/'' @ join vodDir ''/'', ''/'' @ join (dirs @ rest) ''/''] =
      path_clean (''/'' @ join vodDir ''/'' @ ''/'' @ ''/'' @ join (dirs @ rest) ''/'')"
    by (simp add: path_Join_def)
  moreover have "\<dots> = ''/'' @ join (vodDir @ dirs @ rest) ''/''"
    by (rule clean_double_slash) (use assms in auto)
  ultimately show ?thesis by (simp add: vod_file_def assms(6))
qed

text \<open>C14: A request passes the token check of the edge server with a token that is not the
  administrator's only if the token is valid and every element of the playlist's directory is an
  element of the request's path, in the same place: a token opens the directory of its playlist and
  nothing beside it. For a path in canonical form the file that is opened lies in that directory of
  the video folder; a download needs the permission in the token.\<close>

theorem token_opens_one_directory:
  assumes accepted: "validateToken cfg parse authority_ok r download = Returns (claims, True, cs)"
    and user: "query_get r ''jwt'' \<noteq> adminToken cfg"
    and claims: "parse (query_get r ''jwt'') = JwtOk c"
      "url_parse authority_ok (cl_Playlist c) = Some (scheme, path)"
    and dirs: "butlast (drop 2 (go_split path ''/'')) = dirs" "dirs \<noteq> []"
  shows "(download \<longrightarrow> cl_Download c) \<and>
         (\<exists>rest. rest \<noteq> [] \<and> go_split (req_Path r) ''/'' = [[], ''vod''] @ dirs @ rest \<and>
           (list_all plain_element (dirs @ rest) \<and> list_all plain_element vodDir \<and> vodDir \<noteq> [] \<and>
            vodPath cfg = ''/'' @ join vodDir ''/'' \<longrightarrow>
              vod_file cfg (req_Path r) = ''/'' @ join (vodDir @ dirs @ rest) ''/''))"
proof -
  note facts = validateToken_accepts [OF accepted user]
  have dl: "download \<longrightarrow> cl_Download c" by (rule facts) (use claims in auto)
  have "has_prefix (req_Path r) (''/vod/'' @ join dirs ''/'' @ ''/'')"
    by (rule facts) (use claims dirs in auto)
  then have pre: "has_prefix (req_Path r) (join ([] # ''vod'' # dirs) ''/'' @ ''/'')"
    using dirs(2) by (simp add: join_Cons)
  have "set dirs \<subseteq> set (go_split path ''/'')"
    using dirs(1) set_drop_subset by (metis in_set_butlastD subset_eq)
  then have free: "\<forall>x \<in> set ([] # ''vod'' # dirs). CHR ''/'' \<notin> set x"
    using go_split_parts_no_sep by fastforce
  obtain rest where rest: "rest \<noteq> []" "go_split (req_Path r) ''/'' = [[], ''vod''] @ dirs @ rest"
    by (rule has_prefix_elements [OF pre _ free]) auto
  with dl vod_file_plain [OF rest(2)] show ?thesis by blast
qed

definition example_claims :: JWTPlaylistClaims where
  "example_claims =
     \<lparr>cl_ExpiresAt = 0, cl_UserID = 7, cl_Playlist = ''https://a/x/c/17/p.m3u8'', cl_Download = False,
      cl_StreamID = ''17'', cl_CourseID = ''3''\<rparr>"

definition example_edge :: edge_config where
  "example_edge =
     \<lparr>adminToken = ''adm'', originPort = ''8187'', originProto = ''http://'', vodPath = ''/vod'',
      allowedOrigin = ''*'', edge_port = '':8089'', has_key = True\<rparr>"

definition example_request :: http_request where
  "example_request =
     \<lparr>req_Path = ''/vod/c/17/1.ts'', req_Query = [''jwt'' \<mapsto> ''t''], req_URL = [], RemoteAddr = []\<rparr>"

lemma example_split: "go_split ''/x/c/17/p.m3u8'' ''/'' = [[], ''x'', ''c'', ''17'', ''p.m3u8'']"
  by (simp add: go_split_single_sep)

lemma example_url: "url_parse (\<lambda>_. True) ''https://a/x/c/17/p.m3u8'' = Some (''https'', ''/x/c/17/p.m3u8'')"
  using url_parse_absolute [of "''https''" "\<lambda>_. True" "''a''" "''/x/c/17/p.m3u8''"]
  by (simp add: path_char_def has_control_def has_prefix_def)

lemma example_accepted:
  "validateToken example_edge (\<lambda>_. JwtOk example_claims) (\<lambda>_. True) example_request False =
     Returns (Some example_claims, True, [])"
  by (simp add: validateToken_def example_edge_def example_claims_def example_request_def query_get_def
      example_url example_split slice_range_def has_prefix_def Let_def)

theorem token_opens_one_directory_witness:
  "\<exists>rest. rest \<noteq> [] \<and> go_split (req_Path example_request) ''/'' = [[], ''vod''] @ [''c'', ''17''] @ rest"
  using token_opens_one_directory [OF example_accepted, of example_claims "''https''" "''/x/c/17/p.m3u8''"
      "[''c'', ''17'']"]
  by (simp add: example_url example_split)
     (auto simp: example_edge_def example_request_def query_get_def example_claims_def example_url [simplified])

text \<open>C15: The address that the server signs for a viewer is accepted by the edge server: with the
  token of the signed playlist, every file of the playlist's directory is admitted for the seven
  hours the token lives, for downloading exactly if the server allowed it. The law assumed of the
  token library is that a token signed with the key parses to its claims until it expires.\<close>

theorem signed_playlist_is_admitted:
  assumes law: "\<And>c str t. sign c = Inr str \<Longrightarrow> t < cl_ExpiresAt c \<Longrightarrow> parse t str = JwtOk c"
    and signed: "SetSignedPlaylists sign now s user allow = (None, s')"
      "playlist_of kind s' = playlist_of kind s @ ''?jwt='' @ token"
    and address: "playlist_of kind s = scheme @ ''://'' @ host @ ''/'' @ app @ ''/'' @ join dirs ''/'' @ ''/'' @ name"
      "scheme = ''http'' \<or> scheme = ''https''" "authority_ok host" "\<not> contains (playlist_of kind s) ''lrz.de''"
    and chars: "list_all (list_all path_char) (host # app # name # dirs)"
      "list_all (\<lambda>e. CHR ''/'' \<notin> set e) (host # app # name # dirs)" "dirs \<noteq> []"
    and request: "req_Path r = ''/vod/'' @ join dirs ''/'' @ ''/'' @ fname" "query_get r ''jwt'' = token"
      "token \<noteq> []" "token \<noteq> adminToken cfg"
    and time: "t < now + Hour * 7"
  shows "validateToken cfg (parse t) authority_ok r download =
           Returns (if download \<and> \<not> allow
                    then (None, False, [WriteHeader 403, WriteBody ''Forbidden, download not allowed.''])
                    else (Some (playlist_claims now s user allow (playlist_of kind s)), True, []))"
proof -
  let ?path = "''/'' @ app @ ''/'' @ join dirs ''/'' @ ''/'' @ name"
  let ?claims = "playlist_claims now s user allow (playlist_of kind s)"
  have "playlist_of kind s \<noteq> []" by (simp add: address(1))
  with signed SetSignedPlaylists_address [OF signed(1), of kind] address(4) have "sign ?claims = Inr token"
    by (auto simp: signed_address_def split: sum.splits)
  then have parsed: "parse t token = JwtOk ?claims" using time by (intro law) (simp_all add: playlist_claims_def)
  have "path_char (CHR ''/'')" by (simp add: path_char_def has_control_def)
  then have "list_all path_char (join ds ''/'')" if "list_all (list_all path_char) ds" for ds
    using that by (induction ds "''/''" rule: join.induct) auto
  then have "url_parse authority_ok (scheme @ ''://'' @ host @ ?path) = Some (scheme, ?path)"
    using address chars \<open>path_char (CHR ''/'')\<close> by (intro url_parse_absolute) (auto simp: has_prefix_def)
  then have url: "url_parse authority_ok (cl_Playlist ?claims) = Some (scheme, ?path)"
    by (simp add: playlist_claims_def address(1))
  have free: "\<forall>e \<in> set dirs. CHR ''/'' \<notin> set e" "CHR ''/'' \<notin> set app" "CHR ''/'' \<notin> set name"
    using chars(2) by (auto simp: list_all_iff)
  have "go_split ?path ''/'' = [] # app # dirs @ [name]"
    using go_split_join_append [OF chars(3) free(1), of name] go_split_no_sep [OF free(3)]
    by (simp add: go_split_single_sep go_split_append_sep [OF free(2)])
  then have "slice_range (go_split ?path ''/'') 2 (length (go_split ?path ''/'') - Suc 0) = Returns dirs"
    by (rule slice_dirs)
  moreover have "has_prefix (req_Path r) (''/vod/'' @ join dirs ''/'' @ ''/'')"
    by (simp add: request(1) has_prefix_iff)
  moreover have "cl_Download ?claims = allow" by (simp add: playlist_claims_def)
  ultimately show ?thesis
    using parsed url request(2-4) address(2) by (auto simp: validateToken_def)
qed

definition example_playlist_stream :: Stream where
  "example_playlist_stream = zero_Stream\<lparr>PlaylistUrl := ''https://a/x/c/17/p.m3u8''\<rparr>"

definition example_signed :: JWTPlaylistClaims where
  "example_signed = playlist_claims 0 example_playlist_stream None True ''https://a/x/c/17/p.m3u8''"

definition example_sign :: signer where
  "example_sign c = (if c = example_signed then Inr ''t'' else Inl ''no key'')"

theorem signed_playlist_is_admitted_witness:
  "validateToken example_edge (\<lambda>_. JwtOk example_signed) (\<lambda>_. True) example_request True =
     Returns (Some example_signed, True, [])"
proof -
  let ?s = "example_playlist_stream"
  have urls: "PlaylistUrl ?s = ''https://a/x/c/17/p.m3u8''" "PlaylistUrlCAM ?s = []" "PlaylistUrlPRES ?s = []"
    by (simp_all add: example_playlist_stream_def zero_Stream_def)
  have lrz: "\<not> contains ''https://a/x/c/17/p.m3u8'' ''lrz.de''" by (simp add: has_prefix_def)
  have signed: "SetSignedPlaylists example_sign 0 ?s None True = (None, append_jwt PL_COMB ''t'' ?s)"
    using lrz by (simp add: SetSignedPlaylists_def stream_playlists_def urls example_sign_def example_signed_def)
  have "validateToken example_edge (\<lambda>_. JwtOk example_signed) (\<lambda>_. True) example_request True =
     Returns (if True \<and> \<not> True
                    then (None, False, [WriteHeader 403, WriteBody ''Forbidden, download not allowed.''])
                    else (Some (playlist_claims 0 ?s None True (playlist_of PL_COMB ?s)), True, []))"
    by (rule signed_playlist_is_admitted [OF _ signed, where kind = PL_COMB and t = 0 and parse = "\<lambda>_ _. JwtOk example_signed" and token = "''t''" and
          scheme = "''https''" and host = "''a''" and app = "''x''" and dirs = "[''c'', ''17'']" and
          name = "''p.m3u8''" and fname = "''1.ts''"])
       (use lrz in \<open>auto simp: example_sign_def urls example_request_def query_get_def example_edge_def
          path_char_def has_control_def Hour_def split: if_splits\<close>)
  then show ?thesis by (simp add: example_signed_def urls)
qed

subsection \<open>Live segments: nothing outside of the cache directory\<close>

lemma dir_part_plain: "dir_part d \<Longrightarrow> plain_element d"
proof -
  assume d: "dir_part d"
  then have chars: "c \<in> set d \<Longrightarrow> ascii_letter c \<or> digit c \<or> c = CHR ''_''" for c
    by (auto simp: dir_part_def list_all_iff)
  have "CHR ''.'' \<notin> set d" "CHR ''/'' \<notin> set d"
    using chars [of "CHR ''.''"] chars [of "CHR ''/''"] by (auto simp: ascii_letter_def digit_def)
  moreover have "d \<noteq> []" using d by (simp add: dir_part_def)
  ultimately show "plain_element d" by (auto simp: plain_element_def)
qed

lemma file_part_plain:
  assumes "file_part f" and "CHR ''/'' \<notin> set f"
  shows "plain_element f"
proof -
  from assms(1) obtain n ext where s: "go_split f ''.'' = [n, ext]" "ext = ''ts'' \<or> ext = ''m3u8''"
    by (auto simp: file_part_def split: list.splits)
  then have "f = n @ ''.'' @ ext" using join_go_split [of f "''.''"] by simp
  with s(2) assms(2) show ?thesis
    by (cases n) (auto simp: plain_element_def)
qed

lemma allowed_path_parts:
  assumes "allowed_path p"
  obtains h rest where "go_split p ''/'' = [] # h # rest" and "rest \<noteq> []" and "list_all plain_element rest"
    and "splitN 3 p ''/'' = [[], h, join rest ''/'']" and "p = ''/'' @ h @ ''/'' @ join rest ''/''"
    and "file_part (last rest)"
proof -
  from assms obtain h rest where s: "go_split p ''/'' = [] # h # rest" "rest \<noteq> []"
    "list_all dir_part (butlast rest)" "file_part (last rest)"
    by (auto simp: allowed_path_def split: list.splits)
  have "CHR ''/'' \<notin> set (last rest)"
    using s(1,2) go_split_parts_no_sep [of "last rest" p "CHR ''/''"] by simp
  with s(3,4) have "list_all plain_element (butlast rest @ [last rest])"
    by (auto simp: file_part_plain list_all_iff dir_part_plain)
  then have "list_all plain_element rest" using s(2) by simp
  moreover have "splitN 3 p ''/'' = [[], h, join rest ''/'']"
    using s(1,2) by (cases rest; cases "tl rest") (auto simp: splitN_def numeral_eq_Suc)
  moreover have "p = ''/'' @ h @ ''/'' @ join rest ''/''"
    using join_go_split [of p "''/''"] s(1,2) by (simp add: join_Cons)
  ultimately show ?thesis using s(1,2,4) that by blast
qed

text \<open>The cache's view of the disk: an entry stands for a file.\<close>

definition cache_on_disk :: "edge_state \<Rightarrow> bool" where
  "cache_on_disk st \<longleftrightarrow> dom (cachedFiles st) \<subseteq> dom (disk st)"

lemma fetched_file_on_disk:
  "cache_on_disk st \<Longrightarrow> fetchFile cfg w now host file st = (None, st') \<Longrightarrow> diskDir file \<in> dom (disk st')"
  by (auto simp: fetchFile_def fetch_uncached_def cache_on_disk_def Let_def split: if_splits fetched.splits)

text \<open>The live handler never panics, and the only files it serves lie under the cache
  directory (their paths are canonical, so no element climbs out of it) and are on disk at that
  moment; a request it serves nothing for is answered 404 or 502 or handed to the runner as a
  playlist.\<close>

lemma live_segments_stay_in_the_cache:
  assumes "cache_on_disk st"
  shows "\<exists>calls st'. edgeHandler cfg w authority_ok now r st = Returns (calls, st') \<and>
           (\<forall>f. ServeFile f \<in> set calls \<longrightarrow>
              has_prefix f (cacheDir @ ''/'') \<and> path_clean f = f \<and> disk st' f \<noteq> None \<and> \<not> has_suffix f ''.m3u8'') \<and>
           (allowed_path (req_Path r) \<longleftrightarrow> WriteHeader 404 \<notin> set calls)"
proof (cases "allowed_path (req_Path r)")
  case False
  then show ?thesis by (simp add: edgeHandler_def)
next
  case True
  then obtain h rest where s: "rest \<noteq> []" "list_all plain_element rest"
      "splitN 3 (req_Path r) ''/'' = [[], h, join rest ''/'']" "req_Path r = ''/'' @ h @ ''/'' @ join rest ''/''"
    by (rule allowed_path_parts)
  let ?f = "diskDir (join rest ''/'')"
  have "list_all plain_element ([''tmp'', ''edge''] @ rest)" using s(2) by (simp add: plain_element_def)
  from path_clean_plain(2) [OF _ this] have clean: "path_clean ?f = ?f"
    using s(1) by (simp add: diskDir_def cacheDir_def join_Cons)
  have pre: "has_prefix ?f (cacheDir @ ''/'')" by (simp add: diskDir_def has_prefix_iff)
  have parts: "slice_get (splitN 3 (req_Path r) ''/'') 1 = Returns h"
    "slice_get (splitN 3 (req_Path r) ''/'') 2 = Returns (join rest ''/'')"
    by (simp_all add: s(3) numeral_2_eq_2)
  show ?thesis
  proof (cases "has_suffix (req_Path r) ''.m3u8''")
    case True
    with \<open>allowed_path (req_Path r)\<close> parts show ?thesis by (simp add: edgeHandler_def Let_def)
  next
    case False
    obtain err st' where f: "fetchFile cfg w now h (join rest ''/'') st = (err, st')" by fastforce
    have "\<not> has_suffix ?f ''.m3u8''"
      using False s(4) by (auto simp: diskDir_def has_suffix_iff append_eq_append_conv2 cacheDir_def Cons_eq_append_conv append_eq_Cons_conv)
    moreover have "err = None \<Longrightarrow> disk st' ?f \<noteq> None"
      using fetched_file_on_disk [OF assms] f by blast
    ultimately show ?thesis
      using \<open>allowed_path (req_Path r)\<close> False parts clean pre f by (simp add: edgeHandler_def Let_def)
  qed
qed

definition example_broken :: edge_world where
  "example_broken =
     \<lparr>stat_error = (\<lambda>_. None), mkdir_error = (\<lambda>_. None), create_error = (\<lambda>_. None),
      origin = (\<lambda>_. Broken ''ab'' ''reset''), remove_fails = (\<lambda>_. False)\<rparr>"

lemma live_segments_stay_in_the_cache_witness:
  "\<exists>calls st'. edgeHandler example_edge example_broken (\<lambda>_. True) 0 (example_request\<lparr>req_Path := ''/vm/live/1.ts''\<rparr>)
       \<lparr>cachedFiles = Map.empty, disk = Map.empty\<rparr> = Returns (calls, st') \<and>
     (\<forall>f. ServeFile f \<in> set calls \<longrightarrow> has_prefix f ''/tmp/edge/'')"
  using live_segments_stay_in_the_cache [of "\<lparr>cachedFiles = Map.empty, disk = Map.empty\<rparr>" example_edge example_broken
      "\<lambda>_. True" 0 "example_request\<lparr>req_Path := ''/vm/live/1.ts''\<rparr>"]
  by (auto simp: cache_on_disk_def cacheDir_def)

subsection \<open>The life of a cached segment\<close>

inductive edge_step :: "edge_config \<Rightarrow> edge_state \<Rightarrow> edge_state \<Rightarrow> bool" for cfg where
  fetch_step: "fetchFile cfg w now host name st = (err, st') \<Longrightarrow> edge_step cfg st st'"
| cleanup_step: "edge_step cfg st (edge_cleanup w now st)"

inductive_simps edge_step_iff: "edge_step cfg st st'"

lemma edge_stepE [consumes 1, case_names fetch cleanup]:
  assumes "edge_step cfg st st'"
  obtains w now host name err where "fetchFile cfg w now host name st = (err, st')"
  | w now where "st' = edge_cleanup w now st"
  using assms unfolding edge_step_iff by blast

definition start_state :: edge_state where
  "start_state = \<lparr>cachedFiles = Map.empty, disk = Map.empty\<rparr>"

text \<open>What a fetch may change: one file that was not on disk.\<close>

lemma fetchFile_cases:
  assumes "fetchFile cfg w now host name st = (err, st')"
  obtains (same) "st' = st"
  | (complete) body where "err = None" "disk st (diskDir name) = None" "origin w (origin_url cfg host name) = Complete body"
      "st' = st\<lparr>disk := (disk st)(diskDir name \<mapsto> body), cachedFiles := (cachedFiles st)(diskDir name \<mapsto> now)\<rparr>"
  | (broken) part e where "err = Some e" "disk st (diskDir name) = None" "cachedFiles st (diskDir name) = None"
      "origin w (origin_url cfg host name) = Broken part e"
      "st' = st\<lparr>disk := (disk st)(diskDir name \<mapsto> part)\<rparr>"
proof (cases "st' = st")
  case False
  with assms have new: "cachedFiles st (diskDir name) = None" "fetch_uncached cfg w now host name st = (err, st')"
    by (auto simp: fetchFile_def split: if_splits)
  with False have absent: "disk st (diskDir name) = None" "stat_error w (diskDir name) = None"
    by (auto simp: fetch_uncached_def Let_def split: if_splits)
  show ?thesis
  proof (cases "origin w (origin_url cfg host name)")
    case (NoAnswer e)
    with new absent False show ?thesis by (simp add: fetch_uncached_def Let_def split: if_splits)
  next
    case (Complete body)
    with new absent False show ?thesis
      by (intro complete) (auto simp: fetch_uncached_def Let_def split: if_splits)
  next
    case (Broken part e)
    with new absent False show ?thesis
      by (intro broken) (auto simp: fetch_uncached_def Let_def split: if_splits)
  qed
qed (rule same)

lemma cleanup_on_disk: "cache_on_disk st \<Longrightarrow> cache_on_disk (edge_cleanup w now st)"
  by (fastforce simp: cache_on_disk_def edge_cleanup_def dom_def split: if_splits)

text \<open>C16: In every state the edge server reaches from its start by fetches and clean-ups, whatever
  the runners and the file system answer, an entry of the cache's table stands for a file on disk:
  a segment that is reported as cached can be served.\<close>

theorem cached_means_on_disk:
  assumes "(edge_step cfg)\<^sup>*\<^sup>* start_state st"
  shows "dom (cachedFiles st) \<subseteq> dom (disk st)"
  using assms
proof (induction rule: rtranclp_induct)
  case base
  then show ?case by (simp add: start_state_def)
next
  case (step st st')
  from step(2) show ?case
  proof (cases rule: edge_stepE)
    case (fetch w now host name err)
    from fetch show ?thesis using step(3) by (cases rule: fetchFile_cases) (fastforce simp: subset_iff dom_def)+
  next
    case (cleanup w now)
    then show ?thesis using step(3) cleanup_on_disk by (simp add: cache_on_disk_def)
  qed
qed

definition example_complete :: edge_world where
  "example_complete = example_broken\<lparr>origin := \<lambda>_. Complete ''abc''\<rparr>"

theorem cached_means_on_disk_witness:
  "dom (cachedFiles (snd (fetchFile example_edge example_complete 0 ''vm'' ''live/1.ts'' start_state)))
     \<subseteq> dom (disk (snd (fetchFile example_edge example_complete 0 ''vm'' ''live/1.ts'' start_state)))"
  by (rule cached_means_on_disk [of example_edge], rule r_into_rtranclp [of "edge_step example_edge"],
      rule fetch_step [OF surjective_pairing])

text \<open>After a clean-up no entry of the cache is older than ten minutes, no younger entry was
  dropped, and the file of a dropped entry is gone unless the file system refused to remove it.\<close>

lemma cleanup_forgets_old_segments:
  assumes "\<bar>now - t\<bar> < 2 ^ 63"
  shows "(cachedFiles (edge_cleanup w now st) f = Some t \<longleftrightarrow>
           cachedFiles st f = Some t \<and> now - t \<le> Minute * 10) \<and>
         (cachedFiles st f = Some t \<and> now - t > Minute * 10 \<and> \<not> remove_fails w f \<longrightarrow>
           disk (edge_cleanup w now st) f = None) \<and>
         (cachedFiles st f = None \<longrightarrow> disk (edge_cleanup w now st) f = disk st f)"
  using assms by (auto simp: edge_cleanup_def too_old_def time_sub_exact split: if_splits option.splits)

lemma cleanup_forgets_old_segments_witness:
  "cachedFiles (edge_cleanup example_broken (Minute * 11) (start_state\<lparr>cachedFiles := [''f'' \<mapsto> 0], disk := [''f'' \<mapsto> ''x'']\<rparr>)) ''f'' = None"
  using cleanup_forgets_old_segments [of "Minute * 11" 0 example_broken
      "start_state\<lparr>cachedFiles := [''f'' \<mapsto> 0], disk := [''f'' \<mapsto> ''x'']\<rparr>" "''f''"]
  by (auto simp: Minute_def start_state_def edge_cleanup_def too_old_def time_sub_def)

text \<open>A file on disk that the table does not know is never touched again.\<close>

lemma unknown_file_stays:
  assumes "edge_step cfg st st'" and "disk st f = Some c" and "cachedFiles st f = None"
  shows "disk st' f = Some c \<and> cachedFiles st' f = None"
  using assms(1)
proof (cases rule: edge_stepE)
  case (fetch w now host name err)
  from fetch show ?thesis using assms(2,3) by (cases rule: fetchFile_cases) auto
next
  case (cleanup w now)
  then show ?thesis using assms(2,3) by (simp add: edge_cleanup_def too_old_def)
qed

text \<open>C17: A download from the runner that breaks off half-way reports its error once; from then
  on, after any fetches and clean-ups, every request for that segment succeeds and is served the
  truncated file, and no clean-up removes it (the file is on disk but not in the table).\<close>

theorem truncated_segment_stays:
  assumes "fetchFile cfg w now host name st = (Some err, st')" and "st' \<noteq> st"
    and "(edge_step cfg)\<^sup>*\<^sup>* st' later"
    and "stat_error w' (diskDir name) = None"
  shows "\<exists>part. origin w (origin_url cfg host name) = Broken part err \<and>
           disk later (diskDir name) = Some part \<and> cachedFiles later (diskDir name) = None \<and>
           fetchFile cfg w' now' host' name later = (None, later)"
proof -
  from assms(1) obtain part where part: "origin w (origin_url cfg host name) = Broken part err"
      "disk st' (diskDir name) = Some part" "cachedFiles st' (diskDir name) = None"
    by (cases rule: fetchFile_cases) (use assms(2) in auto)
  from assms(3) have "disk later (diskDir name) = Some part \<and> cachedFiles later (diskDir name) = None"
    by (induction rule: rtranclp_induct) (use part(2,3) unknown_file_stays in blast)+
  with part(1) assms(4) show ?thesis
    by (simp add: fetchFile_def fetch_uncached_def Let_def)
qed

theorem truncated_segment_stays_witness:
  "fetchFile example_edge example_broken 9 ''vm2'' ''live/1.ts''
     (edge_cleanup example_broken (Hour * 1) (snd (fetchFile example_edge example_broken 0 ''vm'' ''live/1.ts'' start_state)))
   = (None, edge_cleanup example_broken (Hour * 1) (snd (fetchFile example_edge example_broken 0 ''vm'' ''live/1.ts'' start_state)))"
proof -
  let ?st = "snd (fetchFile example_edge example_broken 0 ''vm'' ''live/1.ts'' start_state)"
  have fetched: "fetchFile example_edge example_broken 0 ''vm'' ''live/1.ts'' start_state = (Some ''reset'', ?st)" "?st \<noteq> start_state"
    by (simp_all add: fetchFile_def fetch_uncached_def example_broken_def start_state_def Let_def splitN_def
        go_split_single_sep fun_eq_iff)
  have "(edge_step example_edge)\<^sup>*\<^sup>* ?st (edge_cleanup example_broken (Hour * 1) ?st)"
    by (rule r_into_rtranclp) (rule cleanup_step)
  from truncated_segment_stays [OF fetched this, of example_broken 9 "''vm2''"] show ?thesis
    by (simp add: example_broken_def)
qed

end
