(* ===== verification/Dao_Api.thy ===== *)
theory Dao_Api
  imports Dao_Streams Middlewares Model_Chat
begin

text \<open>
  The rest of \<^verbatim>\<open>src/dao\<close> that the HTTP interface uses: \<^verbatim>\<open>courses.go\<close>, \<^verbatim>\<open>users.go\<close>,
  \<^verbatim>\<open>audit.go\<close>, \<^verbatim>\<open>video-section.go\<close>, \<^verbatim>\<open>email.go\<close>, the create, update and delete operations of
  \<^verbatim>\<open>streams.go\<close>, \<^verbatim>\<open>file.go\<close> and \<^verbatim>\<open>upload_key.go\<close>. The tables of \<open>Dao_Streams\<close> are the
  field \<open>base\<close>; the others are lists of rows, the join tables lists of pairs (user, course). A row
  holds none of its associations, a query preloads them as the code asks for them.

  gorm's documented rules are written out: the hook \<open>BeforeSave\<close> of a course can refuse it; \<open>Create\<close> replaces a zero field that has a default by the
  default, stores has-many associations and, for one that already has a key, only moves it to the new
  owner; \<open>Updates\<close> of a struct skips zero fields; \<open>FullSaveAssociations\<close> overwrites the associated
  rows; \<open>Find\<close> of a single row does not fail when there is none. \<^verbatim>\<open>Cache.Clear()\<close> empties all caches.
\<close>

subsection \<open>Tables\<close>

record Audit = gorm_Model +
  audit_UserID :: "uint option"
  audit_Message :: string
  audit_Type :: uint

record RegisterLink = gorm_Model +
  link_UserID :: uint
  RegisterSecret :: string

record Mail = gorm_Model +
  mail_From :: string
  mail_To :: string
  mail_Subject :: string
  mail_Body :: string
  mail_Success :: bool
  Retries :: int
  LastTry :: gotime
  mail_Errors :: string

record api_db =
  base :: tables
  t_users :: "User list"
  t_settings :: "UserSetting list"
  course_admins :: "(uint \<times> uint) list"
  course_users :: "(uint \<times> uint) list"
  pinned_courses :: "(uint \<times> uint) list"
  t_units :: "StreamUnit list"
  t_sections :: "VideoSection list"
  t_audits :: "Audit list"
  t_links :: "RegisterLink list"
  t_mails :: "Mail list"
  t_views :: "StreamProgress list"
  t_chats :: "Chat list"
  next_stream :: uint
  next_course :: uint
  next_user :: uint
  next_setting :: uint
  next_unit :: uint
  next_section :: uint
  next_audit :: uint
  next_link :: uint
  next_mail :: uint
  next_key :: uint
  slug_cache :: "string \<rightharpoonup> Course \<times> gotime"
  list_cache :: "string \<rightharpoonup> Course list \<times> gotime"
  user_cache :: "uint \<rightharpoonup> User \<times> gotime"
  users_seen :: bool

definition Clear :: "api_db \<Rightarrow> api_db" where
  "Clear db = db\<lparr>base := clear_cache (base db), slug_cache := Map.empty, list_cache := Map.empty,
                 user_cache := Map.empty, users_seen := False\<rparr>"

definition api_exec :: "db_env \<Rightarrow> string \<Rightarrow> (api_db \<Rightarrow> api_db) \<Rightarrow> api_db \<Rightarrow> string option \<times> api_db" where
  "api_exec e name f db = (case fault e name of Some err \<Rightarrow> (Some err, db) | None \<Rightarrow> (None, f db))"

text \<open>An operation of \<open>Dao_Streams\<close> on the whole database.\<close>

definition on_base :: "(tables \<Rightarrow> 'r \<times> tables) \<Rightarrow> api_db \<Rightarrow> 'r \<times> api_db" where
  "on_base f db = apsnd (\<lambda>t. db\<lparr>base := t\<rparr>) (f (base db))"

definition lookup_cache :: "db_env \<Rightarrow> ('k \<rightharpoonup> 'a \<times> gotime) \<Rightarrow> 'k \<Rightarrow> 'a option" where
  "lookup_cache e c k =
     (case c k of Some (x, expires) \<Rightarrow> if clock e \<le> expires then Some x else None | None \<Rightarrow> None)"

definition SetWithTTL ::
    "db_env \<Rightarrow> 'k \<Rightarrow> 'a \<Rightarrow> duration \<Rightarrow> ('k \<rightharpoonup> 'a \<times> gotime) \<Rightarrow> ('k \<rightharpoonup> 'a \<times> gotime)" where
  "SetWithTTL e k x ttl c = c(k := if admits e then Some (x, clock e + ttl) else None)"

subsection \<open>Writing rows\<close>

text \<open>Rows without a key get the next ones; the caller sees them, as gorm sets them in the struct.\<close>

fun number :: "uint \<Rightarrow> 'a gorm_Model_scheme list \<Rightarrow> 'a gorm_Model_scheme list \<times> uint" where
  "number k [] = ([], k)"
| "number k (x # xs) =
     (if ID x = 0 then apfst (Cons (x\<lparr>ID := k\<rparr>)) (number (k + 1) xs) else apfst (Cons x) (number k xs))"

definition stamp :: "gotime \<Rightarrow> 'a gorm_Model_scheme \<Rightarrow> 'a gorm_Model_scheme" where
  "stamp now x = x\<lparr>CreatedAt := (if CreatedAt x = zero_time then now else CreatedAt x), UpdatedAt := now\<rparr>"

text \<open>An insert that overwrites all columns but the key and the creation time of a row that is there.\<close>

definition upsert :: "gotime \<Rightarrow> 'a gorm_Model_scheme list \<Rightarrow> 'a gorm_Model_scheme \<Rightarrow> 'a gorm_Model_scheme list" where
  "upsert now rows x =
     (if list_ex (\<lambda>r. ID r = ID x) rows
      then map (\<lambda>r. if ID r = ID x then x\<lparr>CreatedAt := CreatedAt r, UpdatedAt := now\<rparr> else r) rows
      else rows @ [stamp now x])"

definition soft_delete ::
    "gotime \<Rightarrow> ('a gorm_Model_scheme \<Rightarrow> bool) \<Rightarrow> 'a gorm_Model_scheme list \<Rightarrow> 'a gorm_Model_scheme list" where
  "soft_delete now P rows = map (\<lambda>r. if P r \<and> live_row r then r\<lparr>DeletedAt := Some now\<rparr> else r) rows"

text \<open>A stream as a row: its associations have tables of their own.\<close>

definition stream_columns :: "Stream \<Rightarrow> Stream" where
  "stream_columns s = s\<lparr>Chats := [], Stats := [], Units := [], Silences := [], Files := [], StreamWorkers := [],
     StreamProgresses := [], VideoSections := [], TranscodingProgresses := [], Watched := False\<rparr>"

definition course_columns :: "Course \<Rightarrow> Course" where
  "course_columns c = c\<lparr>Streams := [], Users := [], Admins := [], Pinned := False\<rparr>"

definition user_columns :: "User \<Rightarrow> User" where
  "user_columns u = u\<lparr>Courses := [], AdministeredCourses := [], PinnedCourses := [], Settings := [], Bookmarks := []\<rparr>"

text \<open>
  \<^verbatim>\<open>DB.Create\<close> of a stream. Files, silences, units and sections that already have a key are moved
  to the new stream; a transcoding progress has the stream in its key, so it is copied.
\<close>

definition moved :: "uint \<Rightarrow> Stream \<Rightarrow> api_db \<Rightarrow> api_db" where
  "moved i s db =
     (let t = base db;
          (files, kf) = save_has_many (UpdatedAt s) (\<lambda>f. f\<lparr>file_StreamID := i\<rparr>) (Files s) (t_files t, next_file t);
          (silences, ks) = save_has_many (UpdatedAt s) (\<lambda>x. x\<lparr>silence_StreamID := i\<rparr>) (Silences s) (t_silences t, next_silence t);
          (units, ku) = save_has_many (UpdatedAt s) (\<lambda>x. x\<lparr>unit_StreamID := i\<rparr>) (Units s) (t_units db, next_unit db);
          (sections, kv) = save_has_many (UpdatedAt s) (\<lambda>x. x\<lparr>section_StreamID := i\<rparr>) (VideoSections s) (t_sections db, next_section db)
      in db\<lparr>base := t\<lparr>t_files := files, next_file := kf, t_silences := silences, next_silence := ks,
                      t_transcoding := t_transcoding t @ map (\<lambda>p. p\<lparr>tp_StreamID := i\<rparr>) (TranscodingProgresses s)\<rparr>,
            t_units := units, next_unit := ku, t_sections := sections, next_section := kv\<rparr>)"

definition insert_stream :: "gotime \<Rightarrow> Stream \<Rightarrow> api_db \<Rightarrow> Stream \<times> api_db" where
  "insert_stream now s db =
     (let s' = stamp now (if ID s = 0 then s\<lparr>ID := next_stream db\<rparr> else s);
          db = (if ID s = 0 then db\<lparr>next_stream := next_stream db + 1\<rparr> else db);
          db = db\<lparr>base := (base db)\<lparr>t_streams := t_streams (base db) @ [stream_columns s']\<rparr>\<rparr>
      in (s', moved (ID s') s' db))"

definition CreateStream :: "db_env \<Rightarrow> Stream \<Rightarrow> api_db \<Rightarrow> (string option \<times> Stream) \<times> api_db" where
  "CreateStream e s db =
     (case fault e ''CreateStream'' of
        Some err \<Rightarrow> ((Some err, s), db)
      | None \<Rightarrow>
          if ID s \<noteq> 0 \<and> list_ex (\<lambda>r. ID r = ID s) (t_streams (base db)) then ((Some ''duplicate key'', s), db)
          else (let (s', db) = insert_stream (clock e) s db in ((None, s'), db)))"

text \<open>\<^verbatim>\<open>FullSaveAssociations\<close>: the associated rows are overwritten with the given ones.\<close>

definition save_all ::
    "gotime \<Rightarrow> ('a gorm_Model_scheme \<Rightarrow> 'a gorm_Model_scheme) \<Rightarrow> 'a gorm_Model_scheme list \<Rightarrow>
     'a gorm_Model_scheme list \<times> uint \<Rightarrow> 'a gorm_Model_scheme list \<times> uint" where
  "save_all now link xs = (\<lambda>(rows, k). (let (xs, k) = number k (map link xs) in (foldl (upsert now) rows xs, k)))"

definition save_assocs :: "gotime \<Rightarrow> Stream \<Rightarrow> api_db \<Rightarrow> api_db" where
  "save_assocs now s db =
     (let t = base db; i = ID s;
          (files, kf) = save_all now (\<lambda>f. f\<lparr>file_StreamID := i\<rparr>) (Files s) (t_files t, next_file t);
          (silences, ks) = save_all now (\<lambda>x. x\<lparr>silence_StreamID := i\<rparr>) (Silences s) (t_silences t, next_silence t);
          (units, ku) = save_all now (\<lambda>x. x\<lparr>unit_StreamID := i\<rparr>) (Units s) (t_units db, next_unit db);
          (sections, kv) = save_all now (\<lambda>x. x\<lparr>section_StreamID := i\<rparr>) (VideoSections s) (t_sections db, next_section db)
      in db\<lparr>base := t\<lparr>t_files := files, next_file := kf, t_silences := silences, next_silence := ks\<rparr>,
            t_units := units, next_unit := ku, t_sections := sections, next_section := kv\<rparr>)"

definition save_streams :: "gotime \<Rightarrow> uint \<Rightarrow> Stream list \<Rightarrow> api_db \<Rightarrow> Stream list \<times> api_db" where
  "save_streams now i ss db =
     (let (ss, k) = number (next_stream db) (map (\<lambda>s. s\<lparr>CourseID := i\<rparr>) ss);
          db = db\<lparr>next_stream := k,
                  base := (base db)\<lparr>t_streams := foldl (upsert now) (t_streams (base db)) (map stream_columns ss)\<rparr>\<rparr>
      in (ss, foldl (\<lambda>db s. save_assocs now s db) db ss))"


subsection \<open>Courses (dao/courses.go)\<close>

text \<open>The streams of a course, as a preload without an order returns them: by primary key.\<close>

definition course_streams :: "api_db \<Rightarrow> uint \<Rightarrow> Stream list" where
  "course_streams db i = filter (\<lambda>s. CourseID s = i \<and> live_row s) (t_streams (base db))"

definition by_start :: "Stream list \<Rightarrow> Stream list" where
  "by_start = sort_key Start"

definition by_start_desc :: "Stream list \<Rightarrow> Stream list" where
  "by_start_desc = sort_key (\<lambda>s. - Start s)"

definition with_sections :: "api_db \<Rightarrow> Stream \<Rightarrow> Stream" where
  "with_sections db s = s\<lparr>VideoSections := filter (\<lambda>v. section_StreamID v = ID s \<and> live_row v) (t_sections db)\<rparr>"

definition with_units :: "api_db \<Rightarrow> Stream \<Rightarrow> Stream" where
  "with_units db s = s\<lparr>Units := sort_key UnitStart (filter (\<lambda>u. unit_StreamID u = ID s \<and> live_row u) (t_units db))\<rparr>"

definition with_units_desc :: "api_db \<Rightarrow> Stream \<Rightarrow> Stream" where
  "with_units_desc db s =
     s\<lparr>Units := sort_key (\<lambda>u. - Word.uint (UnitStart u)) (filter (\<lambda>u. unit_StreamID u = ID s \<and> live_row u) (t_units db))\<rparr>"

definition with_files :: "api_db \<Rightarrow> Stream \<Rightarrow> Stream" where
  "with_files db s = s\<lparr>Files := filter (\<lambda>f. file_StreamID f = ID s \<and> live_row f) (t_files (base db))\<rparr>"

definition with_progress :: "api_db \<Rightarrow> Stream \<Rightarrow> Stream" where
  "with_progress db s = s\<lparr>TranscodingProgresses := filter (\<lambda>p. tp_StreamID p = ID s) (t_transcoding (base db))\<rparr>"

definition courses_where :: "api_db \<Rightarrow> (Course \<Rightarrow> bool) \<Rightarrow> (Stream list \<Rightarrow> Stream list) \<Rightarrow> Course list" where
  "courses_where db P order =
     map (\<lambda>c. c\<lparr>Streams := order (course_streams db (ID c))\<rparr>) (filter (\<lambda>c. P c \<and> live_row c) (t_courses (base db)))"

definition CourseById :: "db_env \<Rightarrow> uint \<Rightarrow> api_db \<Rightarrow> string + Course" where
  "CourseById e i db =
     row_query e ''GetCourseById'' (Some
       (case course_row (base db) i of
          None \<Rightarrow> zero_Course
        | Some c \<Rightarrow> c\<lparr>Streams := by_start_desc (map (with_progress db \<circ> with_sections db \<circ> with_files db)
                                                (course_streams db i))\<rparr>))"

definition course_by_slug :: "api_db \<Rightarrow> string \<Rightarrow> string \<Rightarrow> int \<Rightarrow> Course option" where
  "course_by_slug db slug term year =
     map_option (\<lambda>c. c\<lparr>Streams := by_start_desc (map (with_units_desc db \<circ> with_sections db) (course_streams db (ID c))),
                       Admins := map fst (filter (\<lambda>p. snd p = ID c \<and> list_ex (\<lambda>u. ID u = fst p \<and> live_row u) (t_users db))
                                            (course_admins db))\<rparr>)
       (List.find (\<lambda>c. course_TeachingTerm c = term \<and> Slug c = slug \<and> course_Year c = year \<and> live_row c)
          (t_courses (base db)))"

definition GetCourseBySlugYearAndTerm ::
    "db_env \<Rightarrow> string \<Rightarrow> string \<Rightarrow> int \<Rightarrow> api_db \<Rightarrow> (string + Course) \<times> api_db" where
  "GetCourseBySlugYearAndTerm e slug term year db =
     (let key = slug @ term @ itoa year in
      case lookup_cache e (slug_cache db) key of
        Some c \<Rightarrow> (Inr c, db)
      | None \<Rightarrow>
        (case row_query e ''GetCourseBySlugYearAndTerm'' (course_by_slug db slug term year) of
           Inl err \<Rightarrow> (Inl err, db)
         | Inr c \<Rightarrow> (Inr c, db\<lparr>slug_cache := SetWithTTL e key c Minute (slug_cache db)\<rparr>)))"

text \<open>The three lists that are cached for a minute: the key, the condition and the order of the streams.\<close>

definition cached_courses ::
    "db_env \<Rightarrow> string \<Rightarrow> string \<Rightarrow> (api_db \<Rightarrow> Course list) \<Rightarrow> api_db \<Rightarrow> (string + Course list) \<times> api_db" where
  "cached_courses e name key query db =
     (case lookup_cache e (list_cache db) key of
        Some cs \<Rightarrow> (Inr cs, db)
      | None \<Rightarrow>
        (case row_query e name (Some (query db)) of
           Inl err \<Rightarrow> (Inl err, db)
         | Inr cs \<Rightarrow> (Inr cs, db\<lparr>list_cache := SetWithTTL e key cs Minute (list_cache db)\<rparr>)))"

definition GetAllCourses :: "db_env \<Rightarrow> api_db \<Rightarrow> (string + Course list) \<times> api_db" where
  "GetAllCourses e =
     cached_courses e ''GetAllCourses'' ''allCourses'' (\<lambda>db. courses_where db (\<lambda>c. True) (map (with_files db)))"

definition GetPublicCourses :: "db_env \<Rightarrow> int \<Rightarrow> string \<Rightarrow> api_db \<Rightarrow> (string + Course list) \<times> api_db" where
  "GetPublicCourses e year term =
     cached_courses e ''GetPublicCourses'' (''publicCourses'' @ itoa year @ term)
       (\<lambda>db. courses_where db (\<lambda>c. Visibility c = ''public'' \<and> in_semester year term c) by_start)"

definition GetPublicAndLoggedInCourses :: "db_env \<Rightarrow> int \<Rightarrow> string \<Rightarrow> api_db \<Rightarrow> (string + Course list) \<times> api_db" where
  "GetPublicAndLoggedInCourses e year term =
     cached_courses e ''GetPublicAndLoggedInCourses'' (''publicAndLoggedInCourses'' @ itoa year @ term)
       (\<lambda>db. courses_where db
          (\<lambda>c. (Visibility c = ''public'' \<or> Visibility c = ''loggedin'') \<and> in_semester year term c) by_start)"

definition GetAllCoursesForSemester :: "db_env \<Rightarrow> int \<Rightarrow> string \<Rightarrow> api_db \<Rightarrow> Course list" where
  "GetAllCoursesForSemester e year term db =
     (if fault e ''GetAllCoursesForSemester'' = None then courses_where db (in_semester year term) by_start else [])"

definition IsUserAdmin :: "db_env \<Rightarrow> uint \<Rightarrow> api_db \<Rightarrow> string + bool" where
  "IsUserAdmin e uid db =
     row_query e ''IsUserAdmin''
       (Some (case List.find (\<lambda>u. ID u = uid \<and> live_row u) (t_users db) of None \<Rightarrow> False | Some u \<Rightarrow> Role u = 1))"

text \<open>\<^verbatim>\<open>commons.Unique\<close> keeps the first of the elements with a key.\<close>

definition unique_courses :: "Course list \<Rightarrow> Course list" where
  "unique_courses cs = foldl (\<lambda>acc c. if list_ex (\<lambda>d. ID d = ID c) acc then acc else acc @ [c]) [] cs"

text \<open>A year of 0 stands for all semesters. The list of a tumlive admin is cached under a key nobody reads.\<close>

definition GetAdministeredCoursesByUserId ::
    "db_env \<Rightarrow> uint \<Rightarrow> string \<Rightarrow> int \<Rightarrow> api_db \<Rightarrow> (string + Course list) \<times> api_db" where
  "GetAdministeredCoursesByUserId e userid term year db =
     (let key = ''coursesByUserID'' @ uint_str userid @ ''-'' @ itoa year @ ''-'' @ term;
          sem = (\<lambda>c. in_semester year term c \<or> year = 0) in
      case lookup_cache e (list_cache db) key of
        Some cs \<Rightarrow> (Inr cs, db)
      | None \<Rightarrow>
        (case IsUserAdmin e userid db of
           Inl err \<Rightarrow> (Inl err, db)
         | Inr True \<Rightarrow>
             (case row_query e ''GetAdministeredCoursesByUserId'' (Some (courses_where db sem by_start)) of
                Inl err \<Rightarrow> (Inl err, db)
              | Inr cs \<Rightarrow> (Inr cs, db\<lparr>list_cache :=
                   SetWithTTL e (''coursesByUserID'' @ uint_str userid) cs Minute (list_cache db)\<rparr>))
         | Inr False \<Rightarrow>
             (case row_query e ''GetAdministeredCoursesByUserId'' (Some
                 (courses_where db (\<lambda>c. course_UserID c = userid \<and> sem c) by_start @
                  courses_where db (\<lambda>c. (userid, ID c) \<in> set (course_admins db) \<and> sem c) (\<lambda>ss. ss))) of
                Inl err \<Rightarrow> (Inl err, db)
              | Inr cs \<Rightarrow> (Inr (unique_courses cs),
                   db\<lparr>list_cache := SetWithTTL e key (unique_courses cs) Minute (list_cache db)\<rparr>))))"

text \<open>\<^verbatim>\<open>Unscoped\<close>: deleted courses and their deleted streams are found too.\<close>

definition GetCourseByToken :: "db_env \<Rightarrow> string \<Rightarrow> api_db \<Rightarrow> string + Course" where
  "GetCourseByToken e token db =
     row_query e ''GetCourseByToken''
       (map_option (\<lambda>c. c\<lparr>Streams := filter (\<lambda>s. CourseID s = ID c) (t_streams (base db))\<rparr>)
          (List.find (\<lambda>c. course_Token c = token) (t_courses (base db))))"

definition GetCourseAdmins :: "db_env \<Rightarrow> uint \<Rightarrow> api_db \<Rightarrow> string + User list" where
  "GetCourseAdmins e i db =
     row_query e ''GetCourseAdmins''
       (Some (if list_ex (\<lambda>c. ID c = i) (t_courses (base db))
              then concat (map (\<lambda>(u, c). if c = i then filter (\<lambda>r. ID r = u) (t_users db) else []) (course_admins db))
              else []))"

definition course_defaults :: "Course \<Rightarrow> Course" where
  "course_defaults c = c\<lparr>VODEnabled := True, AnonymousChatEnabled := True,
     Visibility := (if Visibility c = [] then ''loggedin'' else Visibility c)\<rparr>"

text \<open>
  The course the caller holds afterwards has its key and the defaults; its streams and administrators are
  stored with it. With \<open>keep\<close> false the course is deleted again at once, for the lecturer to opt in.
\<close>

definition CreateCourse :: "db_env \<Rightarrow> Course \<Rightarrow> bool \<Rightarrow> api_db \<Rightarrow> (string option \<times> Course) \<times> api_db" where
  "CreateCourse e course keep db =
     apsnd Clear
     (if Course_BeforeSave course \<noteq> None then ((Course_BeforeSave course, course), db)
      else case fault e ''CreateCourse'' of
        Some err \<Rightarrow> ((Some err, course), db)
      | None \<Rightarrow>
        (let now = clock e;
             c = stamp now (course_defaults (if ID course = 0 then course\<lparr>ID := next_course db\<rparr> else course));
             db = (if ID course = 0 then db\<lparr>next_course := next_course db + 1\<rparr> else db);
             row = (course_columns c)\<lparr>DeletedAt := (if keep then DeletedAt course else Some now)\<rparr>;
             db = db\<lparr>base := (base db)\<lparr>t_courses := t_courses (base db) @ [row]\<rparr>,
                     course_admins := course_admins db @ map (\<lambda>u. (u, ID c)) (Admins c)\<rparr>;
             db = foldl (\<lambda>db s. snd (insert_stream now (s\<lparr>CourseID := ID c\<rparr>) db)) db (Streams c)
         in ((None, c), db)))"

text \<open>The join table has foreign keys, so the user must have a row.\<close>

definition AddAdminToCourse :: "db_env \<Rightarrow> uint \<Rightarrow> uint \<Rightarrow> api_db \<Rightarrow> string option \<times> api_db" where
  "AddAdminToCourse e u c db =
     apsnd Clear
     (if \<not> (list_ex (\<lambda>r. ID r = u) (t_users db) \<and> list_ex (\<lambda>r. ID r = c) (t_courses (base db)))
      then (Some ''foreign key constraint fails'', db)
      else api_exec e ''AddAdminToCourse''
        (\<lambda>db. db\<lparr>course_admins := (if (u, c) \<in> set (course_admins db) then course_admins db
                                   else course_admins db @ [(u, c)])\<rparr>) db)"

definition RemoveAdminFromCourse :: "db_env \<Rightarrow> uint \<Rightarrow> uint \<Rightarrow> api_db \<Rightarrow> string option \<times> api_db" where
  "RemoveAdminFromCourse e u c db =
     apsnd Clear (api_exec e ''RemoveAdminFromCourse''
       (\<lambda>db. db\<lparr>course_admins := filter (\<lambda>p. p \<noteq> (u, c)) (course_admins db)\<rparr>) db)"

definition nz_course :: "gotime \<Rightarrow> Course \<Rightarrow> Course \<Rightarrow> Course" where
  "nz_course now v r = r\<lparr>
     UpdatedAt := now,
     CreatedAt := nz zero_time (CreatedAt v) (CreatedAt r),
     DeletedAt := nz None (DeletedAt v) (DeletedAt r),
     course_UserID := nz 0 (course_UserID v) (course_UserID r),
     course_Name := nz [] (course_Name v) (course_Name r),
     Slug := nz [] (Slug v) (Slug r),
     course_Year := nz 0 (course_Year v) (course_Year r),
     course_TeachingTerm := nz [] (course_TeachingTerm v) (course_TeachingTerm r),
     TUMOnlineIdentifier := nz [] (TUMOnlineIdentifier v) (TUMOnlineIdentifier r),
     VODEnabled := nz False (VODEnabled v) (VODEnabled r),
     DownloadsEnabled := nz False (DownloadsEnabled v) (DownloadsEnabled r),
     course_ChatEnabled := nz False (course_ChatEnabled v) (course_ChatEnabled r),
     AnonymousChatEnabled := nz False (AnonymousChatEnabled v) (AnonymousChatEnabled r),
     ModeratedChatEnabled := nz False (ModeratedChatEnabled v) (ModeratedChatEnabled r),
     VodChatEnabled := nz False (VodChatEnabled v) (VodChatEnabled r),
     Visibility := nz [] (Visibility v) (Visibility r),
     course_Token := nz [] (course_Token v) (course_Token r),
     UserCreatedByToken := nz False (UserCreatedByToken v) (UserCreatedByToken r),
     CameraPresetPreferences := nz None (CameraPresetPreferences v) (CameraPresetPreferences r),
     SourcePreferences := nz None (SourcePreferences v) (SourcePreferences r),
     Language := nz None (Language v) (Language r),
     LivePrivate := nz False (LivePrivate v) (LivePrivate r),
     VodPrivate := nz False (VodPrivate v) (VodPrivate r)\<rparr>"

definition update_course :: "uint \<Rightarrow> (Course \<Rightarrow> Course) \<Rightarrow> api_db \<Rightarrow> api_db" where
  "update_course i f db =
     db\<lparr>base := (base db)\<lparr>t_courses := map (\<lambda>c. if ID c = i \<and> live_row c then f c else c) (t_courses (base db))\<rparr>\<rparr>"

text \<open>
  \<^verbatim>\<open>UpdateCourse\<close> stores the non-zero fields of the course and overwrites its streams. The result holds the
  streams with the keys they got, which the caller sees because the slice is shared.
\<close>

definition UpdateCourse :: "db_env \<Rightarrow> Course \<Rightarrow> api_db \<Rightarrow> (string option \<times> Stream list) \<times> api_db" where
  "UpdateCourse e c db =
     apsnd Clear
     (if ID c = 0 then ((Some ''WHERE conditions required'', Streams c), db)
      else if Course_BeforeSave c \<noteq> None then ((Course_BeforeSave c, Streams c), db)
      else case fault e ''UpdateCourse'' of
        Some err \<Rightarrow> ((Some err, Streams c), db)
      | None \<Rightarrow>
        (let (ss, db) = save_streams (clock e) (ID c) (Streams c) (update_course (ID c) (nz_course (clock e) c) db)
         in ((None, ss), db)))"

definition UnDeleteCourse :: "db_env \<Rightarrow> Course \<Rightarrow> api_db \<Rightarrow> string option \<times> api_db" where
  "UnDeleteCourse e course db =
     api_exec e ''UnDeleteCourse''
       (\<lambda>db. db\<lparr>base := (base db)\<lparr>t_courses :=
          map (\<lambda>c. if ID c = ID course then c\<lparr>DeletedAt := None\<rparr> else c) (t_courses (base db))\<rparr>\<rparr>) db"

text \<open>Three statements, each of which may fail on its own; the failures are logged.\<close>

definition DeleteCourse :: "db_env \<Rightarrow> Course \<Rightarrow> api_db \<Rightarrow> api_db" where
  "DeleteCourse e course db =
     (let now = clock e;
          db = snd (api_exec e ''DeleteStream'' (\<lambda>db. db\<lparr>base := (base db)\<lparr>t_streams :=
                 soft_delete now (\<lambda>s. ID s \<in> ID ` set (Streams course)) (t_streams (base db))\<rparr>\<rparr>) db);
          db = (if Course_BeforeSave course \<noteq> None then db
                else snd (api_exec e ''UpdateCourse'' (update_course (ID course) (\<lambda>c. c\<lparr>VODEnabled := False, UpdatedAt := now\<rparr>)) db))
      in snd (api_exec e ''DeleteCourse'' (\<lambda>db. db\<lparr>base := (base db)\<lparr>t_courses :=
                 soft_delete now (\<lambda>c. ID c = ID course) (t_courses (base db))\<rparr>\<rparr>) db))"

subsection \<open>Streams, units, sections, files, keys, audits\<close>

text \<open>
  \<open>GetStreamByID\<close> with the units and sections, which the first query preloads too. Every write of a unit
  clears the cache.
\<close>

definition StreamById :: "db_env \<Rightarrow> uint \<Rightarrow> api_db \<Rightarrow> (string + Stream) \<times> api_db" where
  "StreamById e i db = apfst (map_sum id (with_units db \<circ> with_sections db)) (on_base (GetStreamByID e i) db)"

definition UpdateStream :: "db_env \<Rightarrow> Stream \<Rightarrow> api_db \<Rightarrow> string option \<times> api_db" where
  "UpdateStream e s db =
     apsnd Clear
     (if ID s = 0 then (Some ''WHERE conditions required'', db)
      else on_base (exec e ''UpdateStream'' (update_stream (ID s) (\<lambda>r. r\<lparr>stream_Name := stream_Name s,
             Description := Description s, Start := Start s, End := End s,
             stream_ChatEnabled := stream_ChatEnabled s, UpdatedAt := clock e\<rparr>))) db)"

definition nz_stream :: "gotime \<Rightarrow> Stream \<Rightarrow> Stream \<Rightarrow> Stream" where
  "nz_stream now v r = (save_fields now v r)\<lparr>
     CreatedAt := nz zero_time (CreatedAt v) (CreatedAt r),
     stream_ChatEnabled := nz False (stream_ChatEnabled v) (stream_ChatEnabled r),
     CustomThumbnailEnabled := nz False (CustomThumbnailEnabled v) (CustomThumbnailEnabled r),
     TUMOnlineEventID := nz 0 (TUMOnlineEventID v) (TUMOnlineEventID r),
     SeriesIdentifier := nz [] (SeriesIdentifier v) (SeriesIdentifier r),
     Premiere := nz False (Premiere v) (Premiere r),
     Ended := nz False (Ended v) (Ended r),
     StreamName := nz [] (StreamName v) (StreamName r)\<rparr>"

definition UpdateStreamFullAssoc :: "db_env \<Rightarrow> Stream \<Rightarrow> api_db \<Rightarrow> string option \<times> api_db" where
  "UpdateStreamFullAssoc e s db =
     apsnd Clear
     (if ID s = 0 then (Some ''WHERE conditions required'', db)
      else api_exec e ''UpdateStreamFullAssoc'' (\<lambda>db.
             save_assocs (clock e) s (db\<lparr>base := update_stream (ID s) (nz_stream (clock e) s) (base db)\<rparr>)) db)"

definition delete_streams :: "db_env \<Rightarrow> string \<Rightarrow> (Stream \<Rightarrow> bool) \<Rightarrow> api_db \<Rightarrow> string option \<times> api_db" where
  "delete_streams e name P db =
     apsnd Clear (api_exec e name (\<lambda>db. db\<lparr>base := (base db)\<lparr>t_streams :=
       soft_delete (clock e) P (t_streams (base db))\<rparr>\<rparr>) db)"

definition DeleteStream :: "db_env \<Rightarrow> uint \<Rightarrow> api_db \<Rightarrow> api_db" where
  "DeleteStream e i db = snd (delete_streams e ''DeleteStream'' (\<lambda>s. ID s = i) db)"

definition DeleteLectureSeries :: "db_env \<Rightarrow> string \<Rightarrow> api_db \<Rightarrow> string option \<times> api_db" where
  "DeleteLectureSeries e series = delete_streams e ''DeleteLectureSeries'' (\<lambda>s. SeriesIdentifier s = series)"

text \<open>A table, not a model, is updated here, so \<open>UpdatedAt\<close> stays.\<close>

definition UpdateLectureSeries :: "db_env \<Rightarrow> Stream \<Rightarrow> api_db \<Rightarrow> string option \<times> api_db" where
  "UpdateLectureSeries e stream db =
     apsnd Clear (api_exec e ''UpdateLectureSeries'' (\<lambda>db. db\<lparr>base := (base db)\<lparr>t_streams :=
       map (\<lambda>s. if SeriesIdentifier s = SeriesIdentifier stream \<and> live_row s
                then s\<lparr>stream_Name := stream_Name stream, Description := Description stream\<rparr> else s)
         (t_streams (base db))\<rparr>\<rparr>) db)"

definition GetUnitByID :: "db_env \<Rightarrow> uint \<Rightarrow> api_db \<Rightarrow> string + StreamUnit" where
  "GetUnitByID e i db = row_query e ''GetUnitByID'' (List.find (\<lambda>u. ID u = i \<and> live_row u) (t_units db))"

definition DeleteUnit :: "db_env \<Rightarrow> uint \<Rightarrow> api_db \<Rightarrow> api_db" where
  "DeleteUnit e i db =
     Clear (snd (api_exec e ''DeleteUnit'' (\<lambda>db. db\<lparr>t_units := soft_delete (clock e) (\<lambda>u. ID u = i) (t_units db)\<rparr>) db))"

definition CreateUploadKey :: "db_env \<Rightarrow> string \<Rightarrow> uint \<Rightarrow> VideoType \<Rightarrow> api_db \<Rightarrow> string option \<times> api_db" where
  "CreateUploadKey e key stream ty db =
     api_exec e ''CreateUploadKey'' (\<lambda>db.
       db\<lparr>base := (base db)\<lparr>t_upload_keys := t_upload_keys (base db) @
            [\<lparr>ID = next_key db, CreatedAt = clock e, UpdatedAt = clock e, DeletedAt = None, upload_key = key,
              key_StreamID = stream, key_VideoType = ty\<rparr>]\<rparr>, next_key := next_key db + 1\<rparr>) db"

definition AuditDao_Create :: "db_env \<Rightarrow> User option \<Rightarrow> string \<Rightarrow> uint \<Rightarrow> api_db \<Rightarrow> string option \<times> api_db" where
  "AuditDao_Create e user message ty db =
     api_exec e ''AuditCreate'' (\<lambda>db.
       db\<lparr>t_audits := t_audits db @
            [\<lparr>ID = next_audit db, CreatedAt = clock e, UpdatedAt = clock e, DeletedAt = None,
              audit_UserID = map_option ID user, audit_Message = message, audit_Type = ty\<rparr>],
          next_audit := next_audit db + 1\<rparr>) db"


subsection \<open>Users (dao/users.go)\<close>

definition zero_User :: User where
  "zero_User =
     \<lparr>ID = 0, CreatedAt = zero_time, UpdatedAt = zero_time, DeletedAt = None, user_Name = [], LastName = None,
      Email = None, MatriculationNumber = [], LrzID = [], Role = 0, Password = [], Courses = [],
      AdministeredCourses = [], PinnedCourses = [], Settings = [], Bookmarks = []\<rparr>"

definition linked_courses :: "api_db \<Rightarrow> (uint \<times> uint) list \<Rightarrow> uint \<Rightarrow> (Stream list \<Rightarrow> Stream list) \<Rightarrow> Course list" where
  "linked_courses db links uid = courses_where db (\<lambda>c. (uid, ID c) \<in> set links)"

definition settings_of :: "api_db \<Rightarrow> uint \<Rightarrow> UserSetting list" where
  "settings_of db i = filter (\<lambda>s. setting_UserID s = i \<and> live_row s) (t_settings db)"

definition user_row :: "api_db \<Rightarrow> uint \<Rightarrow> User option" where
  "user_row db i = List.find (\<lambda>u. ID u = i \<and> live_row u) (t_users db)"

definition full_user :: "api_db \<Rightarrow> User \<Rightarrow> User" where
  "full_user db u = u\<lparr>
     AdministeredCourses := linked_courses db (course_admins db) (ID u) (\<lambda>ss. []),
     PinnedCourses := linked_courses db (pinned_courses db) (ID u) (\<lambda>ss. ss),
     Courses := linked_courses db (course_users db) (ID u) (\<lambda>ss. ss),
     Settings := settings_of db (ID u)\<rparr>"

definition GetUserByID :: "db_env \<Rightarrow> uint \<Rightarrow> api_db \<Rightarrow> (string + User) \<times> api_db" where
  "GetUserByID e i db =
     (case lookup_cache e (user_cache db) i of
        Some u \<Rightarrow> (Inr u, db)
      | None \<Rightarrow>
        (case row_query e ''GetUserByID'' (Some (case user_row db i of None \<Rightarrow> zero_User | Some u \<Rightarrow> full_user db u)) of
           Inl err \<Rightarrow> (Inl err, db)
         | Inr u \<Rightarrow> (Inr u, db\<lparr>user_cache := SetWithTTL e i u (10 * Second) (user_cache db)\<rparr>)))"

definition GetUserByEmail :: "db_env \<Rightarrow> string \<Rightarrow> api_db \<Rightarrow> string + User" where
  "GetUserByEmail e email db =
     row_query e ''GetUserByEmail'' (List.find (\<lambda>u. Email u = Some email \<and> live_row u) (t_users db))"

definition AreUsersEmpty :: "db_env \<Rightarrow> api_db \<Rightarrow> (string + bool) \<times> api_db" where
  "AreUsersEmpty e db =
     (if users_seen db then (Inr False, db)
      else case row_query e ''AreUsersEmpty'' (Some (list_ex live_row (t_users db))) of
             Inl err \<Rightarrow> (Inl err, db)
           | Inr some \<Rightarrow> (Inr (\<not> some), if some \<and> admits e then db\<lparr>users_seen := True\<rparr> else db))"

text \<open>
  A new user passes the hook of the model; the address and the matriculation number are unique, and a role
  of zero becomes that of a student.
\<close>

definition user_conflict :: "User \<Rightarrow> User \<Rightarrow> bool" where
  "user_conflict u v \<longleftrightarrow> Email u \<noteq> None \<and> Email u = Email v \<or>
     MatriculationNumber u \<noteq> [] \<and> MatriculationNumber u = MatriculationNumber v"

definition CreateUser :: "db_env \<Rightarrow> User \<Rightarrow> api_db \<Rightarrow> (string option \<times> User) \<times> api_db" where
  "CreateUser e user db =
     (case User_BeforeCreate user of
        Inl _ \<Rightarrow> ((Some ''invalid name'', user), db)
      | Inr u \<Rightarrow>
        (case fault e ''CreateUser'' of
           Some err \<Rightarrow> ((Some err, u), db)
         | None \<Rightarrow>
             if list_ex (\<lambda>c. Course_BeforeSave c \<noteq> None) (Courses u) then ((Some ''invalid course slug'', u), db)
             else if list_ex (user_conflict u) (t_users db) then ((Some ''duplicate key'', u), db)
             else (let v = stamp (clock e) (u\<lparr>ID := next_user db, Role := (if Role u = 0 then StudentType else Role u)\<rparr>)
                   in ((None, v), db\<lparr>t_users := t_users db @ [user_columns v], next_user := next_user db + 1,
                         course_users := course_users db @ map (\<lambda>c. (ID v, ID c)) (Courses v)\<rparr>))))"

definition DeleteUser :: "db_env \<Rightarrow> uint \<Rightarrow> api_db \<Rightarrow> string option \<times> api_db" where
  "DeleteUser e i db =
     api_exec e ''DeleteUser'' (\<lambda>db. db\<lparr>t_users := soft_delete (clock e) (\<lambda>u. ID u = i) (t_users db)\<rparr>) db"

definition nz_user :: "gotime \<Rightarrow> User \<Rightarrow> User \<Rightarrow> User" where
  "nz_user now v r = r\<lparr>
     UpdatedAt := now,
     user_Name := nz [] (user_Name v) (user_Name r),
     LastName := nz None (LastName v) (LastName r),
     Email := nz None (Email v) (Email r),
     MatriculationNumber := nz [] (MatriculationNumber v) (MatriculationNumber r),
     LrzID := nz [] (LrzID v) (LrzID r),
     Role := nz 0 (Role v) (Role r),
     Password := nz [] (Password v) (Password r)\<rparr>"

text \<open>
  \<^verbatim>\<open>UpdateUser\<close> overwrites the rows of all courses the given user holds, with the streams these hold, and
  links them to the user; the settings are overwritten as well.
\<close>

definition save_course :: "gotime \<Rightarrow> Course \<Rightarrow> api_db \<Rightarrow> api_db" where
  "save_course now c db =
     (let db = db\<lparr>base := (base db)\<lparr>t_courses := upsert now (t_courses (base db)) (course_columns c)\<rparr>\<rparr>
      in snd (save_streams now (ID c) (Streams c) db))"

definition link_all :: "uint \<Rightarrow> Course list \<Rightarrow> (uint \<times> uint) list \<Rightarrow> (uint \<times> uint) list" where
  "link_all u cs links = foldl (\<lambda>ls c. if (u, ID c) \<in> set ls then ls else ls @ [(u, ID c)]) links cs"

definition UpdateUser :: "db_env \<Rightarrow> User \<Rightarrow> api_db \<Rightarrow> string option \<times> api_db" where
  "UpdateUser e u db =
     (if ID u = 0 then (Some ''WHERE conditions required'', db)
      else if list_ex (\<lambda>c. Course_BeforeSave c \<noteq> None) (Courses u @ AdministeredCourses u @ PinnedCourses u)
      then (Some ''invalid course slug'', db)
      else api_exec e ''UpdateUser'' (\<lambda>db.
        let now = clock e;
            db = db\<lparr>t_users := map (\<lambda>r. if ID r = ID u \<and> live_row r then nz_user now u r else r) (t_users db)\<rparr>;
            db = foldl (\<lambda>db c. save_course now c db) db (Courses u @ AdministeredCourses u @ PinnedCourses u);
            (settings, k) = save_all now (\<lambda>s. s\<lparr>setting_UserID := ID u\<rparr>) (Settings u) (t_settings db, next_setting db)
        in db\<lparr>course_users := link_all (ID u) (Courses u) (course_users db),
              course_admins := link_all (ID u) (AdministeredCourses u) (course_admins db),
              pinned_courses := link_all (ID u) (PinnedCourses u) (pinned_courses db),
              t_settings := settings, next_setting := k\<rparr>) db)"

definition AddUserSetting :: "db_env \<Rightarrow> uint \<Rightarrow> UserSettingType \<Rightarrow> string \<Rightarrow> api_db \<Rightarrow> string option \<times> api_db" where
  "AddUserSetting e u ty val db =
     apsnd Clear
     (let (err, db) = api_exec e ''DeleteUserSetting''
            (\<lambda>db. db\<lparr>t_settings := filter (\<lambda>s. \<not> (setting_UserID s = u \<and> setting_Type s = ty)) (t_settings db)\<rparr>) db
      in if err \<noteq> None then (err, db)
         else api_exec e ''AddUserSetting'' (\<lambda>db.
            db\<lparr>t_settings := t_settings db @
                 [\<lparr>ID = next_setting db, CreatedAt = clock e, UpdatedAt = clock e, DeletedAt = None,
                   setting_UserID = u, setting_Type = ty, Value = val\<rparr>],
               next_setting := next_setting db + 1\<rparr>) db)"

definition HasPinnedCourse :: "db_env \<Rightarrow> User \<Rightarrow> uint \<Rightarrow> api_db \<Rightarrow> string + bool" where
  "HasPinnedCourse e u c db =
     row_query e ''HasPinnedCourse'' (Some (user_row db (ID u) \<noteq> None \<and> (ID u, c) \<in> set (pinned_courses db)))"

text \<open>Appending an association stores the course where it is missing and links it.\<close>

definition PinCourse :: "db_env \<Rightarrow> User \<Rightarrow> Course \<Rightarrow> bool \<Rightarrow> api_db \<Rightarrow> string option \<times> api_db" where
  "PinCourse e u c pin db =
     apsnd Clear
     (if pin \<and> Course_BeforeSave c \<noteq> None then (Course_BeforeSave c, db)
      else api_exec e ''PinCourse'' (\<lambda>db.
       if pin then db\<lparr>pinned_courses := link_all (ID u) [c] (pinned_courses db)\<rparr>
       else db\<lparr>pinned_courses := filter (\<lambda>p. p \<noteq> (ID u, ID c)) (pinned_courses db)\<rparr>) db)"

definition CreateRegisterLink :: "db_env \<Rightarrow> string \<Rightarrow> User \<Rightarrow> api_db \<Rightarrow> string option \<times> api_db" where
  "CreateRegisterLink e secret u db =
     api_exec e ''CreateRegisterLink'' (\<lambda>db.
       db\<lparr>t_links := t_links db @ [\<lparr>ID = next_link db, CreatedAt = clock e, UpdatedAt = clock e, DeletedAt = None,
                                   link_UserID = ID u, RegisterSecret = secret\<rparr>],
          next_link := next_link db + 1\<rparr>) db"

text \<open>A new mail; the time of the last attempt is NULL in the table, which is read back as the zero time.\<close>

definition EmailDao_Create ::
    "db_env \<Rightarrow> string \<Rightarrow> string \<Rightarrow> string \<Rightarrow> string \<Rightarrow> api_db \<Rightarrow> string option \<times> api_db" where
  "EmailDao_Create e sender recipient subject body db =
     api_exec e ''EmailCreate'' (\<lambda>db.
       db\<lparr>t_mails := t_mails db @ [\<lparr>ID = next_mail db, CreatedAt = clock e, UpdatedAt = clock e, DeletedAt = None,
                                   mail_From = sender, mail_To = recipient, mail_Subject = subject, mail_Body = body,
                                   mail_Success = False, Retries = 0, LastTry = zero_time, mail_Errors = []\<rparr>],
          next_mail := next_mail db + 1\<rparr>) db"


subsection \<open>Handlers\<close>

text \<open>
  What a handler does besides changing the database, in order: it sends a status without a body, a
  \<^verbatim>\<open>RequestError\<close>, a status with a body or a file; it sends a message to the viewers of a stream, starts a
  goroutine, hands the request to a worker, sets a cookie, writes or removes a file, or panics, which gin's recovery answers.
\<close>

datatype 'a answer =
    AbortStatus nat
  | RequestError nat string
  | Reply nat 'a
  | SendFile string
  | RedirectTo nat string
  | Broadcast uint json
  | Spawn string
  | Proxy string
  | Cookie string string int
  | Stores string
  | Removes string
  | Panicked panic

type_synonym ('s, 'a) serves = "'s \<Rightarrow> 'a answer list \<times> 's"
type_synonym 'a handler = "(api_db, 'a) serves"

definition StatusOK :: nat where "StatusOK = 200"
definition StatusCreated :: nat where "StatusCreated = 201"
definition StatusUnauthorized :: nat where "StatusUnauthorized = 401"
definition StatusConflict :: nat where "StatusConflict = 409"

definition refuses :: "'a answer list \<Rightarrow> bool" where
  "refuses as \<longleftrightarrow> (\<forall>a \<in> set as. case a of AbortStatus n \<Rightarrow> n \<ge> 400 | RequestError n m \<Rightarrow> n \<ge> 400 | _ \<Rightarrow> False)"

text \<open>How handlers are put together: an answer and an early return, a call whose error decides, a call whose error is logged.\<close>

definition sends :: "'a answer list \<Rightarrow> ('s, 'a) serves" where
  "sends as db = (as, db)"

definition fails :: "nat \<Rightarrow> string \<Rightarrow> ('s, 'a) serves" where
  "fails status message = sends [RequestError status message]"

definition panic :: "('s, 'a) serves" where
  "panic = sends [Panicked NilDereference]"

definition also_sends :: "'a answer list \<Rightarrow> ('s, 'a) serves \<Rightarrow> ('s, 'a) serves" where
  "also_sends as h db = apfst ((@) as) (h db)"

definition with_result ::
    "('s \<Rightarrow> (string + 'b) \<times> 's) \<Rightarrow> (string \<Rightarrow> ('s, 'a) serves) \<Rightarrow> ('b \<Rightarrow> ('s, 'a) serves) \<Rightarrow> ('s, 'a) serves" where
  "with_result q bad good db = (case q db of (Inl err, db') \<Rightarrow> bad err db' | (Inr x, db') \<Rightarrow> good x db')"

definition with_row :: "('s \<Rightarrow> string + 'b) \<Rightarrow> (string \<Rightarrow> ('s, 'a) serves) \<Rightarrow> ('b \<Rightarrow> ('s, 'a) serves) \<Rightarrow> ('s, 'a) serves" where
  "with_row q bad good db = (case q db of Inl err \<Rightarrow> bad err db | Inr x \<Rightarrow> good x db)"

definition with_done :: "('s \<Rightarrow> string option \<times> 's) \<Rightarrow> (string \<Rightarrow> ('s, 'a) serves) \<Rightarrow> ('s, 'a) serves \<Rightarrow> ('s, 'a) serves" where
  "with_done q bad good db = (case q db of (Some err, db') \<Rightarrow> bad err db' | (None, db') \<Rightarrow> good db')"

definition logged :: "('s \<Rightarrow> string option \<times> 's) \<Rightarrow> ('s, 'a) serves \<Rightarrow> ('s, 'a) serves" where
  "logged q k db = k (snd (q db))"

definition reading :: "('s \<Rightarrow> 'b) \<Rightarrow> ('b \<Rightarrow> ('s, 'a) serves) \<Rightarrow> ('s, 'a) serves" where
  "reading f k db = k (f db) db"

definition demand :: "'b option \<Rightarrow> ('s, 'a) serves \<Rightarrow> ('b \<Rightarrow> ('s, 'a) serves) \<Rightarrow> ('s, 'a) serves" where
  "demand x bad good = (case x of None \<Rightarrow> bad | Some y \<Rightarrow> good y)"

text \<open>A pointer that the code dereferences.\<close>

definition deref :: "'b option \<Rightarrow> ('b \<Rightarrow> ('s, 'a) serves) \<Rightarrow> ('s, 'a) serves" where
  "deref x = demand x panic"

lemmas handler_defs =
  sends_def fails_def panic_def also_sends_def with_result_def with_row_def with_done_def logged_def reading_def
  demand_def deref_def

end
