(* ===== verification/Search.thy ===== *)
theory Search
  imports Dao_Api
begin

text \<open>
  \<^verbatim>\<open>src/api/search.go\<close> and \<^verbatim>\<open>src/tools/meiliSearch.go\<close>: the search of courses, streams and
  subtitles. The search engine is an argument, a function from requests to the hits of each index; the
  filters sent to it are strings. Its hits may be out of date, so every hit is checked against the
  database before it is answered. \<open>parse_time\<close> stands for the parsing of a time in JSON.
\<close>

subsection \<open>Parameters\<close>

definition is_digit :: "char \<Rightarrow> bool" where
  "is_digit c \<longleftrightarrow> digit_val c \<noteq> None"

text \<open>\<^verbatim>\<open>strconv.ParseUint(s, 10, bits)\<close>, which takes no sign.\<close>

definition parse_uint :: "nat \<Rightarrow> string \<Rightarrow> nat option" where
  "parse_uint bits s =
     (if s = [] then None
      else case parse_digits 0 s of None \<Rightarrow> None | Some n \<Rightarrow> if n < 2 ^ bits then Some n else None)"

definition DefaultLimit :: int where "DefaultLimit = 10"
definition FilterMaxCoursesCount :: nat where "FilterMaxCoursesCount = 3"

definition getDefaultParameters :: "TUMLiveContext \<Rightarrow> gin \<Rightarrow> User option \<times> string \<times> int" where
  "getDefaultParameters t g =
     (ctx_User t, gquery g ''q'',
      case parse_uint 16 (gquery g ''limit'') of None \<Rightarrow> DefaultLimit | Some n \<Rightarrow> int n)"

text \<open>The regular expressions \<^verbatim>\<open>^[0-9]{4}[WS]$\<close> and \<^verbatim>\<open>^.+[0-9]{4}[WS]$\<close> (a dot matches no newline).\<close>

definition semester_regex :: "string \<Rightarrow> bool" where
  "semester_regex s \<longleftrightarrow> length s = 5 \<and> list_all is_digit (take 4 s) \<and> last s \<in> {CHR ''W'', CHR ''S''}"

definition course_regex :: "string \<Rightarrow> bool" where
  "course_regex s \<longleftrightarrow>
     length s > 5 \<and> semester_regex (drop (length s - 5) s) \<and> char_of (10 :: nat) \<notin> set (take (length s - 5) s)"

definition atoi_or_0 :: "string \<Rightarrow> int" where
  "atoi_or_0 s = (case atoi s of None \<Rightarrow> 0 | Some i \<Rightarrow> i)"

text \<open>None is the error; a list without an error is never empty, so None is also the nil slice.\<close>

definition parseSemesters :: "string \<Rightarrow> Semester list option" where
  "parseSemesters semestersParam =
     (if semestersParam = [] then None
      else (let ss = go_split semestersParam '','' in
            if list_all semester_regex ss
            then Some (map (\<lambda>s. \<lparr>TeachingTerm = drop 4 s, Year = atoi_or_0 (take 4 s)\<rparr>) ss) else None))"

fun parse_courses :: "db_env \<Rightarrow> string list \<Rightarrow> api_db \<Rightarrow> (nat + Course list) \<times> api_db" where
  "parse_courses e [] db = (Inr [], db)"
| "parse_courses e (s # ss) db =
     (if \<not> course_regex s then (Inl 1, db)
      else (let n = length s; year = atoi_or_0 (take 4 (drop (n - 5) s)) in
            case GetCourseBySlugYearAndTerm e (take (n - 5) s) (drop (n - 1) s) year db of
              (Inl _, db) \<Rightarrow> (Inl 1, db)
            | (Inr course, db) \<Rightarrow> apfst (map_sum id (Cons course)) (parse_courses e ss db)))"

definition parseCourses :: "db_env \<Rightarrow> string \<Rightarrow> api_db \<Rightarrow> (nat + Course list) \<times> api_db" where
  "parseCourses e urlParamCourse = parse_courses e (go_split urlParamCourse '','')"

definition uintSliceToString :: "uint list \<Rightarrow> string" where
  "uintSliceToString ids = (if ids = [] then ''[]'' else ''['' @ join (map uint_str ids) '','' @ '']'')"

definition courseSliceToString :: "Course list \<Rightarrow> string" where
  "courseSliceToString courses =
     (if courses = [] then ''[]'' else ''['' @ join (map (\<lambda>c. uint_str (ID c)) courses) '','' @ '']'')"

definition determineSingleSemester :: "Semester \<Rightarrow> Semester \<Rightarrow> Semester list option \<Rightarrow> Semester option" where
  "determineSingleSemester firstSemester lastSemester semesters =
     (case semesters of
        None \<Rightarrow> if IsEqual firstSemester lastSemester then Some firstSemester else None
      | Some [s] \<Rightarrow> Some s
      | Some _ \<Rightarrow> None)"

subsection \<open>Filters\<close>

definition quoted :: "string \<Rightarrow> string" where
  "quoted s = [CHR 0x22] @ s @ [CHR 0x22]"

definition in_term :: "Semester \<Rightarrow> string" where
  "in_term s = ''(year = '' @ itoa (Year s) @ '' AND semester = '' @ quoted (TeachingTerm s) @ '')''"

definition meiliSemesterFilter :: "Semester \<Rightarrow> Semester \<Rightarrow> Semester list option \<Rightarrow> string" where
  "meiliSemesterFilter firstSemester lastSemester semesters =
     (if (semesters = None \<or> semesters = Some []) \<and> Year firstSemester < 1900 \<and> Year lastSemester > 2800 then []
      else case semesters of
        None \<Rightarrow>
          if Year firstSemester = Year lastSemester \<and> TeachingTerm firstSemester = TeachingTerm lastSemester
          then in_term firstSemester
          else (let constraint1 = (if TeachingTerm firstSemester = ''W'' then in_term firstSemester
                                   else ''year = '' @ itoa (Year firstSemester));
                    constraint2 = (if TeachingTerm lastSemester = ''S'' then in_term lastSemester
                                   else ''year = '' @ itoa (Year lastSemester))
                in if Year firstSemester + 1 < Year lastSemester
                   then ''('' @ constraint1 @ '' OR (year > '' @ itoa (Year firstSemester) @ '' AND year < '' @
                        itoa (Year lastSemester) @ '') OR '' @ constraint2 @ '')''
                   else ''('' @ constraint1 @ '' OR '' @ constraint2 @ '')'')
      | Some ss \<Rightarrow> ''('' @ join (map in_term ss) '' OR '' @ '')'')"

definition visible_kinds :: string where
  "visible_kinds = ''visibility = '' @ quoted ''loggedin'' @ '' OR visibility = '' @ quoted ''public'' @
     '' OR (visibility = '' @ quoted ''enrolled'' @ '' AND ''"

definition meiliCourseFilter :: "User option \<Rightarrow> Semester \<Rightarrow> Semester \<Rightarrow> Semester list option \<Rightarrow> string" where
  "meiliCourseFilter user firstSemester lastSemester semesters =
     (let semesterFilter = meiliSemesterFilter firstSemester lastSemester semesters in
      case user of
        None \<Rightarrow>
          (let permissionFilter = ''(visibility = '' @ quoted ''public'' @ '')'' in
           if semesterFilter = [] then permissionFilter
           else ''('' @ permissionFilter @ '' AND '' @ semesterFilter @ '')'')
      | Some u \<Rightarrow>
          if Role u = AdminType then semesterFilter
          else
           (let enrolled = courseSliceToString (case semesters of
                  None \<Rightarrow> CoursesBetweenSemestersWithoutAdministeredCourses u firstSemester lastSemester
                | Some ss \<Rightarrow> CoursesForSemestersWithoutAdministeredCourses u ss);
                permissionFilter =
                  (if AdministeredCourses u = [] then ''('' @ visible_kinds @ ''ID IN '' @ enrolled @ ''))''
                   else ''('' @ visible_kinds @ ''ID IN '' @ enrolled @ '') OR ID IN '' @
                        courseSliceToString (case semesters of
                          None \<Rightarrow> AdministeredCoursesBetweenSemesters u firstSemester lastSemester
                        | Some ss \<Rightarrow> AdministeredCoursesForSemesters u ss) @ '')'')
            in if semesterFilter = [] then permissionFilter
               else ''('' @ permissionFilter @ '' AND '' @ semesterFilter @ '')''))"

definition meiliSubtitleFilter :: "User option \<Rightarrow> Course list \<Rightarrow> string" where
  "meiliSubtitleFilter user courses =
     (if courses = [] then []
      else ''streamID IN '' @ uintSliceToString
        (concat (map (\<lambda>c. map ID (filter (\<lambda>s. \<not> Private s \<or> IsAdminOfCourse user c) (Streams c))) courses)))"

definition meiliStreamFilter :: "User option \<Rightarrow> Semester \<Rightarrow> Course list option \<Rightarrow> string" where
  "meiliStreamFilter user semester courses =
     (case courses of
        Some cs \<Rightarrow>
          (let administered = filter (IsAdminOfCourse user) cs;
               others = filter (\<lambda>c. \<not> IsAdminOfCourse user c) cs
           in if user = None \<or> administered = []
              then ''courseID IN '' @ courseSliceToString others @ '' AND private = 0''
              else ''(courseID IN '' @ courseSliceToString administered @ '' OR (courseID IN '' @
                   courseSliceToString others @ '' AND private = 0))'')
      | None \<Rightarrow>
        (case user of
           None \<Rightarrow> ''((visibility = '' @ quoted ''public'' @ '' AND private = 0) AND '' @ in_term semester @ '')''
         | Some u \<Rightarrow>
             if Role u = AdminType then in_term semester
             else
              (let enrolled = courseSliceToString (CoursesBetweenSemestersWithoutAdministeredCourses u semester semester);
                   permissionFilter =
                     (if AdministeredCourses u = []
                      then ''(('' @ visible_kinds @ ''courseID IN '' @ enrolled @ '')) AND private = 0)''
                      else ''(('' @ visible_kinds @ ''courseID IN '' @ enrolled @ '')) AND private = 0 OR courseID IN '' @
                           courseSliceToString (AdministeredCoursesBetweenSemesters u semester semester) @ '')'')
               in ''('' @ permissionFilter @ '' AND '' @ in_term semester @ '')'')))"


subsection \<open>The search engine (tools/meiliSearch.go)\<close>

record SearchRequest =
  req_IndexUID :: string
  Query :: string
  Limit :: int
  Filter :: string
  AttributesToRetrieve :: "string list"

record SearchResponse =
  IndexUID :: string
  Hits :: "json list"

text \<open>The client: None if it is not configured or fails.\<close>

type_synonym meili_client = "SearchRequest list \<Rightarrow> SearchResponse list option"

definition getCourseWideSubtitleSearchRequest :: "string \<Rightarrow> int \<Rightarrow> string \<Rightarrow> SearchRequest" where
  "getCourseWideSubtitleSearchRequest q limit streamFilter =
     \<lparr>req_IndexUID = ''SUBTITLES'', Query = q, Limit = limit, Filter = streamFilter,
      AttributesToRetrieve = [''streamID'', ''timestamp'', ''textPrev'', ''text'', ''textNext'']\<rparr>"

definition getStreamsSearchRequest :: "string \<Rightarrow> int \<Rightarrow> string \<Rightarrow> SearchRequest" where
  "getStreamsSearchRequest q limit streamFilter =
     \<lparr>req_IndexUID = ''STREAMS'', Query = q, Limit = limit + 2, Filter = streamFilter,
      AttributesToRetrieve = [''ID'', ''name'', ''description'', ''courseName'', ''year'', ''semester'']\<rparr>"

definition getCoursesSearchRequest :: "string \<Rightarrow> int \<Rightarrow> string \<Rightarrow> SearchRequest" where
  "getCoursesSearchRequest q limit courseFilter =
     \<lparr>req_IndexUID = ''COURSES'', Query = q, Limit = limit + 2, Filter = courseFilter,
      AttributesToRetrieve = [''name'', ''slug'', ''year'', ''semester'']\<rparr>"

text \<open>The loop looks at the four lowest bits of the type, lowest first.\<close>

definition search_requests :: "string \<Rightarrow> int \<Rightarrow> nat \<Rightarrow> string \<Rightarrow> string \<Rightarrow> string \<Rightarrow> SearchRequest list" where
  "search_requests q limit searchType courseFilter streamFilter subtitleFilter =
     concat (map (\<lambda>i. let b = searchType div 2 ^ i mod 2 * 2 ^ i in
                      if b = 1 then [getCourseWideSubtitleSearchRequest q limit subtitleFilter]
                      else if b = 2 then [getStreamsSearchRequest q limit streamFilter]
                      else if b = 4 then [getCoursesSearchRequest q limit courseFilter] else []) [0..<4])"

definition meili_Search ::
    "meili_client \<Rightarrow> string \<Rightarrow> int \<Rightarrow> nat \<Rightarrow> string \<Rightarrow> string \<Rightarrow> string \<Rightarrow> SearchResponse list option" where
  "meili_Search m q limit searchType courseFilter streamFilter subtitleFilter =
     m (search_requests q limit searchType courseFilter streamFilter subtitleFilter)"

definition semesterSearchHelper ::
    "gin \<Rightarrow> meili_client \<Rightarrow> string \<Rightarrow> int \<Rightarrow> User option \<Rightarrow> bool \<Rightarrow> string + SearchResponse list option" where
  "semesterSearchHelper g m query limit user courseSearchOnly =
     (let firstParam = gquery g ''firstSemester''; lastParam = gquery g ''lastSemester'';
          semestersParam = gquery g ''semester'' in
      if firstParam \<noteq> [] \<and> lastParam \<noteq> [] \<or> semestersParam \<noteq> [] then
        (let semesters1 = parseSemesters firstParam; semesters2 = parseSemesters lastParam;
             semesters = parseSemesters semestersParam;
             single = (\<lambda>s. map_option length s = Some 1) in
         if (\<not> single semesters1 \<or> \<not> single semesters2) \<and> semesters = None then Inl ''wrong parameters''
         else
          (let (firstSemester, lastSemester) =
                 (case (semesters1, semesters2) of
                    (Some (a # _), Some (b # _)) \<Rightarrow> (a, b)
                  | _ \<Rightarrow> (\<lparr>TeachingTerm = [], Year = 0\<rparr>, \<lparr>TeachingTerm = [], Year = 0\<rparr>))
           in case determineSingleSemester firstSemester lastSemester semesters of
                Some s \<Rightarrow>
                  if \<not> courseSearchOnly
                  then Inr (meili_Search m query limit 6 (meiliCourseFilter user s s None) (meiliStreamFilter user s None) [])
                  else Inr (meili_Search m query limit 4 (meiliCourseFilter user firstSemester lastSemester semesters) [] [])
              | None \<Rightarrow>
                  Inr (meili_Search m query limit 4 (meiliCourseFilter user firstSemester lastSemester semesters) [] [])))
      else
        Inr (meili_Search m query limit 4
               (meiliCourseFilter user \<lparr>TeachingTerm = ''S'', Year = 0\<rparr> \<lparr>TeachingTerm = ''W'', Year = 3000\<rparr> None) [] []))"

subsection \<open>Checking and completing the hits\<close>

record SearchCourseDTO =
  sc_Name :: string
  sc_Slug :: string
  sc_Year :: int
  sc_TeachingTerm :: string

record SearchStreamDTO =
  ss_ID :: uint
  ss_Name :: string
  ss_Description :: string
  ss_CourseName :: string
  ss_Year :: int
  ss_TeachingTerm :: string
  ss_CourseSlug :: string

record SearchSubtitlesDTO =
  sub_StreamID :: uint
  sub_Timestamp :: int
  sub_TextPrev :: string
  sub_Text :: string
  sub_TextNext :: string
  sub_StreamName :: string
  sub_StreamStartTime :: gotime
  sub_StreamEndTime :: gotime
  sub_CourseName :: string
  sub_CourseSlug :: string
  sub_CourseYear :: int
  sub_CourseTeachingTerm :: string

definition zero_sc :: SearchCourseDTO where
  "zero_sc = \<lparr>sc_Name = [], sc_Slug = [], sc_Year = 0, sc_TeachingTerm = []\<rparr>"

definition zero_ss :: SearchStreamDTO where
  "zero_ss = \<lparr>ss_ID = 0, ss_Name = [], ss_Description = [], ss_CourseName = [], ss_Year = 0, ss_TeachingTerm = [],
              ss_CourseSlug = []\<rparr>"

definition zero_sub :: SearchSubtitlesDTO where
  "zero_sub = \<lparr>sub_StreamID = 0, sub_Timestamp = 0, sub_TextPrev = [], sub_Text = [], sub_TextNext = [],
     sub_StreamName = [], sub_StreamStartTime = zero_time, sub_StreamEndTime = zero_time, sub_CourseName = [],
     sub_CourseSlug = [], sub_CourseYear = 0, sub_CourseTeachingTerm = []\<rparr>"

definition sc_fields :: "SearchCourseDTO fields" where
  "sc_fields =
     [(''name'', \<lambda>j r. map_option (\<lambda>v. r\<lparr>sc_Name := v\<rparr>) (dec_string j (sc_Name r))),
      (''slug'', \<lambda>j r. map_option (\<lambda>v. r\<lparr>sc_Slug := v\<rparr>) (dec_string j (sc_Slug r))),
      (''year'', \<lambda>j r. map_option (\<lambda>v. r\<lparr>sc_Year := v\<rparr>) (dec_int j (sc_Year r))),
      (''semester'', \<lambda>j r. map_option (\<lambda>v. r\<lparr>sc_TeachingTerm := v\<rparr>) (dec_string j (sc_TeachingTerm r)))]"

definition ss_fields :: "SearchStreamDTO fields" where
  "ss_fields =
     [(''ID'', \<lambda>j r. map_option (\<lambda>v. r\<lparr>ss_ID := v\<rparr>) (dec_uint j (ss_ID r))),
      (''name'', \<lambda>j r. map_option (\<lambda>v. r\<lparr>ss_Name := v\<rparr>) (dec_string j (ss_Name r))),
      (''description'', \<lambda>j r. map_option (\<lambda>v. r\<lparr>ss_Description := v\<rparr>) (dec_string j (ss_Description r))),
      (''courseName'', \<lambda>j r. map_option (\<lambda>v. r\<lparr>ss_CourseName := v\<rparr>) (dec_string j (ss_CourseName r))),
      (''year'', \<lambda>j r. map_option (\<lambda>v. r\<lparr>ss_Year := v\<rparr>) (dec_int j (ss_Year r))),
      (''semester'', \<lambda>j r. map_option (\<lambda>v. r\<lparr>ss_TeachingTerm := v\<rparr>) (dec_string j (ss_TeachingTerm r))),
      (''courseSlug'', \<lambda>j r. map_option (\<lambda>v. r\<lparr>ss_CourseSlug := v\<rparr>) (dec_string j (ss_CourseSlug r)))]"

fun dec_time :: "(string \<Rightarrow> gotime option) \<Rightarrow> json \<Rightarrow> gotime \<Rightarrow> gotime option" where
  "dec_time parse_time JNull old = Some old"
| "dec_time parse_time (JStr s) old = parse_time s"
| "dec_time parse_time _ old = None"

definition sub_fields :: "(string \<Rightarrow> gotime option) \<Rightarrow> SearchSubtitlesDTO fields" where
  "sub_fields pt =
     [(''streamID'', \<lambda>j r. map_option (\<lambda>v. r\<lparr>sub_StreamID := v\<rparr>) (dec_uint j (sub_StreamID r))),
      (''timestamp'', \<lambda>j r. map_option (\<lambda>v. r\<lparr>sub_Timestamp := v\<rparr>) (dec_int j (sub_Timestamp r))),
      (''textPrev'', \<lambda>j r. map_option (\<lambda>v. r\<lparr>sub_TextPrev := v\<rparr>) (dec_string j (sub_TextPrev r))),
      (''text'', \<lambda>j r. map_option (\<lambda>v. r\<lparr>sub_Text := v\<rparr>) (dec_string j (sub_Text r))),
      (''textNext'', \<lambda>j r. map_option (\<lambda>v. r\<lparr>sub_TextNext := v\<rparr>) (dec_string j (sub_TextNext r))),
      (''streamName'', \<lambda>j r. map_option (\<lambda>v. r\<lparr>sub_StreamName := v\<rparr>) (dec_string j (sub_StreamName r))),
      (''streamStartTime'', \<lambda>j r. map_option (\<lambda>v. r\<lparr>sub_StreamStartTime := v\<rparr>) (dec_time pt j (sub_StreamStartTime r))),
      (''streamEndTime'', \<lambda>j r. map_option (\<lambda>v. r\<lparr>sub_StreamEndTime := v\<rparr>) (dec_time pt j (sub_StreamEndTime r))),
      (''courseName'', \<lambda>j r. map_option (\<lambda>v. r\<lparr>sub_CourseName := v\<rparr>) (dec_string j (sub_CourseName r))),
      (''courseSlug'', \<lambda>j r. map_option (\<lambda>v. r\<lparr>sub_CourseSlug := v\<rparr>) (dec_string j (sub_CourseSlug r))),
      (''year'', \<lambda>j r. map_option (\<lambda>v. r\<lparr>sub_CourseYear := v\<rparr>) (dec_int j (sub_CourseYear r))),
      (''semester'', \<lambda>j r. map_option (\<lambda>v. r\<lparr>sub_CourseTeachingTerm := v\<rparr>) (dec_string j (sub_CourseTeachingTerm r)))]"

datatype hit = RawHit json | StreamHit SearchStreamDTO | CourseHit SearchCourseDTO | SubtitleHit SearchSubtitlesDTO

text \<open>
  The three loops have one shape: a hit that cannot be loaded is skipped before the length is tested, the
  others are appended if the test allows them, and the loop ends when the limit is reached.
\<close>

fun collect :: "('h \<Rightarrow> api_db \<Rightarrow> (hit option) option \<times> api_db) \<Rightarrow> int \<Rightarrow> 'h list \<Rightarrow> hit list \<Rightarrow> api_db \<Rightarrow> hit list \<times> api_db" where
  "collect check limit [] acc db = (acc, db)"
| "collect check limit (h # hs) acc db =
     (case check h db of
        (None, db) \<Rightarrow> collect check limit hs acc db
      | (Some x, db) \<Rightarrow>
          (let acc = (case x of None \<Rightarrow> acc | Some y \<Rightarrow> acc @ [y])
           in if int (length acc) \<ge> limit then (acc, db) else collect check limit hs acc db))"

definition may_see :: "(User option \<Rightarrow> Course \<Rightarrow> bool) \<Rightarrow> User option \<Rightarrow> Stream \<Rightarrow> Course \<Rightarrow> bool" where
  "may_see eligible user stream course \<longleftrightarrow>
     eligible user course \<and> (\<not> Private stream \<or> IsAdminOfCourse user course)"

definition with_stream ::
    "db_env \<Rightarrow> uint \<Rightarrow> (Stream \<Rightarrow> Course \<Rightarrow> hit option) \<Rightarrow> api_db \<Rightarrow> (hit option) option \<times> api_db" where
  "with_stream e i f db =
     (case StreamById e i db of
        (Inl _, db) \<Rightarrow> (None, db)
      | (Inr stream, db) \<Rightarrow>
        (case CourseById e (CourseID stream) db of
           Inl _ \<Rightarrow> (None, db)
         | Inr course \<Rightarrow> (Some (f stream course), db)))"

definition check_stream ::
    "db_env \<Rightarrow> (User option \<Rightarrow> Course \<Rightarrow> bool) \<Rightarrow> User option \<Rightarrow> SearchStreamDTO \<Rightarrow> api_db \<Rightarrow> (hit option) option \<times> api_db" where
  "check_stream e eligible user h =
     with_stream e (ss_ID h) (\<lambda>stream course.
       if may_see eligible user stream course then Some (StreamHit (h\<lparr>ss_CourseSlug := Slug course\<rparr>)) else None)"

definition fill_subtitle :: "SearchSubtitlesDTO \<Rightarrow> Stream \<Rightarrow> Course \<Rightarrow> SearchSubtitlesDTO" where
  "fill_subtitle h stream course =
     h\<lparr>sub_StreamName := stream_Name stream, sub_StreamStartTime := Start stream, sub_StreamEndTime := End stream,
       sub_CourseSlug := Slug course, sub_CourseName := course_Name course, sub_CourseYear := course_Year course,
       sub_CourseTeachingTerm := course_TeachingTerm course\<rparr>"

definition check_subtitle ::
    "db_env \<Rightarrow> (User option \<Rightarrow> Course \<Rightarrow> bool) \<Rightarrow> User option \<Rightarrow> SearchSubtitlesDTO \<Rightarrow> api_db \<Rightarrow> (hit option) option \<times> api_db" where
  "check_subtitle e eligible user h =
     with_stream e (sub_StreamID h) (\<lambda>stream course.
       if may_see eligible user stream course then Some (SubtitleHit (fill_subtitle h stream course)) else None)"

definition check_course :: "db_env \<Rightarrow> User option \<Rightarrow> SearchCourseDTO \<Rightarrow> api_db \<Rightarrow> (hit option) option \<times> api_db" where
  "check_course e user h db =
     (case GetCourseBySlugYearAndTerm e (sc_Slug h) (sc_TeachingTerm h) (sc_Year h) db of
        (Inl _, db) \<Rightarrow> (Some None, db)
      | (Inr course, db) \<Rightarrow> (Some (if IsEligibleToSearchForCourse user course then Some (CourseHit h) else None), db))"

text \<open>A result whose hits cannot be decoded is replaced by the empty one; an unknown index is left alone.\<close>

definition check_result ::
    "db_env \<Rightarrow> (string \<Rightarrow> gotime option) \<Rightarrow> User option \<Rightarrow> int \<Rightarrow> bool \<Rightarrow> SearchResponse \<Rightarrow> api_db \<Rightarrow>
     (string \<times> hit list) \<times> api_db" where
  "check_result e pt user limit canSearchHiddenCourses res db =
     (let eligible = (if canSearchHiddenCourses then IsEligibleToWatchCourse else IsEligibleToSearchForCourse) in
      if IndexUID res = ''STREAMS'' then
        (case dec_list (dec_struct ss_fields) zero_ss (JArr (Hits res)) [] of
           None \<Rightarrow> (([], []), db)
         | Some hs \<Rightarrow> apfst (Pair (IndexUID res)) (collect (check_stream e eligible user) limit hs [] db))
      else if IndexUID res = ''COURSES'' then
        (case dec_list (dec_struct sc_fields) zero_sc (JArr (Hits res)) [] of
           None \<Rightarrow> (([], []), db)
         | Some hs \<Rightarrow> apfst (Pair (IndexUID res)) (collect (check_course e user) limit hs [] db))
      else if IndexUID res = ''SUBTITLES'' then
        (case dec_list (dec_struct (sub_fields pt)) zero_sub (JArr (Hits res)) [] of
           None \<Rightarrow> (([], []), db)
         | Some hs \<Rightarrow> apfst (Pair (IndexUID res)) (collect (check_subtitle e eligible user) limit hs [] db))
      else ((IndexUID res, map RawHit (Hits res)), db))"

fun checkAndFillResponse ::
    "db_env \<Rightarrow> (string \<Rightarrow> gotime option) \<Rightarrow> User option \<Rightarrow> int \<Rightarrow> SearchResponse list \<Rightarrow> bool \<Rightarrow> api_db \<Rightarrow>
     (string \<times> hit list) list \<times> api_db" where
  "checkAndFillResponse e pt user limit [] hidden db = ([], db)"
| "checkAndFillResponse e pt user limit (r # rs) hidden db =
     (let (r', db) = check_result e pt user limit hidden r db;
          (rs', db) = checkAndFillResponse e pt user limit rs hidden db
      in (r' # rs', db))"

text \<open>A later result of an index replaces an earlier one.\<close>

definition responseToMap :: "(string \<times> hit list) list \<Rightarrow> (string \<rightharpoonup> hit list)" where
  "responseToMap rs = foldl (\<lambda>m (k, hs). m(k \<mapsto> hs)) Map.empty rs"

subsection \<open>The handlers\<close>

type_synonym search_answer = "(string \<rightharpoonup> hit list) answer list \<times> api_db"

definition answer_hits ::
    "db_env \<Rightarrow> (string \<Rightarrow> gotime option) \<Rightarrow> User option \<Rightarrow> int \<Rightarrow> bool \<Rightarrow> SearchResponse list option \<Rightarrow> api_db \<Rightarrow> search_answer" where
  "answer_hits e pt user limit hidden res db =
     (case res of
        None \<Rightarrow> ([AbortStatus StatusInternalServerError], db)
      | Some rs \<Rightarrow> (let (rs, db) = checkAndFillResponse e pt user limit rs hidden db
                    in ([Reply StatusOK (responseToMap rs)], db)))"

definition searchCourses ::
    "db_env \<Rightarrow> (string \<Rightarrow> gotime option) \<Rightarrow> meili_client \<Rightarrow> TUMLiveContext \<Rightarrow> gin \<Rightarrow> api_db \<Rightarrow> search_answer" where
  "searchCourses e pt m t g db =
     (let (user, query, limit) = getDefaultParameters t g in
      case semesterSearchHelper g m query limit user True of
        Inl _ \<Rightarrow> ([AbortStatus StatusBadRequest], db)
      | Inr res \<Rightarrow> answer_hits e pt user limit False res db)"

definition search ::
    "db_env \<Rightarrow> (string \<Rightarrow> gotime option) \<Rightarrow> meili_client \<Rightarrow> TUMLiveContext \<Rightarrow> gin \<Rightarrow> api_db \<Rightarrow> search_answer" where
  "search e pt m t g db =
     (let (user, query, limit) = getDefaultParameters t g; courseParam = gquery g ''course'' in
      if courseParam \<noteq> [] then
        (case parseCourses e courseParam db of
           (Inl errorCode, db) \<Rightarrow> ([AbortStatus StatusBadRequest], db)
         | (Inr courses, db) \<Rightarrow>
             if length courses > FilterMaxCoursesCount \<or> \<not> list_all (IsEligibleToWatchCourse user) courses
             then ([AbortStatus StatusBadRequest], db)
             else answer_hits e pt user limit True
                    (meili_Search m query limit 3 []
                       (meiliStreamFilter user \<lparr>TeachingTerm = [], Year = 0\<rparr> (Some courses))
                       (meiliSubtitleFilter user courses)) db)
      else
        (case semesterSearchHelper g m query limit user False of
           Inl _ \<Rightarrow> ([AbortStatus StatusBadRequest], db)
         | Inr res \<Rightarrow> answer_hits e pt user limit False res db))"

definition searchSubtitles :: "meili_client \<Rightarrow> TUMLiveContext \<Rightarrow> gin \<Rightarrow> json list option outcome" where
  "searchSubtitles m t g =
     (case ctx_Stream t of
        None \<Rightarrow> Panics NilDereference
      | Some s \<Rightarrow> Returns (map_option (\<lambda>rs. concat (map Hits rs))
          (m [\<lparr>req_IndexUID = ''SUBTITLES'', Query = gquery g ''q'', Limit = 10,
               Filter = ''streamID = '' @ uint_str (ID s), AttributesToRetrieve = []\<rparr>])))"

definition ToSearchCourseDTO :: "Course list \<Rightarrow> SearchCourseDTO list" where
  "ToSearchCourseDTO cs =
     map (\<lambda>c. \<lparr>sc_Name = course_Name c, sc_Slug = Slug c, sc_Year = course_Year c, sc_TeachingTerm = course_TeachingTerm c\<rparr>) cs"

definition ToSearchStreamDTO :: "db_env \<Rightarrow> api_db \<Rightarrow> Stream list \<Rightarrow> SearchStreamDTO list" where
  "ToSearchStreamDTO e db streams =
     map (\<lambda>s. let c = (case CourseById e (CourseID s) db of Inl _ \<Rightarrow> zero_Course | Inr c \<Rightarrow> c) in
              \<lparr>ss_ID = ID s, ss_Name = stream_Name s, ss_Description = Description s, ss_CourseName = course_Name c,
               ss_Year = course_Year c, ss_TeachingTerm = course_TeachingTerm c, ss_CourseSlug = Slug c\<rparr>) streams"

end
