(* ===== verification/Dao_Cache.thy ===== *)
theory Dao_Cache
  imports Dao_Api
begin

text \<open>
  Databases that differ in their caches only: what the queries read of the rows, what it means that the caches
  agree with the rows, and that the cached queries of streams and courses keep this and answer from the rows.
\<close>

subsection \<open>Databases that differ in their caches only\<close>

lemma Clear_simps [simp]:
  "base (Clear db) = clear_cache (base db)" "t_users (Clear db) = t_users db" "t_settings (Clear db) = t_settings db"
  "course_admins (Clear db) = course_admins db" "course_users (Clear db) = course_users db"
  "t_units (Clear db) = t_units db" "t_sections (Clear db) = t_sections db" "slug_cache (Clear db) = Map.empty"
  "Clear (Clear db) = Clear db"
  by (simp_all add: Clear_def)

lemma Clear_cong:
  assumes "Clear db = Clear db'"
  shows "t_streams (base db) = t_streams (base db')" "t_courses (base db) = t_courses (base db')"
    "t_files (base db) = t_files (base db')" "t_silences (base db) = t_silences (base db')"
    "t_transcoding (base db) = t_transcoding (base db')" "t_sections db = t_sections db'"
    "t_units db = t_units db'" "t_users db = t_users db'" "course_admins db = course_admins db'"
  using arg_cong [OF assms, of "\<lambda>d. t_streams (base d)"] arg_cong [OF assms, of "\<lambda>d. t_courses (base d)"]
    arg_cong [OF assms, of "\<lambda>d. t_files (base d)"] arg_cong [OF assms, of "\<lambda>d. t_silences (base d)"]
    arg_cong [OF assms, of "\<lambda>d. t_transcoding (base d)"] arg_cong [OF assms, of t_sections]
    arg_cong [OF assms, of t_units] arg_cong [OF assms, of t_users] arg_cong [OF assms, of course_admins]
  by simp_all

lemma preloads_cong:
  assumes "Clear db = Clear db'"
  shows "with_progress db = with_progress db'" "with_sections db = with_sections db'" "with_files db = with_files db'"
    "with_units db = with_units db'" "with_units_desc db = with_units_desc db'" "course_streams db = course_streams db'"
  using Clear_cong [OF assms]
  by (simp_all add: fun_eq_iff with_progress_def with_sections_def with_files_def with_units_def with_units_desc_def
      course_streams_def)

lemma CourseById_cong: "Clear db = Clear db' \<Longrightarrow> CourseById e i db = CourseById e i db'"
  using Clear_cong [of db db'] preloads_cong [of db db'] by (simp add: CourseById_def course_row_def cong: option.case_cong)

lemma course_by_slug_cong: "Clear db = Clear db' \<Longrightarrow> course_by_slug db = course_by_slug db'"
  using Clear_cong [of db db'] preloads_cong [of db db'] by (intro ext) (simp add: course_by_slug_def)

definition slug_coherent :: "api_db \<Rightarrow> bool" where
  "slug_coherent db \<longleftrightarrow>
     (\<forall>key c ex. slug_cache db key = Some (c, ex) \<longrightarrow>
        (\<exists>slug term year. key = slug @ term @ itoa year \<and> course_by_slug db slug term year = Some c))"

text \<open>The caches of \<open>db'\<close> agree with the rows, which are those of \<open>db\<close>.\<close>

definition fresh :: "api_db \<Rightarrow> api_db \<Rightarrow> bool" where
  "fresh db db' \<longleftrightarrow> Clear db' = Clear db \<and> cache_coherent (base db') \<and> slug_coherent db'"

lemma fresh_self: "cache_coherent (base db) \<Longrightarrow> slug_coherent db \<Longrightarrow> fresh db db"
  by (simp add: fresh_def)

lemma StreamById_tables:
  "snd (StreamById e i db) = db\<lparr>base := (base db)\<lparr>stream_cache := stream_cache (base (snd (StreamById e i db)))\<rparr>\<rparr>"
  by (simp add: StreamById_def on_base_def GetStreamByID_tables [symmetric])

lemma Clear_stream_cache [simp]: "Clear (db\<lparr>base := (base db)\<lparr>stream_cache := c\<rparr>\<rparr>) = Clear db"
  by (cases "base db") (simp add: Clear_def clear_cache_def)

lemma StreamById_Clear [simp]: "Clear (snd (StreamById e i db)) = Clear db"
  by (subst StreamById_tables) simp

lemma slug_coherent_cong:
  "Clear db = Clear db' \<Longrightarrow> slug_cache db = slug_cache db' \<Longrightarrow> slug_coherent db = slug_coherent db'"
  using course_by_slug_cong [of db db'] by (simp add: slug_coherent_def)

lemma slug_cache_StreamById [simp]: "slug_cache (snd (StreamById e i db)) = slug_cache db"
  by (subst StreamById_tables) simp

lemma StreamById_fresh:
  assumes "fresh db db1"
  shows "fresh db (snd (StreamById e i db1))"
    and "fst (StreamById e i db1) = Inr s \<Longrightarrow>
         \<exists>r. stream_row (base db) i = Some r \<and> CourseID s = CourseID r \<and> Private s = Private r"
proof -
  note coh = GetStreamByID_coherent [of "base db1" e i]
  have "base (snd (StreamById e i db1)) = snd (GetStreamByID e i (base db1))"
    by (simp add: StreamById_def on_base_def)
  then show "fresh db (snd (StreamById e i db1))"
    using assms coh(1) slug_coherent_cong [of "snd (StreamById e i db1)" db1] by (simp add: fresh_def)
  assume "fst (StreamById e i db1) = Inr s"
  then obtain s' where s': "fst (GetStreamByID e i (base db1)) = Inr s'" "s = with_units db1 (with_sections db1 s')"
    by (auto simp: StreamById_def on_base_def map_sum_def split: sum.splits)
  with coh(2) assms obtain r where "stream_row (base db1) i = Some r" "s' = preload (base db1) r"
    by (auto simp: fresh_def)
  with s'(2) assms show "\<exists>r. stream_row (base db) i = Some r \<and> CourseID s = CourseID r \<and> Private s = Private r"
    using Clear_cong(1) [of db1 db] stream_row_cong [of "base db1" "base db" i]
    by (auto simp: fresh_def preload_def with_units_def with_sections_def)
qed

definition loaded_stream :: "api_db \<Rightarrow> Stream \<Rightarrow> Stream" where
  "loaded_stream db r = with_units db (with_sections db (preload (base db) r))"

lemma loaded_stream_simps [simp]:
  "ID (loaded_stream db r) = ID r" "CourseID (loaded_stream db r) = CourseID r" "Private (loaded_stream db r) = Private r"
  "SeriesIdentifier (loaded_stream db r) = SeriesIdentifier r"
  by (simp_all add: loaded_stream_def with_units_def with_sections_def preload_def)

lemma loaded_stream_cong:
  assumes "Clear db = Clear db'"
  shows "loaded_stream db = loaded_stream db'"
  using Clear_cong [OF assms] preloads_cong [OF assms] by (simp add: fun_eq_iff loaded_stream_def preload_def)

lemma StreamById_result:
  assumes "fresh db db1" and "fault e ''GetStreamByID'' = None"
  shows "fst (StreamById e i db1) =
     (case stream_row (base db) i of None \<Rightarrow> Inl Dao_Streams.not_found | Some r \<Rightarrow> Inr (loaded_stream db r))"
proof -
  have clear: "Clear db1 = Clear db" and coh: "cache_coherent (base db1)" using assms(1) by (simp_all add: fresh_def)
  note row = stream_row_cong [OF Clear_cong(1) [OF clear], of i] and load = loaded_stream_cong [OF clear]
  have "fst (GetStreamByID e i (base db1)) =
      (case stream_row (base db1) i of None \<Rightarrow> Inl Dao_Streams.not_found | Some r \<Rightarrow> Inr (preload (base db1) r))"
    using assms(2)
    by (auto simp: GetStreamByID_def Let_def row_query_def dest!: coh [unfolded cache_coherent_def, rule_format]
        split: option.split)
  then show ?thesis
    by (simp add: StreamById_def on_base_def row [symmetric] load [symmetric] loaded_stream_def split: option.split)
qed

lemma GetCourseBySlug_fresh:
  assumes "fresh db db1" and "GetCourseBySlugYearAndTerm e slug term year db1 = (res, db2)"
  shows "fresh db db2"
    and "res = Inr c \<Longrightarrow> \<exists>slug' term' year'. slug' @ term' @ itoa year' = slug @ term @ itoa year \<and>
           course_by_slug db slug' term' year' = Some c"
proof -
  let ?key = "slug @ term @ itoa year"
  have eq: "course_by_slug db1 s t y = course_by_slug db s t y" for s t y
    using assms(1) course_by_slug_cong [of db1 db] by (simp add: fresh_def)
  have upd: "course_by_slug (db1\<lparr>slug_cache := c\<rparr>) s t y = course_by_slug db1 s t y" for c s t y
    by (simp add: course_by_slug_def course_streams_def with_units_desc_def with_sections_def comp_def)
  from assms(2) consider (same) "db2 = db1"
    | (stored) c' where "course_by_slug db slug term year = Some c'" "res = Inr c'"
        "db2 = db1\<lparr>slug_cache := SetWithTTL e ?key c' Minute (slug_cache db1)\<rparr>"
    by (auto simp: GetCourseBySlugYearAndTerm_def Let_def eq row_query_def split: option.splits)
  then show "fresh db db2"
  proof cases
    case stored
    then show ?thesis using assms(1)
      by (auto simp: fresh_def slug_coherent_def SetWithTTL_def upd eq Clear_def)
  qed (use assms(1) in simp)
  assume "res = Inr c"
  with assms show "\<exists>slug' term' year'. slug' @ term' @ itoa year' = slug @ term @ itoa year \<and>
           course_by_slug db slug' term' year' = Some c"
    by (auto simp: GetCourseBySlugYearAndTerm_def Let_def eq row_query_def lookup_cache_def fresh_def slug_coherent_def
        split: option.splits if_splits) metis+
qed

subsection \<open>A small database\<close>

text \<open>No faults, a cache that admits nothing, no rows; the examples add the rows they need.\<close>

definition calm :: db_env where
  "calm = \<lparr>clock = 1000 * Second, fault = (\<lambda>_. None), admits = False, best_server = (\<lambda>_. None)\<rparr>"

definition no_rows :: api_db where
  "no_rows =
     \<lparr>base = \<lparr>t_streams = [], t_files = [], t_silences = [], t_workers = [], t_stream_workers = [], t_transcoding = [],
             t_failures = [], t_courses = [], t_halls = [], t_slots = [], t_upload_keys = [], next_file = 1,
             next_silence = 1, next_failure = 1, stream_cache = Map.empty, live_cache = None\<rparr>,
      t_users = [], t_settings = [], course_admins = [], course_users = [], pinned_courses = [], t_units = [],
      t_sections = [], t_audits = [], t_links = [], t_mails = [], t_views = [], t_chats = [], next_stream = 1, next_course = 1, next_user = 1,
      next_setting = 1, next_unit = 1, next_section = 1, next_audit = 1, next_link = 1, next_mail = 1, next_key = 1,
      slug_cache = Map.empty, list_cache = Map.empty, user_cache = Map.empty, users_seen = False\<rparr>"

definition with_rows :: "User list \<Rightarrow> Course list \<Rightarrow> Stream list \<Rightarrow> api_db" where
  "with_rows us cs ss =
     no_rows\<lparr>base := (base no_rows)\<lparr>t_courses := cs, t_streams := ss\<rparr>, t_users := us,
             next_stream := 100, next_course := 100, next_user := 100\<rparr>"

lemma with_rows_simps [simp]:
  "t_courses (base (with_rows us cs ss)) = cs" "t_streams (base (with_rows us cs ss)) = ss"
  "t_users (with_rows us cs ss) = us" "slug_cache (with_rows us cs ss) = Map.empty"
  "stream_cache (base (with_rows us cs ss)) = Map.empty" "live_cache (base (with_rows us cs ss)) = None"
  "course_admins (with_rows us cs ss) = []" "next_stream (with_rows us cs ss) = 100"
  "t_sections (with_rows us cs ss) = []" "t_units (with_rows us cs ss) = []"
  "t_files (base (with_rows us cs ss)) = []"
  "clock calm = 1000 * Second" "fault calm x = None" "admits calm = False"
  by (simp_all add: with_rows_def no_rows_def calm_def)

lemma with_rows_coherent: "cache_coherent (base (with_rows us cs ss))" "slug_coherent (with_rows us cs ss)"
  by (simp_all add: cache_coherent_def slug_coherent_def)

definition demo_row :: Course where
  "demo_row = zero_Course\<lparr>ID := 3, Slug := ''gbs'', course_Name := ''GBS'', course_Year := 2024,
     course_TeachingTerm := ''W'', Visibility := ''public''\<rparr>"

end
