(* ===== verification/Search_Props.thy ===== *)
theory Search_Props
  imports Search Dao_Cache
begin

text \<open>
  What the search guarantees: whatever the search engine answers, every hit that is shown passes the access
  rules on the rows of the database, and how many there are.
\<close>

subsection \<open>What the loops over the hits keep\<close>

lemma collect_hits:
  assumes step: "\<And>h db db' x. I db \<Longrightarrow> check h db = (x, db') \<Longrightarrow> I db' \<and> (\<forall>y. x = Some (Some y) \<longrightarrow> P y)"
    and "collect check limit hs acc db = (out, db')" and "I db" and "\<forall>y \<in> set acc. P y"
  shows "I db' \<and> (\<forall>y \<in> set out. P y)"
  using assms
proof (induction check limit hs acc db rule: collect.induct)
  case (2 check limit h hs acc db)
  obtain x db1 where c: "check h db = (x, db1)" by fastforce
  have "I db1" "\<forall>y. x = Some (Some y) \<longrightarrow> P y" using 2(3) [OF 2(5) c] by simp_all
  with 2 c show ?case
    by (cases x) (auto simp: Let_def split: option.splits if_splits)
qed simp

lemma collect_length:
  assumes "int (length acc) < max 1 limit" and "collect check limit hs acc db = (out, db')"
  shows "int (length out) \<le> max 1 limit"
  using assms
proof (induction check limit hs acc db rule: collect.induct)
  case (2 check limit h hs acc db)
  obtain x db1 where c: "check h db = (x, db1)" by fastforce
  show ?case
  proof (cases x)
    case None
    with 2 c show ?thesis by simp
  next
    case (Some y)
    define acc' where "acc' = (case y of None \<Rightarrow> acc | Some z \<Rightarrow> acc @ [z])"
    have len: "int (length acc') \<le> max 1 limit" using 2(3) by (auto simp: acc'_def split: option.splits)
    show ?thesis
    proof (cases "int (length acc') \<ge> limit")
      case True
      with 2(4) c Some len show ?thesis by (simp add: acc'_def [symmetric])
    next
      case False
      then have "int (length acc') < max 1 limit" by simp
      with 2(2) [OF c [symmetric] Some acc'_def False] 2(4) c Some False show ?thesis
        by (simp add: acc'_def [symmetric])
    qed
  qed
qed simp

lemma with_stream_fresh:
  assumes "fresh db db1" and "with_stream e i f db1 = (x, db2)"
  shows "fresh db db2"
    and "x = Some (Some y) \<Longrightarrow> \<exists>r c s. stream_row (base db) i = Some r \<and> CourseById e (CourseID r) db = Inr c \<and>
           Private s = Private r \<and> f s c = Some y"
proof -
  obtain res db3 where g: "StreamById e i db1 = (res, db3)" by fastforce
  from StreamById_fresh [OF assms(1), of e i] g
  have fr: "fresh db db3" and row: "\<And>s. res = Inr s \<Longrightarrow>
      \<exists>r. stream_row (base db) i = Some r \<and> CourseID s = CourseID r \<and> Private s = Private r" by simp_all
  have eq: "CourseById e j db3 = CourseById e j db" for j
    using fr by (intro CourseById_cong) (simp add: fresh_def)
  show "fresh db db2" using assms(2) g fr by (auto simp: with_stream_def split: sum.splits)
  assume "x = Some (Some y)"
  with assms(2) g obtain s c where "res = Inr s" "CourseById e (CourseID s) db3 = Inr c" "f s c = Some y"
    by (auto simp: with_stream_def split: sum.splits)
  with row [of s] eq show "\<exists>r c s. stream_row (base db) i = Some r \<and> CourseById e (CourseID r) db = Inr c \<and>
           Private s = Private r \<and> f s c = Some y" by auto
qed

text \<open>The stream of a shown hit: not deleted, of a course that may be seen, not private but for administrators.\<close>

definition shown_stream :: "db_env \<Rightarrow> (User option \<Rightarrow> Course \<Rightarrow> bool) \<Rightarrow> User option \<Rightarrow> api_db \<Rightarrow> uint \<Rightarrow> bool" where
  "shown_stream e eligible user db i \<longleftrightarrow>
     (\<exists>r c. stream_row (base db) i = Some r \<and> CourseById e (CourseID r) db = Inr c \<and> may_see eligible user r c)"

definition shown_course :: "User option \<Rightarrow> api_db \<Rightarrow> SearchCourseDTO \<Rightarrow> bool" where
  "shown_course user db h \<longleftrightarrow>
     (\<exists>slug term year c. slug @ term @ itoa year = sc_Slug h @ sc_TeachingTerm h @ itoa (sc_Year h) \<and>
        course_by_slug db slug term year = Some c \<and> IsEligibleToSearchForCourse user c)"

fun shown_hit :: "db_env \<Rightarrow> (User option \<Rightarrow> Course \<Rightarrow> bool) \<Rightarrow> User option \<Rightarrow> api_db \<Rightarrow> hit \<Rightarrow> bool" where
  "shown_hit e eligible user db (RawHit j) = True"
| "shown_hit e eligible user db (StreamHit h) = shown_stream e eligible user db (ss_ID h)"
| "shown_hit e eligible user db (SubtitleHit h) = shown_stream e eligible user db (sub_StreamID h)"
| "shown_hit e eligible user db (CourseHit h) = shown_course user db h"

lemma checks_show:
  assumes "fresh db db1"
  shows "check_stream e eligible user h db1 = (x, db2) \<Longrightarrow>
           fresh db db2 \<and> (\<forall>y. x = Some (Some y) \<longrightarrow> shown_hit e eligible user db y)"
    and "check_subtitle e eligible user k db1 = (x, db2) \<Longrightarrow>
           fresh db db2 \<and> (\<forall>y. x = Some (Some y) \<longrightarrow> shown_hit e eligible user db y)"
    and "check_course e user l db1 = (x, db2) \<Longrightarrow>
           fresh db db2 \<and> (\<forall>y. x = Some (Some y) \<longrightarrow> shown_hit e eligible user db y)"
proof -
  assume "check_stream e eligible user h db1 = (x, db2)"
  from with_stream_fresh [OF assms this [unfolded check_stream_def]]
  show "fresh db db2 \<and> (\<forall>y. x = Some (Some y) \<longrightarrow> shown_hit e eligible user db y)"
    by (fastforce simp: shown_stream_def may_see_def split: if_splits)
next
  assume "check_subtitle e eligible user k db1 = (x, db2)"
  from with_stream_fresh [OF assms this [unfolded check_subtitle_def]]
  show "fresh db db2 \<and> (\<forall>y. x = Some (Some y) \<longrightarrow> shown_hit e eligible user db y)"
    by (fastforce simp: shown_stream_def may_see_def fill_subtitle_def split: if_splits)
next
  assume c: "check_course e user l db1 = (x, db2)"
  obtain res db3 where g: "GetCourseBySlugYearAndTerm e (sc_Slug l) (sc_TeachingTerm l) (sc_Year l) db1 = (res, db3)"
    by fastforce
  from GetCourseBySlug_fresh [OF assms g] c g
  show "fresh db db2 \<and> (\<forall>y. x = Some (Some y) \<longrightarrow> shown_hit e eligible user db y)"
    by (cases res) (fastforce simp: check_course_def shown_course_def split: if_splits)+
qed

lemma collect_shows:
  assumes "\<And>h db1 db2 x. fresh db db1 \<Longrightarrow> check h db1 = (x, db2) \<Longrightarrow>
       fresh db db2 \<and> (\<forall>y. x = Some (Some y) \<longrightarrow> shown_hit e eligible user db y)"
    and "fresh db db1" and "collect check limit xs [] db1 = (out, db3)"
  shows "fresh db db3 \<and> (\<forall>y \<in> set out. shown_hit e eligible user db y) \<and> int (length out) \<le> max 1 limit"
  using collect_hits [where I = "fresh db" and P = "shown_hit e eligible user db", OF assms(1) assms(3,2)]
    collect_length [OF _ assms(3)] by simp

lemma check_result_shows:
  assumes "fresh db db1" and "check_result e pt user limit hidden r db1 = ((k, hs), db2)"
  shows "fresh db db2 \<and>
     (\<forall>h \<in> set hs. shown_hit e (if hidden then IsEligibleToWatchCourse else IsEligibleToSearchForCourse) user db h) \<and>
     (k \<in> {''STREAMS'', ''COURSES'', ''SUBTITLES''} \<longrightarrow> int (length hs) \<le> max 1 limit)"
proof -
  let ?el = "if hidden then IsEligibleToWatchCourse else IsEligibleToSearchForCourse"
  note col = collect_shows [where db = db and e = e and user = user and eligible = ?el, OF _ assms(1)]
  have s1: "fresh db db3 \<and> (\<forall>y \<in> set out. shown_hit e ?el user db y) \<and> int (length out) \<le> max 1 limit"
    if "collect (check_stream e ?el user) limit xs [] db1 = (out, db3)" for xs out db3
    by (rule col [OF checks_show(1) that])
  have s2: "fresh db db3 \<and> (\<forall>y \<in> set out. shown_hit e ?el user db y) \<and> int (length out) \<le> max 1 limit"
    if "collect (check_subtitle e ?el user) limit xs [] db1 = (out, db3)" for xs out db3
    by (rule col [OF checks_show(2) that])
  have s3: "fresh db db3 \<and> (\<forall>y \<in> set out. shown_hit e ?el user db y) \<and> int (length out) \<le> max 1 limit"
    if "collect (check_course e user) limit xs [] db1 = (out, db3)" for xs out db3
    by (rule col [OF checks_show(3) that])
  consider (none) "hs = []" "db2 = db1"
    | (streams) xs where "collect (check_stream e ?el user) limit xs [] db1 = (hs, db2)"
    | (courses) xs where "collect (check_course e user) limit xs [] db1 = (hs, db2)"
    | (subs) xs where "collect (check_subtitle e ?el user) limit xs [] db1 = (hs, db2)"
    | (raw) "k \<notin> {''STREAMS'', ''COURSES'', ''SUBTITLES''}" "hs = map RawHit (Hits r)" "db2 = db1"
    using assms(2)
    by (simp add: check_result_def Let_def apfst_def map_prod_def split: if_split_asm option.split_asm prod.split_asm)
  then show ?thesis
    using s1 s2 s3 assms(1) by cases auto
qed


lemma checkAndFillResponse_shows:
  assumes "fresh db db1" and "checkAndFillResponse e pt user limit rs hidden db1 = (out, db2)"
    and "(k, hs) \<in> set out"
  shows "(\<forall>h \<in> set hs. shown_hit e (if hidden then IsEligibleToWatchCourse else IsEligibleToSearchForCourse) user db h) \<and>
     (k \<in> {''STREAMS'', ''COURSES'', ''SUBTITLES''} \<longrightarrow> int (length hs) \<le> max 1 limit)"
  using assms
proof (induction rs arbitrary: db1 out)
  case (Cons r rs)
  obtain k' hs' db3 where r: "check_result e pt user limit hidden r db1 = ((k', hs'), db3)" by (metis prod.exhaust)
  obtain out' db4 where rest: "checkAndFillResponse e pt user limit rs hidden db3 = (out', db4)" by fastforce
  note sh = check_result_shows [OF Cons.prems(1) r]
  from Cons.prems(2) r rest have "out = (k', hs') # out'" "db2 = db4" by simp_all
  with Cons.prems(3) sh Cons.IH [of db3 out'] rest show ?case by auto
qed simp

lemma responseToMap_Some: "responseToMap rs k = Some hs \<Longrightarrow> (k, hs) \<in> set rs"
proof (induction rs rule: rev_induct)
  case (snoc r rs)
  then show ?case by (cases r) (auto simp: responseToMap_def split: if_splits)
qed (simp add: responseToMap_def)

lemma answer_hits_shows:
  assumes "fresh db db1" and "answer_hits e pt user limit hidden res db1 = (answers, db2)"
    and "Reply st hits \<in> set answers" and "hits k = Some hs"
  shows "(\<forall>h \<in> set hs. shown_hit e (if hidden then IsEligibleToWatchCourse else IsEligibleToSearchForCourse) user db h) \<and>
     (k \<in> {''STREAMS'', ''COURSES'', ''SUBTITLES''} \<longrightarrow> int (length hs) \<le> max 1 limit)"
  using assms checkAndFillResponse_shows [OF assms(1), of e pt user limit _ hidden]
  by (fastforce simp: answer_hits_def dest: responseToMap_Some split: option.splits prod.splits)

lemma parse_courses_fresh:
  "fresh db db1 \<Longrightarrow> parse_courses e ss db1 = (res, db2) \<Longrightarrow> fresh db db2"
proof (induction e ss db1 arbitrary: res db2 rule: parse_courses.induct)
  case (2 e s ss db1)
  show ?case
  proof (cases "course_regex s")
    case True
    let ?y = "atoi_or_0 (take 4 (drop (length s - 5) s))"
    obtain r db3 where g: "GetCourseBySlugYearAndTerm e (take (length s - 5) s) (drop (length s - 1) s) ?y db1 = (r, db3)"
      by fastforce
    have fr: "fresh db db3" by (rule GetCourseBySlug_fresh(1) [OF 2(2) g])
    show ?thesis
    proof (cases r)
      case (Inr c)
      obtain r' db4 where p: "parse_courses e ss db3 = (r', db4)" by fastforce
      have "fresh db db4" using 2(1) [OF _ refl refl g [symmetric] Inr fr p] True by simp
      with 2(3) True g Inr p show ?thesis by (simp add: Let_def)
    qed (use 2(3) True g fr in \<open>simp add: Let_def\<close>)
  qed (use 2(2,3) in simp)
qed simp

text \<open>C20: Whatever the search engine answers, the search shows only hits whose stream is in the database, not
  deleted, of a course the user may search for and not private unless the user administers the course, and
  only courses the user may search for; hidden courses are searched only where the user names them and
  may watch them. At most \<open>limit\<close> hits of an index are shown, one if the limit is 0. (A course hit is checked on the
  course cached under its slug, term and year run together.)\<close>

theorem search_shows_visible_hits:
  assumes "cache_coherent (base db)" and "slug_coherent db"
    and "search e pt m t g db = (answers, db')" and "Reply st hits \<in> set answers" and "hits k = Some hs"
  shows "(\<forall>h \<in> set hs. shown_hit e (if gquery g ''course'' \<noteq> [] then IsEligibleToWatchCourse else IsEligibleToSearchForCourse)
            (ctx_User t) db h) \<and>
     (k \<in> {''STREAMS'', ''COURSES'', ''SUBTITLES''} \<longrightarrow>
        int (length hs) \<le> max 1 (case parse_uint 16 (gquery g ''limit'') of None \<Rightarrow> 10 | Some n \<Rightarrow> int n))"
proof -
  note fr = fresh_self [OF assms(1,2)]
  define limit where "limit = (case parse_uint 16 (gquery g ''limit'') of None \<Rightarrow> 10 | Some n \<Rightarrow> int n)"
  have par: "getDefaultParameters t g = (ctx_User t, gquery g ''q'', limit)"
    unfolding getDefaultParameters_def limit_def DefaultLimit_def by simp
  consider (named) res courses db1 where "gquery g ''course'' \<noteq> []" "parseCourses e (gquery g ''course'') db = (Inr courses, db1)"
      "answer_hits e pt (ctx_User t) limit True res db1 = (answers, db')"
    | (all) res where "gquery g ''course'' = []" "answer_hits e pt (ctx_User t) limit False res db = (answers, db')"
    using assms(3,4) par by (auto simp: search_def Let_def split: prod.splits sum.splits if_splits)
  then show ?thesis
  proof cases
    case named
    have "fresh db db1" using parse_courses_fresh [OF fr] named(2) by (simp add: parseCourses_def)
    from answer_hits_shows [OF this named(3) assms(4,5)] named(1) show ?thesis by (simp add: limit_def)
  next
    case all
    from answer_hits_shows [OF fr all(2) assms(4,5)] all(1) show ?thesis by (simp add: limit_def)
  qed
qed


definition demo_hits :: meili_client where
  "demo_hits = (\<lambda>_. Some [\<lparr>IndexUID = ''STREAMS'', Hits = [JObj [(''ID'', JInt 7)], JObj [(''ID'', JInt 8)]]\<rparr>])"

definition demo_gin :: "(string \<rightharpoonup> string) \<Rightarrow> (string \<rightharpoonup> string) \<Rightarrow> gin" where
  "demo_gin ps qs = \<lparr>tum = None, RequestURI = [], url_params = ps, query_params = qs, cookies = Map.empty, calls = []\<rparr>"

definition demo_streams :: api_db where
  "demo_streams = with_rows [] [demo_row]
     [zero_Stream\<lparr>ID := 7, CourseID := 3, Private := True\<rparr>, zero_Stream\<lparr>ID := 8, CourseID := 3\<rparr>]"

lemma demo_search:
  "case fst (search calm (\<lambda>_. None) demo_hits empty_tum (demo_gin Map.empty Map.empty) demo_streams) of
     [Reply st hits] \<Rightarrow> map_option (map (\<lambda>h. case h of StreamHit s \<Rightarrow> ss_ID s | _ \<Rightarrow> 0)) (hits ''STREAMS'') = Some [8]
   | _ \<Rightarrow> False"
  by code_simp

theorem search_shows_visible_hits_witness: "shown_stream calm IsEligibleToSearchForCourse None demo_streams 8"
proof -
  obtain as db' where s: "search calm (\<lambda>_. None) demo_hits empty_tum (demo_gin Map.empty Map.empty) demo_streams = (as, db')"
    by fastforce
  from demo_search [unfolded s fst_conv] obtain st hits where as: "as = [Reply st hits]"
    and ids: "map_option (map (\<lambda>h. case h of StreamHit s \<Rightarrow> ss_ID s | _ \<Rightarrow> 0)) (hits ''STREAMS'') = Some [8]"
    by (cases as; cases "hd as"; cases "tl as") auto
  from ids obtain h where hit: "hits ''STREAMS'' = Some [StreamHit h]" "ss_ID h = 8"
    by (auto split: hit.splits)
  have "cache_coherent (base demo_streams)" "slug_coherent demo_streams"
    by (simp_all only: demo_streams_def with_rows_coherent)
  moreover have "Reply st hits \<in> set as" by (simp add: as)
  ultimately have "\<forall>h \<in> set [StreamHit h]. shown_hit calm IsEligibleToSearchForCourse None demo_streams h"
    using search_shows_visible_hits [where hits = hits and st = st and k = "''STREAMS''", OF _ _ s _ hit(1)]
    by (simp add: empty_tum_def demo_gin_def gquery_def)
  then show ?thesis using hit(2) by simp
qed

end
