(* ===== verification/Search_Filter.thy ===== *)
theory Search_Filter
  imports Search Dao_Cache
begin

text \<open>
  The filter sent for courses means exactly the courses of the asked semesters that the user may search for.
  Its meaning is given by a small syntax of the engine's filter language: the string is the printed form of an
  expression, and the expression is evaluated on a document.
\<close>

subsection \<open>The engine's filter language\<close>

datatype mval = MInt int | MStr string

datatype mfilter =
    MEq string mval
  | MLt string int
  | MGt string int
  | MIn string "uint list"
  | MAnd mfilter mfilter
  | MOr mfilter mfilter
  | MPar mfilter

type_synonym doc = "string \<Rightarrow> mval"

fun sat :: "doc \<Rightarrow> mfilter \<Rightarrow> bool" where
  "sat d (MEq k v) \<longleftrightarrow> d k = v"
| "sat d (MLt k i) \<longleftrightarrow> (case d k of MInt j \<Rightarrow> j < i | MStr s \<Rightarrow> False)"
| "sat d (MGt k i) \<longleftrightarrow> (case d k of MInt j \<Rightarrow> j > i | MStr s \<Rightarrow> False)"
| "sat d (MIn k ids) \<longleftrightarrow> (\<exists>i \<in> set ids. d k = MInt (Word.uint i))"
| "sat d (MAnd f g) \<longleftrightarrow> sat d f \<and> sat d g"
| "sat d (MOr f g) \<longleftrightarrow> sat d f \<or> sat d g"
| "sat d (MPar f) \<longleftrightarrow> sat d f"

fun print_val :: "mval \<Rightarrow> string" where
  "print_val (MInt i) = itoa i"
| "print_val (MStr s) = quoted s"

fun print_filter :: "mfilter \<Rightarrow> string" where
  "print_filter (MEq k v) = k @ '' = '' @ print_val v"
| "print_filter (MLt k i) = k @ '' < '' @ itoa i"
| "print_filter (MGt k i) = k @ '' > '' @ itoa i"
| "print_filter (MIn k ids) = k @ '' IN '' @ uintSliceToString ids"
| "print_filter (MAnd f g) = print_filter f @ '' AND '' @ print_filter g"
| "print_filter (MOr f g) = print_filter f @ '' OR '' @ print_filter g"
| "print_filter (MPar f) = ''('' @ print_filter f @ '')''"

text \<open>
  An expression whose printed form reads back as itself: AND binds tighter than OR, attributes are words, and
  no string has a quote or a backslash in it.
\<close>

definition word_name :: "string \<Rightarrow> bool" where
  "word_name k \<longleftrightarrow> k \<noteq> [] \<and> list_all ascii_letter k \<and> k \<notin> {''AND'', ''OR'', ''IN'', ''NOT'', ''TO''}"

fun printable_val :: "mval \<Rightarrow> bool" where
  "printable_val (MInt i) \<longleftrightarrow> True"
| "printable_val (MStr s) \<longleftrightarrow> CHR 0x22 \<notin> set s \<and> CHR 0x5C \<notin> set s"

fun is_or :: "mfilter \<Rightarrow> bool" where
  "is_or (MOr f g) = True"
| "is_or f = False"

fun printable :: "mfilter \<Rightarrow> bool" where
  "printable (MEq k v) \<longleftrightarrow> word_name k \<and> printable_val v"
| "printable (MLt k i) \<longleftrightarrow> word_name k"
| "printable (MGt k i) \<longleftrightarrow> word_name k"
| "printable (MIn k ids) \<longleftrightarrow> word_name k"
| "printable (MAnd f g) \<longleftrightarrow> printable f \<and> printable g \<and> \<not> is_or f \<and> \<not> is_or g"
| "printable (MOr f g) \<longleftrightarrow> printable f \<and> printable g"
| "printable (MPar f) \<longleftrightarrow> printable f"

text \<open>A course as a document, as the exporter writes it.\<close>

definition doc_of :: "Course \<Rightarrow> doc" where
  "doc_of c = (\<lambda>k.
     if k = ''ID'' then MInt (Word.uint (ID c)) else if k = ''visibility'' then MStr (Visibility c)
     else if k = ''year'' then MInt (course_Year c) else if k = ''semester'' then MStr (course_TeachingTerm c)
     else if k = ''name'' then MStr (course_Name c) else MStr (Slug c))"

definition term_filter :: "Semester \<Rightarrow> mfilter" where
  "term_filter s = MPar (MAnd (MEq ''year'' (MInt (Year s))) (MEq ''semester'' (MStr (TeachingTerm s))))"

fun or_all :: "mfilter list \<Rightarrow> mfilter" where
  "or_all [] = MIn ''ID'' []"
| "or_all [f] = f"
| "or_all (f # g # fs) = MOr f (or_all (g # fs))"

definition semester_filter :: "Semester \<Rightarrow> Semester \<Rightarrow> Semester list option \<Rightarrow> mfilter option" where
  "semester_filter a b ss =
     (case ss of
        None \<Rightarrow>
          if Year a < 1900 \<and> Year b > 2800 then None
          else if a = b then Some (term_filter a)
          else (let lower = (if TeachingTerm a = ''W'' then term_filter a else MEq ''year'' (MInt (Year a)));
                    upper = (if TeachingTerm b = ''S'' then term_filter b else MEq ''year'' (MInt (Year b)))
                in Some (MPar (if Year a + 1 < Year b
                   then MOr lower (MOr (MPar (MAnd (MGt ''year'' (Year a)) (MLt ''year'' (Year b)))) upper)
                   else MOr lower upper)))
      | Some ss \<Rightarrow> Some (MPar (or_all (map term_filter ss))))"

definition enrolled_ids :: "User \<Rightarrow> Semester \<Rightarrow> Semester \<Rightarrow> Semester list option \<Rightarrow> uint list" where
  "enrolled_ids u a b ss = map ID (case ss of
     None \<Rightarrow> CoursesBetweenSemestersWithoutAdministeredCourses u a b
   | Some ss \<Rightarrow> CoursesForSemestersWithoutAdministeredCourses u ss)"

definition administered_ids :: "User \<Rightarrow> Semester \<Rightarrow> Semester \<Rightarrow> Semester list option \<Rightarrow> uint list" where
  "administered_ids u a b ss = map ID (case ss of
     None \<Rightarrow> AdministeredCoursesBetweenSemesters u a b
   | Some ss \<Rightarrow> AdministeredCoursesForSemesters u ss)"

definition user_filter :: "User \<Rightarrow> Semester \<Rightarrow> Semester \<Rightarrow> Semester list option \<Rightarrow> mfilter" where
  "user_filter u a b ss =
     (let enrolled = MPar (MAnd (MEq ''visibility'' (MStr ''enrolled'')) (MIn ''ID'' (enrolled_ids u a b ss)))
      in MPar (MOr (MEq ''visibility'' (MStr ''loggedin'')) (MOr (MEq ''visibility'' (MStr ''public''))
           (if AdministeredCourses u = [] then enrolled
            else MOr enrolled (MIn ''ID'' (administered_ids u a b ss))))))"

definition course_filter :: "User option \<Rightarrow> Semester \<Rightarrow> Semester \<Rightarrow> Semester list option \<Rightarrow> mfilter option" where
  "course_filter user a b ss =
     (let p = (case user of
                 None \<Rightarrow> Some (MPar (MEq ''visibility'' (MStr ''public'')))
               | Some u \<Rightarrow> if Role u = AdminType then None else Some (user_filter u a b ss))
      in case (p, semester_filter a b ss) of
           (None, f) \<Rightarrow> f
         | (f, None) \<Rightarrow> f
         | (Some f, Some g) \<Rightarrow> Some (MPar (MAnd f g)))"

abbreviation print_opt :: "mfilter option \<Rightarrow> string" where
  "print_opt f \<equiv> (case f of None \<Rightarrow> [] | Some f \<Rightarrow> print_filter f)"

abbreviation sat_opt :: "doc \<Rightarrow> mfilter option \<Rightarrow> bool" where
  "sat_opt d f \<equiv> (case f of None \<Rightarrow> True | Some f \<Rightarrow> sat d f)"

lemma print_term [simp]: "print_filter (term_filter s) = in_term s"
  by (simp add: term_filter_def in_term_def)

lemma print_or_all: "fs \<noteq> [] \<Longrightarrow> print_filter (or_all fs) = join (map print_filter fs) '' OR ''"
  by (induction fs rule: or_all.induct) auto

lemma print_semester_filter:
  "ss \<noteq> Some [] \<Longrightarrow> meiliSemesterFilter a b ss = print_opt (semester_filter a b ss)"
  by (cases ss) (auto simp: meiliSemesterFilter_def semester_filter_def Let_def print_or_all comp_def
      IsEqual_eq [unfolded IsEqual_def, symmetric])

lemma print_ids: "uintSliceToString (map ID cs) = courseSliceToString cs"
  by (simp add: uintSliceToString_def courseSliceToString_def comp_def)

lemma print_user_filter:
  "print_filter (user_filter u a b ss) =
     (if AdministeredCourses u = [] then ''('' @ visible_kinds @ ''ID IN '' @ uintSliceToString (enrolled_ids u a b ss) @ ''))''
      else ''('' @ visible_kinds @ ''ID IN '' @ uintSliceToString (enrolled_ids u a b ss) @ '') OR ID IN '' @
           uintSliceToString (administered_ids u a b ss) @ '')'')"
  by (simp add: user_filter_def Let_def visible_kinds_def)

lemma print_semester_not_empty: "semester_filter a b ss = Some f \<Longrightarrow> print_filter f \<noteq> []"
  by (auto simp: semester_filter_def Let_def in_term_def split: option.splits if_splits)

lemma print_course_filter:
  assumes "ss \<noteq> Some []"
  shows "meiliCourseFilter user a b ss = print_opt (course_filter user a b ss)"
  using print_semester_filter [OF assms, of a b] print_semester_not_empty [of a b ss]
  by (auto simp: meiliCourseFilter_def course_filter_def Let_def print_user_filter enrolled_ids_def administered_ids_def
      print_ids split: option.splits)


definition plain_term :: "Semester \<Rightarrow> bool" where
  "plain_term s \<longleftrightarrow> printable_val (MStr (TeachingTerm s))"

lemma valid_plain: "valid_semester s \<Longrightarrow> plain_term s"
  by (auto simp: valid_semester_def plain_term_def)

lemma words [simp]:
  "word_name ''ID''" "word_name ''year''" "word_name ''semester''" "word_name ''visibility''"
  by (simp_all add: word_name_def ascii_letter_def)

lemma printable_term [simp]: "printable (term_filter s) = plain_term s" "\<not> is_or (term_filter s)"
  by (simp_all add: term_filter_def plain_term_def)

lemma printable_or_all: "list_all printable fs \<Longrightarrow> printable (or_all fs)"
  by (induction fs rule: or_all.induct) auto

lemma printable_semester:
  assumes "semester_filter a b ss = Some f" and "list_all plain_term (case ss of None \<Rightarrow> [a, b] | Some ss \<Rightarrow> ss)"
  shows "printable f \<and> \<not> is_or f"
  using assms printable_or_all [of "map term_filter (the ss)"]
  by (auto simp: semester_filter_def Let_def list_all_iff split: option.splits if_splits)

lemma printable_course_filter:
  assumes "course_filter user a b ss = Some f" and "list_all plain_term (case ss of None \<Rightarrow> [a, b] | Some ss \<Rightarrow> ss)"
  shows "printable f"
  using assms(1) printable_semester [OF _ assms(2)]
  by (auto simp: course_filter_def user_filter_def Let_def split: option.splits if_splits)

lemma sat_or_all: "fs \<noteq> [] \<Longrightarrow> sat d (or_all fs) \<longleftrightarrow> (\<exists>f \<in> set fs. sat d f)"
  by (induction fs rule: or_all.induct) auto

lemma doc_of_simps [simp]:
  "doc_of c ''ID'' = MInt (Word.uint (ID c))" "doc_of c ''visibility'' = MStr (Visibility c)"
  "doc_of c ''year'' = MInt (course_Year c)" "doc_of c ''semester'' = MStr (course_TeachingTerm c)"
  by (simp_all add: doc_of_def)

lemma sat_term [simp]: "sat (doc_of c) (term_filter s) \<longleftrightarrow> semester_of c = s"
  by (cases s) (auto simp: term_filter_def semester_of_def)

lemma sat_semester_filter:
  assumes "ss \<noteq> Some []" and "valid_semester (semester_of c)"
    and "ss = None \<Longrightarrow> valid_semester a \<and> valid_semester b \<and> half_year a \<le> half_year b"
    and "ss = None \<Longrightarrow> Year a < 1900 \<Longrightarrow> Year b > 2800 \<Longrightarrow> IsBetweenSemesters (semester_of c) a b"
  shows "sat_opt (doc_of c) (semester_filter a b ss) \<longleftrightarrow>
     (case ss of None \<Rightarrow> IsBetweenSemesters (semester_of c) a b | Some ss \<Rightarrow> IsInRangeOfSemesters (semester_of c) ss)"
proof (cases ss)
  case (Some xs)
  with assms(1) show ?thesis
    by (auto simp: semester_filter_def sat_or_all IsInRangeOfSemesters_iff)
next
  case None
  with assms(3) have v: "valid_semester a" "valid_semester b" "half_year a \<le> half_year b" by simp_all
  show ?thesis
  proof (cases "a = b \<or> Year a < 1900 \<and> Year b > 2800")
    case True
    with None assms(4) show ?thesis
      by (cases a; cases b) (auto simp: semester_filter_def IsBetweenSemesters_def semester_of_def)
  next
    case False
    then have "\<not> (Year a = Year b \<and> TeachingTerm a = TeachingTerm b)" by (cases a; cases b) auto
    then have btw: "IsBetweenSemesters (semester_of c) a b \<longleftrightarrow>
        half_year a \<le> half_year (semester_of c) \<and> half_year (semester_of c) \<le> half_year b"
      unfolding IsBetweenSemesters_def using v assms(2) by (subst if_not_P) (simp_all add: IsGreaterEqualThan_half_year)
    show ?thesis
      using None False v assms(2) btw
      by (auto simp: semester_filter_def Let_def semester_of_def valid_semester_def half_year_def term_filter_def split: if_splits)
  qed
qed

subsection \<open>The filter means the right to search\<close>

definition asked :: "Semester \<Rightarrow> Semester \<Rightarrow> Semester list option \<Rightarrow> Course \<Rightarrow> bool" where
  "asked a b ss c \<longleftrightarrow>
     (case ss of None \<Rightarrow> IsBetweenSemesters (semester_of c) a b | Some ss \<Rightarrow> IsInRangeOfSemesters (semester_of c) ss)"

text \<open>The lists loaded with the user are rows of the same courses, and the courses the user owns are listed.\<close>

definition lists_agree :: "User \<Rightarrow> Course \<Rightarrow> bool" where
  "lists_agree u c \<longleftrightarrow>
     (\<forall>d \<in> set (Courses u) \<union> set (AdministeredCourses u). ID d = ID c \<longrightarrow>
        semester_of d = semester_of c \<and> course_UserID d = course_UserID c) \<and>
     (course_UserID c = ID u \<longrightarrow> (\<exists>d \<in> set (AdministeredCourses u). ID d = ID c))"

lemma lists_agreeD:
  assumes "lists_agree u c" and "d \<in> set (Courses u) \<union> set (AdministeredCourses u)" and "ID d = ID c"
  shows "asked a b ss d = asked a b ss c" and "administers u d = administers u c"
proof -
  from assms have "semester_of d = semester_of c" "course_UserID d = course_UserID c"
    unfolding lists_agree_def by blast+
  with assms(3) show "asked a b ss d = asked a b ss c" "administers u d = administers u c"
    by (simp_all add: asked_def administers_def cong: option.case_cong)
qed

lemma listed_ids:
  "administered_ids u a b ss = map ID (filter (asked a b ss) (AdministeredCourses u))"
  "enrolled_ids u a b ss = map ID (filter (\<lambda>c. asked a b ss c \<and> \<not> administers u c) (Courses u))"
  by (auto simp: administered_ids_def enrolled_ids_def asked_def [abs_def] AdministeredCoursesForSemesters_def
      AdministeredCoursesBetweenSemesters_def CoursesForSemestersWithoutAdministeredCourses_def
      CoursesBetweenSemestersWithoutAdministeredCourses_def split: option.splits)

lemma ID_in_map: "i \<in> set (map ID (filter P cs)) \<longleftrightarrow> (\<exists>d \<in> set cs. ID d = i \<and> P d)"
  by auto

lemma administered_iff:
  assumes "lists_agree u c" and "Role u \<noteq> AdminType"
  shows "ID c \<in> set (administered_ids u a b ss) \<longleftrightarrow> asked a b ss c \<and> administers u c"
proof -
  have "administers u c \<longleftrightarrow> (\<exists>d \<in> set (AdministeredCourses u). ID d = ID c)"
    using assms by (auto simp: administers_def lists_agree_def)
  then show ?thesis
    unfolding listed_ids ID_in_map using lists_agreeD(1) [OF assms(1)] by blast
qed

lemma enrolled_iff:
  assumes "lists_agree u c"
  shows "ID c \<in> set (enrolled_ids u a b ss) \<longleftrightarrow> asked a b ss c \<and> invited u c \<and> \<not> administers u c"
  unfolding listed_ids ID_in_map invited_def using lists_agreeD [OF assms] by blast

lemma uint_word_eqD: "Word.uint (v :: uint) = Word.uint w \<Longrightarrow> v = w"
  by (metis word_of_int_uint)

lemma sat_ids: "sat (doc_of c) (MIn ''ID'' ids) \<longleftrightarrow> ID c \<in> set ids"
  by (auto dest: uint_word_eqD)

lemma sat_user_filter:
  assumes "lists_agree u c" and "Role u \<noteq> AdminType"
    and "Visibility c \<in> {''public'', ''loggedin'', ''enrolled'', ''hidden''}" and "asked a b ss c"
  shows "sat (doc_of c) (user_filter u a b ss) \<longleftrightarrow> IsEligibleToSearchForCourse (Some u) c"
proof -
  have none: "AdministeredCourses u = [] \<Longrightarrow> \<not> administers u c"
    using assms(1,2) by (auto simp: lists_agree_def administers_def)
  have "sat (doc_of c) (user_filter u a b ss) \<longleftrightarrow>
      Visibility c = ''loggedin'' \<or> Visibility c = ''public'' \<or>
      Visibility c = ''enrolled'' \<and> invited u c \<and> \<not> administers u c \<or> administers u c"
    using administered_iff [OF assms(1,2), of a b ss] enrolled_iff [OF assms(1), of a b ss] assms(4) none
    by (auto simp: user_filter_def Let_def sat_ids simp del: sat.simps(4))
  then show ?thesis
    using assms(3) by (auto simp: IsEligibleToSearchForCourse_def watch_simps access_simps)
qed

lemma asked_everything:
  assumes "Year a < course_Year c" "course_Year c < Year b"
  shows "IsBetweenSemesters (semester_of c) a b"
  using assms by (simp add: IsBetweenSemesters_def IsGreaterEqualThan_def semester_of_def)

text \<open>C21: The filter the server sends for a course search is the printed form of an expression of the engine's
  filter language that reads back uniquely, and on the document of a course this expression holds exactly if the
  course lies in the asked semesters and the user may search for it, for visitors, users and administrators
  alike: the permissions are pushed into the engine without a change of meaning.\<close>

theorem course_filter_is_the_search_right:
  assumes "ss \<noteq> Some []" and "list_all valid_semester (case ss of None \<Rightarrow> [a, b] | Some ss \<Rightarrow> ss)"
    and "half_year a \<le> half_year b" and "valid_semester (semester_of c)"
    and "Year a < 1900 \<and> Year b > 2800 \<longrightarrow> Year a < course_Year c \<and> course_Year c < Year b"
    and "Visibility c \<in> {''public'', ''loggedin'', ''enrolled'', ''hidden''}"
    and "\<And>u. user = Some u \<Longrightarrow> lists_agree u c"
  shows "meiliCourseFilter user a b ss = print_opt (course_filter user a b ss) \<and>
     (\<forall>f. course_filter user a b ss = Some f \<longrightarrow> printable f) \<and>
     (sat_opt (doc_of c) (course_filter user a b ss) \<longleftrightarrow> asked a b ss c \<and> IsEligibleToSearchForCourse user c)"
proof -
  have plain: "list_all plain_term (case ss of None \<Rightarrow> [a, b] | Some ss \<Rightarrow> ss)"
    using assms(2) by (auto simp: list_all_iff valid_plain)
  have sem: "sat_opt (doc_of c) (semester_filter a b ss) \<longleftrightarrow> asked a b ss c"
    unfolding asked_def using assms(2,3,5) asked_everything
    by (intro sat_semester_filter [OF assms(1,4)]) (auto split: option.splits)
  have "sat_opt (doc_of c) (course_filter user a b ss) \<longleftrightarrow> asked a b ss c \<and> IsEligibleToSearchForCourse user c"
  proof (cases "\<exists>u. user = Some u \<and> Role u \<noteq> AdminType")
    case True
    then obtain u where u: "user = Some u" "Role u \<noteq> AdminType" by auto
    from sat_user_filter [OF assms(7) [OF u(1)] u(2) assms(6), of a b ss] u sem show ?thesis
      by (auto simp: course_filter_def split: option.splits)
  next
    case False
    with sem assms(6) show ?thesis
      by (auto simp: course_filter_def IsEligibleToSearchForCourse_def watch_simps access_simps administers_def
          split: option.splits)
  qed
  with print_course_filter [OF assms(1)] printable_course_filter [OF _ plain] show ?thesis by blast
qed

theorem course_filter_is_the_search_right_witness:
  "sat_opt (doc_of demo_row)
     (course_filter None \<lparr>TeachingTerm = ''S'', Year = 2024\<rparr> \<lparr>TeachingTerm = ''W'', Year = 2024\<rparr> None)"
  by (subst course_filter_is_the_search_right [THEN conjunct2, THEN conjunct2])
    (simp_all add: demo_row_def zero_Course_def valid_semester_def half_year_def semester_of_def asked_def
       IsBetweenSemesters_def IsGreaterEqualThan_def IsEligibleToSearchForCourse_def watch_simps access_simps)

end
