(* ===== verification/Course_Api.thy ===== *)
theory Course_Api
  imports Search Worker_Grpc Stream_Signing
begin

text \<open>
  \<^verbatim>\<open>src/api/courses.go\<close>, first half: the lists of courses, a course page, videos on demand, the source
  settings, the administrators and the lecture halls of a course. A handler maps the database to what it
  sends and the new database; the body of a request is an argument, None if it does not decode. What a request
  meets besides the database is the record \<open>api_env\<close>. The second half is in \<open>Course_Edit\<close>.
\<close>

text \<open>
  \<open>key_of\<close>: how the database reads a string as a key. \<open>civil\<close>: year and month of a time. \<open>sort_slice\<close>:
  \<^verbatim>\<open>sort.Slice\<close>, whose result for a comparison that is no order is not specified. \<open>order_keys\<close>: the order in
  which a map is iterated. \<open>sessions_of\<close>: how many viewers a stream has, None if it has no entry.
\<close>

record api_env =
  dbe :: db_env
  signs :: signer
  uuid :: "nat \<Rightarrow> string"
  key_of :: "string \<Rightarrow> uint"
  time_format :: "string \<Rightarrow> gotime \<Rightarrow> string"
  civil :: "gotime \<Rightarrow> int \<times> int"
  sort_slice :: "(Course \<Rightarrow> Course \<Rightarrow> bool) \<Rightarrow> Course list \<Rightarrow> Course list"
  order_keys :: "uint set \<Rightarrow> uint list"
  sessions_of :: "uint \<Rightarrow> nat option"
  markdown :: "string \<Rightarrow> string"
  sha256_hex :: "string \<Rightarrow> string"
  os_fault :: "string \<Rightarrow> bool"
  mass_path :: string
  vod_url :: "string \<Rightarrow> string"
  url_error :: "string \<Rightarrow> string option"

abbreviation now_of :: "api_env \<Rightarrow> gotime" where
  "now_of e \<equiv> clock (dbe e)"

text \<open>\<^verbatim>\<open>tum.GetCurrentSemester\<close>: summer runs from April to September.\<close>

definition GetCurrentSemester :: "api_env \<Rightarrow> int \<times> string" where
  "GetCurrentSemester e =
     (let (year, month) = civil e (now_of e) in
      if month \<ge> 4 \<and> month < 10 then (year, ''S'')
      else (if month \<ge> 10 then year else year - 1, ''W''))"

definition query_default :: "gin \<Rightarrow> string \<Rightarrow> string \<Rightarrow> string" where
  "query_default g k d = (case query_params g k of None \<Rightarrow> d | Some v \<Rightarrow> v)"

subsection \<open>Lists of courses\<close>

record LectureHallDTO =
  lhd_ID :: uint
  lhd_Name :: string
  lhd_ExternalURL :: string

definition LectureHall_ToDTO :: "LectureHall option \<Rightarrow> LectureHallDTO option" where
  "LectureHall_ToDTO l = map_option (\<lambda>l. \<lparr>lhd_ID = ID l, lhd_Name = lh_Name l, lhd_ExternalURL = ExternalURL l\<rparr>) l"

record CourseStream =
  cs_Course :: CourseDTO
  cs_Stream :: StreamDTO
  cs_LectureHall :: "LectureHallDTO option"
  cs_Viewers :: uint

text \<open>A failing query leaves the zero course, which none of the tests rejects.\<close>

definition live_course :: "api_env \<Rightarrow> api_db \<Rightarrow> Stream \<Rightarrow> Course" where
  "live_course e db s = (case CourseById (dbe e) (CourseID s) db of Inl _ \<Rightarrow> zero_Course | Inr c \<Rightarrow> c)"

definition shown_live :: "User option \<Rightarrow> Course \<Rightarrow> Stream \<Rightarrow> bool" where
  "shown_live user c s \<longleftrightarrow>
     \<not> (IsLoggedIn c \<and> user = None) \<and>
     (IsEnrolled c \<longrightarrow> IsAllowedToWatchPrivateCourse user c) \<and>
     \<not> (IsHidden c \<and> (user = None \<or> \<not> IsAdminOfCourse user c)) \<and>
     \<not> (Private s \<and> (user = None \<or> \<not> IsAdminOfCourse user c))"

definition live_entry :: "api_env \<Rightarrow> api_db \<Rightarrow> User option \<Rightarrow> Stream \<Rightarrow> CourseStream" where
  "live_entry e db user s =
     \<lparr>cs_Course = Course_ToDTO (now_of e) user (live_course e db s),
      cs_Stream = Stream_ToDTO (now_of e) s,
      cs_LectureHall = LectureHall_ToDTO
        (if LectureHallID s = 0 then None
         else (case GetLectureHallByID (dbe e) (LectureHallID s) (base db) of Inl _ \<Rightarrow> None | Inr lh \<Rightarrow> Some lh)),
      cs_Viewers = (case sessions_of e (ID s) of None \<Rightarrow> 0 | Some n \<Rightarrow> of_nat n)\<rparr>"

definition getLive :: "api_env \<Rightarrow> TUMLiveContext \<Rightarrow> CourseStream list handler" where
  "getLive e t =
     (let entries = (\<lambda>streams. reading (\<lambda>db. map (live_entry e db (ctx_User t))
                       (filter (\<lambda>s. shown_live (ctx_User t) (live_course e db s) s) streams))
                       (\<lambda>ls. sends [Reply StatusOK ls])) in
      with_result (on_base (GetCurrentLive (dbe e)))
        (\<lambda>err. if err = Dao_Streams.not_found then entries []
               else fails StatusNotFound ''Could not load current livestream from database.'')
        entries)"

definition sortCourses :: "api_env \<Rightarrow> Course list \<Rightarrow> Course list" where
  "sortCourses e = sort_slice e (CompareTo (now_of e))"

text \<open>The year and the term of a list, with the current semester as the default.\<close>

definition with_semester :: "api_env \<Rightarrow> gin \<Rightarrow> (int \<Rightarrow> string \<Rightarrow> 'a handler) \<Rightarrow> 'a handler" where
  "with_semester e g k =
     (let (year, term) = GetCurrentSemester e in
      demand (atoi (query_default g ''year'' (itoa year))) (fails StatusBadRequest ''invalid year'')
        (\<lambda>year. k year (query_default g ''term'' term)))"

definition getPublic :: "api_env \<Rightarrow> TUMLiveContext \<Rightarrow> gin \<Rightarrow> CourseDTO list handler" where
  "getPublic e t g =
     with_semester e g (\<lambda>year term.
       let answer = (\<lambda>cs. sends [Reply StatusOK (map (Course_ToDTO (now_of e) (ctx_User t)) cs)]) in
       with_result (if ctx_User t \<noteq> None then GetPublicAndLoggedInCourses (dbe e) year term
                    else GetPublicCourses (dbe e) year term)
         (\<lambda>err. answer []) (\<lambda>public. answer (unique_courses (sortCourses e public))))"

definition getUsers :: "api_env \<Rightarrow> TUMLiveContext \<Rightarrow> gin \<Rightarrow> CourseDTO list handler" where
  "getUsers e t g =
     with_semester e g (\<lambda>year term.
       let answer = (\<lambda>cs. sends [Reply StatusOK (map (Course_ToDTO (now_of e) (ctx_User t))
                            (filter (\<lambda>c. \<not> IsHidden c) (unique_courses (sortCourses e cs))))]);
           own = (\<lambda>u. CoursesForSemester (order_keys e (dom (cMap u year term))) u year term) in
       case ctx_User t of
         None \<Rightarrow> answer []
       | Some u \<Rightarrow>
           if Role u = AdminType then reading (GetAllCoursesForSemester (dbe e) year term) answer
           else if Role u = LecturerType then
             with_result (GetAdministeredCoursesByUserId (dbe e) (ID u) term year)
               (\<lambda>err. answer (own u)) (\<lambda>cs. answer (own u @ cs))
           else answer (own u))"

text \<open>The error of this handler is a JSON object, the left summand.\<close>

definition getPinned :: "api_env \<Rightarrow> TUMLiveContext \<Rightarrow> gin \<Rightarrow> (string + CourseDTO list) handler" where
  "getPinned e t g =
     (let yearStr = gquery g ''year''; term = gquery g ''term'';
          pinned = unique_courses (case ctx_User t of None \<Rightarrow> [] | Some u \<Rightarrow> PinnedCourses u);
          answer = (\<lambda>P. sends [Reply StatusOK (Inr (map (Course_ToDTO (now_of e) (ctx_User t))
             (filter (\<lambda>c. P c \<and> (ctx_User t = None \<or> IsEligibleToSearchForCourse (ctx_User t) c)) pinned)))])
      in if yearStr \<noteq> [] \<and> term \<noteq> []
         then demand (atoi yearStr) (sends [Reply StatusBadRequest (Inl ''invalid year'')])
                (\<lambda>year. answer (\<lambda>c. course_Year c = year \<and> course_TeachingTerm c = term))
         else answer (\<lambda>c. True))"

subsection \<open>A course\<close>

text \<open>gin's form binding: an absent or empty number is 0.\<close>

definition bind_int :: "string \<Rightarrow> int option" where
  "bind_int s = (if s = [] then Some 0 else atoi s)"

definition bind_uint :: "string \<Rightarrow> uint option" where
  "bind_uint s = (if s = [] then Some 0 else map_option of_nat (parse_uint 64 s))"

fun sign_streams :: "api_env \<Rightarrow> User \<Rightarrow> bool \<Rightarrow> Stream list \<Rightarrow> StreamDTO list option" where
  "sign_streams e user downloads [] = Some []"
| "sign_streams e user downloads (s # ss) =
     (case SetSignedPlaylists (signs e) (now_of e) s (Some user) downloads of
        (Some err, _) \<Rightarrow> None
      | (None, s') \<Rightarrow> map_option (Cons (Stream_ToDTO (now_of e) s')) (sign_streams e user downloads ss))"

definition visible_streams :: "User option \<Rightarrow> Course \<Rightarrow> Stream list" where
  "visible_streams user course =
     filter (\<lambda>s. \<not> Private s \<or> user \<noteq> None \<and> IsAdminOfCourse user course) (Streams course)"

definition course_page :: "api_env \<Rightarrow> User option \<Rightarrow> uint \<Rightarrow> Course \<Rightarrow> CourseDTO handler" where
  "course_page e user userID course =
     (if IsLoggedIn course \<and> user = None \<or> IsEnrolled course \<and> \<not> IsEligibleToWatchCourse user course
      then sends [AbortStatus StatusUnauthorized]
      else demand (sign_streams e (zero_User\<lparr>ID := userID\<rparr>) (DownloadsEnabled course) (visible_streams user course))
        (fails StatusInternalServerError ''can't sign stream'')
        (\<lambda>dtos. sends [Reply StatusOK ((Course_ToDTO (now_of e) user course)
           \<lparr>cdto_Streams := dtos, IsAdmin := course_UserID course = userID \<or> userID \<in> set (Admins course)\<rparr>)]))"

definition getCourseBySlug :: "api_env \<Rightarrow> TUMLiveContext \<Rightarrow> gin \<Rightarrow> CourseDTO handler" where
  "getCourseBySlug e t g =
     (if gparam g ''slug'' = [] then fails StatusBadRequest ''invalid URI''
      else demand (bind_int (gquery g ''year'')) (fails StatusBadRequest ''invalid query'') (\<lambda>year.
       demand (bind_uint (gquery g ''userId'')) (fails StatusBadRequest ''invalid query'') (\<lambda>userID.
        let (year, term) = (if year = 0 \<or> gquery g ''term'' = [] then GetCurrentSemester e else (year, gquery g ''term''))
        in with_result (GetCourseBySlugYearAndTerm (dbe e) (gparam g ''slug'') term year)
             (\<lambda>err. if err = Dao_Streams.not_found then fails StatusNotFound ''can't find course''
                    else fails StatusInternalServerError ''can't retrieve course'')
             (course_page e (ctx_User t) userID))))"

subsection \<open>Videos on demand\<close>

text \<open>A body or query that does not bind: gin aborts with the status, the handler adds its error.\<close>

definition bad_request :: "string \<Rightarrow> ('s, 'a) serves" where
  "bad_request message = sends [AbortStatus StatusBadRequest, RequestError StatusBadRequest message]"

definition CreateStream_result :: "api_env \<Rightarrow> Stream \<Rightarrow> api_db \<Rightarrow> (string + Stream) \<times> api_db" where
  "CreateStream_result e s db =
     (case CreateStream (dbe e) s db of ((Some err, _), db) \<Rightarrow> (Inl err, db) | ((None, s), db) \<Rightarrow> (Inr s, db))"

definition createVOD :: "api_env \<Rightarrow> TUMLiveContext \<Rightarrow> (gotime \<times> string) option \<Rightarrow> uint handler" where
  "createVOD e t req =
     demand req (bad_request ''can not bind query'') (\<lambda>(start, title).
       deref (ctx_Course t) (\<lambda>course.
         with_result (CreateStream_result e (zero_Stream\<lparr>stream_Name := title, Start := start, End := start + Hour,
                                                         CourseID := ID course\<rparr>))
           (\<lambda>err. fails StatusInternalServerError ''can not save stream'')
           (\<lambda>s. sends [Reply StatusOK (ID s)])))"

text \<open>\<open>encoded\<close> is the encoded query of the request, which is passed on to the worker with the key.\<close>

definition WorkerHTTPPort :: string where "WorkerHTTPPort = ''8060''"

definition uploadVODMedia :: "api_env \<Rightarrow> (string \<times> VideoType) option \<Rightarrow> string \<Rightarrow> unit handler" where
  "uploadVODMedia e req encoded =
     demand req (bad_request ''can not bind query'') (\<lambda>(streamID, videoType).
       if \<not> VideoType_Valid videoType then fails StatusBadRequest ''invalid video type''
       else with_result (StreamById (dbe e) (key_of e streamID))
         (\<lambda>err. fails StatusNotFound ''can not find stream'')
         (\<lambda>stream. with_done (CreateUploadKey (dbe e) (uuid e 0) (ID stream) videoType)
           (\<lambda>err. fails StatusInternalServerError ''can not create upload key'')
           (reading (\<lambda>db. GetAliveWorkers (dbe e) (base db)) (\<lambda>workers.
              if workers = [] then fails StatusInternalServerError ''no workers available''
              else (let w = workers ! getWorkerWithLeastWorkload workers;
                        u = ''http://'' @ Host w @ '':'' @ WorkerHTTPPort @ ''/upload?'' @ encoded @ ''&key='' @ uuid e 0
                    in case url_error e u of
                         None \<Rightarrow> sends [Proxy u]
                       | Some err \<Rightarrow> fails StatusInternalServerError (''parse proxy url: '' @ err))))))"

subsection \<open>Source settings\<close>

record lhResp =
  lhr_LectureHallName :: string
  lhr_LectureHallID :: uint
  lhr_Presets :: "CameraPreset list"
  lhr_SourceMode :: SourceMode
  lhr_SelectedPresetID :: int

definition AuditCourseCreate :: uint where "AuditCourseCreate = 4"
definition AuditCourseEdit :: uint where "AuditCourseEdit = 5"
definition AuditCourseDelete :: uint where "AuditCourseDelete = 6"
definition AuditStreamCreate :: uint where "AuditStreamCreate = 7"
definition AuditStreamEdit :: uint where "AuditStreamEdit = 8"
definition AuditStreamDelete :: uint where "AuditStreamDelete = 9"

definition audits :: "api_env \<Rightarrow> TUMLiveContext \<Rightarrow> string \<Rightarrow> uint \<Rightarrow> 'a handler \<Rightarrow> 'a handler" where
  "audits e t message ty = logged (AuditDao_Create (dbe e) (ctx_User t) message ty)"

definition with_settings :: "lhResp list \<Rightarrow> Course \<Rightarrow> Course" where
  "with_settings req course =
     SetSourcePreference (map (\<lambda>h. \<lparr>sp_LectureHallID = lhr_LectureHallID h, sp_SourceMode = lhr_SourceMode h\<rparr>) req)
       (SetCameraPresetPreference
         (map (\<lambda>h. \<lparr>cpp_LectureHallID = lhr_LectureHallID h, cpp_PresetID = lhr_SelectedPresetID h\<rparr>)
           (filter (\<lambda>h. lhr_Presets h \<noteq> [] \<and> lhr_SelectedPresetID h \<noteq> 0) req)) course)"

definition updateSourceSettings :: "api_env \<Rightarrow> TUMLiveContext \<Rightarrow> lhResp list option \<Rightarrow> unit handler" where
  "updateSourceSettings e t req =
     demand (ctx_Course t) (fails StatusNotFound ''course not found'') (\<lambda>course.
       demand req (bad_request ''invalid body'') (\<lambda>req.
         audits e t (course_Name course @ '':'' @ [CHR 0x27] @ Slug course @ [CHR 0x27]) AuditCourseEdit
           (with_done (apfst fst \<circ> UpdateCourse (dbe e) (with_settings req course))
             (\<lambda>err. fails StatusInternalServerError ''failed to update course'')
             (sends []))))"

text \<open>The settings changed here are those of a copy: only the deletion is undone in the database.\<close>

definition activateCourseByToken :: "api_env \<Rightarrow> TUMLiveContext \<Rightarrow> gin \<Rightarrow> unit handler" where
  "activateCourseByToken e t g =
     (let token = gparam g ''token'' in
      if token = [] then fails StatusBadRequest ''token is missing''
      else with_row (GetCourseByToken (dbe e) token)
        (\<lambda>err. fails StatusBadRequest ''course not found. is the token correct?'')
        (\<lambda>course.
          with_done (UnDeleteCourse (dbe e) (course\<lparr>DeletedAt := None, VODEnabled := True, Visibility := ''loggedin''\<rparr>))
            (\<lambda>err. fails StatusInternalServerError ''can not update course settings'')
            (audits e t (''opted in by token, '' @ course_Name course @ '':'' @ [CHR 0x27] @ Slug course @ [CHR 0x27])
              AuditCourseCreate (sends []))))"

subsection \<open>Administrators\<close>

record userForLecturerDto =
  ufl_ID :: uint
  ufl_Name :: string
  ufl_LastName :: "string option"
  ufl_Login :: string

definition lecturer_dto :: "User \<Rightarrow> userForLecturerDto" where
  "lecturer_dto u = \<lparr>ufl_ID = ID u, ufl_Name = user_Name u, ufl_LastName = None, ufl_Login = GetLoginString (Some u)\<rparr>"

definition admin_audit :: "string \<Rightarrow> Course \<Rightarrow> User \<Rightarrow> string" where
  "admin_audit verb course user =
     course_Name course @ '':'' @ [CHR 0x27] @ Slug course @ [CHR 0x27] @ '' '' @ verb @ '': '' @
     GetPreferredName user @ '' ('' @ uint_str (ID user) @ '')''"

definition removeAdminFromCourse :: "api_env \<Rightarrow> TUMLiveContext \<Rightarrow> gin \<Rightarrow> userForLecturerDto handler" where
  "removeAdminFromCourse e t g =
     demand (parse_uint 32 (gparam g ''userID'')) (fails StatusBadRequest ''invalid userID'') (\<lambda>userID.
       deref (ctx_Course t) (\<lambda>course.
         with_row (GetCourseAdmins (dbe e) (ID course))
           (\<lambda>err. fails StatusInternalServerError ''could not get course admins'')
           (\<lambda>admins.
             if length admins = 1 then fails StatusBadRequest ''can not delete last admin''
             else demand (List.find (\<lambda>u. ID u = of_nat userID) admins) (fails StatusNotFound ''can not find user'')
              (\<lambda>user. audits e t (admin_audit ''remove'' course user) AuditCourseEdit
                (with_done (RemoveAdminFromCourse (dbe e) (ID user) (ID course))
                  (\<lambda>err. fails StatusInternalServerError ''could not remove admin from course'')
                  (sends [Reply StatusOK (lecturer_dto user)]))))))"

definition addAdminToCourse :: "api_env \<Rightarrow> TUMLiveContext \<Rightarrow> gin \<Rightarrow> userForLecturerDto handler" where
  "addAdminToCourse e t g =
     demand (parse_uint 32 (gparam g ''userID'')) (fails StatusBadRequest ''invalid userID'') (\<lambda>userID.
       with_result (GetUserByID (dbe e) (of_nat userID))
         (\<lambda>err. fails StatusNotFound ''can not find user'')
         (\<lambda>user. deref (ctx_Course t) (\<lambda>course.
           audits e t (admin_audit ''add'' course user) AuditCourseEdit
             (with_done (AddAdminToCourse (dbe e) (ID user) (ID course))
               (\<lambda>err. fails StatusInternalServerError ''could not add admin to course'')
               (if Role user = GenericType \<or> Role user = StudentType
                then with_done (UpdateUser (dbe e) (user\<lparr>Role := LecturerType\<rparr>))
                  (\<lambda>err. fails StatusInternalServerError ''could not update user'')
                  (sends [Reply StatusOK (lecturer_dto user)])
                else sends [Reply StatusOK (lecturer_dto user)])))))"

definition getAdmins :: "api_env \<Rightarrow> TUMLiveContext \<Rightarrow> userForLecturerDto list handler" where
  "getAdmins e t =
     deref (ctx_Course t) (\<lambda>course.
       with_row (GetCourseAdmins (dbe e) (ID course))
         (\<lambda>err. sends [AbortStatus StatusInternalServerError])
         (\<lambda>admins. sends [Reply StatusOK (map lecturer_dto admins)]))"

subsection \<open>Lecture halls\<close>

definition hall_entry :: "api_env \<Rightarrow> api_db \<Rightarrow> Course \<Rightarrow> uint \<Rightarrow> lhResp list" where
  "hall_entry e db course u =
     (case GetLectureHallByID (dbe e) u (base db) of
        Inl _ \<Rightarrow> []
      | Inr lh \<Rightarrow> [\<lparr>lhr_LectureHallName = lh_Name lh, lhr_LectureHallID = ID lh, lhr_Presets = CameraPresets lh,
                     lhr_SourceMode = GetSourceModeForLectureHall course (ID lh),
                     lhr_SelectedPresetID =
                       (if CameraPresets lh = [] then 0
                        else case List.find (\<lambda>p. ID lh = cpp_LectureHallID p) (GetCameraPresetPreference course) of
                               None \<Rightarrow> 0 | Some p \<Rightarrow> cpp_PresetID p)\<rparr>])"

definition lectureHalls :: "api_env \<Rightarrow> Course \<Rightarrow> lhResp list handler" where
  "lectureHalls e course =
     (let lectureHallIDs = order_keys e {LectureHallID s | s. s \<in> set (Streams course) \<and> LectureHallID s \<noteq> 0} in
      reading (\<lambda>db. concat (map (hall_entry e db course) lectureHallIDs)) (\<lambda>data. sends [Reply StatusOK data]))"

text \<open>\<open>form_id\<close> is the form value, None if the form does not parse.\<close>

definition lectureHallsByID :: "api_env \<Rightarrow> TUMLiveContext option \<Rightarrow> string option \<Rightarrow> lhResp list handler" where
  "lectureHallsByID e found form_id =
     demand found (fails StatusInternalServerError ''context should exist but doesn't'') (\<lambda>t.
       demand form_id (fails StatusBadRequest ''can not parse request form'') (\<lambda>token.
         demand (atoi token) (fails StatusBadRequest ''invalid id'') (\<lambda>i.
           with_row (CourseById (dbe e) (to_uint i))
             (\<lambda>err. fails StatusNotFound ''can not find course'')
             (\<lambda>course. if \<not> IsAdminOfCourse (ctx_User t) course then fails StatusForbidden ''not a admin''
                       else lectureHalls e course))))"

end
