(* ===== verification/Course_Edit.thy ===== *)
theory Course_Edit
  imports Course_Api
begin

text \<open>
  \<^verbatim>\<open>src/api/courses.go\<close>, second half: the lectures of a course, units, cuts, names and series, the creation,
  copying and deletion of courses, with what they use of \<^verbatim>\<open>src/model/stream.go\<close> (\<open>GetJson\<close>),
  \<^verbatim>\<open>src/tools/json-generator.go\<close> and \<^verbatim>\<open>src/dao/streams.go\<close> (the test course).
\<close>

subsection \<open>Cuts, units, descriptions, names\<close>

text \<open>A stream given by a number in the body: it is written in decimal and read by the database.\<close>

definition submitCut :: "api_env \<Rightarrow> (uint \<times> uint \<times> uint) option \<Rightarrow> unit handler" where
  "submitCut e req =
     demand req (bad_request ''invalid body'') (\<lambda>(lectureID, begins, ends).
       with_result (StreamById (dbe e) lectureID)
         (\<lambda>err. fails StatusNotFound ''stream not found'')
         (\<lambda>stream. with_done (on_base (SaveStream (dbe e) (stream\<lparr>StartOffset := begins, EndOffset := ends\<rparr>)))
           (\<lambda>err. fails StatusInternalServerError ''can not save stream'')
           (sends [])))"

definition deleteUnit :: "api_env \<Rightarrow> gin \<Rightarrow> unit handler" where
  "deleteUnit e g =
     with_row (GetUnitByID (dbe e) (key_of e (gparam g ''unitID'')))
       (\<lambda>err. fails StatusNotFound ''can not find unit'')
       (\<lambda>unit. logged (\<lambda>db. (None, DeleteUnit (dbe e) (ID unit) db)) (sends []))"

record addUnitRequest =
  au_LectureID :: uint
  au_From :: uint
  au_To :: uint
  au_Title :: string
  au_Description :: string

definition new_unit :: "addUnitRequest \<Rightarrow> uint \<Rightarrow> StreamUnit" where
  "new_unit req i =
     \<lparr>ID = 0, CreatedAt = zero_time, UpdatedAt = zero_time, DeletedAt = None, UnitName = au_Title req,
      UnitDescription = au_Description req, UnitStart = au_From req, UnitEnd = au_To req, unit_StreamID = i\<rparr>"

definition addUnit :: "api_env \<Rightarrow> addUnitRequest option \<Rightarrow> unit handler" where
  "addUnit e req =
     demand req (bad_request ''invalid body'') (\<lambda>req.
       with_result (StreamById (dbe e) (au_LectureID req))
         (\<lambda>err. fails StatusNotFound ''stream not found'')
         (\<lambda>stream. with_done (UpdateStreamFullAssoc (dbe e) (stream\<lparr>Units := Units stream @ [new_unit req (ID stream)]\<rparr>))
           (\<lambda>err. fails StatusInternalServerError ''can not update stream full assoc'')
           (sends [])))"

text \<open>
  The viewers of the stream whose number the path has are told; the stream itself is the one the database
  finds for the path. The body is the new name.
\<close>

definition edit_stream ::
    "api_env \<Rightarrow> gin \<Rightarrow> string option \<Rightarrow> (string \<Rightarrow> Stream \<Rightarrow> Stream) \<Rightarrow> string \<Rightarrow> (string \<Rightarrow> Stream \<Rightarrow> json) \<Rightarrow> unit handler" where
  "edit_stream e g req change failure message =
     demand (atoi (gparam g ''streamID'')) (fails StatusBadRequest ''invalid streamID'') (\<lambda>sIDInt.
       demand req (bad_request ''invalid body'') (\<lambda>name.
         with_result (StreamById (dbe e) (key_of e (gparam g ''streamID'')))
           (\<lambda>err. fails StatusNotFound ''can not find stream'')
           (\<lambda>stream. with_done (UpdateStream (dbe e) (change name stream))
             (\<lambda>err. fails StatusInternalServerError failure)
             (sends [Broadcast (to_uint sIDInt) (message name (change name stream))]))))"

definition updateDescription :: "api_env \<Rightarrow> gin \<Rightarrow> string option \<Rightarrow> unit handler" where
  "updateDescription e g req =
     edit_stream e g req (\<lambda>name s. s\<lparr>Description := name\<rparr>) ''couldn't update lecture Description''
       (\<lambda>name s. JObj [(''description'', JObj [(''full'', JStr (markdown e (Description s)))])])"

definition renameLecture :: "api_env \<Rightarrow> gin \<Rightarrow> string option \<Rightarrow> unit handler" where
  "renameLecture e g req =
     edit_stream e g req (\<lambda>name s. s\<lparr>stream_Name := name\<rparr>) ''couldn't update lecture name''
       (\<lambda>name s. JObj [(''title'', JStr name)])"

subsection \<open>Lectures\<close>

record stream_json =
  gj_lectureId :: uint
  gj_courseId :: uint
  gj_seriesIdentifier :: string
  gj_name :: string
  gj_description :: string
  gj_lectureHallId :: uint
  gj_lectureHallName :: string
  gj_streamKey :: string
  gj_isLiveNow :: bool
  gj_isRecording :: bool
  gj_isConverting :: bool
  gj_transcodingProgresses :: "TranscodingProgress list"
  gj_isPast :: bool
  gj_hasStats :: bool
  gj_files :: "(uint \<times> FileType \<times> string) list"
  gj_color :: string
  gj_start :: gotime
  gj_end :: gotime
  gj_isChatEnabled :: bool
  gj_isCustomThumbnailEnabled :: bool
  gj_courseSlug :: string
  gj_private :: bool
  gj_downloadableVods :: "DownloadableVod list"
  gj_isCopying :: bool
  gj_videoSections :: "(uint \<times> string \<times> uint \<times> uint \<times> uint \<times> uint) list"

definition lecture_hall_name :: "LectureHall list \<Rightarrow> uint \<Rightarrow> string" where
  "lecture_hall_name lhs i = (case List.find (\<lambda>lh. ID lh = i) lhs of None \<Rightarrow> ''Selfstreaming'' | Some lh \<Rightarrow> lh_Name lh)"

definition GetJson :: "gotime \<Rightarrow> LectureHall list \<Rightarrow> Course \<Rightarrow> Stream \<Rightarrow> stream_json" where
  "GetJson now lhs course s =
     \<lparr>gj_lectureId = ID s, gj_courseId = CourseID s, gj_seriesIdentifier = SeriesIdentifier s, gj_name = stream_Name s,
      gj_description = Description s, gj_lectureHallId = LectureHallID s,
      gj_lectureHallName = lecture_hall_name lhs (LectureHallID s), gj_streamKey = StreamKey s,
      gj_isLiveNow = LiveNow s, gj_isRecording = Recording s, gj_isConverting = IsConverting s,
      gj_transcodingProgresses = TranscodingProgresses s, gj_isPast = IsPast now s, gj_hasStats = (Stats s \<noteq> []),
      gj_files = map (\<lambda>f. (ID f, file_Type f, GetFriendlyFileName f)) (Files s), gj_color = Color now s,
      gj_start = Start s, gj_end = End s, gj_isChatEnabled = stream_ChatEnabled s,
      gj_isCustomThumbnailEnabled = CustomThumbnailEnabled s, gj_courseSlug = Slug course, gj_private = Private s,
      gj_downloadableVods = GetVodFiles s, gj_isCopying = False,
      gj_videoSections = map (\<lambda>v. (ID v, section_Description v, StartHours v, StartMinutes v, StartSeconds v,
                                    section_FileID v)) (VideoSections s)\<rparr>"

text \<open>A playlist that cannot be signed is logged and sent as far as it was signed.\<close>

definition AdminCourseJson :: "api_env \<Rightarrow> Course \<Rightarrow> LectureHall list \<Rightarrow> User option \<Rightarrow> stream_json list" where
  "AdminCourseJson e c lhs u =
     map (\<lambda>s. GetJson (now_of e) lhs c (snd (SetSignedPlaylists (signs e) (now_of e) s u True))) (Streams c)"

definition GetAllLectureHalls :: "db_env \<Rightarrow> tables \<Rightarrow> LectureHall list" where
  "GetAllLectureHalls e t = (if fault e ''GetAllLectureHalls'' = None then filter live_row (t_halls t) else [])"

definition fetchLectures :: "api_env \<Rightarrow> TUMLiveContext \<Rightarrow> stream_json list handler" where
  "fetchLectures e t =
     reading (\<lambda>db. GetAllLectureHalls (dbe e) (base db)) (\<lambda>lhs.
       deref (ctx_Course t) (\<lambda>course. sends [Reply StatusOK (AdminCourseJson e course lhs (ctx_User t))]))"

definition updateLectureSeries :: "api_env \<Rightarrow> gin \<Rightarrow> unit handler" where
  "updateLectureSeries e g =
     with_result (StreamById (dbe e) (key_of e (gparam g ''streamID'')))
       (\<lambda>err. fails StatusNotFound ''can not find stream'')
       (\<lambda>stream. with_done (UpdateLectureSeries (dbe e) stream)
         (\<lambda>err. fails StatusInternalServerError ''couldn't update lecture series'')
         (sends []))"

definition in_quotes :: "string \<Rightarrow> string" where
  "in_quotes s = [CHR 0x27] @ s @ [CHR 0x27]"

definition deleteLectureSeries :: "api_env \<Rightarrow> TUMLiveContext \<Rightarrow> gin \<Rightarrow> string handler" where
  "deleteLectureSeries e t g =
     with_result (StreamById (dbe e) (key_of e (gparam g ''streamID'')))
       (\<lambda>err. fails StatusNotFound ''can not find stream'')
       (\<lambda>stream.
         if SeriesIdentifier stream = [] then fails StatusBadRequest ''the stream is not in a lecture series''
         else deref (ctx_Course t) (\<lambda>course.
           audits e t (in_quotes (course_Name course) @ '': '' @ time_format e ''2006 02 Jan, 15:04'' (Start stream) @
                       '' ('' @ uint_str (ID stream) @ '' and series)'') AuditStreamDelete
             (with_done (DeleteLectureSeries (dbe e) (SeriesIdentifier stream))
               (\<lambda>err. sends [Reply StatusInternalServerError ''couldn't delete lecture series''])
               (sends []))))"

text \<open>The first loop of \<^verbatim>\<open>deleteLectures\<close>: every stream has to be one of the course.\<close>

fun own_streams :: "api_env \<Rightarrow> Course \<Rightarrow> string list \<Rightarrow> api_db \<Rightarrow> (string + Stream list) \<times> api_db" where
  "own_streams e course [] db = (Inr [], db)"
| "own_streams e course (i # is) db =
     (case StreamById (dbe e) (key_of e i) db of
        (Inl err, db) \<Rightarrow> (Inl err, db)
      | (Inr stream, db) \<Rightarrow>
          if CourseID stream \<noteq> ID course then (Inl [], db)
          else apfst (map_sum id (Cons stream)) (own_streams e course is db))"

fun delete_each :: "api_env \<Rightarrow> TUMLiveContext \<Rightarrow> Course \<Rightarrow> Stream list \<Rightarrow> api_db \<Rightarrow> api_db" where
  "delete_each e t course [] db = db"
| "delete_each e t course (s # ss) db =
     delete_each e t course ss (DeleteStream (dbe e) (ID s)
       (snd (AuditDao_Create (dbe e) (ctx_User t)
          (in_quotes (course_Name course) @ '': '' @ time_format e ''2006 02 Jan, 15:04'' (Start s) @
           '' ('' @ uint_str (ID s) @ '')'') AuditStreamDelete db)))"

definition deleteLectures :: "api_env \<Rightarrow> TUMLiveContext \<Rightarrow> string list option \<Rightarrow> unit handler" where
  "deleteLectures e t req =
     demand req (bad_request ''invalid body'') (\<lambda>streamIDs.
       if streamIDs = [] then sends []
       else deref (ctx_Course t) (\<lambda>course.
         with_result (own_streams e course streamIDs)
           (\<lambda>err. fails StatusForbidden ''not allowed to delete stream'')
           (\<lambda>streams. logged (\<lambda>db. (None, delete_each e t course streams db)) (sends []))))"

record createLectureRequest =
  cl_Title :: string
  cl_LectureHallId :: string
  cl_Start :: gotime
  cl_Duration :: int
  cl_ChatEnabled :: bool
  cl_Premiere :: bool
  cl_Vodup :: bool
  cl_AdHoc :: bool
  cl_DateSeries :: "gotime list"

definition premiere_folder :: "api_env \<Rightarrow> Course \<Rightarrow> string" where
  "premiere_folder e course =
     mass_path e @ ''/'' @ itoa (course_Year course) @ ''/'' @ course_TeachingTerm course @ ''/'' @ Slug course"

definition premiere_file :: "api_env \<Rightarrow> Course \<Rightarrow> createLectureRequest \<Rightarrow> string" where
  "premiere_file e course req = Slug course @ ''_'' @ time_format e ''2006-01-02_15-04'' (cl_Start req) @ ''.mp4''"

text \<open>A duration is 64 bits wide, in nanoseconds.\<close>

definition minutes :: "int \<Rightarrow> duration" where
  "minutes n = sint (word_of_int (Minute * n) :: 64 word)"

definition premiere_upload :: "api_env \<Rightarrow> Course \<Rightarrow> createLectureRequest \<Rightarrow> File" where
  "premiere_upload e course req =
     \<lparr>ID = 0, CreatedAt = zero_time, UpdatedAt = zero_time, DeletedAt = None, file_StreamID = 0,
      Path = premiere_folder e course @ ''/'' @ premiere_file e course req, Filename = [], file_Type = 0, CourseName = []\<rparr>"

text \<open>The lecture for a date; \<open>i\<close> counts the keys drawn.\<close>

definition new_lecture ::
    "api_env \<Rightarrow> Course \<Rightarrow> createLectureRequest \<Rightarrow> uint \<Rightarrow> string \<Rightarrow> bool \<Rightarrow> nat \<Rightarrow> gotime \<Rightarrow> Stream" where
  "new_lecture e course req hall playlist series i date =
     zero_Stream\<lparr>
       stream_Name := cl_Title req, CourseID := ID course, LectureHallID := hall,
       Start := (if cl_AdHoc req then now_of e + 2 * Minute else date), End := date + minutes (cl_Duration req),
       stream_ChatEnabled := cl_ChatEnabled req, StreamKey := filter (\<lambda>c. c \<noteq> CHR ''-'') (uuid e i),
       PlaylistUrl := playlist, LiveNow := False, Recording := cl_Vodup req, Premiere := cl_Premiere req,
       SeriesIdentifier := (if series then uuid e 0 else []),
       Files := (if cl_Premiere req \<or> cl_Vodup req then [premiere_upload e course req] else [])\<rparr>"

fun audit_lectures :: "api_env \<Rightarrow> TUMLiveContext \<Rightarrow> Course \<Rightarrow> Stream list \<Rightarrow> api_db \<Rightarrow> api_db" where
  "audit_lectures e t course [] db = db"
| "audit_lectures e t course (s # ss) db =
     audit_lectures e t course ss (snd (AuditDao_Create (dbe e) (ctx_User t)
       (''Stream for '' @ in_quotes (course_Name course) @ '' Created. Time: '' @
        time_format e ''2006 02 Jan, 15:04'' (Start s)) AuditStreamCreate db))"

definition UpdateCourse_result :: "api_env \<Rightarrow> Course \<Rightarrow> api_db \<Rightarrow> (string + Stream list) \<times> api_db" where
  "UpdateCourse_result e c db =
     (case UpdateCourse (dbe e) c db of ((Some err, _), db) \<Rightarrow> (Inl err, db) | ((None, ss), db) \<Rightarrow> (Inr ss, db))"

definition new_lectures :: "api_env \<Rightarrow> Course \<Rightarrow> createLectureRequest \<Rightarrow> uint \<Rightarrow> Stream list" where
  "new_lectures e course req hall =
     (let dates = cl_DateSeries req @ [cl_Start req];
          playlist = (if cl_Vodup req
                      then vod_url e (map (\<lambda>c. if c = CHR ''-'' then CHR ''_'' else c) (premiere_file e course req)) else [])
      in map (\<lambda>i. new_lecture e course req hall playlist (length dates > 1) (i + 1) (dates ! i)) [0..<length dates])"

definition createLecture :: "api_env \<Rightarrow> TUMLiveContext \<Rightarrow> createLectureRequest option \<Rightarrow> uint list handler" where
  "createLecture e t req =
     demand req (fails StatusBadRequest ''invalid form'') (\<lambda>req.
       if (cl_Premiere req \<or> cl_Vodup req) \<and> cl_LectureHallId req \<noteq> ''0''
       then fails StatusBadRequest ''cannot set lectureHallId on 'Premiere' or 'Vodup' Lecture.''
       else demand (parse_int 32 (cl_LectureHallId req)) (fails StatusBadRequest ''invalid LectureHallId format'') (\<lambda>hall.
         deref (ctx_Course t) (\<lambda>course.
           if (cl_Premiere req \<or> cl_Vodup req) \<and> os_fault e (''mkdir '' @ premiere_folder e course)
           then fails StatusInternalServerError ''can not create folder for premiere''
           else if cl_Vodup req \<and> os_fault e (''upload '' @ premiere_folder e course @ ''/'' @ premiere_file e course req)
           then fails StatusInternalServerError ''can not upload file for premiere''
           else (let lectures = new_lectures e course req (word_of_int hall);
                     old = map ID (Streams course)
                 in logged (\<lambda>db. (None, audit_lectures e t course lectures db))
                  (with_result (UpdateCourse_result e (course\<lparr>Streams := Streams course @ lectures\<rparr>))
                    (\<lambda>err. fails StatusInternalServerError ''can not update course'')
                    (\<lambda>streams. sends
                      ((if cl_AdHoc req then [Spawn ''NotifyWorkers''] else []) @
                       [Reply StatusOK (filter (\<lambda>i. i \<notin> set old) (map ID streams))])))))))"

subsection \<open>Creating and deleting courses\<close>

record createCourseRequest =
  cc_Access :: string
  cc_CourseID :: string
  cc_EnChat :: bool
  cc_EnDL :: bool
  cc_EnVOD :: bool
  cc_Name :: string
  cc_Slug :: string
  cc_TeachingTerm :: string
  cc_Lang :: string

text \<open>\<^verbatim>\<open>(enrolled|public|loggedin|hidden)\<close>, which is not anchored.\<close>

definition access_regex :: "string \<Rightarrow> bool" where
  "access_regex s = list_ex (contains s) [''enrolled'', ''public'', ''loggedin'', ''hidden'']"

text \<open>\<^verbatim>\<open>(Sommersemester [0-9]{4}|Wintersemester [0-9]{4}/[0-9]{2})$\<close>, anchored at the end only.\<close>

definition term_tail :: "string \<Rightarrow> bool" where
  "term_tail s \<longleftrightarrow>
     has_prefix s ''Sommersemester '' \<and> length s = 19 \<and> list_all is_digit (drop 15 s) \<or>
     has_prefix s ''Wintersemester '' \<and> length s = 22 \<and> list_all is_digit (take 4 (drop 15 s)) \<and>
     s ! 19 = CHR ''/'' \<and> list_all is_digit (drop 20 s)"

definition term_regex :: "string \<Rightarrow> bool" where
  "term_regex s = list_ex (\<lambda>k. term_tail (drop k s)) [0..<Suc (length s)]"

text \<open>The leftmost match of \<^verbatim>\<open>[0-9]{4}\<close>.\<close>

fun first_year :: "string \<Rightarrow> string option" where
  "first_year [] = None"
| "first_year (x # xs) =
     (if length xs \<ge> 3 \<and> list_all is_digit (take 4 (x # xs)) then Some (take 4 (x # xs)) else first_year xs)"

definition CreateCourse_result :: "api_env \<Rightarrow> Course \<Rightarrow> api_db \<Rightarrow> (string + Course) \<times> api_db" where
  "CreateCourse_result e c db =
     (case CreateCourse (dbe e) c True db of ((Some err, _), db) \<Rightarrow> (Inl err, db) | ((None, c), db) \<Rightarrow> (Inr c, db))"

definition requested_course :: "createCourseRequest \<Rightarrow> User \<Rightarrow> int \<Rightarrow> string \<Rightarrow> Course" where
  "requested_course req u year semester =
     zero_Course\<lparr>course_UserID := ID u, course_Name := cc_Name req, Slug := cc_Slug req, course_Year := year,
       course_TeachingTerm := semester, TUMOnlineIdentifier := cc_CourseID req, VODEnabled := cc_EnVOD req,
       DownloadsEnabled := cc_EnDL req, course_ChatEnabled := cc_EnChat req, Visibility := cc_Access req,
       Streams := [], Language := (if cc_Lang req = [] then None else Some (cc_Lang req)),
       Admins := (if Role u \<noteq> AdminType then [ID u] else [])\<rparr>"

definition create_audit :: "Course \<Rightarrow> string" where
  "create_audit c =
     Slug c @ '':'' @ in_quotes (course_Name c) @ '' ('' @ itoa (course_Year c) @ '', '' @ course_TeachingTerm c @ '')''"

text \<open>The second half of \<^verbatim>\<open>createCourse\<close>, once the request is checked.\<close>

definition store_course :: "api_env \<Rightarrow> TUMLiveContext \<Rightarrow> Course \<Rightarrow> uint handler" where
  "store_course e t course =
     audits e t (create_audit course) AuditCourseCreate
       (with_result (CreateCourse_result e course)
         (\<lambda>err. fails StatusInternalServerError ''Couldn't save course. Please reach out to us.'')
         (\<lambda>_. with_result
            (GetCourseBySlugYearAndTerm (dbe e) (Slug course) (course_TeachingTerm course) (course_Year course))
            (\<lambda>err. fails StatusInternalServerError ''Could not get course for slug and term. Please reach out to us.'')
            (\<lambda>c. sends [Spawn ''GetEventsForCourses'', Spawn ''FindStudentsForCourses'', Spawn ''FetchCourses'',
                        Reply StatusCreated (ID c)])))"

definition createCourse :: "api_env \<Rightarrow> TUMLiveContext \<Rightarrow> createCourseRequest option \<Rightarrow> uint handler" where
  "createCourse e t req =
     demand req (bad_request ''invalid body'') (\<lambda>req.
       if \<not> access_regex (cc_Access req) then fails StatusBadRequest ''invalid access''
       else if \<not> term_regex (cc_TeachingTerm req) then fails StatusBadRequest ''invalid semester format''
       else (let year = atoi_or_0 (case first_year (cc_TeachingTerm req) of None \<Rightarrow> [] | Some y \<Rightarrow> y);
                 semester = (if contains (cc_TeachingTerm req) ''Wintersemester'' then ''W'' else ''S'')
             in with_result (GetCourseBySlugYearAndTerm (dbe e) (cc_Slug req) semester year)
              (\<lambda>err. if cc_Lang req \<notin> {''de'', ''en'', []}
                      then fails StatusBadRequest ''Invalid Teaching Language. Allowed: en, de or none.''
                      else deref (ctx_User t) (\<lambda>u. store_course e t (requested_course req u year semester)))
              (\<lambda>_. fails StatusConflict ''course with slug already exists'')))"

text \<open>
  \<^verbatim>\<open>CreateOrGetTestCourse\<close>: the first row that agrees with the non-zero fields of the wanted course, or the
  wanted course with gorm's defaults.
\<close>

definition test_course :: "api_env \<Rightarrow> User \<Rightarrow> Course" where
  "test_course e u =
     zero_Course\<lparr>course_UserID := ID u,
       course_Name := user_Name u @ (case LastName u of None \<Rightarrow> [] | Some n \<Rightarrow> '' '' @ n) @ [CHR 0x27] @ ''s Test Course'',
       course_TeachingTerm := ''W'', Slug := ''TEST-'' @ sha256_hex e (uint_str (ID u)), course_Year := 1234,
       Visibility := ''hidden'', VODEnabled := False, LivePrivate := True, VodPrivate := True\<rparr>"

definition same_test_course :: "Course \<Rightarrow> Course \<Rightarrow> bool" where
  "same_test_course w c \<longleftrightarrow>
     live_row c \<and> (course_UserID w = 0 \<or> course_UserID c = course_UserID w) \<and> course_Name c = course_Name w \<and>
     course_TeachingTerm c = course_TeachingTerm w \<and> Slug c = Slug w \<and> course_Year c = course_Year w \<and>
     Visibility c = Visibility w \<and> LivePrivate c \<and> VodPrivate c"

definition CreateOrGetTestCourse :: "api_env \<Rightarrow> User \<Rightarrow> api_db \<Rightarrow> (string + Course) \<times> api_db" where
  "CreateOrGetTestCourse e u db =
     (let w = test_course e u;
          (found, db) = (case List.find (same_test_course w) (t_courses (base db)) of
                           Some c \<Rightarrow> (Inr c, db) | None \<Rightarrow> CreateCourse_result e w db)
      in case found of
           Inl err \<Rightarrow> (Inl err, db)
         | Inr c \<Rightarrow> (case AddAdminToCourse (dbe e) (ID u) (ID c) db of
                       (Some err, db) \<Rightarrow> (Inl err, db) | (None, db) \<Rightarrow> (Inr c, db)))"

definition createTestCourse :: "api_env \<Rightarrow> TUMLiveContext \<Rightarrow> unit handler" where
  "createTestCourse e t =
     deref (ctx_User t) (\<lambda>u.
       with_result (CreateOrGetTestCourse e u)
         (\<lambda>err. sends [RequestError StatusInternalServerError ''Couldn't save course. Please reach out to us.'',
                       Reply StatusOK ()])
         (\<lambda>_. sends [Reply StatusOK ()]))"

definition aborts_with :: "nat \<Rightarrow> string \<Rightarrow> 'a handler" where
  "aborts_with status message = sends [AbortStatus status, RequestError status message]"

definition delete_audit :: "Course \<Rightarrow> string" where
  "delete_audit c =
     in_quotes (course_Name c) @ '' ('' @ itoa (course_Year c) @ '', '' @ course_TeachingTerm c @ '')['' @ uint_str (ID c) @ '']''"

text \<open>\<open>token\<close> is the form value, None if the form does not parse.\<close>

definition deleteCourseByToken :: "api_env \<Rightarrow> TUMLiveContext \<Rightarrow> string option \<Rightarrow> unit handler" where
  "deleteCourseByToken e t token =
     demand token (aborts_with StatusBadRequest ''invalid form'') (\<lambda>token.
       if token = [] then aborts_with StatusBadRequest ''token is missing''
       else with_row (GetCourseByToken (dbe e) token)
         (\<lambda>err. aborts_with StatusNotFound ''course not found'')
         (\<lambda>course. audits e t (delete_audit course @ ''. Token: '' @ token) AuditCourseDelete
           (logged (\<lambda>db. (None, Clear (DeleteCourse (dbe e) course db))) (sends []))))"

definition deleteCourse :: "api_env \<Rightarrow> TUMLiveContext \<Rightarrow> unit handler" where
  "deleteCourse e t =
     deref (ctx_User t) (\<lambda>_. deref (ctx_Course t) (\<lambda>course.
       audits e t (delete_audit course) AuditCourseDelete
         (logged (\<lambda>db. (None, Clear (DeleteCourse (dbe e) course db))) (sends []))))"

text \<open>
  \<open>info\<close> asks the campus system for a course with one of the configured tokens. Without tokens the zero
  value is answered.
\<close>

fun first_info :: "(string \<Rightarrow> string \<Rightarrow> 'i option) \<Rightarrow> string \<Rightarrow> 'i option \<Rightarrow> string list \<Rightarrow> 'i option" where
  "first_info info i res [] = res"
| "first_info info i res (token # tokens) =
     (case info i token of Some x \<Rightarrow> Some x | None \<Rightarrow> first_info info i None tokens)"

definition courseInfo :: "(string \<Rightarrow> string \<Rightarrow> 'i option) \<Rightarrow> 'i \<Rightarrow> string list \<Rightarrow> string option \<Rightarrow> 'i handler" where
  "courseInfo info zero tokens req =
     demand req (sends [AbortStatus StatusBadRequest]) (\<lambda>i.
       demand (first_info info i (Some zero) tokens) (sends [AbortStatus StatusNotFound])
         (\<lambda>x. sends [Reply StatusOK x]))"

subsection \<open>Progress and copies\<close>

definition getTranscodingProgress :: "api_env \<Rightarrow> TUMLiveContext \<Rightarrow> gin \<Rightarrow> int handler" where
  "getTranscodingProgress e t g =
     deref (ctx_Stream t) (\<lambda>s.
       with_row (\<lambda>db. GetTranscodingProgressByVersion (dbe e) (query_default g ''v'' ''COMB'') (ID s) (base db))
         (\<lambda>err. if err = Dao_Streams.not_found then sends [Reply StatusOK 100]
                else fails StatusInternalServerError err)
         (\<lambda>p. sends [Reply StatusOK (tp_Progress p)]))"

text \<open>A row without its key, times and deletion, as \<^verbatim>\<open>gorm.Model{}\<close> makes it.\<close>

definition fresh_Model :: "'a gorm_Model_scheme \<Rightarrow> 'a gorm_Model_scheme" where
  "fresh_Model x = x\<lparr>ID := 0, CreatedAt := zero_time, UpdatedAt := zero_time, DeletedAt := None\<rparr>"

text \<open>
  The copy shares its struct with the stream of the context, so the stream deleted by a move is the one
  created just before. A failure of the insert is reported, and the handler goes on.
\<close>

definition copy_to :: "api_env \<Rightarrow> Stream \<Rightarrow> uint \<Rightarrow> bool \<Rightarrow> unit handler" where
  "copy_to e stream target move db =
     (let ((err, s), db) = CreateStream (dbe e) ((fresh_Model stream)\<lparr>CourseID := target\<rparr>) db
      in also_sends (if err \<noteq> None then [RequestError StatusInternalServerError ''Can't save stream''] else [])
           (logged (\<lambda>db. (None, if move then DeleteStream (dbe e) (ID s) db else db)) (sends [])) db)"

definition copyStream :: "api_env \<Rightarrow> TUMLiveContext \<Rightarrow> (uint \<times> bool) option \<Rightarrow> unit handler" where
  "copyStream e t req =
     demand req (bad_request ''Bad request'') (\<lambda>(target, move).
       deref (ctx_User t) (\<lambda>user. deref (ctx_Stream t) (\<lambda>stream.
         if Role user = AdminType then copy_to e stream target move
         else with_row (GetCourseAdmins (dbe e) target)
           (\<lambda>err. sends [RequestError StatusInternalServerError ''can't determine admins of target course'',
                         RequestError StatusForbidden ''you are not admin of the target course''])
           (\<lambda>admins. if list_ex (\<lambda>a. ID a = ID user) admins then copy_to e stream target move
                      else fails StatusForbidden ''you are not admin of the target course''))))"

record copyCourseRequest =
  cp_Semester :: string
  cp_Year :: string
  cp_YearW :: string

fun copy_streams :: "api_env \<Rightarrow> uint \<Rightarrow> Stream list \<Rightarrow> api_db \<Rightarrow> nat \<times> api_db" where
  "copy_streams e i [] db = (0, db)"
| "copy_streams e i (s # ss) db =
     (let ((err, _), db) = CreateStream (dbe e) ((fresh_Model s)\<lparr>CourseID := i\<rparr>) db
      in apfst (\<lambda>n. if err = None then n else n + 1) (copy_streams e i ss db))"

fun copy_admins :: "api_env \<Rightarrow> uint \<Rightarrow> User list \<Rightarrow> api_db \<Rightarrow> nat \<times> api_db" where
  "copy_admins e i [] db = (0, db)"
| "copy_admins e i (u # us) db =
     (let (err, db) = AddAdminToCourse (dbe e) (ID u) i db
      in apfst (\<lambda>n. if err = None then n else n + 1) (copy_admins e i us db))"

definition copied_course :: "Course \<Rightarrow> int \<Rightarrow> string \<Rightarrow> Course" where
  "copied_course course year term =
     (fresh_Model course)\<lparr>Streams := [], course_Year := year, course_TeachingTerm := term\<rparr>"

definition semester_letter :: "string \<Rightarrow> string option" where
  "semester_letter s =
     (if s = ''Sommersemester'' then Some ''S'' else if s = ''Wintersemester'' then Some ''W'' else None)"

definition copyCourse :: "api_env \<Rightarrow> TUMLiveContext \<Rightarrow> copyCourseRequest option \<Rightarrow> (nat \<times> uint) handler" where
  "copyCourse e t req =
     demand req (bad_request ''Bad request'') (\<lambda>req. deref (ctx_Course t) (\<lambda>course.
       reading (\<lambda>db. case GetCourseAdmins (dbe e) (ID course) db of Inl _ \<Rightarrow> [] | Inr us \<Rightarrow> us) (\<lambda>admins.
         demand (atoi (cp_Year req)) (fails StatusBadRequest ''Semester must be a number'') (\<lambda>year.
         demand (semester_letter (cp_Semester req))
           (fails StatusBadRequest (''Teaching must be a 'Sommmersemester' or 'Wintersemester'' @ [CHR 0x27])) (\<lambda>term.
           with_result (CreateCourse_result e (copied_course course year term))
             (\<lambda>err. fails StatusInternalServerError ''Can't create course'')
             (\<lambda>c db. let (n1, db) = copy_streams e (ID c) (Streams course) db;
                          (n2, db) = copy_admins e (ID c) admins db
                      in sends [Reply StatusOK (n1 + n2, ID c)] db))))))"

text \<open>The index of prefetched courses: None if there is no client, and if the search fails.\<close>

definition searchCourse :: "(string \<Rightarrow> 'h list option) option \<Rightarrow> string option \<Rightarrow> 'h list handler" where
  "searchCourse client req =
     demand client (fails StatusInternalServerError ''Can't create client for search backend'') (\<lambda>index.
       demand req (bad_request ''Bad request'') (\<lambda>q.
         demand (index q) (fails StatusInternalServerError ''Can't perform search'')
           (\<lambda>hits. sends [Reply StatusOK hits])))"

subsection \<open>The routes\<close>

text \<open>What runs before the handlers of a course and before those of a stream of a course.\<close>

definition course_guards ::
    "(uint \<Rightarrow> Course option) \<Rightarrow> (string \<Rightarrow> string \<Rightarrow> int \<Rightarrow> Course option) \<Rightarrow> (gin \<Rightarrow> gin outcome) list" where
  "course_guards getCourse getBySlug = [\<lambda>g. Returns (InitCourse getCourse getBySlug g), AdminOfCourse]"

definition course_stream_guards ::
    "(uint \<Rightarrow> Course option) \<Rightarrow> (string \<Rightarrow> string \<Rightarrow> int \<Rightarrow> Course option) \<Rightarrow> (string \<Rightarrow> Stream option) \<Rightarrow>
     (gin \<Rightarrow> gin outcome) list" where
  "course_stream_guards getCourse getBySlug getStream =
     course_guards getCourse getBySlug @ [\<lambda>g. Returns (InitStream getStream getCourse g)]"

end
