(* ===== verification/Course_Props.thy ===== *)
theory Course_Props
  imports Course_Edit Dao_Cache
begin

text \<open>
  What the course handlers guarantee: who sees which stream in the list of live streams, that a course keeps an
  administrator, and which streams a deletion takes.
\<close>

subsection \<open>The list of live streams\<close>

definition live_coherent :: "tables \<Rightarrow> bool" where
  "live_coherent t \<longleftrightarrow>
     (\<forall>ss ex. live_cache t = Some (ss, ex) \<longrightarrow> ss = filter (\<lambda>s. LiveNow s \<and> live_row s) (t_streams t))"

lemma GetCurrentLive_coherent:
  assumes "live_coherent t" and "fault e ''GetCurrentLive'' = None"
  shows "\<exists>c. GetCurrentLive e t = (Inr (filter (\<lambda>s. LiveNow s \<and> live_row s) (t_streams t)), t\<lparr>live_cache := c\<rparr>)"
proof (cases "\<exists>ss ex. live_cache t = Some (ss, ex) \<and> clock e \<le> ex")
  case True
  then obtain ss ex where c: "live_cache t = Some (ss, ex)" "clock e \<le> ex" by blast
  with assms show ?thesis
    by (intro exI [of _ "live_cache t"]) (simp add: GetCurrentLive_def live_coherent_def)
next
  case False
  with assms show ?thesis
    by (auto simp: GetCurrentLive_def row_query_def Let_def split: option.split)
qed

lemma Clear_live_cache [simp]: "Clear (db\<lparr>base := (base db)\<lparr>live_cache := c\<rparr>\<rparr>) = Clear db"
  by (simp add: Clear_def clear_cache_def)

lemma live_entry_cong:
  assumes "Clear db = Clear db'" and "t_halls (base db) = t_halls (base db')"
  shows "live_entry e db = live_entry e db'" and "live_course e db = live_course e db'"
  using CourseById_cong [OF assms(1)] assms(2)
  by (simp_all add: fun_eq_iff live_entry_def live_course_def GetLectureHallByID_def)

definition known_visibility :: "Course \<Rightarrow> bool" where
  "known_visibility c \<longleftrightarrow> Visibility c \<in> {''public'', ''loggedin'', ''enrolled'', ''hidden''}"

lemma shown_live_iff:
  assumes "known_visibility c"
  shows "shown_live user c s \<longleftrightarrow> may_see IsEligibleToSearchForCourse user s c"
  using assms
  by (cases user) (auto simp: shown_live_def may_see_def known_visibility_def access_decisions access_simps)

text \<open>C22: The list of live streams has, in the order of the table, exactly the streams that are live and not
  deleted and that the search would show to the user: of a course the user may search for, and not private
  unless the user administers it. (This needs every live stream's course to be readable and of a known visibility: for a
  course that cannot be read the code tests an empty course, which passes every test.)\<close>

theorem live_list_is_exact:
  assumes "live_coherent (base db)" and "fault (dbe e) ''GetCurrentLive'' = None"
    and "\<And>s. s \<in> set (t_streams (base db)) \<Longrightarrow> LiveNow s \<Longrightarrow> live_row s \<Longrightarrow> known_visibility (live_course e db s)"
  shows "fst (getLive e t db) =
     [Reply StatusOK (map (live_entry e db (ctx_User t))
        (filter (\<lambda>s. LiveNow s \<and> live_row s \<and> may_see IsEligibleToSearchForCourse (ctx_User t) s (live_course e db s))
           (t_streams (base db))))]"
proof -
  from GetCurrentLive_coherent [OF assms(1,2)] obtain c where g: "GetCurrentLive (dbe e) (base db) =
      (Inr (filter (\<lambda>s. LiveNow s \<and> live_row s) (t_streams (base db))), (base db)\<lparr>live_cache := c\<rparr>)" ..
  let ?db = "db\<lparr>base := (base db)\<lparr>live_cache := c\<rparr>\<rparr>"
  have "live_entry e ?db = live_entry e db" "live_course e ?db = live_course e db"
    using live_entry_cong [of ?db db] by simp_all
  moreover have "filter (\<lambda>s. shown_live (ctx_User t) (live_course e db s) s \<and> LiveNow s \<and> live_row s) (t_streams (base db)) =
      filter (\<lambda>s. LiveNow s \<and> live_row s \<and> may_see IsEligibleToSearchForCourse (ctx_User t) s (live_course e db s))
        (t_streams (base db))"
    using assms(3) shown_live_iff by (intro filter_cong) auto
  ultimately show ?thesis
    using g by (simp add: getLive_def on_base_def handler_defs Let_def conj_commute conj_left_commute)
qed

definition calm_env :: api_env where
  "calm_env =
     \<lparr>dbe = calm, signs = (\<lambda>_. Inr ''t''), uuid = (\<lambda>_. ''u''),
      key_of = (\<lambda>s. case parse_digits 0 s of None \<Rightarrow> 0 | Some n \<Rightarrow> of_nat n), time_format = (\<lambda>_ _. []),
      civil = (\<lambda>_. (2024, 11)), sort_slice = (\<lambda>_ cs. cs), order_keys = (\<lambda>_. []), sessions_of = (\<lambda>_. None),
      markdown = (\<lambda>s. s), sha256_hex = (\<lambda>s. s), os_fault = (\<lambda>_. False), mass_path = ''/mass'', vod_url = (\<lambda>s. s),
      url_error = (\<lambda>_. None)\<rparr>"

lemma calm_env_simps [simp]: "dbe calm_env = calm"
  by (simp add: calm_env_def)

definition live_demo :: api_db where
  "live_demo = with_rows [] [demo_row]
     [zero_Stream\<lparr>ID := 7, CourseID := 3, LiveNow := True, Private := True\<rparr>,
      zero_Stream\<lparr>ID := 8, CourseID := 3, LiveNow := True\<rparr>, zero_Stream\<lparr>ID := 9, CourseID := 3\<rparr>]"

theorem live_list_is_exact_witness:
  "fst (getLive calm_env empty_tum live_demo) =
     [Reply StatusOK [live_entry calm_env live_demo None (zero_Stream\<lparr>ID := 8, CourseID := 3, LiveNow := True\<rparr>)]]"
proof -
  have "live_course calm_env live_demo (zero_Stream\<lparr>ID := i, CourseID := 3, LiveNow := l, Private := p\<rparr>) =
      live_course calm_env live_demo (zero_Stream\<lparr>CourseID := 3\<rparr>)" for i l p
    by (simp add: live_course_def)
  moreover have "Visibility (live_course calm_env live_demo (zero_Stream\<lparr>CourseID := 3\<rparr>)) = ''public''" by code_simp
  ultimately show ?thesis
    by (subst live_list_is_exact)
      (auto simp: live_demo_def live_coherent_def zero_Stream_def empty_tum_def may_see_def known_visibility_def
        access_decisions access_simps live_row_def live_course_def)
qed

subsection \<open>Administrators\<close>

definition keys_distinct :: "api_db \<Rightarrow> bool" where
  "keys_distinct db \<longleftrightarrow> distinct (map ID (t_users db)) \<and> distinct (course_admins db)"

definition has_admin :: "api_db \<Rightarrow> uint \<Rightarrow> bool" where
  "has_admin db c \<longleftrightarrow> (\<exists>u \<in> set (t_users db). (ID u, c) \<in> set (course_admins db))"

lemma Clear_admin_simps [simp]:
  "keys_distinct (Clear db) = keys_distinct db" "has_admin (Clear db) c = has_admin db c"
  by (simp_all add: keys_distinct_def has_admin_def)

lemma audit_admin_simps [simp]:
  "keys_distinct (snd (AuditDao_Create e u m ty db)) = keys_distinct db"
  "has_admin (snd (AuditDao_Create e u m ty db)) c = has_admin db c"
  "GetCourseAdmins e i (snd (AuditDao_Create e u m ty db)) = GetCourseAdmins e i db"
  by (cases "fault e ''AuditCreate''"; simp add: AuditDao_Create_def api_exec_def keys_distinct_def has_admin_def
      GetCourseAdmins_def cong: if_cong)+

text \<open>With distinct keys the administrators of a course are listed once each.\<close>

lemma find_ID:
  "List.find (\<lambda>r. ID r = i) us = Some x \<Longrightarrow> x \<in> set us \<and> ID x = i"
  by (drule find_SomeD) simp

lemma filter_ID:
  "distinct (map ID us) \<Longrightarrow> filter (\<lambda>r. ID r = i) us = (case List.find (\<lambda>r. ID r = i) us of None \<Rightarrow> [] | Some r \<Rightarrow> [r])"
  by (induction us) (auto simp: filter_empty_conv dest!: find_ID split: option.splits)

lemma GetCourseAdmins_distinct:
  assumes "keys_distinct db" and "GetCourseAdmins e c db = Inr admins"
  shows "distinct (map ID admins)" and "set admins \<subseteq> {u \<in> set (t_users db). (ID u, c) \<in> set (course_admins db)}"
proof -
  define f where "f = (\<lambda>(u, d). if d = c then filter (\<lambda>r. ID r = u) (t_users db) else [])"
  have "admins = concat (map f (course_admins db)) \<or> admins = []"
    using assms(2) by (auto simp: GetCourseAdmins_def row_query_def f_def split: option.splits if_splits)
  moreover have "distinct (map ID (concat (map f ps)))" if "distinct ps" for ps
    using that assms(1)
    by (induction ps) (auto simp: f_def filter_ID keys_distinct_def map_concat
        dest!: find_ID find_ID [OF sym] split: option.splits if_splits)
  ultimately show "distinct (map ID admins)"
    using assms(1) by (auto simp: keys_distinct_def)
  show "set admins \<subseteq> {u \<in> set (t_users db). (ID u, c) \<in> set (course_admins db)}"
    using \<open>admins = _ \<or> admins = []\<close> by (auto simp: f_def split: if_splits)
qed

text \<open>Storing courses and streams changes neither the users nor who administers what.\<close>

lemma save_assocs_users [simp]:
  "t_users (save_assocs now s db) = t_users db" "course_admins (save_assocs now s db) = course_admins db"
  by (simp_all add: save_assocs_def Let_def split_def)

lemma foldl_save_assocs_users [simp]:
  "t_users (foldl (\<lambda>db s. save_assocs now s db) db ss) = t_users db"
  "course_admins (foldl (\<lambda>db s. save_assocs now s db) db ss) = course_admins db"
  by (induction ss arbitrary: db) simp_all

lemma save_course_users [simp]:
  "t_users (save_course now c db) = t_users db" "course_admins (save_course now c db) = course_admins db"
  by (simp_all add: save_course_def save_streams_def Let_def split_def)

lemma foldl_save_course_users [simp]:
  "t_users (foldl (\<lambda>db c. save_course now c db) db cs) = t_users db"
  "course_admins (foldl (\<lambda>db c. save_course now c db) db cs) = course_admins db"
  by (induction cs arbitrary: db) simp_all

lemma link_all_props:
  "set links \<subseteq> set (link_all u cs links)" "distinct links \<Longrightarrow> distinct (link_all u cs links)"
  unfolding link_all_def by (induction cs arbitrary: links) fastforce+

lemma UpdateUser_admins:
  shows "keys_distinct db \<Longrightarrow> keys_distinct (snd (UpdateUser e u db))"
    and "has_admin db c \<Longrightarrow> has_admin (snd (UpdateUser e u db)) c"
proof -
  define now where "now = clock e"
  have ids: "map ID (map (\<lambda>r. if ID r = ID u \<and> live_row r then nz_user now u r else r) us) = map ID us" for us
    by (simp add: nz_user_def)
  have db': "snd (UpdateUser e u db) = db \<or>
      t_users (snd (UpdateUser e u db)) = map (\<lambda>r. if ID r = ID u \<and> live_row r then nz_user now u r else r) (t_users db) \<and>
      course_admins (snd (UpdateUser e u db)) = link_all (ID u) (AdministeredCourses u) (course_admins db)"
    unfolding UpdateUser_def api_exec_def Let_def split_def now_def
    by (cases "fault e ''UpdateUser''") (simp_all only: if_True if_False simp_thms snd_conv option.case split: if_split, simp_all)
  then show "keys_distinct db \<Longrightarrow> keys_distinct (snd (UpdateUser e u db))"
    using link_all_props(2) by (auto simp only: keys_distinct_def ids)
  assume "has_admin db c"
  then obtain i where i: "i \<in> set (map ID (t_users db))" "(i, c) \<in> set (course_admins db)"
    by (auto simp: has_admin_def)
  have has: "has_admin d c \<longleftrightarrow> (\<exists>i \<in> set (map ID (t_users d)). (i, c) \<in> set (course_admins d))" for d
    by (auto simp: has_admin_def)
  have "map ID (t_users (snd (UpdateUser e u db))) = map ID (t_users db) \<and>
      set (course_admins db) \<subseteq> set (course_admins (snd (UpdateUser e u db)))"
    using db'
  proof (elim disjE conjE)
    assume t: "t_users (snd (UpdateUser e u db)) = map (\<lambda>r. if ID r = ID u \<and> live_row r then nz_user now u r else r) (t_users db)"
      and c: "course_admins (snd (UpdateUser e u db)) = link_all (ID u) (AdministeredCourses u) (course_admins db)"
    show ?thesis unfolding t c ids using link_all_props(1) by blast
  qed (simp only: order_refl simp_thms)
  then have "i \<in> set (map ID (t_users (snd (UpdateUser e u db))))" "(i, c) \<in> set (course_admins (snd (UpdateUser e u db)))"
    using i by (simp_all only: subset_iff)
  then show "has_admin (snd (UpdateUser e u db)) c" by (subst has) (rule bexI)
qed

lemma RemoveAdmin_keeps:
  assumes "keys_distinct db" and "u \<noteq> v" and "v \<in> ID ` set (t_users db)" and "(v, c) \<in> set (course_admins db)"
  shows "keys_distinct (snd (RemoveAdminFromCourse e u c db)) \<and> has_admin (snd (RemoveAdminFromCourse e u c db)) c"
  using assms
  by (auto simp: RemoveAdminFromCourse_def api_exec_def keys_distinct_def has_admin_def split: option.split)

lemma RemoveAdmin_other:
  "has_admin db d \<Longrightarrow> d \<noteq> c \<Longrightarrow> has_admin (snd (RemoveAdminFromCourse e u c db)) d"
  by (auto simp: RemoveAdminFromCourse_def api_exec_def has_admin_def split: option.split)

lemma AddAdmin_keeps:
  shows "keys_distinct db \<Longrightarrow> keys_distinct (snd (AddAdminToCourse e u c db))"
    and "has_admin db d \<Longrightarrow> has_admin (snd (AddAdminToCourse e u c db)) d"
  by (auto simp: AddAdminToCourse_def api_exec_def keys_distinct_def has_admin_def split: option.split)

lemma GetUserByID_keeps [simp]:
  "keys_distinct (snd (GetUserByID e i db)) = keys_distinct db" "has_admin (snd (GetUserByID e i db)) d = has_admin db d"
  by (simp_all add: GetUserByID_def keys_distinct_def has_admin_def split: option.split sum.split)

text \<open>What a handler leaves of the database, by the parts it is made of.\<close>

lemma handler_snd:
  "snd (with_result q bad good db) =
     (case fst (q db) of Inl err \<Rightarrow> snd (bad err (snd (q db))) | Inr x \<Rightarrow> snd (good x (snd (q db))))"
  "snd (with_done d bad h db) = (case fst (d db) of Some err \<Rightarrow> snd (bad err (snd (d db))) | None \<Rightarrow> snd (h (snd (d db))))"
  "snd (with_row r bad good db) = (case r db of Inl err \<Rightarrow> snd (bad err db) | Inr x \<Rightarrow> snd (good x db))"
  "snd (logged d h db) = snd (h (snd (d db)))" "snd (sends as db) = db" "snd (fails n m db) = db" "snd (panic db) = db"
  "snd (demand x h good db) = (case x of None \<Rightarrow> snd (h db) | Some y \<Rightarrow> snd (good y db))"
  "snd (deref x good db) = (case x of None \<Rightarrow> db | Some y \<Rightarrow> snd (good y db))"
  "snd (audits e t m ty h db) = snd (h (snd (AuditDao_Create (dbe e) (ctx_User t) m ty db)))"
  by (simp_all add: handler_defs audits_def split: prod.split sum.split option.split)

lemma addAdmin_keeps:
  shows "keys_distinct db \<Longrightarrow> keys_distinct (snd (addAdminToCourse e t g db))"
    and "has_admin db c \<Longrightarrow> has_admin (snd (addAdminToCourse e t g db)) c"
  unfolding addAdminToCourse_def
  by (auto simp: handler_snd AddAdmin_keeps UpdateUser_admins split: option.split sum.split if_split)

lemma removeAdmin_keeps:
  assumes "keys_distinct db" and "has_admin db c"
  shows "keys_distinct (snd (removeAdminFromCourse e t g db)) \<and> has_admin (snd (removeAdminFromCourse e t g db)) c"
proof -
  have step: "keys_distinct (snd (RemoveAdminFromCourse (dbe e) (ID u) (ID course) (snd (AuditDao_Create (dbe e) w m ty db)))) \<and>
      has_admin (snd (RemoveAdminFromCourse (dbe e) (ID u) (ID course) (snd (AuditDao_Create (dbe e) w m ty db)))) c"
    if "GetCourseAdmins (dbe e) (ID course) db = Inr admins" and q: "length admins \<noteq> 1" "List.find (\<lambda>u. ID u = i) admins = Some u"
    for admins u course w m ty i
  proof -
    define d where "d = snd (AuditDao_Create (dbe e) w m ty db)"
    have d: "keys_distinct d" "has_admin d c" "GetCourseAdmins (dbe e) (ID course) d = Inr admins"
      using assms that(1) by (simp_all add: d_def)
    note admins = GetCourseAdmins_distinct [OF d(1,3)]
    have "\<exists>v \<in> set admins. ID v \<noteq> ID u"
    proof (rule ccontr)
      assume "\<not> (\<exists>v \<in> set admins. ID v \<noteq> ID u)"
      then have "set (map ID admins) \<subseteq> {ID u}" by auto
      then have "card (set (map ID admins)) \<le> 1" using card_mono [of "{ID u}"] by fastforce
      moreover have "card (set (map ID admins)) = length admins" using distinct_card [OF admins(1)] by simp
      ultimately show False using q by (cases admins) auto
    qed
    then obtain v where "v \<in> set admins" "ID v \<noteq> ID u" by blast
    with admins(2) have "ID u \<noteq> ID v" "ID v \<in> ID ` set (t_users d)" "(ID v, ID course) \<in> set (course_admins d)" by auto
    from RemoveAdmin_keeps [OF d(1) this] RemoveAdmin_other [OF d(2)] show ?thesis
      unfolding d_def by (cases "c = ID course") auto
  qed
  show ?thesis
    using assms unfolding removeAdminFromCourse_def
    by (auto simp: handler_snd intro: step [THEN conjunct1] step [THEN conjunct2] split: option.split sum.split if_split)
qed

text \<open>All that requests to add and to remove administrators, in any order and with any faults, can do.\<close>

inductive admin_requests :: "api_db \<Rightarrow> api_db \<Rightarrow> bool" for db where
  none: "admin_requests db db"
| add: "admin_requests db db1 \<Longrightarrow> admin_requests db (snd (addAdminToCourse e t g db1))"
| remove: "admin_requests db db1 \<Longrightarrow> admin_requests db (snd (removeAdminFromCourse e t g db1))"

text \<open>C23: However many requests add and remove administrators, in whatever order and with whatever database faults, a
  course that has an administrator keeps one.\<close>

theorem a_course_keeps_an_administrator:
  assumes "admin_requests db db'" and "keys_distinct db" and "has_admin db c"
  shows "has_admin db' c"
proof -
  have "keys_distinct db' \<and> has_admin db' c"
    using assms by induction (use addAdmin_keeps removeAdmin_keeps in auto)
  then show ?thesis ..
qed

definition two_admins :: api_db where
  "two_admins = (with_rows [zero_User\<lparr>ID := 1\<rparr>, zero_User\<lparr>ID := 2\<rparr>] [demo_row] [])\<lparr>course_admins := [(1, 3), (2, 3)]\<rparr>"

definition in_course :: TUMLiveContext where
  "in_course = empty_tum\<lparr>ctx_User := Some (zero_User\<lparr>ID := 1\<rparr>), ctx_Course := Some demo_row\<rparr>"

definition for_user :: "string \<Rightarrow> gin" where
  "for_user i = \<lparr>tum = None, RequestURI = [], url_params = [''userID'' \<mapsto> i], query_params = Map.empty,
                 cookies = Map.empty, calls = []\<rparr>"

theorem a_course_keeps_an_administrator_witness:
  "let db1 = snd (removeAdminFromCourse calm_env in_course (for_user ''1'') two_admins);
       db2 = snd (removeAdminFromCourse calm_env in_course (for_user ''2'') db1)
   in course_admins db1 = [(2, 3)] \<and> has_admin db2 3"
proof -
  have "course_admins (snd (removeAdminFromCourse calm_env in_course (for_user ''1'') two_admins)) = [(2, 3)]"
  proof -
    have p: "parse_uint 32 ''1'' = Some 1"
      by (simp add: parse_uint_def digit_val_def)
    show ?thesis
      by (simp add: removeAdminFromCourse_def handler_snd p for_user_def gparam_def in_course_def two_admins_def
          GetCourseAdmins_def row_query_def RemoveAdminFromCourse_def AuditDao_Create_def api_exec_def empty_tum_def
          demo_row_def zero_User_def Clear_def)
  qed
  moreover have "admin_requests two_admins (snd (removeAdminFromCourse calm_env in_course (for_user ''2'')
      (snd (removeAdminFromCourse calm_env in_course (for_user ''1'') two_admins))))"
    by (intro admin_requests.intros)
  moreover have "keys_distinct two_admins" "has_admin two_admins 3"
    by (simp_all add: two_admins_def keys_distinct_def has_admin_def)
  ultimately show ?thesis
    using a_course_keeps_an_administrator [of two_admins _ 3] by (simp only: Let_def simp_thms)
qed

subsection \<open>Deleting lectures\<close>

definition own_row :: "api_db \<Rightarrow> Course \<Rightarrow> uint \<Rightarrow> bool" where
  "own_row db course i \<longleftrightarrow> (\<exists>r. stream_row (base db) i = Some r \<and> CourseID r = ID course)"

lemma own_streams_result:
  assumes "fresh db db1" and "fault (dbe e) ''GetStreamByID'' = None" and "own_streams e course is db1 = (res, db2)"
  shows "fresh db db2 \<and>
     (if \<forall>i \<in> set is. own_row db course (key_of e i) then \<exists>ss. res = Inr ss \<and> map ID ss = map (key_of e) is else \<exists>err. res = Inl err)"
  using assms
proof (induction e course "is" db1 arbitrary: res db2 rule: own_streams.induct)
  case (2 e course i "is" db1)
  obtain r db3 where g: "StreamById (dbe e) (key_of e i) db1 = (r, db3)" by fastforce
  have fr: "fresh db db3" using StreamById_fresh(1) [OF 2(2), of "dbe e" "key_of e i"] g by simp
  have r: "r = (case stream_row (base db) (key_of e i) of None \<Rightarrow> Inl Dao_Streams.not_found | Some r \<Rightarrow> Inr (loaded_stream db r))"
    using StreamById_result [OF 2(2,3), of "key_of e i"] g by simp
  obtain res' db4 where rest: "own_streams e course is db3 = (res', db4)" by fastforce
  show ?case
  proof (cases "own_row db course (key_of e i)")
    case True
    then obtain row where row: "stream_row (base db) (key_of e i) = Some row" "CourseID row = ID course"
      by (auto simp: own_row_def)
    have "r = Inr (loaded_stream db row)" using r row(1) by simp
    with 2(1) [OF g [symmetric] this _ fr 2(3) rest] row 2(4) g rest stream_row_ID [OF row(1)] True show ?thesis
      by (auto split: if_splits)
  next
    case False
    with r 2(4) g fr show ?thesis by (auto simp: own_row_def split: option.splits)
  qed
qed simp

lemma live_row_deleted [simp]: "live_row (r\<lparr>DeletedAt := Some d\<rparr>) = False"
  by (simp add: live_row_def)

lemma soft_delete_soft_delete:
  "soft_delete now (\<lambda>r. ID r \<in> A) (soft_delete now (\<lambda>r. ID r = i) rows) = soft_delete now (\<lambda>r. ID r = i \<or> ID r \<in> A) rows"
  by (induction rows) (auto simp: soft_delete_def)

lemma soft_delete_none [simp]: "soft_delete now (\<lambda>r. False) rows = rows"
  by (simp add: soft_delete_def)

lemma AuditDao_Create_base [simp]: "base (snd (AuditDao_Create e u m ty db)) = base db"
  by (simp add: AuditDao_Create_def api_exec_def split: option.split)

lemma DeleteStream_rows:
  "fault e ''DeleteStream'' = None \<Longrightarrow>
     t_streams (base (DeleteStream e i db)) = soft_delete (clock e) (\<lambda>r. ID r = i) (t_streams (base db))"
  by (simp add: DeleteStream_def delete_streams_def api_exec_def)

lemma delete_each_rows:
  "fault (dbe e) ''DeleteStream'' = None \<Longrightarrow>
     t_streams (base (delete_each e t course ss db)) = soft_delete (now_of e) (\<lambda>r. ID r \<in> ID ` set ss) (t_streams (base db))"
  by (induction e t course ss db rule: delete_each.induct) (simp_all add: DeleteStream_rows soft_delete_soft_delete)

text \<open>C24: Deleting lectures is all or nothing and stays inside the course: if every named stream is a stream of the course,
  exactly these are deleted; if one of them is missing or belongs to another course, the request is refused and no row of
  the database changes.\<close>

theorem lectures_are_deleted_together:
  assumes "cache_coherent (base db)" and "slug_coherent db" and "ctx_Course t = Some course" and "ids \<noteq> []"
    and "fault (dbe e) ''GetStreamByID'' = None" and "fault (dbe e) ''DeleteStream'' = None"
  shows "if \<forall>i \<in> set ids. own_row db course (key_of e i)
     then fst (deleteLectures e t (Some ids) db) = [] \<and>
          t_streams (base (snd (deleteLectures e t (Some ids) db))) =
            soft_delete (now_of e) (\<lambda>s. ID s \<in> key_of e ` set ids) (t_streams (base db))
     else fst (deleteLectures e t (Some ids) db) = [RequestError StatusForbidden ''not allowed to delete stream''] \<and>
          Clear (snd (deleteLectures e t (Some ids) db)) = Clear db"
proof -
  obtain res db1 where own: "own_streams e course ids db = (res, db1)" by fastforce
  note r = own_streams_result [OF fresh_self [OF assms(1,2)] assms(5) own]
  have eval: "deleteLectures e t (Some ids) db =
      (case res of Inl err \<Rightarrow> ([RequestError StatusForbidden ''not allowed to delete stream''], db1)
       | Inr ss \<Rightarrow> ([], delete_each e t course ss db1))"
    using assms(3,4) own by (simp add: deleteLectures_def handler_defs split: sum.split)
  have rows: "t_streams (base db1) = t_streams (base db)" "Clear db1 = Clear db"
    using r Clear_cong(1) [of db1 db] by (auto simp: fresh_def)
  show ?thesis
  proof (cases "\<forall>i \<in> set ids. own_row db course (key_of e i)")
    case True
    with r obtain ss where ss: "res = Inr ss" "map ID ss = map (key_of e) ids" by auto
    then have "ID ` set ss = key_of e ` set ids" by (metis image_set)
    with True ss(1) eval rows assms(6) show ?thesis by (simp add: delete_each_rows)
  next
    case False
    with r eval rows show ?thesis by auto
  qed
qed

theorem lectures_are_deleted_together_witness:
  "let db = with_rows [] [demo_row] [zero_Stream\<lparr>ID := 7, CourseID := 3\<rparr>, zero_Stream\<lparr>ID := 8, CourseID := 4\<rparr>] in
   Clear (snd (deleteLectures calm_env in_course (Some [''7'', ''8'']) db)) = Clear db"
proof -
  define db where "db = with_rows [] [demo_row] [zero_Stream\<lparr>ID := 7, CourseID := 3\<rparr>, zero_Stream\<lparr>ID := 8, CourseID := 4\<rparr>]"
  have k: "key_of calm_env ''8'' = 8" by (simp add: calm_env_def digit_val_def)
  have "\<not> (\<forall>i \<in> set [''7'', ''8'']. own_row db demo_row (key_of calm_env i))"
    by (simp add: own_row_def k db_def stream_row_def demo_row_def live_row_def zero_Stream_def)
  note refused = if_not_P [OF this]
  have "Clear (snd (deleteLectures calm_env in_course (Some [''7'', ''8'']) db)) = Clear db"
    using lectures_are_deleted_together [of db in_course demo_row "[''7'', ''8'']" calm_env] unfolding refused
    by (simp add: db_def with_rows_coherent in_course_def)
  then show ?thesis by (simp add: db_def)
qed

end
