(* ===== verification/Course_Store.thy ===== *)
theory Course_Store
  imports Course_Props
begin

text \<open>
  What the course handlers leave in the database: a copied or moved stream, a series of lectures, a new course; and
  which streams the routes of a course let through.
\<close>

subsection \<open>Copying a stream\<close>

lemma insert_rows_link:
  "\<forall>x \<in> set xs. file_StreamID x = i \<Longrightarrow> f \<in> set (fst (insert_rows now xs (rows, k))) \<Longrightarrow> f \<in> set rows \<or> file_StreamID f = i"
proof (induction xs arbitrary: rows k)
  case (Cons x xs)
  have linked: "\<forall>x \<in> set xs. file_StreamID x = i" "file_StreamID x = i" using Cons.prems(1) by simp_all
  show ?case
  proof (cases "ID x = 0")
    case True
    with Cons.prems(2) have "f \<in> set (fst (insert_rows now xs (rows @ [x\<lparr>ID := k, CreatedAt := now, UpdatedAt := now\<rparr>], k + 1)))"
      by simp
    from Cons.IH [OF linked(1) this] linked(2) show ?thesis by auto
  next
    case False
    show ?thesis
    proof (cases "list_ex (\<lambda>r. ID r = ID x) rows")
      case True
      with False Cons.prems(2) Cons.IH [OF linked(1), of rows k] show ?thesis by simp
    next
      case new: False
      with False Cons.prems(2) Cons.IH [OF linked(1), of "rows @ [x]" k] linked(2) show ?thesis by auto
    qed
  qed
qed simp

lemma save_has_many_files:
  assumes "f \<in> set (fst (save_has_many now (\<lambda>f. f\<lparr>file_StreamID := i\<rparr>) xs (rows, k)))" and "ID f \<in> ID ` set xs"
  shows "file_StreamID f = i"
proof -
  have "f \<in> set (map (\<lambda>r. if list_ex (\<lambda>x. ID x = ID r) xs then r\<lparr>file_StreamID := i\<rparr> else r) rows) \<or> file_StreamID f = i"
    using assms(1) by (intro insert_rows_link [where xs = "map (\<lambda>f. f\<lparr>file_StreamID := i\<rparr>) xs"]) (auto simp: save_has_many_def)
  with assms(2) show ?thesis by (auto simp: list_ex_iff image_iff split: if_splits)
qed

lemma stream_columns_simps [simp]:
  "ID (stream_columns s) = ID s" "DeletedAt (stream_columns s) = DeletedAt s" "CourseID (stream_columns s) = CourseID s"
  "live_row (stream_columns s) = live_row s"
  by (simp_all add: stream_columns_def live_row_def)

lemma moved_streams [simp]: "t_streams (base (moved i s db)) = t_streams (base db)"
  by (simp add: moved_def Let_def split_def)

lemma stamp_simps [simp]: "ID (stamp now x) = ID x" "DeletedAt (stamp now x) = DeletedAt x"
  by (simp_all add: stamp_def)

lemma insert_stream_rows:
  assumes "ID s = 0"
  shows "ID (fst (insert_stream now s db)) = next_stream db"
    and "t_streams (base (snd (insert_stream now s db))) =
           t_streams (base db) @ [stream_columns (stamp now (s\<lparr>ID := next_stream db\<rparr>))]"
    and "f \<in> set (t_files (base (snd (insert_stream now s db)))) \<Longrightarrow> ID f \<in> ID ` set (Files s) \<Longrightarrow>
           file_StreamID f = next_stream db"
proof -
  show "ID (fst (insert_stream now s db)) = next_stream db"
    "t_streams (base (snd (insert_stream now s db))) =
       t_streams (base db) @ [stream_columns (stamp now (s\<lparr>ID := next_stream db\<rparr>))]"
    using assms by (simp_all add: insert_stream_def Let_def stamp_def)
  assume "f \<in> set (t_files (base (snd (insert_stream now s db))))" "ID f \<in> ID ` set (Files s)"
  then show "file_StreamID f = next_stream db"
    using assms by (simp add: insert_stream_def moved_def Let_def split_def stamp_def save_has_many_files)
qed

lemma CreateStream_ok:
  "fault e ''CreateStream'' = None \<Longrightarrow> ID s = 0 \<Longrightarrow>
     CreateStream e s db = ((None, fst (insert_stream (clock e) s db)), snd (insert_stream (clock e) s db))"
  by (simp add: CreateStream_def split_def Let_def)

lemma fresh_Model_simps [simp]: "ID (fresh_Model s) = 0" "ID ((fresh_Model s)\<lparr>CourseID := i\<rparr>) = 0"
  "Files ((fresh_Model s)\<lparr>CourseID := i\<rparr>) = Files s"
  by (simp_all add: fresh_Model_def)

lemma DeleteStream_files [simp]: "t_files (base (DeleteStream e i db)) = t_files (base db)"
  by (simp add: DeleteStream_def delete_streams_def api_exec_def split: option.split)

lemma copyStream_success:
  assumes "fst (copyStream e t (Some (target, move)) db) = []" and "ctx_Stream t = Some s"
  shows "fault (dbe e) ''CreateStream'' = None"
    and "snd (copyStream e t (Some (target, move)) db) =
      (let (s', db1) = insert_stream (now_of e) ((fresh_Model s)\<lparr>CourseID := target\<rparr>) db
       in if move then DeleteStream (dbe e) (ID s') db1 else db1)"
proof -
  have c: "copyStream e t (Some (target, move)) db = copy_to e s target move db"
    using assms by (auto simp: copyStream_def handler_defs split: option.splits sum.splits if_splits)
  then show f: "fault (dbe e) ''CreateStream'' = None"
    using assms(1) by (auto simp: copy_to_def handler_defs CreateStream_def split: option.splits)
  show "snd (copyStream e t (Some (target, move)) db) =
      (let (s', db1) = insert_stream (now_of e) ((fresh_Model s)\<lparr>CourseID := target\<rparr>) db
       in if move then DeleteStream (dbe e) (ID s') db1 else db1)"
    unfolding c by (simp add: copy_to_def CreateStream_ok [OF f] handler_defs Let_def split_def)
qed

text \<open>C12: A successful move of a stream to another course deletes the copy it has just made: afterwards exactly the streams
  that were there before are there, the original in its old course. But the files of the original now
  belong to the deleted copy.\<close>

theorem a_move_deletes_the_copy:
  assumes "fst (copyStream e t (Some (target, True)) db) = []" and "ctx_Stream t = Some s"
    and "\<forall>r \<in> set (t_streams (base db)). ID r \<noteq> next_stream db" and "fault (dbe e) ''DeleteStream'' = None"
  shows "stream_row (base (snd (copyStream e t (Some (target, True)) db))) i = stream_row (base db) i \<and>
     (\<forall>f \<in> set (t_files (base (snd (copyStream e t (Some (target, True)) db)))).
        ID f \<in> ID ` set (Files s) \<longrightarrow> file_StreamID f = next_stream db)"
proof -
  let ?copy = "(fresh_Model s)\<lparr>CourseID := target\<rparr>"
  let ?db1 = "snd (insert_stream (now_of e) ?copy db)"
  have db': "snd (copyStream e t (Some (target, True)) db) = DeleteStream (dbe e) (next_stream db) ?db1"
    unfolding copyStream_success(2) [OF assms(1,2)] by (simp add: split_def Let_def insert_stream_rows)
  have "soft_delete (now_of e) (\<lambda>r. ID r = next_stream db) (t_streams (base db)) = t_streams (base db)"
    using assms(3) by (intro map_idI [of _ "\<lambda>r. if ID r = next_stream db \<and> live_row r then r\<lparr>DeletedAt := Some (now_of e)\<rparr> else r",
        folded soft_delete_def]) auto
  then have "\<exists>r. \<not> live_row r \<and> t_streams (base (DeleteStream (dbe e) (next_stream db) ?db1)) = t_streams (base db) @ [r]"
    unfolding DeleteStream_rows [OF assms(4)] insert_stream_rows(2) [OF fresh_Model_simps(2)]
    by (simp add: soft_delete_def live_row_def fresh_Model_def)
  then have "stream_row (base (DeleteStream (dbe e) (next_stream db) ?db1)) i = stream_row (base db) i"
    by (auto simp: stream_row_def find_append split: option.split)
  with db' insert_stream_rows(3) [OF fresh_Model_simps(2)] show ?thesis by auto
qed

definition one_file :: File where
  "one_file = \<lparr>ID = 5, CreatedAt = 0, UpdatedAt = 0, DeletedAt = None, file_StreamID = 7, Path = ''/a'', Filename = [],
               file_Type = 1, CourseName = []\<rparr>"

definition with_file :: api_db where
  "with_file = (let db = with_rows [] [demo_row] [zero_Stream\<lparr>ID := 7, CourseID := 3\<rparr>]
                in db\<lparr>base := (base db)\<lparr>t_files := [one_file]\<rparr>\<rparr>)"

definition for_stream :: TUMLiveContext where
  "for_stream = empty_tum\<lparr>ctx_User := Some (zero_User\<lparr>ID := 1, Role := AdminType\<rparr>),
     ctx_Stream := Some (zero_Stream\<lparr>ID := 7, CourseID := 3, Files := [one_file]\<rparr>)\<rparr>"

theorem a_move_deletes_the_copy_witness:
  "map_option CourseID (stream_row (base (snd (copyStream calm_env for_stream (Some (4, True)) with_file))) 7) = Some 3 \<and>
   file_StreamID ` {f \<in> set (t_files (base (snd (copyStream calm_env for_stream (Some (4, True)) with_file)))). ID f = 5} \<subseteq> {100}"
proof -
  have "fst (copyStream calm_env for_stream (Some (4, True)) with_file) = []"
    by (simp add: copyStream_def handler_defs copy_to_def CreateStream_ok for_stream_def empty_tum_def Let_def)
  from a_move_deletes_the_copy [OF this, where i = 7] show ?thesis
    by (auto simp: for_stream_def with_file_def empty_tum_def stream_row_def live_row_def zero_Stream_def Let_def one_file_def
        with_rows_def no_rows_def)
qed

text \<open>C25: The check of the course does not bind the stream: an administrator of any course, going through a route of that
  course, is let through to every stream of every other course, private ones included, as the guard
  tests the course of the path and not that of the stream. Copying such a stream into the own course then succeeds.\<close>

theorem course_routes_reach_foreign_streams:
  assumes "tum g = Some t" and "\<not> IsAborted g" and "ctx_User t = Some u" and "find_course getCourse getBySlug g = Inr c"
    and "IsAdminOfCourse (Some u) c" and "gparam g ''streamID'' \<noteq> []" and "getStream (gparam g ''streamID'') = Some s"
  shows "\<exists>g'. run_chain (course_stream_guards getCourse getBySlug getStream) g = Returns g' \<and> \<not> IsAborted g' \<and>
     tum g' = Some (t\<lparr>ctx_Course := Some c, ctx_Stream := Some s\<rparr>)"
proof -
  have watch: "IsEligibleToWatchCourse (Some u) c" using admin_watches [OF assms(5)] .
  have set: "gparam (set_tum t' g) = gparam g" for t' by (simp add: fun_eq_iff gparam_def set_tum_def)
  have "InitCourse getCourse getBySlug g = set_tum (t\<lparr>ctx_Course := Some c\<rparr>) g"
    using assms watch by (simp add: InitCourse_def)
  moreover have "AdminOfCourse (set_tum (t\<lparr>ctx_Course := Some c\<rparr>) g) = Returns (set_tum (t\<lparr>ctx_Course := Some c\<rparr>) g)"
    using assms by (simp add: AdminOfCourse_def)
  moreover have "InitStream getStream getCourse (set_tum (t\<lparr>ctx_Course := Some c\<rparr>) g) =
      set_tum (t\<lparr>ctx_Course := Some c, ctx_Stream := Some s\<rparr>) (set_tum (t\<lparr>ctx_Course := Some c\<rparr>) g)"
    using assms watch by (simp add: InitStream_def set)
  ultimately show ?thesis
    using assms(2) by (simp add: course_stream_guards_def course_guards_def)
qed

definition foreign_request :: gin where
  "foreign_request = \<lparr>tum = Some (empty_tum\<lparr>ctx_User := Some (zero_User\<lparr>ID := 1, AdministeredCourses := [demo_row]\<rparr>)\<rparr>),
     RequestURI = [], url_params = [''courseID'' \<mapsto> ''3'', ''streamID'' \<mapsto> ''9''], query_params = Map.empty,
     cookies = Map.empty, calls = []\<rparr>"

theorem course_routes_reach_foreign_streams_witness:
  "\<exists>g'. run_chain (course_stream_guards (\<lambda>i. if i = 3 then Some demo_row else None) (\<lambda>_ _ _. None)
          (\<lambda>_. Some (zero_Stream\<lparr>ID := 9, CourseID := 4, Private := True\<rparr>))) foreign_request = Returns g' \<and>
     map_option (\<lambda>t. map_option CourseID (ctx_Stream t)) (tum g') = Some (Some 4)"
proof -
  let ?u = "zero_User\<lparr>ID := 1, AdministeredCourses := [demo_row]\<rparr>"
  have p: "parse_int 32 ''3'' = Some 3" by code_simp
  have f: "find_course (\<lambda>i. if i = 3 then Some demo_row else None) (\<lambda>_ _ _. None) foreign_request = Inr demo_row"
    by (simp add: find_course_def foreign_request_def gparam_def p to_uint_def)
  have a: "IsAdminOfCourse (Some ?u) demo_row" by (simp add: administers_def)
  from course_routes_reach_foreign_streams [OF _ _ _ f a, of "empty_tum\<lparr>ctx_User := Some ?u\<rparr>"
      "\<lambda>_. Some (zero_Stream\<lparr>ID := 9, CourseID := 4, Private := True\<rparr>)"]
  show ?thesis by (auto simp: foreign_request_def IsAborted_def gparam_def zero_Stream_def)
qed

subsection \<open>A series of lectures\<close>

lemma number_old: "0 \<notin> ID ` set xs \<Longrightarrow> number k (xs @ ys) = apfst ((@) xs) (number k ys)"
  by (induction xs) (auto simp: apfst_def map_prod_def split: prod.split)

lemma number_new:
  "\<forall>y \<in> set ys. ID y = 0 \<Longrightarrow> fst (number k ys) = map (\<lambda>j. (ys ! j)\<lparr>ID := k + of_nat j\<rparr>) [0..<length ys]"
proof (induction ys arbitrary: k)
  case (Cons y ys)
  have "[0..<length (y # ys)] = 0 # map Suc [0..<length ys]" by (simp add: upt_conv_Cons map_Suc_upt del: upt_Suc)
  with Cons show ?case by (simp add: comp_def algebra_simps del: upt_Suc)
qed simp

lemma upsert_keeps:
  "r \<in> set rows \<Longrightarrow> ID y \<noteq> ID r \<Longrightarrow> r \<in> set (upsert now rows y)"
  by (auto simp: upsert_def)

lemma upsert_stores:
  "CreatedAt x = zero_time \<Longrightarrow> \<exists>r \<in> set (upsert now rows x). \<exists>c. r = x\<lparr>CreatedAt := c, UpdatedAt := now\<rparr>"
  by (auto simp: upsert_def list_ex_iff stamp_def)

lemma foldl_upsert_stores:
  assumes "distinct (map ID xs)" and "x \<in> set xs" and "CreatedAt x = zero_time"
  shows "\<exists>r \<in> set (foldl (upsert now) rows xs). \<exists>c. r = x\<lparr>CreatedAt := c, UpdatedAt := now\<rparr>"
  using assms
proof (induction xs rule: rev_induct)
  case (snoc y xs)
  show ?case
  proof (cases "x = y")
    case True
    with upsert_stores [of y now "foldl (upsert now) rows xs"] snoc.prems show ?thesis by simp
  next
    case False
    with snoc obtain r c where r: "r \<in> set (foldl (upsert now) rows xs)" "r = x\<lparr>CreatedAt := c, UpdatedAt := now\<rparr>" by auto
    moreover have "ID y \<noteq> ID r" using snoc.prems False r(2) by (auto simp: image_iff)
    ultimately show ?thesis using upsert_keeps [of r _ y now] by (auto intro!: bexI [of _ r])
  qed
qed simp

lemma save_assocs_streams [simp]: "t_streams (base (save_assocs now s db)) = t_streams (base db)"
  by (simp add: save_assocs_def Let_def split_def)

lemma foldl_save_assocs_streams [simp]: "t_streams (base (foldl (\<lambda>db s. save_assocs now s db) db ss)) = t_streams (base db)"
  by (induction ss arbitrary: db) simp_all

lemma save_streams_rows:
  "t_streams (base (snd (save_streams now i ss db))) =
     foldl (upsert now) (t_streams (base db)) (map stream_columns (fst (save_streams now i ss db)))"
  by (simp add: save_streams_def Let_def split_def)

lemma save_streams_keys:
  "0 \<notin> ID ` set old \<Longrightarrow> \<forall>s \<in> set new. ID s = 0 \<Longrightarrow>
     fst (save_streams now i (old @ new) db) =
       map (\<lambda>s. s\<lparr>CourseID := i\<rparr>) old @
       map (\<lambda>j. (new ! j)\<lparr>CourseID := i, ID := next_stream db + of_nat j\<rparr>) [0..<length new]"
  by (simp add: save_streams_def Let_def split_def number_old number_new image_image)

lemma audit_lectures_base [simp]:
  "base (audit_lectures e t course ss db) = base db" "next_stream (audit_lectures e t course ss db) = next_stream db"
  by (induction e t course ss db rule: audit_lectures.induct)
    (simp_all add: AuditDao_Create_def api_exec_def split: option.split)

lemma UpdateCourse_ok:
  assumes "ID c \<noteq> 0" and "Course_BeforeSave c = None" and "fault (dbe e) ''UpdateCourse'' = None"
  shows "UpdateCourse_result e c db =
     (let (ss, db') = save_streams (now_of e) (ID c) (Streams c) (update_course (ID c) (nz_course (now_of e) c) db)
      in (Inr ss, Clear db'))"
  using assms by (simp add: UpdateCourse_result_def UpdateCourse_def Let_def split_def)

lemma update_course_simps [simp]:
  "next_stream (update_course i f db) = next_stream db" "t_streams (base (update_course i f db)) = t_streams (base db)"
  by (simp_all add: update_course_def)

definition lecture_dates :: "createLectureRequest \<Rightarrow> gotime list" where
  "lecture_dates req = cl_DateSeries req @ [cl_Start req]"

lemma new_lectures_simps:
  "length (new_lectures e course req hall) = length (lecture_dates req)"
  "\<forall>s \<in> set (new_lectures e course req hall). ID s = 0"
  "k < length (lecture_dates req) \<Longrightarrow>
     \<exists>playlist. new_lectures e course req hall ! k =
       new_lecture e course req hall playlist (length (lecture_dates req) > 1) (k + 1) (lecture_dates req ! k)"
  by (auto simp: new_lectures_def Let_def lecture_dates_def new_lecture_def zero_Stream_def simp del: upt_Suc)

text \<open>The row of the lecture for a date.\<close>

definition lecture_row :: "api_env \<Rightarrow> Course \<Rightarrow> createLectureRequest \<Rightarrow> gotime \<Rightarrow> uint \<Rightarrow> Stream \<Rightarrow> bool" where
  "lecture_row e course req date i r \<longleftrightarrow>
     ID r = i \<and> live_row r \<and> CourseID r = ID course \<and> stream_Name r = cl_Title req \<and>
     Start r = (if cl_AdHoc req then now_of e + 2 * Minute else date) \<and> End r = date + minutes (cl_Duration req) \<and>
     SeriesIdentifier r = (if cl_DateSeries req = [] then [] else uuid e 0) \<and> Recording r = cl_Vodup req \<and> \<not> LiveNow r"

lemma stream_columns_dates [simp]:
  "CreatedAt (stream_columns s) = CreatedAt s" "stream_Name (stream_columns s) = stream_Name s"
  "Start (stream_columns s) = Start s" "End (stream_columns s) = End s" "LiveNow (stream_columns s) = LiveNow s"
  "SeriesIdentifier (stream_columns s) = SeriesIdentifier s" "Recording (stream_columns s) = Recording s"
  by (simp_all add: stream_columns_def)

lemma stored_lecture:
  assumes "r = (stream_columns ((new_lecture e course req hall p (length (lecture_dates req) > 1) k date)
       \<lparr>CourseID := ID course, ID := i\<rparr>))\<lparr>CreatedAt := c, UpdatedAt := u\<rparr>"
  shows "lecture_row e course req date i r"
  using assms by (simp add: lecture_row_def new_lecture_def zero_Stream_def live_row_def lecture_dates_def)

lemma createLecture_ok:
  assumes "ctx_Course t = Some course" and "parse_int 32 (cl_LectureHallId req) = Some hall"
    and "cl_Premiere req \<or> cl_Vodup req \<longrightarrow> cl_LectureHallId req = ''0''" and "\<And>p. \<not> os_fault e p"
    and "ID course \<noteq> 0" and "Course_BeforeSave course = None" and "fault (dbe e) ''UpdateCourse'' = None"
  shows "\<exists>db0 ss db'. next_stream db0 = next_stream db \<and>
     save_streams (now_of e) (ID course) (Streams course @ new_lectures e course req (word_of_int hall)) db0 = (ss, db') \<and>
     createLecture e t (Some req) db =
       ((if cl_AdHoc req then [Spawn ''NotifyWorkers''] else []) @
          [Reply StatusOK (filter (\<lambda>i. i \<notin> ID ` set (Streams course)) (map ID ss))], Clear db')"
proof -
  let ?ls = "new_lectures e course req (word_of_int hall)"
  let ?c = "course\<lparr>Streams := Streams course @ ?ls\<rparr>"
  let ?db0 = "update_course (ID course) (nz_course (now_of e) ?c) (audit_lectures e t course ?ls db)"
  obtain ss db' where s: "save_streams (now_of e) (ID course) (Streams course @ ?ls) ?db0 = (ss, db')" by fastforce
  have "Course_BeforeSave ?c = None" using assms(6) by (simp add: Course_BeforeSave_def)
  with UpdateCourse_ok [of ?c e "audit_lectures e t course ?ls db"] assms(5,7) s
  have "UpdateCourse_result e ?c (audit_lectures e t course ?ls db) = (Inr ss, Clear db')" by simp
  with assms(1-4) have "createLecture e t (Some req) db =
      ((if cl_AdHoc req then [Spawn ''NotifyWorkers''] else []) @
         [Reply StatusOK (filter (\<lambda>i. i \<notin> ID ` set (Streams course)) (map ID ss))], Clear db')"
    by (auto simp: createLecture_def handler_defs Let_def)
  with s show ?thesis by (intro exI [of _ ?db0]) auto
qed

text \<open>C26: Creating a lecture with a series of dates answers with one key per date, the last for the start itself, none of them the
  key of an older stream of the course; and under each of these keys the database has a stream of the course with the
  title, the start (two minutes from now for an ad hoc lecture), the end and, if there is more than one
  date, the common series identifier.\<close>

theorem a_series_is_stored:
  assumes "ctx_Course t = Some course" and "parse_int 32 (cl_LectureHallId req) = Some hall"
    and "cl_Premiere req \<or> cl_Vodup req \<longrightarrow> cl_LectureHallId req = ''0''" and "\<And>p. \<not> os_fault e p"
    and "ID course \<noteq> 0" and "Course_BeforeSave course = None" and "fault (dbe e) ''UpdateCourse'' = None"
    and "0 \<notin> ID ` set (Streams course)"
    and "distinct (map ID (Streams course) @ map (\<lambda>k. next_stream db + of_nat k) [0..<length (lecture_dates req)])"
  shows "last (fst (createLecture e t (Some req) db)) =
       Reply StatusOK (map (\<lambda>k. next_stream db + of_nat k) [0..<length (lecture_dates req)]) \<and>
     (\<forall>k < length (lecture_dates req). \<exists>r \<in> set (t_streams (base (snd (createLecture e t (Some req) db)))).
        lecture_row e course req (lecture_dates req ! k) (next_stream db + of_nat k) r)"
proof -
  let ?ls = "new_lectures e course req (word_of_int hall)" and ?n = "length (lecture_dates req)"
  define key where "key = (\<lambda>k. next_stream db + of_nat k)"
  from createLecture_ok [OF assms(1-7), of db] obtain db0 ss db' where s:
      "save_streams (now_of e) (ID course) (Streams course @ ?ls) db0 = (ss, db')"
    and run: "createLecture e t (Some req) db = ((if cl_AdHoc req then [Spawn ''NotifyWorkers''] else []) @
          [Reply StatusOK (filter (\<lambda>i. i \<notin> ID ` set (Streams course)) (map ID ss))], Clear db')"
    and n: "next_stream db0 = next_stream db" by auto
  let ?new = "\<lambda>j. (?ls ! j)\<lparr>CourseID := ID course, ID := key j\<rparr>"
  have ss: "ss = map (\<lambda>s. s\<lparr>CourseID := ID course\<rparr>) (Streams course) @ map ?new [0..<?n]"
    using save_streams_keys [OF assms(8) new_lectures_simps(2), of "now_of e" "ID course" e course req "word_of_int hall" db0] s n
    by (simp add: new_lectures_simps(1) key_def del: upt_Suc)
  have ids: "map ID ss = map ID (Streams course) @ map key [0..<?n]" by (simp add: ss comp_def)
  have dist: "distinct (map ID ss)" using assms(9) unfolding ids key_def .
  have "filter (\<lambda>i. i \<notin> ID ` set (Streams course)) (map ID ss) = map key [0..<?n]"
    using assms(9) unfolding ids key_def by (auto simp: filter_empty_conv filter_id_conv)
  then have answer: "last (fst (createLecture e t (Some req) db)) = Reply StatusOK (map key [0..<?n])" by (simp add: run)
  have "\<exists>r \<in> set (t_streams (base db')). lecture_row e course req (lecture_dates req ! k) (key k) r" if "k < ?n" for k
  proof -
    from new_lectures_simps(3) [OF that, of e course "word_of_int hall"] obtain p where
      l: "?ls ! k = new_lecture e course req (word_of_int hall) p (?n > 1) (k + 1) (lecture_dates req ! k)" ..
    have "CreatedAt (stream_columns (?new k)) = zero_time" by (simp add: l new_lecture_def zero_Stream_def)
    moreover have "?new k \<in> set ss" using that by (auto simp: ss)
    ultimately obtain r c where "r \<in> set (foldl (upsert (now_of e)) (t_streams (base db0)) (map stream_columns ss))"
        and "r = (stream_columns (?new k))\<lparr>CreatedAt := c, UpdatedAt := now_of e\<rparr>"
      using foldl_upsert_stores [of "map stream_columns ss" "stream_columns (?new k)" "now_of e" "t_streams (base db0)"] dist
      by (auto simp: comp_def)
    with save_streams_rows [of "now_of e" "ID course" "Streams course @ ?ls" db0] s stored_lecture l show ?thesis
      by (intro bexI [of _ r]) auto
  qed
  with answer show ?thesis by (simp add: run key_def)
qed

definition two_dates :: createLectureRequest where
  "two_dates = \<lparr>cl_Title = ''Intro'', cl_LectureHallId = ''0'', cl_Start = 5000 * Second, cl_Duration = 90, cl_ChatEnabled = True,
     cl_Premiere = False, cl_Vodup = False, cl_AdHoc = False, cl_DateSeries = [3000 * Second]\<rparr>"

theorem a_series_is_stored_witness:
  "last (fst (createLecture calm_env in_course (Some two_dates) (with_rows [] [demo_row] []))) = Reply StatusOK [100, 101]"
proof -
  have h: "parse_int 32 (cl_LectureHallId two_dates) = Some 0" by code_simp
  have b: "Course_BeforeSave demo_row = None" by code_simp
  have d: "length (lecture_dates two_dates) = 2" by (simp add: lecture_dates_def two_dates_def)
  have "[0..<2] = [0, 1 :: nat]" by (simp add: upt_rec)
  with a_series_is_stored [OF _ h _ _ _ b, of in_course calm_env "with_rows [] [demo_row] []"] show ?thesis
    unfolding d by (simp add: in_course_def two_dates_def calm_env_def demo_row_def zero_Course_def)
qed

subsection \<open>A new course\<close>

lemma CreateCourse_row:
  assumes "CreateCourse_result e course db = (Inr c, db')" and "ID course = 0" and "Streams course = []"
  shows "c = stamp (now_of e) (course_defaults (course\<lparr>ID := next_course db\<rparr>))"
    and "t_courses (base db') = t_courses (base db) @ [(course_columns c)\<lparr>DeletedAt := DeletedAt course\<rparr>]"
    and "course_admins db' = course_admins db @ map (\<lambda>u. (u, ID c)) (Admins course)"
    and "t_users db' = t_users db" and "slug_cache db' = Map.empty"
  using assms
  by (auto simp: CreateCourse_result_def CreateCourse_def Let_def stamp_def course_defaults_def course_columns_def
      split: option.splits if_splits)

lemma slug_query_inv:
  assumes "GetCourseBySlugYearAndTerm e slug term year db = (Inl err, db')"
  shows "db' = db" and "fault e ''GetCourseBySlugYearAndTerm'' = None \<Longrightarrow> course_by_slug db slug term year = None"
  using assms by (auto simp: GetCourseBySlugYearAndTerm_def Let_def row_query_def split: option.splits)

lemma slug_query_empty:
  assumes "GetCourseBySlugYearAndTerm e slug term year db = (Inr c, db')" and "slug_cache db = Map.empty"
  shows "fault e ''GetCourseBySlugYearAndTerm'' = None" and "course_by_slug db slug term year = Some c"
    and "course_by_slug db' slug term year = Some c"
proof -
  have upd: "course_by_slug (db\<lparr>slug_cache := x\<rparr>) slug term year = course_by_slug db slug term year" for x
    by (simp add: course_by_slug_def course_streams_def with_units_desc_def with_sections_def comp_def)
  show "fault e ''GetCourseBySlugYearAndTerm'' = None" "course_by_slug db slug term year = Some c"
    "course_by_slug db' slug term year = Some c"
    using assms by (auto simp: GetCourseBySlugYearAndTerm_def Let_def row_query_def lookup_cache_def upd split: option.splits)
qed

lemma course_by_slug_new:
  assumes "course_by_slug db slug term year = None" and "course_by_slug db' slug term year = Some c"
    and "t_courses (base db') = t_courses (base db) @ [row]"
  shows "ID c = ID row" "course_UserID c = course_UserID row" "course_Name c = course_Name row" "VODEnabled c = VODEnabled row"
    "set (Admins c) = {u. (u, ID row) \<in> set (course_admins db') \<and> list_ex (\<lambda>r. ID r = u \<and> live_row r) (t_users db')}"
  using assms
  by (auto simp: course_by_slug_def find_append list_ex_iff split: if_splits option.splits) force+

lemma store_course_found:
  assumes "Reply StatusCreated i \<in> set (fst (store_course e t course db))" and "course_by_slug db (Slug course) (course_TeachingTerm course) (course_Year course) = None"
    and "ID course = 0" and "Streams course = []" and "list_ex (\<lambda>r. ID r = u \<and> live_row r) (t_users db)"
  shows "\<exists>c. course_by_slug (snd (store_course e t course db)) (Slug course) (course_TeachingTerm course) (course_Year course) = Some c \<and>
     ID c = i \<and> course_UserID c = course_UserID course \<and> course_Name c = course_Name course \<and> VODEnabled c \<and>
     (u \<in> set (Admins course) \<longrightarrow> u \<in> set (Admins c))"
proof -
  let ?q = "GetCourseBySlugYearAndTerm (dbe e) (Slug course) (course_TeachingTerm course) (course_Year course)"
  define db0 where "db0 = snd (AuditDao_Create (dbe e) (ctx_User t) (create_audit course) AuditCourseCreate db)"
  have db0: "t_users db0 = t_users db" "course_by_slug db0 = course_by_slug db"
    unfolding db0_def
    by (cases "fault (dbe e) ''AuditCreate''"; simp add: fun_eq_iff AuditDao_Create_def api_exec_def course_by_slug_def
        course_streams_def with_units_desc_def with_sections_def comp_def)+
  obtain res db1 where cr: "CreateCourse_result e course db0 = (res, db1)" by fastforce
  with assms(1) obtain c1 where res: "res = Inr c1"
    by (cases res) (auto simp: store_course_def audits_def handler_defs db0_def [symmetric])
  obtain r db2 where q: "?q db1 = (r, db2)" by fastforce
  with assms(1) cr res obtain c where c: "r = Inr c" "ID c = i"
    by (cases r) (auto simp: store_course_def audits_def handler_defs db0_def [symmetric])
  have run: "snd (store_course e t course db) = db2"
    using cr res q c by (simp add: store_course_def audits_def handler_defs db0_def [symmetric])
  note row = CreateCourse_row [OF cr [unfolded res] assms(3,4)]
  note found = slug_query_empty(2,3) [OF q [unfolded c(1)] row(5)]
  have none: "course_by_slug db0 (Slug course) (course_TeachingTerm course) (course_Year course) = None"
    using assms(2) by (simp add: db0)
  note new = course_by_slug_new [OF none found(1) row(2)]
  show ?thesis
    using found(2) new c(2) row(1,3,4) assms(5) db0
    by (auto simp: run stamp_def course_defaults_def course_columns_def)
qed

text \<open>The semester that the text of a request names: the texts the form sends, and what the code reads from any text.\<close>

definition semester_text :: "bool \<Rightarrow> string \<Rightarrow> string \<Rightarrow> string" where
  "semester_text winter y z = (if winter then ''Wintersemester '' @ y @ ''/'' @ z else ''Sommersemester '' @ y)"

definition reads_semester :: "string \<Rightarrow> int \<Rightarrow> string \<Rightarrow> bool" where
  "reads_semester s year tm \<longleftrightarrow>
     (\<exists>y. first_year s = Some y \<and> atoi y = Some year) \<and>
     (contains s ''Wintersemester'' \<longrightarrow> tm = ''W'') \<and> (\<not> contains s ''Wintersemester'' \<longrightarrow> tm = ''S'')"

lemma first_year_tail: "length y = 4 \<Longrightarrow> list_all is_digit y \<Longrightarrow> \<exists>x. first_year (s @ y @ z) = Some x"
proof (induction s)
  case Nil
  then obtain a b c d where "y = [a, b, c, d]" by (auto simp: length_Suc_conv numeral_eq_Suc)
  with Nil show ?case by simp
qed simp

lemma first_year_digits: "first_year s = Some y \<Longrightarrow> length y = 4 \<and> list_all is_digit y"
  by (induction s) (auto split: if_splits)

lemma atoi_year:
  assumes "length y = 4" and "list_all is_digit y"
  shows "\<exists>i. atoi y = Some i"
proof -
  have digit: "\<exists>d < 10. digit_val c = Some d \<and> c \<noteq> CHR ''-'' \<and> c \<noteq> CHR ''+''" if "is_digit c" for c
    using that by (auto simp: is_digit_def digit_val_def Let_def split: if_splits)
  obtain a b c d where y: "y = [a, b, c, d]" using assms(1) by (auto simp: length_Suc_conv numeral_eq_Suc)
  with assms(2) digit obtain p q r t where "digit_val a = Some p" "digit_val b = Some q" "digit_val c = Some r" "digit_val d = Some t"
    "p < 10" "q < 10" "r < 10" "t < 10" "a \<noteq> CHR ''-''" "a \<noteq> CHR ''+''" by (simp, metis)
  then show ?thesis by (simp add: y atoi_def parse_int_def Let_def)
qed

lemma term_regex_year: "term_regex s \<Longrightarrow> \<exists>y. first_year s = Some y"
proof -
  assume "term_regex s"
  then obtain k where k: "term_tail (drop k s)" unfolding term_regex_def list_ex_iff by blast
  define r where "r = drop k s"
  have "length (take 4 (drop 15 r)) = 4" "list_all is_digit (take 4 (drop 15 r))"
    using k by (auto simp: r_def term_tail_def)
  moreover have "s = (take k s @ take 15 r) @ take 4 (drop 15 r) @ drop 4 (drop 15 r)"
    by (simp only: append.assoc append_take_drop_id r_def)
  ultimately show ?thesis using first_year_tail by metis
qed

text \<open>The texts of the form name the semester one expects.\<close>

lemma reads_semester_text:
  assumes "reads_semester (semester_text winter y z) year tm" and "length y = 4" and "list_all is_digit y"
  shows "atoi y = Some year \<and> tm = (if winter then ''W'' else ''S'')"
proof -
  obtain a b c d where y: "y = [a, b, c, d]" using assms(2) by (auto simp: length_Suc_conv numeral_eq_Suc)
  have letters: "\<not> is_digit CHR ''W''" "\<not> is_digit CHR ''i''" "\<not> is_digit CHR ''n''" "\<not> is_digit CHR ''t''"
    "\<not> is_digit CHR ''e''" "\<not> is_digit CHR ''r''" "\<not> is_digit CHR ''s''" "\<not> is_digit CHR ''m''"
    "\<not> is_digit CHR ''o''" "\<not> is_digit CHR ''S''" "\<not> is_digit CHR '' ''"
    by code_simp+
  have digits: "is_digit a" "is_digit b" "is_digit c" "is_digit d" using assms(3) y by simp_all
  then have W: "a \<noteq> CHR ''W''" "b \<noteq> CHR ''W''" "c \<noteq> CHR ''W''" "d \<noteq> CHR ''W''" using letters by metis+
  show ?thesis
    using assms(1) y W letters digits by (cases winter) (auto simp: reads_semester_def semester_text_def has_prefix_def)
qed

lemma reads_semester_texts:
  assumes "reads_semester s year tm"
  shows "\<forall>winter y z. s = semester_text winter y z \<and> length y = 4 \<and> list_all is_digit y \<longrightarrow>
     atoi y = Some year \<and> tm = (if winter then ''W'' else ''S'')"
proof (intro allI impI)
  fix winter y z
  assume t: "s = semester_text winter y z \<and> length y = 4 \<and> list_all is_digit y"
  with assms have "reads_semester (semester_text winter y z) year tm" by simp
  then show "atoi y = Some year \<and> tm = (if winter then ''W'' else ''S'')" by (rule reads_semester_text) (use t in simp_all)
qed

lemma reads_requested:
  assumes "term_regex s"
  shows "reads_semester s (atoi_or_0 (case first_year s of None \<Rightarrow> [] | Some y \<Rightarrow> y))
     (if contains s ''Wintersemester'' then ''W'' else ''S'')"
  using term_regex_year [OF assms] atoi_year first_year_digits by (fastforce simp: reads_semester_def atoi_or_0_def)

text \<open>C27: A course that \<open>createCourse\<close> says it created is found under the slug of the request and the semester that its text
  names, with the key that was answered: the year is the first four digits of the text, the term is that of the winter
  if it contains \<^verbatim>\<open>Wintersemester\<close> and of the summer otherwise; in particular \<^verbatim>\<open>Wintersemester 2023/24\<close> is
  2023 W and \<^verbatim>\<open>Sommersemester 2024\<close> is 2024 S. The course belongs to the user who asked, who administers it unless they
  administer the whole site; and its recordings are enabled, whatever the request asked for.\<close>

theorem a_new_course_is_found:
  assumes "Reply StatusCreated i \<in> set (fst (createCourse e t (Some req) db))" and "ctx_User t = Some u"
    and "list_ex (\<lambda>r. ID r = ID u \<and> live_row r) (t_users db)"
  shows "\<exists>year tm c. course_by_slug (snd (createCourse e t (Some req) db)) (cc_Slug req) tm year = Some c \<and>
     reads_semester (cc_TeachingTerm req) year tm \<and>
     (\<forall>winter y z. cc_TeachingTerm req = semester_text winter y z \<and> length y = 4 \<and> list_all is_digit y \<longrightarrow>
        atoi y = Some year \<and> tm = (if winter then ''W'' else ''S'')) \<and>
     ID c = i \<and> course_UserID c = ID u \<and> course_Name c = cc_Name req \<and> VODEnabled c \<and>
     (Role u \<noteq> AdminType \<longrightarrow> ID u \<in> set (Admins c))"
proof -
  define year where "year = atoi_or_0 (case first_year (cc_TeachingTerm req) of None \<Rightarrow> [] | Some y \<Rightarrow> y)"
  define trm where "trm = (if contains (cc_TeachingTerm req) ''Wintersemester'' then ''W'' else ''S'')"
  let ?c = "requested_course req u year trm"
  obtain r db1 where q: "GetCourseBySlugYearAndTerm (dbe e) (cc_Slug req) trm year db = (r, db1)" by fastforce
  with assms(1,2) obtain err where r: "r = Inl err" "createCourse e t (Some req) db = store_course e t ?c db1"
      and valid: "term_regex (cc_TeachingTerm req)"
    by (cases r) (auto simp: createCourse_def handler_defs Let_def year_def trm_def split: if_splits)
  from reads_requested [OF valid] have reads: "reads_semester (cc_TeachingTerm req) year trm"
    by (simp add: year_def trm_def)
  have c: "Slug ?c = cc_Slug req" "course_TeachingTerm ?c = trm" "course_Year ?c = year" "ID ?c = 0" "Streams ?c = []"
    "course_UserID ?c = ID u" "course_Name ?c = cc_Name req" "Role u \<noteq> AdminType \<Longrightarrow> ID u \<in> set (Admins ?c)"
    by (simp_all add: requested_course_def zero_Course_def)
  have "fault (dbe e) ''GetCourseBySlugYearAndTerm'' = None"
    using assms(1) unfolding r(2)
    by (auto simp: store_course_def audits_def handler_defs GetCourseBySlugYearAndTerm_def Let_def row_query_def lookup_cache_def
        dest: CreateCourse_row(5) [OF _ c(4,5)] split: option.splits sum.splits prod.splits)
  with slug_query_inv [OF q [unfolded r(1)]] have "db1 = db" "course_by_slug db (cc_Slug req) trm year = None" by simp_all
  have stored: "snd (createCourse e t (Some req) db) = snd (store_course e t ?c db)"
      "Reply StatusCreated i \<in> set (fst (store_course e t ?c db))"
    using assms(1) r(2) \<open>db1 = db\<close> by simp_all
  have "\<exists>c. course_by_slug (snd (createCourse e t (Some req) db)) (cc_Slug req) trm year = Some c \<and>
     ID c = i \<and> course_UserID c = ID u \<and> course_Name c = cc_Name req \<and> VODEnabled c \<and>
     (Role u \<noteq> AdminType \<longrightarrow> ID u \<in> set (Admins c))"
    using store_course_found [OF stored(2), of "ID u"] \<open>course_by_slug db (cc_Slug req) trm year = None\<close> assms(3) c
    unfolding stored(1) by auto
  with reads reads_semester_texts [OF reads] show ?thesis by blast
qed

definition new_course_request :: createCourseRequest where
  "new_course_request = \<lparr>cc_Access = ''public'', cc_CourseID = [], cc_EnChat = False, cc_EnDL = False, cc_EnVOD = False,
     cc_Name = ''KI'', cc_Slug = ''ki'', cc_TeachingTerm = ''Wintersemester 2023/24'', cc_Lang = ''de''\<rparr>"

definition as_lecturer :: TUMLiveContext where
  "as_lecturer = empty_tum\<lparr>ctx_User := Some (zero_User\<lparr>ID := 1, Role := LecturerType\<rparr>)\<rparr>"

definition one_user :: api_db where
  "one_user = with_rows [zero_User\<lparr>ID := 1\<rparr>] [] []"

theorem a_new_course_is_found_witness:
  "\<exists>c. course_by_slug (snd (createCourse calm_env as_lecturer (Some new_course_request) one_user)) ''ki'' ''W'' 2023 =
     Some c \<and> ID c = 100 \<and> VODEnabled c \<and> 1 \<in> set (Admins c)"
proof -
  have "list_ex (\<lambda>a. case a of Reply n i \<Rightarrow> n = StatusCreated \<and> i = 100 | _ \<Rightarrow> False)
      (fst (createCourse calm_env as_lecturer (Some new_course_request) one_user))"
    by code_simp
  then obtain x where "x \<in> set (fst (createCourse calm_env as_lecturer (Some new_course_request) one_user))"
      "case x of Reply n i \<Rightarrow> n = StatusCreated \<and> i = 100 | _ \<Rightarrow> False"
    unfolding list_ex_iff by blast
  then have "Reply StatusCreated 100 \<in> set (fst (createCourse calm_env as_lecturer (Some new_course_request) one_user))"
    by (cases x rule: answer.exhaust) auto
  from a_new_course_is_found [OF this, of "zero_User\<lparr>ID := 1, Role := LecturerType\<rparr>"]
  obtain year tm c where c: "course_by_slug (snd (createCourse calm_env as_lecturer (Some new_course_request) one_user)) ''ki'' tm year = Some c"
      "ID c = 100" "VODEnabled c" "1 \<in> set (Admins c)"
    and sem: "\<forall>winter y z. cc_TeachingTerm new_course_request = semester_text winter y z \<and> length y = 4 \<and> list_all is_digit y \<longrightarrow>
        atoi y = Some year \<and> tm = (if winter then ''W'' else ''S'')"
    by (simp add: as_lecturer_def one_user_def live_row_def zero_User_def LecturerType_def AdminType_def
        new_course_request_def) blast
  have digits2023: "list_all is_digit ''2023''" by code_simp
  have "atoi ''2023'' = Some year \<and> tm = ''W''"
    using sem [rule_format, of True "''2023''" "''24''"] by (simp add: new_course_request_def semester_text_def digits2023 [simplified])
  moreover have "atoi ''2023'' = Some 2023" by code_simp
  ultimately show ?thesis using c by auto
qed

end
