(* ===== verification/Dao_Users.thy ===== *)
theory Dao_Users
  imports Dao_Cache
begin

text \<open>
  The rest of \<^verbatim>\<open>src/dao/users.go\<close>: searching users, the links for setting a password, and the users
  that the university's systems report; and the queries of \<^verbatim>\<open>progress.go\<close> and \<^verbatim>\<open>chat.go\<close> by
  user. A user is looked up by the matriculation number, which a row without one does not match (it is NULL).
  The lemmas give what a report does to the table of users.
\<close>

subsection \<open>Searching\<close>

text \<open>\<open>matches p s\<close> is the database's \<^verbatim>\<open>UPPER(s) LIKE UPPER(p)\<close>; a column that is NULL does not match.\<close>

definition user_matches :: "(string \<Rightarrow> string \<Rightarrow> bool) \<Rightarrow> string \<Rightarrow> User \<Rightarrow> bool" where
  "user_matches matches query u =
     (let q = ''%'' @ query @ ''%''
      in matches q (LrzID u) \<or> (case Email u of None \<Rightarrow> False | Some m \<Rightarrow> matches q m) \<or> matches q (user_Name u))"

definition with_user_settings :: "api_db \<Rightarrow> User \<Rightarrow> User" where
  "with_user_settings db u = u\<lparr>Settings := settings_of db (ID u)\<rparr>"

definition search_users :: "db_env \<Rightarrow> string \<Rightarrow> (User \<Rightarrow> bool) \<Rightarrow> api_db \<Rightarrow> string + User list" where
  "search_users e name P db =
     row_query e name (Some (map (with_user_settings db) (take 10 (filter (\<lambda>u. P u \<and> live_row u) (t_users db)))))"

definition SearchUser :: "db_env \<Rightarrow> (string \<Rightarrow> string \<Rightarrow> bool) \<Rightarrow> string \<Rightarrow> api_db \<Rightarrow> string + User list" where
  "SearchUser e matches query = search_users e ''SearchUser'' (user_matches matches query)"

definition SearchUserWithRole ::
    "db_env \<Rightarrow> (string \<Rightarrow> string \<Rightarrow> bool) \<Rightarrow> string \<Rightarrow> uint \<Rightarrow> api_db \<Rightarrow> string + User list" where
  "SearchUserWithRole e matches query role =
     search_users e ''SearchUserWithRole'' (\<lambda>u. Role u = role \<and> user_matches matches query u)"

definition GetAllAdminsAndLecturers :: "db_env \<Rightarrow> api_db \<Rightarrow> string + User list" where
  "GetAllAdminsAndLecturers e db =
     row_query e ''GetAllAdminsAndLecturers''
       (Some (map (with_user_settings db) (filter (\<lambda>u. Role u < 3 \<and> live_row u) (t_users db))))"

subsection \<open>Links for a password\<close>

definition link_row :: "api_db \<Rightarrow> string \<Rightarrow> RegisterLink option" where
  "link_row db secret = List.find (\<lambda>l. RegisterSecret l = secret \<and> live_row l) (t_links db)"

definition GetUserByResetKey :: "db_env \<Rightarrow> string \<Rightarrow> api_db \<Rightarrow> string + User" where
  "GetUserByResetKey e secret db =
     (case row_query e ''GetUserByResetKey'' (link_row db secret) of
        Inl err \<Rightarrow> Inl err
      | Inr l \<Rightarrow> row_query e ''First'' (user_row db (link_UserID l)))"

definition DeleteResetKey :: "db_env \<Rightarrow> string \<Rightarrow> api_db \<Rightarrow> api_db" where
  "DeleteResetKey e secret db =
     snd (api_exec e ''DeleteResetKey''
       (\<lambda>db. db\<lparr>t_links := soft_delete (clock e) (\<lambda>l. RegisterSecret l = secret) (t_links db)\<rparr>) db)"

subsection \<open>Users of the university\<close>

definition user_by_matriculation :: "api_db \<Rightarrow> string \<Rightarrow> User option" where
  "user_by_matriculation db m = List.find (\<lambda>u. m \<noteq> [] \<and> MatriculationNumber u = m \<and> live_row u) (t_users db)"

text \<open>
  The error of the creation is wrapped even when there is none, so creating a user is always reported as an error.
  An update keeps the last name and the address of the stored user.
\<close>

definition UpsertUser :: "db_env \<Rightarrow> User \<Rightarrow> api_db \<Rightarrow> (string option \<times> User) \<times> api_db" where
  "UpsertUser e user db =
     (case row_query e ''UpsertUser'' (user_by_matriculation db (MatriculationNumber user)) of
        Inl err \<Rightarrow>
          if err = Dao_Streams.not_found then
            (case CreateUser e user db of ((err, user), db) \<Rightarrow>
               ((Some (''create user failed: '' @ (case err of None \<Rightarrow> ''%!w(<nil>)'' | Some err \<Rightarrow> err)), user), db))
          else ((Some (''lookup user by matriculation_number failed: '' @ err), user), db)
      | Inr found \<Rightarrow>
          (let user = user\<lparr>ID := ID found, CreatedAt := CreatedAt found, UpdatedAt := UpdatedAt found,
                           DeletedAt := DeletedAt found\<rparr>;
               changed = found\<lparr>LrzID := LrzID user, user_Name := user_Name user,
                               Role := (if Role user \<noteq> 0 then Role user else Role found), UpdatedAt := clock e\<rparr>
           in case api_exec e ''SaveUser''
                     (\<lambda>db. db\<lparr>t_users := map (\<lambda>r. if ID r = ID found \<and> live_row r then changed else r) (t_users db)\<rparr>) db of
                (Some err, db) \<Rightarrow> ((Some (''update user failed: '' @ err), user), db)
              | (None, db) \<Rightarrow> ((None, user), db)))"

text \<open>
  Users that are not known are created without a name of their own; a row whose number or address is taken, even
  by a deleted user, is skipped. A list that is empty is an error of \<^verbatim>\<open>Create\<close>.
\<close>

definition stub_user :: "string \<Rightarrow> User" where
  "stub_user m = zero_User\<lparr>MatriculationNumber := m, user_Name := ''Unbekannt'', Role := StudentType\<rparr>"

definition insert_stub :: "db_env \<Rightarrow> api_db \<Rightarrow> string \<Rightarrow> api_db" where
  "insert_stub e db m =
     (if list_ex (user_conflict (stub_user m)) (t_users db) then db
      else db\<lparr>t_users := t_users db @ [stamp (clock e) ((stub_user m)\<lparr>ID := next_user db\<rparr>)],
              next_user := next_user db + 1\<rparr>)"

definition AddUsersToCourseByTUMIDs :: "db_env \<Rightarrow> string list \<Rightarrow> uint \<Rightarrow> api_db \<Rightarrow> string option \<times> api_db" where
  "AddUsersToCourseByTUMIDs e ms courseID db =
     (if ms = [] then (Some ''empty slice found'', db)
      else case api_exec e ''CreateStubs'' (\<lambda>db. foldl (insert_stub e) db ms) db of
        (Some err, db) \<Rightarrow> (Some err, db)
      | (None, db) \<Rightarrow>
        (case row_query e ''FindStubs''
                (Some (map ID (filter (\<lambda>u. MatriculationNumber u \<noteq> [] \<and> MatriculationNumber u \<in> set ms \<and> live_row u)
                                      (t_users db)))) of
           Inl err \<Rightarrow> (Some err, db)
         | Inr ids \<Rightarrow>
             if ids = [] then (Some ''empty slice found'', db)
             else api_exec e ''AddCourseUsers''
               (\<lambda>db. db\<lparr>course_users := foldl (\<lambda>ls i. if (i, courseID) \<in> set ls then ls else ls @ [(i, courseID)])
                                               (course_users db) ids\<rparr>) db))"

subsection \<open>What is stored about a user\<close>

definition GetProgressesForUser :: "db_env \<Rightarrow> uint \<Rightarrow> api_db \<Rightarrow> string + StreamProgress list" where
  "GetProgressesForUser e i db =
     row_query e ''GetProgressesForUser'' (Some (filter (\<lambda>p. prog_UserID p = i) (t_views db)))"

text \<open>The user of a chat is a column of text.\<close>

definition GetChatsByUser :: "db_env \<Rightarrow> uint \<Rightarrow> api_db \<Rightarrow> string + Chat list" where
  "GetChatsByUser e i db =
     row_query e ''GetChatsByUser'' (Some (filter (\<lambda>c. chat_UserID c = itoa (Word.uint i) \<and> live_row c) (t_chats db)))"

end
