(* ===== verification/Password.thy ===== *)
theory Password
  imports Dao_Api
begin

text \<open>
  The passwords of \<^verbatim>\<open>src/model/user.go\<close>: how a password is hashed, stored as one string and compared.
  The parameters of the hash are a variable of the package, which reading a stored hash overwrites, so they are
  a state here. Argon2 and the random source are arguments; base64, \<^verbatim>\<open>Split\<close> and \<^verbatim>\<open>Sscanf\<close> are written out.
  The lemmas show that what is printed reads back, so that a password that was set is accepted.
\<close>

subsection \<open>base64 without padding\<close>

definition b64_alphabet :: string where
  "b64_alphabet = ''ABCDEFGHIJKLMNOPQRSTUVWXYZabcdefghijklmnopqrstuvwxyz0123456789+/''"

definition b64_char :: "nat \<Rightarrow> char" where
  "b64_char n = b64_alphabet ! n"

definition b64_val :: "char \<Rightarrow> nat option" where
  "b64_val c = List.find (\<lambda>n. b64_alphabet ! n = c) [0..<64]"

definition byte :: "char \<Rightarrow> nat" where
  "byte c = of_char c"

fun b64_encode :: "string \<Rightarrow> string" where
  "b64_encode (a # b # c # s) =
     (let n = byte a * 65536 + byte b * 256 + byte c
      in b64_char (n div 262144) # b64_char (n div 4096 mod 64) # b64_char (n div 64 mod 64) # b64_char (n mod 64) #
         b64_encode s)"
| "b64_encode [a, b] =
     (let n = (byte a * 256 + byte b) * 4
      in [b64_char (n div 4096), b64_char (n div 64 mod 64), b64_char (n mod 64)])"
| "b64_encode [a] = (let n = byte a * 16 in [b64_char (n div 64), b64_char (n mod 64)])"
| "b64_encode [] = []"

text \<open>Four characters are three bytes; at the end two are one and three are two, and one alone is an error.\<close>

fun b64_groups :: "nat list \<Rightarrow> string option" where
  "b64_groups (w # x # y # z # s) =
     (let n = ((w * 64 + x) * 64 + y) * 64 + z
      in map_option (\<lambda>t. char_of (n div 65536) # char_of (n div 256 mod 256) # char_of (n mod 256) # t) (b64_groups s))"
| "b64_groups [x, y, z] =
     (let n = ((x * 64 + y) * 64 + z) div 4 in Some [char_of (n div 256), char_of (n mod 256)])"
| "b64_groups [x, y] = Some [char_of ((x * 64 + y) div 16)]"
| "b64_groups [x] = None"
| "b64_groups [] = Some []"

text \<open>The decoder skips line ends.\<close>

definition b64_decode :: "string \<Rightarrow> string option" where
  "b64_decode s =
     Option.bind (those (map b64_val (filter (\<lambda>c. c \<noteq> char_of (10 :: nat) \<and> c \<noteq> char_of (13 :: nat)) s))) b64_groups"

lemma b64_char_val: "n < 64 \<Longrightarrow> b64_val (b64_char n) = Some n"
proof -
  have "list_all (\<lambda>n. b64_val (b64_char n) = Some n) [0..<64]" by code_simp
  then show "n < 64 \<Longrightarrow> b64_val (b64_char n) = Some n" by (simp add: list_all_iff)
qed

lemma b64_char_plain: "n < 64 \<Longrightarrow> b64_char n \<noteq> CHR ''$'' \<and> b64_char n \<noteq> char_of (10 :: nat) \<and> b64_char n \<noteq> char_of (13 :: nat)"
proof -
  have "list_all (\<lambda>n. b64_char n \<noteq> CHR ''$'' \<and> b64_char n \<noteq> char_of (10 :: nat) \<and> b64_char n \<noteq> char_of (13 :: nat)) [0..<64]"
    by code_simp
  then show "n < 64 \<Longrightarrow> b64_char n \<noteq> CHR ''$'' \<and> b64_char n \<noteq> char_of (10 :: nat) \<and> b64_char n \<noteq> char_of (13 :: nat)"
    by (simp add: list_all_iff)
qed

lemma byte_less [simp]: "byte c < 256"
  by (simp add: byte_def)

lemma char_of_byte [simp]: "char_of (byte c) = c"
  by (simp add: byte_def)

lemma digits64: "((n div 262144 * 64 + n div 4096 mod 64) * 64 + n div 64 mod 64) * 64 + n mod 64 = (n :: nat)"
proof -
  have "n div 4096 = n div 64 div 64" "n div 262144 = n div 64 div 64 div 64" by (simp_all add: div_mult2_eq)
  then show ?thesis by simp
qed

lemma those_map_Some: "(\<And>x. x \<in> set xs \<Longrightarrow> f (g x) = Some x) \<Longrightarrow> those (map f (map g xs)) = Some xs"
  by (induction xs) simp_all

text \<open>The values of the characters that are printed.\<close>

fun b64_nats :: "string \<Rightarrow> nat list" where
  "b64_nats (a # b # c # s) =
     (let n = byte a * 65536 + byte b * 256 + byte c in n div 262144 # n div 4096 mod 64 # n div 64 mod 64 # n mod 64 # b64_nats s)"
| "b64_nats [a, b] = (let n = (byte a * 256 + byte b) * 4 in [n div 4096, n div 64 mod 64, n mod 64])"
| "b64_nats [a] = (let n = byte a * 16 in [n div 64, n mod 64])"
| "b64_nats [] = []"

lemma b64_encode_nats: "b64_encode s = map b64_char (b64_nats s)"
  by (induction s rule: b64_encode.induct) (simp_all add: Let_def)

lemma b64_nats_less: "n \<in> set (b64_nats s) \<Longrightarrow> n < 64"
proof (induction s rule: b64_nats.induct)
  case (1 a b c s)
  have "byte a * 65536 + byte b * 256 + byte c < 64 * 262144"
    using byte_less [of a] byte_less [of b] byte_less [of c] by linarith
  then have "(byte a * 65536 + byte b * 256 + byte c) div 262144 < 64" by (intro less_mult_imp_div_less)
  with 1 show ?case by (auto simp: Let_def)
next
  case (2 a b)
  have "(byte a * 256 + byte b) * 4 < 64 * 4096" using byte_less [of a] byte_less [of b] by arith
  then have "(byte a * 256 + byte b) * 4 div 4096 < 64" by (intro less_mult_imp_div_less)
  with 2 show ?case by (auto simp: Let_def)
next
  case (3 a)
  have "byte a * 16 < 64 * 64" using byte_less [of a] by linarith
  then have "byte a * 16 div 64 < 64" by (intro less_mult_imp_div_less)
  with 3 show ?case by (auto simp: Let_def)
qed simp

lemma b64_plain: "c \<in> set (b64_encode s) \<Longrightarrow> c \<noteq> CHR ''$'' \<and> c \<noteq> char_of (10 :: nat) \<and> c \<noteq> char_of (13 :: nat)"
  unfolding b64_encode_nats using b64_nats_less b64_char_plain by fastforce

lemma bytes3:
  "b < 256 \<Longrightarrow> c < 256 \<Longrightarrow> (a * 65536 + b * 256 + c) div 65536 = (a :: nat)"
  "b < 256 \<Longrightarrow> c < 256 \<Longrightarrow> (a * 65536 + b * 256 + c) div 256 mod 256 = b"
  "b < 256 \<Longrightarrow> c < 256 \<Longrightarrow> (a * 65536 + b * 256 + c) mod 256 = c"
proof -
  assume less: "b < 256" "c < 256"
  have eq: "a * 65536 + b * 256 + c = (a * 256 + b) * 256 + c" by simp
  have tail: "((a * 256 + b) * 256 + c) div 256 = a * 256 + b" using less by simp
  have "((a * 256 + b) * 256 + c) div 65536 = ((a * 256 + b) * 256 + c) div 256 div 256" by (simp add: div_mult2_eq [symmetric])
  also have "\<dots> = a" unfolding tail using less by simp
  finally show "(a * 65536 + b * 256 + c) div 65536 = a" unfolding eq .
  show "(a * 65536 + b * 256 + c) div 256 mod 256 = b" unfolding eq tail using less by simp
  show "(a * 65536 + b * 256 + c) mod 256 = c" unfolding eq using less by (simp del: distrib_right_numeral)
qed

lemma b64_groups_nats: "b64_groups (b64_nats s) = Some s"
proof (induction s rule: b64_nats.induct)
  case (1 a b c s)
  define n where "n = byte a * 65536 + byte b * 256 + byte c"
  have "n div 65536 = byte a" "n div 256 mod 256 = byte b" "n mod 256 = byte c"
    using byte_less [of a] byte_less [of b] byte_less [of c] unfolding n_def by (simp_all add: bytes3)
  moreover have "b64_groups (b64_nats (a # b # c # s)) =
      map_option (\<lambda>t. char_of (n div 65536) # char_of (n div 256 mod 256) # char_of (n mod 256) # t) (b64_groups (b64_nats s))"
    unfolding b64_nats.simps b64_groups.simps Let_def n_def [symmetric] digits64 ..
  ultimately show ?case using 1 by simp
next
  case (2 a b)
  define n where "n = (byte a * 256 + byte b) * 4"
  have "n div 4096 = n div 64 div 64" by (simp add: div_mult2_eq [symmetric])
  then have "((n div 4096) * 64 + n div 64 mod 64) * 64 + n mod 64 = n" by simp
  moreover have "n div 4 = byte a * 256 + byte b" by (simp add: n_def)
  ultimately show ?case
    unfolding b64_nats.simps b64_groups.simps Let_def n_def [symmetric] by simp
next
  case (3 a)
  show ?case unfolding b64_nats.simps b64_groups.simps Let_def div_mult_mod_eq by simp
qed simp

lemma b64_roundtrip: "b64_decode (b64_encode s) = Some s"
proof -
  have "filter (\<lambda>c. c \<noteq> char_of (10 :: nat) \<and> c \<noteq> char_of (13 :: nat)) (b64_encode s) = b64_encode s"
    by (rule filter_True) (use b64_plain in blast)
  moreover have "those (map b64_val (b64_encode s)) = Some (b64_nats s)"
    unfolding b64_encode_nats by (rule those_map_Some) (use b64_nats_less b64_char_val in blast)
  ultimately show ?thesis by (simp add: b64_decode_def b64_groups_nats)
qed


subsection \<open>Sscanf\<close>

text \<open>
  \<^verbatim>\<open>%d\<close> skips blanks, of which a line end is an error, and reads as many digits as there are; what follows the
  last verb is not looked at.
\<close>

definition skip_blanks :: "string \<Rightarrow> string option" where
  "skip_blanks s =
     (let r = trim_left space_strings s
      in if char_of (10 :: nat) \<in> set (take (length s - length r) s) then None else Some r)"

definition decimal :: "char \<Rightarrow> bool" where
  "decimal c \<longleftrightarrow> digit_val c \<noteq> None"

definition scan_uint :: "nat \<Rightarrow> string \<Rightarrow> (nat \<times> string) option" where
  "scan_uint bits s =
     (case skip_blanks s of
        None \<Rightarrow> None
      | Some r \<Rightarrow>
          if takeWhile decimal r = [] then None
          else case parse_digits 0 (takeWhile decimal r) of
                 None \<Rightarrow> None
               | Some n \<Rightarrow> if n < 2 ^ bits then Some (n, dropWhile decimal r) else None)"

definition scan_int :: "string \<Rightarrow> (int \<times> string) option" where
  "scan_int s =
     (case skip_blanks s of
        None \<Rightarrow> None
      | Some r \<Rightarrow>
          (let sign = takeWhile (\<lambda>c. c = CHR ''+'' \<or> c = CHR ''-'') (take 1 r);
               digits = takeWhile decimal (drop (length sign) r)
           in if digits = [] then None
              else case parse_int 64 (sign @ digits) of
                     None \<Rightarrow> None
                   | Some i \<Rightarrow> Some (i, dropWhile decimal (drop (length sign) r))))"

definition scan_literal :: "string \<Rightarrow> string \<Rightarrow> string option" where
  "scan_literal l s = (if has_prefix s l then Some (drop (length l) s) else None)"

lemma digit_char_decimal: "c \<in> set (nat_digits n) \<Longrightarrow> decimal c"
  using nat_digits_set digit_val_digit_char by (fastforce simp: decimal_def)

lemma digit_char_code: "d < 10 \<Longrightarrow> of_char (digit_char d) = 48 + d"
  by (simp add: digit_char_def)

lemma digit_no_blank: "decimal c \<Longrightarrow> leading_space space_strings (c # s) = None"
proof -
  assume "decimal c"
  then have "48 \<le> (of_char c :: nat)" "(of_char c :: nat) \<le> 57"
    by (auto simp: decimal_def digit_val_def Let_def split: if_splits)
  then have "\<forall>w \<in> set space_strings. \<not> has_prefix (c # s) w"
    by (auto simp: space_strings_def space_seqs_def has_prefix_iff)
  then show ?thesis by (auto simp: leading_space_def find_None_iff)
qed

lemma skip_no_blank: "decimal c \<Longrightarrow> skip_blanks (c # s) = Some (c # s)"
  by (simp add: skip_blanks_def trim_left.simps [of _ "c # s"] digit_no_blank)

lemma nat_digits_Cons: "\<exists>c cs. nat_digits n = c # cs \<and> decimal c"
  using digit_char_decimal [of _ n] by (cases "nat_digits n") auto

lemma digits_split:
  assumes "s = [] \<or> \<not> decimal (hd s)"
  shows "takeWhile decimal (nat_digits n @ s) = nat_digits n" "dropWhile decimal (nat_digits n @ s) = s"
  using assms digit_char_decimal [of _ n] by (cases s; auto simp: takeWhile_append2 dropWhile_append2)+

lemma scan_uint_digits:
  assumes "n < 2 ^ bits" and "s = [] \<or> \<not> decimal (hd s)"
  shows "scan_uint bits (nat_digits n @ s) = Some (n, s)"
proof -
  obtain c cs where "nat_digits n = c # cs" "decimal c" using nat_digits_Cons by blast
  then have "skip_blanks (nat_digits n @ s) = Some (nat_digits n @ s)" using skip_no_blank by simp
  with assms show ?thesis by (simp add: scan_uint_def digits_split parse_nat_digits)
qed

lemma scan_int_digits:
  assumes "n < 2 ^ 63" and "s = [] \<or> \<not> decimal (hd s)"
  shows "scan_int (nat_digits n @ s) = Some (int n, s)"
proof -
  obtain c cs where c: "nat_digits n = c # cs" "decimal c" using nat_digits_Cons by blast
  then have skip: "skip_blanks (nat_digits n @ s) = Some (nat_digits n @ s)" using skip_no_blank by simp
  from c have no_sign: "c \<noteq> CHR ''+''" "c \<noteq> CHR ''-''" by (auto simp: decimal_def digit_val_def)
  with c have sign: "takeWhile (\<lambda>c. c = CHR ''+'' \<or> c = CHR ''-'') (take 1 (nat_digits n @ s)) = []" by simp
  have "itoa (int n) = nat_digits n" by (simp add: itoa_def)
  moreover have "int n < 2 ^ 63" using assms by simp
  ultimately have "parse_int 64 (nat_digits n) = Some (int n)" using parse_int_itoa [of 64 "int n"] by simp
  with assms skip sign show ?thesis by (simp add: scan_int_def Let_def digits_split)
qed


subsection \<open>Hashing and comparing\<close>

record argonParams =
  memory :: "32 word"
  iterations :: "32 word"
  parallelism :: "8 word"
  saltLength :: "32 word"
  keyLength :: "32 word"

definition default_params :: argonParams where
  "default_params = \<lparr>memory = 64 * 1024, iterations = 3, parallelism = 2, saltLength = 16, keyLength = 32\<rparr>"

text \<open>
  The cryptography of Go: \<open>IDKey\<close> is \<^verbatim>\<open>argon2.IDKey\<close>, which panics (None) for a time or a parallelism of 0;
  \<open>random\<close> fills that many bytes, or fails.
\<close>

record crypto =
  IDKey :: "string \<Rightarrow> string \<Rightarrow> 32 word \<Rightarrow> 32 word \<Rightarrow> 8 word \<Rightarrow> 32 word \<Rightarrow> string option"
  argon_version :: nat
  random :: "nat \<Rightarrow> string option"

definition derive :: "crypto \<Rightarrow> string \<Rightarrow> string \<Rightarrow> argonParams \<Rightarrow> string option" where
  "derive c password salt p = IDKey c password salt (iterations p) (memory p) (parallelism p) (keyLength p)"

definition generateRandomBytes :: "crypto \<Rightarrow> 32 word \<Rightarrow> string + string" where
  "generateRandomBytes c n = (case random c (unat n) of None \<Rightarrow> Inl ''no random bytes'' | Some b \<Rightarrow> Inr b)"

definition encode_hash :: "crypto \<Rightarrow> argonParams \<Rightarrow> string \<Rightarrow> string \<Rightarrow> string" where
  "encode_hash c p salt hash =
     ''$argon2id$v='' @ nat_digits (argon_version c) @ ''$m='' @ nat_digits (unat (memory p)) @ '',t='' @
     nat_digits (unat (iterations p)) @ '',p='' @ nat_digits (unat (parallelism p)) @ ''$'' @ b64_encode salt @
     ''$'' @ b64_encode hash"

definition GenerateFromPassword :: "crypto \<Rightarrow> argonParams \<Rightarrow> string \<Rightarrow> (string + string) option" where
  "GenerateFromPassword c p password =
     (case generateRandomBytes c (saltLength p) of
        Inl err \<Rightarrow> Some (Inl err)
      | Inr salt \<Rightarrow> map_option (\<lambda>hash. Inr (encode_hash c p salt hash)) (derive c password salt p))"

definition SetPassword :: "crypto \<Rightarrow> argonParams \<Rightarrow> string \<Rightarrow> User \<Rightarrow> (string option \<times> User) option" where
  "SetPassword c p password u =
     (if length password < 8 then Some (Some ''password length insufficient'', u)
      else case GenerateFromPassword c p password of
             None \<Rightarrow> None
           | Some (Inl err) \<Rightarrow> Some (Some err, u)
           | Some (Inr encoded) \<Rightarrow> Some (None, u\<lparr>Password := encoded\<rparr>))"

text \<open>
  Reading a stored hash: the parameters are assigned one after the other, so an error leaves those that were
  read. The first two fields of the split string are not looked at.
\<close>

definition ErrInvalidHash :: string where
  "ErrInvalidHash = ''the encoded hash is not in the correct format''"

definition ErrIncompatibleVersion :: string where
  "ErrIncompatibleVersion = ''incompatible version of argon2''"

definition scan_version :: "string \<Rightarrow> int option" where
  "scan_version s = map_option fst (Option.bind (scan_literal ''v='' s) scan_int)"

definition scan_params :: "string \<Rightarrow> argonParams \<Rightarrow> bool \<times> argonParams" where
  "scan_params s p =
     (case Option.bind (scan_literal ''m='' s) (scan_uint 32) of
        None \<Rightarrow> (False, p)
      | Some (m, s) \<Rightarrow>
         (let p = p\<lparr>memory := of_nat m\<rparr> in
          case Option.bind (scan_literal '',t='' s) (scan_uint 32) of
            None \<Rightarrow> (False, p)
          | Some (t, s) \<Rightarrow>
             (let p = p\<lparr>iterations := of_nat t\<rparr> in
              case Option.bind (scan_literal '',p='' s) (scan_uint 8) of
                None \<Rightarrow> (False, p)
              | Some (k, s) \<Rightarrow> (True, p\<lparr>parallelism := of_nat k\<rparr>))))"

definition decodeHash :: "crypto \<Rightarrow> string \<Rightarrow> argonParams \<Rightarrow> (string + string \<times> string) \<times> argonParams" where
  "decodeHash c encoded p =
     (case go_split encoded ''$'' of
        [v0, v1, v2, v3, v4, v5] \<Rightarrow>
          (case scan_version v2 of
             None \<Rightarrow> (Inl ''scan error'', p)
           | Some version \<Rightarrow>
             if version \<noteq> int (argon_version c) then (Inl ErrIncompatibleVersion, p)
             else let (ok, p) = scan_params v3 p in
               if \<not> ok then (Inl ''scan error'', p)
               else case b64_decode v4 of
                 None \<Rightarrow> (Inl ''illegal base64 data'', p)
               | Some salt \<Rightarrow>
                 (let p = p\<lparr>saltLength := of_nat (length salt)\<rparr> in
                  case b64_decode v5 of
                    None \<Rightarrow> (Inl ''illegal base64 data'', p)
                  | Some hash \<Rightarrow> (Inr (salt, hash), p\<lparr>keyLength := of_nat (length hash)\<rparr>)))
      | _ \<Rightarrow> (Inl ErrInvalidHash, p))"

definition ComparePasswordAndHash ::
    "crypto \<Rightarrow> string \<Rightarrow> User \<Rightarrow> argonParams \<Rightarrow> (string + bool) option \<times> argonParams" where
  "ComparePasswordAndHash c password u p =
     (if Password u = [] then (Some (Inr False), p)
      else case decodeHash c (Password u) p of
             (Inl err, p) \<Rightarrow> (Some (Inl err), p)
           | (Inr (salt, hash), p) \<Rightarrow> (map_option (\<lambda>other. Inr (hash = other)) (derive c password salt p), p))"

subsection \<open>What was hashed is recognised\<close>

lemma comma_no_digit [simp]: "\<not> decimal CHR '',''"
  by (simp add: decimal_def digit_val_def)

lemma of_nat_lengths:
  "length s = unat (n :: 32 word) \<Longrightarrow> of_nat (length s) = n"
  by simp

lemma no_dollar_digits [simp]: "CHR ''$'' \<notin> set (nat_digits n)"
  using digit_char_decimal [of "CHR ''$''" n] by (auto simp: decimal_def digit_val_def)

lemma no_dollar_b64 [simp]: "CHR ''$'' \<notin> set (b64_encode s)"
  using b64_plain by blast

lemma split_encoded:
  "go_split (encode_hash c p salt hash) ''$'' =
     [[], ''argon2id'', ''v='' @ nat_digits (argon_version c),
      ''m='' @ nat_digits (unat (memory p)) @ '',t='' @ nat_digits (unat (iterations p)) @ '',p='' @
        nat_digits (unat (parallelism p)),
      b64_encode salt, b64_encode hash]"
proof -
  have "encode_hash c p salt hash =
      join [[], ''argon2id'', ''v='' @ nat_digits (argon_version c),
        ''m='' @ nat_digits (unat (memory p)) @ '',t='' @ nat_digits (unat (iterations p)) @ '',p='' @
          nat_digits (unat (parallelism p)),
        b64_encode salt, b64_encode hash] ''$''"
    by (simp add: encode_hash_def)
  then show ?thesis by (simp only:) (rule go_split_join; auto)
qed

lemma scan_version_digits: "n < 2 ^ 63 \<Longrightarrow> scan_version (''v='' @ nat_digits n) = Some (int n)"
  using scan_int_digits [of n "[]"] by (simp add: scan_version_def scan_literal_def has_prefix_def)

lemma scan_params_digits:
  "scan_params (''m='' @ nat_digits (unat (memory p)) @ '',t='' @ nat_digits (unat (iterations p)) @ '',p='' @
      nat_digits (unat (parallelism p))) q =
   (True, q\<lparr>memory := memory p, iterations := iterations p, parallelism := parallelism p\<rparr>)"
proof -
  have "unat (memory p) < 2 ^ 32" "unat (iterations p) < 2 ^ 32" "unat (parallelism p) < 2 ^ 8"
    using unsigned_less [of "memory p"] unsigned_less [of "iterations p"] unsigned_less [of "parallelism p"] by simp_all
  then show ?thesis
    using scan_uint_digits [of "unat (parallelism p)" 8 "[]"]
    by (simp add: scan_params_def scan_literal_def has_prefix_def scan_uint_digits del: power_numeral)
qed

lemma decode_encoded:
  assumes "argon_version c < 2 ^ 63" "length salt = unat (saltLength p)" "length hash = unat (keyLength p)"
  shows "decodeHash c (encode_hash c p salt hash) q = (Inr (salt, hash), p)"
  unfolding decodeHash_def split_encoded
  using assms by (simp add: scan_version_digits [simplified] scan_params_digits [simplified] b64_roundtrip)

text \<open>
  A password that \<^verbatim>\<open>SetPassword\<close> stored is accepted afterwards, whatever the current
  parameters are, another password exactly when Argon2 derives the same key from it; and the comparison leaves the
  parameters of the stored hash behind as those of the program. The hypotheses are the documented lengths of the salt and the key.
\<close>

lemma password_roundtrip:
  assumes "SetPassword c p password u = Some (None, v)" and "argon_version c < 2 ^ 63"
    and "\<And>n b. random c n = Some b \<Longrightarrow> length b = n"
    and "\<And>s t m k n h. IDKey c password s t m k n = Some h \<Longrightarrow> length h = unat n"
  shows "\<exists>salt hash. length salt = unat (saltLength p) \<and> derive c password salt p = Some hash \<and>
    ComparePasswordAndHash c password v q = (Some (Inr True), p) \<and>
    (\<forall>other. ComparePasswordAndHash c other v q = (map_option (\<lambda>h. Inr (hash = h)) (derive c other salt p), p))"
proof -
  from assms(1) obtain salt hash where
    r: "random c (unat (saltLength p)) = Some salt" and
    h: "derive c password salt p = Some hash" and v: "v = u\<lparr>Password := encode_hash c p salt hash\<rparr>"
    by (auto simp: SetPassword_def GenerateFromPassword_def generateRandomBytes_def
             split: if_splits option.splits sum.splits)
  have l: "length salt = unat (saltLength p)" using assms(3) r .
  have "length hash = unat (keyLength p)" using assms(4) h by (simp add: derive_def)
  note dec = decode_encoded [OF assms(2) l this]
  have "ComparePasswordAndHash c other v q = (map_option (\<lambda>h. Inr (hash = h)) (derive c other salt p), p)" for other
    by (simp add: ComparePasswordAndHash_def v dec) (simp add: encode_hash_def)
  with l h show ?thesis by auto
qed


text \<open>A toy instance: the key of a password is its first bytes.\<close>

definition toy_crypto :: crypto where
  "toy_crypto =
     \<lparr>IDKey = (\<lambda>s salt t m k n. if t = 0 \<or> k = 0 then None else Some (take (unat n) (s @ replicate (unat n) CHR ''.''))),
      argon_version = 19, random = (\<lambda>n. Some (replicate n CHR ''s''))\<rparr>"

lemma password_roundtrip_witness:
  "\<exists>v. SetPassword toy_crypto default_params ''hunter22'' zero_User = Some (None, v) \<and>
     ComparePasswordAndHash toy_crypto ''hunter22'' v (default_params\<lparr>memory := 7\<rparr>) = (Some (Inr True), default_params)"
proof -
  obtain v where v: "SetPassword toy_crypto default_params ''hunter22'' zero_User = Some (None, v)"
    by (simp add: SetPassword_def GenerateFromPassword_def generateRandomBytes_def derive_def toy_crypto_def default_params_def)
  have "\<exists>salt hash. length salt = unat (saltLength default_params) \<and> derive toy_crypto ''hunter22'' salt default_params = Some hash \<and>
    ComparePasswordAndHash toy_crypto ''hunter22'' v (default_params\<lparr>memory := 7\<rparr>) = (Some (Inr True), default_params) \<and>
    (\<forall>other. ComparePasswordAndHash toy_crypto other v (default_params\<lparr>memory := 7\<rparr>) =
       (map_option (\<lambda>h. Inr (hash = h)) (derive toy_crypto other salt default_params), default_params))"
    by (rule password_roundtrip [OF v]) (auto simp: toy_crypto_def split: if_splits)
  with v show ?thesis by blast
qed

end
