(* ===== verification/User_Api.thy ===== *)
theory User_Api
  imports Dao_Users Course_Api Password
begin

text \<open>
  \<^verbatim>\<open>src/api/users.go\<close>: searching, creating, changing and deleting users, pinned courses, the settings of a
  user, the export of the stored data and the reset of a password; with the masking of \<^verbatim>\<open>src/tools/functions.go\<close>
  and the session of \<^verbatim>\<open>src/tools/session.go\<close>. A handler maps the database to what it sends and the new
  database. A JSON body is the value it denotes, None if it is not JSON. A goroutine is a \<open>Spawn\<close> with its name;
  what it does is a handler of its own.
\<close>

text \<open>
  \<open>matches\<close>: the database's \<^verbatim>\<open>LIKE\<close>. \<open>signed_token\<close>: the signed token of a session, None if signing
  fails. \<open>print\<close>: the text of a JSON value. \<open>params\<close>: the current parameters of the password hash.
\<close>

record user_env =
  api :: api_env
  crypt :: crypto
  params :: argonParams
  matches :: "string \<Rightarrow> string \<Rightarrow> bool"
  signed_token :: "uint \<Rightarrow> string option \<Rightarrow> string option"
  print :: "json \<Rightarrow> string"
  Sender :: string
  WebUrl :: string

abbreviation udb :: "user_env \<Rightarrow> db_env" where
  "udb e \<equiv> dbe (api e)"

definition newline :: string where "newline = [CHR 0x0A]"

subsection \<open>Sessions and masks\<close>

definition StartSession :: "user_env \<Rightarrow> uint \<Rightarrow> string option \<Rightarrow> 'a answer list" where
  "StartSession e userid saml =
     (case signed_token e userid saml of None \<Rightarrow> [] | Some t \<Rightarrow> [Cookie ''jwt'' t (60 * 60 * 24 * 7)])"

definition no_chars :: string where
  "no_chars = ''email doesn'' @ [CHR 0x27] @ ''t contain enough characters''"

definition MaskEmail :: "string \<Rightarrow> string + string" where
  "MaskEmail email =
     (case go_split email ''@'' of
        [name, host] \<Rightarrow>
          if length name = 0 then Inl (no_chars @ '' before @'')
          else if length host < 3 then Inl (no_chars @ '' after @'')
          else Inr (take 1 name @ replicate (length name - 1) CHR ''*'' @ ''@'' @ host)
      | _ \<Rightarrow> Inl (''email doesn'' @ [CHR 0x27] @ ''t contain @''))"

definition MaskLogin :: "string \<Rightarrow> string" where
  "MaskLogin login = map (\<lambda>c. if is_digit c then CHR ''*'' else c) login"

subsection \<open>Users for administrators\<close>

definition impersonateUser :: "user_env \<Rightarrow> uint option \<Rightarrow> unit handler" where
  "impersonateUser e req =
     demand req (bad_request ''Bad Request'') (\<lambda>i.
       with_result (GetUserByID (udb e) i)
         (\<lambda>err. fails StatusNotFound ''User not found'')
         (\<lambda>u. sends (StartSession e (ID u) None)))"

definition update_fields :: "(uint \<times> uint) fields" where
  "update_fields =
     [(''id'', \<lambda>j r. map_option (\<lambda>v. (v, snd r)) (dec_uint j (fst r))),
      (''role'', \<lambda>j r. map_option (\<lambda>v. (fst r, v)) (dec_uint j (snd r)))]"

definition updateUser :: "user_env \<Rightarrow> json_text \<Rightarrow> unit handler" where
  "updateUser e body =
     demand (unmarshal (dec_struct update_fields) body (0, 0)) (bad_request ''can not bind body'') (\<lambda>(i, role).
       with_result (GetUserByID (udb e) i)
         (\<lambda>err. fails StatusInternalServerError ''can not get user by id'')
         (\<lambda>user. with_done (UpdateUser (udb e) (user\<lparr>Role := role\<rparr>))
           (\<lambda>err. fails StatusInternalServerError ''can not update user'')
           (sends [])))"

subsection \<open>Searching users\<close>

definition query_char :: "char \<Rightarrow> bool" where
  "query_char c \<longleftrightarrow> is_digit c \<or> c \<in> set ''abcdefghijklmnopqrstuvwxyzABCDEFGHIJKLMNOPQRSTUVWXYZ ''"

text \<open>
  The error of the search by role is a variable of an inner block: it is answered, but the search goes on
  as if there had been none.
\<close>

definition prepareUserSearch :: "user_env \<Rightarrow> gin \<Rightarrow> (User list \<Rightarrow> 'a handler) \<Rightarrow> 'a handler" where
  "prepareUserSearch e g k =
     (let query = filter query_char (gquery g ''q''); roleQuery = gquery g ''r'';
          all = (roleQuery = ''-1'' \<or> roleQuery = []) in
      if length query < 3 \<and> all then fails StatusBadRequest ''query too short (minimum length is 3)''
      else if all then
        with_row (SearchUser (udb e) (matches e) query)
          (\<lambda>err. if err = Dao_Streams.not_found then k []
                 else fails StatusInternalServerError (''cannot search for user'' @ [CHR 0x27] @ ''s'')) k
      else
        demand (parse_uint 64 roleQuery) (fails StatusBadRequest ''could not parse role'') (\<lambda>role.
          with_row (SearchUserWithRole (udb e) (matches e) query (of_nat role))
            (\<lambda>err. also_sends [RequestError StatusInternalServerError ''could not search user''] (k [])) k))"

definition course_search_dto :: "User \<Rightarrow> userForLecturerDto" where
  "course_search_dto u =
     \<lparr>ufl_ID = ID u, ufl_Name = GetPreferredName u, ufl_LastName = LastName u, ufl_Login = GetLoginString (Some u)\<rparr>"

definition SearchUserForCourse :: "user_env \<Rightarrow> gin \<Rightarrow> userForLecturerDto list handler" where
  "SearchUserForCourse e g = prepareUserSearch e g (\<lambda>us. sends [Reply StatusOK (map course_search_dto us)])"

record userSearchDTO =
  us_ID :: uint
  us_LrzID :: string
  us_Email :: string
  us_Name :: string
  us_Role :: uint
  us_Changing :: bool

definition user_search_dto :: "User \<Rightarrow> userSearchDTO" where
  "user_search_dto u =
     \<lparr>us_ID = ID u, us_LrzID = MaskLogin (LrzID u),
      us_Email = (case MaskEmail (case Email u of None \<Rightarrow> [] | Some m \<Rightarrow> m) of Inl err \<Rightarrow> [] | Inr m \<Rightarrow> m),
      us_Name = GetPreferredName u, us_Role = Role u, us_Changing = False\<rparr>"

definition SearchUser_route :: "user_env \<Rightarrow> gin \<Rightarrow> userSearchDTO list handler" where
  "SearchUser_route e g = prepareUserSearch e g (\<lambda>us. sends [Reply StatusOK (map user_search_dto us)])"

subsection \<open>Deleting users\<close>

definition delete_fields :: "uint fields" where
  "delete_fields = [(''id'', \<lambda>j r. dec_uint j r)]"

definition DeleteUser_route :: "user_env \<Rightarrow> json_text \<Rightarrow> unit handler" where
  "DeleteUser_route e body =
     demand (unmarshal (dec_struct delete_fields) body 0) (fails StatusBadRequest ''can not bind body'') (\<lambda>i.
       with_row (IsUserAdmin (udb e) i)
         (\<lambda>err. fails StatusInternalServerError ''can not find user'')
         (\<lambda>admin.
           if admin then fails StatusBadRequest ''user is admin (admins can not be deleted)''
           else with_done (DeleteUser (udb e) i)
             (\<lambda>err. fails StatusInternalServerError ''can not delete user'')
             (sends [])))"

subsection \<open>Creating users\<close>

definition invitation :: "user_env \<Rightarrow> string \<Rightarrow> string" where
  "invitation e secret =
     ''Hello!'' @ newline @
     ''You have been invited to use TUM-Live. You can set a password for your account here: https://live.rbg.tum.de/setPassword/'' @
     secret @ newline @
     ''After setting a password you can log in with the email this message was sent to. Please note that this is not your TUMOnline account.'' @
     newline @ ''If you have any further questions please reach out to '' @ Sender e"

definition forgotPassword :: "user_env \<Rightarrow> string \<Rightarrow> unit handler" where
  "forgotPassword e email =
     with_row (GetUserByEmail (udb e) email)
       (\<lambda>err. sends [])
       (\<lambda>u. with_done (CreateRegisterLink (udb e) (uuid (api e) 0) u)
         (\<lambda>err. sends [])
         (logged (EmailDao_Create (udb e) (Sender e) email ''Setup your TUM-Live account'' (invitation e (uuid (api e) 0))) (sends [])))"

record createUserRequest =
  cur_Name :: string
  cur_Email :: string
  cur_Password :: string

definition create_fields :: "createUserRequest fields" where
  "create_fields =
     [(''name'', \<lambda>j r. map_option (\<lambda>v. r\<lparr>cur_Name := v\<rparr>) (dec_string j (cur_Name r))),
      (''email'', \<lambda>j r. map_option (\<lambda>v. r\<lparr>cur_Email := v\<rparr>) (dec_string j (cur_Email r))),
      (''password'', \<lambda>j r. map_option (\<lambda>v. r\<lparr>cur_Password := v\<rparr>) (dec_string j (cur_Password r)))]"

record createUserResponse =
  cu_Name :: string
  cu_Email :: string
  cu_Role :: uint

definition createUserHelper :: "user_env \<Rightarrow> createUserRequest \<Rightarrow> uint \<Rightarrow> createUserResponse handler" where
  "createUserHelper e req userType =
     (let u = zero_User\<lparr>user_Name := cur_Name req, Email := Some (cur_Email req), Role := userType\<rparr>;
          failed = fails StatusInternalServerError ''can not create user''
      in demand (if userType = 1 then SetPassword (crypt e) (params e) (cur_Password req) u else Some (None, u)) panic
           (\<lambda>(err, u).
             if err \<noteq> None then failed
             else (\<lambda>db. case CreateUser (udb e) u db of
               ((Some err, u), db) \<Rightarrow> failed db
             | ((None, u), db) \<Rightarrow>
                 also_sends (if userType \<noteq> AdminType then [Spawn (''forgotPassword '' @ cur_Email req)] else [])
                   (sends [Reply StatusOK \<lparr>cu_Name = user_Name u,
                             cu_Email = (case Email u of None \<Rightarrow> [] | Some m \<Rightarrow> m), cu_Role = Role u\<rparr>]) db)))"

definition InitUser :: "user_env \<Rightarrow> json_text \<Rightarrow> createUserResponse handler" where
  "InitUser e body =
     with_result (AreUsersEmpty (udb e))
       (\<lambda>err. fails StatusInternalServerError ''can not find users'')
       (\<lambda>none.
         if \<not> none
         then fails StatusBadRequest ''There are already users in the database. Use /api/createUsers instead.''
         else demand (unmarshal (dec_struct create_fields) body \<lparr>cur_Name = [], cur_Email = [], cur_Password = []\<rparr>)
           (fails StatusBadRequest ''can not bind body'') (\<lambda>req. createUserHelper e req AdminType))"

definition CreateUser_route :: "user_env \<Rightarrow> json_text \<Rightarrow> createUserResponse handler" where
  "CreateUser_route e body =
     with_result (AreUsersEmpty (udb e))
       (\<lambda>err. fails StatusInternalServerError ''can not find users'')
       (\<lambda>none.
         if none then fails StatusBadRequest ''No users in database. Use /api/users/init instead.''
         else demand (unmarshal (dec_struct create_fields) body \<lparr>cur_Name = [], cur_Email = [], cur_Password = []\<rparr>)
           (fails StatusBadRequest ''can not bind body'') (\<lambda>req. createUserHelper e req LecturerType))"

subsection \<open>Users of a course\<close>

definition course_invitation :: "Course \<Rightarrow> string" where
  "course_invitation course =
     ''Hello!'' @ newline @ ''You have been invited to participate in the course '' @ [CHR 0x22] @ course_Name course @
     [CHR 0x22] @ '' on TUM-Live. Check it out at https://live.rbg.tum.de/''"

text \<open>Any error of the search counts as a user that is not there.\<close>

definition addSingleUserToCourse :: "user_env \<Rightarrow> string \<Rightarrow> string \<Rightarrow> Course \<Rightarrow> unit handler" where
  "addSingleUserToCourse e name email course =
     with_row (GetUserByEmail (udb e) email)
       (\<lambda>err db. case CreateUser (udb e) (zero_User\<lparr>user_Name := name, Email := Some email, Role := GenericType,
                                                    Courses := [course]\<rparr>) db of
          ((Some err, u), db) \<Rightarrow> sends [] db
        | ((None, u), db) \<Rightarrow> sends [Spawn (''forgotPassword '' @ email)] db)
       (\<lambda>found. with_done (UpdateUser (udb e) (found\<lparr>Courses := Courses found @ [course]\<rparr>))
         (\<lambda>err. sends [])
         (logged (EmailDao_Create (udb e) (Sender e) email ''Setup your TUM-Live account'' (course_invitation course)) (sends [])))"

definition addUserBatchToCourse :: "user_env \<Rightarrow> string \<Rightarrow> Course \<Rightarrow> unit handler" where
  "addUserBatchToCourse e users course =
     foldr (\<lambda>line k. case go_split line '','' of
               [name, email] \<Rightarrow> (\<lambda>db. (let (as, db) = addSingleUserToCourse e name (trim_space email) course db
                                       in also_sends as k db))
             | _ \<Rightarrow> k)
       (go_split users newline) (sends [])"

definition CreateUserForCourse :: "user_env \<Rightarrow> TUMLiveContext option \<Rightarrow> (string \<Rightarrow> string) \<Rightarrow> unit handler" where
  "CreateUserForCourse e t form =
     demand t (fails StatusInternalServerError (''context should exist but doesn'' @ [CHR 0x27] @ [CHR ''t''])) (\<lambda>t.
       let batchUsers = form ''batchUserInput''; userName = form ''newUserFirstName''; userEmail = form ''newUserEmail'' in
       if batchUsers \<noteq> [] then deref (ctx_Course t) (\<lambda>course.
         sends [Spawn (''addUserBatchToCourse '' @ batchUsers), RedirectTo StatusFound (''/admin/course/'' @ uint_str (ID course))])
       else if userName \<noteq> [] \<and> userEmail \<noteq> [] then deref (ctx_Course t) (\<lambda>course db.
         (let (as, db) = addSingleUserToCourse e userName userEmail course db
          in sends (as @ [RedirectTo StatusFound (''/admin/course/'' @ uint_str (ID course))]) db))
       else fails StatusBadRequest ''invalid form'')"

subsection \<open>Pinned courses\<close>

definition getPinForCourse :: "user_env \<Rightarrow> TUMLiveContext \<Rightarrow> gin \<Rightarrow> bool handler" where
  "getPinForCourse e t g =
     demand (Option.bind (bind_uint (gparam g ''id'')) (\<lambda>i. if i = 0 then None else Some i))
       (fails StatusBadRequest ''invalid URI'') (\<lambda>i.
         case ctx_User t of
           None \<Rightarrow> sends [Reply StatusOK False]
         | Some u \<Rightarrow> with_row (HasPinnedCourse (udb e) u i)
             (\<lambda>err. fails StatusInternalServerError (''can'' @ [CHR 0x27] @ ''t retrieve course''))
             (\<lambda>has. sends [Reply StatusOK has]))"

definition pin_fields :: "uint fields" where
  "pin_fields = [(''courseID'', \<lambda>j r. dec_uint j r)]"

definition pinCourse :: "user_env \<Rightarrow> bool \<Rightarrow> TUMLiveContext option \<Rightarrow> json_text \<Rightarrow> unit handler" where
  "pinCourse e pin t body =
     demand (unmarshal (dec_struct pin_fields) body 0)
       (sends [AbortStatus StatusBadRequest, AbortStatus StatusBadRequest]) (\<lambda>i.
       demand t (sends [AbortStatus StatusBadRequest]) (\<lambda>t.
         demand (ctx_User t) (sends [AbortStatus StatusForbidden]) (\<lambda>u.
           with_row (CourseById (udb e) i)
             (\<lambda>err. sends [AbortStatus StatusBadRequest])
             (\<lambda>course. logged (PinCourse (udb e) u course pin) (sends [])))))"


subsection \<open>Settings\<close>

definition stores_setting :: "user_env \<Rightarrow> User \<Rightarrow> UserSettingType \<Rightarrow> string \<Rightarrow> unit handler" where
  "stores_setting e u ty val =
     with_done (AddUserSetting (udb e) (ID u) ty val)
       (\<lambda>err. fails StatusInternalServerError ''can not add user setting'') (sends [])"

definition value_fields :: "string fields" where
  "value_fields = [(''value'', \<lambda>j r. dec_string j r)]"

definition settings_request :: "json_text \<Rightarrow> string option" where
  "settings_request body = unmarshal (dec_struct value_fields) body []"

definition updatePreferredName :: "user_env \<Rightarrow> TUMLiveContext \<Rightarrow> json_text \<Rightarrow> unit handler" where
  "updatePreferredName e t body =
     demand (ctx_User t) (fails StatusUnauthorized ''login required'') (\<lambda>u.
       demand (settings_request body) (fails StatusBadRequest ''can not bind body'') (\<lambda>name.
         if \<exists>s \<in> set (Settings u). setting_Type s = PreferredName \<and>
              time_sub (now_of (api e)) (UpdatedAt s) < Hour * 24 * 30 * 3
         then fails StatusUnauthorized ''preferred name already set within the last 3 months''
         else if length name > 80 then fails StatusBadRequest ''preferred name too long''
         else stores_setting e u PreferredName name))"

text \<open>
  Three handlers take the user and the body through helpers that answer the error and return a null pointer, which
  the handler goes on to use.
\<close>

definition getUserFromContext :: "TUMLiveContext \<Rightarrow> unit answer list \<times> User option" where
  "getUserFromContext t =
     (case ctx_User t of None \<Rightarrow> ([RequestError StatusUnauthorized ''login required''], None) | Some u \<Rightarrow> ([], Some u))"

definition getRequestFromContext :: "json_text \<Rightarrow> unit answer list \<times> string option" where
  "getRequestFromContext body =
     (case settings_request body of
        None \<Rightarrow> ([RequestError StatusBadRequest ''can not bind body''], None) | Some v \<Rightarrow> ([], Some v))"

definition plain_setting :: "user_env \<Rightarrow> UserSettingType \<Rightarrow> TUMLiveContext \<Rightarrow> json_text \<Rightarrow> unit handler" where
  "plain_setting e ty t body =
     (let (as, u) = getUserFromContext t; (bs, req) = getRequestFromContext body
      in also_sends (as @ bs) (deref u (\<lambda>u. deref req (\<lambda>val. stores_setting e u ty val))))"

definition updatePreferredGreeting :: "user_env \<Rightarrow> TUMLiveContext \<Rightarrow> json_text \<Rightarrow> unit handler" where
  "updatePreferredGreeting e = plain_setting e Greeting"

definition updateSeekingTime :: "user_env \<Rightarrow> TUMLiveContext \<Rightarrow> json_text \<Rightarrow> unit handler" where
  "updateSeekingTime e = plain_setting e SeekingTime"

definition updatePreferredView :: "user_env \<Rightarrow> TUMLiveContext \<Rightarrow> json_text \<Rightarrow> unit handler" where
  "updatePreferredView e = plain_setting e LectureView"

text \<open>Settings that are stored as JSON; the body holds them in the member \<^verbatim>\<open>Value\<close>.\<close>

definition json_speeds :: "rat list \<Rightarrow> json" where
  "json_speeds xs = JArr (map JFloat xs)"

definition json_speed_settings :: "PlaybackSpeedSetting list \<Rightarrow> json" where
  "json_speed_settings xs =
     JArr (map (\<lambda>s. JObj [(''speed'', JFloat (Speed s)), (''enabled'', JBool (Enabled s))]) xs)"

definition custom_fields :: "rat list fields" where
  "custom_fields = [(''Value'', dec_list dec_float 0)]"

definition updateCustomSpeeds :: "user_env \<Rightarrow> TUMLiveContext \<Rightarrow> json_text \<Rightarrow> unit handler" where
  "updateCustomSpeeds e t body =
     demand (ctx_User t) (fails StatusUnauthorized ''login required'') (\<lambda>u.
       demand (unmarshal (dec_struct custom_fields) body []) (bad_request ''can not bind body'') (\<lambda>speeds.
         stores_setting e u UserDefinedSpeeds (if speeds \<noteq> [] then print e (json_speeds speeds) else ''[]'')))"

definition playback_fields :: "PlaybackSpeedSetting list fields" where
  "playback_fields = [(''Value'', dec_list (dec_struct speed_fields) \<lparr>Speed = 0, Enabled = False\<rparr>)]"

definition updatePlaybackSpeeds :: "user_env \<Rightarrow> TUMLiveContext \<Rightarrow> json_text \<Rightarrow> unit handler" where
  "updatePlaybackSpeeds e t body =
     demand (ctx_User t) (fails StatusUnauthorized ''login required for updating user settings'') (\<lambda>u.
       demand (unmarshal (dec_struct playback_fields) body []) (bad_request ''can not bind body to request'') (\<lambda>speeds.
         if speeds = [] then fails StatusBadRequest ''invalid value (value < 1)''
         else stores_setting e u CustomPlaybackSpeeds (print e (json_speed_settings speeds))))"

definition skip_fields :: "bool fields" where
  "skip_fields = [(''Value'', dec_struct autoskip_fields)]"

definition updateAutoSkip :: "user_env \<Rightarrow> TUMLiveContext \<Rightarrow> json_text \<Rightarrow> unit handler" where
  "updateAutoSkip e t body =
     demand (ctx_User t) (fails StatusUnauthorized ''login required for updating user settings'') (\<lambda>u.
       demand (unmarshal (dec_struct skip_fields) body False) (bad_request ''can not bind body to request'') (\<lambda>enabled.
         stores_setting e u AutoSkip (print e (JObj [(''enabled'', JBool enabled)]))))"

subsection \<open>Export and reset\<close>

record personalData =
  pd_Name :: string
  pd_LastName :: "string option"
  pd_Email :: string
  pd_LrzID :: string
  pd_MatrNr :: string
  pd_CreatedAt :: gotime
  Enrollments :: "(int \<times> string \<times> string) list"
  VideoViews :: "(uint \<times> rat \<times> bool) list"
  pd_Chats :: "(uint \<times> string \<times> gotime) list"

definition exportPersonalData :: "user_env \<Rightarrow> TUMLiveContext \<Rightarrow> personalData handler" where
  "exportPersonalData e t =
     deref (ctx_User t) (\<lambda>u.
       with_row (GetProgressesForUser (udb e) (ID u))
         (\<lambda>err. fails StatusInternalServerError ''can not get progresses for user'')
         (\<lambda>ps. reading (GetChatsByUser (udb e) (ID u)) (\<lambda>chats.
           sends [Reply StatusOK
             \<lparr>pd_Name = user_Name u, pd_LastName = LastName u,
              pd_Email = (case Email u of None \<Rightarrow> [] | Some m \<Rightarrow> m), pd_LrzID = LrzID u,
              pd_MatrNr = MatriculationNumber u, pd_CreatedAt = CreatedAt u,
              Enrollments = map (\<lambda>c. (course_Year c, course_TeachingTerm c, course_Name c)) (Courses u),
              VideoViews = map (\<lambda>p. (prog_StreamID p, prog_Progress p, prog_Watched p)) ps,
              pd_Chats = map (\<lambda>c. (chat_StreamID c, chat_Message c, CreatedAt c))
                           (case chats of Inl err \<Rightarrow> [] | Inr cs \<Rightarrow> cs)\<rparr>])))"

definition username_fields :: "string fields" where
  "username_fields = [(''username'', \<lambda>j r. dec_string j r)]"

definition reset_mail :: "user_env \<Rightarrow> string \<Rightarrow> string" where
  "reset_mail e secret =
     ''Hi! '' @ newline @ newline @ ''You can reset your TUM-Live password by clicking on the following link: '' @ newline @
     newline @ WebUrl e @ ''/setPassword/'' @ secret @ newline @ newline @
     ''If you did not request a password reset, please ignore this email. '' @ newline @ newline @ ''Best regards''"

definition resetPassword :: "user_env \<Rightarrow> json_text \<Rightarrow> unit handler" where
  "resetPassword e body =
     demand (unmarshal (dec_struct username_fields) body [])
       (sends [AbortStatus StatusBadRequest, AbortStatus StatusBadRequest,
               RequestError StatusBadRequest (''Can'' @ [CHR 0x27] @ ''t bind request body'')]) (\<lambda>username.
       with_row (GetUserByEmail (udb e) username)
         (\<lambda>err. sends [])
         (\<lambda>user. with_done (CreateRegisterLink (udb e) (uuid (api e) 0) user)
           (\<lambda>err. sends [])
           (logged (EmailDao_Create (udb e) (Sender e) (case Email user of None \<Rightarrow> [] | Some m \<Rightarrow> m) ''TUM-Live: Reset Password''
                      (reset_mail e (uuid (api e) 0))) (sends []))))"

end
