(* ===== verification/User_Props.thy ===== *)
theory User_Props
  imports User_Api Course_Props
begin

text \<open>
  Properties of the interface for users: a user has one value per kind of setting, whatever requests are made, and
  the value that was stored is the one that is read; the preferred name changes at most once in ninety days; an
  administrator can not be deleted; the search masks what it shows.
\<close>

subsection \<open>One value per setting\<close>

definition settings_unique :: "api_db \<Rightarrow> bool" where
  "settings_unique db \<longleftrightarrow> distinct (map (\<lambda>s. (setting_UserID s, setting_Type s)) (t_settings db))"

datatype settings_call =
    SetName json_text
  | SetGreeting json_text
  | SetSeeking json_text
  | SetView json_text
  | SetCustom json_text
  | SetSpeeds json_text
  | SetSkip json_text

fun serve :: "user_env \<Rightarrow> settings_call \<Rightarrow> TUMLiveContext \<Rightarrow> unit handler" where
  "serve e (SetName b) t = updatePreferredName e t b"
| "serve e (SetGreeting b) t = updatePreferredGreeting e t b"
| "serve e (SetSeeking b) t = updateSeekingTime e t b"
| "serve e (SetView b) t = updatePreferredView e t b"
| "serve e (SetCustom b) t = updateCustomSpeeds e t b"
| "serve e (SetSpeeds b) t = updatePlaybackSpeeds e t b"
| "serve e (SetSkip b) t = updateAutoSkip e t b"

fun kind :: "settings_call \<Rightarrow> UserSettingType" where
  "kind (SetName b) = PreferredName"
| "kind (SetGreeting b) = Greeting"
| "kind (SetSeeking b) = SeekingTime"
| "kind (SetView b) = LectureView"
| "kind (SetCustom b) = UserDefinedSpeeds"
| "kind (SetSpeeds b) = CustomPlaybackSpeeds"
| "kind (SetSkip b) = AutoSkip"

lemma kind_name: "kind c = PreferredName \<longleftrightarrow> (\<exists>b. c = SetName b)"
  by (cases c) (simp_all add: setting_defs)

text \<open>Every handler refuses and leaves the database as it is, or stores one value of its kind for the user of the session.\<close>

lemma apfst_append_Nil [simp]: "apfst ((@) []) x = x"
  by (cases x) simp

lemma serve_cases:
  "fst (serve e c t db) \<noteq> [] \<and> snd (serve e c t db) = db \<or>
   (\<exists>u val. ctx_User t = Some u \<and> serve e c t db = stores_setting e u (kind c) val db \<and>
      (kind c = PreferredName \<longrightarrow> PreferredNameChangeAllowed (now_of (api e)) u))"
  by (cases c)
     (auto simp: handler_defs updatePreferredName_def plain_setting_def updatePreferredGreeting_def updateSeekingTime_def
       updatePreferredView_def updateCustomSpeeds_def updatePlaybackSpeeds_def updateAutoSkip_def bad_request_def
       getUserFromContext_def getRequestFromContext_def PreferredNameChangeAllowed_def setting_defs
       split: option.splits if_splits)

lemma AddUserSetting_cases:
  obtains (kept) err where "AddUserSetting e u ty val db = (Some err, Clear db)" "fault e ''DeleteUserSetting'' \<noteq> None"
  | (lost) err where "AddUserSetting e u ty val db =
      (Some err, Clear (db\<lparr>t_settings := filter (\<lambda>s. \<not> (setting_UserID s = u \<and> setting_Type s = ty)) (t_settings db)\<rparr>))"
      "fault e ''AddUserSetting'' \<noteq> None"
  | (stored) "AddUserSetting e u ty val db =
      (None, Clear (db\<lparr>t_settings := filter (\<lambda>s. \<not> (setting_UserID s = u \<and> setting_Type s = ty)) (t_settings db) @
                 [\<lparr>ID = next_setting db, CreatedAt = clock e, UpdatedAt = clock e, DeletedAt = None,
                   setting_UserID = u, setting_Type = ty, Value = val\<rparr>],
               next_setting := next_setting db + 1\<rparr>))"
  by (cases "fault e ''DeleteUserSetting''"; cases "fault e ''AddUserSetting''")
     (simp_all add: AddUserSetting_def api_exec_def)

lemma settings_unique_cong: "t_settings db = t_settings db' \<Longrightarrow> settings_unique db = settings_unique db'"
  by (simp add: settings_unique_def)

lemma AddUserSetting_unique:
  assumes "settings_unique db"
  shows "settings_unique (snd (AddUserSetting e u ty val db))"
  by (cases rule: AddUserSetting_cases [of e u ty val db])
     (use assms in \<open>auto simp: settings_unique_def distinct_map_filter\<close>)

lemma stores_setting_unique:
  "settings_unique db \<Longrightarrow> settings_unique (snd (stores_setting e u ty val db))"
  using AddUserSetting_unique [of db "udb e" "ID u" ty val]
  by (auto simp: stores_setting_def handler_defs split: prod.split option.split)

lemma serve_unique: "settings_unique db \<Longrightarrow> settings_unique (snd (serve e c t db))"
  using serve_cases [of e c t db] stores_setting_unique by metis

text \<open>A request of a user, who is loaded through the cache.\<close>

definition request :: "user_env \<Rightarrow> uint \<Rightarrow> settings_call \<Rightarrow> unit handler" where
  "request e i c =
     with_result (GetUserByID (udb e) i) (\<lambda>err. serve e c empty_tum) (\<lambda>u. serve e c (empty_tum\<lparr>ctx_User := Some u\<rparr>))"

lemma GetUserByID_settings [simp]:
  "t_settings (snd (GetUserByID e i db)) = t_settings db" "t_users (snd (GetUserByID e i db)) = t_users db"
  by (simp_all add: GetUserByID_def split: option.split sum.split)

text \<open>
  Requests one after the other; \<open>ts\<close> are the times at which user \<open>i\<close> changed the preferred name, the
  last one first. An insert that fails after its delete loses the old value, which is excluded here.
\<close>

inductive settings_run :: "uint \<Rightarrow> api_db \<Rightarrow> gotime list \<Rightarrow> api_db \<Rightarrow> bool" for i db0 where
  start: "settings_run i db0 [] db0"
| step: "settings_run i db0 ts db \<Longrightarrow> fault (udb e) ''AddUserSetting'' = None \<Longrightarrow> request e j c db = (as, db') \<Longrightarrow>
    settings_run i db0 (if j = i \<and> kind c = PreferredName \<and> as = [] then now_of (api e) # ts else ts) db'"

lemma request_unique: "settings_unique db \<Longrightarrow> settings_unique (snd (request e i c db))"
proof -
  assume "settings_unique db"
  then have "settings_unique (snd (GetUserByID (udb e) i db))" by (simp add: settings_unique_def)
  then show ?thesis
    by (cases "GetUserByID (udb e) i db") (auto simp: request_def with_result_def serve_unique split: sum.split)
qed

text \<open>C28: a user has at most one value for each kind of setting, whatever settings requests are made.
\<close>

theorem one_value_per_setting:
  assumes "settings_run i db0 ts db" and "settings_unique db0"
  shows "settings_unique db"
  using assms
proof (induction rule: settings_run.induct)
  case (step ts db e j c as db')
  then show ?case using request_unique [of db e j c] by simp
qed

subsection \<open>The preferred name\<close>

lemma user_row_ID: "user_row db i = Some u \<Longrightarrow> ID u = i"
  by (auto simp: user_row_def dest!: find_SomeD)

lemma full_user_simps [simp]: "ID (full_user db u) = ID u" "Settings (full_user db u) = settings_of db (ID u)"
  by (simp_all add: full_user_def)

lemma zero_User_simps [simp]: "ID zero_User = 0" "Settings zero_User = []"
  by (simp_all add: zero_User_def)

lemma locked_user_row_cong [simp]:
  "user_row (db\<lparr>user_cache := x\<rparr>) i = user_row db i" "settings_of (db\<lparr>user_cache := x\<rparr>) i = settings_of db i"
  by (simp_all add: user_row_def settings_of_def)

text \<open>Loading a user keeps this, and what is loaded is up to date.\<close>

definition loaded_user :: "api_db \<Rightarrow> uint \<Rightarrow> User" where
  "loaded_user db j = (case user_row db j of None \<Rightarrow> zero_User | Some u \<Rightarrow> full_user db u)"

lemma GetUserByID_cases:
  obtains (cached) u ex where "user_cache db j = Some (u, ex)" "GetUserByID e j db = (Inr u, db)"
  | (failed) err where "GetUserByID e j db = (Inl err, db)"
  | (read) "GetUserByID e j db =
      (Inr (loaded_user db j), db\<lparr>user_cache := SetWithTTL e j (loaded_user db j) (10 * Second) (user_cache db)\<rparr>)"
proof (cases "lookup_cache e (user_cache db) j")
  case (Some u)
  then obtain ex where "user_cache db j = Some (u, ex)" by (auto simp: lookup_cache_def split: option.splits if_splits)
  with Some cached show ?thesis by (simp add: GetUserByID_def)
next
  case None
  show ?thesis
  proof (cases "fault e ''GetUserByID''")
    case None
    with \<open>lookup_cache e (user_cache db) j = None\<close> read show ?thesis
      by (simp add: GetUserByID_def row_query_def loaded_user_def)
  qed (use \<open>lookup_cache e (user_cache db) j = None\<close> failed in \<open>simp add: GetUserByID_def row_query_def\<close>)
qed

definition cache_ok :: "uint \<Rightarrow> api_db \<Rightarrow> bool" where
  "cache_ok i db \<longleftrightarrow>
     (\<forall>j u ex. user_cache db j = Some (u, ex) \<longrightarrow>
        (ID u = j \<or> ID u = 0) \<and> (j = i \<longrightarrow> ID u = i \<and> Settings u = settings_of db i))"

definition name_locked :: "uint \<Rightarrow> gotime list \<Rightarrow> api_db \<Rightarrow> bool" where
  "name_locked i ts db \<longleftrightarrow>
     user_row db i \<noteq> None \<and>
     (ts \<noteq> [] \<longrightarrow> (\<exists>s \<in> set (settings_of db i). setting_Type s = PreferredName \<and> UpdatedAt s = hd ts))"

lemma loaded_user_ID: "ID (loaded_user db j) = j \<or> ID (loaded_user db j) = 0"
  by (auto simp: loaded_user_def dest: user_row_ID split: option.split)

lemma loaded_user_settings:
  "user_row db i \<noteq> None \<Longrightarrow> ID (loaded_user db i) = i \<and> Settings (loaded_user db i) = settings_of db i"
  by (auto simp: loaded_user_def dest: user_row_ID)

lemma cache_ok_store:
  assumes "cache_ok i db" "user_row db i \<noteq> None"
  shows "cache_ok i (db\<lparr>user_cache := SetWithTTL e j (loaded_user db j) ttl (user_cache db)\<rparr>)"
  unfolding cache_ok_def
proof (intro allI impI)
  fix k u ex
  assume "user_cache (db\<lparr>user_cache := SetWithTTL e j (loaded_user db j) ttl (user_cache db)\<rparr>) k = Some (u, ex)"
  then consider "k = j" "u = loaded_user db j" | "user_cache db k = Some (u, ex)"
    by (auto simp: SetWithTTL_def split: if_splits)
  then show "(ID u = k \<or> ID u = 0) \<and> (k = i \<longrightarrow> ID u = i \<and>
      Settings u = settings_of (db\<lparr>user_cache := SetWithTTL e j (loaded_user db j) ttl (user_cache db)\<rparr>) i)"
  proof cases
    case 1
    then show ?thesis using loaded_user_ID [of db j] loaded_user_settings [OF assms(2)] by auto
  next
    case 2
    with assms(1) have "(ID u = k \<or> ID u = 0) \<and> (k = i \<longrightarrow> ID u = i \<and> Settings u = settings_of db i)"
      unfolding cache_ok_def by blast
    then show ?thesis by simp
  qed
qed

lemma GetUserByID_locked:
  assumes "name_locked i ts db" "cache_ok i db" and "GetUserByID e j db = (r, db')"
  shows "name_locked i ts db' \<and> cache_ok i db' \<and>
    (\<forall>u. r = Inr u \<longrightarrow> (ID u = j \<or> ID u = 0) \<and> (j = i \<longrightarrow> ID u = i \<and> Settings u = settings_of db' i))"
proof (cases rule: GetUserByID_cases [of db j e])
  case (cached u ex)
  with assms(2) have "(ID u = j \<or> ID u = 0) \<and> (j = i \<longrightarrow> ID u = i \<and> Settings u = settings_of db i)"
    unfolding cache_ok_def by blast
  with cached assms show ?thesis by simp
next
  case (failed err)
  with assms show ?thesis by auto
next
  case read
  have row: "user_row db i \<noteq> None" using assms(1) by (simp add: name_locked_def)
  from read assms(3) have r: "r = Inr (loaded_user db j)"
    "db' = db\<lparr>user_cache := SetWithTTL e j (loaded_user db j) (10 * Second) (user_cache db)\<rparr>" by simp_all
  have "name_locked i ts db'" using assms(1) by (simp add: r(2) name_locked_def)
  moreover have "cache_ok i db'" unfolding r(2) by (rule cache_ok_store [OF assms(2) row])
  ultimately show ?thesis using loaded_user_ID [of db j] loaded_user_settings [OF row] by (auto simp: r)
qed

lemma Clear_locked: "name_locked i ts (Clear db) = name_locked i ts db" "cache_ok i (Clear db)"
  by (simp_all add: name_locked_def user_row_def settings_of_def cache_ok_def Clear_def)

text \<open>What storing a value does to the rows of a user.\<close>

lemma settings_replaced:
  "settings_of (db\<lparr>t_settings := filter (\<lambda>s. \<not> (setting_UserID s = u \<and> setting_Type s = ty)) (t_settings db) @ [new], next_setting := k\<rparr>) i =
     filter (\<lambda>s. \<not> (setting_UserID s = u \<and> setting_Type s = ty)) (settings_of db i) @
     (if setting_UserID new = i \<and> live_row new then [new] else [])"
  by (simp add: settings_of_def conj_commute)

lemma stores_setting_locked:
  assumes "name_locked i ts db" "fault (udb e) ''AddUserSetting'' = None" "stores_setting e u ty val db = (as, db')"
  shows "cache_ok i db' \<and>
    name_locked i (if ID u = i \<and> ty = PreferredName \<and> as = [] then now_of (api e) # ts else ts) db'"
proof (cases rule: AddUserSetting_cases [of "udb e" "ID u" ty val db])
  case (kept err)
  then have "as \<noteq> []" "db' = Clear db" using assms(3) by (auto simp: stores_setting_def handler_defs)
  with assms(1) show ?thesis by (simp add: Clear_locked)
next
  case stored
  let ?new = "\<lparr>ID = next_setting db, CreatedAt = now_of (api e), UpdatedAt = now_of (api e), DeletedAt = None,
                   setting_UserID = ID u, setting_Type = ty, Value = val\<rparr>"
  let ?db = "db\<lparr>t_settings := filter (\<lambda>s. \<not> (setting_UserID s = ID u \<and> setting_Type s = ty)) (t_settings db) @ [?new],
               next_setting := next_setting db + 1\<rparr>"
  have db': "as = []" "db' = Clear ?db"
    using assms(3) stored by (auto simp: stores_setting_def handler_defs)
  have row: "user_row ?db i = user_row db i" by (simp add: user_row_def)
  have "name_locked i (if ID u = i \<and> ty = PreferredName then now_of (api e) # ts else ts) ?db"
    using assms(1) unfolding name_locked_def row settings_replaced
    by (cases "ID u = i \<and> ty = PreferredName") (auto simp: live_row_def settings_of_def)
  then show ?thesis by (simp add: db' Clear_locked)
qed (use assms(2) in simp)

definition three_months :: duration where
  "three_months = Hour * 24 * 30 * 3"

abbreviation spaced :: "gotime list \<Rightarrow> bool" where
  "spaced \<equiv> sorted_wrt (\<lambda>later earlier. later - earlier \<ge> three_months)"

lemma time_sub_ge: "\<not> time_sub a b < three_months \<Longrightarrow> a - b \<ge> three_months"
  by (simp add: time_sub_def three_months_def Hour_def Minute_def Second_def)

lemma spaced_Cons: "spaced ts \<Longrightarrow> (ts \<noteq> [] \<Longrightarrow> t - hd ts \<ge> three_months) \<Longrightarrow> spaced (t # ts)"
proof (cases ts)
  case (Cons a as)
  assume "spaced ts" "ts \<noteq> [] \<Longrightarrow> t - hd ts \<ge> three_months"
  moreover have "0 < three_months" by (simp add: three_months_def Hour_def Minute_def Second_def)
  ultimately show ?thesis using Cons by fastforce
qed simp

lemma request_locked:
  assumes "name_locked i ts db" "cache_ok i db" "spaced ts" "i \<noteq> 0"
    and "fault (udb e) ''AddUserSetting'' = None" "request e j c db = (as, db')"
  defines "ts' \<equiv> if j = i \<and> kind c = PreferredName \<and> as = [] then now_of (api e) # ts else ts"
  shows "name_locked i ts' db' \<and> cache_ok i db' \<and> spaced ts'"
proof -
  obtain r db1 where load: "GetUserByID (udb e) j db = (r, db1)" by (cases "GetUserByID (udb e) j db")
  note l = GetUserByID_locked [OF assms(1,2) load]
  define t where "t = (case r of Inl err \<Rightarrow> empty_tum | Inr u \<Rightarrow> empty_tum\<lparr>ctx_User := Some u\<rparr>)"
  have served: "serve e c t db1 = (as, db')"
    using assms(6) load by (auto simp: request_def with_result_def t_def split: sum.splits)
  from serve_cases [of e c t db1] show ?thesis
  proof
    assume "fst (serve e c t db1) \<noteq> [] \<and> snd (serve e c t db1) = db1"
    with served l assms(3) show ?thesis by (simp add: ts'_def)
  next
    assume "\<exists>u val. ctx_User t = Some u \<and> serve e c t db1 = stores_setting e u (kind c) val db1 \<and>
      (kind c = PreferredName \<longrightarrow> PreferredNameChangeAllowed (now_of (api e)) u)"
    then obtain u val where u: "ctx_User t = Some u" "stores_setting e u (kind c) val db1 = (as, db')"
      and allowed: "kind c = PreferredName \<Longrightarrow> PreferredNameChangeAllowed (now_of (api e)) u"
      using served by auto
    then have r: "r = Inr u" by (auto simp: t_def empty_tum_def split: sum.splits)
    with l have l': "name_locked i ts db1" "ID u = j \<or> ID u = 0" "j = i \<longrightarrow> ID u = i \<and> Settings u = settings_of db1 i"
      by auto
    have "ID u = i \<longleftrightarrow> j = i" using l'(2,3) assms(4) by auto
    then have stored: "cache_ok i db' \<and> name_locked i ts' db'"
      using stores_setting_locked [OF l'(1) assms(5) u(2)] unfolding ts'_def by simp
    have "spaced ts'"
    proof (cases "j = i \<and> kind c = PreferredName \<and> as = []")
      case True
      have "now_of (api e) - hd ts \<ge> three_months" if "ts \<noteq> []"
      proof -
        obtain s where "s \<in> set (settings_of db1 i)" "setting_Type s = PreferredName" "UpdatedAt s = hd ts"
          using l'(1) \<open>ts \<noteq> []\<close> by (auto simp: name_locked_def)
        with True l'(3) allowed have "\<not> time_sub (now_of (api e)) (hd ts) < three_months"
          by (auto simp: PreferredNameChangeAllowed_def three_months_def)
        then show ?thesis by (rule time_sub_ge)
      qed
      with assms(3) have "spaced (now_of (api e) # ts)" by (rule spaced_Cons)
      with True show ?thesis by (simp add: ts'_def)
    next
      case False
      then have "ts' = ts" unfolding ts'_def by (rule if_not_P)
      with assms(3) show ?thesis by simp
    qed
    with stored show ?thesis by blast
  qed
qed

text \<open>C29: a user's preferred name changes at most once in ninety days, whatever settings all users change in between:
  the times of the accepted changes of a stored user are that far apart.
\<close>

theorem name_changes_are_spaced:
  assumes "settings_run i db0 ts db" and "user_row db0 i \<noteq> None" "i \<noteq> 0" "user_cache db0 = Map.empty"
  shows "spaced ts"
proof -
  from assms(1) have "name_locked i ts db \<and> cache_ok i db \<and> spaced ts"
  proof (induction rule: settings_run.induct)
    case start
    with assms show ?case by (simp add: name_locked_def cache_ok_def)
  next
    case (step ts db e j c as db')
    then show ?case using request_locked [of i ts db e j c as db'] assms(3) by simp
  qed
  then show ?thesis by simp
qed

subsection \<open>A stored value is read back\<close>

lemma find_filter: "(\<And>x. P x \<Longrightarrow> Q x) \<Longrightarrow> List.find P (filter Q xs) = List.find P xs"
  by (induction xs) auto

lemma find_filter_none: "(\<And>x. P x \<Longrightarrow> \<not> Q x) \<Longrightarrow> List.find P (filter Q xs) = None"
  by (auto simp: find_None_iff)

lemma speeds_decoded:
  "dec_list (dec_struct speed_fields) \<lparr>Speed = 0, Enabled = False\<rparr> (json_speed_settings speeds) [] = Some speeds"
  unfolding json_speed_settings_def dec_list.simps
  by (rule dec_all_map) (simp add: find_field_def speed_fields_def)

lemma GetUserByID_ok:
  "fault e ''GetUserByID'' = None \<Longrightarrow> \<exists>u c. GetUserByID e i db = (Inr u, db\<lparr>user_cache := c\<rparr>)"
  by (cases "lookup_cache e (user_cache db) i")
     (auto simp: GetUserByID_def row_query_def intro: exI [of _ "user_cache db"])

lemma loaded_user_cache [simp]: "loaded_user (db\<lparr>user_cache := c\<rparr>) = loaded_user db"
  by (simp add: fun_eq_iff loaded_user_def full_user_def linked_courses_def courses_where_def course_streams_def
      cong: option.case_cong)

lemma stored_setting:
  assumes "fault (udb e) = (\<lambda>_. None)" "fault e' ''GetUserByID'' = None" "user_row db i \<noteq> None" "ID u = i"
    and "db' = snd (stores_setting e u ty val db)"
  shows "fst (stores_setting e u ty val db) = []"
    and "fst (GetUserByID e' i db') = Inr (loaded_user db' i)"
    and "map_option Value (first_setting ty (loaded_user db' i)) = Some val"
    and "ty' \<noteq> ty \<Longrightarrow> first_setting ty' (loaded_user db' i) = first_setting ty' (loaded_user db i)"
proof -
  let ?new = "\<lparr>ID = next_setting db, CreatedAt = now_of (api e), UpdatedAt = now_of (api e), DeletedAt = None,
                   setting_UserID = ID u, setting_Type = ty, Value = val\<rparr>"
  let ?db = "db\<lparr>t_settings := filter (\<lambda>s. \<not> (setting_UserID s = ID u \<and> setting_Type s = ty)) (t_settings db) @ [?new],
               next_setting := next_setting db + 1\<rparr>"
  have "AddUserSetting (udb e) (ID u) ty val db = (None, Clear ?db)"
    by (cases rule: AddUserSetting_cases [of "udb e" "ID u" ty val db]) (use assms(1) in simp_all)
  then have res: "stores_setting e u ty val db = ([], Clear ?db)" by (simp add: stores_setting_def handler_defs)
  then show "fst (stores_setting e u ty val db) = []" by simp
  have db': "db' = Clear ?db" by (simp add: assms(5) res)
  have row: "user_row db' i \<noteq> None" using assms(3) by (simp add: db' user_row_def Clear_def)
  have settings: "settings_of db' i = filter (\<lambda>s. \<not> (setting_UserID s = ID u \<and> setting_Type s = ty)) (settings_of db i) @ [?new]"
    using assms(4) unfolding db' by (simp add: settings_of_def Clear_def live_row_def conj_commute)
  have own: "x \<in> set (settings_of db i) \<Longrightarrow> setting_UserID x = ID u" for x using assms(4) by (simp add: settings_of_def)
  have filtered: "filter (\<lambda>s. \<not> (setting_UserID s = ID u \<and> setting_Type s = ty)) (settings_of db i) =
      filter (\<lambda>s. setting_Type s \<noteq> ty) (settings_of db i)"
    by (rule filter_cong) (simp_all add: own)
  have "user_cache db' i = None" by (simp add: db' Clear_def)
  then show "fst (GetUserByID e' i db') = Inr (loaded_user db' i)"
    using assms(2) by (simp add: GetUserByID_def lookup_cache_def row_query_def loaded_user_def)
  note loaded = loaded_user_settings [OF row] loaded_user_settings [OF assms(3)]
  show "map_option Value (first_setting ty (loaded_user db' i)) = Some val"
    using loaded settings filtered by (simp add: first_setting_def find_append find_filter_none)
  assume "ty' \<noteq> ty"
  then have "List.find (\<lambda>s. setting_Type s = ty') (filter (\<lambda>s. setting_Type s \<noteq> ty) (settings_of db i)) =
      List.find (\<lambda>s. setting_Type s = ty') (settings_of db i)"
    by (intro find_filter) auto
  with \<open>ty' \<noteq> ty\<close> show "first_setting ty' (loaded_user db' i) = first_setting ty' (loaded_user db i)"
    using loaded settings filtered by (simp add: first_setting_def find_append split: option.split)
qed

text \<open>C30: the playback speeds that a user stores are the ones that are read when the user is loaded again, and no
  other setting of the user changes. The hypothesis on \<open>parse\<close> is that reading JSON inverts printing it.
\<close>

theorem speeds_roundtrip:
  assumes "fault (udb e) = (\<lambda>_. None)" "fault e' ''GetUserByID'' = None" "user_row db i \<noteq> None" "cache_ok i db"
    and "unmarshal (dec_struct playback_fields) body [] = Some speeds" "speeds \<noteq> []"
    and "parse (print e (json_speed_settings speeds)) = Some (json_speed_settings speeds)"
  shows "\<exists>u. fst (request e i (SetSpeeds body) db) = [] \<and>
    fst (GetUserByID e' i (snd (request e i (SetSpeeds body) db))) = Inr u \<and>
    GetPlaybackSpeeds parse (Some u) = speeds \<and>
    (\<forall>ty. ty \<noteq> CustomPlaybackSpeeds \<longrightarrow> first_setting ty u = first_setting ty (loaded_user db i))"
proof -
  obtain v c where load: "GetUserByID (udb e) i db = (Inr v, db\<lparr>user_cache := c\<rparr>)"
    using GetUserByID_ok [of "udb e" i db] assms(1) by auto
  let ?db = "db\<lparr>user_cache := c\<rparr>"
  have "name_locked i [] db" using assms(3) by (simp add: name_locked_def)
  from GetUserByID_locked [OF this assms(4) load] have v: "ID v = i" by auto
  have "request e i (SetSpeeds body) db =
      stores_setting e v CustomPlaybackSpeeds (print e (json_speed_settings speeds)) ?db"
    using assms(5,6) by (simp add: request_def with_result_def load updatePlaybackSpeeds_def demand_def empty_tum_def)
  moreover have row: "user_row ?db i \<noteq> None" using assms(3) by simp
  note stored_setting [OF assms(1,2) row v refl, where ty = CustomPlaybackSpeeds and val = "print e (json_speed_settings speeds)"]
  ultimately show ?thesis using assms(7) by (auto simp: GetPlaybackSpeeds_def speeds_decoded)
qed

subsection \<open>Administrators stay\<close>

lemma find_unique: "x \<in> set xs \<Longrightarrow> P x \<Longrightarrow> (\<And>y. y \<in> set xs \<Longrightarrow> P y \<Longrightarrow> y = x) \<Longrightarrow> List.find P xs = Some x"
proof (induction xs)
  case (Cons a xs)
  show ?case
  proof (cases "P a")
    case True
    with Cons.prems(3) [of a] show ?thesis by simp
  next
    case False
    with Cons.prems(1,2) have x: "x \<in> set xs" by auto
    have "List.find P xs = Some x"
    proof (rule Cons.IH)
      fix y
      assume "y \<in> set xs" "P y"
      then show "y = x" using Cons.prems(3) [of y] by simp
    qed (use x Cons.prems(2) in \<open>simp_all only:\<close>)
    with False show ?thesis by simp
  qed
qed simp

text \<open>C31: the route that deletes users removes no administrator: whoever is stored with that role is still
  stored, unchanged, after any request; and at most the requested user is marked as deleted.
\<close>

theorem admins_are_not_deleted:
  assumes "distinct (map ID (t_users db))" and "u \<in> set (t_users db)" "live_row u" "Role u = AdminType"
  shows "u \<in> set (t_users (snd (DeleteUser_route e body db))) \<and>
    (t_users (snd (DeleteUser_route e body db)) = t_users db \<or>
     (\<exists>i. i \<noteq> ID u \<and>
        t_users (snd (DeleteUser_route e body db)) = soft_delete (clock (udb e)) (\<lambda>v. ID v = i) (t_users db)))"
proof -
  have found: "user_row db (ID u) = Some u"
    unfolding user_row_def by (rule find_unique) (use assms(1-3) in \<open>auto simp: distinct_map inj_on_def\<close>)
  consider (same) "snd (DeleteUser_route e body db) = db"
    | (deleted) i where "IsUserAdmin (udb e) i db = Inr False"
        "snd (DeleteUser_route e body db) = snd (DeleteUser (udb e) i db)"
  proof (cases "unmarshal (dec_struct delete_fields) body 0")
    case None
    then show ?thesis using same by (simp add: DeleteUser_route_def handler_defs)
  next
    case (Some i)
    show ?thesis
    proof (cases "IsUserAdmin (udb e) i db = Inr False")
      case True
      have "snd (DeleteUser_route e body db) = snd (DeleteUser (udb e) i db)"
        using Some True by (simp add: DeleteUser_route_def handler_defs split: prod.split option.split)
      with True deleted show ?thesis by blast
    next
      case False
      then show ?thesis using Some same
        by (cases "IsUserAdmin (udb e) i db") (auto simp: DeleteUser_route_def handler_defs)
    qed
  qed
  then show ?thesis
  proof cases
    case (deleted i)
    have "i \<noteq> ID u" using deleted(1) found [unfolded user_row_def] assms(4)
      by (auto simp: IsUserAdmin_def row_query_def AdminType_def split: option.splits)
    then show ?thesis using deleted(2) assms(2)
      by (cases "fault (udb e) ''DeleteUser''")
         (auto simp: DeleteUser_def api_exec_def soft_delete_def image_iff intro!: exI [of _ i] bexI [of _ u])
  qed (use assms in simp)
qed

subsection \<open>What a search shows\<close>

lemma MaskLogin_no_digit: "c \<in> set (MaskLogin s) \<Longrightarrow> \<not> is_digit c"
  by (auto simp: MaskLogin_def is_digit_def digit_val_def split: if_splits)

lemma MaskEmail_shape:
  "MaskEmail s = Inr m \<Longrightarrow> \<exists>c n host. m = c # replicate n CHR ''*'' @ ''@'' @ host"
proof -
  assume m: "MaskEmail s = Inr m"
  then obtain name host where p: "go_split s ''@'' = [name, host]" "name \<noteq> []" "\<not> length host < 3"
      "m = take 1 name @ replicate (length name - 1) CHR ''*'' @ ''@'' @ host"
    by (auto simp: MaskEmail_def split: list.splits if_splits)
  then obtain c cs where "name = c # cs" by (cases name) auto
  with p show ?thesis by auto
qed

lemma prepareUserSearch_replies:
  assumes "prepareUserSearch e g (\<lambda>us. sends [Reply StatusOK (map f us)]) db = (as, db')" "Reply n ds \<in> set as"
  shows "db' = db \<and> length ds \<le> 10 \<and> (\<exists>us. ds = map f us)"
  using assms
  by (auto simp: prepareUserSearch_def Let_def handler_defs SearchUser_def SearchUserWithRole_def search_users_def
      row_query_def intro: exI [of _ "map _ (take 10 _)"] exI [of _ "[]"] split: if_splits sum.splits option.splits)

text \<open>C32: a search for users never shows more than ten of them, changes nothing, and shows of each an address of
  which all but the first character before the at sign is hidden, and a login without digits.
\<close>

theorem search_masks_users:
  assumes "SearchUser_route e g db = (as, db')" "Reply n ds \<in> set as"
  shows "db' = db \<and> length ds \<le> 10 \<and>
    (\<forall>d \<in> set ds. (\<forall>c \<in> set (us_LrzID d). \<not> is_digit c) \<and>
       (us_Email d = [] \<or> (\<exists>c n host. us_Email d = c # replicate n CHR ''*'' @ ''@'' @ host)))"
proof -
  from prepareUserSearch_replies [OF assms(1) [unfolded SearchUser_route_def] assms(2)]
  obtain us where us: "db' = db" "length ds \<le> 10" "ds = map user_search_dto us" by blast
  have "(\<forall>c \<in> set (us_LrzID (user_search_dto u)). \<not> is_digit c) \<and>
      (us_Email (user_search_dto u) = [] \<or> (\<exists>c n host. us_Email (user_search_dto u) = c # replicate n CHR ''*'' @ ''@'' @ host))" for u
    by (simp add: user_search_dto_def MaskLogin_no_digit split: sum.split) (use MaskEmail_shape in fastforce)
  with us show ?thesis by auto
qed

subsection \<open>Instances\<close>

definition calm_user :: user_env where
  "calm_user =
     \<lparr>api = calm_env, crypt = toy_crypto, params = default_params, matches = (\<lambda>p s. contains s (butlast (tl p))),
      signed_token = (\<lambda>i saml. Some (''token'' @ uint_str i)), print = (\<lambda>j. ''json''), Sender = ''live'', WebUrl = ''https''\<rparr>"

definition later_user :: user_env where
  "later_user = calm_user\<lparr>api := calm_env\<lparr>dbe := calm\<lparr>clock := 1000 * Second + three_months\<rparr>\<rparr>\<rparr>"

definition two_users :: api_db where
  "two_users = with_rows [zero_User\<lparr>ID := 1, user_Name := ''Ada'', Role := AdminType\<rparr>,
     zero_User\<lparr>ID := 2, user_Name := ''Bob'', Email := Some ''bob@tum.de'', LrzID := ''ab12cde'', Role := StudentType\<rparr>] [] []"

definition set_name :: "string \<Rightarrow> settings_call" where
  "set_name s = SetName (Some (JObj [(''value'', JStr s)]))"

lemma user_env_simps [simp]:
  "api calm_user = calm_env" "udb later_user = calm\<lparr>clock := 1000 * Second + three_months\<rparr>"
  by (simp_all add: calm_user_def later_user_def)

definition renamed :: api_db where
  "renamed = snd (request calm_user 2 (set_name ''Bo'') two_users)"

definition renamed_twice :: api_db where
  "renamed_twice = snd (request later_user 2 (set_name ''Rob'') renamed)"

lemma renamed_run: "settings_run 2 two_users [1000 * Second + three_months, 1000 * Second] renamed_twice"
proof -
  have "fst (request calm_user 2 (set_name ''Bo'') two_users) = []" by code_simp
  then have r: "request calm_user 2 (set_name ''Bo'') two_users = ([], renamed)" by (simp add: renamed_def prod_eq_iff)
  have "fst (request later_user 2 (set_name ''Rob'') renamed) = []" by code_simp
  then have r2: "request later_user 2 (set_name ''Rob'') renamed = ([], renamed_twice)"
    by (simp add: renamed_twice_def prod_eq_iff)
  have "settings_run 2 two_users [1000 * Second] renamed"
    using settings_run.step [OF settings_run.start _ r, of 2] by (simp add: set_name_def)
  from settings_run.step [OF this _ r2] show ?thesis by (simp add: set_name_def)
qed

theorem one_value_per_setting_witness: "settings_unique renamed_twice \<and> length (t_settings renamed_twice) = 1"
proof -
  have "settings_unique renamed_twice"
    by (rule one_value_per_setting [OF renamed_run]) (simp add: settings_unique_def two_users_def with_rows_def no_rows_def)
  moreover have "length (t_settings renamed_twice) = 1" by code_simp
  ultimately show ?thesis by blast
qed

theorem name_changes_are_spaced_witness: "spaced [1000 * Second + three_months, 1000 * Second]"
  by (rule name_changes_are_spaced [OF renamed_run])
     (simp_all add: two_users_def user_row_def live_row_def zero_User_def with_rows_def no_rows_def)

definition faster :: json_text where
  "faster = Some (JObj [(''Value'', JArr [JObj [(''speed'', JInt 2), (''enabled'', JBool True)]])])"

theorem speeds_roundtrip_witness:
  "\<exists>u. fst (GetUserByID calm 2 (snd (request calm_user 2 (SetSpeeds faster) two_users))) = Inr u \<and>
     GetPlaybackSpeeds (\<lambda>_. Some (json_speed_settings [\<lparr>Speed = 2, Enabled = True\<rparr>])) (Some u) = [\<lparr>Speed = 2, Enabled = True\<rparr>]"
proof -
  have "unmarshal (dec_struct playback_fields) faster [] = Some [\<lparr>Speed = 2, Enabled = True\<rparr>]"
    by (simp add: faster_def playback_fields_def find_field_def speed_fields_def)
  moreover have "cache_ok 2 two_users" by (simp add: cache_ok_def two_users_def with_rows_def no_rows_def)
  moreover have "user_row two_users 2 \<noteq> None" by (simp add: two_users_def user_row_def live_row_def zero_User_def)
  moreover have "fault (udb calm_user) = (\<lambda>_. None)" by (simp add: calm_def)
  ultimately show ?thesis
    using speeds_roundtrip [of calm_user calm two_users 2 faster "[\<lparr>Speed = 2, Enabled = True\<rparr>]"
        "\<lambda>_. Some (json_speed_settings [\<lparr>Speed = 2, Enabled = True\<rparr>])"] by auto
qed

theorem admins_are_not_deleted_witness:
  "zero_User\<lparr>ID := 1, user_Name := ''Ada'', Role := AdminType\<rparr> \<in>
     set (t_users (snd (DeleteUser_route calm_user (Some (JObj [(''id'', JInt 1)])) two_users)))"
  using admins_are_not_deleted [of two_users "zero_User\<lparr>ID := 1, user_Name := ''Ada'', Role := AdminType\<rparr>" calm_user
      "Some (JObj [(''id'', JInt 1)])"]
  by (simp add: two_users_def live_row_def zero_User_def AdminType_def)

definition search_bob :: gin where
  "search_bob = \<lparr>tum = None, RequestURI = [], url_params = Map.empty, query_params = [''q'' \<mapsto> ''Bob''], cookies = Map.empty, calls = []\<rparr>"

theorem search_masks_users_witness:
  "\<exists>d. fst (SearchUser_route calm_user search_bob two_users) = [Reply StatusOK [d]] \<and>
     us_Email d = ''b**@tum.de'' \<and> us_LrzID d = ''ab**cde'' \<and> list_all (\<lambda>c. \<not> is_digit c) (us_LrzID d)"
proof -
  let ?d = "user_search_dto (zero_User\<lparr>ID := 2, user_Name := ''Bob'', Email := Some ''bob@tum.de'', LrzID := ''ab12cde'', Role := StudentType\<rparr>)"
  have r: "fst (SearchUser_route calm_user search_bob two_users) = [Reply StatusOK [?d]]" by code_simp
  then obtain db where db: "SearchUser_route calm_user search_bob two_users = ([Reply StatusOK [?d]], db)"
    by (cases "SearchUser_route calm_user search_bob two_users") simp
  have "us_Email ?d = ''b**@tum.de'' \<and> us_LrzID ?d = ''ab**cde''" by code_simp
  with r search_masks_users [OF db, of StatusOK "[?d]"] show ?thesis by (auto simp: list_all_iff)
qed

end
