(* ===== verification/Login_Props.thy ===== *)
theory Login_Props
  imports Login
begin

text \<open>
  What a login does: a password that was set through a link opens a session of its user and the link works once;
  a user whom the university reports for the first time is stored and turned away, and let in the second time.
\<close>

subsection \<open>A password that was set\<close>

lemma GetUserByEmail_found:
  "GetUserByEmail e m db = Inr u \<longleftrightarrow> fault e ''GetUserByEmail'' = None \<and> List.find (\<lambda>u. Email u = Some m \<and> live_row u) (t_users db) = Some u"
  by (auto simp: GetUserByEmail_def row_query_def split: option.splits)

lemma find_map_cong:
  "(\<And>x. x \<in> set xs \<Longrightarrow> P (f x) = P x) \<Longrightarrow> List.find P (map f xs) = map_option f (List.find P xs)"
  by (induction xs) auto

text \<open>Storing only a new password changes nothing else of the row.\<close>

lemma UpdateUser_password:
  assumes "fault e = (\<lambda>_. None)" "ID u \<noteq> 0" "user_columns u = u"
  shows "UpdateUser e (u\<lparr>Password := w\<rparr>) db =
    (None, db\<lparr>t_users := map (\<lambda>r. if ID r = ID u \<and> live_row r then nz_user (clock e) (u\<lparr>Password := w\<rparr>) r else r) (t_users db)\<rparr>)"
proof -
  have "Courses u = []" "AdministeredCourses u = []" "PinnedCourses u = []" "Settings u = []"
    using arg_cong [OF assms(3), of Courses] arg_cong [OF assms(3), of AdministeredCourses]
      arg_cong [OF assms(3), of PinnedCourses] arg_cong [OF assms(3), of Settings]
    by (simp_all add: user_columns_def)
  then show ?thesis
    using assms(1,2) by (simp add: UpdateUser_def api_exec_def Let_def link_all_def save_all_def)
qed

lemma nz_user_simps:
  "nz_user now (u\<lparr>Password := w\<rparr>) u = u\<lparr>UpdatedAt := now, Password := nz [] w (Password u)\<rparr>"
  by (simp add: nz_user_def nz_def)

lemma soft_deleted_not_live: "r \<in> set (soft_delete now P rows) \<Longrightarrow> P r \<Longrightarrow> (\<And>r d. P (r\<lparr>DeletedAt := d\<rparr>) = P r) \<Longrightarrow> \<not> live_row r"
  by (auto simp: soft_delete_def live_row_def split: if_splits)

lemma reset_key_used:
  assumes "fault e = (\<lambda>_. None)" "fault e' = (\<lambda>_. None)"
  shows "GetUserByResetKey e key (DeleteResetKey e' key db) = Inl Dao_Streams.not_found"
proof -
  have "link_row (DeleteResetKey e' key db) key = None"
    unfolding link_row_def find_None_iff
    using soft_deleted_not_live [of _ "clock e'" "\<lambda>l. RegisterSecret l = key" "t_links db"] assms(2)
    by (auto simp: DeleteResetKey_def api_exec_def)
  then show ?thesis using assms(1) by (simp add: GetUserByResetKey_def row_query_def)
qed

lemma changed_password_found:
  assumes "List.find (\<lambda>u. Email u = Some m \<and> live_row u) us = Some u" "distinct (map ID us)" "w \<noteq> []"
  shows "List.find (\<lambda>u. Email u = Some m \<and> live_row u)
      (map (\<lambda>r. if ID r = ID u \<and> live_row r then nz_user now (u\<lparr>Password := w\<rparr>) r else r) us) =
    Some (u\<lparr>UpdatedAt := now, Password := w\<rparr>)"
proof -
  let ?new = "\<lambda>r. if ID r = ID u \<and> live_row r then nz_user now (u\<lparr>Password := w\<rparr>) r else r"
  have u: "u \<in> set us" "live_row u" using assms(1) by (auto dest!: find_SomeD)
  have same: "r = u" if "r \<in> set us" "ID r = ID u" for r
    using that u(1) assms(2) by (auto simp: distinct_map inj_on_def)
  have "List.find (\<lambda>u. Email u = Some m \<and> live_row u) (map ?new us) =
      map_option ?new (List.find (\<lambda>u. Email u = Some m \<and> live_row u) us)"
  proof (rule find_map_cong)
    fix r
    assume "r \<in> set us"
    then show "(Email (?new r) = Some m \<and> live_row (?new r)) = (Email r = Some m \<and> live_row r)"
      using same [of r] by (cases "ID r = ID u") (auto simp: nz_user_simps live_row_def)
  qed
  moreover have "?new u = u\<lparr>UpdatedAt := now, Password := w\<rparr>"
    using u(2) assms(3) by (simp add: nz_user_simps nz_def)
  ultimately show ?thesis using assms(1) by simp
qed

text \<open>C11: whoever holds a link for setting a password and sends a password of at least eight characters can log in
  with the address and that password afterwards, whatever the parameters of the hash are by then, and the link is used up.
\<close>

theorem new_password_logs_in:
  assumes "fault (udb e) = (\<lambda>_. None)" "GetUserByResetKey (udb e) key db = Inr u" "Email u = Some m" "ID u \<noteq> 0"
    and rows: "List.find (\<lambda>u. Email u = Some m \<and> live_row u) (t_users db) = Some u" "distinct (map ID (t_users db))"
      "user_columns u = u"
    and crypto: "SetPassword (crypt e) (params e) p u = Some (None, v)" "argon_version (crypt e) < 2 ^ 63"
      "\<And>n b. random (crypt e) n = Some b \<Longrightarrow> length b = n"
      "\<And>s t m k n h. IDKey (crypt e) p s t m k n = Some h \<Longrightarrow> length h = unat n"
  shows "fst (CreatePasswordPage e True key p p db) = [RedirectTo StatusFound ''/''] \<and>
    fst (fst (LoginHandler (e\<lparr>params := q\<rparr>) ldap g m p (snd (CreatePasswordPage e True key p p db)))) =
      HandleValidLogin e g (ID u) None \<and>
    GetUserByResetKey (udb e) key (snd (CreatePasswordPage e True key p p db)) = Inl Dao_Streams.not_found"
proof -
  obtain w where v: "v = u\<lparr>Password := w\<rparr>" "w \<noteq> []"
    using crypto(1) by (auto simp: SetPassword_def GenerateFromPassword_def encode_hash_def split: if_splits option.splits sum.splits)
  define row where "row = u\<lparr>UpdatedAt := clock (udb e), Password := w\<rparr>"
  let ?rows = "map (\<lambda>r. if ID r = ID u \<and> live_row r then nz_user (clock (udb e)) (u\<lparr>Password := w\<rparr>) r else r) (t_users db)"
  let ?db = "DeleteResetKey (udb e) key (db\<lparr>t_users := ?rows\<rparr>)"
  have page: "CreatePasswordPage e True key p p db = ([RedirectTo StatusFound ''/''], ?db)"
    using assms(2) crypto(1) UpdateUser_password [OF assms(1,4) rows(3), of w]
    by (simp add: CreatePasswordPage_def handler_defs v(1))
  have "List.find (\<lambda>u. Email u = Some m \<and> live_row u) ?rows = Some row"
    using changed_password_found [OF rows(1,2) v(2)] by (simp add: row_def)
  then have "GetUserByEmail (udb e) m ?db = Inr row"
    using assms(1) by (simp add: GetUserByEmail_found DeleteResetKey_def api_exec_def)
  moreover have "fst (ComparePasswordAndHash (crypt e) p row q) = Some (Inr True)"
  proof -
    have "ComparePasswordAndHash (crypt e) p v q = (Some (Inr True), params e)"
      using password_roundtrip [OF crypto(1,2), where q = q] crypto(3,4) by blast
    moreover have "ComparePasswordAndHash (crypt e) p row q = ComparePasswordAndHash (crypt e) p v q"
      by (simp add: ComparePasswordAndHash_def row_def v(1))
    ultimately show ?thesis by simp
  qed
  ultimately have "fst (fst (LoginHandler (e\<lparr>params := q\<rparr>) ldap g m p ?db)) = HandleValidLogin (e\<lparr>params := q\<rparr>) g (ID u) None"
    by (cases "ComparePasswordAndHash (crypt e) p row q")
       (simp add: LoginHandler_def loginWithUserCredentials_def row_def)
  moreover have "HandleValidLogin (e\<lparr>params := q\<rparr>) g (ID u) None = HandleValidLogin e g (ID u) None"
    by (simp add: HandleValidLogin_def StartSession_def)
  ultimately show ?thesis using page reset_key_used [OF assms(1,1)] by simp
qed

subsection \<open>A first login through the university\<close>

lemma wrong_credentials_next: "loginWithUserCredentials e username password db = (Some None, p) \<Longrightarrow>
   LoginHandler e (Some ldap) g username password db =
     (case loginWithTumCredentials e ldap username password db of
        (Inl err, db) \<Rightarrow> (([Reply StatusOK (LoginTemplate True)], p), db)
      | (Inr i, db) \<Rightarrow> ((HandleValidLogin e g i None, p), db))"
  by (simp add: LoginHandler_def)

text \<open>C33: the first login of somebody whom the directory knows and the database does not is answered with the
  login page and its error, although the user is stored; the same login works the second time.
\<close>

theorem first_university_login_fails:
  assumes "fault (udb e) = (\<lambda>_. None)" "ldap username password = Inr r"
    and unknown: "\<forall>u \<in> set (t_users db). Email u \<noteq> Some username \<and> MatriculationNumber u \<noteq> ldap_UserId r"
    and valid: "ldap_UserId r \<noteq> []" "trim_space (ldap_FirstName r) \<noteq> []" "length (trim_space (ldap_FirstName r)) \<le> 80"
  shows "fst (fst (LoginHandler e (Some ldap) g username password db)) = [Reply StatusOK (LoginTemplate True)] \<and>
    (let db' = snd (LoginHandler e (Some ldap) g username password db) in
      length (t_users db') = Suc (length (t_users db)) \<and>
      fst (fst (LoginHandler e (Some ldap) g username password db')) = HandleValidLogin e g (next_user db) None)"
proof -
  let ?u = "zero_User\<lparr>user_Name := ldap_FirstName r, LastName := ldap_LastName r, MatriculationNumber := ldap_UserId r,
              LrzID := ldap_LrzIdent r\<rparr>"
  define new where "new = user_columns (stamp (clock (udb e)) (?u\<lparr>user_Name := trim_space (ldap_FirstName r), ID := next_user db,
                          Role := StudentType\<rparr>))"
  have none: "List.find (\<lambda>u. Email u = Some username \<and> live_row u) (t_users db) = None"
    "List.find (\<lambda>u. MatriculationNumber u = ldap_UserId r \<and> live_row u) (t_users db) = None"
    using unknown by (auto simp: find_None_iff)
  have no_conflict: "\<not> list_ex (user_conflict (?u\<lparr>user_Name := trim_space (ldap_FirstName r)\<rparr>)) (t_users db)"
    using unknown valid(1) by (auto simp: list_ex_iff user_conflict_def zero_User_def)
  have create: "CreateUser (udb e) ?u db = ((None, stamp (clock (udb e)) (?u\<lparr>user_Name := trim_space (ldap_FirstName r),
        ID := next_user db, Role := StudentType\<rparr>)),
      db\<lparr>t_users := t_users db @ [new], next_user := next_user db + 1\<rparr>)"
    using assms(1) valid no_conflict
    by (simp add: CreateUser_def User_BeforeCreate_def Let_def zero_User_def new_def maxUsernameLength_def stamp_def)
  have anonymous: "loginWithUserCredentials e username password d = (Some None, params e)"
    if "List.find (\<lambda>u. Email u = Some username \<and> live_row u) (t_users d) = None" for d
    using that assms(1) by (simp add: loginWithUserCredentials_def GetUserByEmail_def row_query_def)
  have first: "LoginHandler e (Some ldap) g username password db =
      (([Reply StatusOK (LoginTemplate True)], params e), db\<lparr>t_users := t_users db @ [new], next_user := next_user db + 1\<rparr>)"
    using assms(1,2) none(2) create valid(1)
    by (simp add: wrong_credentials_next [OF anonymous [OF none(1)]] loginWithTumCredentials_def UpsertUser_def
        row_query_def user_by_matriculation_def)
  let ?db = "db\<lparr>t_users := t_users db @ [new], next_user := next_user db + 1\<rparr>"
  have new: "Email new = None" "MatriculationNumber new = ldap_UserId r" "live_row new" "ID new = next_user db"
    by (simp_all add: new_def user_columns_def stamp_def live_row_def zero_User_def)
  have none': "List.find (\<lambda>u. Email u = Some username \<and> live_row u) (t_users ?db) = None"
    using none(1) new(1) by (simp add: find_append)
  have found: "user_by_matriculation ?db (ldap_UserId r) = Some new"
    using none(2) valid(1) new by (simp add: user_by_matriculation_def find_append)
  have "fst (fst (LoginHandler e (Some ldap) g username password ?db)) = HandleValidLogin e g (next_user db) None"
    using assms(1,2) found new(4)
    by (simp add: wrong_credentials_next [OF anonymous [OF none']] loginWithTumCredentials_def UpsertUser_def
        row_query_def api_exec_def Let_def)
  then show ?thesis by (simp add: first)
qed


subsection \<open>Instances\<close>

definition invited :: api_db where
  "invited = two_users\<lparr>t_links := [\<lparr>ID = 1, CreatedAt = 0, UpdatedAt = 0, DeletedAt = None, link_UserID = 2, RegisterSecret = ''s3''\<rparr>]\<rparr>"

definition bob :: User where
  "bob = zero_User\<lparr>ID := 2, user_Name := ''Bob'', Email := Some ''bob@tum.de'', LrzID := ''ab12cde'', Role := StudentType\<rparr>"

theorem new_password_logs_in_witness:
  "fst (fst (LoginHandler calm_user None search_bob ''bob@tum.de'' ''hunter22''
     (snd (CreatePasswordPage calm_user True ''s3'' ''hunter22'' ''hunter22'' invited)))) =
   [Cookie ''jwt'' ''token2'' 604800, RedirectTo StatusFound ''/'']"
proof -
  have calm: "fault (udb calm_user) = (\<lambda>_. None)" by (simp add: calm_def)
  have key: "GetUserByResetKey (udb calm_user) ''s3'' invited = Inr bob"
    by (simp add: invited_def two_users_def bob_def GetUserByResetKey_def link_row_def user_row_def row_query_def live_row_def
        zero_User_def with_rows_def no_rows_def)
  have rows: "List.find (\<lambda>u. Email u = Some ''bob@tum.de'' \<and> live_row u) (t_users invited) = Some bob"
    "distinct (map ID (t_users invited))" "user_columns bob = bob" "Email bob = Some ''bob@tum.de''" "ID bob = 2"
    by (simp_all add: invited_def two_users_def bob_def live_row_def zero_User_def user_columns_def)
  obtain v where v: "SetPassword (crypt calm_user) (params calm_user) ''hunter22'' bob = Some (None, v)"
    by (simp add: SetPassword_def GenerateFromPassword_def generateRandomBytes_def derive_def calm_user_def toy_crypto_def
        default_params_def)
  have crypto: "argon_version (crypt calm_user) < 2 ^ 63" "random (crypt calm_user) n = Some b \<Longrightarrow> length b = n"
    "IDKey (crypt calm_user) p s t m k l = Some h \<Longrightarrow> length h = unat l" for n b p s t m k l h
    by (auto simp: calm_user_def toy_crypto_def split: if_splits)
  have "HandleValidLogin calm_user search_bob 2 None = [Cookie ''jwt'' ''token2'' 604800, RedirectTo StatusFound ''/'']"
    by code_simp
  moreover have "calm_user\<lparr>params := params calm_user\<rparr> = calm_user" by (simp add: calm_user_def)
  ultimately show ?thesis
    using new_password_logs_in [where q = "params calm_user" and ldap = None and g = search_bob,
        OF calm key rows(4) _ rows(1-3) v crypto] rows(5)
    by simp
qed

definition directory :: "string \<Rightarrow> string \<Rightarrow> string + LdapResp" where
  "directory username password =
     (if username = ''eve'' \<and> password = ''pw''
      then Inr \<lparr>ldap_UserId = ''0815'', ldap_LrzIdent = ''ev00eve'', ldap_FirstName = ''Eve'', ldap_LastName = None\<rparr>
      else Inl ErrLdapBadAuth)"

theorem first_university_login_fails_witness:
  "fst (fst (LoginHandler calm_user (Some directory) search_bob ''eve'' ''pw'' two_users)) = [Reply StatusOK (LoginTemplate True)] \<and>
   fst (fst (LoginHandler calm_user (Some directory) search_bob ''eve'' ''pw''
     (snd (LoginHandler calm_user (Some directory) search_bob ''eve'' ''pw'' two_users)))) =
     [Cookie ''jwt'' ''token100'' 604800, RedirectTo StatusFound ''/'']"
proof -
  have calm: "fault (udb calm_user) = (\<lambda>_. None)" by (simp add: calm_def)
  have r: "directory ''eve'' ''pw'' = Inr \<lparr>ldap_UserId = ''0815'', ldap_LrzIdent = ''ev00eve'', ldap_FirstName = ''Eve'', ldap_LastName = None\<rparr>"
    by (simp add: directory_def)
  have "trim_space ''Eve'' = ''Eve''" by code_simp
  moreover have "HandleValidLogin calm_user search_bob 100 None = [Cookie ''jwt'' ''token100'' 604800, RedirectTo StatusFound ''/'']"
    by code_simp
  moreover have "next_user two_users = 100" by (simp add: two_users_def with_rows_def)
  ultimately show ?thesis
    using first_university_login_fails [where db = two_users and g = search_bob and ldap = directory and username = "''eve''"
        and password = "''pw''", OF calm r]
    by (simp add: two_users_def zero_User_def Let_def)
qed

end
