(* ===== verification/Stream_Api.thy ===== *)
theory Stream_Api
  imports Dao_Users Course_Api Go_Path
begin

text \<open>
  \<^verbatim>\<open>src/api/stream.go\<close> and \<^verbatim>\<open>src/api/download.go\<close>: thumbnails, playlists, video sections,
  attachments, subtitles and the settings of one stream, with the queries of \<^verbatim>\<open>dao/file.go\<close>,
  \<^verbatim>\<open>dao/video-section.go\<close>, \<^verbatim>\<open>dao/progress.go\<close> and \<^verbatim>\<open>dao/subtitles.go\<close> they need. Writing and
  removing a file of the disk is an answer, and so is a goroutine; the goroutines' calls to the workers are those of
  \<open>Worker_Grpc\<close>.
\<close>

text \<open>
  \<open>works\<close>: the workers. \<open>opens\<close>: a file of the disk can be opened. \<open>t_subtitles\<close>: the table of subtitles
  as (stream, language, content). \<open>sends_alert\<close>: the error of the bot. \<open>voice\<close>: the error of the connection to the
  voice service, \<open>generates\<close> that of the call.
\<close>

record stream_env =
  sapi :: api_env
  works :: wenv
  opens :: "string \<Rightarrow> bool"
  t_subtitles :: "(uint \<times> string \<times> string) list"
  ingest_base :: string
  web_url :: string
  temp_dir :: string
  voice :: "string option"
  generates :: "32 word \<Rightarrow> string \<Rightarrow> string \<Rightarrow> string option"

abbreviation sdb :: "stream_env \<Rightarrow> db_env" where
  "sdb e \<equiv> dbe (sapi e)"

definition MAX_FILE_SIZE :: int where "MAX_FILE_SIZE = 1000 * 1000 * 50"
definition StatusAccepted :: nat where "StatusAccepted = 202"

subsection \<open>Queries\<close>

definition GetFileById :: "db_env \<Rightarrow> uint \<Rightarrow> api_db \<Rightarrow> string + File" where
  "GetFileById e i db = row_query e ''GetFileById'' (List.find (\<lambda>f. ID f = i \<and> live_row f) (t_files (base db)))"

definition DeleteFile :: "db_env \<Rightarrow> uint \<Rightarrow> api_db \<Rightarrow> string option \<times> api_db" where
  "DeleteFile e i db =
     api_exec e ''DeleteFile'' (\<lambda>db. db\<lparr>base := (base db)\<lparr>t_files :=
       soft_delete (clock e) (\<lambda>f. ID f = i) (t_files (base db))\<rparr>\<rparr>) db"

definition GetByStreamId :: "db_env \<Rightarrow> uint \<Rightarrow> api_db \<Rightarrow> string + VideoSection list" where
  "GetByStreamId e i db =
     row_query e ''GetByStreamId''
       (Some (sort_key StartHours (sort_key StartMinutes (sort_key StartSeconds
          (filter (\<lambda>v. section_StreamID v = i \<and> live_row v) (t_sections db))))))"

definition zero_section :: VideoSection where
  "zero_section = \<lparr>ID = 0, CreatedAt = zero_time, UpdatedAt = zero_time, DeletedAt = None, section_Description = [],
     StartHours = 0, StartMinutes = 0, StartSeconds = 0, section_StreamID = 0, section_FileID = 0\<rparr>"

definition GetSection :: "db_env \<Rightarrow> uint \<Rightarrow> api_db \<Rightarrow> string + VideoSection" where
  "GetSection e i db =
     row_query e ''GetSection''
       (Some (case List.find (\<lambda>v. ID v = i \<and> live_row v) (t_sections db) of None \<Rightarrow> zero_section | Some v \<Rightarrow> v))"

definition CreateSections :: "db_env \<Rightarrow> VideoSection list \<Rightarrow> api_db \<Rightarrow> string option \<times> api_db" where
  "CreateSections e xs db =
     (if xs = [] then (Some ''empty slice found'', db)
      else if list_ex (\<lambda>x. ID x \<noteq> 0 \<and> list_ex (\<lambda>r. ID r = ID x) (t_sections db)) xs \<or>
              \<not> distinct (map ID (filter (\<lambda>x. ID x \<noteq> 0) xs)) then (Some ''duplicate key'', db)
      else api_exec e ''CreateSections'' (\<lambda>db.
        let (ys, k) = number (next_section db) xs
        in db\<lparr>t_sections := t_sections db @ map (stamp (clock e)) ys, next_section := k\<rparr>) db)"

definition UpdateSection :: "db_env \<Rightarrow> VideoSection \<Rightarrow> api_db \<Rightarrow> string option \<times> api_db" where
  "UpdateSection e v db =
     (if ID v = 0 then (Some ''WHERE conditions required'', db)
      else api_exec e ''UpdateSection'' (\<lambda>db. db\<lparr>t_sections := map (\<lambda>r.
        if ID r = ID v \<and> live_row r
        then r\<lparr>UpdatedAt := clock e, section_Description := nz [] (section_Description v) (section_Description r),
               StartHours := nz 0 (StartHours v) (StartHours r), StartMinutes := nz 0 (StartMinutes v) (StartMinutes r),
               StartSeconds := nz 0 (StartSeconds v) (StartSeconds r),
               section_StreamID := nz 0 (section_StreamID v) (section_StreamID r),
               section_FileID := nz 0 (section_FileID v) (section_FileID r)\<rparr>
        else r) (t_sections db)\<rparr>) db)"

definition DeleteSection :: "db_env \<Rightarrow> uint \<Rightarrow> api_db \<Rightarrow> string option \<times> api_db" where
  "DeleteSection e i db =
     api_exec e ''DeleteSection'' (\<lambda>db. db\<lparr>t_sections := soft_delete (clock e) (\<lambda>v. ID v = i) (t_sections db)\<rparr>) db"

definition LoadProgress :: "db_env \<Rightarrow> uint \<Rightarrow> uint list \<Rightarrow> api_db \<Rightarrow> string + StreamProgress list" where
  "LoadProgress e uid ids db =
     row_query e ''LoadProgress'' (Some (filter (\<lambda>p. prog_UserID p = uid \<and> prog_StreamID p \<in> set ids) (t_views db)))"

text \<open>A condition on a zero field is left out, as the condition is a struct.\<close>

definition GetByStreamIDandLang :: "stream_env \<Rightarrow> uint \<Rightarrow> string \<Rightarrow> string + string" where
  "GetByStreamIDandLang e i lang =
     map_sum id (\<lambda>(s, l, c). c)
       (row_query (sdb e) ''GetByStreamIDandLang''
         (List.find (\<lambda>(s, l, c). (i = 0 \<or> s = i) \<and> (lang = [] \<or> l = lang)) (t_subtitles e)))"

subsection \<open>Files that are sent\<close>

text \<open>The answer of a download: the name under which the browser stores the file, and the file.\<close>

definition sendDownloadFile :: "stream_env \<Rightarrow> File \<Rightarrow> (string \<times> string) handler" where
  "sendDownloadFile e f =
     (if \<not> opens e (Path f) then fails StatusNotFound ''can not open file''
      else if os_fault (sapi e) (''stat '' @ Path f) then fails StatusInternalServerError ''can not read stats from file''
      else sends [Reply StatusOK (if Filename f \<noteq> [] then Filename f else GetDownloadFileName f, Path f)])"

definition sendImageContent :: "stream_env \<Rightarrow> File \<Rightarrow> (string \<times> string) handler" where
  "sendImageContent e f =
     (if \<not> opens e (Path f) then sends [AbortStatus StatusNotFound] else sends [Reply StatusOK ([], Path f)])"

definition no_context :: string where
  "no_context = ''context should exist but doesn'' @ [CHR 0x27] @ [CHR ''t'']"

definition download_denied :: "'a handler" where
  "download_denied = fails StatusForbidden ''user not allowed to get file''"

definition download :: "stream_env \<Rightarrow> TUMLiveContext option \<Rightarrow> gin \<Rightarrow> (string \<times> string) handler" where
  "download e t g =
     demand t (fails StatusInternalServerError no_context) (\<lambda>t.
       demand (ctx_User t) (fails StatusForbidden ''not logged in'') (\<lambda>user.
         with_row (GetFileById (sdb e) (key_of (sapi e) (gparam g ''id'')))
           (\<lambda>err. fails StatusBadRequest ''can not find file'')
           (\<lambda>f. with_result (StreamById (sdb e) (file_StreamID f))
             (\<lambda>err. fails StatusInternalServerError ''can not get stream'')
             (\<lambda>stream. with_row (CourseById (sdb e) (CourseID stream))
               (\<lambda>err. fails StatusInternalServerError ''can not get course'')
               (\<lambda>course.
                 if gquery g ''type'' = ''serve'' then sendImageContent e f
                 else if IsAdminOfCourse (Some user) course then sendDownloadFile e f
                 else if \<not> DownloadsEnabled course then download_denied
                 else if IsEnrolled course \<and> \<not> IsEligibleToWatchCourse (Some user) course then download_denied
                 else sendDownloadFile e f)))))"

subsection \<open>Thumbnails and subtitles\<close>

definition getThumbs :: "stream_env \<Rightarrow> TUMLiveContext option \<Rightarrow> gin \<Rightarrow> (string \<times> string) handler" where
  "getThumbs e t g =
     demand t (fails StatusInternalServerError no_context) (\<lambda>t.
       with_row (GetFileById (sdb e) (key_of (sapi e) (gparam g ''fid'')))
         (\<lambda>err. fails StatusNotFound ''can not find file'')
         (\<lambda>f.
           if \<not> IsThumb f then fails StatusForbidden ''file is not a thumbnail''
           else deref (ctx_Stream t) (\<lambda>stream.
             if ID stream \<noteq> file_StreamID f
             then fails StatusBadRequest (''streamID of file doesn'' @ [CHR 0x27] @ ''t match stream id of request url'')
             else sendDownloadFile e f)))"

definition getVODThumbs :: "stream_env \<Rightarrow> TUMLiveContext \<Rightarrow> gin \<Rightarrow> unit handler" where
  "getVODThumbs e t g =
     (let answer = (\<lambda>thumb. demand thumb (fails StatusNotFound ''Large Thumbnail not found'') (\<lambda>path. sends [SendFile path])) in
      if gquery g ''type'' = [] then deref (ctx_Stream t) (\<lambda>stream.
        with_row (\<lambda>db. GetThumbnail (sdb e) (ID stream) FILETYPE_THUMB_CUSTOM (base db))
          (\<lambda>err. answer (GetLGThumbnail stream))
          (\<lambda>f. sends [SendFile (Path f)]))
      else if \<not> VideoType_Valid (gquery g ''type'') then fails StatusBadRequest ''Invalid VideoType''
      else deref (ctx_Stream t) (\<lambda>stream. answer (GetLGThumbnailForVideoType stream (gquery g ''type''))))"

definition TUMLiveTemporary :: "stream_env \<Rightarrow> string" where
  "TUMLiveTemporary e = path_Join [temp_dir e, ''TUM-Live'']"

definition LiveThumbnail :: "stream_env \<Rightarrow> string \<Rightarrow> string" where
  "LiveThumbnail e streamID = path_Join [TUMLiveTemporary e, streamID @ ''.jpeg'']"

definition getLiveThumbs :: "stream_env \<Rightarrow> TUMLiveContext \<Rightarrow> unit handler" where
  "getLiveThumbs e t =
     deref (ctx_Stream t) (\<lambda>stream.
       let thumbnail = (\<lambda>ty db. GetThumbnail (sdb e) (ID stream) ty (base db)) in
       with_row (thumbnail FILETYPE_THUMB_CUSTOM)
         (\<lambda>err. with_row (thumbnail FILETYPE_THUMB_LG_CAM_PRES)
           (\<lambda>err. sends [SendFile (LiveThumbnail e (itoa (sint (ID stream))))])
           (\<lambda>f. sends [SendFile (Path f)]))
         (\<lambda>f. sends [SendFile (Path f)]))"

definition getSubtitles :: "stream_env \<Rightarrow> TUMLiveContext \<Rightarrow> gin \<Rightarrow> string handler" where
  "getSubtitles e t g =
     deref (ctx_Stream t) (\<lambda>stream.
       case GetByStreamIDandLang e (ID stream) (gparam g ''lang'') of
         Inl err \<Rightarrow> if err = Dao_Streams.not_found then fails StatusNotFound ''invalid streamID or language''
                    else fails StatusInternalServerError ''can not get by streamID and language''
       | Inr content \<Rightarrow> sends [Reply StatusOK content])"

subsection \<open>Live streams, playlists, issues\<close>

record liveStreamDto =
  ls_ID :: uint
  ls_CourseName :: string
  ls_LectureHall :: string
  ls_COMB :: string
  ls_PRES :: string
  ls_CAM :: string
  ls_End :: gotime

definition live_stream_dto :: "stream_env \<Rightarrow> api_db \<Rightarrow> Stream \<Rightarrow> liveStreamDto" where
  "live_stream_dto e db s =
     \<lparr>ls_ID = ID s,
      ls_CourseName = course_Name (case CourseById (sdb e) (CourseID s) db of Inl err \<Rightarrow> zero_Course | Inr c \<Rightarrow> c),
      ls_LectureHall =
        (if LectureHallID s = 0 then ''Selfstream''
         else case GetLectureHallByID (sdb e) (LectureHallID s) (base db) of Inl err \<Rightarrow> ''Selfstream'' | Inr l \<Rightarrow> lh_Name l),
      ls_COMB = PlaylistUrl s, ls_PRES = PlaylistUrlPRES s, ls_CAM = PlaylistUrlCAM s, ls_End = End s\<rparr>"

definition liveStreams :: "stream_env \<Rightarrow> liveStreamDto list handler" where
  "liveStreams e =
     with_result (on_base (GetCurrentLive (sdb e)))
       (\<lambda>err. fails StatusInternalServerError ''can not get current live streams'')
       (\<lambda>streams. reading (\<lambda>db. map (live_stream_dto e db) streams) (\<lambda>ds. sends [Reply StatusOK ds]))"

text \<open>Ending a stream asks its workers; what they are asked is returned with the database.\<close>

definition endStream :: "stream_env \<Rightarrow> TUMLiveContext \<Rightarrow> gin \<Rightarrow> api_db \<Rightarrow> (wcall list \<times> api_db) outcome" where
  "endStream e t g db =
     (case ctx_Stream t of
        None \<Rightarrow> Panics NilDereference
      | Some stream \<Rightarrow>
          (let st = NotifyWorkersToStopStream (works e) stream (gquery g ''discard'' = ''true'') \<lparr>tab = base db, wlog = []\<rparr>
           in Returns (wlog st, db\<lparr>base := tab st\<rparr>)))"

record alertMessage =
  al_Comment :: string
  al_PhoneNumber :: string
  al_Email :: string
  al_Categories :: "8 word list"
  al_Name :: string

record AlertMessage =
  bot_PhoneNumber :: string
  bot_Email :: string
  bot_Categories :: string
  bot_Comment :: string
  bot_Name :: string
  bot_CourseName :: string
  bot_LectureHall :: string
  bot_StreamUrl :: string
  bot_CombIP :: string
  bot_CameraIP :: string
  bot_IsLecturer :: bool
  bot_Stream :: Stream
  bot_User :: User

text \<open>The names of the categories, in UTF-8.\<close>

definition category_name :: "8 word \<Rightarrow> string" where
  "category_name k =
     (if k = 1 then [CHR 0xF0, CHR 0x9F, CHR 0x8E, CHR 0xA5] @ '' Camera''
      else if k = 2 then [CHR 0xF0, CHR 0x9F, CHR 0x8E, CHR 0xA4] @ '' Microphone''
      else if k = 3 then [CHR 0xF0, CHR 0x9F, CHR 0x94, CHR 0x8A] @ '' Audio''
      else if k = 4 then [CHR 0xF0, CHR 0x9F, CHR 0x8E, CHR 0xAC] @ '' Video''
      else if k = 5 then [CHR 0xF0, CHR 0x9F, CHR 0x92, CHR 0xA1] @ ''Light''
      else if k = 6 then ''Other'' else [])"

text \<open>
  A body that does not bind is answered, but the return is missing: the alert is sent with what was decoded. The
  argument \<open>send\<close> is the bot.
\<close>

definition reportStreamIssue ::
    "stream_env \<Rightarrow> (AlertMessage \<Rightarrow> string option) \<Rightarrow> TUMLiveContext \<Rightarrow> bool \<Rightarrow> alertMessage \<Rightarrow> unit handler" where
  "reportStreamIssue e send t binds alert =
     also_sends (if binds then [] else [RequestError StatusBadRequest ''can not bind body''])
      (deref (ctx_Stream t) (\<lambda>stream.
        with_row (\<lambda>db. GetLectureHallByID (sdb e) (LectureHallID stream) (base db))
          (\<lambda>err. fails StatusInternalServerError ''can not get lecturehall by id'')
          (\<lambda>hall. with_row (CourseById (sdb e) (CourseID stream))
            (\<lambda>err. fails StatusInternalServerError ''can not get course by id'')
            (\<lambda>course. deref (ctx_User t) (\<lambda>user.
              let m = \<lparr>bot_PhoneNumber = al_PhoneNumber alert, bot_Email = al_Email alert,
                       bot_Categories = join (map category_name (al_Categories alert)) ('' '' @ [CHR 0xC2, CHR 0xB7] @ '' ''),
                       bot_Comment = al_Comment alert, bot_Name = al_Name alert, bot_CourseName = course_Name course,
                       bot_LectureHall = lh_Name hall,
                       bot_StreamUrl = web_url e @ ''/w/'' @ Slug course @ ''/'' @ uint_str (ID stream),
                       bot_CombIP = CombIP hall, bot_CameraIP = CameraIP hall,
                       bot_IsLecturer = IsAdminOfCourse (Some user) course, bot_Stream = stream, bot_User = user\<rparr>
              in if send m = None then sends [] else fails StatusInternalServerError ''can not send bot alert'')))))"

record stream_info =
  si_course :: string
  si_courseID :: uint
  si_streamID :: uint
  si_name :: string
  si_description :: string
  si_start :: gotime
  si_end :: gotime
  si_ingest :: string
  si_live :: bool
  si_vod :: bool

definition getStream :: "stream_env \<Rightarrow> TUMLiveContext \<Rightarrow> stream_info handler" where
  "getStream e t =
     deref (ctx_Stream t) (\<lambda>stream. deref (ctx_Course t) (\<lambda>course.
       if Private stream \<and> (ctx_User t = None \<or> \<not> IsAdminOfCourse (ctx_User t) course) then sends []
       else sends [Reply StatusOK
         \<lparr>si_course = course_Name course, si_courseID = ID course, si_streamID = ID stream, si_name = stream_Name stream,
          si_description = Description stream, si_start = Start stream, si_end = End stream,
          si_ingest = ingest_base e @ Slug course @ ''-'' @ uint_str (ID stream) @ ''?secret='' @ StreamKey stream,
          si_live = LiveNow stream, si_vod = Recording stream\<rparr>]))"

record StreamPlaylistEntry =
  pe_StreamID :: uint
  pe_CourseSlug :: string
  pe_StreamName :: string
  pe_LiveNow :: bool
  pe_Watched :: bool
  pe_Start :: gotime
  pe_Progress :: StreamProgress
  pe_CreatedAt :: gotime

definition zero_progress :: StreamProgress where
  "zero_progress = \<lparr>prog_Progress = 0, prog_Watched = False, prog_StreamID = 0, prog_UserID = 0\<rparr>"

definition progress_of :: "StreamProgress list \<Rightarrow> uint \<Rightarrow> StreamProgress" where
  "progress_of ps i = (case List.find (\<lambda>p. prog_StreamID p = i) (rev ps) of None \<Rightarrow> zero_progress | Some p \<Rightarrow> p)"

definition playlist_entry :: "stream_env \<Rightarrow> Course \<Rightarrow> StreamProgress list \<Rightarrow> Stream \<Rightarrow> StreamPlaylistEntry" where
  "playlist_entry e course ps s =
     \<lparr>pe_StreamID = ID s, pe_CourseSlug = Slug course, pe_StreamName = GetName (time_format (sapi e)) s, pe_LiveNow = LiveNow s,
      pe_Watched = Watched s, pe_Start = Start s, pe_Progress = progress_of ps (ID s), pe_CreatedAt = CreatedAt s\<rparr>"

text \<open>Somebody who is not logged in gets past the guards of a public course; the user is used all the same.\<close>

definition getStreamPlaylist :: "stream_env \<Rightarrow> TUMLiveContext \<Rightarrow> StreamPlaylistEntry list handler" where
  "getStreamPlaylist e t =
     deref (ctx_Course t) (\<lambda>own.
       reading (\<lambda>db. case CourseById (sdb e) (ID own) db of Inl err \<Rightarrow> zero_Course | Inr c \<Rightarrow> c) (\<lambda>course.
         let shown = filter (\<lambda>s. \<not> (Private s \<and> (ctx_User t = None \<or> \<not> IsAdminOfCourse (ctx_User t) course))) (Streams own)
         in deref (ctx_User t) (\<lambda>user.
           reading (\<lambda>db. case LoadProgress (sdb e) (ID user) (map ID shown) db of Inl err \<Rightarrow> [] | Inr ps \<Rightarrow> ps) (\<lambda>ps.
             sends [Reply StatusOK (map (playlist_entry e own ps) shown)]))))"

subsection \<open>Video sections\<close>

definition getVideoSections :: "stream_env \<Rightarrow> TUMLiveContext \<Rightarrow> VideoSection list handler" where
  "getVideoSections e t =
     deref (ctx_Stream t) (\<lambda>stream.
       with_row (GetByStreamId (sdb e) (ID stream)) (\<lambda>err. sends [Reply StatusOK []]) (\<lambda>xs. sends [Reply StatusOK xs]))"

text \<open>The sections keep the stream that the body names.\<close>

definition createVideoSectionBatch ::
    "stream_env \<Rightarrow> TUMLiveContext \<Rightarrow> VideoSection list option \<Rightarrow> VideoSection list handler" where
  "createVideoSectionBatch e t body =
     demand body (bad_request ''can not bind body'') (\<lambda>xs.
       with_done (CreateSections (sdb e) xs)
         (\<lambda>err. fails StatusInternalServerError ''failed to create video sections'')
         (deref (ctx_Stream t) (\<lambda>stream.
           with_row (GetByStreamId (sdb e) (ID stream))
             (\<lambda>err. fails StatusInternalServerError ''failed to get video sections'')
             (\<lambda>xs.
               if fst (SetSignedPlaylists (signs (sapi e)) (now_of (sapi e)) stream None False) \<noteq> None
               then fails StatusInternalServerError ''failed to set signed playlists''
               else sends [Spawn ''GenerateVideoSectionImages'', Reply StatusOK xs]))))"

record UpdateVideoSectionRequest =
  uv_Description :: string
  uv_StartHours :: uint
  uv_StartMinutes :: uint
  uv_StartSeconds :: uint

definition updateVideoSection :: "stream_env \<Rightarrow> gin \<Rightarrow> UpdateVideoSectionRequest option \<Rightarrow> unit handler" where
  "updateVideoSection e g body =
     demand (atoi (gparam g ''id'')) (fails StatusBadRequest ''can not parse video-section id in request url'') (\<lambda>i.
       demand body (bad_request ''can not bind body'') (\<lambda>update.
         with_done (UpdateSection (sdb e) (zero_section\<lparr>ID := to_uint i, section_Description := uv_Description update,
             StartHours := uv_StartHours update, StartMinutes := uv_StartMinutes update,
             StartSeconds := uv_StartSeconds update\<rparr>))
           (\<lambda>err. fails StatusInternalServerError ''can not update video section'')
           (sends [])))"

text \<open>A missing section is not noticed: the empty one that is read instead has no file.\<close>

definition deleteVideoSection :: "stream_env \<Rightarrow> gin \<Rightarrow> unit handler" where
  "deleteVideoSection e g =
     demand (atoi (gparam g ''id'')) (fails StatusBadRequest ''can not parse video-section id in request url'') (\<lambda>i.
       with_row (GetSection (sdb e) (to_uint i))
         (\<lambda>err. fails StatusBadRequest ''invalid video-section id'')
         (\<lambda>old. with_done (DeleteSection (sdb e) (to_uint i))
           (\<lambda>err. fails StatusInternalServerError ''can not delete video-section'')
           (let answer = (\<lambda>path. sends [Spawn (''DeleteVideoSectionImage '' @ path), Reply StatusAccepted ()]) in
            with_row (GetFileById (sdb e) (section_FileID old))
             (\<lambda>err. if err = Dao_Streams.not_found then answer []
                    else fails StatusInternalServerError ''can not get video section thumbnail file'')
             (\<lambda>f. answer (Path f)))))"

text \<open>Every recording of the stream gets new thumbnails; a panic of the call to a worker ends the request. The addresses
  are signed in the stream itself, so the next recording meets the signed ones.\<close>

fun regenerate_each ::
    "stream_env \<Rightarrow> Stream \<Rightarrow> File list \<Rightarrow> wcall list \<Rightarrow> api_db \<Rightarrow> (wcall list \<times> string list \<times> api_db) outcome" where
  "regenerate_each e stream [] asked db = Returns (asked, [], db)"
| "regenerate_each e stream (f # fs) asked db =
     (if file_Type f \<noteq> FILETYPE_VOD then regenerate_each e stream fs asked db
      else outcome_bind (RegenerateThumbs (works e) f stream \<lparr>tab = base db, wlog = asked\<rparr>) (\<lambda>(err, st).
        let db' = db\<lparr>base := tab st\<rparr>;
            reached = (err = None \<and> fault (sdb e) ''GetByStreamId'' = None);
            (unsigned_err, signed_stream) = SetSignedPlaylists (signs (sapi e)) (now_of (sapi e)) stream None False
        in outcome_bind (regenerate_each e (if reached then signed_stream else stream) fs (wlog st) db') (\<lambda>(asked, spawned, db).
             Returns (asked, if reached \<and> unsigned_err = None then ''GenerateVideoSectionImages'' # spawned else spawned, db))))"

definition RegenerateThumbs_route ::
    "stream_env \<Rightarrow> TUMLiveContext \<Rightarrow> api_db \<Rightarrow> (wcall list \<times> string list \<times> api_db) outcome" where
  "RegenerateThumbs_route e t db =
     (case ctx_Stream t of None \<Rightarrow> Panics NilDereference | Some stream \<Rightarrow> regenerate_each e stream (Files stream) [] db)"

subsection \<open>Attachments and the thumbnail of a stream\<close>

record upload =
  up_Filename :: string
  up_Size :: int
  up_ContentType :: string

text \<open>\<^verbatim>\<open>filepath.Ext\<close>: what follows the last dot of the last element, with the dot.\<close>

definition file_ext :: "string \<Rightarrow> string" where
  "file_ext path =
     (let tail = takeWhile (\<lambda>c. c \<noteq> CHR ''/'') (rev path); ext = takeWhile (\<lambda>c. c \<noteq> CHR ''.'') tail
      in if ext = tail then [] else CHR ''.'' # rev ext)"

definition NewFile_result :: "stream_env \<Rightarrow> File \<Rightarrow> api_db \<Rightarrow> (string + uint) \<times> api_db" where
  "NewFile_result e f = on_base (NewFile (sdb e) f)"

definition attachments_folder :: "stream_env \<Rightarrow> Course \<Rightarrow> string" where
  "attachments_folder e course =
     mass_path (sapi e) @ ''/'' @ course_Name course @ ''.'' @ itoa (course_Year course) @ ''/'' @ course_Name course @ ''.'' @
     course_TeachingTerm course @ ''/files''"

definition newAttachment :: "stream_env \<Rightarrow> TUMLiveContext \<Rightarrow> gin \<Rightarrow> upload option \<Rightarrow> uint handler" where
  "newAttachment e t g form =
     deref (ctx_Stream t) (\<lambda>stream. deref (ctx_Course t) (\<lambda>course.
       if gquery g ''type'' \<noteq> ''file''
       then fails StatusBadRequest (''missing or invalid query parameter '' @ [CHR 0x27] @ ''type'' @ [CHR 0x27])
       else demand form (fails StatusBadRequest (''missing form parameter '' @ [CHR 0x27] @ ''file'' @ [CHR 0x27])) (\<lambda>file1.
         if up_Size file1 > MAX_FILE_SIZE then fails StatusBadRequest ''file too large (limit is 50mb)''
         else
          (let folder = attachments_folder e course;
               path = folder @ ''/'' @ uuid (sapi e) 0 @ file_ext (up_Filename file1)
           in if os_fault (sapi e) (''mkdir '' @ folder)
              then fails StatusInternalServerError (''couldn'' @ [CHR 0x27] @ ''t create folder: '' @ folder)
              else if os_fault (sapi e) (''save '' @ path)
              then fails StatusInternalServerError (''could not save file with path: '' @ path)
              else also_sends [Stores path]
                (with_result (NewFile_result e ((new_file (ID stream) path FILETYPE_ATTACHMENT)\<lparr>Filename := up_Filename file1\<rparr>))
                  (\<lambda>err. fails StatusInternalServerError ''can not save file in database'')
                  (\<lambda>i. sends [Reply StatusOK i]))))))"

text \<open>The file is that of the path, whatever stream it belongs to.\<close>

definition deleteAttachment :: "stream_env \<Rightarrow> (string \<Rightarrow> bool) \<Rightarrow> gin \<Rightarrow> unit handler" where
  "deleteAttachment e rest_ok g =
     with_row (GetFileById (sdb e) (key_of (sapi e) (gparam g ''fid'')))
       (\<lambda>err. fails StatusBadRequest ''can not find file'')
       (\<lambda>f.
         let delete = with_done (DeleteFile (sdb e) (ID f))
               (\<lambda>err. fails StatusInternalServerError ''can not delete file from database'') (sends []) in
         if IsURL rest_ok f then delete
         else if os_fault (sapi e) (''remove '' @ Path f)
         then fails StatusInternalServerError (''can not delete file with path: '' @ Path f)
         else also_sends [Removes (Path f)] delete)"

definition aborts_error :: "nat \<Rightarrow> string \<Rightarrow> 'a handler" where
  "aborts_error n message = sends [AbortStatus n, RequestError n message]"

definition image_extensions :: "string list" where
  "image_extensions = [''.jpg'', ''.jpeg'', ''.png'', ''.gif'', ''.webp'']"

definition thumbnail_folder :: "stream_env \<Rightarrow> Course \<Rightarrow> string" where
  "thumbnail_folder e course =
     path_Join [mass_path (sapi e), course_Name course @ ''.'' @ itoa (course_Year course) @ ''.'' @ course_TeachingTerm course,
                ''files'']"

text \<open>The key of the new row is set in a copy of the thumbnail, so that the answer is always 0.\<close>

definition putCustomLiveThumbnail :: "stream_env \<Rightarrow> TUMLiveContext \<Rightarrow> upload option \<Rightarrow> uint handler" where
  "putCustomLiveThumbnail e t form =
     deref (ctx_Stream t) (\<lambda>stream.
       demand form (aborts_error StatusBadRequest ''Invalid file'') (\<lambda>file1.
         if up_Size file1 > MAX_FILE_SIZE then aborts_error StatusBadRequest ''File too large''
         else if \<not> has_prefix (up_ContentType file1) ''image/'' then aborts_error StatusBadRequest ''Invalid file type''
         else if to_lower (file_ext (up_Filename file1)) \<notin> set image_extensions
         then aborts_error StatusBadRequest ''Unsupported image format''
         else deref (ctx_Course t) (\<lambda>course.
           let path = path_Join [thumbnail_folder e course, uuid (sapi e) 0 @ file_ext (up_Filename file1)] in
           if os_fault (sapi e) (''mkdir '' @ thumbnail_folder e course)
           then aborts_error StatusInternalServerError ''Failed to create thumbnail folder''
           else if os_fault (sapi e) (''save '' @ path) then aborts_error StatusInternalServerError ''Failed to save file''
           else also_sends [Stores path]
             (with_done (on_base (SetThumbnail (sdb e) (ID stream) ((new_file (ID stream) path FILETYPE_THUMB_CUSTOM)
                                    \<lparr>Filename := up_Filename file1, CourseName := course_Name course\<rparr>)))
               (\<lambda>err. aborts_error StatusInternalServerError ''Failed to set thumbnail'')
               (sends [Reply StatusOK 0])))))"

subsection \<open>Subtitles, visibility, chat\<close>

definition subtitle_playlist :: "Stream \<Rightarrow> string option" where
  "subtitle_playlist s =
     (if PlaylistUrl s \<noteq> [] then Some (PlaylistUrl s)
      else if PlaylistUrlPRES s \<noteq> [] then Some (PlaylistUrlPRES s)
      else if PlaylistUrlCAM s \<noteq> [] then Some (PlaylistUrlCAM s) else None)"

definition requestSubtitles :: "stream_env \<Rightarrow> TUMLiveContext \<Rightarrow> string option \<Rightarrow> unit handler" where
  "requestSubtitles e t body =
     demand body (bad_request ''can not bind body'') (\<lambda>language.
       deref (ctx_Stream t) (\<lambda>stream.
         let (err, signed) = SetSignedPlaylists (signs (sapi e)) (now_of (sapi e)) stream (ctx_User t) False in
         if err \<noteq> None then fails StatusInternalServerError ''can not create signed stream playlists''
         else demand (subtitle_playlist signed) (fails StatusBadRequest ''no playlist found'') (\<lambda>playlist.
           if voice e \<noteq> None then fails StatusInternalServerError ''could not connect to voice-service''
           else if generates e (ucast (ID stream)) playlist language \<noteq> None
           then fails StatusInternalServerError ''could not call generate on voice_client''
           else sends [Reply StatusCreated ()])))"

definition updateStreamVisibility :: "stream_env \<Rightarrow> TUMLiveContext \<Rightarrow> bool option \<Rightarrow> unit handler" where
  "updateStreamVisibility e t body =
     demand body (bad_request ''can not bind body'') (\<lambda>private.
       deref (ctx_Stream t) (\<lambda>stream.
         audits (sapi e) t (uint_str (ID stream) @ '': (Visibility: '' @ (if private then ''true'' else ''false'') @ '')'')
           AuditStreamEdit
           (with_done (on_base (ToggleVisibility (sdb e) (ID stream) private))
             (\<lambda>err. fails StatusInternalServerError ''can not update stream'')
             (sends []))))"

definition updateChatEnabled :: "stream_env \<Rightarrow> gin \<Rightarrow> bool option \<Rightarrow> string handler" where
  "updateChatEnabled e g body =
     with_result (StreamById (sdb e) (key_of (sapi e) (gparam g ''streamID'')))
       (\<lambda>err. sends [AbortStatus StatusNotFound])
       (\<lambda>stream. demand body
         (sends [AbortStatus StatusBadRequest, AbortStatus StatusBadRequest, Reply StatusBadRequest ''could not parse request body''])
         (\<lambda>enabled. with_done (UpdateStream (sdb e) (stream\<lparr>stream_ChatEnabled := enabled\<rparr>))
           (\<lambda>err. sends [AbortStatus StatusBadRequest, Reply StatusBadRequest ''could not update stream''])
           (sends [])))"

end
