(* ===== verification/Stream_Props.thy ===== *)
theory Stream_Props
  imports Stream_Api Course_Props
begin

text \<open>
  Properties of the interface for one stream: who gets a file, the thumbnail that was uploaded last is the one that is
  shown, and what the switch for the visibility changes.
\<close>

subsection \<open>Downloads\<close>

text \<open>
  The rule that the code states for a download; \<open>type=serve\<close> does not ask for it.
\<close>

definition may_download :: "User \<Rightarrow> Course \<Rightarrow> bool" where
  "may_download user course \<longleftrightarrow>
     IsAdminOfCourse (Some user) course \<or>
     DownloadsEnabled course \<and> (if IsEnrolled course then IsEligibleToWatchCourse (Some user) course else True)"

definition the_file :: "stream_env \<Rightarrow> gin \<Rightarrow> api_db \<Rightarrow> string + File" where
  "the_file e g = GetFileById (sdb e) (key_of (sapi e) (gparam g ''id''))"

definition course_of_file :: "stream_env \<Rightarrow> File \<Rightarrow> api_db \<Rightarrow> string + Course" where
  "course_of_file e f db =
     (case StreamById (sdb e) (file_StreamID f) db of
        (Inl err, db) \<Rightarrow> Inl err
      | (Inr s, db) \<Rightarrow> CourseById (sdb e) (CourseID s) db)"

lemma sent_image: "Reply StatusOK a \<in> set (fst (sendImageContent e f db)) \<longleftrightarrow> opens e (Path f) \<and> a = ([], Path f)"
  by (auto simp: sendImageContent_def handler_defs)

lemma sent_download:
  "Reply StatusOK a \<in> set (fst (sendDownloadFile e f db)) \<longleftrightarrow>
     opens e (Path f) \<and> \<not> os_fault (sapi e) (''stat '' @ Path f) \<and>
     a = (if Filename f \<noteq> [] then Filename f else GetDownloadFileName f, Path f)"
  by (auto simp: sendDownloadFile_def handler_defs)

lemma denied: "Reply n a \<notin> set (fst (download_denied db))"
  by (simp add: download_denied_def handler_defs)

lemma download_decision:
  assumes "ctx_User t = Some user" and "the_file e g db = Inr f"
    and "StreamById (sdb e) (file_StreamID f) db = (Inr s, db1)" and "CourseById (sdb e) (CourseID s) db1 = Inr course"
  shows "download e (Some t) g db =
      (if gquery g ''type'' = ''serve'' then sendImageContent e f db1
       else if may_download user course then sendDownloadFile e f db1 else download_denied db1)"
  using assms by (simp add: download_def handler_defs the_file_def may_download_def)

lemma download_needs:
  assumes "Reply StatusOK a \<in> set (fst (download e t g db))"
  obtains c user f s db1 course where "t = Some c" and "ctx_User c = Some user" and "the_file e g db = Inr f"
    and "StreamById (sdb e) (file_StreamID f) db = (Inr s, db1)" and "CourseById (sdb e) (CourseID s) db1 = Inr course"
proof -
  obtain c where c: "t = Some c" using assms by (cases t) (simp_all add: download_def handler_defs)
  obtain user where u: "ctx_User c = Some user" using assms c by (cases "ctx_User c") (simp_all add: download_def handler_defs)
  obtain f where f: "the_file e g db = Inr f"
    using assms c u by (cases "the_file e g db") (simp_all add: download_def handler_defs the_file_def)
  obtain s db1 where s: "StreamById (sdb e) (file_StreamID f) db = (Inr s, db1)"
    using assms c u f by (cases "StreamById (sdb e) (file_StreamID f) db"; cases "fst (StreamById (sdb e) (file_StreamID f) db)")
      (simp_all add: download_def handler_defs the_file_def)
  obtain course where "CourseById (sdb e) (CourseID s) db1 = Inr course"
    using assms c u f s by (cases "CourseById (sdb e) (CourseID s) db1") (simp_all add: download_def handler_defs the_file_def)
  with c u f s that show ?thesis by blast
qed

text \<open>Without \<open>type=serve\<close> the rule of the course decides who gets a file; the answer names the path of the row.\<close>

lemma course_of_file_Inr:
  "StreamById (sdb e) (file_StreamID f) db = (Inr s, db1) \<Longrightarrow> course_of_file e f db = CourseById (sdb e) (CourseID s) db1"
  by (simp add: course_of_file_def)

text \<open>C10: A file leaves the server exactly if somebody is logged in, the file, its stream and its course are found, the
  file can be read, and either the request says \<open>type=serve\<close> or the user administers the course or the course allows
  downloads and, where it is for enrolled users only, lets this user watch. The answer is the file of the row.\<close>

theorem who_may_download:
  "Reply StatusOK (name, path) \<in> set (fst (download e t g db)) \<longleftrightarrow>
   (\<exists>c user f course. t = Some c \<and> ctx_User c = Some user \<and> the_file e g db = Inr f \<and>
      course_of_file e f db = Inr course \<and> path = Path f \<and> opens e path \<and>
      (if gquery g ''type'' = ''serve'' then name = []
       else may_download user course \<and> \<not> os_fault (sapi e) (''stat '' @ path) \<and>
         name = (if Filename f \<noteq> [] then Filename f else GetDownloadFileName f)))"
    (is "?sent \<longleftrightarrow> ?allowed")
proof
  assume ?sent
  then obtain c user f s db1 course where t: "t = Some c" "ctx_User c = Some user" "the_file e g db = Inr f"
      "StreamById (sdb e) (file_StreamID f) db = (Inr s, db1)" "CourseById (sdb e) (CourseID s) db1 = Inr course"
    by (rule download_needs)
  show ?allowed
    using \<open>?sent\<close> download_decision [OF t(2-)] t course_of_file_Inr [OF t(4)]
    by (auto simp: sent_image sent_download denied split: if_splits)
next
  assume ?allowed
  then obtain c user f course where t: "t = Some c" "ctx_User c = Some user" "the_file e g db = Inr f"
      "course_of_file e f db = Inr course" and p: "path = Path f" "opens e path"
      "if gquery g ''type'' = ''serve'' then name = []
       else may_download user course \<and> \<not> os_fault (sapi e) (''stat '' @ path) \<and>
         name = (if Filename f \<noteq> [] then Filename f else GetDownloadFileName f)"
    by blast
  obtain s db1 where s: "StreamById (sdb e) (file_StreamID f) db = (Inr s, db1)"
    using t(4) by (auto simp: course_of_file_def split: sum.splits prod.splits)
  show ?sent
    using download_decision [OF t(2,3) s] t p course_of_file_Inr [OF s]
    by (auto simp: sent_image sent_download split: if_splits)
qed

text \<open>What \<open>type=serve\<close> does to a course that allows no downloads.\<close>

lemma serving_asks_nobody:
  assumes "ctx_User t = Some user" and "the_file e g db = Inr f" and "course_of_file e f db = Inr course"
    and "opens e (Path f)" and "gquery g ''type'' = ''serve''" and "\<not> may_download user course"
  shows "Reply StatusOK ([], Path f) \<in> set (fst (download e (Some t) g db))"
proof -
  obtain s db1 where s: "StreamById (sdb e) (file_StreamID f) db = (Inr s, db1)" "CourseById (sdb e) (CourseID s) db1 = Inr course"
    using assms(3) by (auto simp: course_of_file_def split: sum.splits prod.splits)
  show ?thesis using download_decision [OF assms(1,2) s] assms by (simp add: sent_image)
qed


subsection \<open>The thumbnail of a stream\<close>

definition own_thumb :: "uint \<Rightarrow> FileType \<Rightarrow> File \<Rightarrow> bool" where
  "own_thumb i ty f \<longleftrightarrow> file_StreamID f = i \<and> file_Type f = ty \<and> live_row f"

lemma GetThumbnail_find: "GetThumbnail e i ty t = row_query e ''GetThumbnail'' (List.find (own_thumb i ty) (t_files t))"
  by (simp add: GetThumbnail_def own_thumb_def [abs_def])

lemma find_none_map: "(\<And>x. \<not> P (h x)) \<Longrightarrow> List.find P (map h xs) = None"
  by (induction xs) simp_all

lemma find_map_same: "(\<And>x. P (h x) \<longleftrightarrow> P x) \<Longrightarrow> (\<And>x. P x \<Longrightarrow> h x = x) \<Longrightarrow> List.find P (map h xs) = List.find P xs"
  by (induction xs) auto

definition replaced :: "db_env \<Rightarrow> uint \<Rightarrow> File \<Rightarrow> File \<Rightarrow> File" where
  "replaced e i thumb f = (if own_thumb i (file_Type thumb) f then f\<lparr>DeletedAt := Some (clock e)\<rparr> else f)"

lemma SetThumbnail_files:
  assumes "SetThumbnail e i thumb t = (None, t')" and "ID thumb = 0"
  shows "t_files t' = map (replaced e i thumb) (t_files t) @
           [thumb\<lparr>ID := next_file t, CreatedAt := clock e, UpdatedAt := clock e\<rparr>]"
  using assms by (auto simp: SetThumbnail_def exec_def clear_cache_def replaced_def own_thumb_def split: option.splits)

lemma own_thumb_replaced:
  "\<not> own_thumb i (file_Type thumb) (replaced e i thumb f)"
  "(j, ty) \<noteq> (i, file_Type thumb) \<Longrightarrow> own_thumb j ty (replaced e i thumb f) = own_thumb j ty f"
  "(j, ty) \<noteq> (i, file_Type thumb) \<Longrightarrow> own_thumb j ty f \<Longrightarrow> replaced e i thumb f = f"
  by (auto simp: own_thumb_def replaced_def)

lemma SetThumbnail_GetThumbnail:
  assumes set: "SetThumbnail e i thumb t = (None, t')" and "ID thumb = 0" and thumb: "file_StreamID thumb = i" "live_row thumb"
    and ok: "fault e' ''GetThumbnail'' = None"
  shows "GetThumbnail e' i (file_Type thumb) t' =
           Inr (thumb\<lparr>ID := next_file t, CreatedAt := clock e, UpdatedAt := clock e\<rparr>)"
    and "(j, ty) \<noteq> (i, file_Type thumb) \<Longrightarrow> GetThumbnail e' j ty t' = GetThumbnail e' j ty t"
    and "length (filter (own_thumb i (file_Type thumb)) (t_files t')) = 1"
proof -
  note files = SetThumbnail_files [OF assms(1,2)]
  let ?new = "thumb\<lparr>ID := next_file t, CreatedAt := clock e, UpdatedAt := clock e\<rparr>"
  have new: "own_thumb j ty ?new \<longleftrightarrow> (j, ty) = (i, file_Type thumb)" for j ty
    using thumb by (auto simp: own_thumb_def live_row_def)
  have old: "List.find (own_thumb i (file_Type thumb)) (map (replaced e i thumb) fs) = None" for fs
    by (rule find_none_map) (rule own_thumb_replaced)
  show "GetThumbnail e' i (file_Type thumb) t' = Inr ?new"
    by (simp add: GetThumbnail_find files find_append old new row_query_def ok)
  show "(j, ty) \<noteq> (i, file_Type thumb) \<Longrightarrow> GetThumbnail e' j ty t' = GetThumbnail e' j ty t"
    by (auto simp: GetThumbnail_find files find_append new find_map_same own_thumb_replaced split: option.split)
  show "length (filter (own_thumb i (file_Type thumb)) (t_files t')) = 1"
    by (simp add: files new filter_map comp_def own_thumb_replaced)
qed

text \<open>A successful upload, taken apart.\<close>

lemma uploaded:
  assumes "ctx_Stream t = Some stream" and "putCustomLiveThumbnail e t form db = (as, db')" and "Reply StatusOK i \<in> set as"
  obtains file1 course path where "form = Some file1" and "ctx_Course t = Some course" and "Stores path \<in> set as"
    and "SetThumbnail (sdb e) (ID stream) ((new_file (ID stream) path FILETYPE_THUMB_CUSTOM)
           \<lparr>Filename := up_Filename file1, CourseName := course_Name course\<rparr>) (base db) = (None, base db')"
    and "to_lower (file_ext (up_Filename file1)) \<in> set image_extensions" and "up_Size file1 \<le> MAX_FILE_SIZE"
proof -
  obtain file1 where f: "form = Some file1"
    using assms by (cases form) (auto simp: putCustomLiveThumbnail_def aborts_error_def handler_defs)
  have 1: "up_Size file1 \<le> MAX_FILE_SIZE" "to_lower (file_ext (up_Filename file1)) \<in> set image_extensions"
    using assms f by (auto simp: putCustomLiveThumbnail_def aborts_error_def handler_defs split: if_splits)
  obtain course where c: "ctx_Course t = Some course"
    using assms f by (cases "ctx_Course t") (auto simp: putCustomLiveThumbnail_def aborts_error_def handler_defs split: if_splits)
  define path where "path = path_Join [thumbnail_folder e course, uuid (sapi e) 0 @ file_ext (up_Filename file1)]"
  have "Stores path \<in> set as \<and>
     SetThumbnail (sdb e) (ID stream) ((new_file (ID stream) path FILETYPE_THUMB_CUSTOM)
           \<lparr>Filename := up_Filename file1, CourseName := course_Name course\<rparr>) (base db) = (None, base db')"
    using assms f c 1 unfolding path_def
    by (auto simp: putCustomLiveThumbnail_def aborts_error_def handler_defs on_base_def Let_def apsnd_def map_prod_def
        split: if_splits option.splits prod.splits)
  with that f c 1 show ?thesis by blast
qed

text \<open>C34: After an upload that is answered with 200 the route of the live thumbnail, and the route of the recording's
  thumbnail when no video type is asked for, send exactly the file that was stored, whatever was there before and whoever
  asks; the stream has this one custom thumbnail, and the upload is an image of at most 50 MB by its name. Recordings'
  thumbnails of a given video type and everything that is sent for other streams are what they were before.\<close>

theorem custom_thumbnail_is_shown:
  assumes "ctx_Stream t = Some stream" and "putCustomLiveThumbnail e t form db = (as, db')" and "Reply StatusOK i \<in> set as"
    and "fault (sdb e') ''GetThumbnail'' = None" and "ctx_Stream t' = Some asked"
  shows "\<exists>file1 path. form = Some file1 \<and> to_lower (file_ext (up_Filename file1)) \<in> set image_extensions \<and>
      up_Size file1 \<le> 50000000 \<and> Stores path \<in> set as \<and>
      length (filter (own_thumb (ID stream) FILETYPE_THUMB_CUSTOM) (t_files (base db'))) = 1 \<and>
      fst (getLiveThumbs e' t' db') =
        (if ID asked = ID stream then [SendFile path] else fst (getLiveThumbs e' t' db)) \<and>
      fst (getVODThumbs e' t' g db') =
        (if gquery g ''type'' = [] \<and> ID asked = ID stream then [SendFile path] else fst (getVODThumbs e' t' g db))"
proof -
  obtain file1 path and course :: Course where u: "form = Some file1" "Stores path \<in> set as"
      "to_lower (file_ext (up_Filename file1)) \<in> set image_extensions" "up_Size file1 \<le> MAX_FILE_SIZE"
    and "SetThumbnail (sdb e) (ID stream) ((new_file (ID stream) path FILETYPE_THUMB_CUSTOM)
           \<lparr>Filename := up_Filename file1, CourseName := course_Name course\<rparr>) (base db) = (None, base db')"
    by (rule uploaded [OF assms(1-3)]) blast
  note got = SetThumbnail_GetThumbnail [OF this(5) _ _ _ assms(4), simplified new_file_def live_row_def, simplified]
  have live: "fst (getLiveThumbs e' t' db') =
      (if ID asked = ID stream then [SendFile path] else fst (getLiveThumbs e' t' db))"
    using got(1,2) assms(5) by (auto simp: getLiveThumbs_def handler_defs split: sum.split)
  have vod: "fst (getVODThumbs e' t' g db') =
      (if gquery g ''type'' = [] \<and> ID asked = ID stream then [SendFile path] else fst (getVODThumbs e' t' g db))"
    using got(1,2) assms(5) by (auto simp: getVODThumbs_def Let_def handler_defs split: sum.split option.split)
  show ?thesis
    using u got(3) live vod by (intro exI [of _ file1] exI [of _ path]) (simp add: MAX_FILE_SIZE_def)
qed

text \<open>
  The deletion is not part of the transaction: when the new row can not be created the upload is an error and the
  old thumbnail is lost.
\<close>

lemma failed_upload_loses_the_thumbnail:
  assumes "fault e ''SetThumbnail'' = None" and "fault e ''CreateThumbnail'' = Some err" and "fault e' ''GetThumbnail'' = None"
  shows "fst (SetThumbnail e i thumb t) = Some err"
    and "GetThumbnail e' i (file_Type thumb) (snd (SetThumbnail e i thumb t)) = Inl Dao_Streams.not_found"
proof -
  have files: "t_files (snd (SetThumbnail e i thumb t)) = map (replaced e i thumb) (t_files t)"
    using assms(1,2) by (simp add: SetThumbnail_def exec_def clear_cache_def replaced_def own_thumb_def)
  show "fst (SetThumbnail e i thumb t) = Some err" using assms(1,2) by (simp add: SetThumbnail_def exec_def)
  show "GetThumbnail e' i (file_Type thumb) (snd (SetThumbnail e i thumb t)) = Inl Dao_Streams.not_found"
    using find_none_map [of "own_thumb i (file_Type thumb)" "replaced e i thumb"] own_thumb_replaced(1) assms(3)
    by (simp add: GetThumbnail_find files row_query_def)
qed

subsection \<open>Visibility\<close>

definition with_visibility :: "db_env \<Rightarrow> uint \<Rightarrow> bool \<Rightarrow> Stream \<Rightarrow> Stream" where
  "with_visibility e i private s = (if ID s = i \<and> live_row s then s\<lparr>Private := private, UpdatedAt := clock e\<rparr> else s)"

lemma updateStreamVisibility_base:
  assumes "ctx_Stream t = Some stream" and "updateStreamVisibility e t (Some private) db = ([], db')"
  shows "t_streams (base db') = map (with_visibility (sdb e) (ID stream) private) (t_streams (base db))"
    and "stream_cache (base db') = Map.empty" and "live_cache (base db') = None"
proof -
  define db1 where "db1 = snd (AuditDao_Create (sdb e) (ctx_User t)
      (uint_str (ID stream) @ '': (Visibility: '' @ (if private then ''true'' else ''false'') @ '')'') AuditStreamEdit db)"
  have b: "base db1 = base db" by (simp add: db1_def)
  obtain err db2 where on: "on_base (ToggleVisibility (sdb e) (ID stream) private) db1 = (err, db2)" by fastforce
  have "(case err of None \<Rightarrow> ([], db2) | Some err \<Rightarrow> fails StatusInternalServerError ''can not update stream'' db2) = ([] :: unit answer list, db')"
    using assms on [unfolded db1_def]
    by (simp add: updateStreamVisibility_def audits_def demand_def deref_def logged_def with_done_def sends_def split: option.splits)
  then have "err = None" "db2 = db'" by (simp_all add: fails_def sends_def split: option.splits)
  with on have "ToggleVisibility (sdb e) (ID stream) private (base db) = (None, base db')"
    by (auto simp: on_base_def b [symmetric] apsnd_def map_prod_def split: prod.splits)
  then show "t_streams (base db') = map (with_visibility (sdb e) (ID stream) private) (t_streams (base db))"
    and "stream_cache (base db') = Map.empty" and "live_cache (base db') = None"
    by (auto simp: ToggleVisibility_def exec_def update_stream_def clear_cache_def with_visibility_def [abs_def]
        dest!: sym [of _ "base db'"] split: option.splits)
qed

lemma find_map_rel:
  "(\<And>x. P (h x) \<longleftrightarrow> P x) \<Longrightarrow> List.find P (map h xs) = map_option h (List.find P xs)"
  by (induction xs) auto

lemma stream_row_with_visibility:
  assumes "t_streams t' = map (with_visibility e i private) (t_streams t)"
  shows "stream_row t' j = map_option (with_visibility e i private) (stream_row t j)"
  unfolding stream_row_def assms by (rule find_map_rel) (simp add: with_visibility_def live_row_def)

lemma StreamById_uncached:
  assumes "stream_cache (base db) = Map.empty" and "fault e ''GetStreamByID'' = None"
  shows "fst (StreamById e i db) =
     (case stream_row (base db) i of None \<Rightarrow> Inl Dao_Streams.not_found | Some r \<Rightarrow> Inr (loaded_stream db r))"
  using assms by (auto simp: StreamById_def on_base_def GetStreamByID_def row_query_def loaded_stream_def split: option.split)

lemma Stream_ToDTO_ID: "dto_ID (Stream_ToDTO now s) = ID s"
  by (simp add: Stream_ToDTO_def Let_def)

lemma getLive_uncached:
  assumes "live_cache (base db) = None" and "fst (getLive e t db) = [Reply StatusOK ls]" and "x \<in> set ls"
  shows "\<exists>s. s \<in> set (t_streams (base db)) \<and> live_row s \<and> cs_Stream x = Stream_ToDTO (now_of e) s \<and>
     (Private s \<longrightarrow> ctx_User t \<noteq> None \<and> IsAdminOfCourse (ctx_User t) (live_course e db s))"
proof -
  have c: "live_course e (db\<lparr>base := (base db)\<lparr>live_cache := c\<rparr>\<rparr>) = live_course e db" for c
    by (rule live_entry_cong(2)) simp_all
  let ?rows = "filter (\<lambda>s. LiveNow s \<and> live_row s) (t_streams (base db))"
  have "fault (dbe e) ''GetCurrentLive'' = None"
  proof (rule ccontr)
    assume "fault (dbe e) ''GetCurrentLive'' \<noteq> None"
    then obtain err where "fault (dbe e) ''GetCurrentLive'' = Some err" by blast
    then have "ls = []"
      using assms(1,2) by (simp add: getLive_def GetCurrentLive_def row_query_def on_base_def handler_defs split: if_splits)
    then show False using assms(3) by simp
  qed
  then have "\<exists>c. fst (getLive e t db) = [Reply StatusOK (map (live_entry e (db\<lparr>base := (base db)\<lparr>live_cache := c\<rparr>\<rparr>) (ctx_User t))
      (filter (\<lambda>s. shown_live (ctx_User t) (live_course e db s) s) ?rows))]"
    using assms(1)
    by (simp add: getLive_def GetCurrentLive_def row_query_def on_base_def handler_defs c del: filter_filter) blast
  then obtain c where "x \<in> live_entry e (db\<lparr>base := (base db)\<lparr>live_cache := c\<rparr>\<rparr>) (ctx_User t) `
      set (filter (\<lambda>s. shown_live (ctx_User t) (live_course e db s) s) ?rows)"
    using assms(2,3) by auto
  then obtain s where "s \<in> set (t_streams (base db))" "live_row s" "shown_live (ctx_User t) (live_course e db s) s"
      "x = live_entry e (db\<lparr>base := (base db)\<lparr>live_cache := c\<rparr>\<rparr>) (ctx_User t) s"
    by auto
  then show ?thesis by (intro exI [of _ s]) (simp add: live_entry_def shown_live_def)
qed

text \<open>C35: After the visibility of a stream has been changed, whatever was cached before, every reader of the stream gets
  the new value, and of any other stream the old one; and if the stream was hidden, it appears in the list of live
  streams only to users who administer its course.\<close>

theorem visibility_takes_effect:
  assumes "ctx_Stream t = Some stream" and "updateStreamVisibility e t (Some private) db = ([], db')"
    and "fault e' ''GetStreamByID'' = None"
  shows "map_sum id Private (fst (StreamById e' j db')) =
      (case stream_row (base db) j of None \<Rightarrow> Inl Dao_Streams.not_found
       | Some r \<Rightarrow> Inr (if j = ID stream then private else Private r)) \<and>
    (private \<and> fst (getLive e2 t2 db') = [Reply StatusOK ls] \<and> x \<in> set ls \<and> dto_ID (cs_Stream x) = ID stream \<longrightarrow>
      (\<exists>c. IsAdminOfCourse (ctx_User t2) c \<and>
          c \<in> live_course e2 db' ` {s \<in> set (t_streams (base db')). ID s = ID stream \<and> live_row s}))"
proof (intro conjI impI; (elim conjE)?)
  note changed = updateStreamVisibility_base [OF assms(1,2)]
  show "map_sum id Private (fst (StreamById e' j db')) =
      (case stream_row (base db) j of None \<Rightarrow> Inl Dao_Streams.not_found
       | Some r \<Rightarrow> Inr (if j = ID stream then private else Private r))"
    by (auto simp: StreamById_uncached [OF changed(2) assms(3)] stream_row_with_visibility [OF changed(1)] with_visibility_def
        split: option.split dest: stream_row_ID)
  assume "private" and live: "fst (getLive e2 t2 db') = [Reply StatusOK ls]" "x \<in> set ls" "dto_ID (cs_Stream x) = ID stream"
  obtain s where s: "s \<in> set (t_streams (base db'))" "live_row s" "cs_Stream x = Stream_ToDTO (now_of e2) s"
      "Private s \<longrightarrow> ctx_User t2 \<noteq> None \<and> IsAdminOfCourse (ctx_User t2) (live_course e2 db' s)"
    using getLive_uncached [OF changed(3) live(1,2)] by blast
  have "ID s = ID stream" using live(3) by (simp only: s(3) Stream_ToDTO_ID)
  moreover from this s(1,2) \<open>private\<close> have "Private s"
    by (auto simp: changed(1) with_visibility_def split: if_splits)
  ultimately show "\<exists>c. IsAdminOfCourse (ctx_User t2) c \<and>
          c \<in> live_course e2 db' ` {s \<in> set (t_streams (base db')). ID s = ID stream \<and> live_row s}"
    using s by blast
qed

subsection \<open>A small stream\<close>

definition calm_stream :: stream_env where
  "calm_stream =
     \<lparr>sapi = calm_env,
      works = \<lparr>Worker_Grpc.wenv.dbe = calm, WorkerToken = [], new_uuid = [], power = (\<lambda>_ _ _. None), dialIn = (\<lambda>_. None),
        stream_answer = (\<lambda>_ _. Inr True), premiere_answer = (\<lambda>_ _. Inr True), end_answer = (\<lambda>_ _. Inr True),
        combine_answer = (\<lambda>_ p. Inr p), thumbs_answer = (\<lambda>_. Inr True), preview_answer = (\<lambda>_ _. Inr []),
        delete_answer = (\<lambda>_ _. None), sections_answer = (\<lambda>_. Inr []), preview_file_error = (\<lambda>_. None),
        has_subtitle_client = False, subtitle_answer = (\<lambda>_. None), signer = (\<lambda>_. Inr [])\<rparr>,
      opens = (\<lambda>_. True), t_subtitles = [], ingest_base = [], web_url = [], temp_dir = ''/tmp'', voice = None,
      generates = (\<lambda>_ _ _. None)\<rparr>"

lemma calm_stream_simps [simp]: "sapi calm_stream = calm_env"
  by (simp add: calm_stream_def)

definition one_stream :: api_db where
  "one_stream = with_rows [] [demo_row] [zero_Stream\<lparr>ID := 7, CourseID := 3, LiveNow := True\<rparr>]"

definition at_stream :: TUMLiveContext where
  "at_stream = in_course\<lparr>ctx_Stream := Some (zero_Stream\<lparr>ID := 7, CourseID := 3\<rparr>)\<rparr>"

definition a_picture :: upload where
  "a_picture = \<lparr>up_Filename = ''a.PNG'', up_Size = 100, up_ContentType = ''image/png''\<rparr>"

lemma a_picture_ext: "file_ext ''a.PNG'' = ''.PNG''" "to_lower ''.PNG'' = ''.png''"
  by code_simp+

lemma at_stream_simps [simp]:
  "ctx_Stream at_stream = Some (zero_Stream\<lparr>ID := 7, CourseID := 3\<rparr>)" "ctx_Course at_stream = Some demo_row"
  by (simp_all add: at_stream_def in_course_def)

lemma picture_is_stored:
  "Reply StatusOK 0 \<in> set (fst (putCustomLiveThumbnail calm_stream at_stream (Some a_picture) one_stream))"
  by (simp add: putCustomLiveThumbnail_def handler_defs aborts_error_def a_picture_def MAX_FILE_SIZE_def a_picture_ext
      has_prefix_def image_extensions_def calm_env_def on_base_def SetThumbnail_def exec_def calm_def Let_def
      split: prod.split)

theorem custom_thumbnail_is_shown_witness:
  "\<exists>path. fst (getLiveThumbs calm_stream at_stream (snd (putCustomLiveThumbnail calm_stream at_stream (Some a_picture) one_stream))) =
     [SendFile path]"
proof -
  obtain as db' where p: "putCustomLiveThumbnail calm_stream at_stream (Some a_picture) one_stream = (as, db')" "Reply StatusOK 0 \<in> set as"
    using picture_is_stored by (metis prod.collapse)
  have "fault (sdb calm_stream) ''GetThumbnail'' = None" by simp
  from custom_thumbnail_is_shown [OF at_stream_simps(1) p this at_stream_simps(1)] p(1) show ?thesis by auto
qed

lemma one_stream_hidden:
  "updateStreamVisibility calm_stream at_stream (Some True) one_stream =
     ([], snd (updateStreamVisibility calm_stream at_stream (Some True) one_stream))"
  by (simp add: updateStreamVisibility_def audits_def handler_defs on_base_def ToggleVisibility_def exec_def split: prod.split)

theorem visibility_takes_effect_witness:
  "map_sum id Private (fst (StreamById calm 7 (snd (updateStreamVisibility calm_stream at_stream (Some True) one_stream)))) = Inr True"
proof -
  have "stream_row (base one_stream) 7 = Some (zero_Stream\<lparr>ID := 7, CourseID := 3, LiveNow := True\<rparr>)"
    by (simp add: one_stream_def stream_row_def live_row_def zero_Stream_def)
  then show ?thesis
    using visibility_takes_effect [OF _ one_stream_hidden, of _ calm 7] by (simp add: zero_Stream_def)
qed

end
