(* ===== verification/Mailer_Props.thy ===== *)
theory Mailer_Props
  imports Mailer
begin

text \<open>
  The loop settles every mail: it is sent, or given up after eleven attempts, within a number of rounds that the table
  alone bounds. An attempt lowers the number of attempts that are left; three rounds in which nothing is due would
  outlast the minute for which a failed mail waits.
\<close>

subsection \<open>What an attempt does to the table\<close>

definition pending :: "Mail \<Rightarrow> bool" where
  "pending m \<longleftrightarrow> \<not> mail_Success m \<and> Retries m \<le> 10 \<and> live_row m"

definition attempts_left :: "Mail \<Rightarrow> nat" where
  "attempts_left m = (if pending m then nat (11 - Retries m) else 0)"

definition work :: "api_db \<Rightarrow> nat" where
  "work db = sum_list (map attempts_left (t_mails db))"

definition the_mail :: "Mail \<Rightarrow> uint \<times> string \<times> string \<times> string \<times> string" where
  "the_mail m = (ID m, mail_From m, mail_To m, mail_Subject m, mail_Body m)"

definition mails_ok :: "api_db \<Rightarrow> bool" where
  "mails_ok db \<longleftrightarrow> distinct (map ID (t_mails db)) \<and> 0 \<notin> ID ` set (t_mails db)"

definition put_mail :: "Mail \<Rightarrow> Mail list \<Rightarrow> Mail list" where
  "put_mail m = map (\<lambda>r. if ID r = ID m then m else r)"

lemma put_mail_IDs [simp]: "map ID (put_mail m rows) = map ID rows"
  by (simp add: put_mail_def comp_def if_distrib cong: if_cong)

lemma put_mail_other: "r \<in> set rows \<Longrightarrow> ID r \<noteq> ID m \<Longrightarrow> r \<in> set (put_mail m rows)"
  by (force simp: put_mail_def)

lemma in_put_mail: "r \<in> set (put_mail m rows) \<Longrightarrow> r = m \<or> r \<in> set rows"
  by (auto simp: put_mail_def split: if_splits)

lemma put_mail_absent: "ID m \<notin> ID ` set rows \<Longrightarrow> put_mail m rows = rows"
  by (induction rows) (auto simp: put_mail_def)

lemma put_mail_sum:
  assumes "distinct (map ID rows)" and "r \<in> set rows" and "ID m = ID r"
  shows "sum_list (map f (put_mail m rows)) + f r = sum_list (map f rows) + (f m :: nat)"
  using assms
proof (induction rows)
  case (Cons a rows)
  show ?case
  proof (cases "r = a")
    case True
    then have "put_mail m rows = rows" using Cons.prems by (intro put_mail_absent) auto
    then show ?thesis using True Cons.prems(3) by (simp add: put_mail_def)
  next
    case False
    with Cons.prems have "r \<in> set rows" "ID a \<noteq> ID m" by auto
    with Cons show ?thesis by (simp add: put_mail_def)
  qed
qed simp

lemma put_mail_texts:
  assumes "distinct (map ID rows)" and "r \<in> set rows" and "the_mail m = the_mail r"
  shows "map the_mail (put_mail m rows) = map the_mail rows"
proof -
  have "ID m = ID r" using assms(3) by (simp add: the_mail_def)
  moreover have "x = r" if "x \<in> set rows" "ID x = ID m" for x
    using that assms(1,2) calculation by (auto simp: distinct_map inj_on_def)
  ultimately show ?thesis using assms(3) by (auto simp: put_mail_def)
qed

lemma attempted_simps:
  "the_mail (attempted w i m) = the_mail m" "ID (attempted w i m) = ID m"
  "LastTry (attempted w i m) \<in> {LastTry m, failed_at w i}"
  by (simp_all add: attempted_def the_mail_def split: option.split)

lemma attempted_less: "pending m \<Longrightarrow> attempts_left ((attempted w i m)\<lparr>UpdatedAt := u\<rparr>) < attempts_left m"
  by (auto simp: attempted_def attempts_left_def pending_def live_row_def split: option.split)

lemma the_mail_UpdatedAt [simp]: "the_mail (m\<lparr>UpdatedAt := u\<rparr>) = the_mail m"
  by (simp add: the_mail_def)

lemma EmailDao_Save_row:
  assumes "mails_ok db" and "r \<in> set (t_mails db)" and "ID m = ID r" and "fault e ''EmailSave'' = None"
  shows "EmailDao_Save e m db = (None, db\<lparr>t_mails := put_mail (m\<lparr>UpdatedAt := clock e\<rparr>) (t_mails db)\<rparr>)"
proof -
  have "ID m \<noteq> 0" using assms(1-3) by (auto simp: mails_ok_def image_iff)
  moreover have "list_ex (\<lambda>r. ID r = ID m) (t_mails db)" using assms(2,3) by (auto simp: list_ex_iff)
  ultimately show ?thesis using assms(4) by (simp add: EmailDao_Save_def api_exec_def put_mail_def)
qed

text \<open>The mails of one round: all are rows of the table, pending, each only once.\<close>

definition tried_by :: "gotime \<Rightarrow> api_db \<Rightarrow> bool" where
  "tried_by now db \<longleftrightarrow> (\<forall>m \<in> set (t_mails db). LastTry m \<le> now)"

lemma send_each_work:
  assumes "mails_ok db" and "set ms \<subseteq> set (t_mails db)" and "distinct (map ID ms)" and "\<forall>m \<in> set ms. pending m"
    and "\<And>i. fault (save_env w i) ''EmailSave'' = None"
  shows "work (send_each w i ms db) + length ms \<le> work db \<and> mails_ok (send_each w i ms db) \<and>
     map the_mail (t_mails (send_each w i ms db)) = map the_mail (t_mails db) \<and>
     (tried_by now db \<and> (\<forall>i. failed_at w i \<le> now) \<longrightarrow> tried_by now (send_each w i ms db))"
  using assms
proof (induction ms arbitrary: i db)
  case Nil
  then show ?case by simp
next
  case (Cons m ms)
  let ?m = "(attempted w i m)\<lparr>UpdatedAt := clock (save_env w i)\<rparr>"
  let ?rows = "put_mail ?m (t_mails db)"
  let ?db = "db\<lparr>t_mails := ?rows\<rparr>"
  have m: "m \<in> set (t_mails db)" "ID ?m = ID m" using Cons.prems(2) by (simp_all add: attempted_simps)
  have step: "send_each w i (m # ms) db = send_each w (Suc i) ms ?db"
    using EmailDao_Save_row [OF Cons.prems(1) m(1) _ Cons.prems(5)] by (simp add: attempted_simps)
  have ok: "mails_ok ?db"
  proof -
    have "ID ` set ?rows = ID ` set (t_mails db)" by (metis put_mail_IDs list.set_map)
    then show ?thesis using Cons.prems(1) by (simp add: mails_ok_def)
  qed
  have rest: "set ms \<subseteq> set (t_mails ?db)"
  proof
    fix x assume x: "x \<in> set ms"
    have "ID m \<notin> ID ` set ms" using Cons.prems(3) by simp
    then have "ID x \<noteq> ID m" using x by (metis image_eqI)
    then have "ID x \<noteq> ID ?m" by (simp add: attempted_simps)
    with x Cons.prems(2) show "x \<in> set (t_mails ?db)" by (simp add: put_mail_other subset_iff)
  qed
  have dist: "distinct (map ID (t_mails db))" using Cons.prems(1) by (simp add: mails_ok_def)
  have "work ?db + attempts_left m = work db + attempts_left ?m"
    using put_mail_sum [OF dist m] by (simp add: work_def)
  moreover have "attempts_left ?m < attempts_left m"
    using Cons.prems(4) attempted_less by simp
  ultimately have less: "work ?db < work db" by linarith
  have texts: "map the_mail ?rows = map the_mail (t_mails db)"
    by (rule put_mail_texts [OF dist m(1)]) (simp add: attempted_simps)
  have tried: "tried_by now ?db" if "tried_by now db" "\<forall>i. failed_at w i \<le> now"
  proof -
    have "LastTry ?m \<le> now" using that m(1) attempted_simps(3) [of w i m] by (auto simp: tried_by_def)
    then show ?thesis using that by (auto simp: tried_by_def dest!: in_put_mail)
  qed
  note IH = Cons.IH [OF ok rest, of "Suc i"]
  have "distinct (map ID ms)" "\<forall>m \<in> set ms. pending m" using Cons.prems(3,4) by auto
  with IH Cons.prems(5) show ?case unfolding step using less texts tried by auto
qed

subsection \<open>Rounds\<close>

text \<open>
  The clock runs forward: a round asks for due mails after it has started, tries them after that and ends before the
  next one looks at the clock. No call to the database fails.
\<close>

fun last_run :: "(nat \<Rightarrow> mail_round) \<Rightarrow> gotime \<Rightarrow> nat \<Rightarrow> gotime" where
  "last_run w now 0 = now - Minute"
| "last_run w now (Suc k) = round_start (last_run w now k) (w k)"

lemma Run_last_run: "fst (Run m w now db k) = last_run w now k"
  by (induction k) (simp_all add: mailer_round_def case_prod_beta)

definition timely :: "(nat \<Rightarrow> mail_round) \<Rightarrow> gotime \<Rightarrow> bool" where
  "timely w now \<longleftrightarrow>
     now \<le> checked (w 0) \<and>
     (\<forall>k. 0 \<le> late (w k) \<and> last_run w now (Suc k) \<le> clock (due_env (w k)) \<and>
          (\<forall>i. clock (due_env (w k)) \<le> failed_at (w k) i \<and> failed_at (w k) i \<le> checked (w (Suc k))))"

definition no_faults :: "(nat \<Rightarrow> mail_round) \<Rightarrow> bool" where
  "no_faults w \<longleftrightarrow>
     (\<forall>k. fault (due_env (w k)) ''EmailGetDue'' = None \<and> (\<forall>i. fault (save_env (w k) i) ''EmailSave'' = None))"

lemma round_start_ge:
  "0 \<le> late w \<Longrightarrow> checked w \<le> round_start l w" "0 \<le> late w \<Longrightarrow> l + Minute \<le> round_start l w"
  by (simp_all add: round_start_def pause_def)

lemma last_run_apart: "timely w now \<Longrightarrow> last_run w now k + Minute \<le> last_run w now (Suc k)"
  using round_start_ge(2) by (simp add: timely_def)

text \<open>What one round does: nothing if no mail is due, and otherwise it lowers the work.\<close>

definition dues :: "int \<Rightarrow> mail_round \<Rightarrow> api_db \<Rightarrow> Mail list" where
  "dues limit w db = limit_rows limit (filter (mail_due (due_env w)) (t_mails db))"

lemma dues_rows:
  "set (dues limit w db) \<subseteq> set (t_mails db)" "distinct (map ID (t_mails db)) \<Longrightarrow> distinct (map ID (dues limit w db))"
  "\<forall>m \<in> set (dues limit w db). pending m"
  by (auto simp: dues_def limit_rows_def mail_due_def pending_def distinct_map_filter take_map [symmetric] dest: in_set_takeD)

lemma dues_empty: "limit \<noteq> 0 \<Longrightarrow> dues limit w db = [] \<longleftrightarrow> (\<forall>m \<in> set (t_mails db). \<not> mail_due (due_env w) m)"
  by (auto simp: dues_def limit_rows_def filter_empty_conv)

definition mails_after :: "Mailer \<Rightarrow> (nat \<Rightarrow> mail_round) \<Rightarrow> gotime \<Rightarrow> api_db \<Rightarrow> nat \<Rightarrow> api_db" where
  "mails_after m w now db k = snd (Run m w now db k)"

lemma mails_after_Suc:
  "no_faults w \<Longrightarrow> mails_after m w now db (Suc k) =
     send_each (w k) 0 (dues (MaxMailsPerMinute m) (w k) (mails_after m w now db k)) (mails_after m w now db k)"
  by (simp add: mails_after_def mailer_round_def case_prod_beta GetDue_def row_query_def no_faults_def dues_def)

lemma round_work:
  assumes "no_faults w" and "timely w now" and "mails_ok db" and "tried_by (checked (w 0)) db"
  shows "mails_ok (mails_after m w now db k) \<and> tried_by (checked (w k)) (mails_after m w now db k) \<and>
     map the_mail (t_mails (mails_after m w now db k)) = map the_mail (t_mails db)"
proof (induction k)
  case 0
  then show ?case using assms(3,4) by (simp add: mails_after_def)
next
  case (Suc k)
  let ?db = "mails_after m w now db k" and ?ms = "dues (MaxMailsPerMinute m) (w k) (mails_after m w now db k)"
  have "checked (w k) \<le> checked (w (Suc k))"
    using assms(2) round_start_ge(1) [of "w k" "last_run w now k"] by (fastforce simp: timely_def intro: order_trans)
  then have "tried_by (checked (w (Suc k))) ?db" using Suc by (auto simp: tried_by_def)
  moreover have "\<forall>i. failed_at (w k) i \<le> checked (w (Suc k))" using assms(2) by (simp add: timely_def)
  moreover have "distinct (map ID (t_mails ?db))" using Suc by (simp add: mails_ok_def)
  ultimately show ?case
    using send_each_work [of ?db ?ms "w k" 0 "checked (w (Suc k))"] dues_rows Suc assms(1)
    by (simp add: mails_after_Suc [OF assms(1)] no_faults_def)
qed

lemma round_less:
  assumes "no_faults w" and "timely w now" and "mails_ok db" and "tried_by (checked (w 0)) db"
  shows "work (mails_after m w now db (Suc k)) + length (dues (MaxMailsPerMinute m) (w k) (mails_after m w now db k))
     \<le> work (mails_after m w now db k)"
proof -
  let ?db = "mails_after m w now db k" and ?ms = "dues (MaxMailsPerMinute m) (w k) (mails_after m w now db k)"
  have "mails_ok ?db" using round_work [OF assms] by blast
  then show ?thesis
    using send_each_work [of ?db ?ms "w k" 0] dues_rows assms(1)
    by (simp add: mails_after_Suc [OF assms(1)] no_faults_def mails_ok_def)
qed

lemma attempts_left_zero: "attempts_left m = 0 \<longleftrightarrow> \<not> pending m"
  by (auto simp: attempts_left_def pending_def)

lemma no_work: "work db = 0 \<longleftrightarrow> (\<forall>m \<in> set (t_mails db). \<not> pending m)"
  by (simp add: work_def attempts_left_zero)

text \<open>Three rounds outlast the minute for which a failed mail waits.\<close>

lemma three_rounds:
  assumes "no_faults w" and "timely w now" and "mails_ok db" and "tried_by (checked (w 0)) db"
    and "MaxMailsPerMinute m \<noteq> 0" and "0 < work (mails_after m w now db k)"
  shows "work (mails_after m w now db (k + 3)) < work (mails_after m w now db k)"
proof (rule ccontr)
  note less = round_less [OF assms(1-4), of m]
  let ?d = "\<lambda>k. dues (MaxMailsPerMinute m) (w k) (mails_after m w now db k)"
  assume "\<not> work (mails_after m w now db (k + 3)) < work (mails_after m w now db k)"
  with less [of k] less [of "Suc k"] less [of "Suc (Suc k)"]
  have "length (?d k) + length (?d (Suc k)) + length (?d (Suc (Suc k))) = 0"
    unfolding numeral_3_eq_3 add_Suc_right add_0_right by linarith
  then have none: "?d k = []" "?d (Suc k) = []" "?d (Suc (Suc k)) = []" by simp_all
  then have same: "mails_after m w now db (Suc (Suc k)) = mails_after m w now db k"
    by (simp add: mails_after_Suc [OF assms(1)])
  obtain p where p: "p \<in> set (t_mails (mails_after m w now db k))" "pending p"
    using assms(6) no_work [of "mails_after m w now db k"] by auto
  then have "LastTry p \<le> checked (w k)" using round_work [OF assms(1-4)] by (auto simp: tried_by_def)
  also have "\<dots> \<le> last_run w now (Suc k)" using assms(2) round_start_ge(1) by (simp add: timely_def)
  also have "\<dots> < last_run w now (Suc (Suc (Suc k))) - Minute"
    using last_run_apart [OF assms(2), of "Suc k"] last_run_apart [OF assms(2), of "Suc (Suc k)"]
    by (simp add: Minute_def del: last_run.simps)
  also have "\<dots> \<le> clock (due_env (w (Suc (Suc k)))) - Minute" using assms(2) by (simp add: timely_def del: last_run.simps)
  finally have "mail_due (due_env (w (Suc (Suc k)))) p" using p(2) by (simp add: mail_due_def pending_def)
  with p(1) none(3) same dues_empty [OF assms(5)] show False by auto
qed

lemma rounds_to_go:
  assumes "no_faults w" and "timely w now" and "mails_ok db" and "tried_by (checked (w 0)) db" and "MaxMailsPerMinute m \<noteq> 0"
  shows "work (mails_after m w now db (3 * n)) \<le> work db - n"
proof (induction n)
  case 0
  then show ?case by (simp add: mails_after_def)
next
  case (Suc n)
  show ?case
  proof (cases "work (mails_after m w now db (3 * n)) = 0")
    case True
    then show ?thesis
      using round_less [OF assms(1-4), of m "3 * n"] round_less [OF assms(1-4), of m "Suc (3 * n)"]
        round_less [OF assms(1-4), of m "Suc (Suc (3 * n))"] by (simp add: numeral_3_eq_3)
  next
    case False
    then show ?thesis using three_rounds [OF assms, of "3 * n"] Suc by (simp add: algebra_simps)
  qed
qed

lemma work_antimono:
  assumes "no_faults w" and "timely w now" and "mails_ok db" and "tried_by (checked (w 0)) db"
  shows "k \<le> l \<Longrightarrow> work (mails_after m w now db l) \<le> work (mails_after m w now db k)"
proof (induction l rule: dec_induct)
  case (step l)
  then show ?case using round_less [OF assms, of m l] by linarith
qed simp

text \<open>C9: The mailer settles every mail. However the attempts end, if no call to the database fails and the clock runs
  forward, then after three rounds for each attempt that the mails in the table have left, and ever after, each
  live mail is marked as sent or has been tried eleven times; and the table has the same mails with the same texts.\<close>

theorem every_mail_is_settled:
  assumes "no_faults w" and "timely w now" and "mails_ok db" and "tried_by now db"
    and "3 * work db \<le> k"
  shows "(\<forall>r \<in> set (t_mails (snd (Run (NewMailer limit) w now db k))).
            live_row r \<longrightarrow> mail_Success r \<or> Retries r \<ge> 11) \<and>
         map the_mail (t_mails (snd (Run (NewMailer limit) w now db k))) = map the_mail (t_mails db)"
proof -
  have tried: "tried_by (checked (w 0)) db" using assms(2,4) by (auto simp: tried_by_def timely_def)
  have "MaxMailsPerMinute (NewMailer limit) \<noteq> 0" by (simp add: NewMailer_def)
  note go = rounds_to_go [OF assms(1-3) tried this, of "work db"]
  have "work (mails_after (NewMailer limit) w now db k) = 0"
    using go work_antimono [OF assms(1-3) tried assms(5), of "NewMailer limit"] by simp
  then show ?thesis
    using round_work [OF assms(1-3) tried, of "NewMailer limit" k] by (auto simp: no_work pending_def mails_after_def)
qed

text \<open>A mail that never leaves: it is tried eleven times, and then no more.\<close>

definition stubborn :: "nat \<Rightarrow> mail_round" where
  "stubborn k =
     \<lparr>checked = 2 * Minute * int k, late = 0, due_env = calm\<lparr>clock := 2 * Minute * int k\<rparr>,
      delivery = (\<lambda>_ _. Some ''refused''), failed_at = (\<lambda>_. 2 * Minute * int k + Second),
      save_env = (\<lambda>_. calm\<lparr>clock := 2 * Minute * int k + Second\<rparr>)\<rparr>"

lemma last_run_stubborn: "last_run stubborn 0 (Suc k) = 2 * Minute * int k"
proof (induction k)
  case 0
  then show ?case by (simp add: round_start_def pause_def stubborn_def)
next
  case (Suc k)
  then show ?case
    by (subst last_run.simps(2), simp only: Suc) (simp add: round_start_def pause_def stubborn_def Minute_def)
qed

definition one_mail :: api_db where
  "one_mail = no_rows\<lparr>t_mails :=
     [\<lparr>ID = 1, CreatedAt = 0, UpdatedAt = 0, DeletedAt = None, mail_From = ''a'', mail_To = ''b'', mail_Subject = ''s'',
       mail_Body = [], mail_Success = False, Retries = 0, LastTry = zero_time, mail_Errors = []\<rparr>]\<rparr>"

theorem every_mail_is_settled_witness:
  "list_all (\<lambda>r. \<not> pending r) (t_mails (snd (Run (NewMailer 0) stubborn 0 one_mail 33)))"
proof -
  have "timely stubborn 0"
    unfolding timely_def last_run_stubborn by (simp add: stubborn_def Minute_def Second_def)
  moreover have "no_faults stubborn" by (simp add: no_faults_def stubborn_def)
  moreover have "mails_ok one_mail" "tried_by 0 one_mail" "3 * work one_mail \<le> 33"
    by (simp_all add: mails_ok_def tried_by_def work_def attempts_left_def pending_def one_mail_def zero_time_def live_row_def)
  ultimately show ?thesis
    using every_mail_is_settled [of stubborn 0 one_mail 33 0] by (auto simp: list_all_iff pending_def)
qed

subsection \<open>What goes wrong\<close>

text \<open>
  The pause between two mails is counted in nanoseconds: it is never longer than 60 microseconds, where a minute divided
  by the number of mails is meant. A mail whose row can not be saved stays due, although it was sent. A body that can not
  be signed is lost, and the mail counts as sent.
\<close>

lemma no_pause_between_mails: "sleepDur (NewMailer limit) \<le> 60 * 1000"
proof -
  have b: "60 div \<bar>n\<bar> \<le> 60" "0 \<le> 60 div \<bar>n\<bar>" for n :: int
    using zdiv_mono2 [of 60 1 "\<bar>n\<bar>"] by (cases "n = 0"; simp add: pos_imp_zdiv_nonneg_iff)+
  have "sgn n * q \<le> q" if "0 \<le> q" for n q :: int
    using that by (auto simp: sgn_if)
  from order_trans [OF this [OF b(2)] b(1), of "MaxMailsPerMinute (NewMailer limit)" "MaxMailsPerMinute (NewMailer limit)"]
  show ?thesis by (simp add: sleepDur_def)
qed

lemma unsaved_mails_stay_due:
  assumes "\<And>i. fault (save_env w i) ''EmailSave'' \<noteq> None"
  shows "send_each w i ms db = db"
  by (induction ms arbitrary: i) (simp_all add: EmailDao_Save_def api_exec_def option.case_eq_if assms)

lemma unsigned_body_is_lost:
  "openssl body = Inl err \<Longrightarrow> openssl body' = Inl err' \<Longrightarrow>
     sendMail openssl smtp addr from subject body to = sendMail openssl smtp addr from subject body' to"
  by (simp add: sendMail_def mail_message_def split: option.split)

text \<open>What the addresses of the envelope are cleaned of.\<close>

lemma strip_removes:
  "[c] \<in> set pats \<Longrightarrow> c \<notin> set (strip pats s)"
proof (induction pats s rule: strip.induct)
  case (2 pats d ds)
  show ?case
  proof (cases "List.find (\<lambda>p. p \<noteq> [] \<and> has_prefix (d # ds) p) pats")
    case None
    then have "d \<noteq> c" using 2(3) by (auto simp: find_None_iff has_prefix_def)
    then show ?thesis using 2 None by simp
  next
    case (Some p)
    then show ?thesis using 2 Some by simp
  qed
qed simp

lemma clean_address_one_line: "CHR 0x0D \<notin> set (clean_address s)" "CHR 0x0A \<notin> set (clean_address s)"
  by (simp_all add: clean_address_def CR_def LF_def strip_removes)

end
