(* ===== verification/Side_Api.thy ===== *)
theory Side_Api
  imports Dao_Users Course_Edit
begin

text \<open>
  Bookmarks (\<^verbatim>\<open>src/api/bookmarks.go\<close>, \<^verbatim>\<open>src/dao/bookmark.go\<close>) and tokens
  (\<^verbatim>\<open>src/api/token.go\<close>, \<^verbatim>\<open>src/dao/token.go\<close>) with the stream whose key a token opens. Their
  tables extend the database of the other handlers.
\<close>

subsection \<open>Tables\<close>

record Bookmark = gorm_Model +
  bm_Description :: string
  bm_Hours :: uint
  bm_Minutes :: uint
  bm_Seconds :: uint
  bm_UserID :: uint
  bm_StreamID :: uint

record Token = gorm_Model +
  token_UserID :: uint
  token_Token :: string
  Expires :: "gotime option"
  Scope :: string
  LastUse :: "gotime option"

record side_db =
  core :: api_db
  t_bookmarks :: "Bookmark list"
  t_tokens :: "Token list"
  next_bookmark :: uint
  next_token :: uint

type_synonym 'a side = "(side_db, 'a) serves"

definition on_core :: "(api_db \<Rightarrow> 'r \<times> api_db) \<Rightarrow> side_db \<Rightarrow> 'r \<times> side_db" where
  "on_core f d = apsnd (\<lambda>c. d\<lparr>core := c\<rparr>) (f (core d))"

definition side_exec :: "db_env \<Rightarrow> string \<Rightarrow> (side_db \<Rightarrow> side_db) \<Rightarrow> side_db \<Rightarrow> string option \<times> side_db" where
  "side_exec e name f d = (case fault e name of Some err \<Rightarrow> (Some err, d) | None \<Rightarrow> (None, f d))"

subsection \<open>Bookmarks\<close>

definition zero_Bookmark :: Bookmark where
  "zero_Bookmark =
     \<lparr>ID = 0, CreatedAt = zero_time, UpdatedAt = zero_time, DeletedAt = None, bm_Description = [], bm_Hours = 0,
      bm_Minutes = 0, bm_Seconds = 0, bm_UserID = 0, bm_StreamID = 0\<rparr>"

text \<open>\<^verbatim>\<open>Save\<close> of a row without a key creates it.\<close>

definition BookmarkDao_Add :: "db_env \<Rightarrow> Bookmark \<Rightarrow> side_db \<Rightarrow> string option \<times> side_db" where
  "BookmarkDao_Add e b =
     side_exec e ''BookmarkAdd'' (\<lambda>d.
       if ID b = 0 then d\<lparr>t_bookmarks := t_bookmarks d @ [stamp (clock e) (b\<lparr>ID := next_bookmark d\<rparr>)],
                         next_bookmark := next_bookmark d + 1\<rparr>
       else if list_ex (\<lambda>r. ID r = ID b) (t_bookmarks d)
       then d\<lparr>t_bookmarks := map (\<lambda>r. if ID r = ID b then b\<lparr>UpdatedAt := clock e\<rparr> else r) (t_bookmarks d)\<rparr>
       else d\<lparr>t_bookmarks := t_bookmarks d @ [stamp (clock e) b]\<rparr>)"

definition BookmarkDao_GetByID :: "db_env \<Rightarrow> uint \<Rightarrow> side_db \<Rightarrow> string + Bookmark" where
  "BookmarkDao_GetByID e i d =
     row_query e ''BookmarkGetByID'' (List.find (\<lambda>b. ID b = i \<and> live_row b) (t_bookmarks d))"

definition BookmarkDao_GetByStreamID :: "db_env \<Rightarrow> uint \<Rightarrow> uint \<Rightarrow> side_db \<Rightarrow> string + Bookmark list" where
  "BookmarkDao_GetByStreamID e streamID userID d =
     row_query e ''BookmarkGetByStreamID''
       (Some (sort_key bm_Hours (sort_key bm_Minutes (sort_key bm_Seconds
          (filter (\<lambda>b. bm_StreamID b = streamID \<and> bm_UserID b = userID \<and> live_row b) (t_bookmarks d))))))"

definition BookmarkDao_Update :: "db_env \<Rightarrow> Bookmark \<Rightarrow> side_db \<Rightarrow> string option \<times> side_db" where
  "BookmarkDao_Update e b d =
     (if ID b = 0 then (Some ''WHERE conditions required'', d)
      else side_exec e ''BookmarkUpdate'' (\<lambda>d. d\<lparr>t_bookmarks := map (\<lambda>r.
        if ID r = ID b \<and> live_row r
        then r\<lparr>UpdatedAt := clock e, bm_Description := nz [] (bm_Description b) (bm_Description r),
               bm_Hours := nz 0 (bm_Hours b) (bm_Hours r), bm_Minutes := nz 0 (bm_Minutes b) (bm_Minutes r),
               bm_Seconds := nz 0 (bm_Seconds b) (bm_Seconds r), bm_UserID := nz 0 (bm_UserID b) (bm_UserID r),
               bm_StreamID := nz 0 (bm_StreamID b) (bm_StreamID r)\<rparr>
        else r) (t_bookmarks d)\<rparr>) d)"

definition BookmarkDao_Delete :: "db_env \<Rightarrow> uint \<Rightarrow> side_db \<Rightarrow> string option \<times> side_db" where
  "BookmarkDao_Delete e i =
     side_exec e ''BookmarkDelete'' (\<lambda>d. d\<lparr>t_bookmarks := soft_delete (clock e) (\<lambda>b. ID b = i) (t_bookmarks d)\<rparr>)"

record AddBookmarkRequest =
  br_StreamID :: uint
  br_Description :: string
  br_Hours :: uint
  br_Minutes :: uint
  br_Seconds :: uint

definition ToBookmark :: "AddBookmarkRequest \<Rightarrow> uint \<Rightarrow> Bookmark" where
  "ToBookmark r userID =
     zero_Bookmark\<lparr>bm_Description := br_Description r, bm_Hours := br_Hours r, bm_Minutes := br_Minutes r,
       bm_Seconds := br_Seconds r, bm_StreamID := br_StreamID r, bm_UserID := userID\<rparr>"

definition bookmarks_Add :: "api_env \<Rightarrow> TUMLiveContext \<Rightarrow> AddBookmarkRequest option \<Rightarrow> unit side" where
  "bookmarks_Add e t body =
     demand body (bad_request ''can not bind body'') (\<lambda>req.
       deref (ctx_User t) (\<lambda>user.
         with_done (BookmarkDao_Add (dbe e) (ToBookmark req (ID user)))
           (\<lambda>err. fails StatusInternalServerError ''can add bookmark'')
           (sends [])))"

text \<open>\<open>query\<close> is the stream of the query, which must be given and not 0.\<close>

definition bookmarks_GetByStreamID :: "api_env \<Rightarrow> TUMLiveContext \<Rightarrow> uint option \<Rightarrow> Bookmark list side" where
  "bookmarks_GetByStreamID e t query =
     demand query (bad_request ''can not bind query'') (\<lambda>streamID.
       if streamID = 0 then bad_request ''can not bind query''
       else deref (ctx_User t) (\<lambda>user.
         with_row (BookmarkDao_GetByStreamID (dbe e) streamID (ID user))
           (\<lambda>err. if err = Dao_Streams.not_found then fails StatusNotFound ''invalid stream''
                  else fails StatusInternalServerError ''can not get bookmarks'')
           (\<lambda>bs. sends [Reply StatusOK bs])))"

record UpdateBookmarkRequest =
  ub_Description :: string
  ub_Hours :: uint
  ub_Minutes :: uint
  ub_Seconds :: uint

definition updated_Bookmark :: "UpdateBookmarkRequest \<Rightarrow> uint \<Rightarrow> Bookmark" where
  "updated_Bookmark r i =
     zero_Bookmark\<lparr>ID := i, bm_Description := ub_Description r, bm_Hours := ub_Hours r, bm_Minutes := ub_Minutes r,
       bm_Seconds := ub_Seconds r\<rparr>"

text \<open>The part that changing and deleting share: the bookmark must be there and belong to the user.\<close>

definition own_bookmark :: "api_env \<Rightarrow> TUMLiveContext \<Rightarrow> uint \<Rightarrow> unit side \<Rightarrow> unit side" where
  "own_bookmark e t i k =
     deref (ctx_User t) (\<lambda>user.
       with_row (BookmarkDao_GetByID (dbe e) i)
         (\<lambda>err. if err = Dao_Streams.not_found then fails StatusNotFound ''invalid bookmark id''
                else fails StatusInternalServerError ''can not get bookmarks by id'')
         (\<lambda>b. if bm_UserID b \<noteq> ID user
              then fails StatusForbidden ''logged in user is not the creator of the bookmark''
              else k))"

definition bookmarks_Update ::
    "api_env \<Rightarrow> TUMLiveContext \<Rightarrow> gin \<Rightarrow> UpdateBookmarkRequest option \<Rightarrow> unit side" where
  "bookmarks_Update e t g body =
     demand (atoi (gparam g ''id'')) (fails StatusBadRequest ''invalid id'') (\<lambda>i.
       demand body (bad_request ''can not bind body'') (\<lambda>req.
         own_bookmark e t (to_uint i)
           (with_done (BookmarkDao_Update (dbe e) (updated_Bookmark req (to_uint i)))
             (\<lambda>err. fails StatusInternalServerError ''can not update bookmark'')
             (sends []))))"

definition bookmarks_Delete :: "api_env \<Rightarrow> TUMLiveContext \<Rightarrow> gin \<Rightarrow> unit side" where
  "bookmarks_Delete e t g =
     demand (atoi (gparam g ''id'')) (fails StatusBadRequest ''invalid id'') (\<lambda>i.
       own_bookmark e t (to_uint i)
         (with_done (BookmarkDao_Delete (dbe e) (to_uint i))
           (\<lambda>err. fails StatusInternalServerError ''can not delete bookmark'')
           (sends [])))"

subsection \<open>Tokens\<close>

definition TokenScopeLecturer :: string where "TokenScopeLecturer = ''lecturer''"

definition AddToken :: "db_env \<Rightarrow> Token \<Rightarrow> side_db \<Rightarrow> string option \<times> side_db" where
  "AddToken e t =
     side_exec e ''AddToken'' (\<lambda>d. d\<lparr>t_tokens := t_tokens d @ [stamp (clock e) (t\<lparr>ID := next_token d\<rparr>)],
                                     next_token := next_token d + 1\<rparr>)"

definition token_valid :: "db_env \<Rightarrow> Token \<Rightarrow> bool" where
  "token_valid e t \<longleftrightarrow> live_row t \<and> (case Expires t of None \<Rightarrow> True | Some x \<Rightarrow> x > db_now e)"

definition GetToken :: "db_env \<Rightarrow> string \<Rightarrow> side_db \<Rightarrow> string + Token" where
  "GetToken e secret d = row_query e ''GetToken'' (List.find (\<lambda>t. token_Token t = secret \<and> token_valid e t) (t_tokens d))"

definition GetTokenByID :: "db_env \<Rightarrow> uint \<Rightarrow> side_db \<Rightarrow> string + Token" where
  "GetTokenByID e i d = row_query e ''GetTokenByID'' (List.find (\<lambda>t. ID t = i \<and> live_row t) (t_tokens d))"

text \<open>
  A token with the name and the login of its owner; rows of deleted users count. The query names the address
  \<^verbatim>\<open>user_email\<close>, the struct's column is \<^verbatim>\<open>user_mail\<close>: it stays empty.
\<close>

record AllTokensDto =
  all_Token :: Token
  all_UserName :: string
  all_UserMail :: string
  all_UserLrzID :: string

definition GetAllTokens :: "db_env \<Rightarrow> User \<Rightarrow> side_db \<Rightarrow> string + AllTokensDto list" where
  "GetAllTokens e user d =
     row_query e ''GetAllTokens''
       (Some [\<lparr>all_Token = t, all_UserName = user_Name u, all_UserMail = [], all_UserLrzID = LrzID u\<rparr>.
              t \<leftarrow> t_tokens d, u \<leftarrow> t_users (core d),
              ID u = token_UserID t \<and> live_row t \<and> (Role user = AdminType \<or> token_UserID t = ID user)])"

definition TokenUsed :: "db_env \<Rightarrow> Token \<Rightarrow> side_db \<Rightarrow> string option \<times> side_db" where
  "TokenUsed e t =
     side_exec e ''TokenUsed'' (\<lambda>d. d\<lparr>t_tokens := map (\<lambda>r.
       if ID r = ID t \<and> live_row r then r\<lparr>LastUse := Some (clock e), UpdatedAt := clock e\<rparr> else r) (t_tokens d)\<rparr>)"

text \<open>
  gorm's inline condition: a string that is a number is a key, any other one is taken as SQL, an empty one is no condition.
  \<open>sql\<close>: the rows for which the database finds a text true.
\<close>

definition DeleteToken :: "db_env \<Rightarrow> (string \<Rightarrow> Token \<Rightarrow> bool) \<Rightarrow> string \<Rightarrow> side_db \<Rightarrow> string option \<times> side_db" where
  "DeleteToken e sql i d =
     (if i = [] then (Some ''WHERE conditions required'', d)
      else side_exec e ''DeleteToken'' (\<lambda>d. d\<lparr>t_tokens := soft_delete (clock e)
        (\<lambda>t. case atoi i of Some k \<Rightarrow> ID t = to_uint k | None \<Rightarrow> sql i t) (t_tokens d)\<rparr>) d)"

definition deleteToken :: "api_env \<Rightarrow> (string \<Rightarrow> Token \<Rightarrow> bool) \<Rightarrow> TUMLiveContext option \<Rightarrow> gin \<Rightarrow> unit side" where
  "deleteToken e sql t g =
     demand t (sends []) (\<lambda>t.
       with_row (GetTokenByID (dbe e) (key_of e (gparam g ''id'')))
         (\<lambda>err. fails StatusInternalServerError ''can not get token'')
         (\<lambda>token. deref (ctx_User t) (\<lambda>user.
           if token_UserID token \<noteq> ID user \<and> Role user \<noteq> AdminType
           then fails StatusForbidden ''not allowed to delete token''
           else with_done (DeleteToken (dbe e) sql (gparam g ''id''))
             (\<lambda>err. fails StatusInternalServerError ''can not delete token'')
             (sends []))))"

record createTokenRequest =
  ct_Expires :: "gotime option"
  ct_Scope :: string

definition new_token :: "api_env \<Rightarrow> User \<Rightarrow> createTokenRequest \<Rightarrow> Token" where
  "new_token e user req =
     \<lparr>ID = 0, CreatedAt = zero_time, UpdatedAt = zero_time, DeletedAt = None, token_UserID = ID user,
      token_Token = uuid e 0, Expires = ct_Expires req, Scope = ct_Scope req, LastUse = None\<rparr>"

definition createToken :: "api_env \<Rightarrow> TUMLiveContext option \<Rightarrow> createTokenRequest option \<Rightarrow> string side" where
  "createToken e t body =
     demand t (sends []) (\<lambda>t.
       demand body (bad_request ''can not bind body'') (\<lambda>req.
         if ct_Scope req \<noteq> TokenScopeAdmin \<and> ct_Scope req \<noteq> TokenScopeLecturer
         then fails StatusBadRequest ''invalid scope''
         else deref (ctx_User t) (\<lambda>user.
           if ct_Scope req = TokenScopeAdmin \<and> Role user \<noteq> AdminType then fails StatusBadRequest ''not an admin''
           else with_done (AddToken (dbe e) (new_token e user req))
             (\<lambda>err. fails StatusInternalServerError ''can not create token'')
             (sends [Reply StatusOK (uuid e 0)]))))"

subsection \<open>The stream that a token opens\<close>

definition test_stream :: "Course \<Rightarrow> Stream \<Rightarrow> bool" where
  "test_stream c s \<longleftrightarrow>
     live_row s \<and> (ID c = 0 \<or> CourseID s = ID c) \<and> stream_Name s = ''Test Stream'' \<and>
     Description s = ''This is a test stream''"

definition CreateOrGetTestStreamAndCourse ::
    "api_env \<Rightarrow> User \<Rightarrow> api_db \<Rightarrow> (string + Stream \<times> Course) \<times> api_db" where
  "CreateOrGetTestStreamAndCourse e user db =
     (case CreateOrGetTestCourse e user db of
        (Inl err, db) \<Rightarrow> (Inl err, db)
      | (Inr course, db) \<Rightarrow>
          (case (case List.find (test_stream course) (t_streams (base db)) of
                   Some s \<Rightarrow> (Inr s, db)
                 | None \<Rightarrow> CreateStream_result e (zero_Stream\<lparr>CourseID := ID course, stream_Name := ''Test Stream'',
                                                            Description := ''This is a test stream''\<rparr>) db) of
             (Inl err, db) \<Rightarrow> (Inl err, db)
           | (Inr s, db) \<Rightarrow>
               (let s = s\<lparr>Start := now_of e + 5 * Minute, End := now_of e + Hour, LiveNow := True, Recording := True,
                          LiveNowTimestamp := now_of e + 5 * Minute, Private := True,
                          StreamKey := replace_all (uuid e 1) ''-'' [], RoomName := ''Selfstream'', LectureHallID := 0\<rparr>
                in case on_base (SaveStream (dbe e) s) db of
                     (Some err, db) \<Rightarrow> (Inl err, db) | (None, db) \<Rightarrow> (Inr (s, course), db))))"

text \<open>
  The conditions of the query, as gorm joins them: the ones on the slug and the semester are joined to the second
  alternative only.
\<close>

definition open_now :: "gotime \<Rightarrow> Stream \<Rightarrow> bool" where
  "open_now now s \<longleftrightarrow> Start s \<le> now + 15 * Minute \<and> now \<le> End s"

definition just_ended :: "gotime \<Rightarrow> Stream \<Rightarrow> bool" where
  "just_ended now s \<longleftrightarrow> now - 15 * Minute \<le> End s \<and> End s \<le> now"

definition soon_row :: "gotime \<Rightarrow> string \<Rightarrow> int \<Rightarrow> string \<Rightarrow> Stream \<Rightarrow> Course \<Rightarrow> bool" where
  "soon_row now slug year term s c \<longleftrightarrow>
     course_Year c \<noteq> 1234 \<and> live_row s \<and> live_row c \<and>
     (open_now now s \<or>
      just_ended now s \<and> (slug = [] \<or> Slug c = slug) \<and> (year = 0 \<or> course_Year c = year) \<and>
      (term = [] \<or> course_TeachingTerm c = term))"

definition soon_streams :: "gotime \<Rightarrow> User \<Rightarrow> string \<Rightarrow> int \<Rightarrow> string \<Rightarrow> api_db \<Rightarrow> (Stream \<times> Course) list" where
  "soon_streams now user slug year term db =
     sort_key (Start \<circ> fst)
       [(s, c). s \<leftarrow> t_streams (base db), p \<leftarrow> course_admins db, c \<leftarrow> t_courses (base db),
                snd p = CourseID s \<and> ID c = snd p \<and> fst p = ID user \<and> soon_row now slug year term s c]"

definition soon_name :: "Stream \<times> Course \<Rightarrow> string \<times> string" where
  "soon_name = (\<lambda>(s, c). (StreamKey s, Slug c @ ''-'' @ uint_str (ID s)))"

definition GetSoonStartingStreamInfo ::
    "api_env \<Rightarrow> User \<Rightarrow> string \<Rightarrow> int \<Rightarrow> string \<Rightarrow> api_db \<Rightarrow> (string + string \<times> string) \<times> api_db" where
  "GetSoonStartingStreamInfo e user slug year term db =
     (case fault (dbe e) ''GetSoonStartingStreamInfo'' of
        Some err \<Rightarrow> (Inl err, db)
      | None \<Rightarrow>
          (case soon_streams (now_of e) user slug year term db of
             [] \<Rightarrow> apfst (map_sum id soon_name) (CreateOrGetTestStreamAndCourse e user db)
           | r # rs \<Rightarrow>
               (case List.find (\<lambda>(s, c). Start s < now_of e \<and> now_of e < End s) (r # rs) of
                  Some x \<Rightarrow> (Inr (soon_name x), db)
                | None \<Rightarrow> (Inr (soon_name r), db))))"

definition stream_url :: "string \<Rightarrow> string \<Rightarrow> string \<Rightarrow> string" where
  "stream_url base_url key name = base_url @ name @ ''?secret='' @ key @ ''/'' @ name"

definition fetchStreamKey :: "api_env \<Rightarrow> string \<Rightarrow> gin \<Rightarrow> string side" where
  "fetchStreamKey e base_url g =
     with_row (GetToken (dbe e) (gparam g ''token''))
       (\<lambda>err. fails StatusBadRequest ''invalid token'')
       (\<lambda>token.
         if Scope token \<noteq> TokenScopeLecturer then fails StatusUnauthorized ''invalid scope''
         else with_result (on_core (GetUserByID (dbe e) (token_UserID token)))
           (\<lambda>err. fails StatusInternalServerError ''could not get user'')
           (\<lambda>user.
             if Role user \<noteq> LecturerType \<and> Role user \<noteq> AdminType
             then fails StatusUnauthorized ''user is not a lecturer or admin''
             else (let (year, term) = GetCurrentSemester e in
               with_result (on_core (GetSoonStartingStreamInfo e user (gquery g ''slug'') year term))
                 (\<lambda>err. fails StatusNotFound ''no stream found'')
                 (\<lambda>(key, name). if key = [] \<or> name = [] then fails StatusNotFound ''no stream found''
                               else sends [Reply StatusOK (stream_url base_url key name)]))))"

end
