(* ===== verification/Side_Props.thy ===== *)
theory Side_Props
  imports Side_Api Course_Props
begin

text \<open>
  What bookmarks and tokens guarantee over every sequence of requests: nobody changes the bookmarks of somebody else; a
  token of an administrator was made by one; a token opens only streams that its owner may run.
\<close>

subsection \<open>Bookmarks belong to their users\<close>

datatype bookmark_call =
    AddBookmark "AddBookmarkRequest option"
  | ListBookmarks "uint option"
  | UpdateBookmark gin "UpdateBookmarkRequest option"
  | DeleteBookmark gin

fun bookmark_step :: "api_env \<Rightarrow> TUMLiveContext \<Rightarrow> bookmark_call \<Rightarrow> side_db \<Rightarrow> side_db" where
  "bookmark_step e t (AddBookmark body) d = snd (bookmarks_Add e t body d)"
| "bookmark_step e t (ListBookmarks q) d = snd (bookmarks_GetByStreamID e t q d)"
| "bookmark_step e t (UpdateBookmark g body) d = snd (bookmarks_Update e t g body d)"
| "bookmark_step e t (DeleteBookmark g) d = snd (bookmarks_Delete e t g d)"

text \<open>Every request has its environment and its session.\<close>

definition bookmark_run :: "(api_env \<times> TUMLiveContext \<times> bookmark_call) list \<Rightarrow> side_db \<Rightarrow> side_db" where
  "bookmark_run cs d = foldl (\<lambda>d (e, t, c). bookmark_step e t c d) d cs"

definition bookmark_keys :: "side_db \<Rightarrow> bool" where
  "bookmark_keys d \<longleftrightarrow>
     distinct (map ID (t_bookmarks d)) \<and> list_all (\<lambda>k. unat k < unat (next_bookmark d)) (map ID (t_bookmarks d))"

lemma bookmark_keys_cong:
  "map ID (t_bookmarks d') = map ID (t_bookmarks d) \<Longrightarrow> next_bookmark d' = next_bookmark d \<Longrightarrow> bookmark_keys d \<Longrightarrow> bookmark_keys d'"
  unfolding bookmark_keys_def by (simp only:)

definition of_user :: "uint \<Rightarrow> side_db \<Rightarrow> Bookmark list" where
  "of_user u d = filter (\<lambda>b. bm_UserID b = u \<and> live_row b) (t_bookmarks d)"

lemma listed_of_user:
  "BookmarkDao_GetByStreamID e i u d =
     row_query e ''BookmarkGetByStreamID''
       (Some (sort_key bm_Hours (sort_key bm_Minutes (sort_key bm_Seconds (filter (\<lambda>b. bm_StreamID b = i) (of_user u d))))))"
  by (simp add: BookmarkDao_GetByStreamID_def of_user_def conj_ac)

lemma side_nz_same: "nz z a b = (if a = z then b else a)"
  by (simp add: nz_def)

text \<open>Rows other than those of one key are left alone; the row of the key belongs to the session.\<close>

lemma of_user_map:
  assumes "\<And>b. b \<in> set (t_bookmarks d) \<Longrightarrow> bm_UserID b = u \<Longrightarrow> h b = b"
    and "\<And>b. bm_UserID (h b) = bm_UserID b"
  shows "of_user u (d\<lparr>t_bookmarks := map h (t_bookmarks d)\<rparr>) = of_user u d"
proof -
  have "filter (\<lambda>b. bm_UserID b = u \<and> live_row b) (map h bs) = filter (\<lambda>b. bm_UserID b = u \<and> live_row b) bs"
    if "set bs \<subseteq> set (t_bookmarks d)" for bs
    using that by (induction bs) (auto simp: assms)
  then show ?thesis by (simp add: of_user_def)
qed

lemma owner_of_key:
  assumes "bookmark_keys d" and "List.find (\<lambda>b. ID b = i \<and> live_row b) (t_bookmarks d) = Some r" and "bm_UserID r \<noteq> u"
    and "b \<in> set (t_bookmarks d)" and "bm_UserID b = u"
  shows "ID b \<noteq> i"
  using assms by (auto simp: bookmark_keys_def distinct_map inj_on_def dest!: find_SomeD)

lemma touched_key:
  assumes keys: "bookmark_keys d" and "List.find (\<lambda>b. ID b = i \<and> live_row b) (t_bookmarks d) = Some r" and "bm_UserID r \<noteq> u"
    and h: "\<And>r. ID (h r) = ID r" "\<And>r. bm_UserID (h r) = bm_UserID r"
    and d': "d' \<in> {d, d\<lparr>t_bookmarks := map (\<lambda>r. if ID r = i \<and> live_row r then h r else r) (t_bookmarks d)\<rparr>}"
  shows "of_user u d' = of_user u d \<and> bookmark_keys d' \<and> next_bookmark d' = next_bookmark d"
proof -
  let ?h = "\<lambda>r. if ID r = i \<and> live_row r then h r else r"
  have "of_user u (d\<lparr>t_bookmarks := map ?h (t_bookmarks d)\<rparr>) = of_user u d"
    by (rule of_user_map) (use owner_of_key [OF assms(1-3)] h in auto)
  moreover have "bookmark_keys (d\<lparr>t_bookmarks := map ?h (t_bookmarks d)\<rparr>)"
    by (rule bookmark_keys_cong [OF _ _ keys]) (simp_all add: h)
  ultimately show ?thesis using d' keys by auto
qed

definition keeps_others :: "uint \<Rightarrow> side_db \<Rightarrow> side_db \<Rightarrow> bool" where
  "keeps_others u d d' \<longleftrightarrow>
     of_user u d' = of_user u d \<and> bookmark_keys d' \<and> unat (next_bookmark d') \<le> Suc (unat (next_bookmark d))"

lemma keeps_others_refl: "bookmark_keys d \<Longrightarrow> keeps_others u d d"
  by (simp add: keeps_others_def)

lemma keeps_others_Update:
  assumes "bookmark_keys d" and "List.find (\<lambda>b. ID b = i \<and> live_row b) (t_bookmarks d) = Some r" and "bm_UserID r \<noteq> u"
  shows "keeps_others u d (snd (BookmarkDao_Update e (updated_Bookmark req i) d))"
proof -
  let ?d = "snd (BookmarkDao_Update e (updated_Bookmark req i) d)"
  have "of_user u ?d = of_user u d \<and> bookmark_keys ?d \<and> next_bookmark ?d = next_bookmark d"
    by (rule touched_key [OF assms, where h = "\<lambda>r. r\<lparr>UpdatedAt := clock e,
          bm_Description := nz [] (ub_Description req) (bm_Description r), bm_Hours := nz 0 (ub_Hours req) (bm_Hours r),
          bm_Minutes := nz 0 (ub_Minutes req) (bm_Minutes r), bm_Seconds := nz 0 (ub_Seconds req) (bm_Seconds r)\<rparr>"])
      (auto simp: BookmarkDao_Update_def side_exec_def updated_Bookmark_def zero_Bookmark_def nz_def split: option.split)
  then show ?thesis by (simp add: keeps_others_def)
qed

lemma keeps_others_Delete:
  assumes "bookmark_keys d" and "List.find (\<lambda>b. ID b = i \<and> live_row b) (t_bookmarks d) = Some r" and "bm_UserID r \<noteq> u"
  shows "keeps_others u d (snd (BookmarkDao_Delete e i d))"
proof -
  let ?d = "snd (BookmarkDao_Delete e i d)"
  have "of_user u ?d = of_user u d \<and> bookmark_keys ?d \<and> next_bookmark ?d = next_bookmark d"
    by (rule touched_key [OF assms, where h = "\<lambda>r. r\<lparr>DeletedAt := Some (clock e)\<rparr>"])
      (auto simp: BookmarkDao_Delete_def side_exec_def soft_delete_def split: option.split)
  then show ?thesis by (simp add: keeps_others_def)
qed

lemma keeps_others_Add:
  assumes "bookmark_keys d" and "unat (next_bookmark d) + 1 < 2 ^ 64" and "v \<noteq> u"
  shows "keeps_others u d (snd (BookmarkDao_Add e (ToBookmark req v) d))"
proof -
  have n: "unat (next_bookmark d + 1) = Suc (unat (next_bookmark d))"
    using assms(2) by (simp add: unat_add_lem [THEN iffD1])
  have "next_bookmark d \<notin> ID ` set (t_bookmarks d)" using assms(1) by (auto simp: bookmark_keys_def list_all_iff)
  then show ?thesis
    using assms(1,3) n
    by (auto simp: keeps_others_def BookmarkDao_Add_def side_exec_def ToBookmark_def zero_Bookmark_def of_user_def bookmark_keys_def
        stamp_def list_all_iff less_SucI split: option.split)
qed

lemma keeps_others_own:
  assumes "bookmark_keys d" and "ctx_User t = Some v" and "ID v \<noteq> u"
    and "\<And>r. List.find (\<lambda>b. ID b = i \<and> live_row b) (t_bookmarks d) = Some r \<Longrightarrow> bm_UserID r \<noteq> u \<Longrightarrow> keeps_others u d (snd (k d))"
  shows "keeps_others u d (snd (own_bookmark e t i k d))"
proof (cases "BookmarkDao_GetByID (dbe e) i d")
  case (Inl err)
  then show ?thesis using assms(1,2) by (simp add: own_bookmark_def handler_defs keeps_others_refl)
next
  case (Inr r)
  then have "List.find (\<lambda>b. ID b = i \<and> live_row b) (t_bookmarks d) = Some r"
    by (auto simp: BookmarkDao_GetByID_def row_query_def split: option.splits)
  then show ?thesis
    using assms Inr by (simp add: own_bookmark_def handler_defs keeps_others_refl)
qed

lemma snd_with_done: "snd (with_done q (\<lambda>err. fails n m) (sends []) d) = snd (q d)"
  by (cases "q d"; cases "fst (q d)") (auto simp: handler_defs)

lemma step_keeps_others:
  assumes "bookmark_keys d" and "unat (next_bookmark d) + 1 < 2 ^ 64" and "ctx_User t \<noteq> None \<longrightarrow> ID (the (ctx_User t)) \<noteq> u"
  shows "keeps_others u d (bookmark_step e t c d)"
proof (cases "ctx_User t")
  case None
  then show ?thesis
    using assms(1)
    by (cases c) (auto simp: bookmarks_Add_def bookmarks_GetByStreamID_def bookmarks_Update_def bookmarks_Delete_def own_bookmark_def
        bad_request_def demand_def deref_def sends_def fails_def panic_def keeps_others_refl split: option.split)
next
  case (Some v)
  note refl = keeps_others_refl [OF assms(1)]
  have v: "ID v \<noteq> u" using assms(3) Some by simp
  show ?thesis
  proof (cases c)
    case (AddBookmark body)
    then show ?thesis
      using Some refl keeps_others_Add [OF assms(1,2) v]
      by (cases body) (simp_all add: bookmarks_Add_def demand_def deref_def bad_request_def snd_with_done, simp add: sends_def)
  next
    case (ListBookmarks q)
    then show ?thesis
      using Some refl by (simp add: bookmarks_GetByStreamID_def handler_defs bad_request_def split: option.split sum.split)
  next
    case (UpdateBookmark g body)
    have "keeps_others u d (snd (own_bookmark e t i
        (with_done (BookmarkDao_Update (dbe e) (updated_Bookmark req i)) (\<lambda>err. fails n m) (sends [])) d))" for i req n m
      by (rule keeps_others_own [OF assms(1) Some v]) (simp add: snd_with_done keeps_others_Update [OF assms(1)])
    then show ?thesis
      using UpdateBookmark refl by (simp add: bookmarks_Update_def demand_def fails_def bad_request_def sends_def split: option.split)
  next
    case (DeleteBookmark g)
    have "keeps_others u d (snd (own_bookmark e t i
        (with_done (BookmarkDao_Delete (dbe e) i) (\<lambda>err. fails n m) (sends [])) d))" for i n m
      by (rule keeps_others_own [OF assms(1) Some v]) (simp add: snd_with_done keeps_others_Delete [OF assms(1)])
    then show ?thesis
      using DeleteBookmark refl by (simp add: bookmarks_Delete_def demand_def fails_def sends_def split: option.split)
  qed
qed

text \<open>C36: Nobody changes the bookmarks of another user: whatever requests other sessions send, with whatever keys and
  bodies and whatever the database refuses, a user's list of bookmarks for a stream stays as it was.\<close>

theorem bookmarks_are_private:
  assumes "bookmark_keys d" and "unat (next_bookmark d) + length cs < 2 ^ 64"
    and "list_all (\<lambda>(e, t, c). case ctx_User t of None \<Rightarrow> True | Some v \<Rightarrow> ID v \<noteq> u) cs"
  shows "BookmarkDao_GetByStreamID e i u (bookmark_run cs d) = BookmarkDao_GetByStreamID e i u d"
proof -
  have "of_user u (bookmark_run cs d) = of_user u d"
    using assms
  proof (induction cs arbitrary: d)
    case Nil
    then show ?case by (simp add: bookmark_run_def)
  next
    case (Cons x cs)
    obtain e t c where x: "x = (e, t, c)" by (cases x)
    have k: "keeps_others u d (bookmark_step e t c d)"
      using Cons.prems x by (intro step_keeps_others) (auto split: option.splits)
    then have "of_user u (bookmark_run cs (bookmark_step e t c d)) = of_user u (bookmark_step e t c d)"
      using Cons.prems by (intro Cons.IH) (auto simp: keeps_others_def)
    then show ?case using k x by (simp add: bookmark_run_def keeps_others_def)
  qed
  then show ?thesis by (simp add: listed_of_user)
qed

text \<open>Two users: what the second does leaves the list of the first alone.\<close>

definition noted :: side_db where
  "noted =
     \<lparr>core = no_rows, t_bookmarks = [zero_Bookmark\<lparr>ID := 1, bm_UserID := 1, bm_StreamID := 7, bm_Description := ''a''\<rparr>],
      t_tokens = [], next_bookmark = 2, next_token = 1\<rparr>"

definition second_user :: TUMLiveContext where
  "second_user = empty_tum\<lparr>ctx_User := Some (zero_User\<lparr>ID := 2\<rparr>)\<rparr>"

definition a_bookmark :: AddBookmarkRequest where
  "a_bookmark = \<lparr>br_StreamID = 7, br_Description = ''b'', br_Hours = 0, br_Minutes = 1, br_Seconds = 0\<rparr>"

theorem bookmarks_are_private_witness:
  "BookmarkDao_GetByStreamID calm 7 1
     (bookmark_run [(calm_env, second_user, DeleteBookmark (for_user ''1'')), (calm_env, second_user, AddBookmark (Some a_bookmark))] noted) =
   BookmarkDao_GetByStreamID calm 7 1 noted"
  by (rule bookmarks_are_private)
    (simp_all add: bookmark_keys_def noted_def second_user_def empty_tum_def zero_Bookmark_def zero_User_def)

subsection \<open>Tokens\<close>

datatype token_call =
    CreateToken "createTokenRequest option"
  | RemoveToken gin
  | UseToken Token

fun token_step :: "api_env \<Rightarrow> (string \<Rightarrow> Token \<Rightarrow> bool) \<Rightarrow> TUMLiveContext \<Rightarrow> token_call \<Rightarrow> side_db \<Rightarrow> side_db" where
  "token_step e sql t (CreateToken body) d = snd (createToken e (Some t) body d)"
| "token_step e sql t (RemoveToken g) d = snd (deleteToken e sql (Some t) g d)"
| "token_step e sql t (UseToken token) d = snd (TokenUsed (dbe e) token d)"

definition token_run ::
    "(string \<Rightarrow> Token \<Rightarrow> bool) \<Rightarrow> (api_env \<times> TUMLiveContext \<times> token_call) list \<Rightarrow> side_db \<Rightarrow> side_db" where
  "token_run sql cs d = foldl (\<lambda>d (e, t, c). token_step e sql t c d) d cs"

text \<open>What a token gives: its secret, its scope and its owner.\<close>

definition grants :: "Token \<Rightarrow> string \<times> string \<times> uint" where
  "grants t = (token_Token t, Scope t, token_UserID t)"

definition is_admin :: "TUMLiveContext \<Rightarrow> uint \<Rightarrow> bool" where
  "is_admin t u \<longleftrightarrow> (case ctx_User t of None \<Rightarrow> False | Some v \<Rightarrow> ID v = u \<and> Role v = AdminType)"

lemma grants_simps [simp]:
  "grants (t\<lparr>DeletedAt := x\<rparr>) = grants t" "grants (t\<lparr>LastUse := l, UpdatedAt := y\<rparr>) = grants t"
  "grants (stamp now t) = grants t" "grants (t\<lparr>ID := i\<rparr>) = grants t"
  by (simp_all add: grants_def stamp_def)

lemma grants_soft_delete [simp]: "grants ` set (soft_delete now P ts) = grants ` set ts"
proof -
  have "map grants (soft_delete now P ts) = map grants ts" by (simp add: soft_delete_def)
  then show ?thesis by (metis list.set_map)
qed

lemma createToken_tokens:
  "t_tokens (snd (createToken e (Some t) body d)) = t_tokens d \<or>
   (\<exists>u req i. ctx_User t = Some u \<and> t_tokens (snd (createToken e (Some t) body d)) = t_tokens d @ [stamp (clock (dbe e)) ((new_token e u req)\<lparr>ID := i\<rparr>)] \<and>
      (ct_Scope req = TokenScopeAdmin \<longrightarrow> Role u = AdminType))"
  by (cases "ctx_User t"; cases body)
    (auto simp: createToken_def handler_defs bad_request_def AddToken_def side_exec_def split: option.split)

lemma deleteToken_tokens:
  "t_tokens (snd (deleteToken e sql (Some t) g d)) = t_tokens d \<or>
   (\<exists>P. t_tokens (snd (deleteToken e sql (Some t) g d)) = soft_delete (clock (dbe e)) P (t_tokens d))"
  by (cases "GetTokenByID (dbe e) (key_of e (gparam g ''id'')) d"; cases "ctx_User t")
    (auto simp: deleteToken_def handler_defs DeleteToken_def side_exec_def split: option.split)

lemma token_step_grants:
  assumes "(k, TokenScopeAdmin, u) \<in> grants ` set (t_tokens (token_step e sql t c d))"
  shows "(k, TokenScopeAdmin, u) \<in> grants ` set (t_tokens d) \<or> is_admin t u"
proof (cases c)
  case (CreateToken body)
  with assms createToken_tokens [of e t body d] show ?thesis
    by (auto simp: is_admin_def) (auto simp: grants_def new_token_def)
next
  case (RemoveToken g)
  with assms deleteToken_tokens [of e sql t g d] show ?thesis by (metis grants_soft_delete token_step.simps(2))
next
  case (UseToken token)
  with assms show ?thesis
    by (force simp: TokenUsed_def side_exec_def split: option.splits if_splits)
qed

text \<open>C37: A token of the scope of administrators was made by an administrator for themselves: after any requests that
  create, delete and use tokens, from whatever sessions, every such token was there before or belongs to the user of a
  session among them whose role is that of an administrator.\<close>

theorem admin_tokens_come_from_admins:
  assumes "token \<in> set (t_tokens (token_run sql cs d))" and "Scope token = TokenScopeAdmin"
  shows "grants token \<in> grants ` set (t_tokens d) \<or> list_ex (\<lambda>(e, t, c). is_admin t (token_UserID token)) cs"
proof -
  have "(k, TokenScopeAdmin, u) \<in> grants ` set (t_tokens d) \<or> list_ex (\<lambda>(e, t, c). is_admin t u) cs"
    if "(k, TokenScopeAdmin, u) \<in> grants ` set (t_tokens (token_run sql cs d))" for k u
    using that
  proof (induction cs arbitrary: d)
    case (Cons x cs)
    obtain e t c where x: "x = (e, t, c)" by (cases x)
    from Cons.prems x have "(k, TokenScopeAdmin, u) \<in> grants ` set (t_tokens (token_run sql cs (token_step e sql t c d)))"
      by (simp add: token_run_def)
    from Cons.IH [OF this] show ?case
    proof
      assume "(k, TokenScopeAdmin, u) \<in> grants ` set (t_tokens (token_step e sql t c d))"
      from token_step_grants [OF this] show ?thesis by (cases "is_admin t u") (simp_all add: x)
    qed (simp add: x)
  qed (simp add: token_run_def)
  note from_admin = this [of "token_Token token" "token_UserID token"]
  have "grants token = (token_Token token, TokenScopeAdmin, token_UserID token)" by (simp add: grants_def assms(2))
  with from_admin assms(1) show ?thesis by (metis imageI)
qed

definition admin_session :: TUMLiveContext where
  "admin_session = empty_tum\<lparr>ctx_User := Some (zero_User\<lparr>ID := 1, Role := AdminType\<rparr>)\<rparr>"

definition lecturer_session :: TUMLiveContext where
  "lecturer_session = empty_tum\<lparr>ctx_User := Some (zero_User\<lparr>ID := 2, Role := LecturerType\<rparr>)\<rparr>"

definition ask_admin :: token_call where
  "ask_admin = CreateToken (Some \<lparr>ct_Expires = None, ct_Scope = TokenScopeAdmin\<rparr>)"

definition asked_tokens :: side_db where
  "asked_tokens = token_run (\<lambda>_ _. False) [(calm_env, lecturer_session, ask_admin), (calm_env, admin_session, ask_admin)] noted"

lemma asked_tokens: "map token_UserID (t_tokens asked_tokens) = [1]" "map Scope (t_tokens asked_tokens) = [TokenScopeAdmin]"
  by (simp_all add: asked_tokens_def token_run_def ask_admin_def createToken_def handler_defs lecturer_session_def admin_session_def
      AddToken_def side_exec_def noted_def new_token_def stamp_def empty_tum_def zero_User_def role_defs TokenScopeAdmin_def
      TokenScopeLecturer_def)

theorem admin_tokens_come_from_admins_witness:
  "\<exists>token. t_tokens asked_tokens = [token] \<and> is_admin admin_session (token_UserID token)"
proof -
  obtain token where token: "t_tokens asked_tokens = [token]" "Scope token = TokenScopeAdmin"
    using asked_tokens(2) by (auto simp: map_eq_Cons_conv)
  then have "grants token \<in> grants ` set (t_tokens noted) \<or>
      list_ex (\<lambda>(e, t, c). is_admin t (token_UserID token)) [(calm_env, lecturer_session, ask_admin), (calm_env, admin_session, ask_admin)]"
    by (intro admin_tokens_come_from_admins [where sql = "\<lambda>_ _. False"]) (simp_all add: asked_tokens_def)
  then have "is_admin lecturer_session (token_UserID token) \<or> is_admin admin_session (token_UserID token)"
    by (simp add: noted_def)
  moreover have "\<not> is_admin lecturer_session u" for u
    by (simp add: is_admin_def lecturer_session_def empty_tum_def role_defs)
  ultimately show ?thesis using token(1) by blast
qed

text \<open>
  What \<^verbatim>\<open>DELETE /api/token/:id\<close> does with a text that is not a number: the guard reads its leading number as a key,
  the deletion takes the whole text as a condition. The owner of one token deletes every row the condition is true for.
\<close>

lemma a_condition_deletes_foreign_tokens:
  assumes "GetTokenByID (dbe e) (key_of e i) d = Inr own" and "ctx_User t = Some u" and "token_UserID own = ID u"
    and "gparam g ''id'' = i" and "i \<noteq> []" and "atoi i = None" and "fault (dbe e) ''DeleteToken'' = None"
  shows "t_tokens (snd (deleteToken e sql (Some t) g d)) = soft_delete (clock (dbe e)) (sql i) (t_tokens d)"
  using assms by (simp add: deleteToken_def handler_defs DeleteToken_def side_exec_def)

subsection \<open>The stream that a token opens\<close>

lemma soon_streams_mem:
  "(s, c) \<in> set (soon_streams now user slug year tm db) \<longleftrightarrow>
     s \<in> set (t_streams (base db)) \<and> c \<in> set (t_courses (base db)) \<and> ID c = CourseID s \<and>
     (ID user, CourseID s) \<in> set (course_admins db) \<and> soon_row now slug year tm s c"
  by (force simp: soon_streams_def)

lemma soon_row_times:
  "soon_row now slug year tm s c \<Longrightarrow> live_row s \<and> live_row c \<and> (open_now now s \<or> just_ended now s)"
  by (auto simp: soon_row_def)

text \<open>The slug that the proxy asks for does not matter for a stream that is open.\<close>

lemma the_slug_is_ignored:
  "open_now now s \<Longrightarrow> soon_row now slug year tm s c = soon_row now slug' year' tm' s c"
  by (simp add: soon_row_def)

lemma GetSoonStartingStreamInfo_cases:
  assumes "fst (GetSoonStartingStreamInfo e user slug year tm db) = Inr x"
  shows "(\<exists>r. r \<in> set (soon_streams (now_of e) user slug year tm db) \<and> x = soon_name r) \<or>
    (\<exists>y. fst (CreateOrGetTestStreamAndCourse e user db) = Inr y \<and> x = soon_name y)"
proof (cases "soon_streams (now_of e) user slug year tm db")
  case Nil
  with assms show ?thesis
    by (cases "fst (CreateOrGetTestStreamAndCourse e user db)"; cases "CreateOrGetTestStreamAndCourse e user db")
      (auto simp: GetSoonStartingStreamInfo_def split: option.splits)
next
  case (Cons r rs)
  show ?thesis
  proof (cases "List.find (\<lambda>(s, c). Start s < now_of e \<and> now_of e < End s) (r # rs)")
    case None
    with Cons assms show ?thesis
      by (cases r) (auto simp: GetSoonStartingStreamInfo_def simp del: find.simps split: option.splits)
  next
    case (Some y)
    then have "y \<in> set (r # rs)" using find_SomeD [OF Some] by blast
    with Cons Some assms show ?thesis
      by (cases y) (auto simp: GetSoonStartingStreamInfo_def simp del: find.simps split: option.splits)
  qed
qed

text \<open>C38: The address that the proxy gets for a token was asked for with the secret of a token that is stored, not deleted, not
  expired and of the scope of lecturers; its owner is loaded with the role of a lecturer or of an administrator; and it
  names either a stream that is not deleted, of a course that is not deleted and that the owner administers, which
  starts within a quarter of an hour, runs, or has ended within the last one, or the owner's test stream.\<close>

theorem a_token_opens_own_streams:
  assumes "Reply StatusOK url \<in> set (fst (fetchStreamKey e base_url g d))"
  shows "\<exists>token user db key name. token \<in> set (t_tokens d) \<and> token_Token token = gparam g ''token'' \<and> token_valid (dbe e) token \<and>
     Scope token = TokenScopeLecturer \<and> GetUserByID (dbe e) (token_UserID token) (core d) = (Inr user, db) \<and>
     Role user \<in> {LecturerType, AdminType} \<and> url = stream_url base_url key name \<and>
     ((\<exists>s c. (key, name) = soon_name (s, c) \<and> s \<in> set (t_streams (base db)) \<and> c \<in> set (t_courses (base db)) \<and>
         live_row s \<and> live_row c \<and> CourseID s = ID c \<and> (ID user, ID c) \<in> set (course_admins db) \<and>
         (open_now (now_of e) s \<or> just_ended (now_of e) s)) \<or>
      (\<exists>x. fst (CreateOrGetTestStreamAndCourse e user db) = Inr x \<and> (key, name) = soon_name x))"
proof -
  obtain token where token: "GetToken (dbe e) (gparam g ''token'') d = Inr token" "Scope token = TokenScopeLecturer"
    using assms by (cases "GetToken (dbe e) (gparam g ''token'') d") (auto simp: fetchStreamKey_def handler_defs split: if_splits)
  obtain user db where user: "GetUserByID (dbe e) (token_UserID token) (core d) = (Inr user, db)"
    using assms token
    by (cases "GetUserByID (dbe e) (token_UserID token) (core d)"; cases "fst (GetUserByID (dbe e) (token_UserID token) (core d))")
      (auto simp: fetchStreamKey_def handler_defs on_core_def)
  have role: "Role user \<in> {LecturerType, AdminType}"
    using assms token user by (auto simp: fetchStreamKey_def handler_defs on_core_def split: if_splits)
  obtain year tm where sem: "GetCurrentSemester e = (year, tm)" by fastforce
  obtain key name where info: "fst (GetSoonStartingStreamInfo e user (gquery g ''slug'') year tm db) = Inr (key, name)"
      and url: "url = stream_url base_url key name"
    using assms token user role sem
    by (cases "GetSoonStartingStreamInfo e user (gquery g ''slug'') year tm db";
        cases "fst (GetSoonStartingStreamInfo e user (gquery g ''slug'') year tm db)")
      (auto simp: fetchStreamKey_def handler_defs on_core_def split: if_splits)
  have "(\<exists>s c. (key, name) = soon_name (s, c) \<and> s \<in> set (t_streams (base db)) \<and> c \<in> set (t_courses (base db)) \<and>
         live_row s \<and> live_row c \<and> CourseID s = ID c \<and> (ID user, ID c) \<in> set (course_admins db) \<and>
         (open_now (now_of e) s \<or> just_ended (now_of e) s)) \<or>
      (\<exists>x. fst (CreateOrGetTestStreamAndCourse e user db) = Inr x \<and> (key, name) = soon_name x)"
    using GetSoonStartingStreamInfo_cases [OF info]
  proof
    assume "\<exists>r. r \<in> set (soon_streams (now_of e) user (gquery g ''slug'') year tm db) \<and> (key, name) = soon_name r"
    then obtain s c where "(s, c) \<in> set (soon_streams (now_of e) user (gquery g ''slug'') year tm db)" "(key, name) = soon_name (s, c)"
      by auto
    then show ?thesis by (intro disjI1 exI [of _ s] exI [of _ c]) (auto simp: soon_streams_mem dest: soon_row_times)
  qed simp
  moreover have "token \<in> set (t_tokens d)" "token_Token token = gparam g ''token''" "token_valid (dbe e) token"
    using token(1) by (auto simp: GetToken_def row_query_def split: option.splits dest!: find_SomeD)
  ultimately show ?thesis using token(2) user role url by blast
qed

definition lent :: side_db where
  "lent = noted\<lparr>core := (with_rows [zero_User\<lparr>ID := 2, Role := LecturerType\<rparr>] [demo_row]
       [zero_Stream\<lparr>ID := 7, CourseID := 3, Start := 900 * Second, End := 2000 * Second, StreamKey := ''k''\<rparr>])
     \<lparr>course_admins := [(2, 3)]\<rparr>,
     t_tokens := [\<lparr>ID = 1, CreatedAt = 0, UpdatedAt = 0, DeletedAt = None, token_UserID = 2, token_Token = ''tok'',
                  Expires = None, Scope = ''lecturer'', LastUse = None\<rparr>]\<rparr>"

definition with_token :: gin where
  "with_token = (for_user [])\<lparr>url_params := [''token'' \<mapsto> ''tok'']\<rparr>"

lemma lent_url: "fst (fetchStreamKey calm_env ''rtmp://i/'' with_token lent) = [Reply StatusOK ''rtmp://i/gbs-7?secret=k/gbs-7'']"
  by code_simp

theorem a_token_opens_own_streams_witness:
  "\<exists>token. token \<in> set (t_tokens lent) \<and> token_Token token = ''tok'' \<and> token_valid calm token"
  using a_token_opens_own_streams [of "''rtmp://i/gbs-7?secret=k/gbs-7''" calm_env "''rtmp://i/''" with_token lent] lent_url
  by (auto simp: with_token_def gparam_def)

end
