(* ===== verification/Notice_Api.thy ===== *)
theory Notice_Api
  imports Mailer Course_Api
begin

text \<open>
  Messages to users and the administration of the server: \<^verbatim>\<open>src/api/notifications.go\<close>,
  \<^verbatim>\<open>server-notifications.go\<close>, \<^verbatim>\<open>info-pages.go\<close>, \<^verbatim>\<open>audit.go\<close>, \<^verbatim>\<open>maintenance.go\<close>,
  \<^verbatim>\<open>worker.go\<close>, with their queries and models. Their tables extend the database of the other handlers;
  rendering a text (\<open>render\<close>: markdown, then the removal of unsafe markup) is an argument.
\<close>

subsection \<open>Tables\<close>

definition TargetAll :: int where "TargetAll = 1"
definition TargetUser :: int where "TargetUser = 2"
definition TargetStudent :: int where "TargetStudent = 3"
definition TargetLecturer :: int where "TargetLecturer = 4"
definition TargetAdmin :: int where "TargetAdmin = 5"

lemmas target_defs = TargetAll_def TargetUser_def TargetStudent_def TargetLecturer_def TargetAdmin_def

record Notification = gorm_Model +
  note_Title :: "string option"
  note_Body :: string
  note_Target :: int
  SanitizedBody :: string

record ServerNotification = gorm_Model +
  sn_Text :: string
  sn_Warn :: bool
  sn_Start :: gotime
  sn_Expires :: gotime

record InfoPage = gorm_Model +
  page_Name :: string
  RawContent :: string
  page_Type :: uint

record notice_db =
  ndb :: api_db
  t_notes :: "Notification list"
  t_alerts :: "ServerNotification list"
  t_pages :: "InfoPage list"
  next_note :: uint
  next_alert :: uint

type_synonym 'a notice = "(notice_db, 'a) serves"

definition on_ndb :: "(api_db \<Rightarrow> 'r \<times> api_db) \<Rightarrow> notice_db \<Rightarrow> 'r \<times> notice_db" where
  "on_ndb f d = apsnd (\<lambda>c. d\<lparr>ndb := c\<rparr>) (f (ndb d))"

definition notice_exec :: "db_env \<Rightarrow> string \<Rightarrow> (notice_db \<Rightarrow> notice_db) \<Rightarrow> notice_db \<Rightarrow> string option \<times> notice_db" where
  "notice_exec e name f d = (case fault e name of Some err \<Rightarrow> (Some err, d) | None \<Rightarrow> (None, f d))"

subsection \<open>Notifications\<close>

text \<open>gorm replaces the zero target by its default, all users. The rendered text has no column.\<close>

definition AddNotification :: "db_env \<Rightarrow> Notification \<Rightarrow> notice_db \<Rightarrow> (string + Notification) \<times> notice_db" where
  "AddNotification e n d =
     (case fault e ''AddNotification'' of
        Some err \<Rightarrow> (Inl err, d)
      | None \<Rightarrow>
          if ID n \<noteq> 0 \<and> list_ex (\<lambda>r. ID r = ID n) (t_notes d) then (Inl ''duplicate key'', d)
          else (let m = stamp (clock e) (n\<lparr>ID := (if ID n = 0 then next_note d else ID n),
                                           note_Target := nz 0 (note_Target n) TargetAll\<rparr>)
                in (Inr m, d\<lparr>t_notes := t_notes d @ [m\<lparr>SanitizedBody := []\<rparr>],
                             next_note := (if ID n = 0 then next_note d + 1 else next_note d)\<rparr>)))"

definition AfterFind :: "(string \<Rightarrow> string) \<Rightarrow> Notification \<Rightarrow> Notification" where
  "AfterFind render n = n\<lparr>SanitizedBody := render (note_Body n)\<rparr>"

definition by_ID_desc :: "'a gorm_Model_scheme list \<Rightarrow> 'a gorm_Model_scheme list" where
  "by_ID_desc = sort_key (\<lambda>r. - Word.uint (ID r))"

definition GetNotifications :: "db_env \<Rightarrow> (string \<Rightarrow> string) \<Rightarrow> int list \<Rightarrow> notice_db \<Rightarrow> string + Notification list" where
  "GetNotifications e render targets d =
     row_query e ''GetNotifications''
       (Some (map (AfterFind render) (by_ID_desc (filter (\<lambda>n. note_Target n \<in> set targets \<and> live_row n) (t_notes d)))))"

definition GetAllNotifications :: "db_env \<Rightarrow> (string \<Rightarrow> string) \<Rightarrow> notice_db \<Rightarrow> string + Notification list" where
  "GetAllNotifications e render d =
     row_query e ''GetAllNotifications'' (Some (map (AfterFind render) (filter live_row (t_notes d))))"

definition DeleteNotification :: "db_env \<Rightarrow> uint \<Rightarrow> notice_db \<Rightarrow> string option \<times> notice_db" where
  "DeleteNotification e i =
     notice_exec e ''DeleteNotification'' (\<lambda>d. d\<lparr>t_notes := filter (\<lambda>n. ID n \<noteq> i) (t_notes d)\<rparr>)"

definition note_targets :: "User option \<Rightarrow> int list" where
  "note_targets u =
     TargetAll # (case u of
       None \<Rightarrow> []
     | Some u \<Rightarrow> TargetUser #
         (if Role u = AdminType then [TargetAdmin]
          else if Role u = LecturerType then [TargetLecturer]
          else if Role u = StudentType then [TargetStudent] else []))"

definition getNotifications :: "api_env \<Rightarrow> (string \<Rightarrow> string) \<Rightarrow> TUMLiveContext \<Rightarrow> Notification list notice" where
  "getNotifications e render t =
     with_row (GetNotifications (dbe e) render (note_targets (ctx_User t)))
       (\<lambda>err. fails StatusNotFound ''can not get notifications'')
       (\<lambda>ns. sends [Reply StatusOK ns])"

text \<open>The body of a request gives the text where an answer has the rendered one. A missing title is dereferenced.\<close>

definition createNotification :: "api_env \<Rightarrow> Notification option \<Rightarrow> Notification notice" where
  "createNotification e body =
     demand body (bad_request ''can not bind body'') (\<lambda>n.
       deref (note_Title n) (\<lambda>title.
         with_result (AddNotification (dbe e)
             (n\<lparr>note_Title := (if title = [] then None else Some title), note_Body := SanitizedBody n\<rparr>))
           (\<lambda>err. fails StatusInternalServerError ''can not add notification'')
           (\<lambda>n. sends [Reply StatusOK n])))"

definition deleteNotification :: "api_env \<Rightarrow> gin \<Rightarrow> bool notice" where
  "deleteNotification e g =
     demand (atoi (gparam g ''id'')) (fails StatusBadRequest (''invalid param '' @ [CHR 0x27] @ ''id'' @ [CHR 0x27])) (\<lambda>i.
       with_done (DeleteNotification (dbe e) (to_uint i))
         (\<lambda>err. fails StatusInternalServerError ''error deleting notification'')
         (sends [Reply StatusOK True]))"

subsection \<open>Alerts of the server\<close>

definition BeforeCreate_alert :: "ServerNotification \<Rightarrow> string option" where
  "BeforeCreate_alert s =
     (if sn_Expires s < sn_Start s
      then Some (''can'' @ [CHR 0x27] @ ''t save notification where expires is before start'') else None)"

definition CreateServerNotification :: "db_env \<Rightarrow> ServerNotification \<Rightarrow> notice_db \<Rightarrow> string option \<times> notice_db" where
  "CreateServerNotification e s d =
     (if BeforeCreate_alert s \<noteq> None then (BeforeCreate_alert s, d)
      else notice_exec e ''CreateServerNotification'' (\<lambda>d.
        d\<lparr>t_alerts := t_alerts d @ [stamp (clock e) (s\<lparr>ID := next_alert d\<rparr>)], next_alert := next_alert d + 1\<rparr>) d)"

definition GetCurrentServerNotifications :: "db_env \<Rightarrow> notice_db \<Rightarrow> string + ServerNotification list" where
  "GetCurrentServerNotifications e d =
     row_query e ''GetCurrentServerNotifications''
       (Some (filter (\<lambda>s. sn_Start s < clock e \<and> sn_Expires s > clock e \<and> live_row s) (t_alerts d)))"

definition GetAllServerNotifications :: "db_env \<Rightarrow> notice_db \<Rightarrow> string + ServerNotification list" where
  "GetAllServerNotifications e d = row_query e ''GetAllServerNotifications'' (Some (filter live_row (t_alerts d)))"

text \<open>\<^verbatim>\<open>Updates\<close> of a struct leaves out zero fields, so a warning stays one.\<close>

definition UpdateServerNotification :: "db_env \<Rightarrow> ServerNotification \<Rightarrow> uint \<Rightarrow> notice_db \<Rightarrow> string option \<times> notice_db" where
  "UpdateServerNotification e s i =
     notice_exec e ''UpdateServerNotification'' (\<lambda>d. d\<lparr>t_alerts := map (\<lambda>r.
       if ID r = i \<and> live_row r
       then r\<lparr>UpdatedAt := clock e, sn_Text := nz [] (sn_Text s) (sn_Text r), sn_Warn := (sn_Warn s \<or> sn_Warn r),
              sn_Start := nz zero_time (sn_Start s) (sn_Start r), sn_Expires := nz zero_time (sn_Expires s) (sn_Expires r)\<rparr>
       else r) (t_alerts d)\<rparr>)"

record notificationReq =
  nq_Text :: string
  nq_From :: gotime
  nq_Expires :: gotime
  nq_Type :: string
  nq_Id :: string

definition alert_of :: "string \<Rightarrow> notificationReq \<Rightarrow> ServerNotification" where
  "alert_of warn req =
     \<lparr>ID = 0, CreatedAt = zero_time, UpdatedAt = zero_time, DeletedAt = None, sn_Text = nq_Text req,
      sn_Warn = (nq_Type req = warn), sn_Start = nq_From req, sn_Expires = nq_Expires req\<rparr>"

definition updateServerNotification :: "api_env \<Rightarrow> notificationReq option \<Rightarrow> unit notice" where
  "updateServerNotification e body =
     demand body (fails StatusBadRequest ''can not bind body'') (\<lambda>req.
       with_done (UpdateServerNotification (dbe e) (alert_of ''warning'' req) (key_of e (nq_Id req)))
         (\<lambda>err. fails StatusInternalServerError ''can not update server notification'')
         (sends [RedirectTo StatusFound ''/admin/server-notifications'']))"

definition createServerNotification :: "api_env \<Rightarrow> notificationReq option \<Rightarrow> unit notice" where
  "createServerNotification e body =
     demand body (fails StatusBadRequest ''can not bind body'') (\<lambda>req.
       with_done (CreateServerNotification (dbe e) (alert_of ''warn'' req))
         (\<lambda>err. fails StatusInternalServerError ''can not create server notification'')
         (sends [RedirectTo StatusFound ''/admin/server-notifications'']))"

definition getServerNotifications :: "api_env \<Rightarrow> ServerNotification list notice" where
  "getServerNotifications e =
     with_row (GetCurrentServerNotifications (dbe e))
       (\<lambda>err. fails StatusInternalServerError ''can not bind body'')
       (\<lambda>xs. sends [Reply StatusOK xs])"

subsection \<open>Pages\<close>

definition INFOPAGE_MARKDOWN :: uint where "INFOPAGE_MARKDOWN = 1"

definition Render :: "(string \<Rightarrow> string) \<Rightarrow> InfoPage \<Rightarrow> string" where
  "Render render p = (if page_Type p = INFOPAGE_MARKDOWN then render (RawContent p) else RawContent p)"

definition InfoPageDao_Update :: "db_env \<Rightarrow> uint \<Rightarrow> InfoPage \<Rightarrow> notice_db \<Rightarrow> string option \<times> notice_db" where
  "InfoPageDao_Update e i p =
     notice_exec e ''InfoPageUpdate'' (\<lambda>d. d\<lparr>t_pages := map (\<lambda>r.
       if ID r = i \<and> live_row r
       then r\<lparr>UpdatedAt := clock e, page_Name := nz [] (page_Name p) (page_Name r),
              RawContent := nz [] (RawContent p) (RawContent r), page_Type := nz 0 (page_Type p) (page_Type r)\<rparr>
       else r) (t_pages d)\<rparr>)"

definition zero_InfoPage :: InfoPage where
  "zero_InfoPage =
     \<lparr>ID = 0, CreatedAt = zero_time, UpdatedAt = zero_time, DeletedAt = None, page_Name = [], RawContent = [], page_Type = 0\<rparr>"

text \<open>\<^verbatim>\<open>Find\<close> of a single page does not fail.\<close>

definition InfoPageDao_GetById :: "db_env \<Rightarrow> uint \<Rightarrow> notice_db \<Rightarrow> string + InfoPage" where
  "InfoPageDao_GetById e i d =
     row_query e ''InfoPageGetById''
       (Some (case List.find (\<lambda>p. ID p = i \<and> live_row p) (t_pages d) of None \<Rightarrow> zero_InfoPage | Some p \<Rightarrow> p))"

text \<open>\<open>Type\<close> is that of the body, with markdown as the default.\<close>

record updateTextDao =
  ut_Name :: string
  ut_RawContent :: string
  ut_Type :: "uint option"

definition updateText :: "api_env \<Rightarrow> gin \<Rightarrow> updateTextDao option \<Rightarrow> unit notice" where
  "updateText e g body =
     demand body (bad_request ''can not bind body'') (\<lambda>req.
       demand (atoi (gparam g ''id'')) (fails StatusBadRequest (''invalid param '' @ [CHR 0x27] @ ''id'' @ [CHR 0x27])) (\<lambda>i.
         with_done (InfoPageDao_Update (dbe e) (to_uint i) (zero_InfoPage\<lparr>page_Name := ut_Name req,
             RawContent := ut_RawContent req,
             page_Type := (case ut_Type req of None \<Rightarrow> INFOPAGE_MARKDOWN | Some ty \<Rightarrow> ty)\<rparr>))
           (\<lambda>err. fails StatusInternalServerError ''can not update info page'')
           (sends [])))"

subsection \<open>Audits\<close>

definition audit_types :: "string list" where
  "audit_types = [''Info'', ''Warning'', ''Error'', ''Course Created'', ''Course Edited'', ''Course Deleted'', ''Stream Created'',
     ''Stream Edited'', ''Stream Deleted'', ''Camera Moved'']"

text \<open>The index is out of range for a type that has no name.\<close>

definition AuditType_String :: "uint \<Rightarrow> string option" where
  "AuditType_String ty = (let i = unat (ty - 1) in if i < length audit_types then Some (audit_types ! i) else None)"

definition GetAllAuditTypes :: "uint list" where
  "GetAllAuditTypes = [1, 2, 3, 4, 5, 6, 7, 8, 9, 10]"

text \<open>No limit together with an offset is not SQL.\<close>

definition AuditDao_Find :: "db_env \<Rightarrow> int \<Rightarrow> int \<Rightarrow> uint list \<Rightarrow> api_db \<Rightarrow> string + Audit list" where
  "AuditDao_Find e limit offset types db =
     (if limit < 0 \<and> offset > 0 then Inl ''You have an error in your SQL syntax''
      else row_query e ''AuditFind'' (Some (limit_rows limit (drop (nat offset)
        (sort_key (\<lambda>a. - CreatedAt a) (filter (\<lambda>a. audit_Type a \<in> set types \<and> live_row a) (t_audits db)))))))"

record audit_json =
  aj_type :: string
  aj_createdAt :: string
  aj_id :: uint
  aj_message :: string
  aj_userID :: "uint option"
  aj_userName :: string

definition audit_user :: "api_db \<Rightarrow> Audit \<Rightarrow> User option" where
  "audit_user db a =
     (case audit_UserID a of None \<Rightarrow> None | Some i \<Rightarrow> List.find (\<lambda>u. ID u = i \<and> live_row u) (t_users db))"

definition audit_Json :: "api_env \<Rightarrow> api_db \<Rightarrow> Audit \<Rightarrow> audit_json option" where
  "audit_Json e db a =
     map_option (\<lambda>ty. \<lparr>aj_type = ty, aj_createdAt = time_format e ''Jan 02, 2006: 15:04:05'' (CreatedAt a), aj_id = ID a,
         aj_message = audit_Message a, aj_userID = audit_UserID a, aj_userName = GetLoginString (audit_user db a)\<rparr>)
       (AuditType_String (audit_Type a))"

record audit_query =
  aq_Limit :: int
  aq_Offset :: int
  aq_Types :: "uint list"

definition getAudits :: "api_env \<Rightarrow> audit_query option \<Rightarrow> audit_json list handler" where
  "getAudits e query =
     demand query (bad_request ''can not bind query'') (\<lambda>q.
       let types = (if aq_Types q = [] then GetAllAuditTypes else aq_Types q);
           answer = (\<lambda>found db. case those (map (audit_Json e db) found) of
             None \<Rightarrow> sends [Panicked IndexOutOfRange] db
           | Some js \<Rightarrow> sends [Reply StatusOK js] db) in
       with_row (AuditDao_Find (dbe e) (aq_Limit q) (aq_Offset q) types)
         (\<lambda>err. if err = Dao_Streams.not_found then answer [] else fails StatusInternalServerError ''can not find audits'')
         answer)"

subsection \<open>Maintenance\<close>

definition CountVoDFiles :: "db_env \<Rightarrow> tables \<Rightarrow> string + nat" where
  "CountVoDFiles e t =
     row_query e ''CountVoDFiles'' (Some (length (filter (\<lambda>f. file_Type f = FILETYPE_VOD \<and> live_row f) (t_files t))))"

definition TranscodingFailures :: "db_env \<Rightarrow> tables \<Rightarrow> string + TranscodingFailure list" where
  "TranscodingFailures e t = row_query e ''TranscodingFailureAll'' (Some (filter live_row (t_failures t)))"

definition DeleteTranscodingFailure :: "db_env \<Rightarrow> uint \<Rightarrow> tables \<Rightarrow> string option \<times> tables" where
  "DeleteTranscodingFailure e i =
     exec e ''TranscodingFailureDelete'' (\<lambda>t. t\<lparr>t_failures := soft_delete (clock e) (\<lambda>f. ID f = i) (t_failures t)\<rparr>)"

definition getTranscodingFailures :: "api_env \<Rightarrow> TranscodingFailure list handler" where
  "getTranscodingFailures e =
     with_row (\<lambda>db. TranscodingFailures (dbe e) (base db))
       (\<lambda>err. fails StatusInternalServerError (''Can'' @ [CHR 0x27] @ ''t get transcoding failures''))
       (\<lambda>xs. sends [Reply StatusOK xs])"

definition cant_parse_id :: string where
  "cant_parse_id = ''Can'' @ [CHR 0x27] @ ''t parse id''"

definition deleteTranscodingFailure :: "api_env \<Rightarrow> gin \<Rightarrow> unit handler" where
  "deleteTranscodingFailure e g =
     demand (atoi (gparam g ''id'')) (fails StatusBadRequest cant_parse_id) (\<lambda>i.
       with_done (on_base (DeleteTranscodingFailure (dbe e) (to_uint i)))
         (\<lambda>err. fails StatusInternalServerError (''Can'' @ [CHR 0x27] @ ''t delete transcoding failure''))
         (sends []))"

definition getEmailFailures :: "api_env \<Rightarrow> Mail list handler" where
  "getEmailFailures e =
     with_row (GetFailed (dbe e))
       (\<lambda>err. fails StatusInternalServerError (''Can'' @ [CHR 0x27] @ ''t get email failures''))
       (\<lambda>xs. sends [Reply StatusOK xs])"

definition deleteEmailFailure :: "api_env \<Rightarrow> gin \<Rightarrow> unit handler" where
  "deleteEmailFailure e g =
     demand (atoi (gparam g ''id'')) (fails StatusBadRequest cant_parse_id) (\<lambda>i.
       with_done (EmailDao_Delete (dbe e) (to_uint i))
         (\<lambda>err. fails StatusInternalServerError (''Can'' @ [CHR 0x27] @ ''t delete email failure''))
         (sends []))"

text \<open>\<open>jobs\<close>: the names of the jobs that are registered, in the order of the map.\<close>

definition listCronJobs :: "string list \<Rightarrow> string list handler" where
  "listCronJobs jobs = sends [Reply StatusOK jobs]"

definition runCronJob :: "string list \<Rightarrow> string option \<Rightarrow> unit handler" where
  "runCronJob jobs form =
     demand form (fails StatusBadRequest (''Can'' @ [CHR 0x27] @ ''t read request'')) (\<lambda>job.
       sends (if job \<in> set jobs then [Spawn job] else []))"

definition generateThumbnails :: "api_env \<Rightarrow> unit handler" where
  "generateThumbnails e =
     with_row (\<lambda>db. CountVoDFiles (dbe e) (base db))
       (\<lambda>err. fails StatusInternalServerError (''can'' @ [CHR 0x27] @ ''t find number of files''))
       (\<lambda>n. sends [Spawn ''generateThumbnails''])"

text \<open>
  The goroutine: how many recordings were handed to a worker, or the panic of a call, which ends the process as nothing
  recovers it.
\<close>

fun thumbs_each :: "wenv \<Rightarrow> (Stream \<times> File) list \<Rightarrow> nat \<Rightarrow> wstate \<Rightarrow> (nat \<times> wstate) outcome" where
  "thumbs_each w [] processed st = Returns (processed, st)"
| "thumbs_each w ((s, f) # fs) processed st =
     (if file_Type f \<noteq> FILETYPE_VOD then thumbs_each w fs processed st
      else outcome_bind (RegenerateThumbs w f s st) (\<lambda>(err, st).
        thumbs_each w fs (if err \<noteq> None then processed else Suc processed) st))"

definition thumbs_of_all :: "api_env \<Rightarrow> wenv \<Rightarrow> api_db \<Rightarrow> (nat \<times> wstate) outcome" where
  "thumbs_of_all e w db =
     (case GetAllCourses (dbe e) db of (found, db) \<Rightarrow>
        (let courses = (case found of Inl err \<Rightarrow> [] | Inr cs \<Rightarrow> cs)
         in thumbs_each w [(s, f). c \<leftarrow> courses, s \<leftarrow> Streams c, f \<leftarrow> Files s] 0 \<lparr>tab = base db, wlog = []\<rparr>))"

definition DeleteWorker :: "db_env \<Rightarrow> string \<Rightarrow> tables \<Rightarrow> string option \<times> tables" where
  "DeleteWorker e i = exec e ''DeleteWorker'' (\<lambda>t. t\<lparr>t_workers := filter (\<lambda>w. WorkerID w \<noteq> i) (t_workers t)\<rparr>)"

definition deleteWorker :: "api_env \<Rightarrow> gin \<Rightarrow> unit handler" where
  "deleteWorker e g =
     with_done (on_base (DeleteWorker (dbe e) (gparam g ''id'')))
       (\<lambda>err. fails StatusInternalServerError ''can not delete worker'')
       (sends [])"

end
