(* ===== verification/Notice_Props.thy ===== *)
theory Notice_Props
  imports Notice_Api Course_Props
begin

text \<open>
  Who sees a notification, and that one which was created is shown to those it is for; what the two handlers for alerts
  make of a warning; a page of audits.
\<close>

definition addressed :: "User option \<Rightarrow> int \<Rightarrow> bool" where
  "addressed u target \<longleftrightarrow>
     target = TargetAll \<or>
     (case u of None \<Rightarrow> False
      | Some v \<Rightarrow> target = TargetUser \<or> target = TargetAdmin \<and> Role v = AdminType \<or>
          target = TargetLecturer \<and> Role v = LecturerType \<or> target = TargetStudent \<and> Role v = StudentType)"

lemma note_targets_addressed: "target \<in> set (note_targets u) \<longleftrightarrow> addressed u target"
  by (auto simp: note_targets_def addressed_def target_defs role_defs split: option.split)

lemma by_ID_desc_sorted: "sorted_wrt (\<lambda>a b. ID b \<le> ID a) (by_ID_desc rows)"
proof -
  have "sorted (map (\<lambda>r. - Word.uint (ID r)) (by_ID_desc rows))" by (simp add: by_ID_desc_def)
  then show ?thesis by (simp add: sorted_map word_le_def)
qed

lemma set_by_ID_desc [simp]: "set (by_ID_desc rows) = set rows"
  by (simp add: by_ID_desc_def)

lemma AfterFind_ID [simp]: "ID (AfterFind render n) = ID n"
  by (simp add: AfterFind_def)

lemma getNotifications_answer:
  assumes "fault (dbe e) ''GetNotifications'' = None"
  shows "fst (getNotifications e render t d) = [Reply StatusOK (map (AfterFind render) (by_ID_desc
     (filter (\<lambda>n. addressed (ctx_User t) (note_Target n) \<and> live_row n) (t_notes d))))]"
  using assms by (simp add: getNotifications_def GetNotifications_def row_query_def handler_defs note_targets_addressed)

text \<open>C39: A notification that was created is shown, with its title and its rendered text, to exactly the sessions it is
  for (everybody, all users, or the users of one role; nobody named means everybody); what each session saw before is
  still shown to it, and the newest comes first.\<close>

theorem notices_reach_their_audience:
  assumes "createNotification e (Some n) d = ([Reply StatusOK m], d')"
    and "DeletedAt n = None" and "fault (dbe e') ''GetNotifications'' = None"
  shows "\<exists>old new. fst (getNotifications e' render t d) = [Reply StatusOK old] \<and>
      fst (getNotifications e' render t d') = [Reply StatusOK new] \<and>
      set new = set old \<union>
        (if addressed (ctx_User t) (if note_Target n = 0 then TargetAll else note_Target n)
         then {m\<lparr>SanitizedBody := render (SanitizedBody n)\<rparr>} else {}) \<and>
      sorted_wrt (\<lambda>a b. ID b \<le> ID a) new"
proof -
  obtain title where title: "note_Title n = Some title"
    using assms(1) by (cases "note_Title n") (auto simp: createNotification_def handler_defs)
  let ?n = "n\<lparr>note_Title := (if title = [] then None else Some title), note_Body := SanitizedBody n\<rparr>"
  have "AddNotification (dbe e) ?n d = (Inr m, d')"
    using assms(1) title
    by (cases "AddNotification (dbe e) ?n d"; cases "fst (AddNotification (dbe e) ?n d)")
      (auto simp: createNotification_def handler_defs)
  then have m: "t_notes d' = t_notes d @ [m\<lparr>SanitizedBody := []\<rparr>]"
      "m = stamp (clock (dbe e)) (?n\<lparr>ID := ID m, note_Target := nz 0 (note_Target n) TargetAll\<rparr>)"
    by (auto simp: AddNotification_def Let_def stamp_def split: option.splits if_splits)
  have target: "note_Target m = (if note_Target n = 0 then TargetAll else note_Target n)" and live: "live_row m"
      and body: "note_Body m = SanitizedBody n"
    using assms(2) by (subst m(2), simp add: stamp_def nz_def live_row_def)+
  have "AfterFind render (m\<lparr>SanitizedBody := []\<rparr>) = m\<lparr>SanitizedBody := render (SanitizedBody n)\<rparr>"
    by (simp add: AfterFind_def body)
  then show ?thesis
    using live by (auto simp: getNotifications_answer [OF assms(3)] m(1) sorted_wrt_map by_ID_desc_sorted target live_row_def)
qed

definition a_notice :: Notification where
  "a_notice = \<lparr>ID = 0, CreatedAt = zero_time, UpdatedAt = zero_time, DeletedAt = None, note_Title = Some ''t'', note_Body = [],
     note_Target = TargetAdmin, SanitizedBody = ''hello''\<rparr>"

definition no_notices :: notice_db where
  "no_notices = \<lparr>ndb = no_rows, t_notes = [], t_alerts = [], t_pages = [], next_note = 1, next_alert = 1\<rparr>"

definition told :: notice_db where
  "told = snd (createNotification calm_env (Some a_notice) no_notices)"

theorem notices_reach_their_audience_witness:
  "fst (getNotifications calm_env id empty_tum told) = [Reply StatusOK []] \<and>
   (\<exists>new m. fst (getNotifications calm_env id (empty_tum\<lparr>ctx_User := Some (zero_User\<lparr>Role := AdminType\<rparr>)\<rparr>) told) =
        [Reply StatusOK new] \<and> m \<in> set new \<and> SanitizedBody m = ''hello'')"
proof -
  have "\<exists>m. createNotification calm_env (Some a_notice) no_notices = ([Reply StatusOK m], told)"
    by (simp add: told_def createNotification_def handler_defs a_notice_def AddNotification_def Let_def no_notices_def)
  then obtain m where m: "createNotification calm_env (Some a_notice) no_notices = ([Reply StatusOK m], told)" by blast
  have d: "DeletedAt a_notice = None" "fault (dbe calm_env) ''GetNotifications'' = None" by (simp_all add: a_notice_def)
  note shown = notices_reach_their_audience [OF m d, where render = id]
  let ?admin = "empty_tum\<lparr>ctx_User := Some (zero_User\<lparr>Role := AdminType\<rparr>)\<rparr>"
  have none: "fst (getNotifications calm_env id empty_tum told) = [Reply StatusOK []]"
    using shown [of empty_tum] d(2)
    by (auto simp: addressed_def a_notice_def target_defs empty_tum_def getNotifications_answer no_notices_def by_ID_desc_def)
  obtain new where "fst (getNotifications calm_env id ?admin told) = [Reply StatusOK new]"
      "m\<lparr>SanitizedBody := ''hello''\<rparr> \<in> set new"
    using shown [of ?admin] by (auto simp: addressed_def a_notice_def target_defs empty_tum_def)
  with none show ?thesis by (intro conjI exI [of _ new] exI [of _ "m\<lparr>SanitizedBody := ''hello''\<rparr>"]) simp_all
qed

text \<open>An alert that is a warning stays one, whatever is asked for, and creating one takes another word than changing one.\<close>

lemma a_warning_stays:
  "list_all2 (\<lambda>r r'. ID r' = ID r \<and> (sn_Warn r \<longrightarrow> sn_Warn r')) (t_alerts d) (t_alerts (snd (UpdateServerNotification e s i d)))"
  by (simp add: UpdateServerNotification_def notice_exec_def list_all2_same list.rel_map split: option.split)

lemma words_for_a_warning: "sn_Warn (alert_of ''warn'' (req\<lparr>nq_Type := ''warning''\<rparr>)) = False"
  by (simp add: alert_of_def)

text \<open>A page of audits is never longer than was asked for, and without a limit it is empty.\<close>

lemma audits_page:
  "AuditDao_Find e limit offset types db = Inr as \<Longrightarrow> 0 \<le> limit \<Longrightarrow> length as \<le> nat limit"
  by (auto simp: AuditDao_Find_def row_query_def limit_rows_def split: if_splits option.splits)

lemma audits_without_limit: "AuditDao_Find e 0 offset types db = Inr as \<Longrightarrow> as = []"
  by (auto simp: AuditDao_Find_def row_query_def limit_rows_def split: if_splits option.splits)

end
