(* ===== verification/Self_Stream.thy ===== *)
theory Self_Stream
  imports Dao_Api Runner_Manager Edge
begin

text \<open>
  \<^verbatim>\<open>src/api/selfstream.go\<close>: the request of the ingest server when somebody starts to publish a stream. The
  stream is looked up by its key, then a runner is asked to take it; the state is that of the runner manager. The theorem
  says what has to be known before a runner is asked.
\<close>

record OnStartReq =
  os_Ip :: string
  os_User :: string
  os_Password :: string
  os_Path :: string
  os_Protocol :: string
  os_Id :: string
  os_Action :: string
  os_Query :: string

definition mustGetStreamInfo :: "OnStartReq \<Rightarrow> string + string \<times> string" where
  "mustGetStreamInfo req =
     (let pts = go_split (os_Query req) ''/'' in
      if length pts \<noteq> 2 then Inl ''stream key in wrong format''
      else (let key = trim_prefix (pts ! 0) ''secret=''; slug = pts ! 1 in
            if key = [] then Inl ''no stream key provided''
            else if slug = [] then Inl ''no slug provided'' else Inr (key, slug)))"

definition publish_name :: "Course \<Rightarrow> Stream \<Rightarrow> string" where
  "publish_name course stream = Slug course @ ''-'' @ uint_str (ID stream)"

text \<open>\<open>e\<close> and \<open>t\<close>: the database that the handler asks itself.\<close>

definition onPublish ::
    "db_env \<Rightarrow> tables \<Rightarrow> 'db ManagerDao \<Rightarrow> outside \<Rightarrow> OnStartReq option \<Rightarrow> ('db manager, unit) serves" where
  "onPublish e t dao out body =
     demand body (sends [AbortStatus StatusBadRequest]) (\<lambda>req.
       if os_Action req \<noteq> ''publish'' then sends []
       else (case mustGetStreamInfo req of
           Inl err \<Rightarrow> sends [AbortStatus StatusBadRequest]
         | Inr (streamKey, slug) \<Rightarrow>
             with_row (\<lambda>_. GetStreamByKey e streamKey t)
               (\<lambda>err. sends [AbortStatus StatusInternalServerError])
               (\<lambda>stream. with_row (\<lambda>_. GetCourseById e (CourseID stream) t)
                 (\<lambda>err. sends [AbortStatus StatusInternalServerError])
                 (\<lambda>course.
                   if slug \<noteq> publish_name course stream then sends [AbortStatus StatusForbidden]
                   else with_done (RequestSelfStream dao out (clock e) stream)
                     (\<lambda>err. sends [AbortStatus StatusInternalServerError])
                     (sends [Reply StatusOK ()])))))"

lemma mustGetStreamInfo_query:
  assumes "mustGetStreamInfo req = Inr (key, slug)"
  shows "key \<noteq> [] \<and> slug \<noteq> [] \<and> os_Query req \<in> {key @ ''/'' @ slug, ''secret='' @ key @ ''/'' @ slug}"
proof -
  let ?pts = "go_split (os_Query req) ''/''"
  have two: "length ?pts = 2" and key: "key = trim_prefix (?pts ! 0) ''secret=''" "key \<noteq> []" and slug: "slug = ?pts ! 1" "slug \<noteq> []"
    using assms by (auto simp: mustGetStreamInfo_def Let_def split: if_splits)
  then obtain p q where pts: "?pts = [p, q]" by (auto simp: length_Suc_conv numeral_2_eq_2)
  then have "os_Query req = p @ ''/'' @ q" using join_go_split [of "os_Query req" "''/''"] by simp
  moreover have "p = key \<or> p = ''secret='' @ key"
  proof (cases "has_prefix p ''secret=''")
    case True
    then have "take (length ''secret='') p = ''secret=''" "key = drop (length ''secret='') p"
      using key(1) pts by (simp_all add: trim_prefix_def has_prefix_def)
    then show ?thesis using append_take_drop_id [of "length ''secret=''" p] by metis
  qed (use key(1) pts in \<open>simp add: trim_prefix_def\<close>)
  ultimately show ?thesis using key slug pts by auto
qed

text \<open>C40: No runner is asked, nothing of the manager changes and nobody who publishes gets a 200, unless the request carries
  the key of a stream that is not deleted together with the slug of its course and its number, within half an hour of
  the time of the stream.\<close>

theorem publishing_needs_the_key:
  assumes "onPublish e t dao out (Some req) m = (as, m')" and "os_Action req = ''publish''"
    and "m' \<noteq> m \<or> Reply StatusOK () \<in> set as"
  shows "\<exists>stream course. stream \<in> set (t_streams t) \<and> live_row stream \<and> StreamKey stream \<noteq> [] \<and>
      course = found_course t (CourseID stream) \<and>
      os_Query req \<in> {StreamKey stream @ ''/'' @ publish_name course stream,
                       ''secret='' @ StreamKey stream @ ''/'' @ publish_name course stream} \<and>
      Start stream - 30 * Minute < clock e \<and> clock e < End stream + 30 * Minute"
proof -
  obtain key slug where info: "mustGetStreamInfo req = Inr (key, slug)"
    using assms by (cases "mustGetStreamInfo req") (auto simp: onPublish_def handler_defs)
  obtain stream where stream: "GetStreamByKey e key t = Inr stream"
    using assms info by (cases "GetStreamByKey e key t") (auto simp: onPublish_def handler_defs)
  obtain course where course: "GetCourseById e (CourseID stream) t = Inr course"
    using assms info stream by (cases "GetCourseById e (CourseID stream) t") (auto simp: onPublish_def handler_defs)
  have slug: "slug = publish_name course stream"
    using assms info stream course by (auto simp: onPublish_def handler_defs split: if_splits)
  have asked: "onPublish e t dao out (Some req) m = with_done (RequestSelfStream dao out (clock e) stream)
      (\<lambda>err. sends [AbortStatus StatusInternalServerError]) (sends [Reply StatusOK ()]) m"
    using assms(2) info stream course slug by (simp add: onPublish_def handler_defs)
  have window: "Start stream - 30 * Minute < clock e \<and> clock e < End stream + 30 * Minute"
  proof (rule ccontr)
    assume "\<not> (Start stream - 30 * Minute < clock e \<and> clock e < End stream + 30 * Minute)"
    then have "RequestSelfStream dao out (clock e) stream m = (Some ''stream rejected'', m)"
      by (simp add: RequestSelfStream_def mult.commute [of Minute])
    with asked assms(1,3) show False by (auto simp: handler_defs)
  qed
  have "stream \<in> set (t_streams t)" "live_row stream" "StreamKey stream = key"
    using stream by (auto simp: GetStreamByKey_def row_query_def split: option.splits dest!: find_SomeD)
  moreover have "course = found_course t (CourseID stream)"
    using course by (simp add: Dao_Streams.GetCourseById_def row_query_def split: option.splits)
  ultimately show ?thesis
    using mustGetStreamInfo_query [OF info] slug window by (intro exI [of _ stream] exI [of _ course]) auto
qed

definition demo_runner :: Runner where
  "demo_runner = \<lparr>Hostname = ''r'', Port = 1, runner_LastSeen = 0, TimeOfRegister = 0, Draining = False, JobCount = 0, runner_Version = []\<rparr>"

definition willing_dao :: "Stream list ManagerDao" where
  "willing_dao = demo_manager_dao\<lparr>ReserveRunner := \<lambda>d. (Inr demo_runner, d)\<rparr>"

definition at_noon :: db_env where
  "at_noon = \<lparr>clock = 1000 * Second, fault = (\<lambda>_. None), admits = False, best_server = (\<lambda>_. None)\<rparr>"

definition announced :: tables where
  "announced =
     \<lparr>t_streams = [zero_Stream\<lparr>ID := 7, CourseID := 3, Start := 1000 * Second, End := 2000 * Second, StreamKey := ''k''\<rparr>],
      t_files = [], t_silences = [], t_workers = [], t_stream_workers = [], t_transcoding = [], t_failures = [],
      t_courses = [zero_Course\<lparr>ID := 3, Slug := ''gbs''\<rparr>], t_halls = [], t_slots = [], t_upload_keys = [], next_file = 1,
      next_silence = 1, next_failure = 1, stream_cache = Map.empty, live_cache = None\<rparr>"

definition publish :: "string \<Rightarrow> OnStartReq" where
  "publish q = \<lparr>os_Ip = [], os_User = [], os_Password = [], os_Path = [], os_Protocol = [], os_Id = [], os_Action = ''publish'', os_Query = q\<rparr>"

lemma announced_is_published: "fst (onPublish at_noon announced willing_dao demo_outside (Some (publish ''secret=k/gbs-7'')) demo_manager) = [Reply StatusOK ()]"
  by code_simp

theorem publishing_needs_the_key_witness:
  "\<exists>stream. stream \<in> set (t_streams announced) \<and> StreamKey stream \<noteq> [] \<and> Start stream - 30 * Minute < clock at_noon"
proof -
  obtain m' where "onPublish at_noon announced willing_dao demo_outside (Some (publish ''secret=k/gbs-7'')) demo_manager = ([Reply StatusOK ()], m')"
    using announced_is_published by (metis prod.collapse)
  from publishing_needs_the_key [OF this] show ?thesis by (auto simp: publish_def)
qed

end
