(* ===== verification/Spec2Isabelle.thy ===== *)
theory Spec2Isabelle
  imports Chat_Props Progress Runner_Jobs Worker_Silence Worker_Steps Edge_Props Search_Props Search_Filter Course_Store
    Login_Props Stream_Props Mailer_Props Side_Props Notice_Props Self_Stream
begin

text \<open>
  A verification library of gocast, the lecture streaming and video-on-demand service under
  \<^verbatim>\<open>src/\<close>. The program has three processes that this development models together: the
  server (\<^verbatim>\<open>src/api\<close>, \<^verbatim>\<open>src/tools\<close>, \<^verbatim>\<open>src/model\<close>, \<^verbatim>\<open>src/dao\<close>,
  \<^verbatim>\<open>src/pkg/runner_manager\<close>), which owns the database and answers the browsers; the workers
  and runners (\<^verbatim>\<open>src/worker\<close>, \<^verbatim>\<open>src/runner\<close>), which record, transcode and report back
  to the server; and the edge server (\<^verbatim>\<open>src/worker/edge\<close>), which delivers the files.

  \<^bold>\<open>Conventions.\<close> Go structs are records with the fields' names (prefixed where two structs share
  one), enumerations are datatypes, \<^verbatim>\<open>uint\<close> is a 64-bit word, times and durations are counts
  of nanoseconds. A handler is a function of its request, its environment (the answers of services,
  the clock, the faults of the database) and the state, and returns the status and the new state;
  an error is an \<open>Inl\<close> or a status, a panic a value \<open>Panics p\<close>. What is not under \<^verbatim>\<open>src/\<close>
  (gin, gorm, JWT, ffmpeg, the cameras) is an argument; gorm's documented semantics (soft deletion,
  \<^verbatim>\<open>Find\<close> without an error, \<^verbatim>\<open>Updates\<close> of a struct without its zero values) is written
  out where explicit tables are used.

  \<^bold>\<open>Foundations.\<close>
  \<^item> \<open>Prelude\<close>: widths, time, the embedded gorm model, panics as values, searching lists, maps.
  \<^item> \<open>Go_Strings\<close>, \<open>Go_Path\<close>, \<open>Go_Url\<close>: what the code uses of \<^verbatim>\<open>strings\<close>,
    \<^verbatim>\<open>strconv\<close>, \<^verbatim>\<open>path\<close> and \<^verbatim>\<open>net/url\<close>, with splitting and joining, printing and
    parsing of numbers and cleaning of paths as round trips.
  \<^item> \<open>Json\<close>: values and the decoding rules of \<^verbatim>\<open>encoding/json\<close>.

  \<^bold>\<open>Domain model\<close> (\<^verbatim>\<open>src/model\<close>).
  \<^item> \<open>Model_Types\<close> (small structs, semesters), \<open>Model_Stream\<close>, \<open>Model_Course\<close>,
    \<open>Model_User\<close> (access rules, course selections), \<open>Model_Chat\<close> (messages, hooks, polls);
    \<open>Model_Props\<close> holds their properties: access decisions, private streams, semesters as intervals.

  \<^bold>\<open>Realtime\<close> (\<^verbatim>\<open>src/tools/realtime\<close>).
  \<^item> \<open>RT_Subscribers\<close>, \<open>RT_Channel\<close>, \<open>RT_Hub\<close>: subscriptions, channel patterns and the
    hub as a step relation; \<open>RT_Props\<close>: the hub's invariant over all reachable states for every set
    of handlers that keeps its contract, and path matching.

  \<^bold>\<open>Web, chat, live updates, watch progress.\<close>
  \<^item> \<open>Middlewares\<close> (\<^verbatim>\<open>src/tools/middlewares.go\<close>), \<open>Chat_Hub\<close> (\<^verbatim>\<open>wsHub.go\<close>,
    \<^verbatim>\<open>live_update.go\<close>), \<open>Chat_Routes\<close> (\<^verbatim>\<open>chat.go\<close>), with \<open>Chat_Props\<close>: who is
    let through, moderation, what a broadcast reveals, and that the chat's handlers obey the contract
    of the realtime hub.
  \<^item> \<open>Progress\<close> (\<^verbatim>\<open>src/api/progress.go\<close>, \<^verbatim>\<open>src/dao/progress.go\<close>).

  \<^bold>\<open>Courses, search, users.\<close> The handlers of these interfaces are functions from the database
  (\<open>api_db\<close>: tables and caches) to the list of their answers and the new database.
  \<^item> \<open>Dao_Api\<close> (\<^verbatim>\<open>dao/courses.go\<close>, \<^verbatim>\<open>users.go\<close> and smaller files, gorm's rules for
    creating, updating and deleting, and how handlers are put together), \<open>Dao_Cache\<close> (caches that agree with the rows),
    \<open>Dao_Users\<close> (the rest of \<^verbatim>\<open>users.go\<close>).
  \<^item> \<open>Search\<close> (\<^verbatim>\<open>api/search.go\<close>, \<^verbatim>\<open>tools/meiliSearch.go\<close>), \<open>Search_Props\<close>: what a search
    can show; \<open>Search_Filter\<close>: the filter text as an expression with a meaning, which is the right to search.
  \<^item> \<open>Course_Api\<close>, \<open>Course_Edit\<close> (\<^verbatim>\<open>api/courses.go\<close>), with \<open>Course_Props\<close>: the live list, the
    last administrator, deleting lectures; and \<open>Course_Store\<close>: what is stored by creating courses and
    lectures, and what copying and moving do.
  \<^item> \<open>Password\<close> (hashes of \<^verbatim>\<open>model/user.go\<close>, with base64 and \<^verbatim>\<open>Sscanf\<close> written out),
    \<open>User_Api\<close> (\<^verbatim>\<open>api/users.go\<close>), \<open>Login\<close> (\<^verbatim>\<open>web/user.go\<close>, \<^verbatim>\<open>web/saml.go\<close>); \<open>User_Props\<close>:
    settings as an invariant and a round trip, the lock of the preferred name over runs of requests, who can be deleted and
    what a search of users shows; \<open>Login_Props\<close>: a password that was set opens a session, and what a first
    login through the university does.
  \<^item> \<open>Stream_Api\<close> (\<^verbatim>\<open>api/stream.go\<close>, \<^verbatim>\<open>api/download.go\<close>), with \<open>Stream_Props\<close>: who gets a file, which
    thumbnail is shown after an upload and which is lost when an upload fails half way, and what a change of the
    visibility reaches.
  \<^item> \<open>Mailer\<close> (\<^verbatim>\<open>tools/email.go\<close>, \<^verbatim>\<open>dao/email.go\<close>): the loop that sends the queued mails, as an endless
    sequence of rounds with their times and faults; \<open>Mailer_Props\<close>: every mail is settled after boundedly many rounds.

  \<^item> \<open>Side_Api\<close> (\<^verbatim>\<open>api/bookmarks.go\<close>, \<^verbatim>\<open>api/token.go\<close>) with \<open>Side_Props\<close>: bookmarks and tokens over runs of
    requests of many sessions, and what a token opens; \<open>Notice_Api\<close> (notifications, alerts, pages, audits, maintenance)
    with \<open>Notice_Props\<close>: who sees a notification; \<open>Self_Stream\<close> (\<^verbatim>\<open>api/selfstream.go\<close>): what has to be known to
    publish a stream.

  \<^bold>\<open>Runners and workers.\<close>
  \<^item> \<open>Runner_Manager\<close> (\<^verbatim>\<open>src/pkg/runner_manager/manager.go\<close>): the server's side of the runners.
  \<^item> \<open>Runner_Jobs\<close> (\<^verbatim>\<open>src/runner\<close>): a job as a list of actions with retries; the messages a
    job sends, and when a job ends (the list of attempts is the fuel; the theorem names how many
    attempts are enough, and the one error that keeps a job from ending).
  \<^item> \<open>Worker_Silence\<close> (\<^verbatim>\<open>src/worker/worker/silence.go\<close>): what the merged silences cover.
  \<^item> \<open>Dao_Streams\<close> (the tables and the cache of \<^verbatim>\<open>src/dao\<close>), \<open>Worker_Grpc\<close>
    (\<^verbatim>\<open>src/api/worker_grpc.go\<close>), \<open>Worker_Props\<close> (single handlers, and goroutines under every
    interleaving), \<open>Worker_Steps\<close> (all handlers and goroutine steps as one step relation).

  \<^bold>\<open>Delivery.\<close>
  \<^item> \<open>Stream_Signing\<close> (\<^verbatim>\<open>src/tools/stream-signing.go\<close>), \<open>Edge\<close> (\<^verbatim>\<open>src/worker/edge\<close>) and
    \<open>Edge_Props\<close>: tokens open one directory, signed addresses are accepted, and the cache of live
    segments as a step relation.

  \<^bold>\<open>Not modelled.\<close> Generated code and mocks, drivers of cameras, set-up of servers, page templates,
  cryptography, metrics and the processes around ffmpeg: they are input and output without
  decisions of their own, or code that is not under \<^verbatim>\<open>src/\<close>.
\<close>

end
